(* ===== verification/Prelude.thy ===== *)
theory Prelude
  imports Main "HOL-Library.Word" "HOL-Library.Sublist"
begin

text \<open>
  What every part of the Cardano app relies on: the error codes of \<open>src/common.h\<close>, the
  value \<open>THROW\<close> leaves behind (\<open>err + 'a\<close>), the sequencing of C statements over a mutable
  context (\<open>seq\<close>), the \<open>CHECK\<close> chains of the predicates (\<open>checks\<close>), the size constants of
  \<open>src/cardano.h\<close> and \<open>src/utils/utils.h\<close>, and the streaming hash contexts of
  \<open>src/crypto/hash.h\<close>.

  \<open>ASSERT\<close> resets the device in a release build and throws \<open>ERR_ASSERT\<close> in a development
  one; in both no further statement of the caller runs, so a failed assertion is the error
  value \<open>ERR_ASSERT\<close>. Two error values are the model's own: \<open>UNION_MISREAD\<close> is the read of
  a union member other than the one last written, and \<open>OUT_OF_BOUNDS\<close> is an array access
  past its end; the C code has no check there and its behaviour depends on the memory
  layout, so a theorem that an operation succeeds also states that neither happens.
\<close>

unbundle bit_operations_syntax

subsection \<open>Machine types\<close>

type_synonym u8 = "8 word"
type_synonym u16 = "16 word"
type_synonym u32 = "32 word"
type_synonym u64 = "64 word"
type_synonym bytes = "8 word list"

subsection \<open>Errors\<close>

datatype err =
    ERR_ASSERT
  | ERR_MALFORMED_REQUEST_HEADER
  | ERR_BAD_CLA
  | ERR_UNKNOWN_INS
  | ERR_STILL_IN_CALL
  | ERR_DEVICE_LOCKED
  | ERR_NOT_IMPLEMENTED
  | ERR_INVALID_DATA
  | ERR_INVALID_STATE
  | ERR_INVALID_REQUEST_PARAMETERS
  | ERR_REJECTED_BY_USER
  | ERR_REJECTED_BY_POLICY
  | ERR_NOT_ENOUGH_INPUT
  | ERR_DATA_TOO_LARGE
  | ERR_UNEXPECTED_TOKEN
  | UNION_MISREAD
  | OUT_OF_BOUNDS

type_synonym 'a res = "err + 'a"

definition res_bind :: "'a res \<Rightarrow> ('a \<Rightarrow> 'b res) \<Rightarrow> 'b res" where
  "res_bind m f = (case m of Inl e \<Rightarrow> Inl e | Inr x \<Rightarrow> f x)"

definition ASSERT :: "bool \<Rightarrow> unit res" where
  "ASSERT c = (if c then Inr () else Inl ERR_ASSERT)"

definition VALIDATE :: "bool \<Rightarrow> err \<Rightarrow> unit res" where
  "VALIDATE c e = (if c then Inr () else Inl e)"

lemma res_bind_simps [simp]:
  "res_bind (Inl e) f = Inl e"
  "res_bind (Inr x) f = f x"
  by (simp_all add: res_bind_def)

lemma res_bind_Inr_iff: "res_bind m f = Inr y \<longleftrightarrow> (\<exists>x. m = Inr x \<and> f x = Inr y)"
  by (cases m) auto

lemma res_bind_cong [fundef_cong]:
  "m = m' \<Longrightarrow> (\<And>x. m' = Inr x \<Longrightarrow> f x = g x) \<Longrightarrow> res_bind m f = res_bind m' g"
  by (cases m') auto

lemma res_bind_assoc: "res_bind (res_bind m f) g = res_bind m (\<lambda>x. res_bind (f x) g)"
  by (cases m) auto

lemma ASSERT_simps [simp]:
  "ASSERT True = Inr ()"
  "ASSERT False = Inl ERR_ASSERT"
  "ASSERT c = Inr u \<longleftrightarrow> c"
  by (auto simp: ASSERT_def)

lemma VALIDATE_simps [simp]:
  "VALIDATE True e = Inr ()"
  "VALIDATE False e = Inl e"
  "VALIDATE c e = Inr u \<longleftrightarrow> c"
  by (auto simp: VALIDATE_def)

subsection \<open>Statement sequences over a context\<close>

text \<open>
  A C function that takes a pointer to its context is a list of statements, each of which
  takes the context and returns it updated or throws. \<open>seq\<close> runs them in order; the first
  error ends the run, as \<open>THROW\<close> does.
\<close>

type_synonym 's stmt = "'s \<Rightarrow> 's res"

fun seq :: "'s stmt list \<Rightarrow> 's stmt" where
  "seq [] s = Inr s"
| "seq (f # fs) s = res_bind (f s) (seq fs)"

definition assert_that :: "('s \<Rightarrow> bool) \<Rightarrow> 's stmt" where
  "assert_that p s = (if p s then Inr s else Inl ERR_ASSERT)"

definition modify :: "('s \<Rightarrow> 's) \<Rightarrow> 's stmt" where
  "modify f s = Inr (f s)"

definition do_if :: "bool \<Rightarrow> 's stmt \<Rightarrow> 's stmt" where
  "do_if c f s = (if c then f s else Inr s)"

lemma assert_that_Inr [simp]: "assert_that p s = Inr t \<longleftrightarrow> p s \<and> t = s"
  by (auto simp: assert_that_def)

lemma modify_Inr [simp]: "modify f s = Inr t \<longleftrightarrow> t = f s"
  by (auto simp: modify_def)

lemma seq_append: "seq (fs @ gs) s = res_bind (seq fs s) (seq gs)"
  by (induction fs arbitrary: s) (auto simp: res_bind_def split: sum.splits)

lemma seq_invariant:
  assumes "\<And>f s t. f \<in> set fs \<Longrightarrow> I s \<Longrightarrow> f s = Inr t \<Longrightarrow> I t"
    and "seq fs s = Inr t" and "I s"
  shows "I t"
  using assms
proof (induction fs arbitrary: s)
  case (Cons f fs)
  then obtain u where "f s = Inr u" "seq fs u = Inr t"
    by (auto simp: res_bind_Inr_iff)
  with Cons show ?case by (metis list.set_intros(1,2))
qed auto

text \<open>Total correctness: from a state with \<open>P\<close> the statement succeeds, in a state with \<open>Q\<close>.\<close>

definition leads :: "('s \<Rightarrow> bool) \<Rightarrow> 's stmt \<Rightarrow> ('s \<Rightarrow> bool) \<Rightarrow> bool" where
  "leads P f Q \<longleftrightarrow> (\<forall>s. P s \<longrightarrow> (\<exists>t. f s = Inr t \<and> Q t))"

lemma leadsI: "(\<And>s. P s \<Longrightarrow> \<exists>t. f s = Inr t \<and> Q t) \<Longrightarrow> leads P f Q"
  by (simp add: leads_def)

lemma leadsD: "leads P f Q \<Longrightarrow> P s \<Longrightarrow> \<exists>t. f s = Inr t \<and> Q t"
  by (simp add: leads_def)

lemma leads_Nil: "(\<And>s. P s \<Longrightarrow> Q s) \<Longrightarrow> leads P (seq []) Q"
  by (simp add: leads_def)

lemma leads_Cons: "leads P f Q \<Longrightarrow> leads Q (seq fs) R \<Longrightarrow> leads P (seq (f # fs)) R"
  unfolding leads_def by (metis res_bind_simps(2) seq.simps(2))

lemma leads_append: "leads P (seq fs) Q \<Longrightarrow> leads Q (seq gs) R \<Longrightarrow> leads P (seq (fs @ gs)) R"
  unfolding leads_def seq_append by (metis res_bind_simps(2))

lemma leads_single: "leads P f Q \<Longrightarrow> leads P (seq [f]) Q"
  by (rule leads_Cons [OF _ leads_Nil])

lemma leads_assert: "(\<And>s. P s \<Longrightarrow> p s) \<Longrightarrow> leads P (assert_that p) P"
  by (simp add: leads_def assert_that_def)

subsection \<open>\<open>CHECK\<close> chains\<close>

text \<open>
  The predicates of the app are chains of \<open>if (!(cond)) return false\<close>, ended by
  \<open>return true\<close>. A condition may itself fail an assertion, so it is a \<open>bool res\<close>; later
  conditions are not evaluated once one is false.
\<close>

fun checks :: "bool res list \<Rightarrow> bool res" where
  "checks [] = Inr True"
| "checks (c # cs) = res_bind c (\<lambda>b. if b then checks cs else Inr False)"

lemma checks_Inr: "checks (map Inr bs) = Inr (list_all (\<lambda>b. b) bs)"
  by (induction bs) auto

text \<open>\<open>a || b\<close> and \<open>a && b\<close> evaluate their right side only when the left does not decide.\<close>

definition or_else :: "bool res \<Rightarrow> bool res \<Rightarrow> bool res" where
  "or_else a b = res_bind a (\<lambda>x. if x then Inr True else b)"

definition and_then :: "bool res \<Rightarrow> bool res \<Rightarrow> bool res" where
  "and_then a b = res_bind a (\<lambda>x. if x then b else Inr False)"

lemma or_else_simps [simp]: "or_else (Inr x) (Inr y) = Inr (x \<or> y)"
  by (simp add: or_else_def)

lemma and_then_simps [simp]: "and_then (Inr x) (Inr y) = Inr (x \<and> y)"
  by (simp add: and_then_def)

subsection \<open>Sizes\<close>

abbreviation (input) BUFFER_SIZE_PARANOIA :: nat where "BUFFER_SIZE_PARANOIA \<equiv> 1024"
abbreviation (input) ADDRESS_KEY_HASH_LENGTH :: nat where "ADDRESS_KEY_HASH_LENGTH \<equiv> 28"
abbreviation (input) POOL_KEY_HASH_LENGTH :: nat where "POOL_KEY_HASH_LENGTH \<equiv> 28"
abbreviation (input) VRF_KEY_HASH_LENGTH :: nat where "VRF_KEY_HASH_LENGTH \<equiv> 32"
abbreviation (input) TX_HASH_LENGTH :: nat where "TX_HASH_LENGTH \<equiv> 32"
abbreviation (input) AUX_DATA_HASH_LENGTH :: nat where "AUX_DATA_HASH_LENGTH \<equiv> 32"
abbreviation (input) POOL_METADATA_HASH_LENGTH :: nat where "POOL_METADATA_HASH_LENGTH \<equiv> 32"
abbreviation (input) CVOTE_REGISTRATION_PAYLOAD_HASH_LENGTH :: nat where
  "CVOTE_REGISTRATION_PAYLOAD_HASH_LENGTH \<equiv> 32"
abbreviation (input) ED25519_SIGNATURE_LENGTH :: nat where "ED25519_SIGNATURE_LENGTH \<equiv> 64"
abbreviation (input) PUBLIC_KEY_SIZE :: nat where "PUBLIC_KEY_SIZE \<equiv> 32"
abbreviation (input) SCRIPT_HASH_LENGTH :: nat where "SCRIPT_HASH_LENGTH \<equiv> 28"
abbreviation (input) SCRIPT_DATA_HASH_LENGTH :: nat where "SCRIPT_DATA_HASH_LENGTH \<equiv> 32"
abbreviation (input) OUTPUT_DATUM_HASH_LENGTH :: nat where "OUTPUT_DATUM_HASH_LENGTH \<equiv> 32"
abbreviation (input) ANCHOR_HASH_LENGTH :: nat where "ANCHOR_HASH_LENGTH \<equiv> 32"
abbreviation (input) MINTING_POLICY_ID_SIZE :: nat where "MINTING_POLICY_ID_SIZE \<equiv> 28"
abbreviation (input) ASSET_NAME_SIZE_MAX :: nat where "ASSET_NAME_SIZE_MAX \<equiv> 32"
abbreviation (input) REWARD_ACCOUNT_SIZE :: nat where "REWARD_ACCOUNT_SIZE \<equiv> 29"
abbreviation (input) DNS_NAME_SIZE_MAX :: nat where "DNS_NAME_SIZE_MAX \<equiv> 128"
abbreviation (input) IPV4_SIZE :: nat where "IPV4_SIZE \<equiv> 4"
abbreviation (input) IPV6_SIZE :: nat where "IPV6_SIZE \<equiv> 16"
abbreviation (input) MAX_SCRIPT_DEPTH :: nat where "MAX_SCRIPT_DEPTH \<equiv> 11"

subsection \<open>Words\<close>

text \<open>
  A length is a \<open>size_t\<close>. Sixty-four bits, more than the target's thirty-two; the bound is
  computed on binary integers.
\<close>

definition is_size_t :: "nat \<Rightarrow> bool" where
  "is_size_t n \<longleftrightarrow> n < 2 ^ 64"

lemma is_size_t_code [code]: "is_size_t n \<longleftrightarrow> int n < 2 ^ 64"
  unfolding is_size_t_def by (metis of_nat_less_iff of_nat_numeral of_nat_power)

lemma unat_pred: "0 < x \<Longrightarrow> unat (x - 1) = unat x - 1" for x :: "'a::len word"
  by (simp add: unat_minus_one word_gt_0)

lemma unat_pos: "0 < unat x \<longleftrightarrow> 0 < x" for x :: "'a::len word"
  by (simp add: unat_gt_0 word_gt_0)

end
