(* ===== verification/Cbor.thy ===== *)
theory Cbor
  imports Prelude
begin

text \<open>
  \<open>src/endian.h\<close>, \<open>src/utils/cbor.h\<close> and \<open>src/utils/cbor.c\<close>: big-endian integers, the
  CBOR token reader and writer, and the canonical order of map keys. A buffer with its size
  is the list of its bytes; a writer returns the bytes it puts into its output buffer, whose
  number is the C function's return value.
\<close>

subsection \<open>Big-endian integers\<close>

fun be_write :: "nat \<Rightarrow> nat \<Rightarrow> bytes" where
  "be_write 0 v = []"
| "be_write (Suc n) v = be_write n (v div 256) @ [word_of_nat (v mod 256)]"

definition be_read :: "bytes \<Rightarrow> nat" where
  "be_read bs = foldl (\<lambda>a b. a * 256 + unat b) 0 bs"

lemma length_be_write [simp]: "length (be_write n v) = n"
  by (induction n arbitrary: v) auto

lemma be_read_Nil [simp]: "be_read [] = 0"
  by (simp add: be_read_def)

lemma be_read_snoc [simp]: "be_read (bs @ [b]) = be_read bs * 256 + unat b"
  by (simp add: be_read_def)

lemma be_read_write: "be_read (be_write n v) = v mod 256 ^ n"
proof (induction n arbitrary: v)
  case (Suc n)
  have "unat (word_of_nat (v mod 256) :: u8) = v mod 256"
    by (simp add: unat_of_nat)
  moreover have "v mod (256 * 256 ^ n) = 256 * (v div 256 mod 256 ^ n) + v mod 256"
    by (rule mod_mult2_eq)
  ultimately show ?case
    using Suc by simp
qed simp

lemma be_write_read: "be_write (length bs) (be_read bs) = bs"
proof (induction bs rule: rev_induct)
  case (snoc b bs)
  have "unat b < 256"
    using unsigned_less [of b] by simp
  then show ?case
    using snoc by simp
qed simp

lemma be_read_bound: "be_read bs < 256 ^ length bs"
proof (induction bs rule: rev_induct)
  case (snoc b bs)
  have "unat b < 256"
    using unsigned_less [of b] by simp
  with snoc show ?case
    by simp
qed simp

subsection \<open>Token types\<close>

abbreviation (input) CBOR_TYPE_UNSIGNED :: u8 where "CBOR_TYPE_UNSIGNED \<equiv> 0x00"
abbreviation (input) CBOR_TYPE_NEGATIVE :: u8 where "CBOR_TYPE_NEGATIVE \<equiv> 0x20"
abbreviation (input) CBOR_TYPE_BYTES :: u8 where "CBOR_TYPE_BYTES \<equiv> 0x40"
abbreviation (input) CBOR_TYPE_TEXT :: u8 where "CBOR_TYPE_TEXT \<equiv> 0x60"
abbreviation (input) CBOR_TYPE_ARRAY :: u8 where "CBOR_TYPE_ARRAY \<equiv> 0x80"
abbreviation (input) CBOR_TYPE_MAP :: u8 where "CBOR_TYPE_MAP \<equiv> 0xA0"
abbreviation (input) CBOR_TYPE_TAG :: u8 where "CBOR_TYPE_TAG \<equiv> 0xC0"
abbreviation (input) CBOR_TYPE_PRIMITIVES :: u8 where "CBOR_TYPE_PRIMITIVES \<equiv> 0xE0"
abbreviation (input) CBOR_TYPE_ARRAY_INDEF :: u8 where "CBOR_TYPE_ARRAY_INDEF \<equiv> 0x9F"
abbreviation (input) CBOR_TYPE_INDEF_END :: u8 where "CBOR_TYPE_INDEF_END \<equiv> 0xFF"
abbreviation (input) CBOR_TYPE_NULL :: u8 where "CBOR_TYPE_NULL \<equiv> 0xF6"
abbreviation (input) CBOR_VALUE_MASK :: u8 where "CBOR_VALUE_MASK \<equiv> 0x1F"
abbreviation (input) CBOR_TYPE_MASK :: u8 where "CBOR_TYPE_MASK \<equiv> 0xE0"

abbreviation (input) CBOR_TAG_EMBEDDED_CBOR_BYTE_STRING :: u64 where
  "CBOR_TAG_EMBEDDED_CBOR_BYTE_STRING \<equiv> 24"
abbreviation (input) CBOR_TAG_UNIT_INTERVAL :: u64 where "CBOR_TAG_UNIT_INTERVAL \<equiv> 30"
abbreviation (input) CBOR_TAG_SET :: u64 where "CBOR_TAG_SET \<equiv> 258"

abbreviation (input) VALUE_W1_UPPER_THRESHOLD :: u64 where "VALUE_W1_UPPER_THRESHOLD \<equiv> 24"
abbreviation (input) VALUE_W2_UPPER_THRESHOLD :: u64 where "VALUE_W2_UPPER_THRESHOLD \<equiv> 0x100"
abbreviation (input) VALUE_W4_UPPER_THRESHOLD :: u64 where "VALUE_W4_UPPER_THRESHOLD \<equiv> 0x10000"
abbreviation (input) VALUE_W8_UPPER_THRESHOLD :: u64 where "VALUE_W8_UPPER_THRESHOLD \<equiv> 0x100000000"

abbreviation (input) INT64_MAX :: u64 where "INT64_MAX \<equiv> 0x7FFFFFFFFFFFFFFF"
abbreviation (input) INT64_MIN :: u64 where "INT64_MIN \<equiv> 0x8000000000000000"

record cbor_token =
  tokType :: u8
  tokWidth :: u8
  tokValue :: u64

subsection \<open>Reading a token\<close>

text \<open>
  The argument after the tag byte: its width, the least value that may be written with that
  width, and its bytes. \<open>ENSURE_AVAILABLE_BYTES\<close> is checked before the bytes are read.
\<close>

definition read_arg :: "u8 \<Rightarrow> bytes \<Rightarrow> (u8 \<times> u64 \<times> u64) res" where
  "read_arg val buf =
     (let read = (\<lambda>n limit_min.
        if 1 + n > length buf then Inl ERR_NOT_ENOUGH_INPUT
        else Inr (word_of_nat n, word_of_nat (be_read (take n (drop 1 buf))), limit_min))
      in if val = 24 then read 1 VALUE_W1_UPPER_THRESHOLD
         else if val = 25 then read 2 VALUE_W2_UPPER_THRESHOLD
         else if val = 26 then read 4 VALUE_W4_UPPER_THRESHOLD
         else if val = 27 then read 8 VALUE_W8_UPPER_THRESHOLD
         else Inl ERR_UNEXPECTED_TOKEN)"

definition finish_token :: "u8 \<Rightarrow> u8 \<Rightarrow> u64 \<Rightarrow> cbor_token res" where
  "finish_token type width value =
     (if type = CBOR_TYPE_NEGATIVE
      then if value > INT64_MAX then Inl ERR_UNEXPECTED_TOKEN
           else Inr \<lparr>tokType = type, tokWidth = width,
             tokValue = (if value < INT64_MAX then - (value + 1) else INT64_MIN)\<rparr>
      else Inr \<lparr>tokType = type, tokWidth = width, tokValue = value\<rparr>)"

definition cbor_parseToken :: "bytes \<Rightarrow> cbor_token res" where
  "cbor_parseToken buf =
     (if 1 > length buf then Inl ERR_NOT_ENOUGH_INPUT
      else let tag = buf ! 0 in
      if tag = CBOR_TYPE_ARRAY_INDEF \<or> tag = CBOR_TYPE_INDEF_END
      then Inr \<lparr>tokType = tag, tokWidth = 0, tokValue = 0\<rparr>
      else let type = tag AND CBOR_TYPE_MASK; val = tag AND CBOR_VALUE_MASK in
      if type \<notin> {CBOR_TYPE_UNSIGNED, CBOR_TYPE_NEGATIVE, CBOR_TYPE_BYTES, CBOR_TYPE_ARRAY,
                  CBOR_TYPE_MAP, CBOR_TYPE_TAG}
      then Inl ERR_UNEXPECTED_TOKEN
      else if val < 24 then finish_token type 0 (ucast val)
      else res_bind (read_arg val buf) (\<lambda>(width, value, limit_min).
        if value < limit_min then Inl ERR_UNEXPECTED_TOKEN
        else finish_token type width value))"

subsection \<open>Writing a token\<close>

text \<open>
  The negation of the most negative \<open>int64_t\<close> overflows in C; on the app's targets it
  wraps, which is what the word negation below does.
\<close>

definition write_head :: "u8 \<Rightarrow> u64 \<Rightarrow> nat \<Rightarrow> bytes res" where
  "write_head type value bufferSize =
     (let emit = (\<lambda>n head.
        if 1 + n > bufferSize then Inl ERR_DATA_TOO_LARGE
        else Inr (head # be_write n (unat value)))
      in if value < VALUE_W1_UPPER_THRESHOLD then emit 0 (type OR ucast value)
         else if value < VALUE_W2_UPPER_THRESHOLD then emit 1 (type OR 24)
         else if value < VALUE_W4_UPPER_THRESHOLD then emit 2 (type OR 25)
         else if value < VALUE_W8_UPPER_THRESHOLD then emit 4 (type OR 26)
         else emit 8 (type OR 27))"

definition cbor_writeToken :: "u8 \<Rightarrow> u64 \<Rightarrow> nat \<Rightarrow> bytes res" where
  "cbor_writeToken type value bufferSize =
     (if \<not> bufferSize < BUFFER_SIZE_PARANOIA then Inl ERR_ASSERT
      else if type = CBOR_TYPE_ARRAY_INDEF \<or> type = CBOR_TYPE_INDEF_END \<or> type = CBOR_TYPE_NULL
      then if 1 > bufferSize then Inl ERR_DATA_TOO_LARGE else Inr [type]
      else if type AND CBOR_VALUE_MASK \<noteq> 0 then Inl ERR_UNEXPECTED_TOKEN
      else if type = CBOR_TYPE_NEGATIVE
      then if 0 \<le> sint value then Inl ERR_UNEXPECTED_TOKEN
           else write_head type (- value - 1) bufferSize
      else if type \<in> {CBOR_TYPE_UNSIGNED, CBOR_TYPE_BYTES, CBOR_TYPE_TEXT, CBOR_TYPE_ARRAY,
                      CBOR_TYPE_MAP, CBOR_TYPE_TAG}
      then write_head type value bufferSize
      else Inl ERR_UNEXPECTED_TOKEN)"

subsection \<open>Canonical order of map keys\<close>

fun bytes_less :: "bytes \<Rightarrow> bytes \<Rightarrow> bool" where
  "bytes_less (x # xs) (y # ys) = (if x \<noteq> y then x < y else bytes_less xs ys)"
| "bytes_less _ _ = False"

definition cbor_mapKeyFulfillsCanonicalOrdering :: "bytes \<Rightarrow> bytes \<Rightarrow> bool res" where
  "cbor_mapKeyFulfillsCanonicalOrdering previous next =
     (if \<not> length previous < BUFFER_SIZE_PARANOIA then Inl ERR_ASSERT
      else if \<not> length next < BUFFER_SIZE_PARANOIA then Inl ERR_ASSERT
      else if length previous \<noteq> length next then Inr (length previous < length next)
      else Inr (bytes_less previous next))"

subsection \<open>Bits of a tag byte\<close>

lemma low_bits:
  assumes "v < 32" shows "v AND 0xE0 = 0" "v AND 0x1F = (v :: u8)"
proof -
  have "\<forall>n \<in> set [0..<32]. (word_of_nat n :: u8) AND 0xE0 = 0 \<and> (word_of_nat n :: u8) AND 0x1F = word_of_nat n"
    by code_simp
  moreover have "unat v \<in> set [0..<32]"
    using assms by (simp add: word_less_nat_alt)
  ultimately have "(word_of_nat (unat v) :: u8) AND 0xE0 = 0 \<and> (word_of_nat (unat v) :: u8) AND 0x1F = word_of_nat (unat v)"
    by blast
  then show "v AND 0xE0 = 0" "v AND 0x1F = v"
    by simp_all
qed

lemma head_bits:
  assumes "t \<in> {0, 0x20, 0x40, 0x80, 0xA0, 0xC0 :: u8}" "v < 32"
  shows "(t OR v) AND 0xE0 = t" "(t OR v) AND 0x1F = v"
  using assms by (auto simp: bit.conj_disj_distrib2 low_bits)

lemma head_unused:
  assumes "t \<in> {0, 0x20, 0x40, 0x80, 0xA0, 0xC0 :: u8}" "v < 28"
  shows "t OR v \<noteq> 0x9F" "t OR v \<noteq> 0xFF"
proof -
  have "v < 32" using assms(2) by (rule less_trans) simp
  then have "(t OR v) AND 0x1F = v" using head_bits [OF assms(1)] by blast
  then show "t OR v \<noteq> 0x9F" "t OR v \<noteq> 0xFF"
    using assms(2) by auto
qed

abbreviation (input) parsed_types :: "u8 set" where
  "parsed_types \<equiv> {CBOR_TYPE_UNSIGNED, CBOR_TYPE_NEGATIVE, CBOR_TYPE_BYTES, CBOR_TYPE_ARRAY,
     CBOR_TYPE_MAP, CBOR_TYPE_TAG}"

lemma take_be_write [simp]: "take n (be_write n v @ r) = be_write n v"
  by simp

lemma word_be_read_write:
  "unat v < 256 ^ n \<Longrightarrow> word_of_nat (be_read (be_write n (unat v))) = v"
  by (simp add: be_read_write)

lemma ucast_small:
  assumes "v < (24 :: u64)"
  shows "ucast (ucast v :: u8) = v" "(ucast v :: u8) < 24"
proof -
  note assms
  then have "unat v < 24" by (simp add: word_less_nat_alt)
  then have "take_bit 8 (unat v) = unat v"
    by (simp add: take_bit_nat_eq_self_iff)
  with \<open>unat v < 24\<close> show "ucast (ucast v :: u8) = v" "(ucast v :: u8) < 24"
    by (simp_all add: word_unat_eq_iff word_less_nat_alt unsigned_ucast_eq unsigned_take_bit_eq)
qed

lemma write_head_cases:
  assumes "write_head t v n = Inr bs"
  obtains "v < 24" "bs = [t OR ucast v]"
  | "24 \<le> v" "v < 0x100" "bs = (t OR 24) # be_write 1 (unat v)"
  | "0x100 \<le> v" "v < 0x10000" "bs = (t OR 25) # be_write 2 (unat v)"
  | "0x10000 \<le> v" "v < 0x100000000" "bs = (t OR 26) # be_write 4 (unat v)"
  | "0x100000000 \<le> v" "bs = (t OR 27) # be_write 8 (unat v)"
  using assms by (auto simp: write_head_def Let_def not_less split: if_splits)

lemma read_arg_written:
  assumes "unat v < 256 ^ k" "(c, k, l) \<in> {(24, 1, 24), (25, 2, 0x100), (26, 4, 0x10000), (27, 8, 0x100000000)}"
  shows "read_arg c (h # be_write k (unat v) @ r) = Inr (word_of_nat k, v, l)"
  using assms by (auto simp: read_arg_def Let_def word_be_read_write simp del: be_write.simps)

lemma parse_wide:
  assumes "t \<in> parsed_types" "unat v < 256 ^ k" "l \<le> v"
    and "(c, k, l) \<in> {(24, 1, 24), (25, 2, 0x100), (26, 4, 0x10000), (27, 8, 0x100000000)}"
  shows "cbor_parseToken ((t OR c) # be_write k (unat v) @ r) = finish_token t (word_of_nat k) v"
proof -
  have c: "c < 28" "c < 32" "\<not> c < 24" using assms(4) by auto
  note bits = head_bits [OF assms(1) c(2)] head_unused [OF assms(1) c(1)]
  have "\<not> v < l" using assms(3) by simp
  then show ?thesis
    using assms(1) c(3) bits read_arg_written [OF assms(2,4)]
    by (auto simp: cbor_parseToken_def Let_def)
qed

lemma parse_write_head:
  assumes "t \<in> parsed_types" "write_head t v n = Inr bs"
  shows "cbor_parseToken (bs @ r) = finish_token t (word_of_nat (length bs - 1)) v"
  using assms(2)
proof (cases rule: write_head_cases)
  case 1
  have "(ucast v :: u8) < 28" "(ucast v :: u8) < 32"
    using ucast_small(2) [OF 1(1)] by (auto intro: less_trans)
  note bits = head_bits [OF assms(1) this(2)] head_unused [OF assms(1) this(1)]
  then show ?thesis
    using 1 ucast_small [OF 1(1)] assms(1) by (auto simp: cbor_parseToken_def Let_def)
next
  case 2
  then show ?thesis
    using parse_wide [OF assms(1), of v 1 24 24 r] by (simp add: word_less_nat_alt)
next
  case 3
  then show ?thesis
    using parse_wide [OF assms(1), of v 2 "0x100" 25 r] by (simp add: word_less_nat_alt)
next
  case 4
  then show ?thesis
    using parse_wide [OF assms(1), of v 4 "0x10000" 26 r] by (simp add: word_less_nat_alt)
next
  case 5
  then show ?thesis
    using parse_wide [OF assms(1), of v 8 "0x100000000" 27 r] unsigned_less [of v] by simp
qed

subsection \<open>Reading what was written\<close>

lemma sint_neg_iff: "sint (v::u64) < 0 \<longleftrightarrow> 2 ^ 63 \<le> unat v"
proof -
  have "sint v < 0 \<longleftrightarrow> bit (unat v) 63"
    using bit_last_iff [of v] by (simp add: bit_unsigned_iff)
  also have "\<dots> \<longleftrightarrow> odd (unat v div 2 ^ 63)"
    by (simp add: bit_iff_odd)
  also have "\<dots> \<longleftrightarrow> 2 ^ 63 \<le> unat v"
  proof -
    have "unat v div 2 ^ 63 < 2" using unsigned_less [of v, where ?'a = nat] by (simp add: less_mult_imp_div_less)
    then have "unat v div 2 ^ 63 = 0 \<or> unat v div 2 ^ 63 = 1" by linarith
    then show ?thesis by (auto simp: div_eq_0_iff) 
  qed
  finally show ?thesis .
qed

lemma unat_complement: "unat (- v - 1 :: u64) = 2 ^ 64 - 1 - unat v"
proof -
  have v: "unat v < 2 ^ 64"
    using unsigned_less [of v, where ?'a = nat] by simp
  have "- v - 1 = word_of_nat (2 ^ 64 - 1 - unat v)"
    using v by (simp add: of_nat_diff)
  then show ?thesis
    by (simp add: unat_of_nat)
qed

lemma negative_argument:
  assumes "sint (v :: u64) < 0"
  shows "\<not> - v - 1 > INT64_MAX" "- v - 1 < INT64_MAX \<or> v = INT64_MIN"
proof -
  have v: "2 ^ 63 \<le> unat v" using assms by (simp add: sint_neg_iff)
  show "\<not> - v - 1 > INT64_MAX"
    using v by (simp add: word_less_nat_alt unat_complement)
  show "- v - 1 < INT64_MAX \<or> v = INT64_MIN"
    using v by (auto simp: word_less_nat_alt unat_complement word_unat_eq_iff)
qed

lemma negative_value:
  assumes "\<not> INT64_MAX < (u :: u64)"
  shows "sint (- (u + 1)) < 0" "\<not> u < INT64_MAX \<Longrightarrow> - (u + 1) = INT64_MIN"
proof -
  have "unat (- u - 1) = 2 ^ 64 - 1 - unat u" by (rule unat_complement)
  moreover have "- (u + 1) = - u - 1" by simp
  ultimately show "sint (- (u + 1)) < 0"
    using assms by (simp add: sint_neg_iff word_less_nat_alt)
  assume "\<not> u < INT64_MAX"
  then have "u = INT64_MAX" using assms by simp
  then show "- (u + 1) = INT64_MIN" by simp
qed

lemma parse_written_token:
  assumes "cbor_writeToken t v n = Inr bs" "t \<in> parsed_types"
  shows "cbor_parseToken (bs @ r) = Inr \<lparr>tokType = t, tokWidth = word_of_nat (length bs - 1), tokValue = v\<rparr>"
proof (cases "t = CBOR_TYPE_NEGATIVE")
  case True
  then have neg: "sint v < 0" and w: "write_head t (- v - 1) n = Inr bs"
    using assms(1) by (auto simp: cbor_writeToken_def split: if_splits)
  then show ?thesis
    using parse_write_head [OF assms(2) w] negative_argument [OF neg] True
    by (auto simp: finish_token_def)
next
  case False
  then have "write_head t v n = Inr bs"
    using assms by (auto simp: cbor_writeToken_def split: if_splits)
  from parse_write_head [OF assms(2) this] show ?thesis
    using False by (simp add: finish_token_def)
qed

lemma ucast_small_up:
  assumes "c < (24 :: u8)"
  shows "(ucast c :: u64) < 24" "ucast (ucast c :: u64) = c"
proof -
  have "take_bit 64 (unat c) = unat c"
    using unsigned_less [of c, where ?'a = nat] by (simp add: take_bit_nat_eq_self_iff)
  then show "(ucast c :: u64) < 24" "ucast (ucast c :: u64) = c"
    using assms by (simp_all add: word_less_nat_alt unsigned_ucast_eq word_unat_eq_iff unsigned_take_bit_eq)
qed

lemma head_split: "(h AND 0xE0) OR (h AND 0x1F) = (h :: u8)"
proof -
  have "(h AND 0xE0) OR (h AND 0x1F) = h AND (0xE0 OR 0x1F)"
    by (rule bit.conj_disj_distrib [symmetric])
  also have "0xE0 OR 0x1F = (- 1 :: u8)"
    by simp
  finally show ?thesis
    by simp
qed

lemma read_arg_Inr:
  assumes "read_arg c (h # bs) = Inr (w, v, l)" 
  obtains k where "(c, k, l) \<in> {(24, 1, 24), (25, 2, 0x100), (26, 4, 0x10000), (27, 8, 0x100000000)}"
    "w = word_of_nat k" "k \<le> length bs" "be_write k (unat v) = take k bs" "unat v < 256 ^ k"
proof -
  have "\<exists>k\<in>{1, 2, 4, 8}.
      (c, k, l) \<in> {(24, 1, 24), (25, 2, 0x100), (26, 4, 0x10000), (27, 8, 0x100000000)} \<and>
      w = word_of_nat k \<and> k \<le> length bs \<and> v = word_of_nat (be_read (take k bs))"
    using assms by (auto simp: read_arg_def Let_def Suc_le_eq split: if_splits)
  then obtain k where
    k: "(c, k, l) \<in> {(24, 1, 24), (25, 2, 0x100), (26, 4, 0x10000), (27, 8, 0x100000000)}"
      "w = word_of_nat k" "k \<le> length bs" "v = word_of_nat (be_read (take k bs))"
    by blast
  have b: "be_read (take k bs) < 256 ^ k"
    using be_read_bound [of "take k bs"] k(3) by (simp add: min_absorb2)
  moreover have "(256 :: nat) ^ k \<le> 2 ^ 64"
    using k(1) by auto
  ultimately have "unat v = be_read (take k bs)"
    using k(4) by (simp add: unat_of_nat)
  then show thesis
    using that [OF k(1-3)] b be_write_read [of "take k bs"] k(3) by (simp add: min_absorb2)
qed

lemma write_head_wide:
  assumes "(c, k, l) \<in> {(24, 1, 24), (25, 2, 0x100), (26, 4, 0x10000), (27, 8, 0x100000000)}"
    "l \<le> v" "unat v < 256 ^ k" "8 < n"
  shows "write_head t v n = Inr ((t OR c) # be_write k (unat v))"
  using assms
  by (auto simp: write_head_def Let_def not_less word_less_nat_alt word_le_nat_alt simp del: be_write.simps)

lemma finish_token_Inr:
  assumes "finish_token t w u = Inr tok" "write_head t u n = Inr bs" "t \<in> parsed_types" "n < 1024"
  shows "tokType tok = t" "tokWidth tok = w" "cbor_writeToken t (tokValue tok) n = Inr bs"
proof -
  have "tokType tok = t \<and> tokWidth tok = w \<and> cbor_writeToken t (tokValue tok) n = Inr bs"
  proof (cases "t = CBOR_TYPE_NEGATIVE")
    case True
    then have u: "\<not> INT64_MAX < u"
      and tok: "tok = \<lparr>tokType = t, tokWidth = w, tokValue = - (u + 1)\<rparr>"
      using assms(1) negative_value(2) [of u] by (auto simp: finish_token_def split: if_splits)
    have "sint (- (u + 1)) < 0" "- (- (u + 1)) - 1 = u"
      using negative_value(1) [OF u] by simp_all
    with True tok assms(2,4) show ?thesis
      by (simp add: cbor_writeToken_def del: minus_add_distrib)
  next
    case False
    with assms show ?thesis
      by (auto simp: finish_token_def cbor_writeToken_def)
  qed
  then show "tokType tok = t" "tokWidth tok = w" "cbor_writeToken t (tokValue tok) n = Inr bs"
    by simp_all
qed

lemma parse_canonical:
  assumes "cbor_parseToken buf = Inr tok" "tokType tok \<in> parsed_types"
  shows "unat (tokWidth tok) < length buf \<and>
    cbor_writeToken (tokType tok) (tokValue tok) 10 = Inr (take (1 + unat (tokWidth tok)) buf)"
proof -
  obtain h bs where buf: "buf = h # bs"
    using assms(1) by (cases buf) (auto simp: cbor_parseToken_def)
  define t c where "t = h AND 0xE0" and "c = h AND 0x1F"
  have h: "h = t OR c" unfolding t_def c_def by (simp add: head_split)
  have "h \<noteq> CBOR_TYPE_ARRAY_INDEF" "h \<noteq> CBOR_TYPE_INDEF_END"
    using assms by (auto simp: buf cbor_parseToken_def)
  then have t: "t \<in> parsed_types"
    and p: "(if c < 24 then finish_token t 0 (ucast c)
      else res_bind (read_arg c buf) (\<lambda>(width, value, limit_min).
        if value < limit_min then Inl ERR_UNEXPECTED_TOKEN else finish_token t width value)) = Inr tok"
    using assms(1) by (auto simp: buf cbor_parseToken_def Let_def t_def c_def cong: if_cong split: if_splits)
  show ?thesis
  proof (cases "c < 24")
    case True
    then have "(ucast c :: u64) < 24" "ucast (ucast c :: u64) = c"
      by (rule ucast_small_up)+
    then have "write_head t (ucast c) 10 = Inr [h]"
      by (simp add: write_head_def h)
    with p True finish_token_Inr [OF _ this t] show ?thesis
      by (simp add: buf)
  next
    case False
    then obtain w v l where r: "read_arg c (h # bs) = Inr (w, v, l)" and l: "l \<le> v"
      and f: "finish_token t w v = Inr tok"
      using p by (auto simp: buf res_bind_Inr_iff split: if_splits)
    obtain k where k: "(c, k, l) \<in> {(24, 1, 24), (25, 2, 0x100), (26, 4, 0x10000), (27, 8, 0x100000000)}"
      "w = word_of_nat k" "k \<le> length bs" "be_write k (unat v) = take k bs" "unat v < 256 ^ k"
      using r by (rule read_arg_Inr)
    have "write_head t v 10 = Inr (h # take k bs)"
      using write_head_wide [OF k(1) l k(5), of 10 t] by (simp add: h k(4))
    from finish_token_Inr [OF f this t] have "tokType tok = t" "tokWidth tok = w" "cbor_writeToken t (tokValue tok) 10 = Inr (h # take k bs)"
      by simp_all
    moreover have "unat w = k" using k(1,2) by auto
    ultimately show ?thesis using k(3) by (simp add: buf)
  qed
qed

end
