(* ===== verification/CborItems.thy ===== *)
theory CborItems
  imports Cbor
begin

text \<open>
  The abstract specification of the byte streams the app hashes: a reader of the CBOR data
  model, written from the format and not from the app's writer. It keeps what is still
  outstanding, the bytes of an open byte or text string and, innermost first, the number of
  items each open array or map still lacks. A stream is one complete data item when reading
  it from "one item outstanding" ends with nothing outstanding.
\<close>

subsection \<open>Heads\<close>

definition item_head :: "bytes \<Rightarrow> (u8 \<times> nat \<times> nat) option" where
  "item_head bs =
     (case bs of [] \<Rightarrow> None
      | h # r \<Rightarrow>
        let t = h AND CBOR_TYPE_MASK; c = h AND CBOR_VALUE_MASK;
            arg = (\<lambda>k. if k \<le> length r then Some (t, be_read (take k r), k) else None)
        in if t = CBOR_TYPE_PRIMITIVES
           then if h = CBOR_TYPE_NULL then Some (t, 22, 0) else None
           else if c < 24 then Some (t, unat c, 0)
           else if c = 24 then arg 1
           else if c = 25 then arg 2
           else if c = 26 then arg 4
           else if c = 27 then arg 8
           else None)"

subsection \<open>Outstanding items\<close>

type_synonym outstanding = "nat \<times> nat list"

definition push :: "nat \<Rightarrow> nat list \<Rightarrow> nat list" where
  "push n stk = (if n = 0 then stk else n # stk)"

fun take_item :: "nat list \<Rightarrow> nat list option" where
  "take_item [] = None"
| "take_item (n # stk) = Some (push (n - 1) stk)"

definition open_item :: "u8 \<Rightarrow> nat \<Rightarrow> nat list \<Rightarrow> outstanding option" where
  "open_item t v stk =
     (case take_item stk of None \<Rightarrow> None
      | Some rest \<Rightarrow>
        if t = CBOR_TYPE_TAG then Some (0, stk)
        else if t = CBOR_TYPE_BYTES \<or> t = CBOR_TYPE_TEXT then Some (v, rest)
        else if t = CBOR_TYPE_ARRAY then Some (0, push v rest)
        else if t = CBOR_TYPE_MAP then Some (0, push (2 * v) rest)
        else Some (0, rest))"

lemma item_head_length: "item_head (b # bs) = Some (t, v, k) \<Longrightarrow> k \<le> length bs"
  by (auto simp: item_head_def Let_def split: if_splits)

lemma item_head_append:
  "item_head (b # bs) = Some h \<Longrightarrow> item_head (b # bs @ ys) = Some h"
  by (auto simp: item_head_def Let_def simp del: take_all take_all_iff split: if_splits)

function read_stream :: "outstanding \<Rightarrow> bytes \<Rightarrow> outstanding option" where
  "read_stream e [] = Some e"
| "read_stream e (b # bs) =
     (case e of (p, stk) \<Rightarrow>
        if 0 < p then read_stream (p - 1, stk) bs
        else case item_head (b # bs) of None \<Rightarrow> None
          | Some (t, v, k) \<Rightarrow>
            (case open_item t v stk of None \<Rightarrow> None
             | Some e' \<Rightarrow> read_stream e' (drop k bs)))"
  by pat_completeness auto
termination
  by (relation "measure (\<lambda>(e, bs). length bs)") auto

definition complete_item :: "bytes \<Rightarrow> bool" where
  "complete_item bs \<longleftrightarrow> read_stream (0, [1]) bs = Some (0, [])"

text \<open>Reading is compositional at every point where the reader does not fail.\<close>

lemma read_stream_append:
  "read_stream e xs = Some e' \<Longrightarrow> read_stream e (xs @ ys) = read_stream e' ys"
proof (induction e xs rule: read_stream.induct)
  case (2 e b bs)
  obtain p stk where e: "e = (p, stk)"
    by (cases e)
  show ?case
  proof (cases "0 < p")
    case True
    with 2 e show ?thesis by simp
  next
    case False
    then obtain t v k e'' where h: "item_head (b # bs) = Some (t, v, k)"
      and o: "open_item t v stk = Some e''"
      and r: "read_stream e'' (drop k bs) = Some e'"
      using "2.prems" e by (auto split: option.splits)
    have "k \<le> length bs"
      using h by (rule item_head_length)
    then have "drop k (bs @ ys) = drop k bs @ ys"
      by simp
    moreover have "read_stream e'' (drop k bs @ ys) = read_stream e' ys"
      using "2.IH"(2) e False h o r by simp
    ultimately show ?thesis
      using e False item_head_append [OF h] o by simp
  qed
qed simp

lemma read_payload:
  "length d \<le> p \<Longrightarrow> read_stream (p, stk) (d @ r) = read_stream (p - length d, stk) r"
  by (induction d arbitrary: p) auto

subsection \<open>The app's tokens as heads\<close>

text \<open>The bytes the writer produces into the ten-byte scratch buffers of the hash builders.\<close>

definition tok :: "u8 \<Rightarrow> u64 \<Rightarrow> bytes" where
  "tok t v = (case cbor_writeToken t v 10 of Inl _ \<Rightarrow> [] | Inr bs \<Rightarrow> bs)"

abbreviation (input) head_types :: "u8 set" where
  "head_types \<equiv> {CBOR_TYPE_UNSIGNED, CBOR_TYPE_BYTES, CBOR_TYPE_TEXT, CBOR_TYPE_ARRAY,
     CBOR_TYPE_MAP, CBOR_TYPE_TAG}"

lemma any_head_bits:
  assumes "t \<in> {0, 0x20, 0x40, 0x60, 0x80, 0xA0, 0xC0 :: u8}" "v < 32"
  shows "(t OR v) AND 0xE0 = t" "(t OR v) AND 0x1F = v"
  using assms by (auto simp: bit.conj_disj_distrib2 low_bits)

lemma item_head_wide:
  assumes "t \<in> {0, 0x20, 0x40, 0x60, 0x80, 0xA0, 0xC0}" "unat v < 256 ^ k"
    and "(c, k, l) \<in> {(24, 1, 24), (25, 2, 0x100), (26, 4, 0x10000), (27, 8, 0x100000000 :: u64)}"
  shows "item_head ((t OR c) # be_write k (unat (v :: u64)) @ r) = Some (t, unat v, k)"
proof -
  have c: "c < 32" "\<not> c < 24" "(c = 24 \<and> k = 1) \<or> (c = 25 \<and> k = 2) \<or> (c = 26 \<and> k = 4) \<or> (c = 27 \<and> k = 8)"
    using assms(3) by auto
  note bits = any_head_bits [OF assms(1) c(1)]
  have t: "t \<noteq> CBOR_TYPE_PRIMITIVES" using assms(1) by auto
  have "be_read (be_write k (unat v)) = unat v"
    using assms(2) by (simp add: be_read_write)
  then have "take k (be_write k (unat v) @ r) = be_write k (unat v)"
    "be_read (take k (be_write k (unat v) @ r)) = unat v" "k \<le> length (be_write k (unat v) @ r)"
    by simp_all
  then show ?thesis
    using c(2,3) t bits unfolding item_head_def Let_def list.case
    by (elim disjE conjE) (simp_all del: be_write.simps take_append length_append)
qed

lemma item_head_written:
  assumes "t \<in> {0, 0x20, 0x40, 0x60, 0x80, 0xA0, 0xC0}" "write_head t v n = Inr bs"
  shows "item_head (bs @ r) = Some (t, unat v, length bs - 1)"
  using assms(2)
proof (cases rule: write_head_cases)
  case 1
  have "(ucast v :: u8) < 32" and w: "(ucast v :: u8) < 24" 
    using ucast_small(2) [OF 1(1)] by (auto intro: less_trans)
  note bits = any_head_bits [OF assms(1) this(1)]
  have "take_bit 8 (unat v) = unat v"
    using 1(1) by (simp add: take_bit_nat_eq_self_iff word_less_nat_alt)
  then show ?thesis
    using 1 assms(1) bits w by (auto simp: item_head_def Let_def unsigned_ucast_eq)
next
  case 2
  then show ?thesis
    using item_head_wide [OF assms(1), of v 1 24 24 r] by (simp add: word_less_nat_alt)
next
  case 3
  then show ?thesis
    using item_head_wide [OF assms(1), of v 2 25 "0x100" r] by (simp add: word_less_nat_alt)
next
  case 4
  then show ?thesis
    using item_head_wide [OF assms(1), of v 4 26 "0x10000" r] by (simp add: word_less_nat_alt)
next
  case 5
  then show ?thesis
    using item_head_wide [OF assms(1), of v 8 27 "0x100000000" r] unsigned_less [of v, where ?'a = nat] by simp
qed

lemma write_head_total: "8 < n \<Longrightarrow> \<exists>h bs. write_head t v n = Inr (h # bs)"
  by (auto simp: write_head_def Let_def simp del: be_write.simps)

lemma write_total:
  assumes "t \<in> head_types"
  shows "cbor_writeToken t v 10 = write_head t v 10" "cbor_writeToken t v 10 = Inr (tok t v)"
proof -
  show "cbor_writeToken t v 10 = write_head t v 10"
    using assms by (auto simp: cbor_writeToken_def)
  then show "cbor_writeToken t v 10 = Inr (tok t v)"
    using write_head_total [of 10 t v] by (auto simp: tok_def)
qed

lemma write_null: "cbor_writeToken CBOR_TYPE_NULL v 10 = Inr (tok CBOR_TYPE_NULL v)"
  by (simp add: cbor_writeToken_def tok_def)

lemma write_negative:
  "sint v < 0 \<Longrightarrow> cbor_writeToken CBOR_TYPE_NEGATIVE v 10 = Inr (tok CBOR_TYPE_NEGATIVE v)"
  using write_head_total [of 10 CBOR_TYPE_NEGATIVE "- v - 1"]
  by (auto simp: cbor_writeToken_def tok_def)

lemma read_head:
  assumes "item_head (h # bs @ r) = Some (t, v, length bs)" "open_item t v stk = Some e"
  shows "read_stream (0, stk) (h # bs @ r) = read_stream e r"
  using assms by simp

lemma read_tok:
  assumes "t \<in> head_types"
  shows "read_stream (0, stk) (tok t v @ r) =
    (case open_item t (unat v) stk of None \<Rightarrow> None | Some e \<Rightarrow> read_stream e r)"
proof -
  obtain h bs where w: "write_head t v 10 = Inr (h # bs)"
    using write_head_total [of 10 t v] by auto
  then have "tok t v = h # bs"
    using write_total(1) [OF assms, of v] by (simp add: tok_def)
  moreover have "item_head ((h # bs) @ r) = Some (t, unat v, length bs)"
    using item_head_written [of t v 10 "h # bs" r] w assms by auto
  ultimately show ?thesis
    by (simp split: option.splits)
qed

lemma open_null [simp]: "open_item CBOR_TYPE_PRIMITIVES v stk = map_option (Pair 0) (take_item stk)"
  by (auto simp: open_item_def split: option.splits)

lemma read_null:
  "read_stream (0, stk) (tok CBOR_TYPE_NULL v @ r) =
    (case take_item stk of None \<Rightarrow> None | Some s \<Rightarrow> read_stream (0, s) r)"
  by (simp add: tok_def cbor_writeToken_def item_head_def Let_def split: option.splits)

lemma read_negative:
  assumes "sint v < 0"
  shows "read_stream (0, stk) (tok CBOR_TYPE_NEGATIVE v @ r) =
    (case take_item stk of None \<Rightarrow> None | Some s \<Rightarrow> read_stream (0, s) r)"
proof -
  obtain h bs where w: "write_head CBOR_TYPE_NEGATIVE (- v - 1) 10 = Inr (h # bs)"
    using write_head_total [of 10 CBOR_TYPE_NEGATIVE "- v - 1"] by auto
  then have "tok CBOR_TYPE_NEGATIVE v = h # bs"
    using assms by (simp add: tok_def cbor_writeToken_def)
  moreover have "item_head ((h # bs) @ r) = Some (CBOR_TYPE_NEGATIVE, unat (- v - 1), length bs)"
    using item_head_written [of CBOR_TYPE_NEGATIVE "- v - 1" 10 "h # bs" r] w by simp
  ultimately show ?thesis
    by (simp add: open_item_def split: option.splits)
qed

end
