(* ===== verification/Hash.thy ===== *)
theory Hash
  imports CborItems
begin

text \<open>
  \<open>src/crypto/hash.h\<close>: the streaming hash contexts and the locale of a builder that hashes
  CBOR. The digest itself is computed by the device firmware (\<open>cx_hash_no_throw\<close>) and is a
  parameter wherever a digest is produced; a context is therefore the bytes it has absorbed.
  Absorbing into an initialised context succeeds, as the firmware documents; a digest call
  may still report an error, which is \<open>None\<close> and fails the \<open>ASSERT\<close> of the wrapper.
\<close>

record hash_context =
  initialized_magic :: u16
  absorbed :: bytes

abbreviation (input) HASH_CONTEXT_INITIALIZED_MAGIC :: u16 where
  "HASH_CONTEXT_INITIALIZED_MAGIC \<equiv> 12345"

definition blake2b_init :: hash_context where
  "blake2b_init = \<lparr>initialized_magic = HASH_CONTEXT_INITIALIZED_MAGIC, absorbed = []\<rparr>"

definition blake2b_append :: "bytes \<Rightarrow> hash_context stmt" where
  "blake2b_append inBuffer ctx =
     (if initialized_magic ctx = HASH_CONTEXT_INITIALIZED_MAGIC
      then Inr (ctx\<lparr>absorbed := absorbed ctx @ inBuffer\<rparr>)
      else Inl ERR_ASSERT)"

text \<open>\<open>digest\<close> is the firmware's hash function with the digest size of the context.\<close>

definition blake2b_finalize ::
  "(bytes \<Rightarrow> bytes option) \<Rightarrow> nat \<Rightarrow> nat \<Rightarrow> hash_context \<Rightarrow> bytes res" where
  "blake2b_finalize digest hashSize outSize ctx =
     (if initialized_magic ctx \<noteq> HASH_CONTEXT_INITIALIZED_MAGIC then Inl ERR_ASSERT
      else if outSize \<noteq> hashSize then Inl ERR_ASSERT
      else case digest (absorbed ctx) of None \<Rightarrow> Inl ERR_ASSERT | Some out \<Rightarrow> Inr out)"

definition blake2b_hash ::
  "(bytes \<Rightarrow> bytes option) \<Rightarrow> nat \<Rightarrow> bytes \<Rightarrow> nat \<Rightarrow> bytes res" where
  "blake2b_hash digest hashSize inBuffer outSize =
     (if \<not> length inBuffer < BUFFER_SIZE_PARANOIA then Inl ERR_ASSERT
      else if outSize \<noteq> hashSize then Inl ERR_ASSERT
      else res_bind (blake2b_append inBuffer blake2b_init) (blake2b_finalize digest hashSize outSize))"

text \<open>
  The helper each CBOR builder has a copy of: write the token into a ten-byte buffer, then
  absorb what was written.
\<close>

definition blake2b_append_cbor :: "u8 \<Rightarrow> u64 \<Rightarrow> hash_context stmt" where
  "blake2b_append_cbor type value ctx =
     res_bind (cbor_writeToken type value 10) (\<lambda>bs. blake2b_append bs ctx)"

lemma blake2b_hash_eq:
  "length bs < BUFFER_SIZE_PARANOIA \<Longrightarrow>
   blake2b_hash digest n bs n =
     (case digest bs of None \<Rightarrow> Inl ERR_ASSERT | Some out \<Rightarrow> Inr out)"
  by (simp add: blake2b_hash_def blake2b_append_def blake2b_init_def blake2b_finalize_def)

lemma blake2b_append_Inr:
  "blake2b_append d ctx = Inr ctx' \<longleftrightarrow>
   initialized_magic ctx = HASH_CONTEXT_INITIALIZED_MAGIC \<and>
   ctx' = ctx\<lparr>absorbed := absorbed ctx @ d\<rparr>"
  by (auto simp: blake2b_append_def)

end
