(* ===== verification/TxHashBuilder.thy ===== *)
theory TxHashBuilder
  imports Hash
begin

text \<open>
  \<open>src/txHashBuilder/txHashBuilder.h\<close> and \<open>.c\<close>: the state machine that serialises a
  transaction body to CBOR while hashing it. One definition per C function, each a list of
  the function's statements over the builder; the assertions, their order and the order of
  the writes are the code's.

  The unions of \<open>tx_hash_builder_t\<close> are modelled by their members: a member is \<open>Some v\<close> when
  its storage was last written through it (or is still zeroed memory) and \<open>None\<close> when another
  member that shares the storage was written since. Reading \<open>None\<close> is \<open>UNION_MISREAD\<close>.
\<close>

subsection \<open>Data of the builder's interface\<close>

datatype credential_type_t = CREDENTIAL_KEY_HASH | CREDENTIAL_SCRIPT_HASH

fun credential_type_value :: "credential_type_t \<Rightarrow> u64" where
  "credential_type_value CREDENTIAL_KEY_HASH = 0"
| "credential_type_value CREDENTIAL_SCRIPT_HASH = 1"

record credential_t =
  credType :: credential_type_t
  credHash :: bytes

datatype drep_t =
    DREP_KEY_HASH bytes
  | DREP_SCRIPT_HASH bytes
  | DREP_ALWAYS_ABSTAIN
  | DREP_ALWAYS_NO_CONFIDENCE

record anchor_t =
  anchorIsIncluded :: bool
  anchorUrl :: bytes
  anchorHash :: bytes

datatype tx_output_serialization_format_t = ARRAY_LEGACY | MAP_BABBAGE

datatype datum_type_t = DATUM_HASH | DATUM_INLINE

fun datum_type_value :: "datum_type_t \<Rightarrow> u64" where
  "datum_type_value DATUM_HASH = 0"
| "datum_type_value DATUM_INLINE = 1"

text \<open>The parameters of a device-owned address belong to the address component.\<close>

datatype 'p tx_output_destination_t =
    DESTINATION_THIRD_PARTY bytes
  | DESTINATION_DEVICE_OWNED 'p

record 'p tx_output_description_t =
  outFormat :: tx_output_serialization_format_t
  outDestination :: "'p tx_output_destination_t"
  outAmount :: u64
  outNumAssetGroups :: u16
  outIncludeDatum :: bool
  outIncludeRefScript :: bool

datatype voter_t =
    VOTER_COMMITTEE_HOT_KEY_HASH bytes
  | VOTER_COMMITTEE_HOT_SCRIPT_HASH bytes
  | VOTER_DREP_KEY_HASH bytes
  | VOTER_DREP_SCRIPT_HASH bytes
  | VOTER_STAKE_POOL_KEY_HASH bytes

fun voter_type_value :: "voter_t \<Rightarrow> u64" where
  "voter_type_value (VOTER_COMMITTEE_HOT_KEY_HASH _) = 0"
| "voter_type_value (VOTER_COMMITTEE_HOT_SCRIPT_HASH _) = 1"
| "voter_type_value (VOTER_DREP_KEY_HASH _) = 2"
| "voter_type_value (VOTER_DREP_SCRIPT_HASH _) = 3"
| "voter_type_value (VOTER_STAKE_POOL_KEY_HASH _) = 4"

fun voter_hash :: "voter_t \<Rightarrow> bytes" where
  "voter_hash (VOTER_COMMITTEE_HOT_KEY_HASH h) = h"
| "voter_hash (VOTER_COMMITTEE_HOT_SCRIPT_HASH h) = h"
| "voter_hash (VOTER_DREP_KEY_HASH h) = h"
| "voter_hash (VOTER_DREP_SCRIPT_HASH h) = h"
| "voter_hash (VOTER_STAKE_POOL_KEY_HASH h) = h"

record gov_action_id_t =
  govTxHash :: bytes
  govActionIndex :: u32

datatype vote_t = VOTE_NO | VOTE_YES | VOTE_ABSTAIN

fun vote_value :: "vote_t \<Rightarrow> u64" where
  "vote_value VOTE_NO = 0"
| "vote_value VOTE_YES = 1"
| "vote_value VOTE_ABSTAIN = 2"

record voting_procedure_t =
  votingVote :: vote_t
  votingAnchor :: anchor_t

record tx_input_t =
  inputTxHash :: bytes
  inputIndex :: u32

datatype certificate_type_t =
    CERTIFICATE_STAKE_REGISTRATION
  | CERTIFICATE_STAKE_DEREGISTRATION
  | CERTIFICATE_STAKE_DELEGATION
  | CERTIFICATE_STAKE_POOL_REGISTRATION
  | CERTIFICATE_STAKE_POOL_RETIREMENT
  | CERTIFICATE_STAKE_REGISTRATION_CONWAY
  | CERTIFICATE_STAKE_DEREGISTRATION_CONWAY
  | CERTIFICATE_VOTE_DELEGATION
  | CERTIFICATE_AUTHORIZE_COMMITTEE_HOT
  | CERTIFICATE_RESIGN_COMMITTEE_COLD
  | CERTIFICATE_DREP_REGISTRATION
  | CERTIFICATE_DREP_DEREGISTRATION
  | CERTIFICATE_DREP_UPDATE

fun certificate_type_value :: "certificate_type_t \<Rightarrow> u64" where
  "certificate_type_value CERTIFICATE_STAKE_REGISTRATION = 0"
| "certificate_type_value CERTIFICATE_STAKE_DEREGISTRATION = 1"
| "certificate_type_value CERTIFICATE_STAKE_DELEGATION = 2"
| "certificate_type_value CERTIFICATE_STAKE_POOL_REGISTRATION = 3"
| "certificate_type_value CERTIFICATE_STAKE_POOL_RETIREMENT = 4"
| "certificate_type_value CERTIFICATE_STAKE_REGISTRATION_CONWAY = 7"
| "certificate_type_value CERTIFICATE_STAKE_DEREGISTRATION_CONWAY = 8"
| "certificate_type_value CERTIFICATE_VOTE_DELEGATION = 9"
| "certificate_type_value CERTIFICATE_AUTHORIZE_COMMITTEE_HOT = 14"
| "certificate_type_value CERTIFICATE_RESIGN_COMMITTEE_COLD = 15"
| "certificate_type_value CERTIFICATE_DREP_REGISTRATION = 16"
| "certificate_type_value CERTIFICATE_DREP_DEREGISTRATION = 17"
| "certificate_type_value CERTIFICATE_DREP_UPDATE = 18"

text \<open>A port or an address is null or given; \<open>isNull\<close> and its payload are one option.\<close>

datatype relay_format_t = RELAY_SINGLE_HOST_IP | RELAY_SINGLE_HOST_NAME | RELAY_MULTIPLE_HOST_NAME

record pool_relay_t =
  relayFormat :: relay_format_t
  relayPort :: "u16 option"
  relayIpv4 :: "bytes option"
  relayIpv6 :: "bytes option"
  relayDnsName :: bytes

abbreviation (input) TX_BODY_KEY_INPUTS :: u64 where "TX_BODY_KEY_INPUTS \<equiv> 0"
abbreviation (input) TX_BODY_KEY_OUTPUTS :: u64 where "TX_BODY_KEY_OUTPUTS \<equiv> 1"
abbreviation (input) TX_BODY_KEY_FEE :: u64 where "TX_BODY_KEY_FEE \<equiv> 2"
abbreviation (input) TX_BODY_KEY_TTL :: u64 where "TX_BODY_KEY_TTL \<equiv> 3"
abbreviation (input) TX_BODY_KEY_CERTIFICATES :: u64 where "TX_BODY_KEY_CERTIFICATES \<equiv> 4"
abbreviation (input) TX_BODY_KEY_WITHDRAWALS :: u64 where "TX_BODY_KEY_WITHDRAWALS \<equiv> 5"
abbreviation (input) TX_BODY_KEY_AUX_DATA :: u64 where "TX_BODY_KEY_AUX_DATA \<equiv> 7"
abbreviation (input) TX_BODY_KEY_VALIDITY_INTERVAL_START :: u64 where
  "TX_BODY_KEY_VALIDITY_INTERVAL_START \<equiv> 8"
abbreviation (input) TX_BODY_KEY_MINT :: u64 where "TX_BODY_KEY_MINT \<equiv> 9"
abbreviation (input) TX_BODY_KEY_SCRIPT_HASH_DATA :: u64 where "TX_BODY_KEY_SCRIPT_HASH_DATA \<equiv> 11"
abbreviation (input) TX_BODY_KEY_COLLATERAL_INPUTS :: u64 where
  "TX_BODY_KEY_COLLATERAL_INPUTS \<equiv> 13"
abbreviation (input) TX_BODY_KEY_REQUIRED_SIGNERS :: u64 where "TX_BODY_KEY_REQUIRED_SIGNERS \<equiv> 14"
abbreviation (input) TX_BODY_KEY_NETWORK_ID :: u64 where "TX_BODY_KEY_NETWORK_ID \<equiv> 15"
abbreviation (input) TX_BODY_KEY_COLLATERAL_OUTPUT :: u64 where
  "TX_BODY_KEY_COLLATERAL_OUTPUT \<equiv> 16"
abbreviation (input) TX_BODY_KEY_TOTAL_COLLATERAL :: u64 where "TX_BODY_KEY_TOTAL_COLLATERAL \<equiv> 17"
abbreviation (input) TX_BODY_KEY_REFERENCE_INPUTS :: u64 where "TX_BODY_KEY_REFERENCE_INPUTS \<equiv> 18"
abbreviation (input) TX_BODY_KEY_VOTING_PROCEDURES :: u64 where
  "TX_BODY_KEY_VOTING_PROCEDURES \<equiv> 19"
abbreviation (input) TX_BODY_KEY_TREASURY :: u64 where "TX_BODY_KEY_TREASURY \<equiv> 21"
abbreviation (input) TX_BODY_KEY_DONATION :: u64 where "TX_BODY_KEY_DONATION \<equiv> 22"

abbreviation (input) TX_OUTPUT_KEY_ADDRESS :: u64 where "TX_OUTPUT_KEY_ADDRESS \<equiv> 0"
abbreviation (input) TX_OUTPUT_KEY_VALUE :: u64 where "TX_OUTPUT_KEY_VALUE \<equiv> 1"
abbreviation (input) TX_OUTPUT_KEY_DATUM_OPTION :: u64 where "TX_OUTPUT_KEY_DATUM_OPTION \<equiv> 2"
abbreviation (input) TX_OUTPUT_KEY_SCRIPT_REF :: u64 where "TX_OUTPUT_KEY_SCRIPT_REF \<equiv> 3"

subsection \<open>The builder\<close>

datatype tx_hash_builder_state_t =
    TX_HASH_BUILDER_INIT
  | TX_HASH_BUILDER_IN_INPUTS
  | TX_HASH_BUILDER_IN_OUTPUTS
  | TX_HASH_BUILDER_IN_FEE
  | TX_HASH_BUILDER_IN_TTL
  | TX_HASH_BUILDER_IN_CERTIFICATES
  | TX_HASH_BUILDER_IN_CERTIFICATES_POOL_INIT
  | TX_HASH_BUILDER_IN_CERTIFICATES_POOL_KEY_HASH
  | TX_HASH_BUILDER_IN_CERTIFICATES_POOL_VRF
  | TX_HASH_BUILDER_IN_CERTIFICATES_POOL_FINANCIALS
  | TX_HASH_BUILDER_IN_CERTIFICATES_POOL_REWARD_ACCOUNT
  | TX_HASH_BUILDER_IN_CERTIFICATES_POOL_OWNERS
  | TX_HASH_BUILDER_IN_CERTIFICATES_POOL_RELAYS
  | TX_HASH_BUILDER_IN_CERTIFICATES_POOL_METADATA
  | TX_HASH_BUILDER_IN_WITHDRAWALS
  | TX_HASH_BUILDER_IN_AUX_DATA
  | TX_HASH_BUILDER_IN_VALIDITY_INTERVAL_START
  | TX_HASH_BUILDER_IN_MINT
  | TX_HASH_BUILDER_IN_SCRIPT_DATA_HASH
  | TX_HASH_BUILDER_IN_COLLATERAL_INPUTS
  | TX_HASH_BUILDER_IN_REQUIRED_SIGNERS
  | TX_HASH_BUILDER_IN_NETWORK_ID
  | TX_HASH_BUILDER_IN_COLLATERAL_OUTPUT
  | TX_HASH_BUILDER_IN_TOTAL_COLLATERAL
  | TX_HASH_BUILDER_IN_REFERENCE_INPUTS
  | TX_HASH_BUILDER_IN_VOTING_PROCEDURES
  | TX_HASH_BUILDER_IN_TREASURY
  | TX_HASH_BUILDER_IN_DONATION
  | TX_HASH_BUILDER_FINISHED

text \<open>\<open>TX_OUTPUT_STATE_ZERO\<close> is zeroed memory, which is none of the enumerators.\<close>

datatype tx_hash_builder_output_state_t =
    TX_OUTPUT_STATE_ZERO
  | TX_OUTPUT_INIT
  | TX_OUTPUT_TOP_LEVEL_DATA
  | TX_OUTPUT_ASSET_GROUP
  | TX_OUTPUT_DATUM_HASH
  | TX_OUTPUT_DATUM_INLINE
  | TX_OUTPUT_SCRIPT_REFERENCE_CHUNKS

record tx_hash_builder_t =
  tagCborSets :: bool
  remainingInputs :: u16
  remainingOutputs :: u16
  remainingWithdrawals :: u16
  remainingCertificates :: u16
  remainingCollateralInputs :: u16
  remainingRequiredSigners :: u16
  remainingReferenceInputs :: u16
  remainingVotingProcedures :: u16
  includeTtl :: bool
  includeAuxData :: bool
  includeValidityIntervalStart :: bool
  includeMint :: bool
  includeScriptDataHash :: bool
  includeNetworkId :: bool
  includeCollateralOutput :: bool
  includeTotalCollateral :: bool
  includeTreasury :: bool
  includeDonation :: bool
  remainingOwners :: "u16 option"
  remainingRelays :: "u16 option"
  outputState :: "tx_hash_builder_output_state_t option"
  serializationFormat :: "tx_output_serialization_format_t option"
  includeDatum :: "bool option"
  includeRefScript :: "bool option"
  remainingAssetGroups :: "u16 option"
  remainingTokens :: "u16 option"
  datumRemainingBytes :: "nat option"
  refScriptRemainingBytes :: "nat option"
  txState :: tx_hash_builder_state_t
  txHash :: hash_context

text \<open>Writes through the members of the unions.\<close>

definition clobber_pool :: "tx_hash_builder_t \<Rightarrow> tx_hash_builder_t" where
  "clobber_pool b = b\<lparr>remainingOwners := None, remainingRelays := None\<rparr>"

definition clobber_output :: "tx_hash_builder_t \<Rightarrow> tx_hash_builder_t" where
  "clobber_output b = b\<lparr>outputState := None, serializationFormat := None, includeDatum := None,
     includeRefScript := None, remainingAssetGroups := None, remainingTokens := None,
     datumRemainingBytes := None, refScriptRemainingBytes := None\<rparr>"

definition set_remainingOwners :: "u16 \<Rightarrow> tx_hash_builder_t \<Rightarrow> tx_hash_builder_t" where
  "set_remainingOwners n b = (clobber_output b)\<lparr>remainingOwners := Some n\<rparr>"

definition set_remainingRelays :: "u16 \<Rightarrow> tx_hash_builder_t \<Rightarrow> tx_hash_builder_t" where
  "set_remainingRelays n b = (clobber_output b)\<lparr>remainingRelays := Some n\<rparr>"

definition set_outputState ::
  "tx_hash_builder_output_state_t \<Rightarrow> tx_hash_builder_t \<Rightarrow> tx_hash_builder_t" where
  "set_outputState s b = (clobber_pool b)\<lparr>outputState := Some s\<rparr>"

definition set_remainingAssetGroups :: "u16 \<Rightarrow> tx_hash_builder_t \<Rightarrow> tx_hash_builder_t" where
  "set_remainingAssetGroups n b = (clobber_pool b)\<lparr>remainingAssetGroups := Some n,
     datumRemainingBytes := None, refScriptRemainingBytes := None\<rparr>"

definition set_remainingTokens :: "u16 \<Rightarrow> tx_hash_builder_t \<Rightarrow> tx_hash_builder_t" where
  "set_remainingTokens n b = (clobber_pool b)\<lparr>remainingTokens := Some n,
     datumRemainingBytes := None, refScriptRemainingBytes := None\<rparr>"

definition set_datumBytes :: "nat \<Rightarrow> tx_hash_builder_t \<Rightarrow> tx_hash_builder_t" where
  "set_datumBytes n b = (clobber_pool b)\<lparr>remainingAssetGroups := None, remainingTokens := None,
     datumRemainingBytes := Some n, refScriptRemainingBytes := None\<rparr>"

definition set_refScriptBytes :: "nat \<Rightarrow> tx_hash_builder_t \<Rightarrow> tx_hash_builder_t" where
  "set_refScriptBytes n b = (clobber_pool b)\<lparr>remainingAssetGroups := None, remainingTokens := None,
     datumRemainingBytes := None, refScriptRemainingBytes := Some n\<rparr>"

text \<open>Reads: the statement gets the member's value, or the read is not meaningful.\<close>

definition with_field :: "('s \<Rightarrow> 'a option) \<Rightarrow> ('a \<Rightarrow> 's stmt) \<Rightarrow> 's stmt" where
  "with_field f k s = (case f s of None \<Rightarrow> Inl UNION_MISREAD | Some x \<Rightarrow> k x s)"

definition assert_field :: "('s \<Rightarrow> 'a option) \<Rightarrow> ('a \<Rightarrow> bool) \<Rightarrow> 's stmt" where
  "assert_field f p = with_field f (\<lambda>x. assert_that (\<lambda>_. p x))"

text \<open>\<open>BUILDER_APPEND_CBOR\<close>, \<open>BUILDER_APPEND_DATA\<close> and \<open>BUILDER_TAG_CBOR_SET\<close>.\<close>

definition tx_append_cbor :: "u8 \<Rightarrow> u64 \<Rightarrow> tx_hash_builder_t stmt" where
  "tx_append_cbor type value b =
     res_bind (blake2b_append_cbor type value (txHash b)) (\<lambda>h. Inr (b\<lparr>txHash := h\<rparr>))"

definition tx_append_data :: "bytes \<Rightarrow> tx_hash_builder_t stmt" where
  "tx_append_data buffer b =
     res_bind (blake2b_append buffer (txHash b)) (\<lambda>h. Inr (b\<lparr>txHash := h\<rparr>))"

definition tx_tag_cbor_set :: "tx_hash_builder_t stmt" where
  "tx_tag_cbor_set b =
     (if tagCborSets b then tx_append_cbor CBOR_TYPE_TAG CBOR_TAG_SET b else Inr b)"

text \<open>A byte string or text string with its length, as the code writes them everywhere.\<close>

definition tx_append_bytes :: "bytes \<Rightarrow> tx_hash_builder_t stmt" where
  "tx_append_bytes d = seq
     [tx_append_cbor CBOR_TYPE_BYTES (word_of_nat (length d)), tx_append_data d]"

definition tx_append_text :: "bytes \<Rightarrow> tx_hash_builder_t stmt" where
  "tx_append_text d = seq
     [tx_append_cbor CBOR_TYPE_TEXT (word_of_nat (length d)), tx_append_data d]"

subsection \<open>Inputs and output heads\<close>

definition cbor_append_txInput :: "bytes \<Rightarrow> u32 \<Rightarrow> tx_hash_builder_t stmt" where
  "cbor_append_txInput utxoHash utxoIndex = seq
     [tx_append_cbor CBOR_TYPE_ARRAY 2,
      assert_that (\<lambda>_. length utxoHash = TX_HASH_LENGTH),
      tx_append_bytes utxoHash,
      tx_append_cbor CBOR_TYPE_UNSIGNED (ucast utxoIndex)]"

text \<open>The address of an output: only third-party (already derived) addresses may get here.\<close>

definition append_output_address :: "'p tx_output_destination_t \<Rightarrow> tx_hash_builder_t stmt" where
  "append_output_address d =
     (case d of
        DESTINATION_THIRD_PARTY address \<Rightarrow> seq
          [assert_that (\<lambda>_. length address < BUFFER_SIZE_PARANOIA), tx_append_bytes address]
      | DESTINATION_DEVICE_OWNED _ \<Rightarrow> assert_that (\<lambda>_. False))"

definition append_output_value :: "'p tx_output_description_t \<Rightarrow> tx_hash_builder_t stmt" where
  "append_output_value out =
     (if outNumAssetGroups out = 0 then tx_append_cbor CBOR_TYPE_UNSIGNED (outAmount out)
      else seq
        [tx_append_cbor CBOR_TYPE_ARRAY 2,
         tx_append_cbor CBOR_TYPE_UNSIGNED (outAmount out),
         tx_append_cbor CBOR_TYPE_MAP (ucast (outNumAssetGroups out))])"

definition cbor_append_txOutput_array :: "'p tx_output_description_t \<Rightarrow> tx_hash_builder_t stmt" where
  "cbor_append_txOutput_array out = seq
     [assert_that (\<lambda>_. outFormat out = ARRAY_LEGACY),
      tx_append_cbor CBOR_TYPE_ARRAY (2 + of_bool (outIncludeDatum out)),
      append_output_address (outDestination out),
      append_output_value out]"

definition cbor_append_txOutput_map :: "'p tx_output_description_t \<Rightarrow> tx_hash_builder_t stmt" where
  "cbor_append_txOutput_map out = seq
     [assert_that (\<lambda>_. outFormat out = MAP_BABBAGE),
      tx_append_cbor CBOR_TYPE_MAP
        (2 + of_bool (outIncludeDatum out) + of_bool (outIncludeRefScript out)),
      tx_append_cbor CBOR_TYPE_UNSIGNED TX_OUTPUT_KEY_ADDRESS,
      append_output_address (outDestination out),
      tx_append_cbor CBOR_TYPE_UNSIGNED TX_OUTPUT_KEY_VALUE,
      append_output_value out]"

definition processOutputTopLevel :: "'p tx_output_description_t \<Rightarrow> tx_hash_builder_t stmt" where
  "processOutputTopLevel out = seq
     [modify (\<lambda>b. (clobber_pool b)\<lparr>serializationFormat := Some (outFormat out),
        includeDatum := Some (outIncludeDatum out),
        includeRefScript := Some (outIncludeRefScript out)\<rparr>),
      modify (set_remainingAssetGroups (outNumAssetGroups out)),
      (case outFormat out of
         ARRAY_LEGACY \<Rightarrow> cbor_append_txOutput_array out
       | MAP_BABBAGE \<Rightarrow> cbor_append_txOutput_map out)]"

definition assertCanLeaveCurrentOutput :: "tx_hash_builder_t stmt" where
  "assertCanLeaveCurrentOutput = with_field outputState (\<lambda>os.
     case os of
       TX_OUTPUT_INIT \<Rightarrow> seq
         [assert_field remainingAssetGroups (\<lambda>n. n = 0),
          assert_field includeDatum Not, assert_field includeRefScript Not]
     | TX_OUTPUT_TOP_LEVEL_DATA \<Rightarrow> seq
         [assert_field remainingAssetGroups (\<lambda>n. n = 0),
          assert_field includeDatum Not, assert_field includeRefScript Not]
     | TX_OUTPUT_ASSET_GROUP \<Rightarrow> seq
         [assert_field remainingAssetGroups (\<lambda>n. n = 0),
          assert_field remainingTokens (\<lambda>n. n = 0),
          assert_field includeDatum Not, assert_field includeRefScript Not]
     | TX_OUTPUT_DATUM_HASH \<Rightarrow> assert_field includeRefScript Not
     | TX_OUTPUT_DATUM_INLINE \<Rightarrow> seq
         [assert_field datumRemainingBytes (\<lambda>n. n = 0), assert_field includeRefScript Not]
     | TX_OUTPUT_SCRIPT_REFERENCE_CHUNKS \<Rightarrow> assert_field refScriptRemainingBytes (\<lambda>n. n = 0)
     | TX_OUTPUT_STATE_ZERO \<Rightarrow> assert_that (\<lambda>_. False))"

subsection \<open>Initialisation\<close>

record tx_params =
  pTagCborSets :: bool
  pNumInputs :: u16
  pNumOutputs :: u16
  pIncludeTtl :: bool
  pNumCertificates :: u16
  pNumWithdrawals :: u16
  pIncludeAuxData :: bool
  pIncludeValidityIntervalStart :: bool
  pIncludeMint :: bool
  pIncludeScriptDataHash :: bool
  pNumCollateralInputs :: u16
  pNumRequiredSigners :: u16
  pIncludeNetworkId :: bool
  pIncludeCollateralOutput :: bool
  pIncludeTotalCollateral :: bool
  pNumReferenceInputs :: u16
  pNumVotingProcedures :: u16
  pIncludeTreasury :: bool
  pIncludeDonation :: bool

definition tx_numItems :: "tx_params \<Rightarrow> nat" where
  "tx_numItems p = 3 + of_bool (pIncludeTtl p)
     + of_bool (pNumCertificates p > 0) + of_bool (pNumWithdrawals p > 0)
     + of_bool (pIncludeAuxData p) + of_bool (pIncludeValidityIntervalStart p)
     + of_bool (pIncludeMint p) + of_bool (pIncludeScriptDataHash p)
     + of_bool (pNumCollateralInputs p > 0) + of_bool (pNumRequiredSigners p > 0)
     + of_bool (pIncludeNetworkId p) + of_bool (pIncludeCollateralOutput p)
     + of_bool (pIncludeTotalCollateral p) + of_bool (pNumReferenceInputs p > 0)
     + of_bool (pNumVotingProcedures p > 0) + of_bool (pIncludeTreasury p)
     + of_bool (pIncludeDonation p)"

definition txHashBuilder_init :: "tx_params \<Rightarrow> tx_hash_builder_t stmt" where
  "txHashBuilder_init p = seq
     [modify (\<lambda>b. b\<lparr>tagCborSets := pTagCborSets p, txHash := blake2b_init,
        remainingInputs := pNumInputs p, remainingOutputs := pNumOutputs p,
        includeTtl := pIncludeTtl p, remainingCertificates := pNumCertificates p,
        remainingWithdrawals := pNumWithdrawals p, includeAuxData := pIncludeAuxData p,
        includeValidityIntervalStart := pIncludeValidityIntervalStart p,
        includeMint := pIncludeMint p, includeScriptDataHash := pIncludeScriptDataHash p,
        remainingCollateralInputs := pNumCollateralInputs p,
        remainingRequiredSigners := pNumRequiredSigners p,
        includeNetworkId := pIncludeNetworkId p,
        includeCollateralOutput := pIncludeCollateralOutput p,
        includeTotalCollateral := pIncludeTotalCollateral p,
        remainingReferenceInputs := pNumReferenceInputs p,
        remainingVotingProcedures := pNumVotingProcedures p,
        includeTreasury := pIncludeTreasury p, includeDonation := pIncludeDonation p\<rparr>),
      assert_that (\<lambda>_. 3 \<le> tx_numItems p \<and> tx_numItems p \<le> 19),
      tx_append_cbor CBOR_TYPE_MAP (word_of_nat (tx_numItems p)),
      modify (\<lambda>b. b\<lparr>txState := TX_HASH_BUILDER_INIT\<rparr>)]"

text \<open>
  The memory \<open>initTxBodyCtx\<close> of \<open>src/signTx/signTx.c\<close> hands to it: all zero. (Zero is not an
  enumerator of \<open>txState\<close>; the value given here is overwritten before anything reads it.)
\<close>

definition zeroed_builder :: tx_hash_builder_t where
  "zeroed_builder = \<lparr>tagCborSets = False, remainingInputs = 0, remainingOutputs = 0,
     remainingWithdrawals = 0, remainingCertificates = 0, remainingCollateralInputs = 0,
     remainingRequiredSigners = 0, remainingReferenceInputs = 0, remainingVotingProcedures = 0,
     includeTtl = False, includeAuxData = False, includeValidityIntervalStart = False,
     includeMint = False, includeScriptDataHash = False, includeNetworkId = False,
     includeCollateralOutput = False, includeTotalCollateral = False, includeTreasury = False,
     includeDonation = False, remainingOwners = Some 0, remainingRelays = Some 0,
     outputState = Some TX_OUTPUT_STATE_ZERO, serializationFormat = Some ARRAY_LEGACY,
     includeDatum = Some False, includeRefScript = Some False, remainingAssetGroups = Some 0,
     remainingTokens = Some 0, datumRemainingBytes = Some 0, refScriptRemainingBytes = Some 0,
     txState = TX_HASH_BUILDER_FINISHED,
     txHash = \<lparr>initialized_magic = 0, absorbed = []\<rparr>\<rparr>"

subsection \<open>Inputs\<close>

definition in_state :: "tx_hash_builder_state_t \<Rightarrow> tx_hash_builder_t stmt" where
  "in_state s = assert_that (\<lambda>b. txState b = s)"

definition goto_state :: "tx_hash_builder_state_t \<Rightarrow> tx_hash_builder_t stmt" where
  "goto_state s = modify (\<lambda>b. b\<lparr>txState := s\<rparr>)"

text \<open>The head of a list whose length is one of the builder's counters.\<close>

definition tx_append_count :: "u8 \<Rightarrow> (tx_hash_builder_t \<Rightarrow> u16) \<Rightarrow> tx_hash_builder_t stmt" where
  "tx_append_count type count b = tx_append_cbor type (ucast (count b)) b"

definition assertCanLeaveInit :: "tx_hash_builder_t stmt" where
  "assertCanLeaveInit = in_state TX_HASH_BUILDER_INIT"

definition txHashBuilder_enterInputs :: "tx_hash_builder_t stmt" where
  "txHashBuilder_enterInputs = seq
     [assertCanLeaveInit,
      tx_append_cbor CBOR_TYPE_UNSIGNED TX_BODY_KEY_INPUTS,
      tx_tag_cbor_set,
      tx_append_count CBOR_TYPE_ARRAY remainingInputs,
      goto_state TX_HASH_BUILDER_IN_INPUTS]"

definition txHashBuilder_addInput :: "tx_input_t \<Rightarrow> tx_hash_builder_t stmt" where
  "txHashBuilder_addInput input = seq
     [in_state TX_HASH_BUILDER_IN_INPUTS,
      assert_that (\<lambda>b. remainingInputs b > 0),
      modify (\<lambda>b. b\<lparr>remainingInputs := remainingInputs b - 1\<rparr>),
      cbor_append_txInput (inputTxHash input) (inputIndex input)]"

definition assertCanLeaveInputs :: "tx_hash_builder_t stmt" where
  "assertCanLeaveInputs = seq
     [in_state TX_HASH_BUILDER_IN_INPUTS, assert_that (\<lambda>b. remainingInputs b = 0)]"

subsection \<open>Outputs\<close>

definition txHashBuilder_enterOutputs :: "tx_hash_builder_t stmt" where
  "txHashBuilder_enterOutputs = seq
     [assertCanLeaveInputs,
      tx_append_cbor CBOR_TYPE_UNSIGNED TX_BODY_KEY_OUTPUTS,
      tx_append_count CBOR_TYPE_ARRAY remainingOutputs,
      goto_state TX_HASH_BUILDER_IN_OUTPUTS,
      modify (set_outputState TX_OUTPUT_INIT)]"

definition txHashBuilder_addOutput_topLevelData ::
  "'p tx_output_description_t \<Rightarrow> tx_hash_builder_t stmt" where
  "txHashBuilder_addOutput_topLevelData out = seq
     [in_state TX_HASH_BUILDER_IN_OUTPUTS,
      assert_that (\<lambda>b. remainingOutputs b > 0),
      modify (\<lambda>b. b\<lparr>remainingOutputs := remainingOutputs b - 1\<rparr>),
      assertCanLeaveCurrentOutput,
      processOutputTopLevel out,
      modify (set_outputState TX_OUTPUT_TOP_LEVEL_DATA)]"

definition addTokenGroup :: "bytes \<Rightarrow> u16 \<Rightarrow> tx_hash_builder_t stmt" where
  "addTokenGroup policyId numTokens = seq
     [with_field outputState (\<lambda>os.
        case os of
          TX_OUTPUT_ASSET_GROUP \<Rightarrow> assert_field remainingTokens (\<lambda>n. n = 0)
        | TX_OUTPUT_TOP_LEVEL_DATA \<Rightarrow> modify id
        | _ \<Rightarrow> assert_that (\<lambda>_. False)),
      with_field remainingAssetGroups (\<lambda>n. seq
        [assert_that (\<lambda>_. n > 0), modify (set_remainingAssetGroups (n - 1))]),
      assert_that (\<lambda>_. length policyId = MINTING_POLICY_ID_SIZE),
      assert_that (\<lambda>_. numTokens > 0),
      modify (set_remainingTokens numTokens),
      tx_append_bytes policyId,
      tx_append_cbor CBOR_TYPE_MAP (ucast numTokens),
      modify (set_outputState TX_OUTPUT_ASSET_GROUP)]"

definition addToken :: "bytes \<Rightarrow> u64 \<Rightarrow> u8 \<Rightarrow> tx_hash_builder_t stmt" where
  "addToken assetName amount typeTag = seq
     [with_field outputState (\<lambda>os. assert_that (\<lambda>_. os = TX_OUTPUT_ASSET_GROUP)),
      with_field remainingTokens (\<lambda>n. seq
        [assert_that (\<lambda>_. n > 0), modify (set_remainingTokens (n - 1))]),
      assert_that (\<lambda>_. length assetName \<le> ASSET_NAME_SIZE_MAX),
      tx_append_bytes assetName,
      tx_append_cbor typeTag amount,
      modify (set_outputState TX_OUTPUT_ASSET_GROUP)]"

definition txHashBuilder_addOutput_tokenGroup :: "bytes \<Rightarrow> u16 \<Rightarrow> tx_hash_builder_t stmt" where
  "txHashBuilder_addOutput_tokenGroup policyId numTokens = seq
     [in_state TX_HASH_BUILDER_IN_OUTPUTS, addTokenGroup policyId numTokens]"

definition txHashBuilder_addOutput_token :: "bytes \<Rightarrow> u64 \<Rightarrow> tx_hash_builder_t stmt" where
  "txHashBuilder_addOutput_token assetName amount = seq
     [in_state TX_HASH_BUILDER_IN_OUTPUTS, addToken assetName amount CBOR_TYPE_UNSIGNED]"

text \<open>What must have been added before a datum or a reference script may follow.\<close>

definition assert_tokens_done :: "tx_hash_builder_output_state_t \<Rightarrow> tx_hash_builder_t stmt" where
  "assert_tokens_done os =
     (case os of
        TX_OUTPUT_TOP_LEVEL_DATA \<Rightarrow> assert_field remainingAssetGroups (\<lambda>n. n = 0)
      | TX_OUTPUT_ASSET_GROUP \<Rightarrow> seq
          [assert_field remainingTokens (\<lambda>n. n = 0),
           assert_field remainingAssetGroups (\<lambda>n. n = 0)]
      | _ \<Rightarrow> assert_that (\<lambda>_. False))"

definition txHashBuilder_addOutput_datum ::
  "datum_type_t \<Rightarrow> bytes \<Rightarrow> nat \<Rightarrow> tx_hash_builder_t stmt" where
  "txHashBuilder_addOutput_datum datumType buffer bufferSize = seq
     [assert_field includeDatum (\<lambda>d. d),
      with_field outputState assert_tokens_done,
      with_field serializationFormat (\<lambda>fmt. do_if (fmt = MAP_BABBAGE) (seq
        [tx_append_cbor CBOR_TYPE_UNSIGNED TX_OUTPUT_KEY_DATUM_OPTION,
         tx_append_cbor CBOR_TYPE_ARRAY 2,
         tx_append_cbor CBOR_TYPE_UNSIGNED (datum_type_value datumType)])),
      (case datumType of
         DATUM_HASH \<Rightarrow> seq
           [assert_that (\<lambda>_. bufferSize = OUTPUT_DATUM_HASH_LENGTH),
            modify (set_datumBytes bufferSize),
            tx_append_cbor CBOR_TYPE_BYTES (word_of_nat bufferSize),
            tx_append_data (take bufferSize buffer),
            modify (set_outputState TX_OUTPUT_DATUM_HASH)]
       | DATUM_INLINE \<Rightarrow> seq
           [assert_field serializationFormat (\<lambda>fmt. fmt = MAP_BABBAGE),
            assert_that (\<lambda>_. bufferSize < BUFFER_SIZE_PARANOIA),
            modify (set_datumBytes bufferSize),
            tx_append_cbor CBOR_TYPE_TAG CBOR_TAG_EMBEDDED_CBOR_BYTE_STRING,
            tx_append_cbor CBOR_TYPE_BYTES (word_of_nat bufferSize),
            modify (set_outputState TX_OUTPUT_DATUM_INLINE)])]"

definition txHashBuilder_addOutput_datum_inline_chunk :: "bytes \<Rightarrow> tx_hash_builder_t stmt" where
  "txHashBuilder_addOutput_datum_inline_chunk buffer = seq
     [with_field outputState (\<lambda>os. assert_that (\<lambda>_. os = TX_OUTPUT_DATUM_INLINE)),
      with_field datumRemainingBytes (\<lambda>n. seq
        [assert_that (\<lambda>_. length buffer \<le> n), modify (set_datumBytes (n - length buffer))]),
      tx_append_data buffer]"

definition txHashBuilder_addOutput_referenceScript :: "nat \<Rightarrow> tx_hash_builder_t stmt" where
  "txHashBuilder_addOutput_referenceScript scriptSize = seq
     [assert_field includeRefScript (\<lambda>r. r),
      with_field outputState (\<lambda>os.
        case os of
          TX_OUTPUT_DATUM_HASH \<Rightarrow> modify id
        | TX_OUTPUT_DATUM_INLINE \<Rightarrow> assert_field datumRemainingBytes (\<lambda>n. n = 0)
        | _ \<Rightarrow> assert_tokens_done os),
      tx_append_cbor CBOR_TYPE_UNSIGNED TX_OUTPUT_KEY_SCRIPT_REF,
      tx_append_cbor CBOR_TYPE_TAG CBOR_TAG_EMBEDDED_CBOR_BYTE_STRING,
      tx_append_cbor CBOR_TYPE_BYTES (word_of_nat scriptSize),
      modify (set_refScriptBytes scriptSize),
      modify (set_outputState TX_OUTPUT_SCRIPT_REFERENCE_CHUNKS)]"

definition txHashBuilder_addOutput_referenceScript_dataChunk ::
  "bytes \<Rightarrow> tx_hash_builder_t stmt" where
  "txHashBuilder_addOutput_referenceScript_dataChunk buffer = seq
     [with_field outputState (\<lambda>os. assert_that (\<lambda>_. os = TX_OUTPUT_SCRIPT_REFERENCE_CHUNKS)),
      tx_append_data buffer,
      with_field refScriptRemainingBytes (\<lambda>n. seq
        [assert_that (\<lambda>_. length buffer \<le> n), modify (set_refScriptBytes (n - length buffer))])]"

definition assertCanLeaveOutputs :: "tx_hash_builder_t stmt" where
  "assertCanLeaveOutputs = seq
     [in_state TX_HASH_BUILDER_IN_OUTPUTS,
      assert_that (\<lambda>b. remainingOutputs b = 0),
      assertCanLeaveCurrentOutput]"

subsection \<open>Leaving an optional part\<close>

text \<open>
  Every optional part has the same \<open>assertCanLeave\<close> switch: in the part's own state what it
  still expects must have been received; in any other state the part must not have been
  announced, and the part before it must be left in the same way.
\<close>

definition can_leave ::
  "tx_hash_builder_state_t \<Rightarrow> tx_hash_builder_t stmt \<Rightarrow> (tx_hash_builder_t \<Rightarrow> bool) \<Rightarrow>
   tx_hash_builder_t stmt \<Rightarrow> tx_hash_builder_t stmt" where
  "can_leave own finished announced previous b =
     (if txState b = own then finished b
      else seq [assert_that (\<lambda>b. \<not> announced b), previous] b)"

subsection \<open>Fee and time to live\<close>

definition txHashBuilder_addFee :: "u64 \<Rightarrow> tx_hash_builder_t stmt" where
  "txHashBuilder_addFee fee = seq
     [assertCanLeaveOutputs,
      tx_append_cbor CBOR_TYPE_UNSIGNED TX_BODY_KEY_FEE,
      tx_append_cbor CBOR_TYPE_UNSIGNED fee,
      goto_state TX_HASH_BUILDER_IN_FEE]"

definition assertCanLeaveFee :: "tx_hash_builder_t stmt" where
  "assertCanLeaveFee = in_state TX_HASH_BUILDER_IN_FEE"

definition txHashBuilder_addTtl :: "u64 \<Rightarrow> tx_hash_builder_t stmt" where
  "txHashBuilder_addTtl ttl = seq
     [assertCanLeaveFee,
      assert_that includeTtl,
      tx_append_cbor CBOR_TYPE_UNSIGNED TX_BODY_KEY_TTL,
      tx_append_cbor CBOR_TYPE_UNSIGNED ttl,
      goto_state TX_HASH_BUILDER_IN_TTL]"

definition assertCanLeaveTtl :: "tx_hash_builder_t stmt" where
  "assertCanLeaveTtl =
     can_leave TX_HASH_BUILDER_IN_TTL (modify id) includeTtl assertCanLeaveFee"

subsection \<open>Certificates\<close>

definition txHashBuilder_enterCertificates :: "tx_hash_builder_t stmt" where
  "txHashBuilder_enterCertificates = seq
     [assertCanLeaveTtl,
      assert_that (\<lambda>b. remainingCertificates b > 0),
      tx_append_cbor CBOR_TYPE_UNSIGNED TX_BODY_KEY_CERTIFICATES,
      tx_tag_cbor_set,
      tx_append_count CBOR_TYPE_ARRAY remainingCertificates,
      modify (set_remainingOwners 0),
      modify (set_remainingRelays 0),
      goto_state TX_HASH_BUILDER_IN_CERTIFICATES]"

definition initNewCertificate :: "tx_hash_builder_t stmt" where
  "initNewCertificate = seq
     [in_state TX_HASH_BUILDER_IN_CERTIFICATES,
      assert_that (\<lambda>b. remainingCertificates b > 0),
      modify (\<lambda>b. b\<lparr>remainingCertificates := remainingCertificates b - 1\<rparr>)]"

definition appendCredential :: "credential_t \<Rightarrow> tx_hash_builder_t stmt" where
  "appendCredential credential = seq
     [tx_append_cbor CBOR_TYPE_ARRAY 2,
      tx_append_cbor CBOR_TYPE_UNSIGNED (credential_type_value (credType credential)),
      tx_append_bytes (credHash credential)]"

definition append_certificate :: "u64 \<Rightarrow> certificate_type_t \<Rightarrow> tx_hash_builder_t stmt" where
  "append_certificate arity certificateType = seq
     [tx_append_cbor CBOR_TYPE_ARRAY arity,
      tx_append_cbor CBOR_TYPE_UNSIGNED (certificate_type_value certificateType)]"

definition txHashBuilder_addCertificate_stakingOld ::
  "certificate_type_t \<Rightarrow> credential_t \<Rightarrow> tx_hash_builder_t stmt" where
  "txHashBuilder_addCertificate_stakingOld certificateType stakeCredential = seq
     [initNewCertificate,
      assert_that (\<lambda>_. certificateType = CERTIFICATE_STAKE_REGISTRATION \<or>
        certificateType = CERTIFICATE_STAKE_DEREGISTRATION),
      append_certificate 2 certificateType,
      appendCredential stakeCredential]"

definition txHashBuilder_addCertificate_staking ::
  "certificate_type_t \<Rightarrow> credential_t \<Rightarrow> u64 \<Rightarrow> tx_hash_builder_t stmt" where
  "txHashBuilder_addCertificate_staking certificateType stakeCredential deposit = seq
     [initNewCertificate,
      assert_that (\<lambda>_. certificateType = CERTIFICATE_STAKE_REGISTRATION_CONWAY \<or>
        certificateType = CERTIFICATE_STAKE_DEREGISTRATION_CONWAY),
      append_certificate 3 certificateType,
      appendCredential stakeCredential,
      tx_append_cbor CBOR_TYPE_UNSIGNED deposit]"

definition txHashBuilder_addCertificate_stakeDelegation ::
  "credential_t \<Rightarrow> bytes \<Rightarrow> tx_hash_builder_t stmt" where
  "txHashBuilder_addCertificate_stakeDelegation stakeCredential poolKeyHash = seq
     [initNewCertificate,
      assert_that (\<lambda>_. length poolKeyHash = POOL_KEY_HASH_LENGTH),
      append_certificate 3 CERTIFICATE_STAKE_DELEGATION,
      appendCredential stakeCredential,
      tx_append_bytes poolKeyHash]"

definition append_drep :: "drep_t \<Rightarrow> tx_hash_builder_t stmt" where
  "append_drep drep =
     (case drep of
        DREP_KEY_HASH keyHash \<Rightarrow> seq
          [tx_append_cbor CBOR_TYPE_ARRAY 2, tx_append_cbor CBOR_TYPE_UNSIGNED 0,
           tx_append_bytes keyHash]
      | DREP_SCRIPT_HASH scriptHash \<Rightarrow> seq
          [tx_append_cbor CBOR_TYPE_ARRAY 2, tx_append_cbor CBOR_TYPE_UNSIGNED 1,
           tx_append_bytes scriptHash]
      | DREP_ALWAYS_ABSTAIN \<Rightarrow> seq
          [tx_append_cbor CBOR_TYPE_ARRAY 1, tx_append_cbor CBOR_TYPE_UNSIGNED 2]
      | DREP_ALWAYS_NO_CONFIDENCE \<Rightarrow> seq
          [tx_append_cbor CBOR_TYPE_ARRAY 1, tx_append_cbor CBOR_TYPE_UNSIGNED 3])"

definition txHashBuilder_addCertificate_voteDelegation ::
  "credential_t \<Rightarrow> drep_t \<Rightarrow> tx_hash_builder_t stmt" where
  "txHashBuilder_addCertificate_voteDelegation stakeCredential drep = seq
     [initNewCertificate,
      append_certificate 3 CERTIFICATE_VOTE_DELEGATION,
      appendCredential stakeCredential,
      append_drep drep]"

definition txHashBuilder_addCertificate_committeeAuthHot ::
  "credential_t \<Rightarrow> credential_t \<Rightarrow> tx_hash_builder_t stmt" where
  "txHashBuilder_addCertificate_committeeAuthHot coldCredential hotCredential = seq
     [initNewCertificate,
      append_certificate 3 CERTIFICATE_AUTHORIZE_COMMITTEE_HOT,
      appendCredential coldCredential,
      appendCredential hotCredential]"

definition appendAnchor :: "anchor_t \<Rightarrow> tx_hash_builder_t stmt" where
  "appendAnchor anchor =
     (if anchorIsIncluded anchor then seq
        [tx_append_cbor CBOR_TYPE_ARRAY 2,
         tx_append_text (anchorUrl anchor),
         tx_append_bytes (anchorHash anchor)]
      else tx_append_cbor CBOR_TYPE_NULL 0)"

definition txHashBuilder_addCertificate_committeeResign ::
  "credential_t \<Rightarrow> anchor_t \<Rightarrow> tx_hash_builder_t stmt" where
  "txHashBuilder_addCertificate_committeeResign coldCredential anchor = seq
     [initNewCertificate,
      append_certificate 3 CERTIFICATE_RESIGN_COMMITTEE_COLD,
      appendCredential coldCredential,
      appendAnchor anchor]"

definition txHashBuilder_addCertificate_dRepRegistration ::
  "credential_t \<Rightarrow> u64 \<Rightarrow> anchor_t \<Rightarrow> tx_hash_builder_t stmt" where
  "txHashBuilder_addCertificate_dRepRegistration dRepCredential deposit anchor = seq
     [initNewCertificate,
      append_certificate 4 CERTIFICATE_DREP_REGISTRATION,
      appendCredential dRepCredential,
      tx_append_cbor CBOR_TYPE_UNSIGNED deposit,
      appendAnchor anchor]"

definition txHashBuilder_addCertificate_dRepDeregistration ::
  "credential_t \<Rightarrow> u64 \<Rightarrow> tx_hash_builder_t stmt" where
  "txHashBuilder_addCertificate_dRepDeregistration dRepCredential deposit = seq
     [initNewCertificate,
      append_certificate 3 CERTIFICATE_DREP_DEREGISTRATION,
      appendCredential dRepCredential,
      tx_append_cbor CBOR_TYPE_UNSIGNED deposit]"

definition txHashBuilder_addCertificate_dRepUpdate ::
  "credential_t \<Rightarrow> anchor_t \<Rightarrow> tx_hash_builder_t stmt" where
  "txHashBuilder_addCertificate_dRepUpdate dRepCredential anchor = seq
     [initNewCertificate,
      append_certificate 3 CERTIFICATE_DREP_UPDATE,
      appendCredential dRepCredential,
      appendAnchor anchor]"

definition txHashBuilder_addCertificate_poolRetirement ::
  "bytes \<Rightarrow> u64 \<Rightarrow> tx_hash_builder_t stmt" where
  "txHashBuilder_addCertificate_poolRetirement poolKeyHash epoch = seq
     [initNewCertificate,
      assert_that (\<lambda>_. length poolKeyHash = POOL_KEY_HASH_LENGTH),
      append_certificate 3 CERTIFICATE_STAKE_POOL_RETIREMENT,
      tx_append_bytes poolKeyHash,
      tx_append_cbor CBOR_TYPE_UNSIGNED epoch]"

subsection \<open>Pool registration certificates\<close>

definition txHashBuilder_poolRegistrationCertificate_enter ::
  "u16 \<Rightarrow> u16 \<Rightarrow> tx_hash_builder_t stmt" where
  "txHashBuilder_poolRegistrationCertificate_enter numOwners numRelays = seq
     [initNewCertificate,
      assert_field remainingOwners (\<lambda>n. n = 0),
      modify (set_remainingOwners numOwners),
      assert_field remainingRelays (\<lambda>n. n = 0),
      modify (set_remainingRelays numRelays),
      append_certificate 10 CERTIFICATE_STAKE_POOL_REGISTRATION,
      goto_state TX_HASH_BUILDER_IN_CERTIFICATES_POOL_INIT]"

definition txHashBuilder_poolRegistrationCertificate_poolKeyHash ::
  "bytes \<Rightarrow> tx_hash_builder_t stmt" where
  "txHashBuilder_poolRegistrationCertificate_poolKeyHash poolKeyHash = seq
     [in_state TX_HASH_BUILDER_IN_CERTIFICATES_POOL_INIT,
      assert_that (\<lambda>_. length poolKeyHash = POOL_KEY_HASH_LENGTH),
      tx_append_bytes poolKeyHash,
      goto_state TX_HASH_BUILDER_IN_CERTIFICATES_POOL_KEY_HASH]"

definition txHashBuilder_poolRegistrationCertificate_vrfKeyHash ::
  "bytes \<Rightarrow> tx_hash_builder_t stmt" where
  "txHashBuilder_poolRegistrationCertificate_vrfKeyHash vrfKeyHash = seq
     [in_state TX_HASH_BUILDER_IN_CERTIFICATES_POOL_KEY_HASH,
      assert_that (\<lambda>_. length vrfKeyHash = VRF_KEY_HASH_LENGTH),
      tx_append_bytes vrfKeyHash,
      goto_state TX_HASH_BUILDER_IN_CERTIFICATES_POOL_VRF]"

definition txHashBuilder_poolRegistrationCertificate_financials ::
  "u64 \<Rightarrow> u64 \<Rightarrow> u64 \<Rightarrow> u64 \<Rightarrow> tx_hash_builder_t stmt" where
  "txHashBuilder_poolRegistrationCertificate_financials pledge cost marginNumerator
     marginDenominator = seq
     [in_state TX_HASH_BUILDER_IN_CERTIFICATES_POOL_VRF,
      tx_append_cbor CBOR_TYPE_UNSIGNED pledge,
      tx_append_cbor CBOR_TYPE_UNSIGNED cost,
      tx_append_cbor CBOR_TYPE_TAG CBOR_TAG_UNIT_INTERVAL,
      tx_append_cbor CBOR_TYPE_ARRAY 2,
      tx_append_cbor CBOR_TYPE_UNSIGNED marginNumerator,
      tx_append_cbor CBOR_TYPE_UNSIGNED marginDenominator,
      goto_state TX_HASH_BUILDER_IN_CERTIFICATES_POOL_FINANCIALS]"

definition txHashBuilder_poolRegistrationCertificate_rewardAccount ::
  "bytes \<Rightarrow> tx_hash_builder_t stmt" where
  "txHashBuilder_poolRegistrationCertificate_rewardAccount rewardAccount = seq
     [in_state TX_HASH_BUILDER_IN_CERTIFICATES_POOL_FINANCIALS,
      assert_that (\<lambda>_. length rewardAccount = REWARD_ACCOUNT_SIZE),
      tx_append_bytes rewardAccount,
      goto_state TX_HASH_BUILDER_IN_CERTIFICATES_POOL_REWARD_ACCOUNT]"

definition txHashBuilder_addPoolRegistrationCertificate_enterOwners :: "tx_hash_builder_t stmt" where
  "txHashBuilder_addPoolRegistrationCertificate_enterOwners = seq
     [in_state TX_HASH_BUILDER_IN_CERTIFICATES_POOL_REWARD_ACCOUNT,
      tx_tag_cbor_set,
      with_field remainingOwners (\<lambda>n. tx_append_cbor CBOR_TYPE_ARRAY (ucast n)),
      goto_state TX_HASH_BUILDER_IN_CERTIFICATES_POOL_OWNERS]"

definition txHashBuilder_addPoolRegistrationCertificate_addOwner ::
  "bytes \<Rightarrow> tx_hash_builder_t stmt" where
  "txHashBuilder_addPoolRegistrationCertificate_addOwner stakingKeyHash = seq
     [in_state TX_HASH_BUILDER_IN_CERTIFICATES_POOL_OWNERS,
      with_field remainingOwners (\<lambda>n. seq
        [assert_that (\<lambda>_. n > 0), modify (set_remainingOwners (n - 1))]),
      assert_that (\<lambda>_. length stakingKeyHash = ADDRESS_KEY_HASH_LENGTH),
      tx_append_bytes stakingKeyHash]"

definition txHashBuilder_addPoolRegistrationCertificate_enterRelays :: "tx_hash_builder_t stmt" where
  "txHashBuilder_addPoolRegistrationCertificate_enterRelays = seq
     [(\<lambda>b. do_if (txState b = TX_HASH_BUILDER_IN_CERTIFICATES_POOL_REWARD_ACCOUNT) (seq
        [assert_field remainingOwners (\<lambda>n. n = 0),
         txHashBuilder_addPoolRegistrationCertificate_enterOwners]) b),
      in_state TX_HASH_BUILDER_IN_CERTIFICATES_POOL_OWNERS,
      assert_field remainingOwners (\<lambda>n. n = 0),
      with_field remainingRelays (\<lambda>n. tx_append_cbor CBOR_TYPE_ARRAY (ucast n)),
      goto_state TX_HASH_BUILDER_IN_CERTIFICATES_POOL_RELAYS]"

definition relay_addPort :: "u16 option \<Rightarrow> tx_hash_builder_t stmt" where
  "relay_addPort port = seq
     [in_state TX_HASH_BUILDER_IN_CERTIFICATES_POOL_RELAYS,
      (case port of None \<Rightarrow> tx_append_cbor CBOR_TYPE_NULL 0
       | Some n \<Rightarrow> tx_append_cbor CBOR_TYPE_UNSIGNED (ucast n))]"

definition relay_addIpv4 :: "bytes option \<Rightarrow> tx_hash_builder_t stmt" where
  "relay_addIpv4 ipv4 = seq
     [in_state TX_HASH_BUILDER_IN_CERTIFICATES_POOL_RELAYS,
      (case ipv4 of None \<Rightarrow> tx_append_cbor CBOR_TYPE_NULL 0
       | Some ip \<Rightarrow> tx_append_bytes ip)]"

text \<open>
  The sixteen bytes are read as four \<open>uint32_t\<close> of the (little-endian) target and written
  big-endian, which reverses each group of four.
\<close>

definition ipv6_as_be_words :: "bytes \<Rightarrow> bytes" where
  "ipv6_as_be_words ip = concat (map (\<lambda>i. rev (take 4 (drop (4 * i) ip))) [0..<4])"

definition relay_addIpv6 :: "bytes option \<Rightarrow> tx_hash_builder_t stmt" where
  "relay_addIpv6 ipv6 = seq
     [in_state TX_HASH_BUILDER_IN_CERTIFICATES_POOL_RELAYS,
      (case ipv6 of None \<Rightarrow> tx_append_cbor CBOR_TYPE_NULL 0
       | Some ip \<Rightarrow> seq
           [tx_append_cbor CBOR_TYPE_BYTES (word_of_nat IPV6_SIZE),
            tx_append_data (ipv6_as_be_words ip)])]"

definition relay_addDnsName :: "pool_relay_t \<Rightarrow> tx_hash_builder_t stmt" where
  "relay_addDnsName relay = seq
     [in_state TX_HASH_BUILDER_IN_CERTIFICATES_POOL_RELAYS,
      assert_that (\<lambda>_. length (relayDnsName relay) \<le> DNS_NAME_SIZE_MAX),
      tx_append_text (relayDnsName relay)]"

definition txHashBuilder_addPoolRegistrationCertificate_addRelay ::
  "pool_relay_t \<Rightarrow> tx_hash_builder_t stmt" where
  "txHashBuilder_addPoolRegistrationCertificate_addRelay relay = seq
     [in_state TX_HASH_BUILDER_IN_CERTIFICATES_POOL_RELAYS,
      with_field remainingRelays (\<lambda>n. seq
        [assert_that (\<lambda>_. n > 0), modify (set_remainingRelays (n - 1))]),
      (case relayFormat relay of
         RELAY_SINGLE_HOST_IP \<Rightarrow> seq
           [tx_append_cbor CBOR_TYPE_ARRAY 4, tx_append_cbor CBOR_TYPE_UNSIGNED 0,
            relay_addPort (relayPort relay), relay_addIpv4 (relayIpv4 relay),
            relay_addIpv6 (relayIpv6 relay)]
       | RELAY_SINGLE_HOST_NAME \<Rightarrow> seq
           [tx_append_cbor CBOR_TYPE_ARRAY 3, tx_append_cbor CBOR_TYPE_UNSIGNED 1,
            relay_addPort (relayPort relay), relay_addDnsName relay]
       | RELAY_MULTIPLE_HOST_NAME \<Rightarrow> seq
           [tx_append_cbor CBOR_TYPE_ARRAY 2, tx_append_cbor CBOR_TYPE_UNSIGNED 2,
            relay_addDnsName relay])]"

text \<open>The switch falls through: from its case on, each later case runs as well.\<close>

definition updateState_from_relays :: "tx_hash_builder_t stmt" where
  "updateState_from_relays = assert_field remainingRelays (\<lambda>n. n = 0)"

definition updateState_from_owners :: "tx_hash_builder_t stmt" where
  "updateState_from_owners = seq
     [assert_field remainingRelays (\<lambda>n. n = 0),
      txHashBuilder_addPoolRegistrationCertificate_enterRelays,
      updateState_from_relays]"

definition addPoolMetadata_updateState :: "tx_hash_builder_t stmt" where
  "addPoolMetadata_updateState = seq
     [(\<lambda>b. case txState b of
         TX_HASH_BUILDER_IN_CERTIFICATES_POOL_REWARD_ACCOUNT \<Rightarrow> seq
           [assert_field remainingOwners (\<lambda>n. n = 0),
            txHashBuilder_addPoolRegistrationCertificate_enterOwners,
            updateState_from_owners] b
       | TX_HASH_BUILDER_IN_CERTIFICATES_POOL_OWNERS \<Rightarrow> updateState_from_owners b
       | TX_HASH_BUILDER_IN_CERTIFICATES_POOL_RELAYS \<Rightarrow> updateState_from_relays b
       | _ \<Rightarrow> Inl ERR_ASSERT),
      goto_state TX_HASH_BUILDER_IN_CERTIFICATES_POOL_METADATA]"

definition txHashBuilder_addPoolRegistrationCertificate_addPoolMetadata ::
  "bytes \<Rightarrow> bytes \<Rightarrow> tx_hash_builder_t stmt" where
  "txHashBuilder_addPoolRegistrationCertificate_addPoolMetadata url metadataHash = seq
     [addPoolMetadata_updateState,
      in_state TX_HASH_BUILDER_IN_CERTIFICATES_POOL_METADATA,
      assert_that (\<lambda>_. length metadataHash = POOL_METADATA_HASH_LENGTH),
      tx_append_cbor CBOR_TYPE_ARRAY 2,
      tx_append_text url,
      tx_append_bytes metadataHash,
      goto_state TX_HASH_BUILDER_IN_CERTIFICATES]"

definition txHashBuilder_addPoolRegistrationCertificate_addPoolMetadata_null ::
  "tx_hash_builder_t stmt" where
  "txHashBuilder_addPoolRegistrationCertificate_addPoolMetadata_null = seq
     [addPoolMetadata_updateState,
      in_state TX_HASH_BUILDER_IN_CERTIFICATES_POOL_METADATA,
      tx_append_cbor CBOR_TYPE_NULL 0,
      goto_state TX_HASH_BUILDER_IN_CERTIFICATES]"

definition assertCanLeaveCertificates :: "tx_hash_builder_t stmt" where
  "assertCanLeaveCertificates = can_leave TX_HASH_BUILDER_IN_CERTIFICATES
     (assert_that (\<lambda>b. remainingCertificates b = 0))
     (\<lambda>b. remainingCertificates b \<noteq> 0) assertCanLeaveTtl"

subsection \<open>Withdrawals, auxiliary data, validity interval\<close>

definition txHashBuilder_enterWithdrawals :: "tx_hash_builder_t stmt" where
  "txHashBuilder_enterWithdrawals = seq
     [assertCanLeaveCertificates,
      assert_that (\<lambda>b. remainingWithdrawals b > 0),
      tx_append_cbor CBOR_TYPE_UNSIGNED TX_BODY_KEY_WITHDRAWALS,
      tx_append_count CBOR_TYPE_MAP remainingWithdrawals,
      goto_state TX_HASH_BUILDER_IN_WITHDRAWALS]"

definition txHashBuilder_addWithdrawal :: "bytes \<Rightarrow> u64 \<Rightarrow> tx_hash_builder_t stmt" where
  "txHashBuilder_addWithdrawal rewardAddress amount = seq
     [in_state TX_HASH_BUILDER_IN_WITHDRAWALS,
      assert_that (\<lambda>b. remainingWithdrawals b > 0),
      modify (\<lambda>b. b\<lparr>remainingWithdrawals := remainingWithdrawals b - 1\<rparr>),
      assert_that (\<lambda>_. length rewardAddress = REWARD_ACCOUNT_SIZE),
      tx_append_bytes rewardAddress,
      tx_append_cbor CBOR_TYPE_UNSIGNED amount]"

definition assertCanLeaveWithdrawals :: "tx_hash_builder_t stmt" where
  "assertCanLeaveWithdrawals = can_leave TX_HASH_BUILDER_IN_WITHDRAWALS
     (assert_that (\<lambda>b. remainingWithdrawals b = 0))
     (\<lambda>b. remainingWithdrawals b \<noteq> 0) assertCanLeaveCertificates"

definition txHashBuilder_addAuxData :: "bytes \<Rightarrow> tx_hash_builder_t stmt" where
  "txHashBuilder_addAuxData auxDataHash = seq
     [assertCanLeaveWithdrawals,
      assert_that includeAuxData,
      assert_that (\<lambda>_. length auxDataHash = AUX_DATA_HASH_LENGTH),
      tx_append_cbor CBOR_TYPE_UNSIGNED TX_BODY_KEY_AUX_DATA,
      tx_append_bytes auxDataHash,
      goto_state TX_HASH_BUILDER_IN_AUX_DATA]"

definition assertCanLeaveAuxData :: "tx_hash_builder_t stmt" where
  "assertCanLeaveAuxData = can_leave TX_HASH_BUILDER_IN_AUX_DATA
     (modify id)
     includeAuxData assertCanLeaveWithdrawals"

definition txHashBuilder_addValidityIntervalStart :: "u64 \<Rightarrow> tx_hash_builder_t stmt" where
  "txHashBuilder_addValidityIntervalStart validityIntervalStart = seq
     [assertCanLeaveAuxData,
      assert_that includeValidityIntervalStart,
      tx_append_cbor CBOR_TYPE_UNSIGNED TX_BODY_KEY_VALIDITY_INTERVAL_START,
      tx_append_cbor CBOR_TYPE_UNSIGNED validityIntervalStart,
      goto_state TX_HASH_BUILDER_IN_VALIDITY_INTERVAL_START]"

definition assertCanLeaveValidityIntervalStart :: "tx_hash_builder_t stmt" where
  "assertCanLeaveValidityIntervalStart = can_leave TX_HASH_BUILDER_IN_VALIDITY_INTERVAL_START
     (modify id)
     includeValidityIntervalStart assertCanLeaveAuxData"

subsection \<open>Mint\<close>

definition txHashBuilder_enterMint :: "tx_hash_builder_t stmt" where
  "txHashBuilder_enterMint = seq
     [assertCanLeaveValidityIntervalStart,
      assert_that includeMint,
      tx_append_cbor CBOR_TYPE_UNSIGNED TX_BODY_KEY_MINT,
      goto_state TX_HASH_BUILDER_IN_MINT]"

definition txHashBuilder_addMint_topLevelData :: "u16 \<Rightarrow> tx_hash_builder_t stmt" where
  "txHashBuilder_addMint_topLevelData numAssetGroups = seq
     [in_state TX_HASH_BUILDER_IN_MINT,
      assert_that (\<lambda>_. numAssetGroups > 0),
      modify (set_remainingAssetGroups numAssetGroups),
      tx_append_cbor CBOR_TYPE_MAP (ucast numAssetGroups),
      modify (set_outputState TX_OUTPUT_TOP_LEVEL_DATA)]"

definition txHashBuilder_addMint_tokenGroup :: "bytes \<Rightarrow> u16 \<Rightarrow> tx_hash_builder_t stmt" where
  "txHashBuilder_addMint_tokenGroup policyId numTokens = seq
     [in_state TX_HASH_BUILDER_IN_MINT, addTokenGroup policyId numTokens]"

text \<open>\<open>amount\<close> is an \<open>int64_t\<close>, handed on as the \<open>uint64_t\<close> with the same bits.\<close>

definition txHashBuilder_addMint_token :: "bytes \<Rightarrow> u64 \<Rightarrow> tx_hash_builder_t stmt" where
  "txHashBuilder_addMint_token assetName amount = seq
     [in_state TX_HASH_BUILDER_IN_MINT,
      addToken assetName amount
        (if sint amount < 0 then CBOR_TYPE_NEGATIVE else CBOR_TYPE_UNSIGNED)]"

definition assertCanLeaveMint :: "tx_hash_builder_t stmt" where
  "assertCanLeaveMint = can_leave TX_HASH_BUILDER_IN_MINT
     (seq [with_field outputState (\<lambda>os. assert_that (\<lambda>_. os = TX_OUTPUT_ASSET_GROUP)),
           assert_field remainingAssetGroups (\<lambda>n. n = 0),
           assert_field remainingTokens (\<lambda>n. n = 0)])
     includeMint assertCanLeaveValidityIntervalStart"

subsection \<open>Script data hash, collateral inputs, required signers, network id\<close>

definition txHashBuilder_addScriptDataHash :: "bytes \<Rightarrow> tx_hash_builder_t stmt" where
  "txHashBuilder_addScriptDataHash scriptHashData = seq
     [assertCanLeaveMint,
      assert_that includeScriptDataHash,
      assert_that (\<lambda>_. length scriptHashData = SCRIPT_DATA_HASH_LENGTH),
      tx_append_cbor CBOR_TYPE_UNSIGNED TX_BODY_KEY_SCRIPT_HASH_DATA,
      tx_append_bytes scriptHashData,
      goto_state TX_HASH_BUILDER_IN_SCRIPT_DATA_HASH]"

definition assertCanLeaveScriptDataHash :: "tx_hash_builder_t stmt" where
  "assertCanLeaveScriptDataHash = can_leave TX_HASH_BUILDER_IN_SCRIPT_DATA_HASH
     (modify id)
     includeScriptDataHash assertCanLeaveMint"

definition txHashBuilder_enterCollateralInputs :: "tx_hash_builder_t stmt" where
  "txHashBuilder_enterCollateralInputs = seq
     [assertCanLeaveScriptDataHash,
      assert_that (\<lambda>b. remainingCollateralInputs b > 0),
      tx_append_cbor CBOR_TYPE_UNSIGNED TX_BODY_KEY_COLLATERAL_INPUTS,
      tx_tag_cbor_set,
      tx_append_count CBOR_TYPE_ARRAY remainingCollateralInputs,
      goto_state TX_HASH_BUILDER_IN_COLLATERAL_INPUTS]"

definition txHashBuilder_addCollateralInput :: "tx_input_t \<Rightarrow> tx_hash_builder_t stmt" where
  "txHashBuilder_addCollateralInput collInput = seq
     [in_state TX_HASH_BUILDER_IN_COLLATERAL_INPUTS,
      assert_that (\<lambda>b. remainingCollateralInputs b > 0),
      modify (\<lambda>b. b\<lparr>remainingCollateralInputs := remainingCollateralInputs b - 1\<rparr>),
      cbor_append_txInput (inputTxHash collInput) (inputIndex collInput)]"

definition assertCanLeaveCollateralInputs :: "tx_hash_builder_t stmt" where
  "assertCanLeaveCollateralInputs = can_leave TX_HASH_BUILDER_IN_COLLATERAL_INPUTS
     (assert_that (\<lambda>b. remainingCollateralInputs b = 0))
     (\<lambda>b. remainingCollateralInputs b \<noteq> 0) assertCanLeaveScriptDataHash"

definition txHashBuilder_enterRequiredSigners :: "tx_hash_builder_t stmt" where
  "txHashBuilder_enterRequiredSigners = seq
     [assertCanLeaveCollateralInputs,
      assert_that (\<lambda>b. remainingRequiredSigners b > 0),
      tx_append_cbor CBOR_TYPE_UNSIGNED TX_BODY_KEY_REQUIRED_SIGNERS,
      tx_tag_cbor_set,
      tx_append_count CBOR_TYPE_ARRAY remainingRequiredSigners,
      goto_state TX_HASH_BUILDER_IN_REQUIRED_SIGNERS]"

definition txHashBuilder_addRequiredSigner :: "bytes \<Rightarrow> tx_hash_builder_t stmt" where
  "txHashBuilder_addRequiredSigner vkey = seq
     [in_state TX_HASH_BUILDER_IN_REQUIRED_SIGNERS,
      assert_that (\<lambda>b. remainingRequiredSigners b > 0),
      modify (\<lambda>b. b\<lparr>remainingRequiredSigners := remainingRequiredSigners b - 1\<rparr>),
      assert_that (\<lambda>_. length vkey < BUFFER_SIZE_PARANOIA),
      assert_that (\<lambda>_. length vkey = ADDRESS_KEY_HASH_LENGTH),
      tx_append_bytes vkey]"

definition assertCanLeaveRequiredSigners :: "tx_hash_builder_t stmt" where
  "assertCanLeaveRequiredSigners = can_leave TX_HASH_BUILDER_IN_REQUIRED_SIGNERS
     (assert_that (\<lambda>b. remainingRequiredSigners b = 0))
     (\<lambda>b. remainingRequiredSigners b \<noteq> 0) assertCanLeaveCollateralInputs"

definition txHashBuilder_addNetworkId :: "u8 \<Rightarrow> tx_hash_builder_t stmt" where
  "txHashBuilder_addNetworkId networkId = seq
     [assertCanLeaveRequiredSigners,
      assert_that includeNetworkId,
      tx_append_cbor CBOR_TYPE_UNSIGNED TX_BODY_KEY_NETWORK_ID,
      tx_append_cbor CBOR_TYPE_UNSIGNED (ucast networkId),
      goto_state TX_HASH_BUILDER_IN_NETWORK_ID]"

definition assertCanLeaveNetworkId :: "tx_hash_builder_t stmt" where
  "assertCanLeaveNetworkId = can_leave TX_HASH_BUILDER_IN_NETWORK_ID
     (modify id)
     includeNetworkId assertCanLeaveRequiredSigners"

subsection \<open>Collateral output and total collateral\<close>

definition txHashBuilder_addCollateralOutput ::
  "'p tx_output_description_t \<Rightarrow> tx_hash_builder_t stmt" where
  "txHashBuilder_addCollateralOutput out = seq
     [assertCanLeaveNetworkId,
      assert_that includeCollateralOutput,
      tx_append_cbor CBOR_TYPE_UNSIGNED TX_BODY_KEY_COLLATERAL_OUTPUT,
      processOutputTopLevel out,
      modify (set_outputState TX_OUTPUT_TOP_LEVEL_DATA),
      goto_state TX_HASH_BUILDER_IN_COLLATERAL_OUTPUT]"

definition txHashBuilder_addCollateralOutput_tokenGroup ::
  "bytes \<Rightarrow> u16 \<Rightarrow> tx_hash_builder_t stmt" where
  "txHashBuilder_addCollateralOutput_tokenGroup policyId numTokens = seq
     [in_state TX_HASH_BUILDER_IN_COLLATERAL_OUTPUT, addTokenGroup policyId numTokens]"

definition txHashBuilder_addCollateralOutput_token ::
  "bytes \<Rightarrow> u64 \<Rightarrow> tx_hash_builder_t stmt" where
  "txHashBuilder_addCollateralOutput_token assetName amount = seq
     [in_state TX_HASH_BUILDER_IN_COLLATERAL_OUTPUT,
      addToken assetName amount CBOR_TYPE_UNSIGNED]"

definition assertCanLeaveCollateralOutput :: "tx_hash_builder_t stmt" where
  "assertCanLeaveCollateralOutput = can_leave TX_HASH_BUILDER_IN_COLLATERAL_OUTPUT
     assertCanLeaveCurrentOutput
     includeCollateralOutput assertCanLeaveNetworkId"

definition txHashBuilder_addTotalCollateral :: "u64 \<Rightarrow> tx_hash_builder_t stmt" where
  "txHashBuilder_addTotalCollateral txColl = seq
     [assertCanLeaveCollateralOutput,
      assert_that includeTotalCollateral,
      tx_append_cbor CBOR_TYPE_UNSIGNED TX_BODY_KEY_TOTAL_COLLATERAL,
      tx_append_cbor CBOR_TYPE_UNSIGNED txColl,
      goto_state TX_HASH_BUILDER_IN_TOTAL_COLLATERAL]"

definition assertCanLeaveTotalCollateral :: "tx_hash_builder_t stmt" where
  "assertCanLeaveTotalCollateral = can_leave TX_HASH_BUILDER_IN_TOTAL_COLLATERAL
     (modify id)
     includeTotalCollateral assertCanLeaveCollateralOutput"

subsection \<open>Reference inputs and voting procedures\<close>

definition txHashBuilder_enterReferenceInputs :: "tx_hash_builder_t stmt" where
  "txHashBuilder_enterReferenceInputs = seq
     [assertCanLeaveTotalCollateral,
      assert_that (\<lambda>b. remainingReferenceInputs b > 0),
      tx_append_cbor CBOR_TYPE_UNSIGNED TX_BODY_KEY_REFERENCE_INPUTS,
      tx_tag_cbor_set,
      tx_append_count CBOR_TYPE_ARRAY remainingReferenceInputs,
      goto_state TX_HASH_BUILDER_IN_REFERENCE_INPUTS]"

definition txHashBuilder_addReferenceInput :: "tx_input_t \<Rightarrow> tx_hash_builder_t stmt" where
  "txHashBuilder_addReferenceInput refInput = seq
     [in_state TX_HASH_BUILDER_IN_REFERENCE_INPUTS,
      assert_that (\<lambda>b. remainingReferenceInputs b > 0),
      modify (\<lambda>b. b\<lparr>remainingReferenceInputs := remainingReferenceInputs b - 1\<rparr>),
      cbor_append_txInput (inputTxHash refInput) (inputIndex refInput)]"

definition assertCanLeaveReferenceInputs :: "tx_hash_builder_t stmt" where
  "assertCanLeaveReferenceInputs = can_leave TX_HASH_BUILDER_IN_REFERENCE_INPUTS
     (assert_that (\<lambda>b. remainingReferenceInputs b = 0))
     (\<lambda>b. remainingReferenceInputs b \<noteq> 0) assertCanLeaveTotalCollateral"

definition txHashBuilder_enterVotingProcedures :: "tx_hash_builder_t stmt" where
  "txHashBuilder_enterVotingProcedures = seq
     [assertCanLeaveReferenceInputs,
      assert_that (\<lambda>b. remainingVotingProcedures b > 0),
      tx_append_cbor CBOR_TYPE_UNSIGNED TX_BODY_KEY_VOTING_PROCEDURES,
      tx_append_count CBOR_TYPE_MAP remainingVotingProcedures,
      goto_state TX_HASH_BUILDER_IN_VOTING_PROCEDURES]"

definition txHashBuilder_addVotingProcedure ::
  "voter_t \<Rightarrow> gov_action_id_t \<Rightarrow> voting_procedure_t \<Rightarrow> tx_hash_builder_t stmt" where
  "txHashBuilder_addVotingProcedure voter govActionId votingProcedure = seq
     [in_state TX_HASH_BUILDER_IN_VOTING_PROCEDURES,
      assert_that (\<lambda>b. remainingVotingProcedures b > 0),
      modify (\<lambda>b. b\<lparr>remainingVotingProcedures := remainingVotingProcedures b - 1\<rparr>),
      tx_append_cbor CBOR_TYPE_ARRAY 2,
      tx_append_cbor CBOR_TYPE_UNSIGNED (voter_type_value voter),
      tx_append_bytes (voter_hash voter),
      tx_append_cbor CBOR_TYPE_MAP 1,
      tx_append_cbor CBOR_TYPE_ARRAY 2,
      assert_that (\<lambda>_. length (govTxHash govActionId) = TX_HASH_LENGTH),
      tx_append_bytes (govTxHash govActionId),
      tx_append_cbor CBOR_TYPE_UNSIGNED (ucast (govActionIndex govActionId)),
      tx_append_cbor CBOR_TYPE_ARRAY 2,
      tx_append_cbor CBOR_TYPE_UNSIGNED (vote_value (votingVote votingProcedure)),
      appendAnchor (votingAnchor votingProcedure)]"

definition assertCanLeaveVotingProcedures :: "tx_hash_builder_t stmt" where
  "assertCanLeaveVotingProcedures = can_leave TX_HASH_BUILDER_IN_VOTING_PROCEDURES
     (assert_that (\<lambda>b. remainingVotingProcedures b = 0))
     (\<lambda>b. remainingVotingProcedures b \<noteq> 0) assertCanLeaveReferenceInputs"

subsection \<open>Treasury, donation, digest\<close>

definition txHashBuilder_addTreasury :: "u64 \<Rightarrow> tx_hash_builder_t stmt" where
  "txHashBuilder_addTreasury treasury = seq
     [assertCanLeaveVotingProcedures,
      tx_append_cbor CBOR_TYPE_UNSIGNED TX_BODY_KEY_TREASURY,
      tx_append_cbor CBOR_TYPE_UNSIGNED treasury,
      goto_state TX_HASH_BUILDER_IN_TREASURY]"

definition assertCanLeaveTreasury :: "tx_hash_builder_t stmt" where
  "assertCanLeaveTreasury = can_leave TX_HASH_BUILDER_IN_TREASURY
     (modify id)
     includeTreasury assertCanLeaveVotingProcedures"

definition txHashBuilder_addDonation :: "u64 \<Rightarrow> tx_hash_builder_t stmt" where
  "txHashBuilder_addDonation donation = seq
     [assertCanLeaveTreasury,
      tx_append_cbor CBOR_TYPE_UNSIGNED TX_BODY_KEY_DONATION,
      tx_append_cbor CBOR_TYPE_UNSIGNED donation,
      goto_state TX_HASH_BUILDER_IN_DONATION]"

definition assertCanLeaveDonation :: "tx_hash_builder_t stmt" where
  "assertCanLeaveDonation = can_leave TX_HASH_BUILDER_IN_DONATION
     (modify id)
     includeDonation assertCanLeaveTreasury"

text \<open>Returns the digest written to \<open>outBuffer\<close> with the finished builder.\<close>

definition txHashBuilder_finalize ::
  "(bytes \<Rightarrow> bytes option) \<Rightarrow> nat \<Rightarrow> tx_hash_builder_t \<Rightarrow> (bytes \<times> tx_hash_builder_t) res" where
  "txHashBuilder_finalize blake2b_256 outSize b =
     res_bind (assertCanLeaveDonation b) (\<lambda>b.
     res_bind (ASSERT (outSize = TX_HASH_LENGTH)) (\<lambda>_.
     res_bind (blake2b_finalize blake2b_256 32 outSize (txHash b)) (\<lambda>out.
     Inr (out, b\<lparr>txState := TX_HASH_BUILDER_FINISHED\<rparr>))))"

end
