(* ===== verification/Sink.thy ===== *)
theory Sink
  imports Hash
begin

text \<open>
  The interface between the hash builders and the CBOR reader. A builder is a state with a
  stream of absorbed bytes; the locale \<open>cbor_sink\<close> states what its two output operations
  promise, and proves once, for every builder, what a fragment of code that only writes does
  to the reader of the stream. The transaction, native script, auxiliary data and vote-cast
  builders interpret it.
\<close>

subsection \<open>What writing does to the reader\<close>

definition head_eff :: "u8 \<Rightarrow> nat \<Rightarrow> outstanding \<Rightarrow> outstanding option" where
  "head_eff t v = (\<lambda>(p, stk). if p = 0 then open_item t v stk else None)"

definition data_eff :: "nat \<Rightarrow> outstanding \<Rightarrow> outstanding option" where
  "data_eff n = (\<lambda>(p, stk). if n \<le> p then Some (p - n, stk) else None)"

lemma word_of_nat_length: "n < 2 ^ 64 \<Longrightarrow> unat (word_of_nat n :: u64) = n"
  by (simp add: unat_of_nat take_bit_nat_eq_self_iff)

text \<open>One complete item of the innermost open array or map.\<close>

definition item_eff :: "outstanding \<Rightarrow> outstanding option" where
  "item_eff = (\<lambda>(p, stk). if p = 0 then map_option (Pair 0) (take_item stk) else None)"

fun effs :: "(outstanding \<Rightarrow> outstanding option) list \<Rightarrow> outstanding \<Rightarrow> outstanding option" where
  "effs [] e = Some e"
| "effs (g # gs) e = (case g e of None \<Rightarrow> None | Some e' \<Rightarrow> effs gs e')"

definition writes ::
  "(bytes \<Rightarrow> 's \<Rightarrow> 's) \<Rightarrow> 's stmt \<Rightarrow> (outstanding \<Rightarrow> outstanding option) \<Rightarrow> bool" where
  "writes absorb f g \<longleftrightarrow>
     (\<forall>s s'. f s = Inr s' \<longrightarrow>
       (\<exists>bs. s' = absorb bs s \<and> (\<forall>e e'. g e = Some e' \<longrightarrow> read_stream e bs = Some e')))"

lemma writesD:
  "writes absorb f g \<Longrightarrow> f s = Inr s' \<Longrightarrow>
   \<exists>bs. s' = absorb bs s \<and> (\<forall>e e'. g e = Some e' \<longrightarrow> read_stream e bs = Some e')"
  by (simp add: writes_def)

lemma writes_weaken:
  "writes absorb f g \<Longrightarrow> (\<And>e e'. g' e = Some e' \<Longrightarrow> g e = Some e') \<Longrightarrow> writes absorb f g'"
  unfolding writes_def by blast

lemma push_simps [simp]: "push 0 stk = stk" "push (Suc n) stk = Suc n # stk"
  by (simp_all add: push_def)

lemma push_numeral [simp]: "push (numeral k) stk = numeral k # stk"
  by (simp add: push_def)

lemma open_item_simps [simp]:
  "open_item 0 v (n # stk) = Some (0, push (n - 1) stk)"
  "open_item 0x20 v (n # stk) = Some (0, push (n - 1) stk)"
  "open_item 0x40 v (n # stk) = Some (v, push (n - 1) stk)"
  "open_item 0x60 v (n # stk) = Some (v, push (n - 1) stk)"
  "open_item 0x80 v (n # stk) = Some (0, push v (push (n - 1) stk))"
  "open_item 0xA0 v (n # stk) = Some (0, push (2 * v) (push (n - 1) stk))"
  "open_item 0xC0 v (n # stk) = Some (0, n # stk)"
  "open_item t v [] = None"
  by (simp_all add: open_item_def)

lemma eff_simps [simp]:
  "head_eff t v (0, stk) = open_item t v stk"
  "data_eff n (p, stk) = (if n \<le> p then Some (p - n, stk) else None)"
  "item_eff (0, stk) = map_option (Pair 0) (take_item stk)"
  by (simp_all add: head_eff_def data_eff_def item_eff_def)

text \<open>To show that a fragment writes one item it suffices to look at one open item.\<close>

lemma writes_item:
  assumes "writes absorb f g" and "\<And>n stk. g (0, n # stk) = Some (0, push (n - 1) stk)"
  shows "writes absorb f item_eff"
proof (rule writes_weaken [OF assms(1)])
  fix e e'
  assume "item_eff e = Some e'"
  then obtain n stk where "e = (0, n # stk)" "e' = (0, push (n - 1) stk)"
    by (cases e) (auto simp: item_eff_def split: if_splits elim!: take_item.elims)
  then show "g e = Some e'" by (simp add: assms(2))
qed

subsection \<open>The interface\<close>

locale cbor_sink =
  fixes out :: "'s \<Rightarrow> bytes"
    and absorb :: "bytes \<Rightarrow> 's \<Rightarrow> 's"
    and put_cbor :: "u8 \<Rightarrow> u64 \<Rightarrow> 's stmt"
    and put_data :: "bytes \<Rightarrow> 's stmt"
  assumes out_absorb: "out (absorb bs s) = out s @ bs"
    and absorb_Nil: "absorb [] s = s"
    and absorb_absorb: "absorb ys (absorb xs s) = absorb (xs @ ys) s"
    and put_cbor_absorbs:
      "put_cbor t v s = Inr s' \<Longrightarrow> \<exists>bs. cbor_writeToken t v 10 = Inr bs \<and> s' = absorb bs s"
    and put_data_absorbs: "put_data d s = Inr s' \<Longrightarrow> s' = absorb d s"
begin

lemma writes_head:
  assumes "t \<in> head_types"
  shows "writes absorb (put_cbor t v) (head_eff t (unat v))"
proof -
  have "put_cbor t v s = Inr s' \<Longrightarrow> s' = absorb (tok t v) s" for s s'
    using put_cbor_absorbs [of t v s s'] write_total(2) [OF assms, of v] by auto
  moreover have "read_stream e (tok t v) = Some e'" if "head_eff t (unat v) e = Some e'" for e e'
    using that read_tok [OF assms, of "snd e" v "[]"]
    by (cases e) (auto simp: head_eff_def split: if_splits)
  ultimately show ?thesis
    unfolding writes_def by blast
qed

lemma writes_null: "writes absorb (put_cbor CBOR_TYPE_NULL v) item_eff"
proof -
  have "put_cbor CBOR_TYPE_NULL v s = Inr s' \<Longrightarrow> s' = absorb (tok CBOR_TYPE_NULL v) s" for s s'
    using put_cbor_absorbs [of CBOR_TYPE_NULL v s s'] write_null [of v] by auto
  moreover have "read_stream e (tok CBOR_TYPE_NULL v) = Some e'" if "item_eff e = Some e'" for e e'
    using that read_null [of "snd e" v "[]"]
    by (cases e) (auto simp: item_eff_def split: if_splits)
  ultimately show ?thesis
    unfolding writes_def by blast
qed

lemma writes_negative:
  assumes "sint v < 0"
  shows "writes absorb (put_cbor CBOR_TYPE_NEGATIVE v) item_eff"
proof -
  have "put_cbor CBOR_TYPE_NEGATIVE v s = Inr s' \<Longrightarrow> s' = absorb (tok CBOR_TYPE_NEGATIVE v) s" for s s'
    using put_cbor_absorbs [of CBOR_TYPE_NEGATIVE v s s'] write_negative [OF assms] by auto
  moreover have "read_stream e (tok CBOR_TYPE_NEGATIVE v) = Some e'" if "item_eff e = Some e'" for e e'
    using that read_negative [OF assms, of "snd e" "[]"]
    by (cases e) (auto simp: item_eff_def split: if_splits)
  ultimately show ?thesis
    unfolding writes_def by blast
qed

lemma writes_data: "writes absorb (put_data d) (data_eff (length d))"
proof -
  have "read_stream e d = Some e'" if "data_eff (length d) e = Some e'" for e e'
    using that read_payload [of d "fst e" "snd e" "[]"]
    by (cases e) (auto simp: data_eff_def split: if_splits)
  then show ?thesis
    unfolding writes_def using put_data_absorbs by blast
qed

lemma writes_assert: "writes absorb (assert_that p) Some"
  unfolding writes_def by (auto simp: absorb_Nil intro!: exI [of _ "[]"])

lemma writes_skip: "writes absorb (modify id) Some"
  unfolding writes_def by (auto simp: absorb_Nil intro!: exI [of _ "[]"])

lemma writes_seq:
  "list_all2 (writes absorb) fs gs \<Longrightarrow> writes absorb (seq fs) (effs gs)"
proof (induction fs gs rule: list_all2_induct)
  case Nil
  show ?case unfolding writes_def by (auto simp: absorb_Nil intro!: exI [of _ "[]"])
next
  case (Cons f fs g gs)
  show ?case unfolding writes_def
  proof (intro allI impI)
    fix s s'
    assume "seq (f # fs) s = Inr s'"
    then obtain u where "f s = Inr u" "seq fs u = Inr s'"
      by (auto simp: res_bind_Inr_iff)
    then obtain xs ys where "u = absorb xs s" "s' = absorb ys u"
      and x: "\<And>e e'. g e = Some e' \<Longrightarrow> read_stream e xs = Some e'"
      and y: "\<And>e e'. effs gs e = Some e' \<Longrightarrow> read_stream e ys = Some e'"
      using writesD [OF Cons.hyps(1)] writesD [OF Cons.IH] by metis
    then have "s' = absorb (xs @ ys) s"
      by (simp add: absorb_absorb)
    moreover have "read_stream e (xs @ ys) = Some e'" if "effs (g # gs) e = Some e'" for e e'
      using that x y by (auto simp: read_stream_append split: option.splits)
    ultimately show "\<exists>bs. s' = absorb bs s \<and>
        (\<forall>e e'. effs (g # gs) e = Some e' \<longrightarrow> read_stream e bs = Some e')"
      by blast
  qed
qed

text \<open>The stream of a writing fragment only grows, and the reader follows its effect.\<close>

lemma writes_out:
  assumes "writes absorb f g" "f s = Inr s'"
  shows "prefix (out s) (out s')"
  using writesD [OF assms] by (auto simp: out_absorb)

lemma writes_read:
  assumes "writes absorb f g" "f s = Inr s'"
    and "read_stream e\<^sub>0 (out s) = Some e" "g e = Some e'"
  shows "read_stream e\<^sub>0 (out s') = Some e'"
proof -
  obtain bs where "s' = absorb bs s" "read_stream e bs = Some e'"
    using writesD [OF assms(1,2)] assms(4) by blast
  then show ?thesis
    using assms(3) by (simp add: out_absorb read_stream_append)
qed

text \<open>A byte string with its length, as the builders write hashes, names and addresses.\<close>

lemma writes_bytes:
  assumes "t \<in> {CBOR_TYPE_BYTES, CBOR_TYPE_TEXT}" "length d < 2 ^ 64"
  shows "writes absorb (seq [put_cbor t (word_of_nat (length d)), put_data d]) item_eff"
proof (rule writes_item)
  show "writes absorb (seq [put_cbor t (word_of_nat (length d)), put_data d])
    (effs [head_eff t (length d), data_eff (length d)])"
    using writes_head [of t "word_of_nat (length d)"] writes_data [of d] assms
    by (intro writes_seq) (auto simp: word_of_nat_length)
qed (use assms in auto)

end

end
