(* ===== verification/TxFragments.thy ===== *)
theory TxFragments
  imports TxHashBuilder Sink
begin

text \<open>
  The transaction builder as a \<open>cbor_sink\<close>, and what each helper of
  \<open>src/txHashBuilder/txHashBuilder.c\<close> that only writes does to the reader of the body:
  credentials, DReps, anchors, inputs and relays are one item each, and the head of an output
  leaves exactly the items open that the description announces.
\<close>

subsection \<open>The builder as a sink\<close>

definition tx_out :: "tx_hash_builder_t \<Rightarrow> bytes" where
  "tx_out b = absorbed (txHash b)"

definition tx_absorb :: "bytes \<Rightarrow> tx_hash_builder_t \<Rightarrow> tx_hash_builder_t" where
  "tx_absorb bs b = b\<lparr>txHash := (txHash b)\<lparr>absorbed := absorbed (txHash b) @ bs\<rparr>\<rparr>"

lemma tx_append_data_Inr:
  "tx_append_data d b = Inr b' \<Longrightarrow> b' = tx_absorb d b"
  by (auto simp: tx_append_data_def res_bind_Inr_iff blake2b_append_Inr tx_absorb_def)

lemma tx_append_cbor_Inr:
  "tx_append_cbor t v b = Inr b' \<Longrightarrow>
   \<exists>bs. cbor_writeToken t v 10 = Inr bs \<and> b' = tx_absorb bs b"
  by (auto simp: tx_append_cbor_def blake2b_append_cbor_def res_bind_Inr_iff blake2b_append_Inr
      tx_absorb_def)

interpretation tx: cbor_sink tx_out tx_absorb tx_append_cbor tx_append_data
  by unfold_locales
    (auto simp: tx_out_def tx_absorb_def dest: tx_append_data_Inr tx_append_cbor_Inr)

lemma absorb_fields [simp]:
  "tagCborSets (tx_absorb bs b) = tagCborSets b"
  "remainingInputs (tx_absorb bs b) = remainingInputs b"
  "remainingOutputs (tx_absorb bs b) = remainingOutputs b"
  "remainingWithdrawals (tx_absorb bs b) = remainingWithdrawals b"
  "remainingCertificates (tx_absorb bs b) = remainingCertificates b"
  "remainingCollateralInputs (tx_absorb bs b) = remainingCollateralInputs b"
  "remainingRequiredSigners (tx_absorb bs b) = remainingRequiredSigners b"
  "remainingReferenceInputs (tx_absorb bs b) = remainingReferenceInputs b"
  "remainingVotingProcedures (tx_absorb bs b) = remainingVotingProcedures b"
  "includeTtl (tx_absorb bs b) = includeTtl b"
  "includeAuxData (tx_absorb bs b) = includeAuxData b"
  "includeValidityIntervalStart (tx_absorb bs b) = includeValidityIntervalStart b"
  "includeMint (tx_absorb bs b) = includeMint b"
  "includeScriptDataHash (tx_absorb bs b) = includeScriptDataHash b"
  "includeNetworkId (tx_absorb bs b) = includeNetworkId b"
  "includeCollateralOutput (tx_absorb bs b) = includeCollateralOutput b"
  "includeTotalCollateral (tx_absorb bs b) = includeTotalCollateral b"
  "includeTreasury (tx_absorb bs b) = includeTreasury b"
  "includeDonation (tx_absorb bs b) = includeDonation b"
  "remainingOwners (tx_absorb bs b) = remainingOwners b"
  "remainingRelays (tx_absorb bs b) = remainingRelays b"
  "outputState (tx_absorb bs b) = outputState b"
  "serializationFormat (tx_absorb bs b) = serializationFormat b"
  "includeDatum (tx_absorb bs b) = includeDatum b"
  "includeRefScript (tx_absorb bs b) = includeRefScript b"
  "remainingAssetGroups (tx_absorb bs b) = remainingAssetGroups b"
  "remainingTokens (tx_absorb bs b) = remainingTokens b"
  "datumRemainingBytes (tx_absorb bs b) = datumRemainingBytes b"
  "refScriptRemainingBytes (tx_absorb bs b) = refScriptRemainingBytes b"
  "txState (tx_absorb bs b) = txState b"
  by (simp_all add: tx_absorb_def)

text \<open>What the reader of the body still expects.\<close>

definition tx_reads :: "tx_hash_builder_t \<Rightarrow> outstanding \<Rightarrow> bool" where
  "tx_reads b e \<longleftrightarrow> read_stream (0, [1]) (tx_out b) = Some e"

lemma tx_reads_hash: "txHash b' = txHash b \<Longrightarrow> tx_reads b' e = tx_reads b e"
  by (simp add: tx_reads_def tx_out_def)

lemma tx_writes_reads:
  assumes "writes tx_absorb f g" "f b = Inr b'"
  shows "\<exists>bs. b' = tx_absorb bs b \<and> (\<forall>c e e'. txHash c = txHash b' \<longrightarrow> tx_reads b e \<longrightarrow> g e = Some e' \<longrightarrow> tx_reads c e')"
proof -
  obtain bs where bs: "b' = tx_absorb bs b" "\<And>e e'. g e = Some e' \<Longrightarrow> read_stream e bs = Some e'"
    using writesD [OF assms] by blast
  then show ?thesis
    by (auto simp: tx_reads_def tx_out_def tx_absorb_def read_stream_append)
qed

subsection \<open>Fragments that write one item\<close>

named_theorems writes_intros

lemmas tx_writes_head = tx.writes_head
lemmas tx_writes_null [writes_intros] = tx.writes_null
lemmas tx_writes_data [writes_intros] = tx.writes_data
lemmas tx_writes_assert [writes_intros] = tx.writes_assert
lemmas tx_writes_skip [writes_intros] = tx.writes_skip

lemma writes_cons:
  "writes tx_absorb f g \<Longrightarrow> list_all2 (writes tx_absorb) fs gs \<Longrightarrow>
   list_all2 (writes tx_absorb) (f # fs) (g # gs)"
  by simp

lemma writes_nil: "list_all2 (writes tx_absorb) [] []"
  by simp

lemma tx_writes_bytes [writes_intros]:
  "length d < 2 ^ 64 \<Longrightarrow> writes tx_absorb (tx_append_bytes d) item_eff"
  unfolding tx_append_bytes_def by (rule tx.writes_bytes) auto

lemma tx_writes_text [writes_intros]:
  "length d < 2 ^ 64 \<Longrightarrow> writes tx_absorb (tx_append_text d) item_eff"
  unfolding tx_append_text_def by (rule tx.writes_bytes) auto

lemmas writes_steps = writes_cons writes_nil tx.writes_seq

lemma writes_in_state [writes_intros]: "writes tx_absorb (in_state s) Some"
  by (simp add: in_state_def tx.writes_assert)

lemma writes_failing: "writes tx_absorb (assert_that (\<lambda>_. False)) g"
  by (simp add: writes_def)

lemma writes_uint [writes_intros]: "writes tx_absorb (tx_append_cbor CBOR_TYPE_UNSIGNED v) item_eff"
  by (rule writes_item, rule tx.writes_head) auto

lemma writes_appendCredential [writes_intros]:
  "length (credHash c) < 2 ^ 64 \<Longrightarrow> writes tx_absorb (appendCredential c) item_eff"
  unfolding appendCredential_def
  by (rule writes_item, ((rule writes_intros writes_steps tx_writes_head | (auto; fail))+))

lemma writes_append_drep [writes_intros]:
  assumes "\<And>h. d = DREP_KEY_HASH h \<or> d = DREP_SCRIPT_HASH h \<Longrightarrow> length h < 2 ^ 64"
  shows "writes tx_absorb (append_drep d) item_eff"
  unfolding append_drep_def
  by (insert assms, cases d; simp only: drep_t.case; rule writes_item, ((rule writes_intros writes_steps tx_writes_head | (auto; fail))+))

lemma writes_appendAnchor [writes_intros]:
  assumes "length (anchorUrl a) < 2 ^ 64" "length (anchorHash a) < 2 ^ 64"
  shows "writes tx_absorb (appendAnchor a) item_eff"
proof (cases "anchorIsIncluded a")
  case True
  then show ?thesis
    unfolding appendAnchor_def if_P [OF True] using assms
    by - (rule writes_item, ((rule writes_intros writes_steps tx_writes_head | (auto; fail))+))
qed (simp add: appendAnchor_def tx_writes_null)

lemma writes_txInput [writes_intros]:
  "length h < 2 ^ 64 \<Longrightarrow> writes tx_absorb (cbor_append_txInput h i) item_eff"
  unfolding cbor_append_txInput_def
  by (rule writes_item, ((rule writes_intros writes_steps tx_writes_head | (auto; fail))+))

lemma writes_output_address [writes_intros]:
  assumes "\<And>a. d = DESTINATION_THIRD_PARTY a \<Longrightarrow> length a < 2 ^ 64"
  shows "writes tx_absorb (append_output_address d) item_eff"
  unfolding append_output_address_def
  by (insert assms, cases d; simp only: tx_output_destination_t.case; (rule writes_failing | rule writes_item, ((rule writes_intros writes_steps tx_writes_head | (auto; fail))+)))

subsection \<open>Relays\<close>

lemma ipv6_as_be_words_length: "length ip = 16 \<Longrightarrow> length (ipv6_as_be_words ip) = 16"
  by (simp add: ipv6_as_be_words_def upt_rec)

definition relay_lengths :: "pool_relay_t \<Rightarrow> bool" where
  "relay_lengths r \<longleftrightarrow> is_size_t (length (relayDnsName r))
     \<and> (case relayIpv4 r of None \<Rightarrow> True | Some ip \<Rightarrow> length ip = IPV4_SIZE)
     \<and> (case relayIpv6 r of None \<Rightarrow> True | Some ip \<Rightarrow> length ip = IPV6_SIZE)"

lemma writes_relay_addPort [writes_intros]: "writes tx_absorb (relay_addPort p) item_eff"
  unfolding relay_addPort_def
  by (cases p; simp only: option.case; rule writes_item, ((rule writes_intros writes_steps tx_writes_head | (auto; fail))+))

lemma writes_relay_addIpv4 [writes_intros]:
  "(\<And>ip. p = Some ip \<Longrightarrow> length ip < 2 ^ 64) \<Longrightarrow> writes tx_absorb (relay_addIpv4 p) item_eff"
  unfolding relay_addIpv4_def
  by (cases p; simp only: option.case; rule writes_item, ((rule writes_intros writes_steps tx_writes_head | (auto; fail))+))

lemma writes_ipv6 [writes_intros]:
  assumes "length ip = 16"
  shows "writes tx_absorb
    (seq [tx_append_cbor CBOR_TYPE_BYTES (word_of_nat IPV6_SIZE), tx_append_data (ipv6_as_be_words ip)])
    item_eff"
  using tx.writes_bytes [of CBOR_TYPE_BYTES "ipv6_as_be_words ip"] assms
  by (simp add: ipv6_as_be_words_length)

lemma writes_relay_addIpv6 [writes_intros]:
  assumes "\<And>ip. p = Some ip \<Longrightarrow> length ip = 16"
  shows "writes tx_absorb (relay_addIpv6 p) item_eff"
  unfolding relay_addIpv6_def
  by (insert assms, cases p; simp only: option.case; rule writes_item, ((rule writes_intros writes_steps tx_writes_head | (auto; fail))+))

lemma writes_relay_addDnsName [writes_intros]:
  "length (relayDnsName r) < 2 ^ 64 \<Longrightarrow> writes tx_absorb (relay_addDnsName r) item_eff"
  unfolding relay_addDnsName_def
  by (rule writes_item, ((rule writes_intros writes_steps tx_writes_head | (auto; fail))+))

subsection \<open>Heads of certificates and outputs\<close>

lemma writes_append_certificate [writes_intros]:
  "writes tx_absorb (append_certificate n t)
     (effs [head_eff CBOR_TYPE_ARRAY (unat n), item_eff])"
  unfolding append_certificate_def
  by ((rule writes_intros writes_steps tx_writes_head | (auto; fail))+)

definition value_eff :: "u16 \<Rightarrow> outstanding \<Rightarrow> outstanding option" where
  "value_eff n = (if n = 0 then item_eff
     else effs [head_eff CBOR_TYPE_ARRAY 2, item_eff, head_eff CBOR_TYPE_MAP (unat n)])"

lemma unat_ucast_u16 [simp]: "unat (ucast n :: u64) = unat n" for n :: u16
  using unsigned_less [of n, where ?'a = nat] by (simp add: unsigned_ucast_eq take_bit_nat_eq_self_iff)

lemma writes_head_ucast [writes_intros]:
  "t \<in> head_types \<Longrightarrow> writes tx_absorb (tx_append_cbor t (ucast n)) (head_eff t (unat n))" for n :: u16
  using tx.writes_head [of t "ucast n"] by (simp add: unat_ucast_u16)

lemma writes_output_value [writes_intros]:
  "writes tx_absorb (append_output_value d) (value_eff (outNumAssetGroups d))"
proof (cases "outNumAssetGroups d = 0")
  case False
  have "writes tx_absorb (tx_append_cbor CBOR_TYPE_ARRAY 2) (head_eff CBOR_TYPE_ARRAY 2)"
    using tx.writes_head [of CBOR_TYPE_ARRAY 2] by simp
  then show ?thesis
    unfolding append_output_value_def value_eff_def if_not_P [OF False]
    by - ((rule writes_intros writes_steps | assumption | (simp; fail))+)
qed (simp add: append_output_value_def value_eff_def writes_uint)

end
