(* ===== verification/TxBody.thy ===== *)
theory TxBody
  imports TxFragments
begin

text \<open>
  What the transaction builder promises: whatever its client calls, the bytes absorbed so far
  are a prefix of one CBOR map, and the builder's own counters say exactly what is still
  missing. \<open>expected\<close> is that abstraction; every operation of \<open>txHashBuilder.c\<close> refines one
  step of the reader from the expectation of its state before to that of its state after.
\<close>

subsection \<open>What is missing, read off the builder\<close>

text \<open>
  The position of each part of the body; the certificate being written does not move it.
\<close>

fun rank :: "tx_hash_builder_state_t \<Rightarrow> nat" where
  "rank TX_HASH_BUILDER_INIT = 0"
| "rank TX_HASH_BUILDER_IN_INPUTS = 1"
| "rank TX_HASH_BUILDER_IN_OUTPUTS = 2"
| "rank TX_HASH_BUILDER_IN_FEE = 3"
| "rank TX_HASH_BUILDER_IN_TTL = 4"
| "rank TX_HASH_BUILDER_IN_CERTIFICATES = 5"
| "rank TX_HASH_BUILDER_IN_CERTIFICATES_POOL_INIT = 5"
| "rank TX_HASH_BUILDER_IN_CERTIFICATES_POOL_KEY_HASH = 5"
| "rank TX_HASH_BUILDER_IN_CERTIFICATES_POOL_VRF = 5"
| "rank TX_HASH_BUILDER_IN_CERTIFICATES_POOL_FINANCIALS = 5"
| "rank TX_HASH_BUILDER_IN_CERTIFICATES_POOL_REWARD_ACCOUNT = 5"
| "rank TX_HASH_BUILDER_IN_CERTIFICATES_POOL_OWNERS = 5"
| "rank TX_HASH_BUILDER_IN_CERTIFICATES_POOL_RELAYS = 5"
| "rank TX_HASH_BUILDER_IN_CERTIFICATES_POOL_METADATA = 5"
| "rank TX_HASH_BUILDER_IN_WITHDRAWALS = 6"
| "rank TX_HASH_BUILDER_IN_AUX_DATA = 7"
| "rank TX_HASH_BUILDER_IN_VALIDITY_INTERVAL_START = 8"
| "rank TX_HASH_BUILDER_IN_MINT = 9"
| "rank TX_HASH_BUILDER_IN_SCRIPT_DATA_HASH = 10"
| "rank TX_HASH_BUILDER_IN_COLLATERAL_INPUTS = 11"
| "rank TX_HASH_BUILDER_IN_REQUIRED_SIGNERS = 12"
| "rank TX_HASH_BUILDER_IN_NETWORK_ID = 13"
| "rank TX_HASH_BUILDER_IN_COLLATERAL_OUTPUT = 14"
| "rank TX_HASH_BUILDER_IN_TOTAL_COLLATERAL = 15"
| "rank TX_HASH_BUILDER_IN_REFERENCE_INPUTS = 16"
| "rank TX_HASH_BUILDER_IN_VOTING_PROCEDURES = 17"
| "rank TX_HASH_BUILDER_IN_TREASURY = 18"
| "rank TX_HASH_BUILDER_IN_DONATION = 19"
| "rank TX_HASH_BUILDER_FINISHED = 20"

text \<open>How many announced parts come after the part at position \<open>k\<close>.\<close>

definition missing_after :: "nat \<Rightarrow> tx_hash_builder_t \<Rightarrow> nat" where
  "missing_after k b = of_bool (k < 1) + of_bool (k < 2) + of_bool (k < 3)
     + of_bool (k < 4 \<and> includeTtl b)
     + of_bool (k < 5 \<and> remainingCertificates b \<noteq> 0)
     + of_bool (k < 6 \<and> remainingWithdrawals b \<noteq> 0)
     + of_bool (k < 7 \<and> includeAuxData b)
     + of_bool (k < 8 \<and> includeValidityIntervalStart b)
     + of_bool (k < 9 \<and> includeMint b)
     + of_bool (k < 10 \<and> includeScriptDataHash b)
     + of_bool (k < 11 \<and> remainingCollateralInputs b \<noteq> 0)
     + of_bool (k < 12 \<and> remainingRequiredSigners b \<noteq> 0)
     + of_bool (k < 13 \<and> includeNetworkId b)
     + of_bool (k < 14 \<and> includeCollateralOutput b)
     + of_bool (k < 15 \<and> includeTotalCollateral b)
     + of_bool (k < 16 \<and> remainingReferenceInputs b \<noteq> 0)
     + of_bool (k < 17 \<and> remainingVotingProcedures b \<noteq> 0)
     + of_bool (k < 18 \<and> includeTreasury b)
     + of_bool (k < 19 \<and> includeDonation b)"

text \<open>The entries an output still lacks after its value.\<close>

fun output_rest :: "tx_output_serialization_format_t \<Rightarrow> bool \<Rightarrow> bool \<Rightarrow> nat" where
  "output_rest ARRAY_LEGACY datum refScript = of_bool datum"
| "output_rest MAP_BABBAGE datum refScript = 2 * (of_bool datum + of_bool refScript)"

definition groups_of :: "tx_hash_builder_t \<Rightarrow> nat" where
  "groups_of b = unat (the (remainingAssetGroups b))"

definition tokens_of :: "tx_hash_builder_t \<Rightarrow> nat" where
  "tokens_of b = unat (the (remainingTokens b))"

definition output_expected :: "tx_hash_builder_t \<Rightarrow> nat list \<Rightarrow> outstanding" where
  "output_expected b stk =
     (let rest = (\<lambda>d. push (output_rest (the (serializationFormat b)) d (the (includeRefScript b))) stk)
      in case the (outputState b) of
        TX_OUTPUT_TOP_LEVEL_DATA \<Rightarrow> (0, push (2 * groups_of b) (rest (the (includeDatum b))))
      | TX_OUTPUT_ASSET_GROUP \<Rightarrow>
          (0, push (2 * tokens_of b) (push (2 * groups_of b) (rest (the (includeDatum b)))))
      | TX_OUTPUT_DATUM_HASH \<Rightarrow> (0, rest False)
      | TX_OUTPUT_DATUM_INLINE \<Rightarrow> (the (datumRemainingBytes b), rest False)
      | TX_OUTPUT_SCRIPT_REFERENCE_CHUNKS \<Rightarrow> (the (refScriptRemainingBytes b), stk)
      | _ \<Rightarrow> (0, stk))"

definition mint_expected :: "tx_hash_builder_t \<Rightarrow> nat list \<Rightarrow> outstanding" where
  "mint_expected b stk =
     (case the (outputState b) of
        TX_OUTPUT_TOP_LEVEL_DATA \<Rightarrow> (0, push (2 * groups_of b) stk)
      | _ \<Rightarrow> (0, push (2 * tokens_of b) (push (2 * groups_of b) stk)))"

definition expected :: "tx_hash_builder_t \<Rightarrow> outstanding" where
  "expected b =
     (let top = push (2 * missing_after (rank (txState b)) b) [];
          certs = push (unat (remainingCertificates b)) top
      in case txState b of
        TX_HASH_BUILDER_IN_INPUTS \<Rightarrow> (0, push (unat (remainingInputs b)) top)
      | TX_HASH_BUILDER_IN_OUTPUTS \<Rightarrow> output_expected b (push (unat (remainingOutputs b)) top)
      | TX_HASH_BUILDER_IN_CERTIFICATES \<Rightarrow> (0, certs)
      | TX_HASH_BUILDER_IN_CERTIFICATES_POOL_INIT \<Rightarrow> (0, 9 # certs)
      | TX_HASH_BUILDER_IN_CERTIFICATES_POOL_KEY_HASH \<Rightarrow> (0, 8 # certs)
      | TX_HASH_BUILDER_IN_CERTIFICATES_POOL_VRF \<Rightarrow> (0, 7 # certs)
      | TX_HASH_BUILDER_IN_CERTIFICATES_POOL_FINANCIALS \<Rightarrow> (0, 4 # certs)
      | TX_HASH_BUILDER_IN_CERTIFICATES_POOL_REWARD_ACCOUNT \<Rightarrow> (0, 3 # certs)
      | TX_HASH_BUILDER_IN_CERTIFICATES_POOL_OWNERS \<Rightarrow>
          (0, push (unat (the (remainingOwners b))) (2 # certs))
      | TX_HASH_BUILDER_IN_CERTIFICATES_POOL_RELAYS \<Rightarrow>
          (0, push (unat (the (remainingRelays b))) (1 # certs))
      | TX_HASH_BUILDER_IN_CERTIFICATES_POOL_METADATA \<Rightarrow> (0, 1 # certs)
      | TX_HASH_BUILDER_IN_WITHDRAWALS \<Rightarrow> (0, push (2 * unat (remainingWithdrawals b)) top)
      | TX_HASH_BUILDER_IN_MINT \<Rightarrow> mint_expected b top
      | TX_HASH_BUILDER_IN_COLLATERAL_INPUTS \<Rightarrow>
          (0, push (unat (remainingCollateralInputs b)) top)
      | TX_HASH_BUILDER_IN_REQUIRED_SIGNERS \<Rightarrow>
          (0, push (unat (remainingRequiredSigners b)) top)
      | TX_HASH_BUILDER_IN_COLLATERAL_OUTPUT \<Rightarrow> output_expected b top
      | TX_HASH_BUILDER_IN_REFERENCE_INPUTS \<Rightarrow>
          (0, push (unat (remainingReferenceInputs b)) top)
      | TX_HASH_BUILDER_IN_VOTING_PROCEDURES \<Rightarrow>
          (0, push (2 * unat (remainingVotingProcedures b)) top)
      | _ \<Rightarrow> (0, top))"

subsection \<open>Counting the parts\<close>

lemma missing_after_absorb [simp]: "missing_after k (tx_absorb bs b) = missing_after k b"
  by (simp add: missing_after_def)

lemma missing_after_update [simp]:
  "missing_after k (b\<lparr>txHash := h\<rparr>) = missing_after k b"
  "missing_after k (b\<lparr>txState := s\<rparr>) = missing_after k b"
  "missing_after k (b\<lparr>remainingInputs := n\<rparr>) = missing_after k b"
  "missing_after k (b\<lparr>remainingOutputs := n\<rparr>) = missing_after k b"
  "missing_after k (b\<lparr>remainingOwners := m\<rparr>) = missing_after k b"
  "missing_after k (b\<lparr>remainingRelays := m\<rparr>) = missing_after k b"
  "missing_after k (b\<lparr>outputState := os\<rparr>) = missing_after k b"
  "missing_after k (b\<lparr>serializationFormat := fmt\<rparr>) = missing_after k b"
  "missing_after k (b\<lparr>includeDatum := d\<rparr>) = missing_after k b"
  "missing_after k (b\<lparr>includeRefScript := d\<rparr>) = missing_after k b"
  "missing_after k (b\<lparr>remainingAssetGroups := m\<rparr>) = missing_after k b"
  "missing_after k (b\<lparr>remainingTokens := m\<rparr>) = missing_after k b"
  "missing_after k (b\<lparr>datumRemainingBytes := l\<rparr>) = missing_after k b"
  "missing_after k (b\<lparr>refScriptRemainingBytes := l\<rparr>) = missing_after k b"
  "5 \<le> k \<Longrightarrow> missing_after k (b\<lparr>remainingCertificates := n\<rparr>) = missing_after k b"
  "6 \<le> k \<Longrightarrow> missing_after k (b\<lparr>remainingWithdrawals := n\<rparr>) = missing_after k b"
  "11 \<le> k \<Longrightarrow> missing_after k (b\<lparr>remainingCollateralInputs := n\<rparr>) = missing_after k b"
  "12 \<le> k \<Longrightarrow> missing_after k (b\<lparr>remainingRequiredSigners := n\<rparr>) = missing_after k b"
  "16 \<le> k \<Longrightarrow> missing_after k (b\<lparr>remainingReferenceInputs := n\<rparr>) = missing_after k b"
  "17 \<le> k \<Longrightarrow> missing_after k (b\<lparr>remainingVotingProcedures := n\<rparr>) = missing_after k b"
  by (simp_all add: missing_after_def)

lemma missing_step:
  "missing_after 0 b = Suc (missing_after (Suc 0) b)"
  "missing_after (Suc 0) b = Suc (missing_after 2 b)"
  "missing_after 2 b = Suc (missing_after 3 b)"
  "missing_after 3 b = of_bool (includeTtl b) + missing_after 4 b"
  "missing_after 4 b = of_bool (remainingCertificates b \<noteq> 0) + missing_after 5 b"
  "missing_after 5 b = of_bool (remainingWithdrawals b \<noteq> 0) + missing_after 6 b"
  "missing_after 6 b = of_bool (includeAuxData b) + missing_after 7 b"
  "missing_after 7 b = of_bool (includeValidityIntervalStart b) + missing_after 8 b"
  "missing_after 8 b = of_bool (includeMint b) + missing_after 9 b"
  "missing_after 9 b = of_bool (includeScriptDataHash b) + missing_after 10 b"
  "missing_after 10 b = of_bool (remainingCollateralInputs b \<noteq> 0) + missing_after 11 b"
  "missing_after 11 b = of_bool (remainingRequiredSigners b \<noteq> 0) + missing_after 12 b"
  "missing_after 12 b = of_bool (includeNetworkId b) + missing_after 13 b"
  "missing_after 13 b = of_bool (includeCollateralOutput b) + missing_after 14 b"
  "missing_after 14 b = of_bool (includeTotalCollateral b) + missing_after 15 b"
  "missing_after 15 b = of_bool (remainingReferenceInputs b \<noteq> 0) + missing_after 16 b"
  "missing_after 16 b = of_bool (remainingVotingProcedures b \<noteq> 0) + missing_after 17 b"
  "missing_after 17 b = of_bool (includeTreasury b) + missing_after 18 b"
  "missing_after 18 b = of_bool (includeDonation b) + missing_after 19 b"
  "missing_after 19 b = 0" "missing_after 20 b = 0"
  by (simp_all add: missing_after_def)

lemma missing_after_init: "missing_after 0 b = 3 + of_bool (includeTtl b)
     + of_bool (remainingCertificates b \<noteq> 0) + of_bool (remainingWithdrawals b \<noteq> 0)
     + of_bool (includeAuxData b) + of_bool (includeValidityIntervalStart b)
     + of_bool (includeMint b) + of_bool (includeScriptDataHash b)
     + of_bool (remainingCollateralInputs b \<noteq> 0) + of_bool (remainingRequiredSigners b \<noteq> 0)
     + of_bool (includeNetworkId b) + of_bool (includeCollateralOutput b)
     + of_bool (includeTotalCollateral b) + of_bool (remainingReferenceInputs b \<noteq> 0)
     + of_bool (remainingVotingProcedures b \<noteq> 0) + of_bool (includeTreasury b)
     + of_bool (includeDonation b)"
  by (simp add: missing_after_def)

subsection \<open>A calculus for the builder's statements\<close>

text \<open>
  \<open>refines P f Q\<close>: from a builder whose stream leaves \<open>e\<close> outstanding, with \<open>P\<close>, a
  successful \<open>f\<close> ends in a builder whose stream leaves some \<open>e'\<close> outstanding, with \<open>Q\<close>.
\<close>

definition refines ::
  "(tx_hash_builder_t \<Rightarrow> outstanding \<Rightarrow> bool) \<Rightarrow> tx_hash_builder_t stmt \<Rightarrow>
   (tx_hash_builder_t \<Rightarrow> outstanding \<Rightarrow> bool) \<Rightarrow> bool" where
  "refines P f Q \<longleftrightarrow> (\<forall>b e b'. tx_reads b e \<longrightarrow> P b e \<longrightarrow> f b = Inr b' \<longrightarrow>
     (\<exists>e'. tx_reads b' e' \<and> Q b' e'))"

lemma refines_pre: "refines P f Q \<Longrightarrow> (\<And>b e. P' b e \<Longrightarrow> P b e) \<Longrightarrow> refines P' f Q"
  unfolding refines_def by blast

declare split_paired_All [simp del] split_paired_Ex [simp del]

named_theorems wp

lemma wp_nil [wp]: "refines Q (seq []) Q"
  by (auto simp: refines_def)

lemma refinesD:
  "refines P f Q \<Longrightarrow> P b e \<Longrightarrow> tx_reads b e \<Longrightarrow> f b = Inr b' \<Longrightarrow>
   \<exists>e'. tx_reads b' e' \<and> Q b' e'"
  unfolding refines_def by blast

lemma wp_cons [wp]:
  assumes "refines R (seq fs) Q" "refines P f R"
  shows "refines P (seq (f # fs)) Q"
  unfolding refines_def
proof (intro allI impI)
  fix b e b'
  assume b: "tx_reads b e" "P b e" "seq (f # fs) b = Inr b'"
  then obtain c where c: "f b = Inr c" "seq fs c = Inr b'"
    by (auto simp: res_bind_Inr_iff)
  obtain e1 where "tx_reads c e1" "R c e1"
    using refinesD [OF assms(2) b(2,1) c(1)] by blast
  then show "\<exists>e'. tx_reads b' e' \<and> Q b' e'"
    using refinesD [OF assms(1) _ _ c(2)] by blast
qed

lemma wp_assert [wp]: "refines (\<lambda>b e. p b \<longrightarrow> Q b e) (assert_that p) Q"
  unfolding refines_def assert_that_Inr by metis

lemma wp_in_state [wp]: "refines (\<lambda>b e. txState b = s \<longrightarrow> Q b e) (in_state s) Q"
  unfolding in_state_def by (rule wp_assert)

lemma wp_modify [wp]:
  "(\<And>b. txHash (u b) = txHash b) \<Longrightarrow> refines (\<lambda>b e. Q (u b) e) (modify u) Q"
  unfolding refines_def modify_Inr by (metis tx_reads_hash)

lemma wp_goto_state [wp]: "refines (\<lambda>b e. Q (b\<lparr>txState := s\<rparr>) e) (goto_state s) Q"
  unfolding goto_state_def by (rule wp_modify) simp

lemma wp_with_field [wp]:
  assumes "\<And>x. refines (P x) (k x) Q"
  shows "refines (\<lambda>b e. \<forall>x. F b = Some x \<longrightarrow> P x b e) (with_field F k) Q"
  using assms unfolding refines_def with_field_def by (auto split: option.splits)

lemma wp_assert_field [wp]:
  "refines (\<lambda>b e. \<forall>x. F b = Some x \<longrightarrow> p x \<longrightarrow> Q b e) (assert_field F p) Q"
  unfolding assert_field_def by (rule refines_pre, rule wp) (rule wp_assert, auto)

lemma wp_writes:
  "writes tx_absorb f g \<Longrightarrow>
   refines (\<lambda>b e. \<exists>e'. g e = Some e' \<and> (\<forall>bs. Q (tx_absorb bs b) e')) f Q"
  unfolding refines_def
proof (intro allI impI)
  fix b e b'
  assume w: "writes tx_absorb f g" "f b = Inr b'" "tx_reads b e"
    and "\<exists>e'. g e = Some e' \<and> (\<forall>bs. Q (tx_absorb bs b) e')"
  then obtain e' where e': "g e = Some e'" "\<And>bs. Q (tx_absorb bs b) e'" by blast
  obtain bs where "b' = tx_absorb bs b"
    "\<And>c e e'. txHash c = txHash b' \<Longrightarrow> tx_reads b e \<Longrightarrow> g e = Some e' \<Longrightarrow> tx_reads c e'"
    using tx_writes_reads [OF w(1,2)] by blast
  with w(3) e' show "\<exists>e'. tx_reads b' e' \<and> Q b' e'" by blast
qed

text \<open>The builder tags a set only where an item is open.\<close>

definition tag_eff :: "outstanding \<Rightarrow> outstanding option" where
  "tag_eff = (\<lambda>(p, stk). if p = 0 \<and> stk \<noteq> [] then Some (0, stk) else None)"

lemma writes_tag_cbor_set: "writes tx_absorb tx_tag_cbor_set tag_eff"
proof -
  have "writes tx_absorb (tx_append_cbor CBOR_TYPE_TAG CBOR_TAG_SET) tag_eff"
    by (rule writes_weaken, rule tx.writes_head)
      (auto simp: tag_eff_def head_eff_def neq_Nil_conv split: if_splits)
  moreover have "writes tx_absorb Inr tag_eff"
    unfolding writes_def
    by (auto simp: tag_eff_def tx.absorb_Nil split: if_splits intro!: exI [of _ "[]"])
  ultimately show ?thesis
    unfolding writes_def tx_tag_cbor_set_def by auto
qed

lemma wp_append_count:
  assumes "t \<in> head_types"
  shows "refines (\<lambda>b e. \<exists>e'. head_eff t (unat (count b)) e = Some e' \<and> (\<forall>bs. Q (tx_absorb bs b) e'))
    (tx_append_count t count) Q"
  using wp_writes [OF writes_head_ucast [OF assms], where Q = Q]
  unfolding refines_def tx_append_count_def by blast

text \<open>The head of an output opens the groups of its value and the entries that follow it.\<close>

definition output_eff :: "'p tx_output_description_t \<Rightarrow> outstanding \<Rightarrow> outstanding option" where
  "output_eff d = (\<lambda>(p, stk). if p \<noteq> 0 then None else map_option (\<lambda>rest. (0,
     push (2 * unat (outNumAssetGroups d))
       (push (output_rest (outFormat d) (outIncludeDatum d) (outIncludeRefScript d)) rest)))
     (take_item stk))"

lemma value_eff_open [simp]:
  "value_eff n (0, k # stk) = Some (0, push (2 * unat n) (push (k - 1) stk))"
  by (simp add: value_eff_def push_def unat_gt_0)

lemma writes_output_head:
  assumes "\<And>a. outDestination d = DESTINATION_THIRD_PARTY a \<Longrightarrow> length a < 2 ^ 64"
  shows "writes tx_absorb (case outFormat d of ARRAY_LEGACY \<Rightarrow> cbor_append_txOutput_array d
       | MAP_BABBAGE \<Rightarrow> cbor_append_txOutput_map d) (output_eff d)"
proof (cases "outFormat d")
  case ARRAY_LEGACY
  have "writes tx_absorb (cbor_append_txOutput_array d)
    (effs [Some, head_eff CBOR_TYPE_ARRAY (unat (2 + of_bool (outIncludeDatum d) :: u64)), item_eff,
      value_eff (outNumAssetGroups d)])"
    unfolding cbor_append_txOutput_array_def
    by (insert assms, (rule writes_intros writes_steps tx_writes_head | (simp; fail))+)
  then show ?thesis
    using ARRAY_LEGACY
    by (cases "outIncludeDatum d"; simp; elim writes_weaken)
      (auto simp: output_eff_def item_eff_def elim!: take_item.elims split: if_splits)
next
  case MAP_BABBAGE
  have "writes tx_absorb (cbor_append_txOutput_map d)
    (effs [Some, head_eff CBOR_TYPE_MAP
        (unat (2 + of_bool (outIncludeDatum d) + of_bool (outIncludeRefScript d) :: u64)),
      item_eff, item_eff, item_eff, value_eff (outNumAssetGroups d)])"
    unfolding cbor_append_txOutput_map_def
    by (insert assms, (rule writes_intros writes_steps tx_writes_head | (simp; fail))+)
  then show ?thesis
    using MAP_BABBAGE
    by (cases "outIncludeDatum d"; cases "outIncludeRefScript d"; simp; elim writes_weaken)
      (auto simp: output_eff_def item_eff_def elim!: take_item.elims split: if_splits)
qed

end
