(* ===== verification/TxRefinement.thy ===== *)
theory TxRefinement
  imports TxBody
begin

text \<open>
  Every operation of the transaction builder refines the reader of the body: from what the
  builder expects before to what it expects after.
\<close>

subsection \<open>Leaving a part\<close>

definition leaves :: "nat \<Rightarrow> tx_hash_builder_t \<Rightarrow> bool" where
  "leaves k b \<longleftrightarrow> expected b = (0, push (2 * missing_after k b) [])"

lemma with_field_Inr:
  "with_field F k b = Inr b' \<longleftrightarrow> (\<exists>x. F b = Some x \<and> k x b = Inr b')"
  by (auto simp: with_field_def split: option.splits)

lemma assert_field_Inr:
  "assert_field F p b = Inr b' \<longleftrightarrow> (\<exists>x. F b = Some x \<and> p x \<and> b' = b)"
  by (auto simp: assert_field_def with_field_Inr)

lemma in_state_Inr: "in_state s b = Inr b' \<longleftrightarrow> txState b = s \<and> b' = b"
  by (auto simp: in_state_def)

lemmas stmt_Inr = res_bind_Inr_iff with_field_Inr assert_field_Inr in_state_Inr

lemma output_rest_none [simp]: "output_rest fmt False False = 0"
  by (cases fmt) simp_all

lemma leave_current_output:
  assumes "assertCanLeaveCurrentOutput b = Inr b'"
  shows "b' = b \<and> (\<forall>stk. output_expected b stk = (0, stk))"
proof (cases "outputState b")
  case None
  then show ?thesis using assms by (simp add: assertCanLeaveCurrentOutput_def with_field_def)
next
  case (Some os)
  then show ?thesis
    using assms
    by (cases os) (auto simp: assertCanLeaveCurrentOutput_def stmt_Inr output_expected_def
        groups_of_def tokens_of_def)
qed

lemma leave_chain:
  assumes "can_leave s fin announced prev b = Inr b'"
    and "\<And>c. prev b = Inr c \<Longrightarrow> c = b \<and> leaves j b"
    and "\<And>c. txState b = s \<Longrightarrow> fin b = Inr c \<Longrightarrow> c = b \<and> leaves k b"
    and "missing_after j b = of_bool (announced b) + missing_after k b"
  shows "b' = b \<and> leaves k b"
  using assms by (auto simp: can_leave_def leaves_def res_bind_Inr_iff split: if_splits)

lemma leave_init: "assertCanLeaveInit b = Inr b' \<Longrightarrow> b' = b \<and> leaves 0 b"
  by (auto simp: assertCanLeaveInit_def stmt_Inr leaves_def expected_def)

lemma leave_inputs: "assertCanLeaveInputs b = Inr b' \<Longrightarrow> b' = b \<and> leaves 1 b"
  by (auto simp: assertCanLeaveInputs_def stmt_Inr leaves_def expected_def)

lemma leave_outputs: "assertCanLeaveOutputs b = Inr b' \<Longrightarrow> b' = b \<and> leaves 2 b"
  by (auto simp: assertCanLeaveOutputs_def stmt_Inr leaves_def expected_def
      dest!: leave_current_output)

lemma leave_fee: "assertCanLeaveFee b = Inr b' \<Longrightarrow> b' = b \<and> leaves 3 b"
  by (auto simp: assertCanLeaveFee_def stmt_Inr leaves_def expected_def)

lemma leave_ttl: "assertCanLeaveTtl b = Inr b' \<Longrightarrow> b' = b \<and> leaves 4 b"
  unfolding assertCanLeaveTtl_def
  by (erule leave_chain, erule leave_fee,
    (auto simp: leaves_def expected_def)[1], simp add: missing_step)

lemma leave_certificates: "assertCanLeaveCertificates b = Inr b' \<Longrightarrow> b' = b \<and> leaves 5 b"
  unfolding assertCanLeaveCertificates_def
  by (erule leave_chain, erule leave_ttl,
    (auto simp: leaves_def expected_def)[1], simp add: missing_step)

lemma leave_withdrawals: "assertCanLeaveWithdrawals b = Inr b' \<Longrightarrow> b' = b \<and> leaves 6 b"
  unfolding assertCanLeaveWithdrawals_def
  by (erule leave_chain, erule leave_certificates,
    (auto simp: leaves_def expected_def)[1], simp add: missing_step)

lemma leave_aux_data: "assertCanLeaveAuxData b = Inr b' \<Longrightarrow> b' = b \<and> leaves 7 b"
  unfolding assertCanLeaveAuxData_def
  by (erule leave_chain, erule leave_withdrawals,
    (auto simp: leaves_def expected_def)[1], simp add: missing_step)

lemma leave_validity_interval_start:
  "assertCanLeaveValidityIntervalStart b = Inr b' \<Longrightarrow> b' = b \<and> leaves 8 b"
  unfolding assertCanLeaveValidityIntervalStart_def
  by (erule leave_chain, erule leave_aux_data,
    (auto simp: leaves_def expected_def)[1], simp add: missing_step)

lemma leave_mint: "assertCanLeaveMint b = Inr b' \<Longrightarrow> b' = b \<and> leaves 9 b"
  unfolding assertCanLeaveMint_def
  by (erule leave_chain, erule leave_validity_interval_start,
    (auto simp: leaves_def expected_def stmt_Inr mint_expected_def groups_of_def
      tokens_of_def)[1], simp add: missing_step)

lemma leave_script_data_hash:
  "assertCanLeaveScriptDataHash b = Inr b' \<Longrightarrow> b' = b \<and> leaves 10 b"
  unfolding assertCanLeaveScriptDataHash_def
  by (erule leave_chain, erule leave_mint,
    (auto simp: leaves_def expected_def)[1], simp add: missing_step)

lemma leave_collateral_inputs:
  "assertCanLeaveCollateralInputs b = Inr b' \<Longrightarrow> b' = b \<and> leaves 11 b"
  unfolding assertCanLeaveCollateralInputs_def
  by (erule leave_chain, erule leave_script_data_hash,
    (auto simp: leaves_def expected_def)[1], simp add: missing_step)

lemma leave_required_signers:
  "assertCanLeaveRequiredSigners b = Inr b' \<Longrightarrow> b' = b \<and> leaves 12 b"
  unfolding assertCanLeaveRequiredSigners_def
  by (erule leave_chain, erule leave_collateral_inputs,
    (auto simp: leaves_def expected_def)[1], simp add: missing_step)

lemma leave_network_id: "assertCanLeaveNetworkId b = Inr b' \<Longrightarrow> b' = b \<and> leaves 13 b"
  unfolding assertCanLeaveNetworkId_def
  by (erule leave_chain, erule leave_required_signers,
    (auto simp: leaves_def expected_def)[1], simp add: missing_step)

lemma leave_collateral_output:
  "assertCanLeaveCollateralOutput b = Inr b' \<Longrightarrow> b' = b \<and> leaves 14 b"
  unfolding assertCanLeaveCollateralOutput_def
  by (erule leave_chain, erule leave_network_id,
    (auto simp: leaves_def expected_def dest!: leave_current_output)[1], simp add: missing_step)

lemma leave_total_collateral:
  "assertCanLeaveTotalCollateral b = Inr b' \<Longrightarrow> b' = b \<and> leaves 15 b"
  unfolding assertCanLeaveTotalCollateral_def
  by (erule leave_chain, erule leave_collateral_output,
    (auto simp: leaves_def expected_def)[1], simp add: missing_step)

lemma leave_reference_inputs:
  "assertCanLeaveReferenceInputs b = Inr b' \<Longrightarrow> b' = b \<and> leaves 16 b"
  unfolding assertCanLeaveReferenceInputs_def
  by (erule leave_chain, erule leave_total_collateral,
    (auto simp: leaves_def expected_def)[1], simp add: missing_step)

lemma leave_voting_procedures:
  "assertCanLeaveVotingProcedures b = Inr b' \<Longrightarrow> b' = b \<and> leaves 17 b"
  unfolding assertCanLeaveVotingProcedures_def
  by (erule leave_chain, erule leave_reference_inputs,
    (auto simp: leaves_def expected_def)[1], simp add: missing_step)

lemma leave_treasury: "assertCanLeaveTreasury b = Inr b' \<Longrightarrow> b' = b \<and> leaves 18 b"
  unfolding assertCanLeaveTreasury_def
  by (erule leave_chain, erule leave_voting_procedures,
    (auto simp: leaves_def expected_def)[1], simp add: missing_step)

lemma leave_donation: "assertCanLeaveDonation b = Inr b' \<Longrightarrow> b' = b \<and> leaves 19 b"
  unfolding assertCanLeaveDonation_def
  by (erule leave_chain, erule leave_treasury,
    (auto simp: leaves_def expected_def)[1], simp add: missing_step)

lemma wp_leave:
  assumes "\<And>b b'. f b = Inr b' \<Longrightarrow> b' = b \<and> leaves k b"
  shows "refines (\<lambda>b e. leaves k b \<longrightarrow> Q b e) f Q"
  unfolding refines_def using assms by blast

lemma wp_leaves:
  "refines (\<lambda>b e. leaves 0 b \<longrightarrow> Q b e) assertCanLeaveInit Q"
  "refines (\<lambda>b e. leaves 1 b \<longrightarrow> Q b e) assertCanLeaveInputs Q"
  "refines (\<lambda>b e. leaves 2 b \<longrightarrow> Q b e) assertCanLeaveOutputs Q"
  "refines (\<lambda>b e. leaves 3 b \<longrightarrow> Q b e) assertCanLeaveFee Q"
  "refines (\<lambda>b e. leaves 4 b \<longrightarrow> Q b e) assertCanLeaveTtl Q"
  "refines (\<lambda>b e. leaves 5 b \<longrightarrow> Q b e) assertCanLeaveCertificates Q"
  "refines (\<lambda>b e. leaves 6 b \<longrightarrow> Q b e) assertCanLeaveWithdrawals Q"
  "refines (\<lambda>b e. leaves 7 b \<longrightarrow> Q b e) assertCanLeaveAuxData Q"
  "refines (\<lambda>b e. leaves 8 b \<longrightarrow> Q b e) assertCanLeaveValidityIntervalStart Q"
  "refines (\<lambda>b e. leaves 9 b \<longrightarrow> Q b e) assertCanLeaveMint Q"
  "refines (\<lambda>b e. leaves 10 b \<longrightarrow> Q b e) assertCanLeaveScriptDataHash Q"
  "refines (\<lambda>b e. leaves 11 b \<longrightarrow> Q b e) assertCanLeaveCollateralInputs Q"
  "refines (\<lambda>b e. leaves 12 b \<longrightarrow> Q b e) assertCanLeaveRequiredSigners Q"
  "refines (\<lambda>b e. leaves 13 b \<longrightarrow> Q b e) assertCanLeaveNetworkId Q"
  "refines (\<lambda>b e. leaves 14 b \<longrightarrow> Q b e) assertCanLeaveCollateralOutput Q"
  "refines (\<lambda>b e. leaves 15 b \<longrightarrow> Q b e) assertCanLeaveTotalCollateral Q"
  "refines (\<lambda>b e. leaves 16 b \<longrightarrow> Q b e) assertCanLeaveReferenceInputs Q"
  "refines (\<lambda>b e. leaves 17 b \<longrightarrow> Q b e) assertCanLeaveVotingProcedures Q"
  "refines (\<lambda>b e. leaves 18 b \<longrightarrow> Q b e) assertCanLeaveTreasury Q"
  "refines (\<lambda>b e. leaves 19 b \<longrightarrow> Q b e) assertCanLeaveDonation Q"
  by (rule wp_leave, erule leave_init leave_inputs leave_outputs leave_fee leave_ttl
      leave_certificates leave_withdrawals leave_aux_data leave_validity_interval_start leave_mint
      leave_script_data_hash leave_collateral_inputs leave_required_signers leave_network_id
      leave_collateral_output leave_total_collateral leave_reference_inputs
      leave_voting_procedures leave_treasury leave_donation)+

end
