(* ===== verification/TxOperations.thy ===== *)
theory TxOperations
  imports TxRefinement
begin

text \<open>
  Every operation of \<open>txHashBuilder.c\<close> keeps the promise: when it succeeds on a builder
  whose stream lacks what \<open>expected\<close> says, the stream it leaves lacks what \<open>expected\<close> says
  of the builder it leaves. The side conditions are the ones the C types give (arrays of
  fixed size, lengths that fit their type) and, for the operations on datums and reference
  scripts, the protocol the builder itself does not check.
\<close>

definition keeps :: "(tx_hash_builder_t \<Rightarrow> bool) \<Rightarrow> tx_hash_builder_t stmt \<Rightarrow> bool" where
  "keeps P f \<longleftrightarrow> refines (\<lambda>b e. P b \<and> e = expected b) f (\<lambda>b e. e = expected b)"

abbreviation always :: "tx_hash_builder_t \<Rightarrow> bool" where
  "always \<equiv> \<lambda>_. True"

lemma keepsI:
  assumes "refines R f (\<lambda>b e. e = expected b)" "\<And>b. P b \<Longrightarrow> R b (expected b)"
  shows "keeps P f"
  unfolding keeps_def using assms(1) by (rule refines_pre) (use assms(2) in auto)

lemma keepsD:
  "keeps P f \<Longrightarrow> P b \<Longrightarrow> tx_reads b (expected b) \<Longrightarrow> f b = Inr b' \<Longrightarrow> tx_reads b' (expected b')"
  unfolding keeps_def using refinesD by blast

lemma wp_guard:
  assumes "\<And>b b'. f b = Inr b' \<Longrightarrow> b' = b \<and> G b"
  shows "refines (\<lambda>b e. G b \<longrightarrow> Q b e) f Q"
  unfolding refines_def using assms by blast

lemma wp_leave_output [wp]:
  "refines (\<lambda>b e. (\<forall>stk. output_expected b stk = (0, stk)) \<longrightarrow> Q b e) assertCanLeaveCurrentOutput Q"
  by (rule wp_guard, erule leave_current_output)

lemmas wp_write = wp_writes [OF writes_uint] wp_writes [OF tx_writes_bytes]
  wp_writes [OF tx_writes_text] wp_writes [OF tx_writes_null] wp_writes [OF writes_tag_cbor_set]
  wp_writes [OF writes_txInput] wp_writes [OF writes_appendCredential]
  wp_writes [OF writes_append_drep] wp_writes [OF writes_appendAnchor]
  wp_writes [OF writes_append_certificate] wp_append_count wp_writes [OF writes_output_head]
  wp_writes [OF writes_head_ucast] wp_writes [OF tx.writes_head] wp_writes [OF tx_writes_data]

lemma tag_eff_simp [simp]: "tag_eff (0, n # stk) = Some (0, n # stk)"
  by (simp add: tag_eff_def)

lemma output_eff_simp [simp]:
  "output_eff d (0, n # stk) = Some (0, push (2 * unat (outNumAssetGroups d))
     (push (output_rest (outFormat d) (outIncludeDatum d) (outIncludeRefScript d)) (push (n - 1) stk)))"
  by (simp add: output_eff_def)

lemma push_unat [simp]:
  "0 < n \<Longrightarrow> push (unat n) stk = unat n # stk"
  "0 < n \<Longrightarrow> push (2 * unat n) stk = 2 * unat n # stk"
  "n \<noteq> 0 \<Longrightarrow> push (unat n) stk = unat n # stk"
  "n \<noteq> 0 \<Longrightarrow> push (2 * unat n) stk = 2 * unat n # stk"
  for n :: u16
  by (simp_all add: push_def unat_gt_0 word_gt_0)

lemma push_pair [simp]:
  fixes n :: u16
  assumes "0 < n"
  shows "push (2 * unat n - Suc 0) stk = Suc (2 * (unat n - Suc 0)) # stk"
    "push (2 * unat n - 2) stk = push (2 * (unat n - Suc 0)) stk"
proof -
  obtain m where "unat n = Suc m"
    using assms by (cases "unat n") (auto simp: unat_eq_0)
  then show "push (2 * unat n - Suc 0) stk = Suc (2 * (unat n - Suc 0)) # stk"
    "push (2 * unat n - 2) stk = push (2 * (unat n - Suc 0)) stk"
    by simp_all
qed

lemma output_expected_state:
  "outputState b = Some TX_OUTPUT_TOP_LEVEL_DATA \<Longrightarrow> output_expected b stk =
    (0, push (2 * groups_of b) (push (output_rest (the (serializationFormat b))
      (the (includeDatum b)) (the (includeRefScript b))) stk))"
  "outputState b = Some TX_OUTPUT_ASSET_GROUP \<Longrightarrow> output_expected b stk =
    (0, push (2 * tokens_of b) (push (2 * groups_of b) (push (output_rest
      (the (serializationFormat b)) (the (includeDatum b)) (the (includeRefScript b))) stk)))"
  "outputState b = Some TX_OUTPUT_DATUM_HASH \<Longrightarrow> output_expected b stk =
    (0, push (output_rest (the (serializationFormat b)) False (the (includeRefScript b))) stk)"
  "outputState b = Some TX_OUTPUT_DATUM_INLINE \<Longrightarrow> output_expected b stk =
    (the (datumRemainingBytes b),
     push (output_rest (the (serializationFormat b)) False (the (includeRefScript b))) stk)"
  "outputState b = Some TX_OUTPUT_SCRIPT_REFERENCE_CHUNKS \<Longrightarrow> output_expected b stk =
    (the (refScriptRemainingBytes b), stk)"
  "outputState b = Some TX_OUTPUT_INIT \<Longrightarrow> output_expected b stk = (0, stk)"
  by (simp_all add: output_expected_def)

lemma output_expected_update [simp]:
  "output_expected (tx_absorb bs b) = output_expected b"
  "output_expected (b\<lparr>txState := s\<rparr>) = output_expected b"
  "output_expected (b\<lparr>remainingOutputs := n\<rparr>) = output_expected b"
  by (rule ext, cases "the (outputState b)"; simp add: output_expected_def groups_of_def
      tokens_of_def)+

lemma mint_expected_state:
  "outputState b = Some TX_OUTPUT_TOP_LEVEL_DATA \<Longrightarrow>
    mint_expected b stk = (0, push (2 * groups_of b) stk)"
  "outputState b = Some TX_OUTPUT_ASSET_GROUP \<Longrightarrow>
    mint_expected b stk = (0, push (2 * tokens_of b) (push (2 * groups_of b) stk))"
  by (simp_all add: mint_expected_def)

text \<open>The facts a proof about one operation unfolds.\<close>

lemmas builder_updates = clobber_pool_def clobber_output_def set_remainingOwners_def
  set_remainingRelays_def set_outputState_def set_remainingAssetGroups_def
  set_remainingTokens_def set_datumBytes_def set_refScriptBytes_def

lemmas expectations = leaves_def expected_def unat_pred output_expected_state
  mint_expected_state groups_of_def tokens_of_def

lemmas refine = wp_write wp_leaves wp

subsection \<open>Inputs, fee, time to live\<close>

lemma keeps_enterInputs:
  "keeps always (txHashBuilder_enterInputs)"
  unfolding txHashBuilder_enterInputs_def
  by (rule keepsI, (rule refine | (simp add: builder_updates; fail))+)
    (auto simp: expectations builder_updates missing_step(1))

lemma keeps_addInput:
  assumes "length (inputTxHash i) < 2 ^ 64"
  shows "keeps always (txHashBuilder_addInput i)"
  unfolding txHashBuilder_addInput_def
  by (insert assms, rule keepsI, (rule refine | (simp add: builder_updates; fail))+)
    (auto simp: expectations builder_updates)

lemma keeps_enterOutputs:
  "keeps always (txHashBuilder_enterOutputs)"
  unfolding txHashBuilder_enterOutputs_def
  by (rule keepsI, (rule refine | (simp add: builder_updates; fail))+)
    (auto simp: expectations builder_updates missing_step(2))

lemma keeps_addFee:
  "keeps always (txHashBuilder_addFee fee)"
  unfolding txHashBuilder_addFee_def
  by (rule keepsI, (rule refine | (simp add: builder_updates; fail))+)
    (auto simp: expectations builder_updates missing_step(3))

lemma keeps_addTtl:
  "keeps always (txHashBuilder_addTtl ttl)"
  unfolding txHashBuilder_addTtl_def
  by (rule keepsI, (rule refine | (simp add: builder_updates; fail))+)
    (auto simp: expectations builder_updates missing_step(4))

subsection \<open>Certificates\<close>

lemma keeps_enterCertificates:
  "keeps always (txHashBuilder_enterCertificates)"
  unfolding txHashBuilder_enterCertificates_def
  by (rule keepsI, (rule refine | (simp add: builder_updates; fail))+)
    (auto simp: expectations builder_updates missing_step(5))

lemma keeps_stakingOld:
  assumes "length (credHash c) < 2 ^ 64"
  shows "keeps always (txHashBuilder_addCertificate_stakingOld t c)"
  unfolding txHashBuilder_addCertificate_stakingOld_def initNewCertificate_def
  by (insert assms, rule keepsI, (rule refine | (simp add: builder_updates; fail))+)
    (auto simp: expectations builder_updates)

lemma keeps_staking:
  assumes "length (credHash c) < 2 ^ 64"
  shows "keeps always (txHashBuilder_addCertificate_staking t c deposit)"
  unfolding txHashBuilder_addCertificate_staking_def initNewCertificate_def
  by (insert assms, rule keepsI, (rule refine | (simp add: builder_updates; fail))+)
    (auto simp: expectations builder_updates)

lemma keeps_stakeDelegation:
  assumes "length (credHash c) < 2 ^ 64" "length h < 2 ^ 64"
  shows "keeps always (txHashBuilder_addCertificate_stakeDelegation c h)"
  unfolding txHashBuilder_addCertificate_stakeDelegation_def initNewCertificate_def
  by (insert assms, rule keepsI, (rule refine | (simp add: builder_updates; fail))+)
    (auto simp: expectations builder_updates)

lemma keeps_voteDelegation:
  assumes "length (credHash c) < 2 ^ 64" "\<And>h. d = DREP_KEY_HASH h \<or> d = DREP_SCRIPT_HASH h \<Longrightarrow> length h < 2 ^ 64"
  shows "keeps always (txHashBuilder_addCertificate_voteDelegation c d)"
  unfolding txHashBuilder_addCertificate_voteDelegation_def initNewCertificate_def
  by (insert assms, rule keepsI, (rule refine | (simp add: builder_updates; fail))+)
    (auto simp: expectations builder_updates)

lemma keeps_committeeAuthHot:
  assumes "length (credHash c) < 2 ^ 64" "length (credHash h) < 2 ^ 64"
  shows "keeps always (txHashBuilder_addCertificate_committeeAuthHot c h)"
  unfolding txHashBuilder_addCertificate_committeeAuthHot_def initNewCertificate_def
  by (insert assms, rule keepsI, (rule refine | (simp add: builder_updates; fail))+)
    (auto simp: expectations builder_updates)

lemma keeps_committeeResign:
  assumes "length (credHash c) < 2 ^ 64" "length (anchorUrl a) < 2 ^ 64" "length (anchorHash a) < 2 ^ 64"
  shows "keeps always (txHashBuilder_addCertificate_committeeResign c a)"
  unfolding txHashBuilder_addCertificate_committeeResign_def initNewCertificate_def
  by (insert assms, rule keepsI, (rule refine | (simp add: builder_updates; fail))+)
    (auto simp: expectations builder_updates)

lemma keeps_dRepRegistration:
  assumes "length (credHash c) < 2 ^ 64" "length (anchorUrl a) < 2 ^ 64" "length (anchorHash a) < 2 ^ 64"
  shows "keeps always (txHashBuilder_addCertificate_dRepRegistration c deposit a)"
  unfolding txHashBuilder_addCertificate_dRepRegistration_def initNewCertificate_def
  by (insert assms, rule keepsI, (rule refine | (simp add: builder_updates; fail))+)
    (auto simp: expectations builder_updates)

lemma keeps_dRepDeregistration:
  assumes "length (credHash c) < 2 ^ 64"
  shows "keeps always (txHashBuilder_addCertificate_dRepDeregistration c deposit)"
  unfolding txHashBuilder_addCertificate_dRepDeregistration_def initNewCertificate_def
  by (insert assms, rule keepsI, (rule refine | (simp add: builder_updates; fail))+)
    (auto simp: expectations builder_updates)

lemma keeps_dRepUpdate:
  assumes "length (credHash c) < 2 ^ 64" "length (anchorUrl a) < 2 ^ 64" "length (anchorHash a) < 2 ^ 64"
  shows "keeps always (txHashBuilder_addCertificate_dRepUpdate c a)"
  unfolding txHashBuilder_addCertificate_dRepUpdate_def initNewCertificate_def
  by (insert assms, rule keepsI, (rule refine | (simp add: builder_updates; fail))+)
    (auto simp: expectations builder_updates)

lemma keeps_poolRetirement:
  assumes "length h < 2 ^ 64"
  shows "keeps always (txHashBuilder_addCertificate_poolRetirement h epoch)"
  unfolding txHashBuilder_addCertificate_poolRetirement_def initNewCertificate_def
  by (insert assms, rule keepsI, (rule refine | (simp add: builder_updates; fail))+)
    (auto simp: expectations builder_updates)

subsection \<open>Pool registration certificates\<close>

lemma keeps_pool_enter:
  "keeps always (txHashBuilder_poolRegistrationCertificate_enter owners relays)"
  unfolding txHashBuilder_poolRegistrationCertificate_enter_def initNewCertificate_def
  by (rule keepsI, (rule refine | (simp add: builder_updates; fail))+)
    (auto simp: expectations builder_updates)

lemma keeps_pool_poolKeyHash:
  assumes "length h < 2 ^ 64"
  shows "keeps always (txHashBuilder_poolRegistrationCertificate_poolKeyHash h)"
  unfolding txHashBuilder_poolRegistrationCertificate_poolKeyHash_def
  by (insert assms, rule keepsI, (rule refine | (simp add: builder_updates; fail))+)
    (auto simp: expectations builder_updates)

lemma keeps_pool_vrfKeyHash:
  assumes "length h < 2 ^ 64"
  shows "keeps always (txHashBuilder_poolRegistrationCertificate_vrfKeyHash h)"
  unfolding txHashBuilder_poolRegistrationCertificate_vrfKeyHash_def
  by (insert assms, rule keepsI, (rule refine | (simp add: builder_updates; fail))+)
    (auto simp: expectations builder_updates)

lemma keeps_pool_financials:
  "keeps always (txHashBuilder_poolRegistrationCertificate_financials pledge cost num den)"
  unfolding txHashBuilder_poolRegistrationCertificate_financials_def
  by (rule keepsI, (rule refine | (simp add: builder_updates; fail))+)
    (auto simp: expectations builder_updates)

lemma keeps_pool_rewardAccount:
  assumes "length h < 2 ^ 64"
  shows "keeps always (txHashBuilder_poolRegistrationCertificate_rewardAccount h)"
  unfolding txHashBuilder_poolRegistrationCertificate_rewardAccount_def
  by (insert assms, rule keepsI, (rule refine | (simp add: builder_updates; fail))+)
    (auto simp: expectations builder_updates)

lemma keeps_pool_enterOwners:
  "keeps always (txHashBuilder_addPoolRegistrationCertificate_enterOwners)"
  unfolding txHashBuilder_addPoolRegistrationCertificate_enterOwners_def
  by (rule keepsI, (rule refine | (simp add: builder_updates; fail))+)
    (auto simp: expectations builder_updates)

lemma keeps_pool_addOwner:
  assumes "length h < 2 ^ 64"
  shows "keeps always (txHashBuilder_addPoolRegistrationCertificate_addOwner h)"
  unfolding txHashBuilder_addPoolRegistrationCertificate_addOwner_def
  by (insert assms, rule keepsI, (rule refine | (simp add: builder_updates; fail))+)
    (auto simp: expectations builder_updates)

lemma keeps_addRelay:
  assumes "relay_lengths r"
  shows "keeps always (txHashBuilder_addPoolRegistrationCertificate_addRelay r)"
proof -
  have ok: "length (relayDnsName r) < 2 ^ 64"
    "\<And>ip. relayIpv4 r = Some ip \<Longrightarrow> length ip = 4" "\<And>ip. relayIpv6 r = Some ip \<Longrightarrow> length ip = 16"
    using assms by (auto simp: relay_lengths_def is_size_t_def)
  have w: "writes tx_absorb (case relayFormat r of
         RELAY_SINGLE_HOST_IP \<Rightarrow> seq
           [tx_append_cbor CBOR_TYPE_ARRAY 4, tx_append_cbor CBOR_TYPE_UNSIGNED 0,
            relay_addPort (relayPort r), relay_addIpv4 (relayIpv4 r), relay_addIpv6 (relayIpv6 r)]
       | RELAY_SINGLE_HOST_NAME \<Rightarrow> seq
           [tx_append_cbor CBOR_TYPE_ARRAY 3, tx_append_cbor CBOR_TYPE_UNSIGNED 1,
            relay_addPort (relayPort r), relay_addDnsName r]
       | RELAY_MULTIPLE_HOST_NAME \<Rightarrow> seq
           [tx_append_cbor CBOR_TYPE_ARRAY 2, tx_append_cbor CBOR_TYPE_UNSIGNED 2,
            relay_addDnsName r]) item_eff"
    by (insert ok, cases "relayFormat r";
        simp only: relay_format_t.case; rule writes_item,
        (rule writes_intros writes_steps tx_writes_head | (auto; fail))+)
  show ?thesis
    unfolding txHashBuilder_addPoolRegistrationCertificate_addRelay_def
    by (rule keepsI, (rule refine wp_writes [OF w] | (simp add: builder_updates; fail))+)
      (auto simp: expectations builder_updates)
qed

lemma keeps_cond:
  assumes "keeps P f"
  shows "keeps P (\<lambda>b. do_if (c b) f b)"
  using assms unfolding keeps_def refines_def do_if_def by auto

lemma keeps_seq2:
  assumes "keeps always f" "keeps always (seq fs)"
  shows "keeps always (seq (f # fs))"
  unfolding keeps_def refines_def
proof (intro allI impI)
  fix b e b'
  assume b: "tx_reads b e" "True \<and> e = expected b" "seq (f # fs) b = Inr b'"
  then obtain c where c: "f b = Inr c" "seq fs c = Inr b'"
    by (auto simp: res_bind_Inr_iff)
  have "tx_reads c (expected c)"
    using keepsD [OF assms(1) _ _ c(1)] b by blast
  then show "\<exists>e'. tx_reads b' e' \<and> e' = expected b'"
    using keepsD [OF assms(2) _ _ c(2)] by blast
qed

lemma keeps_assert_field: "keeps P (assert_field F p)"
  by (rule keepsI, rule wp_assert_field) simp

lemma keeps_enterRelays: "keeps always txHashBuilder_addPoolRegistrationCertificate_enterRelays"
proof -
  have own: "keeps always (seq [in_state TX_HASH_BUILDER_IN_CERTIFICATES_POOL_OWNERS,
      assert_field remainingOwners (\<lambda>n. n = 0),
      with_field remainingRelays (\<lambda>n. tx_append_cbor CBOR_TYPE_ARRAY (ucast n)),
      goto_state TX_HASH_BUILDER_IN_CERTIFICATES_POOL_RELAYS])"
    by (rule keepsI, (rule refine | (simp add: builder_updates; fail))+)
      (auto simp: expectations builder_updates)
  have enter: "keeps always (seq [assert_field remainingOwners (\<lambda>n. n = 0),
      txHashBuilder_addPoolRegistrationCertificate_enterOwners])"
    by (intro keeps_seq2 keeps_assert_field keeps_pool_enterOwners) (rule keepsI [OF wp_nil], simp)
  show ?thesis
    unfolding txHashBuilder_addPoolRegistrationCertificate_enterRelays_def
    by (rule keeps_seq2 [OF keeps_cond [OF enter] own])
qed

text \<open>
  The metadata update leaves the certificate one item short: the metadata itself.
\<close>

lemma keeps_from_relays: "keeps always updateState_from_relays"
  unfolding updateState_from_relays_def by (rule keeps_assert_field)

lemma keeps_from_owners: "keeps always updateState_from_owners"
  unfolding updateState_from_owners_def
  by (intro keeps_seq2 keeps_assert_field keeps_enterRelays keeps_from_relays)
    (rule keepsI [OF wp_nil], simp)

lemma from_relays_state:
  "updateState_from_relays b = Inr b' \<Longrightarrow> b' = b \<and> remainingRelays b = Some 0"
  by (auto simp: updateState_from_relays_def stmt_Inr)

lemma enterRelays_state:
  "txHashBuilder_addPoolRegistrationCertificate_enterRelays b = Inr b' \<Longrightarrow>
   txState b' = TX_HASH_BUILDER_IN_CERTIFICATES_POOL_RELAYS"
  by (auto simp: txHashBuilder_addPoolRegistrationCertificate_enterRelays_def goto_state_def
      res_bind_Inr_iff)

lemma from_owners_state:
  "updateState_from_owners b = Inr b' \<Longrightarrow>
   txState b' = TX_HASH_BUILDER_IN_CERTIFICATES_POOL_RELAYS \<and> remainingRelays b' = Some 0"
proof -
  assume "updateState_from_owners b = Inr b'"
  then obtain c d where "txHashBuilder_addPoolRegistrationCertificate_enterRelays c = Inr d"
    "updateState_from_relays d = Inr b'"
    unfolding updateState_from_owners_def seq.simps res_bind_Inr_iff by blast
  then show ?thesis
    using enterRelays_state [of c d] from_relays_state [of d b'] by simp
qed

lemma keeps_updateState: "keeps always addPoolMetadata_updateState"
proof -
  have go: "tx_reads (b\<lparr>txState := TX_HASH_BUILDER_IN_CERTIFICATES_POOL_METADATA\<rparr>)
      (expected (b\<lparr>txState := TX_HASH_BUILDER_IN_CERTIFICATES_POOL_METADATA\<rparr>))"
    if "tx_reads b (expected b)" "txState b = TX_HASH_BUILDER_IN_CERTIFICATES_POOL_RELAYS"
      "remainingRelays b = Some 0" for b
    using that by (simp add: expected_def tx_reads_def tx_out_def)
  show ?thesis
    unfolding keeps_def refines_def
  proof (intro allI impI)
    fix b e b'
    assume r: "tx_reads b e" "True \<and> e = expected b" and s: "addPoolMetadata_updateState b = Inr b'"
    from s obtain c where c: "b' = c\<lparr>txState := TX_HASH_BUILDER_IN_CERTIFICATES_POOL_METADATA\<rparr>"
      and u: "(case txState b of
         TX_HASH_BUILDER_IN_CERTIFICATES_POOL_REWARD_ACCOUNT \<Rightarrow> seq
           [assert_field remainingOwners (\<lambda>n. n = 0),
            txHashBuilder_addPoolRegistrationCertificate_enterOwners, updateState_from_owners] b
       | TX_HASH_BUILDER_IN_CERTIFICATES_POOL_OWNERS \<Rightarrow> updateState_from_owners b
       | TX_HASH_BUILDER_IN_CERTIFICATES_POOL_RELAYS \<Rightarrow> updateState_from_relays b
       | _ \<Rightarrow> Inl ERR_ASSERT) = Inr c"
      by (auto simp: addPoolMetadata_updateState_def res_bind_Inr_iff goto_state_def)
    have k: "keeps always (seq [assert_field remainingOwners (\<lambda>n. n = 0),
        txHashBuilder_addPoolRegistrationCertificate_enterOwners, updateState_from_owners])"
      by (intro keeps_seq2 keeps_assert_field keeps_pool_enterOwners keeps_from_owners)
        (rule keepsI [OF wp_nil], simp)
    have "tx_reads c (expected c)"
      using u r keepsD [OF k, of b c] keepsD [OF keeps_from_owners, of b c]
        keepsD [OF keeps_from_relays, of b c]
      by (auto split: tx_hash_builder_state_t.splits)
    moreover have "txState c = TX_HASH_BUILDER_IN_CERTIFICATES_POOL_RELAYS \<and> remainingRelays c = Some 0"
      using u by (auto simp: res_bind_Inr_iff stmt_Inr split: tx_hash_builder_state_t.splits
          dest!: from_owners_state from_relays_state)
    ultimately show "\<exists>e'. tx_reads b' e' \<and> e' = expected b'"
      using go c by blast
  qed
qed

lemma keeps_addPoolMetadata:
  assumes "length url < 2 ^ 64" "length h < 2 ^ 64"
  shows "keeps always (txHashBuilder_addPoolRegistrationCertificate_addPoolMetadata url h)"
proof -
  have "keeps always (seq [in_state TX_HASH_BUILDER_IN_CERTIFICATES_POOL_METADATA,
      assert_that (\<lambda>_. length h = POOL_METADATA_HASH_LENGTH),
      tx_append_cbor CBOR_TYPE_ARRAY 2, tx_append_text url, tx_append_bytes h,
      goto_state TX_HASH_BUILDER_IN_CERTIFICATES])"
    by (insert assms, rule keepsI, (rule refine | (simp add: builder_updates; fail))+)
      (auto simp: expectations builder_updates)
  then show ?thesis
    unfolding txHashBuilder_addPoolRegistrationCertificate_addPoolMetadata_def
    by (intro keeps_seq2 [OF keeps_updateState])
qed

lemma keeps_addPoolMetadata_null:
  "keeps always txHashBuilder_addPoolRegistrationCertificate_addPoolMetadata_null"
proof -
  have "keeps always (seq [in_state TX_HASH_BUILDER_IN_CERTIFICATES_POOL_METADATA,
      tx_append_cbor CBOR_TYPE_NULL 0, goto_state TX_HASH_BUILDER_IN_CERTIFICATES])"
    by (rule keepsI, (rule refine | (simp add: builder_updates; fail))+)
      (auto simp: expectations builder_updates)
  then show ?thesis
    unfolding txHashBuilder_addPoolRegistrationCertificate_addPoolMetadata_null_def
    by (intro keeps_seq2 [OF keeps_updateState])
qed

subsection \<open>Withdrawals to mint\<close>

lemma keeps_enterWithdrawals:
  "keeps always (txHashBuilder_enterWithdrawals)"
  unfolding txHashBuilder_enterWithdrawals_def
  by (rule keepsI, (rule refine | (simp add: builder_updates; fail))+)
    (auto simp: expectations builder_updates missing_step(6))

lemma keeps_addWithdrawal:
  assumes "length addr < 2 ^ 64"
  shows "keeps always (txHashBuilder_addWithdrawal addr amount)"
  unfolding txHashBuilder_addWithdrawal_def
  by (insert assms, rule keepsI, (rule refine | (simp add: builder_updates; fail))+)
    (auto simp: expectations builder_updates)

lemma keeps_addAuxData:
  assumes "length h < 2 ^ 64"
  shows "keeps always (txHashBuilder_addAuxData h)"
  unfolding txHashBuilder_addAuxData_def
  by (insert assms, rule keepsI, (rule refine | (simp add: builder_updates; fail))+)
    (auto simp: expectations builder_updates missing_step(7))

lemma keeps_addValidityIntervalStart:
  "keeps always (txHashBuilder_addValidityIntervalStart v)"
  unfolding txHashBuilder_addValidityIntervalStart_def
  by (rule keepsI, (rule refine | (simp add: builder_updates; fail))+)
    (auto simp: expectations builder_updates missing_step(8))

subsection \<open>Script data hash to total collateral\<close>

lemma keeps_addScriptDataHash:
  assumes "length h < 2 ^ 64"
  shows "keeps always (txHashBuilder_addScriptDataHash h)"
  unfolding txHashBuilder_addScriptDataHash_def
  by (insert assms, rule keepsI, (rule refine | (simp add: builder_updates; fail))+)
    (auto simp: expectations builder_updates missing_step(10))

lemma keeps_enterCollateralInputs:
  "keeps always (txHashBuilder_enterCollateralInputs)"
  unfolding txHashBuilder_enterCollateralInputs_def
  by (rule keepsI, (rule refine | (simp add: builder_updates; fail))+)
    (auto simp: expectations builder_updates missing_step(11))

lemma keeps_addCollateralInput:
  assumes "length (inputTxHash i) < 2 ^ 64"
  shows "keeps always (txHashBuilder_addCollateralInput i)"
  unfolding txHashBuilder_addCollateralInput_def
  by (insert assms, rule keepsI, (rule refine | (simp add: builder_updates; fail))+)
    (auto simp: expectations builder_updates)

lemma keeps_enterRequiredSigners:
  "keeps always (txHashBuilder_enterRequiredSigners)"
  unfolding txHashBuilder_enterRequiredSigners_def
  by (rule keepsI, (rule refine | (simp add: builder_updates; fail))+)
    (auto simp: expectations builder_updates missing_step(12))

lemma keeps_addRequiredSigner:
  assumes "length vkey < 2 ^ 64"
  shows "keeps always (txHashBuilder_addRequiredSigner vkey)"
  unfolding txHashBuilder_addRequiredSigner_def
  by (insert assms, rule keepsI, (rule refine | (simp add: builder_updates; fail))+)
    (auto simp: expectations builder_updates)

lemma keeps_addNetworkId:
  "keeps always (txHashBuilder_addNetworkId n)"
  unfolding txHashBuilder_addNetworkId_def
  by (rule keepsI, (rule refine | (simp add: builder_updates; fail))+)
    (auto simp: expectations builder_updates missing_step(13))

lemma keeps_addTotalCollateral:
  "keeps always (txHashBuilder_addTotalCollateral v)"
  unfolding txHashBuilder_addTotalCollateral_def
  by (rule keepsI, (rule refine | (simp add: builder_updates; fail))+)
    (auto simp: expectations builder_updates missing_step(15))

subsection \<open>Reference inputs to donation\<close>

lemma keeps_enterReferenceInputs:
  "keeps always (txHashBuilder_enterReferenceInputs)"
  unfolding txHashBuilder_enterReferenceInputs_def
  by (rule keepsI, (rule refine | (simp add: builder_updates; fail))+)
    (auto simp: expectations builder_updates missing_step(16))

lemma keeps_addReferenceInput:
  assumes "length (inputTxHash i) < 2 ^ 64"
  shows "keeps always (txHashBuilder_addReferenceInput i)"
  unfolding txHashBuilder_addReferenceInput_def
  by (insert assms, rule keepsI, (rule refine | (simp add: builder_updates; fail))+)
    (auto simp: expectations builder_updates)

lemma keeps_enterVotingProcedures:
  "keeps always (txHashBuilder_enterVotingProcedures)"
  unfolding txHashBuilder_enterVotingProcedures_def
  by (rule keepsI, (rule refine | (simp add: builder_updates; fail))+)
    (auto simp: expectations builder_updates missing_step(17))

lemma keeps_addVotingProcedure:
  assumes "length (voter_hash voter) < 2 ^ 64" "length (govTxHash action) < 2 ^ 64" "length (anchorUrl (votingAnchor vp)) < 2 ^ 64" "length (anchorHash (votingAnchor vp)) < 2 ^ 64"
  shows "keeps always (txHashBuilder_addVotingProcedure voter action vp)"
  unfolding txHashBuilder_addVotingProcedure_def
  by (insert assms, rule keepsI, (rule refine | (simp add: builder_updates; fail))+)
    (auto simp: expectations builder_updates)

lemma keeps_addTreasury:
  "keeps (includeTreasury) (txHashBuilder_addTreasury v)"
  unfolding txHashBuilder_addTreasury_def
  by (rule keepsI, (rule refine | (simp add: builder_updates; fail))+)
    (auto simp: expectations builder_updates missing_step(18))

lemma keeps_addDonation:
  "keeps (includeDonation) (txHashBuilder_addDonation v)"
  unfolding txHashBuilder_addDonation_def
  by (rule keepsI, (rule refine | (simp add: builder_updates; fail))+)
    (auto simp: expectations builder_updates missing_step(19))

subsection \<open>The body of an output\<close>


lemma wp_do_if [wp]:
  "(c \<Longrightarrow> refines P f Q) \<Longrightarrow>
   refines (\<lambda>b e. (c \<longrightarrow> P b e) \<and> (\<not> c \<longrightarrow> Q b e)) (do_if c f) Q"
  by (cases c) (auto simp: refines_def do_if_def)

definition tokens_done :: "tx_hash_builder_t \<Rightarrow> bool" where
  "tokens_done b \<longleftrightarrow> remainingAssetGroups b = Some 0 \<and>
     (outputState b = Some TX_OUTPUT_TOP_LEVEL_DATA \<or>
      outputState b = Some TX_OUTPUT_ASSET_GROUP \<and> remainingTokens b = Some 0)"

lemma output_state_guard:
  assumes "with_field outputState k b = Inr b'"
    and "\<And>os. outputState b = Some os \<Longrightarrow> k os b = Inr b' \<Longrightarrow> b' = b \<and> G"
  shows "b' = b \<and> G"
  using assms by (auto simp: stmt_Inr)

lemma tokens_done_guard:
  "outputState b = Some os \<Longrightarrow> assert_tokens_done os b = Inr b' \<Longrightarrow> b' = b \<and> tokens_done b"
  by (cases os) (auto simp: assert_tokens_done_def tokens_done_def stmt_Inr)

lemma wp_tokens_done [wp]:
  "refines (\<lambda>b e. tokens_done b \<longrightarrow> Q b e) (with_field outputState assert_tokens_done) Q"
  by (rule wp_guard) (erule output_state_guard, erule tokens_done_guard)

lemma wp_group_guard [wp]:
  "refines (\<lambda>b e. outputState b = Some TX_OUTPUT_TOP_LEVEL_DATA \<or>
      outputState b = Some TX_OUTPUT_ASSET_GROUP \<and> remainingTokens b = Some 0 \<longrightarrow> Q b e)
    (with_field outputState (\<lambda>os.
        case os of
          TX_OUTPUT_ASSET_GROUP \<Rightarrow> assert_field remainingTokens (\<lambda>n. n = 0)
        | TX_OUTPUT_TOP_LEVEL_DATA \<Rightarrow> modify id
        | _ \<Rightarrow> assert_that (\<lambda>_. False))) Q"
proof (rule wp_guard, erule output_state_guard)
  fix b b' :: tx_hash_builder_t and os
  show "outputState b = Some os \<Longrightarrow> (case os of
          TX_OUTPUT_ASSET_GROUP \<Rightarrow> assert_field remainingTokens (\<lambda>n. n = 0)
        | TX_OUTPUT_TOP_LEVEL_DATA \<Rightarrow> modify id
        | _ \<Rightarrow> assert_that (\<lambda>_. False)) b = Inr b' \<Longrightarrow>
    b' = b \<and> (outputState b = Some TX_OUTPUT_TOP_LEVEL_DATA \<or>
      outputState b = Some TX_OUTPUT_ASSET_GROUP \<and> remainingTokens b = Some 0)"
    by (cases os) (auto simp: stmt_Inr)
qed

lemma wp_script_guard [wp]:
  "refines (\<lambda>b e. tokens_done b \<or> outputState b = Some TX_OUTPUT_DATUM_HASH \<or>
      outputState b = Some TX_OUTPUT_DATUM_INLINE \<and> datumRemainingBytes b = Some 0 \<longrightarrow> Q b e)
    (with_field outputState (\<lambda>os.
        case os of
          TX_OUTPUT_DATUM_HASH \<Rightarrow> modify id
        | TX_OUTPUT_DATUM_INLINE \<Rightarrow> assert_field datumRemainingBytes (\<lambda>n. n = 0)
        | _ \<Rightarrow> assert_tokens_done os)) Q"
proof (rule wp_guard, erule output_state_guard)
  fix b b' :: tx_hash_builder_t and os
  show "outputState b = Some os \<Longrightarrow> (case os of
          TX_OUTPUT_DATUM_HASH \<Rightarrow> modify id
        | TX_OUTPUT_DATUM_INLINE \<Rightarrow> assert_field datumRemainingBytes (\<lambda>n. n = 0)
        | _ \<Rightarrow> assert_tokens_done os) b = Inr b' \<Longrightarrow>
    b' = b \<and> (tokens_done b \<or> outputState b = Some TX_OUTPUT_DATUM_HASH \<or>
      outputState b = Some TX_OUTPUT_DATUM_INLINE \<and> datumRemainingBytes b = Some 0)"
    by (cases os) (auto simp: stmt_Inr tokens_done_def assert_tokens_done_def)
qed

lemmas refine_output = wp_group_guard wp_script_guard wp_tokens_done wp_do_if refine

definition in_output :: "tx_hash_builder_t \<Rightarrow> bool" where
  "in_output b \<longleftrightarrow> txState b \<in> {TX_HASH_BUILDER_IN_OUTPUTS, TX_HASH_BUILDER_IN_COLLATERAL_OUTPUT}"

lemma keeps_topLevelData:
  assumes "\<And>a. outDestination d = DESTINATION_THIRD_PARTY a \<Longrightarrow> length a < 2 ^ 64"
  shows "keeps always (txHashBuilder_addOutput_topLevelData d)"
  unfolding txHashBuilder_addOutput_topLevelData_def processOutputTopLevel_def
  by (insert assms, rule keepsI, (rule refine | (simp add: builder_updates; fail))+)
    (auto simp: expectations builder_updates)

lemma keeps_collateralOutput:
  assumes "\<And>a. outDestination d = DESTINATION_THIRD_PARTY a \<Longrightarrow> length a < 2 ^ 64"
  shows "keeps always (txHashBuilder_addCollateralOutput d)"
  unfolding txHashBuilder_addCollateralOutput_def processOutputTopLevel_def
  by (insert assms, rule keepsI, (rule refine | (simp add: builder_updates; fail))+)
    (auto simp: expectations builder_updates missing_step(14))

lemma keeps_tokenGroup:
  assumes "length policyId < 2 ^ 64"
  shows "keeps always (txHashBuilder_addOutput_tokenGroup policyId n)"
  unfolding txHashBuilder_addOutput_tokenGroup_def addTokenGroup_def
  by (insert assms, rule keepsI, (rule refine_output | (simp add: builder_updates; fail))+)
    (auto simp: expectations builder_updates)

lemma keeps_collateralTokenGroup:
  assumes "length policyId < 2 ^ 64"
  shows "keeps always (txHashBuilder_addCollateralOutput_tokenGroup policyId n)"
  unfolding txHashBuilder_addCollateralOutput_tokenGroup_def addTokenGroup_def
  by (insert assms, rule keepsI, (rule refine_output | (simp add: builder_updates; fail))+)
    (auto simp: expectations builder_updates)

lemma keeps_mintTokenGroup:
  assumes "length policyId < 2 ^ 64"
  shows "keeps always (txHashBuilder_addMint_tokenGroup policyId n)"
  unfolding txHashBuilder_addMint_tokenGroup_def addTokenGroup_def
  by (insert assms, rule keepsI, (rule refine_output | (simp add: builder_updates; fail))+)
    (auto simp: expectations builder_updates)

lemma keeps_token:
  assumes "length assetName < 2 ^ 64"
  shows "keeps always (txHashBuilder_addOutput_token assetName amount)"
  unfolding txHashBuilder_addOutput_token_def addToken_def
  by (insert assms, rule keepsI, (rule refine_output | (simp add: builder_updates; fail))+)
    (auto simp: expectations builder_updates)

lemma keeps_collateralToken:
  assumes "length assetName < 2 ^ 64"
  shows "keeps always (txHashBuilder_addCollateralOutput_token assetName amount)"
  unfolding txHashBuilder_addCollateralOutput_token_def addToken_def
  by (insert assms, rule keepsI, (rule refine_output | (simp add: builder_updates; fail))+)
    (auto simp: expectations builder_updates)


lemma keeps_mintToken:
  assumes "length assetName < 2 ^ 64"
  shows "keeps always (txHashBuilder_addMint_token assetName amount)"
proof -
  have w: "writes tx_absorb (tx_append_cbor
      (if sint amount < 0 then CBOR_TYPE_NEGATIVE else CBOR_TYPE_UNSIGNED) amount) item_eff"
    using tx.writes_negative [of amount] writes_uint [of amount] by simp
  show ?thesis
    unfolding txHashBuilder_addMint_token_def addToken_def
    by (insert assms, rule keepsI,
        (rule wp_writes [OF w] refine | (simp add: builder_updates; fail))+)
      (auto simp: expectations builder_updates)
qed

text \<open>The two calls the mint is entered with.\<close>

lemma keeps_mint:
  "keeps always (seq [txHashBuilder_enterMint, txHashBuilder_addMint_topLevelData n])"
  unfolding txHashBuilder_enterMint_def txHashBuilder_addMint_topLevelData_def
  by (rule keepsI, (rule refine | (simp add: builder_updates; fail))+)
    (auto simp: expectations builder_updates missing_step(9))

lemma keeps_in_output:
  assumes "keeps (\<lambda>b. txState b = TX_HASH_BUILDER_IN_OUTPUTS) f"
    and "keeps (\<lambda>b. txState b = TX_HASH_BUILDER_IN_COLLATERAL_OUTPUT) f"
  shows "keeps in_output f"
  using assms unfolding keeps_def refines_def in_output_def by blast

lemma expected_output:
  "txState b = TX_HASH_BUILDER_IN_OUTPUTS \<Longrightarrow> expected b =
     output_expected b (push (unat (remainingOutputs b)) (push (2 * missing_after 2 b) []))"
  "txState b = TX_HASH_BUILDER_IN_COLLATERAL_OUTPUT \<Longrightarrow> expected b =
     output_expected b (push (2 * missing_after 14 b) [])"
  by (simp_all add: expected_def)

lemma output_rest_legacy [simp]: "fmt \<noteq> MAP_BABBAGE \<Longrightarrow> output_rest fmt d r = of_bool d"
  by (cases fmt) auto

lemmas output_expectations = expected_output output_expected_state groups_of_def tokens_of_def
  tokens_done_def word_of_nat_length

lemma keeps_datum:
  assumes "n < 2 ^ 64" "t = DATUM_HASH \<Longrightarrow> n \<le> length buffer"
  shows "keeps in_output (txHashBuilder_addOutput_datum t buffer n)"
  unfolding txHashBuilder_addOutput_datum_def
  by (insert assms, cases t; simp only: datum_type_t.case; rule keeps_in_output; rule keepsI,
      (rule refine_output | (simp add: builder_updates; fail))+;
      auto simp: output_expectations builder_updates)

lemma keeps_datum_chunk:
  "keeps in_output (txHashBuilder_addOutput_datum_inline_chunk buffer)"
  unfolding txHashBuilder_addOutput_datum_inline_chunk_def
  by (rule keepsI, (rule refine_output | (simp add: builder_updates; fail))+)
    (auto simp: expectations builder_updates in_output_def)

text \<open>
  A reference script is the last entry of a map; its client must have written the announced
  datum before, which the builder does not check.
\<close>

definition ready_for_script :: "tx_hash_builder_t \<Rightarrow> bool" where
  "ready_for_script b \<longleftrightarrow> in_output b \<and> serializationFormat b = Some MAP_BABBAGE \<and>
     (tokens_done b \<longrightarrow> includeDatum b = Some False)"

lemma keeps_referenceScript:
  assumes "n < 2 ^ 64"
  shows "keeps ready_for_script (txHashBuilder_addOutput_referenceScript n)"
  unfolding txHashBuilder_addOutput_referenceScript_def
  by (insert assms, rule keepsI, (rule refine_output | (simp add: builder_updates; fail))+)
    (auto simp: expectations builder_updates in_output_def ready_for_script_def tokens_done_def
      word_of_nat_length)

text \<open>The chunk is absorbed before its length is checked.\<close>

lemma keeps_script_chunk:
  "keeps in_output (txHashBuilder_addOutput_referenceScript_dataChunk buffer)"
proof -
  let ?f = "txHashBuilder_addOutput_referenceScript_dataChunk buffer"
  have "keeps (\<lambda>b. in_output b \<and> length buffer \<le> the (refScriptRemainingBytes b)) ?f"
    unfolding txHashBuilder_addOutput_referenceScript_dataChunk_def
    by (rule keepsI, (rule refine_output | (simp add: builder_updates; fail))+)
      (auto simp: expectations builder_updates in_output_def)
  moreover have "length buffer \<le> the (refScriptRemainingBytes b)" if "?f b = Inr b'" for b b'
    using that by (auto simp: txHashBuilder_addOutput_referenceScript_dataChunk_def stmt_Inr
        dest!: tx_append_data_Inr)
  ultimately show ?thesis
    unfolding keeps_def refines_def by blast
qed

subsection \<open>The first and the last operation\<close>

lemma init_result:
  assumes "txHashBuilder_init p b = Inr b'"
  shows "tx_reads b' (expected b') \<and> txState b' = TX_HASH_BUILDER_INIT \<and>
    missing_after 0 b' = tx_numItems p"
proof -
  let ?c = "b\<lparr>tagCborSets := pTagCborSets p, txHash := blake2b_init,
        remainingInputs := pNumInputs p, remainingOutputs := pNumOutputs p,
        includeTtl := pIncludeTtl p, remainingCertificates := pNumCertificates p,
        remainingWithdrawals := pNumWithdrawals p, includeAuxData := pIncludeAuxData p,
        includeValidityIntervalStart := pIncludeValidityIntervalStart p,
        includeMint := pIncludeMint p, includeScriptDataHash := pIncludeScriptDataHash p,
        remainingCollateralInputs := pNumCollateralInputs p,
        remainingRequiredSigners := pNumRequiredSigners p,
        includeNetworkId := pIncludeNetworkId p,
        includeCollateralOutput := pIncludeCollateralOutput p,
        includeTotalCollateral := pIncludeTotalCollateral p,
        remainingReferenceInputs := pNumReferenceInputs p,
        remainingVotingProcedures := pNumVotingProcedures p,
        includeTreasury := pIncludeTreasury p, includeDonation := pIncludeDonation p\<rparr>"
  have n: "missing_after 0 ?c = tx_numItems p"
    by (simp add: missing_after_init tx_numItems_def word_gt_0)
  have "tx_reads ?c (0, [1])"
    by (simp add: tx_reads_def tx_out_def blake2b_init_def)
  moreover obtain c where c: "3 \<le> tx_numItems p" "tx_numItems p \<le> 19"
    "tx_append_cbor CBOR_TYPE_MAP (word_of_nat (tx_numItems p)) ?c = Inr c"
    "b' = c\<lparr>txState := TX_HASH_BUILDER_INIT\<rparr>"
    using assms by (auto simp: txHashBuilder_init_def res_bind_Inr_iff)
  moreover have u: "unat (word_of_nat (tx_numItems p) :: u64) = tx_numItems p"
    using c(2) by (simp add: word_of_nat_length)
  ultimately obtain bs where "c = tx_absorb bs ?c" "tx_reads b' (0, push (2 * tx_numItems p) [])"
    using tx_writes_reads [OF tx.writes_head [of CBOR_TYPE_MAP "word_of_nat (tx_numItems p)"] c(3)]
    by auto
  then show ?thesis
    using n c(4) missing_after_absorb [of 0 bs ?c] by (simp add: expected_def)
qed

lemma init_expected: "txHashBuilder_init p b = Inr b' \<Longrightarrow> tx_reads b' (expected b')"
  and init_missing: "txHashBuilder_init p b = Inr b' \<Longrightarrow>
    txState b' = TX_HASH_BUILDER_INIT \<and> missing_after 0 b' = tx_numItems p"
  using init_result by blast+

lemma finalize_complete:
  assumes "txHashBuilder_finalize digest outSize b = Inr (out, b')" "tx_reads b (expected b)"
  shows "complete_item (tx_out b)" "digest (tx_out b) = Some out" "outSize = 32"
proof -
  have "leaves 19 b" "digest (tx_out b) = Some out \<and> outSize = 32"
    using assms(1) leave_donation [of b]
    by (auto simp: txHashBuilder_finalize_def res_bind_Inr_iff blake2b_finalize_def tx_out_def
        split: if_splits option.splits)
  then show "complete_item (tx_out b)" "digest (tx_out b) = Some out" "outSize = 32"
    using assms(2) by (simp_all add: leaves_def missing_step complete_item_def tx_reads_def)
qed

end
