(* ===== verification/TxPrograms.thy ===== *)
theory TxPrograms
  imports TxOperations
begin

text \<open>
  Clients of the transaction builder. A program is the list of calls a client makes after
  \<open>txHashBuilder_init\<close>; \<open>exec\<close> runs one call on the builder, and every public operation of
  \<open>txHashBuilder.h\<close> is a call. The mint is entered with its two calls together, as the
  transaction handler makes them.
\<close>

subsection \<open>Calls\<close>

datatype 'p tx_op =
    OP_ENTER_INPUTS
  | OP_INPUT tx_input_t
  | OP_ENTER_OUTPUTS
  | OP_OUTPUT "'p tx_output_description_t"
  | OP_OUTPUT_TOKEN_GROUP bytes u16
  | OP_OUTPUT_TOKEN bytes u64
  | OP_OUTPUT_DATUM datum_type_t bytes nat
  | OP_OUTPUT_DATUM_CHUNK bytes
  | OP_OUTPUT_SCRIPT nat
  | OP_OUTPUT_SCRIPT_CHUNK bytes
  | OP_FEE u64
  | OP_TTL u64
  | OP_ENTER_CERTIFICATES
  | OP_CERT_STAKING_OLD certificate_type_t credential_t
  | OP_CERT_STAKING certificate_type_t credential_t u64
  | OP_CERT_STAKE_DELEGATION credential_t bytes
  | OP_CERT_VOTE_DELEGATION credential_t drep_t
  | OP_CERT_COMMITTEE_AUTH credential_t credential_t
  | OP_CERT_COMMITTEE_RESIGN credential_t anchor_t
  | OP_CERT_DREP_REGISTRATION credential_t u64 anchor_t
  | OP_CERT_DREP_DEREGISTRATION credential_t u64
  | OP_CERT_DREP_UPDATE credential_t anchor_t
  | OP_CERT_POOL_RETIREMENT bytes u64
  | OP_POOL_ENTER u16 u16
  | OP_POOL_KEY bytes
  | OP_POOL_VRF bytes
  | OP_POOL_FINANCIALS u64 u64 u64 u64
  | OP_POOL_REWARD_ACCOUNT bytes
  | OP_POOL_ENTER_OWNERS
  | OP_POOL_OWNER bytes
  | OP_POOL_ENTER_RELAYS
  | OP_POOL_RELAY pool_relay_t
  | OP_POOL_METADATA bytes bytes
  | OP_POOL_NO_METADATA
  | OP_ENTER_WITHDRAWALS
  | OP_WITHDRAWAL bytes u64
  | OP_AUX_DATA bytes
  | OP_VALIDITY_START u64
  | OP_MINT u16
  | OP_MINT_TOKEN_GROUP bytes u16
  | OP_MINT_TOKEN bytes u64
  | OP_SCRIPT_DATA_HASH bytes
  | OP_ENTER_COLLATERAL_INPUTS
  | OP_COLLATERAL_INPUT tx_input_t
  | OP_ENTER_REQUIRED_SIGNERS
  | OP_REQUIRED_SIGNER bytes
  | OP_NETWORK_ID u8
  | OP_COLLATERAL_OUTPUT "'p tx_output_description_t"
  | OP_COLLATERAL_TOKEN_GROUP bytes u16
  | OP_COLLATERAL_TOKEN bytes u64
  | OP_TOTAL_COLLATERAL u64
  | OP_ENTER_REFERENCE_INPUTS
  | OP_REFERENCE_INPUT tx_input_t
  | OP_ENTER_VOTING
  | OP_VOTE voter_t gov_action_id_t voting_procedure_t
  | OP_TREASURY u64
  | OP_DONATION u64

fun exec :: "'p tx_op \<Rightarrow> tx_hash_builder_t stmt" where
  "exec OP_ENTER_INPUTS =
    txHashBuilder_enterInputs"
| "exec (OP_INPUT i) =
    txHashBuilder_addInput i"
| "exec OP_ENTER_OUTPUTS =
    txHashBuilder_enterOutputs"
| "exec (OP_OUTPUT d) =
    txHashBuilder_addOutput_topLevelData d"
| "exec (OP_OUTPUT_TOKEN_GROUP policyId n) =
    txHashBuilder_addOutput_tokenGroup policyId n"
| "exec (OP_OUTPUT_TOKEN name amount) =
    txHashBuilder_addOutput_token name amount"
| "exec (OP_OUTPUT_DATUM t buffer n) =
    txHashBuilder_addOutput_datum t buffer n"
| "exec (OP_OUTPUT_DATUM_CHUNK buffer) =
    txHashBuilder_addOutput_datum_inline_chunk buffer"
| "exec (OP_OUTPUT_SCRIPT n) =
    txHashBuilder_addOutput_referenceScript n"
| "exec (OP_OUTPUT_SCRIPT_CHUNK buffer) =
    txHashBuilder_addOutput_referenceScript_dataChunk buffer"
| "exec (OP_FEE v) =
    txHashBuilder_addFee v"
| "exec (OP_TTL v) =
    txHashBuilder_addTtl v"
| "exec OP_ENTER_CERTIFICATES =
    txHashBuilder_enterCertificates"
| "exec (OP_CERT_STAKING_OLD t c) =
    txHashBuilder_addCertificate_stakingOld t c"
| "exec (OP_CERT_STAKING t c v) =
    txHashBuilder_addCertificate_staking t c v"
| "exec (OP_CERT_STAKE_DELEGATION c h) =
    txHashBuilder_addCertificate_stakeDelegation c h"
| "exec (OP_CERT_VOTE_DELEGATION c d) =
    txHashBuilder_addCertificate_voteDelegation c d"
| "exec (OP_CERT_COMMITTEE_AUTH c h) =
    txHashBuilder_addCertificate_committeeAuthHot c h"
| "exec (OP_CERT_COMMITTEE_RESIGN c a) =
    txHashBuilder_addCertificate_committeeResign c a"
| "exec (OP_CERT_DREP_REGISTRATION c v a) =
    txHashBuilder_addCertificate_dRepRegistration c v a"
| "exec (OP_CERT_DREP_DEREGISTRATION c v) =
    txHashBuilder_addCertificate_dRepDeregistration c v"
| "exec (OP_CERT_DREP_UPDATE c a) =
    txHashBuilder_addCertificate_dRepUpdate c a"
| "exec (OP_CERT_POOL_RETIREMENT h v) =
    txHashBuilder_addCertificate_poolRetirement h v"
| "exec (OP_POOL_ENTER n m) =
    txHashBuilder_poolRegistrationCertificate_enter n m"
| "exec (OP_POOL_KEY h) =
    txHashBuilder_poolRegistrationCertificate_poolKeyHash h"
| "exec (OP_POOL_VRF h) =
    txHashBuilder_poolRegistrationCertificate_vrfKeyHash h"
| "exec (OP_POOL_FINANCIALS v w x y) =
    txHashBuilder_poolRegistrationCertificate_financials v w x y"
| "exec (OP_POOL_REWARD_ACCOUNT h) =
    txHashBuilder_poolRegistrationCertificate_rewardAccount h"
| "exec OP_POOL_ENTER_OWNERS =
    txHashBuilder_addPoolRegistrationCertificate_enterOwners"
| "exec (OP_POOL_OWNER h) =
    txHashBuilder_addPoolRegistrationCertificate_addOwner h"
| "exec OP_POOL_ENTER_RELAYS =
    txHashBuilder_addPoolRegistrationCertificate_enterRelays"
| "exec (OP_POOL_RELAY r) =
    txHashBuilder_addPoolRegistrationCertificate_addRelay r"
| "exec (OP_POOL_METADATA url h) =
    txHashBuilder_addPoolRegistrationCertificate_addPoolMetadata url h"
| "exec OP_POOL_NO_METADATA =
    txHashBuilder_addPoolRegistrationCertificate_addPoolMetadata_null"
| "exec OP_ENTER_WITHDRAWALS =
    txHashBuilder_enterWithdrawals"
| "exec (OP_WITHDRAWAL h v) =
    txHashBuilder_addWithdrawal h v"
| "exec (OP_AUX_DATA h) =
    txHashBuilder_addAuxData h"
| "exec (OP_VALIDITY_START v) =
    txHashBuilder_addValidityIntervalStart v"
| "exec (OP_MINT n) =
    seq [txHashBuilder_enterMint, txHashBuilder_addMint_topLevelData n]"
| "exec (OP_MINT_TOKEN_GROUP policyId n) =
    txHashBuilder_addMint_tokenGroup policyId n"
| "exec (OP_MINT_TOKEN name amount) =
    txHashBuilder_addMint_token name amount"
| "exec (OP_SCRIPT_DATA_HASH h) =
    txHashBuilder_addScriptDataHash h"
| "exec OP_ENTER_COLLATERAL_INPUTS =
    txHashBuilder_enterCollateralInputs"
| "exec (OP_COLLATERAL_INPUT i) =
    txHashBuilder_addCollateralInput i"
| "exec OP_ENTER_REQUIRED_SIGNERS =
    txHashBuilder_enterRequiredSigners"
| "exec (OP_REQUIRED_SIGNER h) =
    txHashBuilder_addRequiredSigner h"
| "exec (OP_NETWORK_ID x) =
    txHashBuilder_addNetworkId x"
| "exec (OP_COLLATERAL_OUTPUT d) =
    txHashBuilder_addCollateralOutput d"
| "exec (OP_COLLATERAL_TOKEN_GROUP policyId n) =
    txHashBuilder_addCollateralOutput_tokenGroup policyId n"
| "exec (OP_COLLATERAL_TOKEN name amount) =
    txHashBuilder_addCollateralOutput_token name amount"
| "exec (OP_TOTAL_COLLATERAL v) =
    txHashBuilder_addTotalCollateral v"
| "exec OP_ENTER_REFERENCE_INPUTS =
    txHashBuilder_enterReferenceInputs"
| "exec (OP_REFERENCE_INPUT i) =
    txHashBuilder_addReferenceInput i"
| "exec OP_ENTER_VOTING =
    txHashBuilder_enterVotingProcedures"
| "exec (OP_VOTE w g p) =
    txHashBuilder_addVotingProcedure w g p"
| "exec (OP_TREASURY v) =
    txHashBuilder_addTreasury v"
| "exec (OP_DONATION v) =
    txHashBuilder_addDonation v"

text \<open>What the C types guarantee of the arguments: lengths fit, fixed-size arrays are full.\<close>

definition output_length :: "'p tx_output_description_t \<Rightarrow> bool" where
  "output_length d \<longleftrightarrow>
     (case outDestination d of DESTINATION_THIRD_PARTY a \<Rightarrow> is_size_t (length a)
      | DESTINATION_DEVICE_OWNED _ \<Rightarrow> True)"

definition drep_length :: "drep_t \<Rightarrow> bool" where
  "drep_length d \<longleftrightarrow>
     (case d of DREP_KEY_HASH h \<Rightarrow> is_size_t (length h) | DREP_SCRIPT_HASH h \<Rightarrow> is_size_t (length h)
      | DREP_ALWAYS_ABSTAIN \<Rightarrow> True | DREP_ALWAYS_NO_CONFIDENCE \<Rightarrow> True)"

definition anchor_lengths :: "anchor_t \<Rightarrow> bool" where
  "anchor_lengths a \<longleftrightarrow> is_size_t (length (anchorUrl a)) \<and> is_size_t (length (anchorHash a))"

fun lengths_ok :: "'p tx_op \<Rightarrow> bool" where
  "lengths_ok (OP_INPUT i) =
    (is_size_t (length (inputTxHash i)))"
| "lengths_ok (OP_OUTPUT d) =
    (output_length d)"
| "lengths_ok (OP_OUTPUT_TOKEN_GROUP policyId n) =
    (is_size_t (length policyId))"
| "lengths_ok (OP_OUTPUT_TOKEN name amount) =
    (is_size_t (length name))"
| "lengths_ok (OP_OUTPUT_DATUM t buffer n) =
    (is_size_t n \<and> (t = DATUM_HASH \<longrightarrow> n \<le> length buffer))"
| "lengths_ok (OP_OUTPUT_SCRIPT n) =
    (is_size_t n)"
| "lengths_ok (OP_CERT_STAKING_OLD t c) =
    (is_size_t (length (credHash c)))"
| "lengths_ok (OP_CERT_STAKING t c v) =
    (is_size_t (length (credHash c)))"
| "lengths_ok (OP_CERT_STAKE_DELEGATION c h) =
    (is_size_t (length (credHash c)) \<and> is_size_t (length h))"
| "lengths_ok (OP_CERT_VOTE_DELEGATION c d) =
    (is_size_t (length (credHash c)) \<and> drep_length d)"
| "lengths_ok (OP_CERT_COMMITTEE_AUTH c h) =
    (is_size_t (length (credHash c)) \<and> is_size_t (length (credHash h)))"
| "lengths_ok (OP_CERT_COMMITTEE_RESIGN c a) =
    (is_size_t (length (credHash c)) \<and> anchor_lengths a)"
| "lengths_ok (OP_CERT_DREP_REGISTRATION c v a) =
    (is_size_t (length (credHash c)) \<and> anchor_lengths a)"
| "lengths_ok (OP_CERT_DREP_DEREGISTRATION c v) =
    (is_size_t (length (credHash c)))"
| "lengths_ok (OP_CERT_DREP_UPDATE c a) =
    (is_size_t (length (credHash c)) \<and> anchor_lengths a)"
| "lengths_ok (OP_CERT_POOL_RETIREMENT h v) =
    (is_size_t (length h))"
| "lengths_ok (OP_POOL_KEY h) =
    (is_size_t (length h))"
| "lengths_ok (OP_POOL_VRF h) =
    (is_size_t (length h))"
| "lengths_ok (OP_POOL_REWARD_ACCOUNT h) =
    (is_size_t (length h))"
| "lengths_ok (OP_POOL_OWNER h) =
    (is_size_t (length h))"
| "lengths_ok (OP_POOL_RELAY r) =
    (relay_lengths r)"
| "lengths_ok (OP_POOL_METADATA url h) =
    (is_size_t (length url) \<and> is_size_t (length h))"
| "lengths_ok (OP_WITHDRAWAL h v) =
    (is_size_t (length h))"
| "lengths_ok (OP_AUX_DATA h) =
    (is_size_t (length h))"
| "lengths_ok (OP_MINT_TOKEN_GROUP policyId n) =
    (is_size_t (length policyId))"
| "lengths_ok (OP_MINT_TOKEN name amount) =
    (is_size_t (length name))"
| "lengths_ok (OP_SCRIPT_DATA_HASH h) =
    (is_size_t (length h))"
| "lengths_ok (OP_COLLATERAL_INPUT i) =
    (is_size_t (length (inputTxHash i)))"
| "lengths_ok (OP_REQUIRED_SIGNER h) =
    (is_size_t (length h))"
| "lengths_ok (OP_COLLATERAL_OUTPUT d) =
    (output_length d)"
| "lengths_ok (OP_COLLATERAL_TOKEN_GROUP policyId n) =
    (is_size_t (length policyId))"
| "lengths_ok (OP_COLLATERAL_TOKEN name amount) =
    (is_size_t (length name))"
| "lengths_ok (OP_REFERENCE_INPUT i) =
    (is_size_t (length (inputTxHash i)))"
| "lengths_ok (OP_VOTE w g p) =
    (is_size_t (length (voter_hash w)) \<and> is_size_t (length (govTxHash g)) \<and> anchor_lengths (votingAnchor p))"
| "lengths_ok _ = True"

text \<open>
  The protocol the builder leaves to its client: datums and reference scripts only while an
  output is written, a reference script only into a map and after the announced datum, and a
  treasury or a donation only when it was announced.
\<close>

fun protocol :: "'p tx_op \<Rightarrow> tx_hash_builder_t \<Rightarrow> bool" where
  "protocol (OP_OUTPUT_DATUM _ _ _) = in_output"
| "protocol (OP_OUTPUT_DATUM_CHUNK _) = in_output"
| "protocol (OP_OUTPUT_SCRIPT _) = ready_for_script"
| "protocol (OP_OUTPUT_SCRIPT_CHUNK _) = in_output"
| "protocol (OP_TREASURY _) = includeTreasury"
| "protocol (OP_DONATION _) = includeDonation"
| "protocol _ = (\<lambda>_. True)"

subsection \<open>Programs\<close>

definition run :: "'p tx_op list \<Rightarrow> tx_hash_builder_t stmt" where
  "run ops = seq (map exec ops)"

fun follows_protocol :: "'p tx_op list \<Rightarrow> tx_hash_builder_t \<Rightarrow> bool" where
  "follows_protocol [] b = True"
| "follows_protocol (op # ops) b = (lengths_ok op \<and> protocol op b \<and>
     (case exec op b of Inl _ \<Rightarrow> True | Inr b' \<Rightarrow> follows_protocol ops b'))"

definition tx_program :: "tx_params \<Rightarrow> 'p tx_op list \<Rightarrow> tx_hash_builder_t stmt" where
  "tx_program p ops = seq [txHashBuilder_init p, run ops]"

lemma keeps_exec: "lengths_ok op \<Longrightarrow> keeps (protocol op) (exec op)"
  by (cases op)
    (auto simp: output_length_def drep_length_def anchor_lengths_def is_size_t_def
      intro!: keeps_enterInputs keeps_addInput keeps_enterOutputs keeps_topLevelData keeps_tokenGroup keeps_token keeps_datum keeps_datum_chunk keeps_referenceScript keeps_script_chunk keeps_addFee keeps_addTtl keeps_enterCertificates keeps_stakingOld keeps_staking keeps_stakeDelegation keeps_voteDelegation keeps_committeeAuthHot keeps_committeeResign keeps_dRepRegistration keeps_dRepDeregistration keeps_dRepUpdate keeps_poolRetirement keeps_pool_enter keeps_pool_poolKeyHash keeps_pool_vrfKeyHash keeps_pool_financials keeps_pool_rewardAccount keeps_pool_enterOwners keeps_pool_addOwner keeps_enterRelays keeps_addRelay keeps_addPoolMetadata keeps_addPoolMetadata_null keeps_enterWithdrawals keeps_addWithdrawal keeps_addAuxData keeps_addValidityIntervalStart keeps_mint keeps_mintTokenGroup keeps_mintToken keeps_addScriptDataHash keeps_enterCollateralInputs keeps_addCollateralInput keeps_enterRequiredSigners keeps_addRequiredSigner keeps_addNetworkId keeps_collateralOutput keeps_collateralTokenGroup keeps_collateralToken keeps_addTotalCollateral keeps_enterReferenceInputs keeps_addReferenceInput keeps_enterVotingProcedures keeps_addVotingProcedure keeps_addTreasury keeps_addDonation
      split: tx_output_destination_t.splits drep_t.splits)

lemma run_expected:
  "run ops b = Inr b' \<Longrightarrow> follows_protocol ops b \<Longrightarrow> tx_reads b (expected b) \<Longrightarrow>
   tx_reads b' (expected b')"
proof (induction ops arbitrary: b)
  case (Cons op ops)
  then obtain c where c: "exec op b = Inr c" "run ops c = Inr b'"
    by (auto simp: run_def res_bind_Inr_iff)
  then have "tx_reads c (expected c)"
    using Cons.prems keepsD [OF keeps_exec] by auto
  then show ?case
    using Cons.IH [OF c(2)] Cons.prems(2) c(1) by simp
qed (simp add: run_def)

lemma program_expected:
  assumes "tx_program p ops b = Inr b'"
    and "\<And>c. txHashBuilder_init p b = Inr c \<Longrightarrow> follows_protocol ops c"
  shows "tx_reads b' (expected b')"
proof -
  obtain c where c: "txHashBuilder_init p b = Inr c" "run ops c = Inr b'"
    using assms(1) by (auto simp: tx_program_def res_bind_Inr_iff)
  show ?thesis
    by (rule run_expected [OF c(2) assms(2) [OF c(1)] init_expected [OF c(1)]])
qed

end
