(* ===== verification/TxOrder.thy ===== *)
theory TxOrder
  imports TxPrograms
begin

text \<open>
  The order of the body's parts. Each part has a position; a call either writes into the
  current part or enters a later one, and everything announced in between must have been
  written. Unlike the refinement this needs no protocol: the builder's assertions enforce it.
\<close>

subsection \<open>Statements that only absorb\<close>

abbreviation absorbing :: "tx_hash_builder_t stmt \<Rightarrow> bool" where
  "absorbing f \<equiv> writes tx_absorb f (\<lambda>_. None)"

named_theorems absorbing_intros

lemma absorbing_cbor [absorbing_intros]: "absorbing (tx_append_cbor t v)"
  unfolding writes_def using tx_append_cbor_Inr by blast

lemma absorbing_data [absorbing_intros]: "absorbing (tx_append_data d)"
  unfolding writes_def using tx_append_data_Inr by blast

lemma absorbing_assert [absorbing_intros]: "absorbing (assert_that p)"
  by (rule writes_weaken [OF tx.writes_assert]) simp

lemma absorbing_in_state [absorbing_intros]: "absorbing (in_state s)"
  unfolding in_state_def by (rule absorbing_assert)

lemma absorbing_Nil [absorbing_intros]: "absorbing (seq [])"
  unfolding writes_def by (auto simp: tx.absorb_Nil intro!: exI [of _ "[]"])

lemma absorbing_Cons [absorbing_intros]:
  assumes "absorbing f" "absorbing (seq fs)"
  shows "absorbing (seq (f # fs))"
  unfolding writes_def
proof (intro allI impI)
  fix b b'
  assume "seq (f # fs) b = Inr b'"
  then obtain c where "f b = Inr c" "seq fs c = Inr b'"
    by (auto simp: res_bind_Inr_iff)
  then obtain xs ys where "c = tx_absorb xs b" "b' = tx_absorb ys c"
    using writesD [OF assms(1)] writesD [OF assms(2)] by metis
  then show "\<exists>bs. b' = tx_absorb bs b \<and>
      (\<forall>e e'. None = Some e' \<longrightarrow> read_stream e bs = Some e')"
    by (auto simp: tx.absorb_absorb)
qed

lemma absorbing_tag [absorbing_intros]: "absorbing tx_tag_cbor_set"
  by (rule writes_weaken [OF writes_tag_cbor_set]) simp

lemma absorbing_count [absorbing_intros]: "absorbing (tx_append_count t c)"
  using absorbing_cbor unfolding tx_append_count_def writes_def by metis

lemma absorbing_bytes [absorbing_intros]: "absorbing (tx_append_bytes d)" "absorbing (tx_append_text d)"
  unfolding tx_append_bytes_def tx_append_text_def by (intro absorbing_intros)+

lemma absorbing_fragments [absorbing_intros]:
  "absorbing (cbor_append_txInput h i)" "absorbing (appendCredential c)"
  "absorbing (append_certificate n t)" "absorbing (append_drep d)" "absorbing (appendAnchor a)"
  "absorbing (append_output_address dest)" "absorbing (append_output_value out)"
  "absorbing (relay_addPort p)" "absorbing (relay_addIpv4 ip)" "absorbing (relay_addIpv6 ip)"
  "absorbing (relay_addDnsName r)"
  by (auto simp: cbor_append_txInput_def appendCredential_def append_certificate_def
      append_drep_def appendAnchor_def append_output_address_def append_output_value_def
      relay_addPort_def relay_addIpv4_def relay_addIpv6_def relay_addDnsName_def
      simp del: seq.simps intro!: absorbing_intros
      split: drep_t.splits tx_output_destination_t.splits option.splits)

lemma absorbing_output_head [absorbing_intros]:
  "absorbing (case fmt of ARRAY_LEGACY \<Rightarrow> cbor_append_txOutput_array d
     | MAP_BABBAGE \<Rightarrow> cbor_append_txOutput_map d)"
  by (cases fmt) (auto simp: cbor_append_txOutput_array_def cbor_append_txOutput_map_def
      simp del: seq.simps intro!: absorbing_intros)

lemma absorbing_relay [absorbing_intros]:
  "absorbing (case relayFormat r of
         RELAY_SINGLE_HOST_IP \<Rightarrow> seq
           [tx_append_cbor CBOR_TYPE_ARRAY 4, tx_append_cbor CBOR_TYPE_UNSIGNED 0,
            relay_addPort (relayPort r), relay_addIpv4 (relayIpv4 r), relay_addIpv6 (relayIpv6 r)]
       | RELAY_SINGLE_HOST_NAME \<Rightarrow> seq
           [tx_append_cbor CBOR_TYPE_ARRAY 3, tx_append_cbor CBOR_TYPE_UNSIGNED 1,
            relay_addPort (relayPort r), relay_addDnsName r]
       | RELAY_MULTIPLE_HOST_NAME \<Rightarrow> seq
           [tx_append_cbor CBOR_TYPE_ARRAY 2, tx_append_cbor CBOR_TYPE_UNSIGNED 2,
            relay_addDnsName r])"
  by (cases "relayFormat r") (auto simp del: seq.simps intro!: absorbing_intros)

lemma absorbing_with_field:
  "(\<And>x. absorbing (k x)) \<Longrightarrow> absorbing (with_field F k)"
  unfolding writes_def with_field_Inr by blast

lemma absorbing_assert_field [absorbing_intros]: "absorbing (assert_field F p)"
  unfolding assert_field_def by (intro absorbing_with_field absorbing_assert)

lemma absorbing_skip [absorbing_intros]: "absorbing (modify id)"
  by (rule writes_weaken [OF tx.writes_skip]) simp

lemma absorbing_tokens_done [absorbing_intros]: "absorbing (assert_tokens_done os)"
  by (cases os) (auto simp: assert_tokens_done_def simp del: seq.simps intro!: absorbing_intros)

lemma absorbing_leave_output [absorbing_intros]: "absorbing assertCanLeaveCurrentOutput"
  unfolding writes_def using leave_current_output tx.absorb_Nil by (metis option.distinct(1))

text \<open>The guards of a token group and of a reference script.\<close>

lemma absorbing_output_guards [absorbing_intros]:
  "absorbing (with_field outputState (\<lambda>os. case os of
          TX_OUTPUT_ASSET_GROUP \<Rightarrow> assert_field remainingTokens (\<lambda>n. n = 0)
        | TX_OUTPUT_TOP_LEVEL_DATA \<Rightarrow> modify id
        | _ \<Rightarrow> assert_that (\<lambda>_. False)))"
  "absorbing (with_field outputState (\<lambda>os. case os of
          TX_OUTPUT_DATUM_HASH \<Rightarrow> modify id
        | TX_OUTPUT_DATUM_INLINE \<Rightarrow> assert_field datumRemainingBytes (\<lambda>n. n = 0)
        | _ \<Rightarrow> assert_tokens_done os))"
  "absorbing (with_field outputState assert_tokens_done)"
  by (rule absorbing_with_field, auto simp del: seq.simps intro!: absorbing_intros
      split: tx_hash_builder_output_state_t.split)+

subsection \<open>A calculus for the builder's fields\<close>

definition moves ::
  "(tx_hash_builder_t \<Rightarrow> bool) \<Rightarrow> tx_hash_builder_t stmt \<Rightarrow> (tx_hash_builder_t \<Rightarrow> bool) \<Rightarrow> bool" where
  "moves P f Q \<longleftrightarrow> (\<forall>b b'. P b \<longrightarrow> f b = Inr b' \<longrightarrow> Q b')"

lemma moves_pre: "moves P f Q \<Longrightarrow> (\<And>b. P' b \<Longrightarrow> P b) \<Longrightarrow> moves P' f Q"
  unfolding moves_def by blast

lemma moves_nil: "moves Q (seq []) Q"
  by (simp add: moves_def)

lemma moves_cons: "moves R (seq fs) Q \<Longrightarrow> moves P f R \<Longrightarrow> moves P (seq (f # fs)) Q"
  unfolding moves_def by (auto simp: res_bind_Inr_iff)

lemma moves_assert: "moves (\<lambda>b. p b \<longrightarrow> Q b) (assert_that p) Q"
  unfolding moves_def by auto

lemma moves_in_state: "moves (\<lambda>b. txState b = s \<longrightarrow> Q b) (in_state s) Q"
  unfolding moves_def by (auto simp: in_state_Inr)

lemma moves_modify: "moves (\<lambda>b. Q (u b)) (modify u) Q"
  unfolding moves_def by auto

lemma moves_goto: "moves (\<lambda>b. Q (b\<lparr>txState := s\<rparr>)) (goto_state s) Q"
  unfolding moves_def goto_state_def by auto

lemma moves_with_field:
  "(\<And>x. moves (P x) (k x) Q) \<Longrightarrow> moves (\<lambda>b. \<forall>x. F b = Some x \<longrightarrow> P x b) (with_field F k) Q"
  unfolding moves_def by (auto simp: with_field_Inr)

lemma moves_assert_field: "moves (\<lambda>b. \<forall>x. F b = Some x \<longrightarrow> p x \<longrightarrow> Q b) (assert_field F p) Q"
  unfolding moves_def by (auto simp: assert_field_Inr)

lemma moves_absorbing: "absorbing f \<Longrightarrow> moves (\<lambda>b. \<forall>bs. Q (tx_absorb bs b)) f Q"
  unfolding moves_def using writesD by fast

lemma moves_do_if: "(c \<Longrightarrow> moves P f Q) \<Longrightarrow> moves (\<lambda>b. (c \<longrightarrow> P b) \<and> (\<not> c \<longrightarrow> Q b)) (do_if c f) Q"
  by (cases c) (auto simp: moves_def do_if_def)

lemma moves_guard:
  assumes "\<And>b b'. f b = Inr b' \<Longrightarrow> b' = b \<and> G b"
  shows "moves (\<lambda>b. G b \<longrightarrow> Q b) f Q"
  unfolding moves_def using assms by blast

subsection \<open>Leaving a part\<close>

text \<open>Nothing announced between the part of the builder and position \<open>k\<close> is missing.\<close>

definition passed :: "nat \<Rightarrow> tx_hash_builder_t \<Rightarrow> bool" where
  "passed k b \<longleftrightarrow> rank (txState b) \<le> k \<and> missing_after (rank (txState b)) b = missing_after k b"

lemma passed_chain:
  assumes "can_leave s fin announced prev b = Inr b'"
    and "\<And>c. prev b = Inr c \<Longrightarrow> passed j b"
    and "rank s = k" "j \<le> k"
    and "missing_after j b = of_bool (announced b) + missing_after k b"
  shows "passed k b"
  using assms by (auto simp: can_leave_def passed_def res_bind_Inr_iff split: if_splits)

lemma passed_Init: "assertCanLeaveInit b = Inr b' \<Longrightarrow> passed 0 b"
  by (auto simp: assertCanLeaveInit_def passed_def in_state_Inr)

lemma passed_Inputs: "assertCanLeaveInputs b = Inr b' \<Longrightarrow> passed 1 b"
  by (auto simp: assertCanLeaveInputs_def passed_def stmt_Inr)

lemma passed_Outputs: "assertCanLeaveOutputs b = Inr b' \<Longrightarrow> passed 2 b"
  by (auto simp: assertCanLeaveOutputs_def passed_def stmt_Inr)

lemma passed_Fee: "assertCanLeaveFee b = Inr b' \<Longrightarrow> passed 3 b"
  by (auto simp: assertCanLeaveFee_def passed_def in_state_Inr)

lemma passed_Ttl: "assertCanLeaveTtl b = Inr b' \<Longrightarrow> passed 4 b"
  unfolding assertCanLeaveTtl_def
  by (erule passed_chain, erule passed_Fee) (simp_all add: missing_step)

lemma passed_Certificates: "assertCanLeaveCertificates b = Inr b' \<Longrightarrow> passed 5 b"
  unfolding assertCanLeaveCertificates_def
  by (erule passed_chain, erule passed_Ttl) (simp_all add: missing_step)

lemma passed_Withdrawals: "assertCanLeaveWithdrawals b = Inr b' \<Longrightarrow> passed 6 b"
  unfolding assertCanLeaveWithdrawals_def
  by (erule passed_chain, erule passed_Certificates) (simp_all add: missing_step)

lemma passed_AuxData: "assertCanLeaveAuxData b = Inr b' \<Longrightarrow> passed 7 b"
  unfolding assertCanLeaveAuxData_def
  by (erule passed_chain, erule passed_Withdrawals) (simp_all add: missing_step)

lemma passed_ValidityIntervalStart: "assertCanLeaveValidityIntervalStart b = Inr b' \<Longrightarrow> passed 8 b"
  unfolding assertCanLeaveValidityIntervalStart_def
  by (erule passed_chain, erule passed_AuxData) (simp_all add: missing_step)

lemma passed_Mint: "assertCanLeaveMint b = Inr b' \<Longrightarrow> passed 9 b"
  unfolding assertCanLeaveMint_def
  by (erule passed_chain, erule passed_ValidityIntervalStart) (simp_all add: missing_step)

lemma passed_ScriptDataHash: "assertCanLeaveScriptDataHash b = Inr b' \<Longrightarrow> passed 10 b"
  unfolding assertCanLeaveScriptDataHash_def
  by (erule passed_chain, erule passed_Mint) (simp_all add: missing_step)

lemma passed_CollateralInputs: "assertCanLeaveCollateralInputs b = Inr b' \<Longrightarrow> passed 11 b"
  unfolding assertCanLeaveCollateralInputs_def
  by (erule passed_chain, erule passed_ScriptDataHash) (simp_all add: missing_step)

lemma passed_RequiredSigners: "assertCanLeaveRequiredSigners b = Inr b' \<Longrightarrow> passed 12 b"
  unfolding assertCanLeaveRequiredSigners_def
  by (erule passed_chain, erule passed_CollateralInputs) (simp_all add: missing_step)

lemma passed_NetworkId: "assertCanLeaveNetworkId b = Inr b' \<Longrightarrow> passed 13 b"
  unfolding assertCanLeaveNetworkId_def
  by (erule passed_chain, erule passed_RequiredSigners) (simp_all add: missing_step)

lemma passed_CollateralOutput: "assertCanLeaveCollateralOutput b = Inr b' \<Longrightarrow> passed 14 b"
  unfolding assertCanLeaveCollateralOutput_def
  by (erule passed_chain, erule passed_NetworkId) (simp_all add: missing_step)

lemma passed_TotalCollateral: "assertCanLeaveTotalCollateral b = Inr b' \<Longrightarrow> passed 15 b"
  unfolding assertCanLeaveTotalCollateral_def
  by (erule passed_chain, erule passed_CollateralOutput) (simp_all add: missing_step)

lemma passed_ReferenceInputs: "assertCanLeaveReferenceInputs b = Inr b' \<Longrightarrow> passed 16 b"
  unfolding assertCanLeaveReferenceInputs_def
  by (erule passed_chain, erule passed_TotalCollateral) (simp_all add: missing_step)

lemma passed_VotingProcedures: "assertCanLeaveVotingProcedures b = Inr b' \<Longrightarrow> passed 17 b"
  unfolding assertCanLeaveVotingProcedures_def
  by (erule passed_chain, erule passed_ReferenceInputs) (simp_all add: missing_step)

lemma passed_Treasury: "assertCanLeaveTreasury b = Inr b' \<Longrightarrow> passed 18 b"
  unfolding assertCanLeaveTreasury_def
  by (erule passed_chain, erule passed_VotingProcedures) (simp_all add: missing_step)

lemma passed_Donation: "assertCanLeaveDonation b = Inr b' \<Longrightarrow> passed 19 b"
  unfolding assertCanLeaveDonation_def
  by (erule passed_chain, erule passed_Treasury) (simp_all add: missing_step)

lemma moves_leave:
  assumes "\<And>b b'. f b = Inr b' \<Longrightarrow> b' = b \<and> leaves k b"
    and "\<And>b b'. f b = Inr b' \<Longrightarrow> passed k b"
  shows "moves (\<lambda>b. passed k b \<longrightarrow> Q b) f Q"
  using assms unfolding moves_def by blast

lemma moves_leaves:
  "moves (\<lambda>b. passed 0 b \<longrightarrow> Q b) assertCanLeaveInit Q"
  "moves (\<lambda>b. passed 1 b \<longrightarrow> Q b) assertCanLeaveInputs Q"
  "moves (\<lambda>b. passed 2 b \<longrightarrow> Q b) assertCanLeaveOutputs Q"
  "moves (\<lambda>b. passed 3 b \<longrightarrow> Q b) assertCanLeaveFee Q"
  "moves (\<lambda>b. passed 4 b \<longrightarrow> Q b) assertCanLeaveTtl Q"
  "moves (\<lambda>b. passed 5 b \<longrightarrow> Q b) assertCanLeaveCertificates Q"
  "moves (\<lambda>b. passed 6 b \<longrightarrow> Q b) assertCanLeaveWithdrawals Q"
  "moves (\<lambda>b. passed 7 b \<longrightarrow> Q b) assertCanLeaveAuxData Q"
  "moves (\<lambda>b. passed 8 b \<longrightarrow> Q b) assertCanLeaveValidityIntervalStart Q"
  "moves (\<lambda>b. passed 9 b \<longrightarrow> Q b) assertCanLeaveMint Q"
  "moves (\<lambda>b. passed 10 b \<longrightarrow> Q b) assertCanLeaveScriptDataHash Q"
  "moves (\<lambda>b. passed 11 b \<longrightarrow> Q b) assertCanLeaveCollateralInputs Q"
  "moves (\<lambda>b. passed 12 b \<longrightarrow> Q b) assertCanLeaveRequiredSigners Q"
  "moves (\<lambda>b. passed 13 b \<longrightarrow> Q b) assertCanLeaveNetworkId Q"
  "moves (\<lambda>b. passed 14 b \<longrightarrow> Q b) assertCanLeaveCollateralOutput Q"
  "moves (\<lambda>b. passed 15 b \<longrightarrow> Q b) assertCanLeaveTotalCollateral Q"
  "moves (\<lambda>b. passed 16 b \<longrightarrow> Q b) assertCanLeaveReferenceInputs Q"
  "moves (\<lambda>b. passed 17 b \<longrightarrow> Q b) assertCanLeaveVotingProcedures Q"
  "moves (\<lambda>b. passed 18 b \<longrightarrow> Q b) assertCanLeaveTreasury Q"
  "moves (\<lambda>b. passed 19 b \<longrightarrow> Q b) assertCanLeaveDonation Q"
  by (rule moves_leave,
      erule leave_init leave_inputs leave_outputs leave_fee leave_ttl
        leave_certificates leave_withdrawals leave_aux_data leave_validity_interval_start leave_mint
        leave_script_data_hash leave_collateral_inputs leave_required_signers leave_network_id
        leave_collateral_output leave_total_collateral leave_reference_inputs
        leave_voting_procedures leave_treasury leave_donation,
      erule passed_Init
        passed_Inputs
        passed_Outputs
        passed_Fee
        passed_Ttl
        passed_Certificates
        passed_Withdrawals
        passed_AuxData
        passed_ValidityIntervalStart
        passed_Mint
        passed_ScriptDataHash
        passed_CollateralInputs
        passed_RequiredSigners
        passed_NetworkId
        passed_CollateralOutput
        passed_TotalCollateral
        passed_ReferenceInputs
        passed_VotingProcedures
        passed_Treasury
        passed_Donation)+

lemma moves_uint:
  "moves (\<lambda>b. Q (tx_absorb (tok CBOR_TYPE_UNSIGNED v) b)) (tx_append_cbor CBOR_TYPE_UNSIGNED v) Q"
  unfolding moves_def using tx_append_cbor_Inr write_total(2) [of CBOR_TYPE_UNSIGNED v] by fastforce

lemma tx_out_simps:
  "tx_out (tx_absorb bs b) = tx_out b @ bs"
  "txHash b' = txHash b \<Longrightarrow> tx_out b' = tx_out b"
  by (simp_all add: tx_out_def tx_absorb_def)

lemmas move_rules = moves_leaves moves_uint moves_nil moves_cons moves_assert moves_in_state moves_modify
  moves_goto moves_absorbing [OF absorbing_output_guards(1)]
  moves_absorbing [OF absorbing_output_guards(2)] moves_absorbing [OF absorbing_output_guards(3)]
  moves_assert_field moves_with_field moves_do_if moves_absorbing absorbing_intros

subsection \<open>The calls that enter a part\<close>

definition part_key :: "nat \<Rightarrow> u64" where
  "part_key k = (case k of 0 \<Rightarrow> 0 | Suc i \<Rightarrow>
     [0, 1, 2, 3, 4, 5, 7, 8, 9, 11, 13, 14, 15, 16, 17, 18, 19, 21, 22] ! i)"

definition enters :: "nat \<Rightarrow> (tx_hash_builder_t \<Rightarrow> bool) \<Rightarrow> tx_hash_builder_t stmt \<Rightarrow> bool" where
  "enters k announced f \<longleftrightarrow> (\<forall>b b'. f b = Inr b' \<longrightarrow>
     rank (txState b) < k \<and> rank (txState b') = k \<and> (announced b \<longrightarrow>
     missing_after (rank (txState b)) b = Suc (missing_after k b')) \<and>
     (\<exists>r. tx_out b' = tx_out b @ tok CBOR_TYPE_UNSIGNED (part_key k) @ r))"

lemma entersI:
  assumes "\<And>b. moves (\<lambda>c. c = b) f (\<lambda>b'. rank (txState b) < k \<and> rank (txState b') = k \<and>
     (announced b \<longrightarrow> missing_after (rank (txState b)) b = Suc (missing_after k b')) \<and>
     (\<exists>r. tx_out b' = tx_out b @ tok CBOR_TYPE_UNSIGNED (part_key k) @ r))"
  shows "enters k announced f"
  using assms unfolding enters_def moves_def by blast

lemma enters_OP_ENTER_INPUTS: "enters 1 always (txHashBuilder_enterInputs)"
  unfolding txHashBuilder_enterInputs_def
  by (rule entersI, rule moves_pre, (rule move_rules)+)
    (auto simp: passed_def missing_step(1) builder_updates tx_out_def tx_absorb_def
      part_key_def)

lemma enters_OP_ENTER_OUTPUTS: "enters 2 always (txHashBuilder_enterOutputs)"
  unfolding txHashBuilder_enterOutputs_def
  by (rule entersI, rule moves_pre, (rule move_rules)+)
    (auto simp: passed_def missing_step(2) builder_updates tx_out_def tx_absorb_def
      part_key_def)

lemma enters_OP_FEE: "enters 3 always (txHashBuilder_addFee v)"
  unfolding txHashBuilder_addFee_def
  by (rule entersI, rule moves_pre, (rule move_rules)+)
    (auto simp: passed_def missing_step(3) builder_updates tx_out_def tx_absorb_def
      part_key_def)

lemma enters_OP_TTL: "enters 4 always (txHashBuilder_addTtl v)"
  unfolding txHashBuilder_addTtl_def
  by (rule entersI, rule moves_pre, (rule move_rules)+)
    (auto simp: passed_def missing_step(4) builder_updates tx_out_def tx_absorb_def
      part_key_def)

lemma enters_OP_ENTER_CERTIFICATES: "enters 5 always (txHashBuilder_enterCertificates)"
  unfolding txHashBuilder_enterCertificates_def
  by (rule entersI, rule moves_pre, (rule move_rules)+)
    (auto simp: passed_def missing_step(5) builder_updates tx_out_def tx_absorb_def
      part_key_def)

lemma enters_OP_ENTER_WITHDRAWALS: "enters 6 always (txHashBuilder_enterWithdrawals)"
  unfolding txHashBuilder_enterWithdrawals_def
  by (rule entersI, rule moves_pre, (rule move_rules)+)
    (auto simp: passed_def missing_step(6) builder_updates tx_out_def tx_absorb_def
      part_key_def)

lemma enters_OP_AUX_DATA: "enters 7 always (txHashBuilder_addAuxData h)"
  unfolding txHashBuilder_addAuxData_def
  by (rule entersI, rule moves_pre, (rule move_rules)+)
    (auto simp: passed_def missing_step(7) builder_updates tx_out_def tx_absorb_def
      part_key_def)

lemma enters_OP_VALIDITY_START: "enters 8 always (txHashBuilder_addValidityIntervalStart v)"
  unfolding txHashBuilder_addValidityIntervalStart_def
  by (rule entersI, rule moves_pre, (rule move_rules)+)
    (auto simp: passed_def missing_step(8) builder_updates tx_out_def tx_absorb_def
      part_key_def)

lemma enters_OP_MINT: "enters 9 always (seq [txHashBuilder_enterMint, txHashBuilder_addMint_topLevelData n])"
  unfolding txHashBuilder_enterMint_def txHashBuilder_addMint_topLevelData_def
  by (rule entersI, rule moves_pre, (rule move_rules)+)
    (auto simp: passed_def missing_step(9) builder_updates tx_out_def tx_absorb_def
      part_key_def)

lemma enters_OP_SCRIPT_DATA_HASH: "enters 10 always (txHashBuilder_addScriptDataHash h)"
  unfolding txHashBuilder_addScriptDataHash_def
  by (rule entersI, rule moves_pre, (rule move_rules)+)
    (auto simp: passed_def missing_step(10) builder_updates tx_out_def tx_absorb_def
      part_key_def)

lemma enters_OP_ENTER_COLLATERAL_INPUTS: "enters 11 always (txHashBuilder_enterCollateralInputs)"
  unfolding txHashBuilder_enterCollateralInputs_def
  by (rule entersI, rule moves_pre, (rule move_rules)+)
    (auto simp: passed_def missing_step(11) builder_updates tx_out_def tx_absorb_def
      part_key_def)

lemma enters_OP_ENTER_REQUIRED_SIGNERS: "enters 12 always (txHashBuilder_enterRequiredSigners)"
  unfolding txHashBuilder_enterRequiredSigners_def
  by (rule entersI, rule moves_pre, (rule move_rules)+)
    (auto simp: passed_def missing_step(12) builder_updates tx_out_def tx_absorb_def
      part_key_def)

lemma enters_OP_NETWORK_ID: "enters 13 always (txHashBuilder_addNetworkId x)"
  unfolding txHashBuilder_addNetworkId_def
  by (rule entersI, rule moves_pre, (rule move_rules)+)
    (auto simp: passed_def missing_step(13) builder_updates tx_out_def tx_absorb_def
      part_key_def)

lemma enters_OP_COLLATERAL_OUTPUT: "enters 14 always (txHashBuilder_addCollateralOutput d)"
  unfolding txHashBuilder_addCollateralOutput_def processOutputTopLevel_def
  by (rule entersI, rule moves_pre, (rule move_rules)+)
    (auto simp: passed_def missing_step(14) builder_updates tx_out_def tx_absorb_def
      part_key_def)

lemma enters_OP_TOTAL_COLLATERAL: "enters 15 always (txHashBuilder_addTotalCollateral v)"
  unfolding txHashBuilder_addTotalCollateral_def
  by (rule entersI, rule moves_pre, (rule move_rules)+)
    (auto simp: passed_def missing_step(15) builder_updates tx_out_def tx_absorb_def
      part_key_def)

lemma enters_OP_ENTER_REFERENCE_INPUTS: "enters 16 always (txHashBuilder_enterReferenceInputs)"
  unfolding txHashBuilder_enterReferenceInputs_def
  by (rule entersI, rule moves_pre, (rule move_rules)+)
    (auto simp: passed_def missing_step(16) builder_updates tx_out_def tx_absorb_def
      part_key_def)

lemma enters_OP_ENTER_VOTING: "enters 17 always (txHashBuilder_enterVotingProcedures)"
  unfolding txHashBuilder_enterVotingProcedures_def
  by (rule entersI, rule moves_pre, (rule move_rules)+)
    (auto simp: passed_def missing_step(17) builder_updates tx_out_def tx_absorb_def
      part_key_def)

lemma enters_OP_TREASURY: "enters 18 includeTreasury (txHashBuilder_addTreasury v)"
  unfolding txHashBuilder_addTreasury_def
  by (rule entersI, rule moves_pre, (rule move_rules)+)
    (auto simp: passed_def missing_step(18) builder_updates tx_out_def tx_absorb_def
      part_key_def)

lemma enters_OP_DONATION: "enters 19 includeDonation (txHashBuilder_addDonation v)"
  unfolding txHashBuilder_addDonation_def
  by (rule entersI, rule moves_pre, (rule move_rules)+)
    (auto simp: passed_def missing_step(19) builder_updates tx_out_def tx_absorb_def
      part_key_def)

subsection \<open>The calls that stay in their part\<close>

definition place :: "tx_hash_builder_t \<Rightarrow> nat \<times> nat" where
  "place b = (rank (txState b), missing_after (rank (txState b)) b)"

definition stays :: "tx_hash_builder_t stmt \<Rightarrow> bool" where
  "stays f \<longleftrightarrow> (\<forall>b b'. f b = Inr b' \<longrightarrow> place b' = place b)"

lemma staysI:
  assumes "\<And>b. moves (\<lambda>c. c = b) f (\<lambda>b'. place b' = place b)"
  shows "stays f"
  using assms unfolding stays_def moves_def by blast

lemma stays_OP_INPUT: "stays (txHashBuilder_addInput i)"
  unfolding txHashBuilder_addInput_def
  by (rule staysI, rule moves_pre, (rule move_rules)+) (auto simp: place_def builder_updates)

lemma stays_OP_OUTPUT: "stays (txHashBuilder_addOutput_topLevelData d)"
  unfolding txHashBuilder_addOutput_topLevelData_def processOutputTopLevel_def
  by (rule staysI, rule moves_pre, (rule move_rules)+) (auto simp: place_def builder_updates)

lemma stays_OP_OUTPUT_TOKEN_GROUP: "stays (txHashBuilder_addOutput_tokenGroup policyId n)"
  unfolding txHashBuilder_addOutput_tokenGroup_def addTokenGroup_def
  by (rule staysI, rule moves_pre, (rule move_rules)+) (auto simp: place_def builder_updates)

lemma stays_OP_OUTPUT_TOKEN: "stays (txHashBuilder_addOutput_token name amount)"
  unfolding txHashBuilder_addOutput_token_def addToken_def
  by (rule staysI, rule moves_pre, (rule move_rules)+) (auto simp: place_def builder_updates)

lemma stays_OP_OUTPUT_DATUM_CHUNK: "stays (txHashBuilder_addOutput_datum_inline_chunk buffer)"
  unfolding txHashBuilder_addOutput_datum_inline_chunk_def
  by (rule staysI, rule moves_pre, (rule move_rules)+) (auto simp: place_def builder_updates)

lemma stays_OP_OUTPUT_SCRIPT: "stays (txHashBuilder_addOutput_referenceScript n)"
  unfolding txHashBuilder_addOutput_referenceScript_def
  by (rule staysI, rule moves_pre, (rule move_rules)+) (auto simp: place_def builder_updates)

lemma stays_OP_OUTPUT_SCRIPT_CHUNK: "stays (txHashBuilder_addOutput_referenceScript_dataChunk buffer)"
  unfolding txHashBuilder_addOutput_referenceScript_dataChunk_def
  by (rule staysI, rule moves_pre, (rule move_rules)+) (auto simp: place_def builder_updates)

lemma stays_OP_CERT_STAKING_OLD: "stays (txHashBuilder_addCertificate_stakingOld t c)"
  unfolding txHashBuilder_addCertificate_stakingOld_def initNewCertificate_def
  by (rule staysI, rule moves_pre, (rule move_rules)+) (auto simp: place_def builder_updates)

lemma stays_OP_CERT_STAKING: "stays (txHashBuilder_addCertificate_staking t c v)"
  unfolding txHashBuilder_addCertificate_staking_def initNewCertificate_def
  by (rule staysI, rule moves_pre, (rule move_rules)+) (auto simp: place_def builder_updates)

lemma stays_OP_CERT_STAKE_DELEGATION: "stays (txHashBuilder_addCertificate_stakeDelegation c h)"
  unfolding txHashBuilder_addCertificate_stakeDelegation_def initNewCertificate_def
  by (rule staysI, rule moves_pre, (rule move_rules)+) (auto simp: place_def builder_updates)

lemma stays_OP_CERT_VOTE_DELEGATION: "stays (txHashBuilder_addCertificate_voteDelegation c d)"
  unfolding txHashBuilder_addCertificate_voteDelegation_def initNewCertificate_def
  by (rule staysI, rule moves_pre, (rule move_rules)+) (auto simp: place_def builder_updates)

lemma stays_OP_CERT_COMMITTEE_AUTH: "stays (txHashBuilder_addCertificate_committeeAuthHot c h)"
  unfolding txHashBuilder_addCertificate_committeeAuthHot_def initNewCertificate_def
  by (rule staysI, rule moves_pre, (rule move_rules)+) (auto simp: place_def builder_updates)

lemma stays_OP_CERT_COMMITTEE_RESIGN: "stays (txHashBuilder_addCertificate_committeeResign c a)"
  unfolding txHashBuilder_addCertificate_committeeResign_def initNewCertificate_def
  by (rule staysI, rule moves_pre, (rule move_rules)+) (auto simp: place_def builder_updates)

lemma stays_OP_CERT_DREP_REGISTRATION: "stays (txHashBuilder_addCertificate_dRepRegistration c v a)"
  unfolding txHashBuilder_addCertificate_dRepRegistration_def initNewCertificate_def
  by (rule staysI, rule moves_pre, (rule move_rules)+) (auto simp: place_def builder_updates)

lemma stays_OP_CERT_DREP_DEREGISTRATION: "stays (txHashBuilder_addCertificate_dRepDeregistration c v)"
  unfolding txHashBuilder_addCertificate_dRepDeregistration_def initNewCertificate_def
  by (rule staysI, rule moves_pre, (rule move_rules)+) (auto simp: place_def builder_updates)

lemma stays_OP_CERT_DREP_UPDATE: "stays (txHashBuilder_addCertificate_dRepUpdate c a)"
  unfolding txHashBuilder_addCertificate_dRepUpdate_def initNewCertificate_def
  by (rule staysI, rule moves_pre, (rule move_rules)+) (auto simp: place_def builder_updates)

lemma stays_OP_CERT_POOL_RETIREMENT: "stays (txHashBuilder_addCertificate_poolRetirement h v)"
  unfolding txHashBuilder_addCertificate_poolRetirement_def initNewCertificate_def
  by (rule staysI, rule moves_pre, (rule move_rules)+) (auto simp: place_def builder_updates)

lemma stays_OP_POOL_ENTER: "stays (txHashBuilder_poolRegistrationCertificate_enter n m)"
  unfolding txHashBuilder_poolRegistrationCertificate_enter_def initNewCertificate_def
  by (rule staysI, rule moves_pre, (rule move_rules)+) (auto simp: place_def builder_updates)

lemma stays_OP_POOL_KEY: "stays (txHashBuilder_poolRegistrationCertificate_poolKeyHash h)"
  unfolding txHashBuilder_poolRegistrationCertificate_poolKeyHash_def
  by (rule staysI, rule moves_pre, (rule move_rules)+) (auto simp: place_def builder_updates)

lemma stays_OP_POOL_VRF: "stays (txHashBuilder_poolRegistrationCertificate_vrfKeyHash h)"
  unfolding txHashBuilder_poolRegistrationCertificate_vrfKeyHash_def
  by (rule staysI, rule moves_pre, (rule move_rules)+) (auto simp: place_def builder_updates)

lemma stays_OP_POOL_FINANCIALS: "stays (txHashBuilder_poolRegistrationCertificate_financials v w x y)"
  unfolding txHashBuilder_poolRegistrationCertificate_financials_def
  by (rule staysI, rule moves_pre, (rule move_rules)+) (auto simp: place_def builder_updates)

lemma stays_OP_POOL_REWARD_ACCOUNT: "stays (txHashBuilder_poolRegistrationCertificate_rewardAccount h)"
  unfolding txHashBuilder_poolRegistrationCertificate_rewardAccount_def
  by (rule staysI, rule moves_pre, (rule move_rules)+) (auto simp: place_def builder_updates)

lemma stays_OP_POOL_ENTER_OWNERS: "stays (txHashBuilder_addPoolRegistrationCertificate_enterOwners)"
  unfolding txHashBuilder_addPoolRegistrationCertificate_enterOwners_def
  by (rule staysI, rule moves_pre, (rule move_rules)+) (auto simp: place_def builder_updates)

lemma stays_OP_POOL_OWNER: "stays (txHashBuilder_addPoolRegistrationCertificate_addOwner h)"
  unfolding txHashBuilder_addPoolRegistrationCertificate_addOwner_def
  by (rule staysI, rule moves_pre, (rule move_rules)+) (auto simp: place_def builder_updates)

lemma stays_OP_POOL_RELAY: "stays (txHashBuilder_addPoolRegistrationCertificate_addRelay r)"
  unfolding txHashBuilder_addPoolRegistrationCertificate_addRelay_def
  by (rule staysI, rule moves_pre, (rule move_rules)+) (auto simp: place_def builder_updates)

lemma stays_OP_WITHDRAWAL: "stays (txHashBuilder_addWithdrawal h v)"
  unfolding txHashBuilder_addWithdrawal_def
  by (rule staysI, rule moves_pre, (rule move_rules)+) (auto simp: place_def builder_updates)

lemma stays_OP_MINT_TOKEN_GROUP: "stays (txHashBuilder_addMint_tokenGroup policyId n)"
  unfolding txHashBuilder_addMint_tokenGroup_def addTokenGroup_def
  by (rule staysI, rule moves_pre, (rule move_rules)+) (auto simp: place_def builder_updates)

lemma stays_OP_MINT_TOKEN: "stays (txHashBuilder_addMint_token name amount)"
  unfolding txHashBuilder_addMint_token_def addToken_def
  by (rule staysI, rule moves_pre, (rule move_rules)+) (auto simp: place_def builder_updates)

lemma stays_OP_COLLATERAL_INPUT: "stays (txHashBuilder_addCollateralInput i)"
  unfolding txHashBuilder_addCollateralInput_def
  by (rule staysI, rule moves_pre, (rule move_rules)+) (auto simp: place_def builder_updates)

lemma stays_OP_REQUIRED_SIGNER: "stays (txHashBuilder_addRequiredSigner h)"
  unfolding txHashBuilder_addRequiredSigner_def
  by (rule staysI, rule moves_pre, (rule move_rules)+) (auto simp: place_def builder_updates)

lemma stays_OP_COLLATERAL_TOKEN_GROUP: "stays (txHashBuilder_addCollateralOutput_tokenGroup policyId n)"
  unfolding txHashBuilder_addCollateralOutput_tokenGroup_def addTokenGroup_def
  by (rule staysI, rule moves_pre, (rule move_rules)+) (auto simp: place_def builder_updates)

lemma stays_OP_COLLATERAL_TOKEN: "stays (txHashBuilder_addCollateralOutput_token name amount)"
  unfolding txHashBuilder_addCollateralOutput_token_def addToken_def
  by (rule staysI, rule moves_pre, (rule move_rules)+) (auto simp: place_def builder_updates)

lemma stays_OP_REFERENCE_INPUT: "stays (txHashBuilder_addReferenceInput i)"
  unfolding txHashBuilder_addReferenceInput_def
  by (rule staysI, rule moves_pre, (rule move_rules)+) (auto simp: place_def builder_updates)

lemma stays_OP_VOTE: "stays (txHashBuilder_addVotingProcedure w g p)"
  unfolding txHashBuilder_addVotingProcedure_def
  by (rule staysI, rule moves_pre, (rule move_rules)+) (auto simp: place_def builder_updates)

lemma stays_OP_OUTPUT_DATUM: "stays (txHashBuilder_addOutput_datum t buffer n)"
  unfolding txHashBuilder_addOutput_datum_def
  by (cases t; simp only: datum_type_t.case; rule staysI, rule moves_pre, (rule move_rules)+)
    (auto simp: place_def builder_updates)

lemma stays_Cons: "stays f \<Longrightarrow> stays (seq fs) \<Longrightarrow> stays (seq (f # fs))"
  unfolding stays_def by (auto simp: res_bind_Inr_iff)

lemma stays_absorbing: "absorbing f \<Longrightarrow> stays f"
  unfolding stays_def using writesD by (fastforce simp: place_def)

lemma stays_cond: "stays f \<Longrightarrow> stays (\<lambda>b. do_if (c b) f b)"
  unfolding stays_def do_if_def by auto

lemma stays_enter_owners:
  "stays (seq [assert_field remainingOwners (\<lambda>n. n = 0),
     txHashBuilder_addPoolRegistrationCertificate_enterOwners])"
  by (intro stays_Cons stays_absorbing absorbing_intros stays_OP_POOL_ENTER_OWNERS)

lemma stays_OP_POOL_ENTER_RELAYS: "stays txHashBuilder_addPoolRegistrationCertificate_enterRelays"
  unfolding txHashBuilder_addPoolRegistrationCertificate_enterRelays_def
  by (rule stays_Cons [OF stays_cond [OF stays_enter_owners]],
      rule staysI, rule moves_pre, (rule move_rules)+) (auto simp: place_def)

lemma stays_from_relays: "stays updateState_from_relays"
  unfolding updateState_from_relays_def by (intro stays_absorbing absorbing_intros)

lemma stays_from_owners: "stays updateState_from_owners"
  unfolding updateState_from_owners_def
  by (intro stays_Cons stays_OP_POOL_ENTER_RELAYS stays_from_relays stays_absorbing absorbing_intros)

lemma stays_from_reward_account:
  "stays (seq [assert_field remainingOwners (\<lambda>n. n = 0),
     txHashBuilder_addPoolRegistrationCertificate_enterOwners, updateState_from_owners])"
  by (intro stays_Cons stays_from_owners stays_absorbing absorbing_intros
      stays_OP_POOL_ENTER_OWNERS)

lemma stays_updateState: "stays addPoolMetadata_updateState"
  unfolding stays_def
proof (intro allI impI)
  fix b b'
  assume "addPoolMetadata_updateState b = Inr b'"
  then obtain c where c: "b' = c\<lparr>txState := TX_HASH_BUILDER_IN_CERTIFICATES_POOL_METADATA\<rparr>"
    and u: "(case txState b of
         TX_HASH_BUILDER_IN_CERTIFICATES_POOL_REWARD_ACCOUNT \<Rightarrow> seq
           [assert_field remainingOwners (\<lambda>n. n = 0),
            txHashBuilder_addPoolRegistrationCertificate_enterOwners, updateState_from_owners] b
       | TX_HASH_BUILDER_IN_CERTIFICATES_POOL_OWNERS \<Rightarrow> updateState_from_owners b
       | TX_HASH_BUILDER_IN_CERTIFICATES_POOL_RELAYS \<Rightarrow> updateState_from_relays b
       | _ \<Rightarrow> Inl ERR_ASSERT) = Inr c"
    by (auto simp: addPoolMetadata_updateState_def res_bind_Inr_iff goto_state_def)
  have s: "rank (txState b) = 5"
    using u by (auto split: tx_hash_builder_state_t.splits)
  have "place c = place b"
    using u stays_from_reward_account stays_from_owners stays_from_relays
    unfolding stays_def by (auto split: tx_hash_builder_state_t.splits)
  then show "place b' = place b"
    using s c by (auto simp: place_def)
qed

lemma stays_OP_POOL_METADATA:
  "stays (txHashBuilder_addPoolRegistrationCertificate_addPoolMetadata url h)"
  unfolding txHashBuilder_addPoolRegistrationCertificate_addPoolMetadata_def
  by (rule stays_Cons [OF stays_updateState], rule staysI, rule moves_pre, (rule move_rules)+)
    (auto simp: place_def)

lemma stays_OP_POOL_NO_METADATA:
  "stays txHashBuilder_addPoolRegistrationCertificate_addPoolMetadata_null"
  unfolding txHashBuilder_addPoolRegistrationCertificate_addPoolMetadata_null_def
  by (rule stays_Cons [OF stays_updateState], rule staysI, rule moves_pre, (rule move_rules)+)
    (auto simp: place_def)

subsection \<open>Programs write the announced parts in order\<close>

text \<open>The position of the part a call enters; the key of each position in the body.\<close>

fun entered :: "'p tx_op \<Rightarrow> nat list" where
  "entered OP_ENTER_INPUTS = [1]"
| "entered OP_ENTER_OUTPUTS = [2]"
| "entered (OP_FEE _) = [3]"
| "entered (OP_TTL _) = [4]"
| "entered OP_ENTER_CERTIFICATES = [5]"
| "entered OP_ENTER_WITHDRAWALS = [6]"
| "entered (OP_AUX_DATA _) = [7]"
| "entered (OP_VALIDITY_START _) = [8]"
| "entered (OP_MINT _) = [9]"
| "entered (OP_SCRIPT_DATA_HASH _) = [10]"
| "entered OP_ENTER_COLLATERAL_INPUTS = [11]"
| "entered OP_ENTER_REQUIRED_SIGNERS = [12]"
| "entered (OP_NETWORK_ID _) = [13]"
| "entered (OP_COLLATERAL_OUTPUT _) = [14]"
| "entered (OP_TOTAL_COLLATERAL _) = [15]"
| "entered OP_ENTER_REFERENCE_INPUTS = [16]"
| "entered OP_ENTER_VOTING = [17]"
| "entered (OP_TREASURY _) = [18]"
| "entered (OP_DONATION _) = [19]"
| "entered _ = []"

lemma exec_stays: "entered op = [] \<Longrightarrow> stays (exec op)"
  by (cases op) (simp_all add: stays_OP_INPUT stays_OP_OUTPUT stays_OP_OUTPUT_TOKEN_GROUP stays_OP_OUTPUT_TOKEN stays_OP_OUTPUT_DATUM stays_OP_OUTPUT_DATUM_CHUNK stays_OP_OUTPUT_SCRIPT stays_OP_OUTPUT_SCRIPT_CHUNK stays_OP_CERT_STAKING_OLD stays_OP_CERT_STAKING stays_OP_CERT_STAKE_DELEGATION stays_OP_CERT_VOTE_DELEGATION stays_OP_CERT_COMMITTEE_AUTH stays_OP_CERT_COMMITTEE_RESIGN stays_OP_CERT_DREP_REGISTRATION stays_OP_CERT_DREP_DEREGISTRATION stays_OP_CERT_DREP_UPDATE stays_OP_CERT_POOL_RETIREMENT stays_OP_POOL_ENTER stays_OP_POOL_KEY stays_OP_POOL_VRF stays_OP_POOL_FINANCIALS stays_OP_POOL_REWARD_ACCOUNT stays_OP_POOL_ENTER_OWNERS stays_OP_POOL_OWNER stays_OP_POOL_ENTER_RELAYS stays_OP_POOL_RELAY stays_OP_POOL_METADATA stays_OP_POOL_NO_METADATA stays_OP_WITHDRAWAL stays_OP_MINT_TOKEN_GROUP stays_OP_MINT_TOKEN stays_OP_COLLATERAL_INPUT stays_OP_REQUIRED_SIGNER stays_OP_COLLATERAL_TOKEN_GROUP stays_OP_COLLATERAL_TOKEN stays_OP_REFERENCE_INPUT stays_OP_VOTE)

lemma exec_enters: "entered op = [k] \<Longrightarrow> enters k (protocol op) (exec op)"
  by (cases op) (auto simp: enters_OP_ENTER_INPUTS [unfolded One_nat_def] enters_OP_ENTER_OUTPUTS enters_OP_FEE enters_OP_TTL enters_OP_ENTER_CERTIFICATES enters_OP_ENTER_WITHDRAWALS enters_OP_AUX_DATA enters_OP_VALIDITY_START enters_OP_MINT enters_OP_SCRIPT_DATA_HASH enters_OP_ENTER_COLLATERAL_INPUTS enters_OP_ENTER_REQUIRED_SIGNERS enters_OP_NETWORK_ID enters_OP_COLLATERAL_OUTPUT enters_OP_TOTAL_COLLATERAL enters_OP_ENTER_REFERENCE_INPUTS enters_OP_ENTER_VOTING enters_OP_TREASURY enters_OP_DONATION)

definition parts_of :: "'p tx_op list \<Rightarrow> nat list" where
  "parts_of ops = concat (map entered ops)"

lemma exec_part:
  assumes "exec op b = Inr c"
  shows "entered op = [] \<and> place c = place b \<or>
    (\<exists>k. entered op = [k] \<and> rank (txState b) < k \<and> rank (txState c) = k \<and>
      (protocol op b \<longrightarrow> missing_after (rank (txState b)) b = Suc (missing_after k c)))"
proof (cases "entered op")
  case Nil
  then show ?thesis
    using exec_stays [OF Nil] assms unfolding stays_def by blast
next
  case (Cons k ks)
  then have "entered op = [k]" by (cases op) auto
  then show ?thesis
    using exec_enters [of op k] assms unfolding enters_def by auto
qed

lemma run_order:
  "run ops b = Inr b' \<Longrightarrow>
   sorted_wrt (<) (rank (txState b) # parts_of ops) \<and> rank (txState b) \<le> rank (txState b') \<and>
   (follows_protocol ops b \<longrightarrow> missing_after (rank (txState b)) b =
      length (parts_of ops) + missing_after (rank (txState b')) b')"
proof (induction ops arbitrary: b)
  case Nil
  then show ?case by (simp add: run_def parts_of_def)
next
  case (Cons op ops)
  then obtain c where c: "exec op b = Inr c" "run ops c = Inr b'"
    by (auto simp: run_def res_bind_Inr_iff)
  note IH = Cons.IH [OF c(2)]
  from exec_part [OF c(1)] show ?case
  proof (elim disjE exE conjE)
    assume "entered op = []" "place c = place b"
    then show ?thesis
      using IH c(1) by (auto simp: parts_of_def place_def)
  next
    fix k
    assume "entered op = [k]" "rank (txState b) < k" "rank (txState c) = k"
      "protocol op b \<longrightarrow> missing_after (rank (txState b)) b = Suc (missing_after k c)"
    note k = this
    then have "parts_of (op # ops) = k # parts_of ops" "\<forall>x\<in>set (parts_of ops). k < x"
      using IH by (auto simp: parts_of_def)
    moreover from this(2) k(2) have "\<forall>x\<in>set (parts_of ops). rank (txState b) < x"
      using less_trans by blast
    ultimately show ?thesis
      using IH c(1) k by auto
  qed
qed

end
