(* ===== verification/TxProperties.thy ===== *)
theory TxProperties
  imports TxOrder
begin

text \<open>
  The properties of the transaction builder, on every program of its clients, with runs on
  concrete transactions.
\<close>

subsection \<open>A transaction to run\<close>

definition bytes_of :: "nat \<Rightarrow> u8 \<Rightarrow> bytes" where
  "bytes_of n x = replicate n x"

definition small_params :: tx_params where
  "small_params = \<lparr>pTagCborSets = True, pNumInputs = 1, pNumOutputs = 1, pIncludeTtl = True,
     pNumCertificates = 1, pNumWithdrawals = 0, pIncludeAuxData = False,
     pIncludeValidityIntervalStart = False, pIncludeMint = True, pIncludeScriptDataHash = False,
     pNumCollateralInputs = 0, pNumRequiredSigners = 0, pIncludeNetworkId = False,
     pIncludeCollateralOutput = False, pIncludeTotalCollateral = False, pNumReferenceInputs = 0,
     pNumVotingProcedures = 0, pIncludeTreasury = True, pIncludeDonation = False\<rparr>"

definition small_ops :: "unit tx_op list" where
  "small_ops =
     [OP_ENTER_INPUTS, OP_INPUT \<lparr>inputTxHash = bytes_of 32 7, inputIndex = 3\<rparr>,
      OP_ENTER_OUTPUTS,
      OP_OUTPUT \<lparr>outFormat = MAP_BABBAGE, outDestination = DESTINATION_THIRD_PARTY (bytes_of 29 9),
        outAmount = 500, outNumAssetGroups = 1, outIncludeDatum = True,
        outIncludeRefScript = True\<rparr>,
      OP_OUTPUT_TOKEN_GROUP (bytes_of 28 5) 1, OP_OUTPUT_TOKEN [1, 2] 300,
      OP_OUTPUT_DATUM DATUM_INLINE [] 3, OP_OUTPUT_DATUM_CHUNK [1, 2], OP_OUTPUT_DATUM_CHUNK [3],
      OP_OUTPUT_SCRIPT 2, OP_OUTPUT_SCRIPT_CHUNK [0xFF, 0xFF],
      OP_FEE 42, OP_TTL 24, OP_ENTER_CERTIFICATES,
      OP_CERT_STAKING CERTIFICATE_STAKE_REGISTRATION_CONWAY
        \<lparr>credType = CREDENTIAL_KEY_HASH, credHash = bytes_of 28 4\<rparr> 200,
      OP_MINT 1, OP_MINT_TOKEN_GROUP (bytes_of 28 6) 1, OP_MINT_TOKEN [] (- 7),
      OP_TREASURY 1000]"

definition small_body :: bytes where
  "small_body = (case tx_program small_params small_ops zeroed_builder of
     Inl _ \<Rightarrow> [] | Inr b \<Rightarrow> tx_out b)"

subsection \<open>The hashed body is one data item\<close>

text \<open>
  C2. Whatever calls a client makes, as long as it keeps to the protocol: when
  \<open>txHashBuilder_finalize\<close> returns a digest, the bytes it is the digest of are exactly one
  complete CBOR data item (every announced item written, every array, map and string filled,
  nothing left over), and the digest is 32 bytes of output.
\<close>

theorem finalized_body_complete:
  assumes "tx_program p ops b = Inr b'"
    and "\<And>c. txHashBuilder_init p b = Inr c \<Longrightarrow> follows_protocol ops c"
    and "txHashBuilder_finalize digest outSize b' = Inr (out, b'')"
  shows "complete_item (tx_out b') \<and> digest (tx_out b') = Some out \<and> outSize = 32"
  using finalize_complete [OF assms(3) program_expected [OF assms(1,2)]] by simp

lemma small_run:
  "\<exists>c b'. txHashBuilder_init small_params zeroed_builder = Inr c \<and> follows_protocol small_ops c \<and>
     tx_program small_params small_ops zeroed_builder = Inr b' \<and>
     txHashBuilder_finalize (\<lambda>bs. Some (take 32 bs)) 32 b' =
       Inr (take 32 small_body, b'\<lparr>txState := TX_HASH_BUILDER_FINISHED\<rparr>) \<and>
     tx_out b' = small_body \<and> tx_numItems small_params = 7"
proof -
  have "case txHashBuilder_init small_params zeroed_builder of Inl _ \<Rightarrow> False
    | Inr c \<Rightarrow> follows_protocol small_ops c"
    by code_simp
  moreover have "case tx_program small_params small_ops zeroed_builder of Inl _ \<Rightarrow> False
    | Inr b \<Rightarrow> assertCanLeaveDonation b = Inr b \<and>
        initialized_magic (txHash b) = 12345 \<and> tx_numItems small_params = 7"
    by code_simp
  ultimately show ?thesis
    by (auto simp: small_body_def txHashBuilder_finalize_def blake2b_finalize_def tx_out_def
        split: sum.splits)
qed

lemma finalized_body_complete_witness:
  "\<exists>b'. tx_program small_params small_ops zeroed_builder = Inr b' \<and> complete_item (tx_out b')"
proof -
  obtain c b' where r: "txHashBuilder_init small_params zeroed_builder = Inr c"
    "follows_protocol small_ops c" "tx_program small_params small_ops zeroed_builder = Inr b'"
    "txHashBuilder_finalize (\<lambda>bs. Some (take 32 bs)) 32 b' =
       Inr (take 32 small_body, b'\<lparr>txState := TX_HASH_BUILDER_FINISHED\<rparr>)"
    using small_run by blast
  have p: "follows_protocol small_ops c'"
    if "txHashBuilder_init small_params zeroed_builder = Inr c'" for c'
    using that r(1,2) by (metis sum.inject(2))
  have "complete_item (tx_out b')"
    by (rule finalized_body_complete [OF r(3) p r(4), THEN conjunct1])
  with r(3) show ?thesis by blast
qed

subsection \<open>The parts of the body\<close>

lemma part_key_mono: "i < j \<Longrightarrow> 0 < i \<Longrightarrow> j \<le> 19 \<Longrightarrow> part_key i < part_key j"
proof -
  assume "i < j" "0 < i" "j \<le> 19"
  then have "j \<in> set [1..<20]" "i \<in> set [1..<j]" by simp_all
  moreover have "\<forall>j\<in>set [1..<20]. \<forall>i\<in>set [1..<j]. part_key i < part_key j"
    by code_simp
  ultimately show ?thesis by blast
qed

lemma parts_bound: "x \<in> set (parts_of ops) \<Longrightarrow> 0 < x \<and> x \<le> 19"
proof -
  have "x \<in> set (entered op) \<Longrightarrow> 0 < x \<and> x \<le> 19" for op :: "'a tx_op"
    by (cases op) auto
  then show "x \<in> set (parts_of ops) \<Longrightarrow> 0 < x \<and> x \<le> 19"
    by (auto simp: parts_of_def)
qed



text \<open>
  C24. A call that enters a part writes that part's key first, and is rejected when the builder
  is already at that part or past it.
\<close>

theorem entering_writes_key:
  assumes "entered op = [k]"
  shows "(\<forall>b'. exec op b = Inr b' \<longrightarrow> rank (txState b') = k \<and>
      prefix (tx_out b @ tok CBOR_TYPE_UNSIGNED (part_key k)) (tx_out b')) \<and>
    (k \<le> rank (txState b) \<longrightarrow> (\<exists>e. exec op b = Inl e))"
proof (cases "exec op b")
  case (Inr b')
  then show ?thesis
    using exec_enters [OF assms] unfolding enters_def prefix_def
    by (metis append.assoc linorder_not_le sum.inject(2))
qed simp

lemma entering_writes_key_witness:
  "\<exists>e. exec (OP_FEE 5 :: unit tx_op) (zeroed_builder\<lparr>txState := TX_HASH_BUILDER_IN_TTL\<rparr>) = Inl e"
  using entering_writes_key [of "OP_FEE 5 :: unit tx_op" 3
      "zeroed_builder\<lparr>txState := TX_HASH_BUILDER_IN_TTL\<rparr>"] by simp

subsection \<open>What the builder leaves to its client\<close>

text \<open>
  \<open>txHashBuilder_addTreasury\<close> accepts a treasury that was not announced: on a body that
  is complete it succeeds, the digest can be taken, and what is hashed is no data item.
\<close>

theorem unannounced_treasury_accepted:
  assumes "assertCanLeaveDonation b = Inr b" "tx_reads b (expected b)"
    and "initialized_magic (txHash b) = HASH_CONTEXT_INITIALIZED_MAGIC"
    and "rank (txState b) < 18" "\<not> includeTreasury b" "\<not> includeDonation b"
  shows "\<exists>b'. txHashBuilder_addTreasury v b = Inr b' \<and> assertCanLeaveDonation b' = Inr b' \<and>
    complete_item (tx_out b) \<and> \<not> complete_item (tx_out b')"
proof -
  have ns: "txState b \<noteq> TX_HASH_BUILDER_IN_TREASURY" "txState b \<noteq> TX_HASH_BUILDER_IN_DONATION"
    using assms(4) by auto
  then have v: "assertCanLeaveVotingProcedures b = Inr b"
    using assms(1,5,6)
    by (auto simp: assertCanLeaveDonation_def assertCanLeaveTreasury_def can_leave_def
        assert_that_def res_bind_Inr_iff)
  let ?w = "tok CBOR_TYPE_UNSIGNED TX_BODY_KEY_TREASURY @ tok CBOR_TYPE_UNSIGNED v"
  let ?b = "(tx_absorb ?w b)\<lparr>txState := TX_HASH_BUILDER_IN_TREASURY\<rparr>"
  have "txHashBuilder_addTreasury v b = Inr ?b"
    using v assms(3) write_total(2) [of CBOR_TYPE_UNSIGNED]
    by (simp add: txHashBuilder_addTreasury_def tx_append_cbor_def blake2b_append_cbor_def
        blake2b_append_def goto_state_def modify_def tx_absorb_def)
  moreover have "assertCanLeaveDonation ?b = Inr ?b"
    using assms(6)
    by (simp add: assertCanLeaveDonation_def assertCanLeaveTreasury_def can_leave_def
        assert_that_def modify_def)
  moreover have full: "read_stream (0, [1]) (tx_out b) = Some (0, [])"
    using assms(1,2) leave_donation [of b b]
    by (simp add: leaves_def missing_step tx_reads_def)
  moreover have "tx_out ?b = tx_out b @ ?w"
    by (simp add: tx_out_def tx_absorb_def)
  then have "read_stream (0, [1]) (tx_out ?b) = None"
    using read_stream_append [OF full] read_tok [of CBOR_TYPE_UNSIGNED "[]" 21] by simp
  ultimately show ?thesis
    unfolding complete_item_def by (metis option.distinct(1))
qed

definition bare_params :: tx_params where
  "bare_params = small_params\<lparr>pNumOutputs := 0, pIncludeTtl := False, pNumCertificates := 0,
     pIncludeMint := False, pIncludeTreasury := False\<rparr>"

definition bare_ops :: "unit tx_op list" where
  "bare_ops =
     [OP_ENTER_INPUTS, OP_INPUT \<lparr>inputTxHash = bytes_of 32 7, inputIndex = 3\<rparr>,
      OP_ENTER_OUTPUTS, OP_FEE 42]"

lemma unannounced_treasury_accepted_witness:
  "\<exists>b b'. tx_program bare_params bare_ops zeroed_builder = Inr b \<and>
     txHashBuilder_addTreasury 5 b = Inr b' \<and> \<not> complete_item (tx_out b')"
proof -
  have i: "case txHashBuilder_init bare_params zeroed_builder of Inl _ \<Rightarrow> False
    | Inr c \<Rightarrow> follows_protocol bare_ops c"
    by code_simp
  have "case tx_program bare_params bare_ops zeroed_builder of Inl _ \<Rightarrow> False
    | Inr b \<Rightarrow> assertCanLeaveDonation b = Inr b \<and> rank (txState b) < 18 \<and> \<not> includeTreasury b \<and>
        \<not> includeDonation b \<and> initialized_magic (txHash b) = 12345"
    by code_simp
  then obtain b where b: "tx_program bare_params bare_ops zeroed_builder = Inr b"
    "assertCanLeaveDonation b = Inr b" "rank (txState b) < 18" "\<not> includeTreasury b"
    "\<not> includeDonation b" "initialized_magic (txHash b) = 12345"
    by (auto split: sum.splits)
  have "tx_reads b (expected b)"
    by (rule program_expected [OF b(1)]) (use i in auto)
  then show ?thesis
    using unannounced_treasury_accepted [of b 5] b by auto
qed

text \<open>
  \<open>txHashBuilder_addOutput_referenceScript\<close> accepts the script of an output whose announced
  datum was never written; the digest is returned for a body that is no data item.
\<close>

definition script_without_datum :: "unit tx_op list" where
  "script_without_datum =
     [OP_ENTER_INPUTS, OP_INPUT \<lparr>inputTxHash = bytes_of 32 7, inputIndex = 3\<rparr>, OP_ENTER_OUTPUTS,
      OP_OUTPUT \<lparr>outFormat = MAP_BABBAGE, outDestination = DESTINATION_THIRD_PARTY (bytes_of 29 9),
        outAmount = 50, outNumAssetGroups = 0, outIncludeDatum = True, outIncludeRefScript = True\<rparr>,
      OP_OUTPUT_SCRIPT 2, OP_OUTPUT_SCRIPT_CHUNK [0xFF, 0xFF], OP_FEE 42]"

theorem script_without_datum_accepted:
  "case tx_program (bare_params\<lparr>pNumOutputs := 1\<rparr>) script_without_datum zeroed_builder of
     Inl _ \<Rightarrow> False
   | Inr b \<Rightarrow> assertCanLeaveDonation b = Inr b \<and> \<not> complete_item (tx_out b)"
  by code_simp

end
