(* ===== verification/VotecastHashBuilder.thy ===== *)
theory VotecastHashBuilder
  imports Hash
begin

text \<open>
  \<open>src/votecastHashBuilder/votecastHashBuilder.c\<close>: the hash of a vote that arrives in chunks.
  The builder counts the bytes still missing; it must not accept more or fewer than announced.
\<close>

datatype votecast_hash_builder_state_t =
    VOTECAST_HASH_BUILDER_INIT
  | VOTECAST_HASH_BUILDER_CHUNK
  | VOTECAST_HASH_BUILDER_FINISHED

record votecast_hash_builder_t =
  votecastState :: votecast_hash_builder_state_t
  remainingBytes :: nat
  votecastHash :: hash_context

definition votecast_append_data :: "bytes \<Rightarrow> votecast_hash_builder_t stmt" where
  "votecast_append_data buffer b =
     res_bind (blake2b_append buffer (votecastHash b)) (\<lambda>h. Inr (b\<lparr>votecastHash := h\<rparr>))"

definition votecastHashBuilder_init :: "nat \<Rightarrow> votecast_hash_builder_t stmt" where
  "votecastHashBuilder_init n = seq
     [assert_that (\<lambda>_. n > 0),
      modify (\<lambda>b. b\<lparr>remainingBytes := n\<rparr>),
      modify (\<lambda>b. b\<lparr>votecastHash := blake2b_init\<rparr>),
      modify (\<lambda>b. b\<lparr>votecastState := VOTECAST_HASH_BUILDER_INIT\<rparr>)]"

definition votecastHashBuilder_chunk :: "bytes \<Rightarrow> votecast_hash_builder_t stmt" where
  "votecastHashBuilder_chunk chunk = seq
     [assert_that (\<lambda>b. votecastState b = VOTECAST_HASH_BUILDER_INIT \<or>
        votecastState b = VOTECAST_HASH_BUILDER_CHUNK),
      assert_that (\<lambda>_. length chunk < BUFFER_SIZE_PARANOIA),
      assert_that (\<lambda>b. length chunk \<le> remainingBytes b),
      assert_that (\<lambda>_. length chunk > 0),
      modify (\<lambda>b. b\<lparr>remainingBytes := remainingBytes b - length chunk\<rparr>),
      votecast_append_data chunk,
      modify (\<lambda>b. b\<lparr>votecastState := VOTECAST_HASH_BUILDER_CHUNK\<rparr>)]"

definition votecastHashBuilder_finalize ::
  "(bytes \<Rightarrow> bytes option) \<Rightarrow> nat \<Rightarrow> votecast_hash_builder_t \<Rightarrow>
   (bytes \<times> votecast_hash_builder_t) res" where
  "votecastHashBuilder_finalize blake2b_256 outSize b =
     (if votecastState b \<noteq> VOTECAST_HASH_BUILDER_CHUNK then Inl ERR_ASSERT
      else if remainingBytes b \<noteq> 0 then Inl ERR_ASSERT
      else if outSize \<noteq> 32 then Inl ERR_ASSERT
      else res_bind (blake2b_finalize blake2b_256 32 outSize (votecastHash b)) (\<lambda>out.
        Inr (out, b\<lparr>votecastState := VOTECAST_HASH_BUILDER_FINISHED\<rparr>)))"

text \<open>The hash of a vote, chunk after chunk, as the client computes it.\<close>

definition votecast_hash ::
  "(bytes \<Rightarrow> bytes option) \<Rightarrow> nat \<Rightarrow> bytes list \<Rightarrow> votecast_hash_builder_t \<Rightarrow>
   (bytes \<times> votecast_hash_builder_t) res" where
  "votecast_hash blake2b_256 n chunks b =
     res_bind (seq (votecastHashBuilder_init n # map votecastHashBuilder_chunk chunks) b)
       (votecastHashBuilder_finalize blake2b_256 32)"

subsection \<open>What a run absorbs\<close>

definition good_chunks :: "nat \<Rightarrow> bytes list \<Rightarrow> bool" where
  "good_chunks n chunks \<longleftrightarrow>
     (\<forall>c \<in> set chunks. 0 < length c \<and> length c < BUFFER_SIZE_PARANOIA) \<and> length (concat chunks) \<le> n"

definition ready :: "votecast_hash_builder_t \<Rightarrow> bool" where
  "ready b \<longleftrightarrow> votecastState b \<noteq> VOTECAST_HASH_BUILDER_FINISHED \<and>
     initialized_magic (votecastHash b) = HASH_CONTEXT_INITIALIZED_MAGIC"

lemma chunk_Inr:
  assumes "ready b"
  shows "votecastHashBuilder_chunk c b = Inr b' \<longleftrightarrow>
    0 < length c \<and> length c < BUFFER_SIZE_PARANOIA \<and> length c \<le> remainingBytes b \<and>
    b' = b\<lparr>remainingBytes := remainingBytes b - length c,
      votecastHash := (votecastHash b)\<lparr>absorbed := absorbed (votecastHash b) @ c\<rparr>,
      votecastState := VOTECAST_HASH_BUILDER_CHUNK\<rparr>"
  using assms
  by (cases "votecastState b") (auto simp: votecastHashBuilder_chunk_def res_bind_Inr_iff
      votecast_append_data_def blake2b_append_Inr ready_def)

lemma chunks_Inr:
  "ready b \<Longrightarrow> seq (map votecastHashBuilder_chunk chunks) b = Inr b' \<longleftrightarrow>
    good_chunks (remainingBytes b) chunks \<and>
    b' = b\<lparr>remainingBytes := remainingBytes b - length (concat chunks),
      votecastHash := (votecastHash b)\<lparr>absorbed := absorbed (votecastHash b) @ concat chunks\<rparr>,
      votecastState := (if chunks = [] then votecastState b else VOTECAST_HASH_BUILDER_CHUNK)\<rparr>"
proof (induction chunks arbitrary: b)
  case Nil
  then show ?case by (auto simp: good_chunks_def)
next
  case (Cons c chunks)
  let ?c = "b\<lparr>remainingBytes := remainingBytes b - length c,
      votecastHash := (votecastHash b)\<lparr>absorbed := absorbed (votecastHash b) @ c\<rparr>,
      votecastState := VOTECAST_HASH_BUILDER_CHUNK\<rparr>"
  have "ready ?c"
    using Cons.prems by (simp add: ready_def)
  then show ?case
    using Cons.IH [of ?c] by (auto simp: res_bind_Inr_iff chunk_Inr [OF Cons.prems] good_chunks_def)
qed

text \<open>
  C36. The digest of a vote is returned exactly when its chunks are nonempty, within the buffer
  bound, and add up to the announced length; it is then the digest of the whole vote.
\<close>

theorem votecast_hash_iff:
  "(\<exists>b'. votecast_hash blake2b_256 n chunks b = Inr (out, b')) \<longleftrightarrow>
   0 < n \<and> (\<forall>c \<in> set chunks. 0 < length c \<and> length c < BUFFER_SIZE_PARANOIA) \<and>
   length (concat chunks) = n \<and> blake2b_256 (concat chunks) = Some out"
proof -
  let ?b = "b\<lparr>remainingBytes := n, votecastHash := blake2b_init,
    votecastState := VOTECAST_HASH_BUILDER_INIT\<rparr>"
  have r: "ready ?b"
    by (simp add: ready_def blake2b_init_def)
  have i: "votecastHashBuilder_init n b = Inr c \<longleftrightarrow> 0 < n \<and> c = ?b" for c
    by (auto simp: votecastHashBuilder_init_def res_bind_Inr_iff)
  let ?c = "?b\<lparr>remainingBytes := n - length (concat chunks),
    votecastHash := blake2b_init\<lparr>absorbed := concat chunks\<rparr>,
    votecastState := (if chunks = [] then VOTECAST_HASH_BUILDER_INIT else VOTECAST_HASH_BUILDER_CHUNK)\<rparr>"
  have "seq (votecastHashBuilder_init n # map votecastHashBuilder_chunk chunks) b = Inr c \<longleftrightarrow>
    0 < n \<and> good_chunks n chunks \<and> c = ?c" for c
    using chunks_Inr [OF r, of chunks c] by (simp add: res_bind_Inr_iff i blake2b_init_def)
  then have "votecast_hash blake2b_256 n chunks b = Inr (out, b') \<longleftrightarrow> 0 < n \<and> good_chunks n chunks \<and>
    votecastHashBuilder_finalize blake2b_256 32 ?c = Inr (out, b')" for b'
    by (simp add: votecast_hash_def res_bind_Inr_iff)
  moreover have "(\<exists>b'. votecastHashBuilder_finalize blake2b_256 32 c = Inr (out, b')) \<longleftrightarrow>
    votecastState c = VOTECAST_HASH_BUILDER_CHUNK \<and> remainingBytes c = 0 \<and>
    initialized_magic (votecastHash c) = HASH_CONTEXT_INITIALIZED_MAGIC \<and>
    blake2b_256 (absorbed (votecastHash c)) = Some out" for c
    by (auto simp: votecastHashBuilder_finalize_def res_bind_Inr_iff blake2b_finalize_def
        split: option.splits)
  ultimately show ?thesis
    by (cases "chunks = []") (auto simp: good_chunks_def blake2b_init_def)
qed

lemma votecast_hash_iff_witness:
  "\<exists>b'. votecast_hash Some 3 [[1, 2], [3]]
     \<lparr>votecastState = VOTECAST_HASH_BUILDER_FINISHED, remainingBytes = 0,
      votecastHash = \<lparr>initialized_magic = 0, absorbed = []\<rparr>\<rparr> = Inr ([1, 2, 3], b')"
  using votecast_hash_iff [of Some 3 "[[1, 2], [3]]"] by simp

end
