(* ===== verification/NativeScriptHashBuilder.thy ===== *)
theory NativeScriptHashBuilder
  imports Sink
begin

text \<open>
  \<open>src/nativeScriptHashBuilder/nativeScriptHashBuilder.c\<close>: the hash of a native script that
  arrives node by node. \<open>remainingScripts\<close> counts, for each open level, the scripts still
  missing; the array has \<open>MAX_SCRIPT_DEPTH\<close> entries and the code indexes it unchecked, so an
  access past its end is \<open>OUT_OF_BOUNDS\<close>.
\<close>

subsection \<open>The builder\<close>

datatype native_script_hash_builder_state_t =
    NATIVE_SCRIPT_HASH_BUILDER_SCRIPT
  | NATIVE_SCRIPT_HASH_BUILDER_FINISHED

record native_script_hash_builder_t =
  level :: u8
  remainingScripts :: "u32 list"
  nativeState :: native_script_hash_builder_state_t
  nativeScriptHash :: hash_context

abbreviation (input) NATIVE_SCRIPT_PUBKEY :: u64 where "NATIVE_SCRIPT_PUBKEY \<equiv> 0"
abbreviation (input) NATIVE_SCRIPT_ALL :: u64 where "NATIVE_SCRIPT_ALL \<equiv> 1"
abbreviation (input) NATIVE_SCRIPT_ANY :: u64 where "NATIVE_SCRIPT_ANY \<equiv> 2"
abbreviation (input) NATIVE_SCRIPT_N_OF_K :: u64 where "NATIVE_SCRIPT_N_OF_K \<equiv> 3"
abbreviation (input) NATIVE_SCRIPT_INVALID_BEFORE :: u64 where "NATIVE_SCRIPT_INVALID_BEFORE \<equiv> 4"
abbreviation (input) NATIVE_SCRIPT_INVALID_HEREAFTER :: u64 where
  "NATIVE_SCRIPT_INVALID_HEREAFTER \<equiv> 5"

definition native_append_cbor :: "u8 \<Rightarrow> u64 \<Rightarrow> native_script_hash_builder_t stmt" where
  "native_append_cbor type value b =
     res_bind (blake2b_append_cbor type value (nativeScriptHash b))
       (\<lambda>h. Inr (b\<lparr>nativeScriptHash := h\<rparr>))"

definition native_append_data :: "bytes \<Rightarrow> native_script_hash_builder_t stmt" where
  "native_append_data buffer b =
     res_bind (blake2b_append buffer (nativeScriptHash b)) (\<lambda>h. Inr (b\<lparr>nativeScriptHash := h\<rparr>))"

text \<open>\<open>remainingScripts[level]\<close>, read and written.\<close>

definition read_remaining :: "native_script_hash_builder_t \<Rightarrow> u32 res" where
  "read_remaining b =
     (if unat (level b) < length (remainingScripts b) then Inr (remainingScripts b ! unat (level b))
      else Inl OUT_OF_BOUNDS)"

definition write_remaining :: "u32 \<Rightarrow> native_script_hash_builder_t stmt" where
  "write_remaining n b =
     (if unat (level b) < length (remainingScripts b)
      then Inr (b\<lparr>remainingScripts := (remainingScripts b)[unat (level b) := n]\<rparr>)
      else Inl OUT_OF_BOUNDS)"

definition advanceState :: "native_script_hash_builder_t stmt" where
  "advanceState b =
     (if nativeState b \<noteq> NATIVE_SCRIPT_HASH_BUILDER_SCRIPT then Inl ERR_ASSERT
      else if level b \<noteq> 0 then Inr (b\<lparr>nativeState := NATIVE_SCRIPT_HASH_BUILDER_SCRIPT\<rparr>)
      else res_bind (read_remaining b) (\<lambda>n.
        Inr (b\<lparr>nativeState := if n = 0 then NATIVE_SCRIPT_HASH_BUILDER_FINISHED
          else NATIVE_SCRIPT_HASH_BUILDER_SCRIPT\<rparr>)))"

definition isComplexScriptFinished :: "native_script_hash_builder_t \<Rightarrow> bool res" where
  "isComplexScriptFinished b =
     (if level b > 0 then res_bind (read_remaining b) (\<lambda>n. Inr (n = 0)) else Inr False)"

text \<open>\<open>remainingScripts[level]--\<close> with the assertion before it.\<close>

definition decrement_remaining :: "native_script_hash_builder_t stmt" where
  "decrement_remaining b =
     res_bind (read_remaining b) (\<lambda>n.
       if n > 0 then write_remaining (n - 1) b else Inl ERR_ASSERT)"

function complexScriptFinished :: "native_script_hash_builder_t stmt" where
  "complexScriptFinished b =
     res_bind (isComplexScriptFinished b) (\<lambda>finished.
       if finished
       then res_bind (decrement_remaining (b\<lparr>level := level b - 1\<rparr>)) complexScriptFinished
       else Inr b)"
  by pat_completeness auto

text \<open>The loop ends: each round pops a level and leaves the level alone otherwise.\<close>

lemma decrement_level: "decrement_remaining b = Inr b' \<Longrightarrow> level b' = level b"
  by (auto simp: decrement_remaining_def read_remaining_def write_remaining_def split: if_splits)

lemma finished_level: "isComplexScriptFinished b = Inr True \<Longrightarrow> 0 < level b"
  by (auto simp: isComplexScriptFinished_def split: if_splits)

termination complexScriptFinished
proof (relation "measure (\<lambda>b. unat (level b))")
  fix b finished b'
  assume "isComplexScriptFinished b = Inr finished" "finished"
    and d: "decrement_remaining (b\<lparr>level := level b - 1\<rparr>) = Inr b'"
  then have "0 < level b"
    using finished_level by simp
  then have "unat (level b - 1) < unat (level b)"
    by (simp add: unat_pred unat_pos)
  then show "(b', b) \<in> measure (\<lambda>b. unat (level b))"
    using decrement_level [OF d] by simp
qed simp

definition simpleScriptFinished :: "native_script_hash_builder_t stmt" where
  "simpleScriptFinished b =
     res_bind (decrement_remaining b) (\<lambda>b.
     res_bind (isComplexScriptFinished b) (\<lambda>finished.
       if finished then complexScriptFinished b else Inr b))"

subsection \<open>Operations\<close>

definition nativeScriptHashBuilder_init :: "native_script_hash_builder_t stmt" where
  "nativeScriptHashBuilder_init = seq
     [modify (\<lambda>b. b\<lparr>nativeScriptHash := blake2b_init\<rparr>),
      native_append_data [0],
      modify (\<lambda>b. b\<lparr>nativeState := NATIVE_SCRIPT_HASH_BUILDER_SCRIPT\<rparr>),
      modify (\<lambda>b. b\<lparr>level := 0\<rparr>),
      write_remaining 1]"

definition in_script :: "native_script_hash_builder_t stmt" where
  "in_script = assert_that (\<lambda>b. nativeState b = NATIVE_SCRIPT_HASH_BUILDER_SCRIPT)"

text \<open>What every complex script does after its head: open a level.\<close>

definition open_level :: "u32 \<Rightarrow> native_script_hash_builder_t stmt" where
  "open_level n = seq
     [modify (\<lambda>b. b\<lparr>level := level b + 1\<rparr>),
      write_remaining n,
      (\<lambda>b. res_bind (isComplexScriptFinished b) (\<lambda>finished.
        if finished then complexScriptFinished b else Inr b)),
      advanceState]"

definition startComplexScript :: "u64 \<Rightarrow> u32 \<Rightarrow> native_script_hash_builder_t stmt" where
  "startComplexScript type n = seq
     [in_script,
      native_append_cbor CBOR_TYPE_ARRAY 2,
      native_append_cbor CBOR_TYPE_UNSIGNED type,
      native_append_cbor CBOR_TYPE_ARRAY (ucast n),
      open_level n]"

definition nativeScriptHashBuilder_startComplexScript_all ::
  "u32 \<Rightarrow> native_script_hash_builder_t stmt" where
  "nativeScriptHashBuilder_startComplexScript_all = startComplexScript NATIVE_SCRIPT_ALL"

definition nativeScriptHashBuilder_startComplexScript_any ::
  "u32 \<Rightarrow> native_script_hash_builder_t stmt" where
  "nativeScriptHashBuilder_startComplexScript_any = startComplexScript NATIVE_SCRIPT_ANY"

definition nativeScriptHashBuilder_startComplexScript_n_of_k ::
  "u32 \<Rightarrow> u32 \<Rightarrow> native_script_hash_builder_t stmt" where
  "nativeScriptHashBuilder_startComplexScript_n_of_k requiredScripts n = seq
     [in_script,
      native_append_cbor CBOR_TYPE_ARRAY 3,
      native_append_cbor CBOR_TYPE_UNSIGNED NATIVE_SCRIPT_N_OF_K,
      native_append_cbor CBOR_TYPE_UNSIGNED (ucast requiredScripts),
      native_append_cbor CBOR_TYPE_ARRAY (ucast n),
      open_level n]"

definition nativeScriptHashBuilder_addScript_pubkey ::
  "bytes \<Rightarrow> native_script_hash_builder_t stmt" where
  "nativeScriptHashBuilder_addScript_pubkey pubKeyHash = seq
     [in_script,
      assert_that (\<lambda>_. length pubKeyHash = ADDRESS_KEY_HASH_LENGTH),
      native_append_cbor CBOR_TYPE_ARRAY 2,
      native_append_cbor CBOR_TYPE_UNSIGNED NATIVE_SCRIPT_PUBKEY,
      native_append_cbor CBOR_TYPE_BYTES (word_of_nat (length pubKeyHash)),
      native_append_data pubKeyHash,
      simpleScriptFinished,
      advanceState]"

definition addScript_timelock :: "u64 \<Rightarrow> u64 \<Rightarrow> native_script_hash_builder_t stmt" where
  "addScript_timelock type timelock = seq
     [in_script,
      native_append_cbor CBOR_TYPE_ARRAY 2,
      native_append_cbor CBOR_TYPE_UNSIGNED type,
      native_append_cbor CBOR_TYPE_UNSIGNED timelock,
      simpleScriptFinished,
      advanceState]"

definition nativeScriptHashBuilder_addScript_invalidBefore ::
  "u64 \<Rightarrow> native_script_hash_builder_t stmt" where
  "nativeScriptHashBuilder_addScript_invalidBefore = addScript_timelock NATIVE_SCRIPT_INVALID_BEFORE"

definition nativeScriptHashBuilder_addScript_invalidHereafter ::
  "u64 \<Rightarrow> native_script_hash_builder_t stmt" where
  "nativeScriptHashBuilder_addScript_invalidHereafter =
     addScript_timelock NATIVE_SCRIPT_INVALID_HEREAFTER"

definition nativeScriptHashBuilder_finalize ::
  "(bytes \<Rightarrow> bytes option) \<Rightarrow> nat \<Rightarrow> native_script_hash_builder_t \<Rightarrow> bytes res" where
  "nativeScriptHashBuilder_finalize blake2b_224 outSize b =
     (if nativeState b \<noteq> NATIVE_SCRIPT_HASH_BUILDER_FINISHED then Inl ERR_ASSERT
      else if outSize \<noteq> SCRIPT_HASH_LENGTH then Inl ERR_ASSERT
      else blake2b_finalize blake2b_224 28 outSize (nativeScriptHash b))"

end
