(* ===== verification/NativeScripts.thy ===== *)
theory NativeScripts
  imports NativeScriptHashBuilder
begin

text \<open>
  What the native script builder computes. The specification is the script as a tree, its
  encoding, and the traversal a client makes: each node before its children. \<open>open_scripts\<close>
  abstracts the builder's array to the stack of counters of its open levels.
\<close>

declare complexScriptFinished.simps [simp del]

subsection \<open>Scripts\<close>

datatype native_script =
    SCRIPT_PUBKEY bytes
  | SCRIPT_ALL "native_script list"
  | SCRIPT_ANY "native_script list"
  | SCRIPT_N_OF_K u32 "native_script list"
  | SCRIPT_INVALID_BEFORE u64
  | SCRIPT_INVALID_HEREAFTER u64

fun encode_script :: "native_script \<Rightarrow> bytes" where
  "encode_script (SCRIPT_PUBKEY h) = tok CBOR_TYPE_ARRAY 2 @ tok CBOR_TYPE_UNSIGNED 0 @
     tok CBOR_TYPE_BYTES (word_of_nat (length h)) @ h"
| "encode_script (SCRIPT_ALL ss) = tok CBOR_TYPE_ARRAY 2 @ tok CBOR_TYPE_UNSIGNED 1 @
     tok CBOR_TYPE_ARRAY (word_of_nat (length ss)) @ concat (map encode_script ss)"
| "encode_script (SCRIPT_ANY ss) = tok CBOR_TYPE_ARRAY 2 @ tok CBOR_TYPE_UNSIGNED 2 @
     tok CBOR_TYPE_ARRAY (word_of_nat (length ss)) @ concat (map encode_script ss)"
| "encode_script (SCRIPT_N_OF_K n ss) = tok CBOR_TYPE_ARRAY 3 @ tok CBOR_TYPE_UNSIGNED 3 @
     tok CBOR_TYPE_UNSIGNED (ucast n) @
     tok CBOR_TYPE_ARRAY (word_of_nat (length ss)) @ concat (map encode_script ss)"
| "encode_script (SCRIPT_INVALID_BEFORE t) = tok CBOR_TYPE_ARRAY 2 @ tok CBOR_TYPE_UNSIGNED 4 @
     tok CBOR_TYPE_UNSIGNED t"
| "encode_script (SCRIPT_INVALID_HEREAFTER t) = tok CBOR_TYPE_ARRAY 2 @ tok CBOR_TYPE_UNSIGNED 5 @
     tok CBOR_TYPE_UNSIGNED t"

text \<open>How many levels of complex scripts are nested; what fits the C types.\<close>

fun nesting :: "native_script \<Rightarrow> nat" where
  "nesting (SCRIPT_ALL ss) = Suc (foldr max (map nesting ss) 0)"
| "nesting (SCRIPT_ANY ss) = Suc (foldr max (map nesting ss) 0)"
| "nesting (SCRIPT_N_OF_K _ ss) = Suc (foldr max (map nesting ss) 0)"
| "nesting _ = 0"

definition fits_u32 :: "nat \<Rightarrow> bool" where
  "fits_u32 n \<longleftrightarrow> n < 2 ^ 32"

lemma fits_u32_code [code]: "fits_u32 n \<longleftrightarrow> int n < 2 ^ 32"
  unfolding fits_u32_def by (metis of_nat_less_iff of_nat_numeral of_nat_power)

fun script_ok :: "native_script \<Rightarrow> bool" where
  "script_ok (SCRIPT_PUBKEY h) = (length h = ADDRESS_KEY_HASH_LENGTH)"
| "script_ok (SCRIPT_ALL ss) = (fits_u32 (length ss) \<and> list_all script_ok ss)"
| "script_ok (SCRIPT_ANY ss) = (fits_u32 (length ss) \<and> list_all script_ok ss)"
| "script_ok (SCRIPT_N_OF_K _ ss) = (fits_u32 (length ss) \<and> list_all script_ok ss)"
| "script_ok _ = True"

text \<open>The calls of a client that visits the nodes in prefix order.\<close>

fun feed :: "native_script \<Rightarrow> native_script_hash_builder_t stmt" where
  "feed (SCRIPT_PUBKEY h) = nativeScriptHashBuilder_addScript_pubkey h"
| "feed (SCRIPT_ALL ss) = seq (nativeScriptHashBuilder_startComplexScript_all (word_of_nat (length ss))
     # map feed ss)"
| "feed (SCRIPT_ANY ss) = seq (nativeScriptHashBuilder_startComplexScript_any (word_of_nat (length ss))
     # map feed ss)"
| "feed (SCRIPT_N_OF_K n ss) = seq (nativeScriptHashBuilder_startComplexScript_n_of_k n
     (word_of_nat (length ss)) # map feed ss)"
| "feed (SCRIPT_INVALID_BEFORE t) = nativeScriptHashBuilder_addScript_invalidBefore t"
| "feed (SCRIPT_INVALID_HEREAFTER t) = nativeScriptHashBuilder_addScript_invalidHereafter t"

definition native_script_hash ::
  "(bytes \<Rightarrow> bytes option) \<Rightarrow> native_script \<Rightarrow> native_script_hash_builder_t \<Rightarrow> bytes res" where
  "native_script_hash blake2b_224 s b =
     res_bind (seq [nativeScriptHashBuilder_init, feed s] b)
       (nativeScriptHashBuilder_finalize blake2b_224 28)"

subsection \<open>The stack of open levels\<close>

text \<open>Innermost first; the levels below the innermost are still waiting for the script in it.\<close>

definition open_scripts :: "native_script_hash_builder_t \<Rightarrow> nat list" where
  "open_scripts b = rev (map unat (take (Suc (unat (level b))) (remainingScripts b)))"

definition well_formed :: "native_script_hash_builder_t \<Rightarrow> bool" where
  "well_formed b \<longleftrightarrow> length (remainingScripts b) = MAX_SCRIPT_DEPTH \<and>
     unat (level b) < MAX_SCRIPT_DEPTH \<and> (\<forall>n \<in> set (tl (open_scripts b)). 0 < n)"

text \<open>A finished script completes every level it was the last of, but never the outermost.\<close>

fun complete_levels :: "nat list \<Rightarrow> nat list" where
  "complete_levels (0 # n # stk) = complete_levels ((n - 1) # stk)"
| "complete_levels stk = stk"

fun finish_script :: "nat list \<Rightarrow> nat list" where
  "finish_script (n # stk) = complete_levels ((n - 1) # stk)"
| "finish_script [] = []"

lemma open_scripts_length:
  "length (remainingScripts b) = 11 \<Longrightarrow> unat (level b) < 11 \<Longrightarrow>
   length (open_scripts b) = Suc (unat (level b))"
  by (simp add: open_scripts_def min_def)

lemma open_scripts_hd:
  assumes "length (remainingScripts b) = 11" "unat (level b) < 11"
  shows "open_scripts b = unat (remainingScripts b ! unat (level b)) #
    rev (map unat (take (unat (level b)) (remainingScripts b)))"
  using assms by (simp add: open_scripts_def take_Suc_conv_app_nth)

lemma open_scripts_pop:
  assumes "length (remainingScripts b) = 11" "unat (level b) < 11" "0 < level b"
  shows "open_scripts (b\<lparr>level := level b - 1\<rparr>) = tl (open_scripts b)"
proof -
  have "Suc (unat (level b - 1)) = unat (level b)"
    using assms(3) by (simp add: unat_pred unat_pos)
  then show ?thesis
    using open_scripts_hd [OF assms(1,2)] by (simp add: open_scripts_def)
qed

lemma read_remaining_ok:
  assumes "well_formed b"
  obtains n where "read_remaining b = Inr n" "unat n = hd (open_scripts b)"
  using assms open_scripts_hd [of b] by (auto simp: read_remaining_def well_formed_def)

lemma open_scripts_Cons:
  "well_formed b \<Longrightarrow> open_scripts b = hd (open_scripts b) # tl (open_scripts b)"
  using open_scripts_hd [of b] by (auto simp: well_formed_def)

lemma level_zero: "well_formed b \<Longrightarrow> level b = 0 \<longleftrightarrow> tl (open_scripts b) = []"
  using open_scripts_hd [of b] by (auto simp: well_formed_def unat_eq_0)

definition same_hash :: "native_script_hash_builder_t \<Rightarrow> native_script_hash_builder_t \<Rightarrow> bool" where
  "same_hash b b' \<longleftrightarrow> nativeScriptHash b' = nativeScriptHash b \<and> nativeState b' = nativeState b"

lemma decrement_ok:
  assumes "well_formed b" "open_scripts b = n # stk" "0 < n"
  obtains b' where "decrement_remaining b = Inr b'" "well_formed b'" "open_scripts b' = (n - 1) # stk"
    "same_hash b b'"
proof -
  obtain m where m: "read_remaining b = Inr m" "unat m = n"
    using read_remaining_ok [OF assms(1)] assms(2) by auto
  have l: "unat (level b) < length (remainingScripts b)" "length (remainingScripts b) = 11"
    "unat (level b) < 11"
    using assms(1) by (auto simp: well_formed_def)
  let ?b = "b\<lparr>remainingScripts := (remainingScripts b)[unat (level b) := m - 1]\<rparr>"
  have "0 < m"
    using m(2) assms(3) by (simp add: unat_pos [symmetric])
  then have "unat (m - 1) = n - 1"
    using m(2) by (simp add: unat_pred)
  then have o: "open_scripts ?b = (n - 1) # stk"
    using open_scripts_hd [of ?b] open_scripts_hd [of b] l assms(2) by simp
  show ?thesis
  proof (rule that)
    show "decrement_remaining b = Inr ?b"
      using m(1) \<open>0 < m\<close> l by (simp add: decrement_remaining_def write_remaining_def)
    show "well_formed ?b"
      using assms(1,2) l o by (simp add: well_formed_def)
  qed (use o in \<open>simp_all add: same_hash_def\<close>)
qed

lemma complete_stops:
  assumes "well_formed b" "\<And>n stk. open_scripts b \<noteq> 0 # n # stk"
  shows "\<exists>b'. complexScriptFinished b = Inr b' \<and> well_formed b' \<and>
    open_scripts b' = open_scripts b \<and> same_hash b b'"
proof -
  obtain m where m: "read_remaining b = Inr m" "unat m = hd (open_scripts b)"
    using read_remaining_ok [OF assms(1)] .
  have "level b > 0 \<longrightarrow> m \<noteq> 0"
    using m(2) assms(2) level_zero [OF assms(1)] open_scripts_Cons [OF assms(1)]
    by (metis list.exhaust unat_0 word_neq_0_conv)
  then have "isComplexScriptFinished b = Inr False"
    using m(1) by (simp add: isComplexScriptFinished_def)
  then show ?thesis
    using assms(1) by (subst complexScriptFinished.simps) (simp add: same_hash_def)
qed

lemma complete_ok:
  assumes "well_formed b"
  shows "\<exists>b'. complexScriptFinished b = Inr b' \<and> well_formed b' \<and>
    open_scripts b' = complete_levels (open_scripts b) \<and> same_hash b b'"
  using assms
proof (induction "open_scripts b" arbitrary: b rule: complete_levels.induct)
  case (1 n stk)
  note o0 = "1.hyps"(2) [symmetric]
  have "level b > 0"
    using level_zero [OF "1.prems"] o0 by (simp add: word_gt_0)
  obtain m where m: "read_remaining b = Inr m" "unat m = hd (open_scripts b)"
    using read_remaining_ok [OF "1.prems"] .
  then have f: "isComplexScriptFinished b = Inr True"
    using \<open>level b > 0\<close> by (simp add: isComplexScriptFinished_def unat_eq_0 o0)
  let ?b = "b\<lparr>level := level b - 1\<rparr>"
  have o: "open_scripts ?b = n # stk"
    using open_scripts_pop [of b] "1.prems" \<open>level b > 0\<close> o0
    by (simp add: well_formed_def)
  moreover have "unat (level b - 1) < 11"
    using "1.prems" \<open>level b > 0\<close>
    by (simp add: well_formed_def unat_pred unat_pos less_imp_diff_less)
  moreover have "0 < n" "\<forall>n \<in> set stk. 0 < n"
    using "1.prems" o0 by (simp_all add: well_formed_def)
  ultimately have "well_formed ?b"
    using "1.prems" by (simp add: well_formed_def)
  then obtain c where c: "decrement_remaining ?b = Inr c" "well_formed c"
    "open_scripts c = (n - 1) # stk" "same_hash ?b c"
    using decrement_ok [OF _ o] \<open>0 < n\<close> by metis
  obtain b' where "complexScriptFinished c = Inr b'" "well_formed b'"
    "open_scripts b' = complete_levels ((n - 1) # stk)" "same_hash c b'"
    using "1.hyps"(1) [OF c(3) [symmetric] c(2)] c(3) by auto
  then show ?case
    using f c o0 by (subst complexScriptFinished.simps) (auto simp: same_hash_def)
next
  case "2_1"
  then show ?case
    using complete_stops [OF "2_1"(2)] "2_1"(1) [symmetric] by simp
next
  case "2_2"
  then show ?case
    using complete_stops [OF "2_2"(2)] "2_2"(1) [symmetric] by simp
next
  case "2_3"
  then show ?case
    using complete_stops [OF "2_3"(2)] "2_3"(1) [symmetric] by simp
qed

text \<open>A test before the loop changes nothing: the loop tests first.\<close>

lemma complete_if_finished:
  "res_bind (isComplexScriptFinished b) (\<lambda>finished.
     if finished then complexScriptFinished b else Inr b) = complexScriptFinished b"
proof (cases "isComplexScriptFinished b")
  case (Inr finished)
  then show ?thesis
    using complexScriptFinished.simps [of b] by (cases finished) simp_all
qed (simp add: complexScriptFinished.simps [of b])

subsection \<open>The abstract state of the builder\<close>

definition builder_at :: "native_script_hash_builder_t \<Rightarrow> nat list \<Rightarrow> bytes \<Rightarrow> bool" where
  "builder_at b stk bs \<longleftrightarrow> well_formed b \<and> open_scripts b = stk \<and>
     nativeScriptHash b = \<lparr>initialized_magic = HASH_CONTEXT_INITIALIZED_MAGIC, absorbed = bs\<rparr> \<and>
     nativeState b = (if stk = [0] then NATIVE_SCRIPT_HASH_BUILDER_FINISHED
       else NATIVE_SCRIPT_HASH_BUILDER_SCRIPT)"

text \<open>Between the output of a node and \<open>advanceState\<close> the state is still \<open>SCRIPT\<close>.\<close>

definition builder_in :: "native_script_hash_builder_t \<Rightarrow> nat list \<Rightarrow> bytes \<Rightarrow> bool" where
  "builder_in b stk bs \<longleftrightarrow> well_formed b \<and> open_scripts b = stk \<and>
     nativeScriptHash b = \<lparr>initialized_magic = HASH_CONTEXT_INITIALIZED_MAGIC, absorbed = bs\<rparr> \<and>
     nativeState b = NATIVE_SCRIPT_HASH_BUILDER_SCRIPT"

lemma builder_atD: "builder_at b stk bs \<Longrightarrow> stk \<noteq> [0] \<Longrightarrow> builder_in b stk bs"
  by (simp add: builder_at_def builder_in_def)

lemma append_cbor_ok:
  assumes "builder_in b stk bs" "t \<in> head_types"
  shows "\<exists>b'. native_append_cbor t v b = Inr b' \<and> builder_in b' stk (bs @ tok t v)"
  using assms write_total(2) [OF assms(2), of v]
  by (auto simp: native_append_cbor_def blake2b_append_cbor_def blake2b_append_def builder_in_def
      well_formed_def open_scripts_def)

lemma append_data_ok:
  assumes "builder_in b stk bs"
  shows "\<exists>b'. native_append_data d b = Inr b' \<and> builder_in b' stk (bs @ d)"
  using assms
  by (auto simp: native_append_data_def blake2b_append_def builder_in_def well_formed_def
      open_scripts_def)

lemma level_advance_ok:
  assumes "builder_in b stk bs"
  shows "\<exists>b'. advanceState b = Inr b' \<and> builder_at b' stk bs"
proof -
  have w: "well_formed b" and s: "open_scripts b = stk"
    using assms by (simp_all add: builder_in_def)
  obtain m where "read_remaining b = Inr m" "unat m = hd stk"
    using read_remaining_ok [OF w] s by auto
  then have "stk = [0] \<longleftrightarrow> level b = 0 \<and> m = 0"
    using level_zero [OF w] open_scripts_Cons [OF w] s by (metis list.sel(1,3) unat_eq_0)
  then show ?thesis
    using assms \<open>read_remaining b = Inr m\<close>
    by (auto simp: advanceState_def builder_in_def builder_at_def well_formed_def open_scripts_def)
qed

lemma complete_in:
  assumes "builder_in b stk bs"
  shows "\<exists>b'. complexScriptFinished b = Inr b' \<and> builder_in b' (complete_levels stk) bs"
  using assms complete_ok [of b] by (auto simp: builder_in_def same_hash_def)

lemma simple_finished_ok:
  assumes "builder_in b (n # stk) bs" "0 < n"
  shows "\<exists>b'. simpleScriptFinished b = Inr b' \<and> builder_in b' (finish_script (n # stk)) bs"
proof -
  obtain c where c: "decrement_remaining b = Inr c" "builder_in c ((n - 1) # stk) bs"
    using decrement_ok [of b n stk] assms by (auto simp: builder_in_def same_hash_def)
  then show ?thesis
    using complete_in [OF c(2)] by (simp add: simpleScriptFinished_def complete_if_finished)
qed

lemma open_level_ok:
  assumes "builder_in b (m # stk) bs" "0 < m" "length (m # stk) \<le> 10"
  shows "\<exists>b'. open_level n b = Inr b' \<and> builder_at b' (complete_levels (unat n # m # stk)) bs"
proof -
  have w: "length (remainingScripts b) = 11" "unat (level b) < 11" "open_scripts b = m # stk"
    "\<forall>n \<in> set stk. 0 < n"
    using assms(1) by (auto simp: builder_in_def well_formed_def)
  have l: "unat (level b) < 10"
    using open_scripts_length [OF w(1,2)] w(3) assms(3) by simp
  then have u: "unat (level b + 1) = Suc (unat (level b))"
    using unat_word_ariths(1) [of "level b" 1] by simp
  let ?b = "b\<lparr>level := level b + 1,
    remainingScripts := (remainingScripts b)[unat (level b + 1) := n]\<rparr>"
  have "open_scripts ?b = unat n # m # stk"
    using open_scripts_hd [of ?b] w(1,3) l u by (simp add: open_scripts_def)
  then have "builder_in ?b (unat n # m # stk) bs"
    using assms(1,2) w l u by (simp add: builder_in_def well_formed_def)
  then obtain c where c: "complexScriptFinished ?b = Inr c"
    "builder_in c (complete_levels (unat n # m # stk)) bs"
    using complete_in by blast
  have "write_remaining n (b\<lparr>level := level b + 1\<rparr>) = Inr ?b"
    using w(1) l u by (simp add: write_remaining_def)
  then show ?thesis
    using c level_advance_ok [OF c(2)]
    by (auto simp: open_level_def modify_def complete_if_finished)
qed

subsection \<open>The operations on the abstract state\<close>

abbreviation inside :: "nat list \<Rightarrow> bytes \<Rightarrow> native_script_hash_builder_t \<Rightarrow> bool" where
  "inside stk bs \<equiv> \<lambda>b. builder_in b stk bs"

abbreviation between :: "nat list \<Rightarrow> bytes \<Rightarrow> native_script_hash_builder_t \<Rightarrow> bool" where
  "between stk bs \<equiv> \<lambda>b. builder_at b stk bs"

lemma leads_cbor:
  "t \<in> head_types \<Longrightarrow> bs' = bs @ tok t v \<Longrightarrow>
   leads (inside stk bs) (native_append_cbor t v) (inside stk bs')"
  using append_cbor_ok by (fastforce intro: leadsI)

lemma leads_data: "bs' = bs @ d \<Longrightarrow> leads (inside stk bs) (native_append_data d) (inside stk bs')"
  using append_data_ok by (fastforce intro: leadsI)

lemma leads_in_script: "leads (inside stk bs) in_script (inside stk bs)"
  unfolding in_script_def by (rule leads_assert) (simp add: builder_in_def)

lemma leads_finish:
  "0 < n \<Longrightarrow> leads (inside (n # stk) bs) simpleScriptFinished (inside (finish_script (n # stk)) bs)"
  using simple_finished_ok by (fastforce intro: leadsI)

lemma leads_advance: "leads (inside stk bs) advanceState (between stk bs)"
  using level_advance_ok by (fastforce intro: leadsI)

lemma leads_open_level:
  "0 < m \<Longrightarrow> length stk < 10 \<Longrightarrow>
   leads (inside (m # stk) bs) (open_level n) (between (complete_levels (unat n # m # stk)) bs)"
  using open_level_ok by (fastforce intro: leadsI)

lemmas node_steps = leads_Cons leads_in_script leads_cbor leads_data leads_finish leads_advance
  leads_open_level leads_assert leads_Nil

lemma leads_between:
  "0 < m \<Longrightarrow> leads (inside (m # stk) bs) f Q \<Longrightarrow> leads (between (m # stk) bs) f Q"
  unfolding leads_def using builder_atD by fastforce

lemma leads_last: "leads P f Q \<Longrightarrow> leads P (seq [f]) Q"
  by (rule leads_Cons, assumption, rule leads_Nil)

lemma leads_pubkey:
  assumes "0 < m" "length h = 28"
  shows "leads (between (m # stk) bs) (nativeScriptHashBuilder_addScript_pubkey h)
    (between (finish_script (m # stk)) (bs @ encode_script (SCRIPT_PUBKEY h)))"
  unfolding nativeScriptHashBuilder_addScript_pubkey_def
  by (rule leads_between [OF assms(1)])
    (rule leads_last [OF leads_advance] node_steps | simp add: assms)+

lemma leads_timelock:
  assumes "0 < m"
  shows "leads (between (m # stk) bs) (addScript_timelock t v)
    (between (finish_script (m # stk)) (bs @ tok CBOR_TYPE_ARRAY 2 @ tok CBOR_TYPE_UNSIGNED t @
      tok CBOR_TYPE_UNSIGNED v))"
  unfolding addScript_timelock_def
  by (rule leads_between [OF assms(1)])
    (rule leads_last [OF leads_advance] node_steps | simp add: assms)+

lemma leads_start:
  assumes "0 < m" "length stk < 10"
  shows "leads (between (m # stk) bs) (startComplexScript t n)
    (between (complete_levels (unat n # m # stk)) (bs @ tok CBOR_TYPE_ARRAY 2 @
      tok CBOR_TYPE_UNSIGNED t @ tok CBOR_TYPE_ARRAY (ucast n)))"
  unfolding startComplexScript_def
  by (rule leads_between [OF assms(1)])
    (rule leads_last [OF leads_open_level] node_steps | simp add: assms)+

lemma leads_start_n_of_k:
  assumes "0 < m" "length stk < 10"
  shows "leads (between (m # stk) bs) (nativeScriptHashBuilder_startComplexScript_n_of_k r n)
    (between (complete_levels (unat n # m # stk)) (bs @ tok CBOR_TYPE_ARRAY 3 @
      tok CBOR_TYPE_UNSIGNED 3 @ tok CBOR_TYPE_UNSIGNED (ucast r) @
      tok CBOR_TYPE_ARRAY (ucast n)))"
  unfolding nativeScriptHashBuilder_startComplexScript_n_of_k_def
  by (rule leads_between [OF assms(1)])
    (rule leads_last [OF leads_open_level] node_steps | simp add: assms)+

subsection \<open>Feeding a script\<close>

lemma word_of_nat_u32: "fits_u32 n \<Longrightarrow> unat (word_of_nat n :: u32) = n"
  "fits_u32 n \<Longrightarrow> (ucast (word_of_nat n :: u32) :: u64) = word_of_nat n"
proof -
  show u: "fits_u32 n \<Longrightarrow> unat (word_of_nat n :: u32) = n"
    by (simp add: fits_u32_def unat_of_nat take_bit_nat_eq_self_iff)
  show "fits_u32 n \<Longrightarrow> (ucast (word_of_nat n :: u32) :: u64) = word_of_nat n"
    using u by (metis of_nat_unat)
qed

definition feeds :: "native_script \<Rightarrow> bool" where
  "feeds s \<longleftrightarrow> (\<forall>m stk bs. 0 < m \<longrightarrow> script_ok s \<longrightarrow> length stk + nesting s \<le> 10 \<longrightarrow>
     leads (between (m # stk) bs) (feed s)
       (between (finish_script (m # stk)) (bs @ encode_script s)))"

lemma feed_list:
  assumes "\<And>s. s \<in> set ss \<Longrightarrow> feeds s" "list_all script_ok ss"
    and "\<And>s. s \<in> set ss \<Longrightarrow> Suc (length stk + nesting s) \<le> 10"
  shows "leads (between (complete_levels (length ss # m # stk)) bs) (seq (map feed ss))
    (between (finish_script (m # stk)) (bs @ concat (map encode_script ss)))"
  using assms
proof (induction ss arbitrary: bs)
  case Nil
  then show ?case by (simp add: leads_def)
next
  case (Cons s ss)
  have "leads (between (Suc (length ss) # m # stk) bs) (feed s)
      (between (complete_levels (length ss # m # stk)) (bs @ encode_script s))"
    using Cons.prems(1) [of s, unfolded feeds_def, rule_format,
        where m = "Suc (length ss)" and stk = "m # stk" and bs = bs] Cons.prems(2) Cons.prems(3) [of s]
    by simp
  moreover have "leads (between (complete_levels (length ss # m # stk)) (bs @ encode_script s))
      (seq (map feed ss)) (between (finish_script (m # stk))
        ((bs @ encode_script s) @ concat (map encode_script ss)))"
    by (rule Cons.IH) (use Cons.prems in auto)
  ultimately have "leads (between (Suc (length ss) # m # stk) bs) (seq (feed s # map feed ss))
      (between (finish_script (m # stk)) ((bs @ encode_script s) @ concat (map encode_script ss)))"
    by (rule leads_Cons)
  moreover have "complete_levels (length (s # ss) # m # stk) = Suc (length ss) # m # stk"
    by simp
  ultimately show ?case
    by (simp only: list.map concat.simps append_assoc)
qed

lemma nesting_le: "s \<in> set ss \<Longrightarrow> nesting s \<le> foldr max (map nesting ss) 0"
  by (induction ss) auto

lemma feed_complex:
  assumes "\<And>s. s \<in> set ss \<Longrightarrow> feeds s" "list_all script_ok ss" "fits_u32 (length ss)"
    and "length stk + Suc (foldr max (map nesting ss) 0) \<le> 10"
    and "leads (between (m # stk) bs) start (between (complete_levels (length ss # m # stk)) bs')"
  shows "leads (between (m # stk) bs) (seq (start # map feed ss))
    (between (finish_script (m # stk)) (bs' @ concat (map encode_script ss)))"
proof (rule leads_Cons [OF assms(5)], rule feed_list [OF assms(1,2)])
  fix s assume "s \<in> set ss"
  then show "Suc (length stk + nesting s) \<le> 10"
    using nesting_le [of s ss] assms(4) by simp
qed

lemma feeds_all: "feeds s"
proof (induction s)
  case (SCRIPT_PUBKEY h)
  then show ?case unfolding feeds_def using leads_pubkey by simp
next
  case (SCRIPT_ALL ss)
  show ?case unfolding feeds_def
  proof (intro allI impI)
    fix m and stk :: "nat list" and bs :: bytes
    assume a: "0 < (m::nat)" "script_ok (SCRIPT_ALL ss)" "length stk + nesting (SCRIPT_ALL ss) \<le> 10"
    then have start: "leads (between (m # stk) bs) (startComplexScript 1 (word_of_nat (length ss)))
      (between (complete_levels (length ss # m # stk)) (bs @ tok CBOR_TYPE_ARRAY 2 @
        tok CBOR_TYPE_UNSIGNED 1 @ tok CBOR_TYPE_ARRAY (word_of_nat (length ss))))"
      using leads_start [of m stk bs 1 "word_of_nat (length ss)"] by (simp add: word_of_nat_u32)
    show "leads (between (m # stk) bs) (feed (SCRIPT_ALL ss))
      (between (finish_script (m # stk)) (bs @ encode_script (SCRIPT_ALL ss)))"
      using feed_complex [OF SCRIPT_ALL.IH _ _ _ start] a
      by (simp add: nativeScriptHashBuilder_startComplexScript_all_def del: seq.simps)
  qed
next
  case (SCRIPT_ANY ss)
  show ?case unfolding feeds_def
  proof (intro allI impI)
    fix m and stk :: "nat list" and bs :: bytes
    assume a: "0 < (m::nat)" "script_ok (SCRIPT_ANY ss)" "length stk + nesting (SCRIPT_ANY ss) \<le> 10"
    then have start: "leads (between (m # stk) bs) (startComplexScript 2 (word_of_nat (length ss)))
      (between (complete_levels (length ss # m # stk)) (bs @ tok CBOR_TYPE_ARRAY 2 @
        tok CBOR_TYPE_UNSIGNED 2 @ tok CBOR_TYPE_ARRAY (word_of_nat (length ss))))"
      using leads_start [of m stk bs 2 "word_of_nat (length ss)"] by (simp add: word_of_nat_u32)
    show "leads (between (m # stk) bs) (feed (SCRIPT_ANY ss))
      (between (finish_script (m # stk)) (bs @ encode_script (SCRIPT_ANY ss)))"
      using feed_complex [OF SCRIPT_ANY.IH _ _ _ start] a
      by (simp add: nativeScriptHashBuilder_startComplexScript_any_def del: seq.simps)
  qed
next
  case (SCRIPT_N_OF_K n ss)
  show ?case unfolding feeds_def
  proof (intro allI impI)
    fix m and stk :: "nat list" and bs :: bytes
    assume a: "0 < (m::nat)" "script_ok (SCRIPT_N_OF_K n ss)"
      "length stk + nesting (SCRIPT_N_OF_K n ss) \<le> 10"
    then have start: "leads (between (m # stk) bs)
      (nativeScriptHashBuilder_startComplexScript_n_of_k n (word_of_nat (length ss)))
      (between (complete_levels (length ss # m # stk)) (bs @ tok CBOR_TYPE_ARRAY 3 @
        tok CBOR_TYPE_UNSIGNED 3 @ tok CBOR_TYPE_UNSIGNED (ucast n) @
        tok CBOR_TYPE_ARRAY (word_of_nat (length ss))))"
      using leads_start_n_of_k [of m stk bs n "word_of_nat (length ss)"]
      by (simp add: word_of_nat_u32)
    show "leads (between (m # stk) bs) (feed (SCRIPT_N_OF_K n ss))
      (between (finish_script (m # stk)) (bs @ encode_script (SCRIPT_N_OF_K n ss)))"
      using feed_complex [OF SCRIPT_N_OF_K.IH _ _ _ start] a by (simp del: seq.simps)
  qed
next
  case (SCRIPT_INVALID_BEFORE t)
  then show ?case unfolding feeds_def
    using leads_timelock by (simp add: nativeScriptHashBuilder_addScript_invalidBefore_def)
next
  case (SCRIPT_INVALID_HEREAFTER t)
  then show ?case unfolding feeds_def
    using leads_timelock by (simp add: nativeScriptHashBuilder_addScript_invalidHereafter_def)
qed

lemma leads_init:
  "leads (\<lambda>b. length (remainingScripts b) = MAX_SCRIPT_DEPTH) nativeScriptHashBuilder_init
     (between [1] [0])"
proof (rule leadsI)
  fix b :: native_script_hash_builder_t
  assume l: "length (remainingScripts b) = 11"
  let ?b = "b\<lparr>nativeScriptHash := \<lparr>initialized_magic = 12345, absorbed = [0]\<rparr>,
    nativeState := NATIVE_SCRIPT_HASH_BUILDER_SCRIPT, level := 0,
    remainingScripts := (remainingScripts b)[0 := 1]\<rparr>"
  have "nativeScriptHashBuilder_init b = Inr ?b"
    using l by (simp add: nativeScriptHashBuilder_init_def modify_def native_append_data_def
        blake2b_init_def blake2b_append_def write_remaining_def)
  moreover have "builder_at ?b [1] [0]"
    using l open_scripts_hd [of ?b] by (simp add: builder_at_def well_formed_def)
  ultimately show "\<exists>t. nativeScriptHashBuilder_init b = Inr t \<and> builder_at t [1] [0]"
    by blast
qed

subsection \<open>Properties\<close>

text \<open>
  C20. For every script nested at most ten levels deep, the builder accepts the script's nodes
  in prefix order, no array access is out of bounds, and the digest it returns is that of a
  zero byte and the CBOR encoding of the script.
\<close>

theorem native_script_hash_correct:
  assumes "length (remainingScripts b) = MAX_SCRIPT_DEPTH" "script_ok s" "nesting s \<le> 10"
  shows "native_script_hash blake2b_224 s b =
    (case blake2b_224 (0 # encode_script s) of None \<Rightarrow> Inl ERR_ASSERT | Some out \<Rightarrow> Inr out)"
proof -
  have "leads (between [1] [0]) (feed s) (between (finish_script [1]) ([0] @ encode_script s))"
    using feeds_all [of s] assms(2,3) unfolding feeds_def by (metis add_0 list.size(3) zero_less_one)
  then have "leads (between [1] [0]) (seq [feed s]) (between [0] (0 # encode_script s))"
    using leads_last by simp
  then obtain b' where "seq [nativeScriptHashBuilder_init, feed s] b = Inr b'"
    "builder_at b' [0] (0 # encode_script s)"
    using leadsD [OF leads_Cons [OF leads_init]] assms(1) by blast
  then show ?thesis
    by (simp add: native_script_hash_def nativeScriptHashBuilder_finalize_def builder_at_def
        blake2b_finalize_def)
qed

definition sample_script :: native_script where
  "sample_script = SCRIPT_ALL [SCRIPT_PUBKEY (replicate 28 7), SCRIPT_N_OF_K 1
     [SCRIPT_INVALID_BEFORE 42, SCRIPT_ANY []]]"

definition blank_builder :: native_script_hash_builder_t where
  "blank_builder = \<lparr>level = 0, remainingScripts = replicate 11 0,
     nativeState = NATIVE_SCRIPT_HASH_BUILDER_FINISHED,
     nativeScriptHash = \<lparr>initialized_magic = 0, absorbed = []\<rparr>\<rparr>"

lemma native_script_hash_correct_witness:
  "native_script_hash Some sample_script blank_builder = Inr (0 # encode_script sample_script)"
proof -
  have "length (remainingScripts blank_builder) = 11" "script_ok sample_script"
    "nesting sample_script \<le> 10"
    by code_simp+
  from native_script_hash_correct [OF this] show ?thesis by simp
qed

text \<open>
  The bound of ten levels is sharp and the builder does not check it: opening a level inside
  ten open ones writes past the end of the array. The caller has to keep the depth, as
  \<open>deriveNativeScriptHash.c\<close> does before it opens a level.
\<close>

theorem eleventh_level_out_of_bounds:
  assumes "builder_at b (m # stk) bs" "0 < m" "length stk = 10"
  shows "nativeScriptHashBuilder_startComplexScript_all n b = Inl OUT_OF_BOUNDS"
proof -
  have "leads (inside (m # stk) bs) (seq [in_script, native_append_cbor CBOR_TYPE_ARRAY 2,
      native_append_cbor CBOR_TYPE_UNSIGNED 1, native_append_cbor CBOR_TYPE_ARRAY (ucast n)])
    (inside (m # stk) (bs @ tok CBOR_TYPE_ARRAY 2 @ tok CBOR_TYPE_UNSIGNED 1 @
      tok CBOR_TYPE_ARRAY (ucast n)))"
    by (rule node_steps | simp)+
  then obtain c where c: "seq [in_script, native_append_cbor CBOR_TYPE_ARRAY 2,
      native_append_cbor CBOR_TYPE_UNSIGNED 1, native_append_cbor CBOR_TYPE_ARRAY (ucast n)] b = Inr c"
    "well_formed c" "open_scripts c = m # stk"
    using builder_atD [OF assms(1)] assms(2) unfolding leads_def builder_in_def by force
  have "unat (level c) = 10"
    using open_scripts_length [of c] c(2,3) assms(3) by (simp add: well_formed_def)
  then have "unat (level c + 1) = 11"
    using unat_word_ariths(1) [of "level c" 1] by simp
  then have "open_level n c = Inl OUT_OF_BOUNDS"
    using c(2) by (simp add: open_level_def modify_def write_remaining_def well_formed_def)
  then have "seq ([in_script, native_append_cbor CBOR_TYPE_ARRAY 2,
      native_append_cbor CBOR_TYPE_UNSIGNED 1, native_append_cbor CBOR_TYPE_ARRAY (ucast n)] @
      [open_level n]) b = Inl OUT_OF_BOUNDS"
    unfolding seq_append c(1) by simp
  then show ?thesis
    by (simp add: nativeScriptHashBuilder_startComplexScript_all_def startComplexScript_def)
qed

text \<open>Ten open levels, each waiting for one script.\<close>

definition deep_builder :: native_script_hash_builder_t where
  "deep_builder = \<lparr>level = 10, remainingScripts = replicate 11 1,
     nativeState = NATIVE_SCRIPT_HASH_BUILDER_SCRIPT,
     nativeScriptHash = \<lparr>initialized_magic = 12345, absorbed = []\<rparr>\<rparr>"

lemma eleventh_level_out_of_bounds_witness:
  "nativeScriptHashBuilder_startComplexScript_all 1 deep_builder = Inl OUT_OF_BOUNDS"
proof -
  have "open_scripts deep_builder = 1 # replicate 10 1 \<and> level deep_builder = 10 \<and>
    length (remainingScripts deep_builder) = 11"
    by code_simp
  then have "builder_at deep_builder (1 # replicate 10 1) []"
    by (simp add: builder_at_def well_formed_def) (simp add: deep_builder_def)
  from eleventh_level_out_of_bounds [OF this] show ?thesis by simp
qed

subsection \<open>The encoding is one item\<close>

lemma read_scripts:
  assumes "\<And>s n stk. s \<in> set ss \<Longrightarrow> read_stream (0, n # stk) (encode_script s) = Some (0, push (n - 1) stk)"
  shows "read_stream (0, push (length ss) stk) (concat (map encode_script ss)) = Some (0, stk)"
  using assms
proof (induction ss)
  case (Cons s ss)
  have "read_stream (0, Suc (length ss) # stk) (encode_script s) = Some (0, push (length ss) stk)"
    using Cons.prems [of s "Suc (length ss)" stk] by simp
  then show ?case
    using Cons by (simp add: read_stream_append)
qed simp

text \<open>The bytes hashed after the zero byte are one complete CBOR item.\<close>

theorem encoded_script_complete:
  assumes "script_ok s"
  shows "complete_item (encode_script s)"
proof -
  have "read_stream (0, n # stk) (encode_script s) = Some (0, push (n - 1) stk)" for n stk
    using assms
  proof (induction s arbitrary: n stk)
    case (SCRIPT_PUBKEY h)
    then show ?case
      using read_payload [of h 28 _ "[]"] by (simp add: read_tok)
  next
    case (SCRIPT_ALL ss)
    then show ?case
      using read_scripts [of ss "push (n - 1) stk"]
      by (simp add: read_tok word_of_nat_length fits_u32_def list_all_iff)
  next
    case (SCRIPT_ANY ss)
    then show ?case
      using read_scripts [of ss "push (n - 1) stk"]
      by (simp add: read_tok word_of_nat_length fits_u32_def list_all_iff)
  next
    case (SCRIPT_N_OF_K k ss)
    then show ?case
      using read_scripts [of ss "push (n - 1) stk"]
      by (simp add: read_tok word_of_nat_length fits_u32_def list_all_iff)
  qed (use read_tok [of CBOR_TYPE_UNSIGNED _ _ "[]"] in \<open>simp_all add: read_tok\<close>)
  from this [of 1 "[]"] show ?thesis
    by (simp add: complete_item_def)
qed

lemma encoded_script_complete_witness: "complete_item (encode_script sample_script)"
proof -
  have "script_ok sample_script" by code_simp
  then show ?thesis by (rule encoded_script_complete)
qed

end
