(* ===== verification/AuxDataHashBuilder.thy ===== *)
theory AuxDataHashBuilder
  imports Sink
begin

text \<open>
  \<open>src/auxDataHashBuilder/auxDataHashBuilder.c\<close>: the auxiliary data of a transaction with a
  governance (CIP-15 or CIP-36) registration. Two hashes are computed side by side: that of
  the whole auxiliary data and that of the registration payload, which is what gets signed.
  A token goes to one context or to both, selected by \<open>HC_AUX_DATA\<close> and
  \<open>HC_CVOTE_REGISTRATION_PAYLOAD\<close>.
\<close>

subsection \<open>The builder\<close>

datatype aux_data_hash_builder_state_t =
    AUX_DATA_HASH_BUILDER_INIT
  | AUX_DATA_HASH_BUILDER_IN_CVOTE_REGISTRATION_INIT
  | AUX_DATA_HASH_BUILDER_IN_CVOTE_REGISTRATION_PAYLOAD_INIT
  | AUX_DATA_HASH_BUILDER_IN_CVOTE_REGISTRATION_PAYLOAD_VOTE_KEY
  | AUX_DATA_HASH_BUILDER_IN_CVOTE_REGISTRATION_PAYLOAD_DELEGATIONS
  | AUX_DATA_HASH_BUILDER_IN_CVOTE_REGISTRATION_PAYLOAD_STAKING_KEY
  | AUX_DATA_HASH_BUILDER_IN_CVOTE_REGISTRATION_PAYLOAD_PAYMENT_ADDRESS
  | AUX_DATA_HASH_BUILDER_IN_CVOTE_REGISTRATION_PAYLOAD_NONCE
  | AUX_DATA_HASH_BUILDER_IN_CVOTE_REGISTRATION_PAYLOAD_VOTING_PURPOSE
  | AUX_DATA_HASH_BUILDER_IN_CVOTE_REGISTRATION_SIGNATURE
  | AUX_DATA_HASH_BUILDER_IN_AUXILIARY_SCRIPTS
  | AUX_DATA_HASH_BUILDER_FINISHED

text \<open>The last constructor stands for every other value of the C enumeration's type.\<close>

datatype cvote_registration_format_t = CIP15 | CIP36 | UNKNOWN_FORMAT

record aux_data_hash_builder_t =
  payloadHash :: hash_context
  cVoteFormat :: cvote_registration_format_t
  remainingDelegations :: u16
  auxState :: aux_data_hash_builder_state_t
  auxDataHash :: hash_context

abbreviation (input) METADATA_KEY_CVOTE_REGISTRATION_PAYLOAD :: u64 where
  "METADATA_KEY_CVOTE_REGISTRATION_PAYLOAD \<equiv> 61284"
abbreviation (input) METADATA_KEY_CVOTE_REGISTRATION_SIGNATURE :: u64 where
  "METADATA_KEY_CVOTE_REGISTRATION_SIGNATURE \<equiv> 61285"
abbreviation (input) CVOTE_REGISTRATION_PAYLOAD_KEY_VOTE_KEY :: u64 where
  "CVOTE_REGISTRATION_PAYLOAD_KEY_VOTE_KEY \<equiv> 1"
abbreviation (input) CVOTE_REGISTRATION_PAYLOAD_KEY_STAKING_KEY :: u64 where
  "CVOTE_REGISTRATION_PAYLOAD_KEY_STAKING_KEY \<equiv> 2"
abbreviation (input) CVOTE_REGISTRATION_PAYLOAD_PAYMENT_ADDRESS :: u64 where
  "CVOTE_REGISTRATION_PAYLOAD_PAYMENT_ADDRESS \<equiv> 3"
abbreviation (input) CVOTE_REGISTRATION_PAYLOAD_KEY_NONCE :: u64 where
  "CVOTE_REGISTRATION_PAYLOAD_KEY_NONCE \<equiv> 4"
abbreviation (input) CVOTE_REGISTRATION_PAYLOAD_VOTING_PURPOSE :: u64 where
  "CVOTE_REGISTRATION_PAYLOAD_VOTING_PURPOSE \<equiv> 5"
abbreviation (input) CVOTE_REGISTRATION_SIGNATURE_KEY :: u64 where
  "CVOTE_REGISTRATION_SIGNATURE_KEY \<equiv> 1"

abbreviation (input) HC_AUX_DATA :: u8 where "HC_AUX_DATA \<equiv> 1"
abbreviation (input) HC_CVOTE_REGISTRATION_PAYLOAD :: u8 where "HC_CVOTE_REGISTRATION_PAYLOAD \<equiv> 2"
abbreviation (input) HC_BOTH :: u8 where "HC_BOTH \<equiv> 3"

text \<open>A context operation on one of the two contexts of the builder.\<close>

definition on_aux :: "hash_context stmt \<Rightarrow> aux_data_hash_builder_t stmt" where
  "on_aux f b = res_bind (f (auxDataHash b)) (\<lambda>h. Inr (b\<lparr>auxDataHash := h\<rparr>))"

definition on_payload :: "hash_context stmt \<Rightarrow> aux_data_hash_builder_t stmt" where
  "on_payload f b = res_bind (f (payloadHash b)) (\<lambda>h. Inr (b\<lparr>payloadHash := h\<rparr>))"

definition aux_append_cbor :: "u8 \<Rightarrow> u8 \<Rightarrow> u64 \<Rightarrow> aux_data_hash_builder_t stmt" where
  "aux_append_cbor hashContexts type value = seq
     [do_if (hashContexts AND HC_AUX_DATA \<noteq> 0) (on_aux (blake2b_append_cbor type value)),
      do_if (hashContexts AND HC_CVOTE_REGISTRATION_PAYLOAD \<noteq> 0)
        (on_payload (blake2b_append_cbor type value))]"

definition blake2b_256_append_buffer_aux_data :: "bytes \<Rightarrow> hash_context stmt" where
  "blake2b_256_append_buffer_aux_data buffer = seq
     [assert_that (\<lambda>_. length buffer < BUFFER_SIZE_PARANOIA), blake2b_append buffer]"

definition aux_append_data :: "u8 \<Rightarrow> bytes \<Rightarrow> aux_data_hash_builder_t stmt" where
  "aux_append_data hashContexts buffer = seq
     [do_if (hashContexts AND HC_AUX_DATA \<noteq> 0) (on_aux (blake2b_256_append_buffer_aux_data buffer)),
      do_if (hashContexts AND HC_CVOTE_REGISTRATION_PAYLOAD \<noteq> 0)
        (on_payload (blake2b_256_append_buffer_aux_data buffer))]"

definition aux_in :: "aux_data_hash_builder_state_t list \<Rightarrow> aux_data_hash_builder_t stmt" where
  "aux_in ss = assert_that (\<lambda>b. auxState b \<in> set ss)"

definition aux_goto :: "aux_data_hash_builder_state_t \<Rightarrow> aux_data_hash_builder_t stmt" where
  "aux_goto s = modify (\<lambda>b. b\<lparr>auxState := s\<rparr>)"

subsection \<open>Operations\<close>

definition auxDataHashBuilder_init :: "aux_data_hash_builder_t stmt" where
  "auxDataHashBuilder_init = seq
     [modify (\<lambda>b. b\<lparr>auxDataHash := blake2b_init\<rparr>),
      modify (\<lambda>b. b\<lparr>payloadHash := blake2b_init\<rparr>),
      aux_append_cbor HC_AUX_DATA CBOR_TYPE_ARRAY 2,
      aux_goto AUX_DATA_HASH_BUILDER_INIT]"

definition auxDataHashBuilder_cVoteRegistration_enter ::
  "cvote_registration_format_t \<Rightarrow> aux_data_hash_builder_t stmt" where
  "auxDataHashBuilder_cVoteRegistration_enter format = seq
     [assert_that (\<lambda>_. format = CIP15 \<or> format = CIP36),
      modify (\<lambda>b. b\<lparr>cVoteFormat := format\<rparr>),
      aux_in [AUX_DATA_HASH_BUILDER_INIT],
      aux_append_cbor HC_AUX_DATA CBOR_TYPE_MAP 2,
      aux_append_cbor HC_CVOTE_REGISTRATION_PAYLOAD CBOR_TYPE_MAP 1,
      aux_goto AUX_DATA_HASH_BUILDER_IN_CVOTE_REGISTRATION_INIT]"

definition auxDataHashBuilder_cVoteRegistration_enterPayload :: "aux_data_hash_builder_t stmt" where
  "auxDataHashBuilder_cVoteRegistration_enterPayload = seq
     [aux_in [AUX_DATA_HASH_BUILDER_IN_CVOTE_REGISTRATION_INIT],
      aux_append_cbor HC_BOTH CBOR_TYPE_UNSIGNED METADATA_KEY_CVOTE_REGISTRATION_PAYLOAD,
      (\<lambda>b. aux_append_cbor HC_BOTH CBOR_TYPE_MAP (if cVoteFormat b = CIP36 then 5 else 4) b),
      aux_goto AUX_DATA_HASH_BUILDER_IN_CVOTE_REGISTRATION_PAYLOAD_INIT]"

definition auxDataHashBuilder_cVoteRegistration_addVoteKey ::
  "bytes \<Rightarrow> aux_data_hash_builder_t stmt" where
  "auxDataHashBuilder_cVoteRegistration_addVoteKey votePubKey = seq
     [assert_that (\<lambda>_. length votePubKey < BUFFER_SIZE_PARANOIA),
      aux_in [AUX_DATA_HASH_BUILDER_IN_CVOTE_REGISTRATION_PAYLOAD_INIT],
      aux_append_cbor HC_BOTH CBOR_TYPE_UNSIGNED CVOTE_REGISTRATION_PAYLOAD_KEY_VOTE_KEY,
      assert_that (\<lambda>_. length votePubKey = PUBLIC_KEY_SIZE),
      aux_append_cbor HC_BOTH CBOR_TYPE_BYTES (word_of_nat (length votePubKey)),
      aux_append_data HC_BOTH votePubKey,
      aux_goto AUX_DATA_HASH_BUILDER_IN_CVOTE_REGISTRATION_PAYLOAD_VOTE_KEY]"

text \<open>The number is a \<open>size_t\<close>; the counter keeps its lower sixteen bits.\<close>

definition auxDataHashBuilder_cVoteRegistration_enterDelegations ::
  "nat \<Rightarrow> aux_data_hash_builder_t stmt" where
  "auxDataHashBuilder_cVoteRegistration_enterDelegations numDelegations = seq
     [modify (\<lambda>b. b\<lparr>remainingDelegations := word_of_nat numDelegations\<rparr>),
      aux_in [AUX_DATA_HASH_BUILDER_IN_CVOTE_REGISTRATION_PAYLOAD_INIT],
      aux_append_cbor HC_BOTH CBOR_TYPE_UNSIGNED CVOTE_REGISTRATION_PAYLOAD_KEY_VOTE_KEY,
      aux_append_cbor HC_BOTH CBOR_TYPE_ARRAY (word_of_nat numDelegations),
      aux_goto AUX_DATA_HASH_BUILDER_IN_CVOTE_REGISTRATION_PAYLOAD_DELEGATIONS]"

definition auxDataHashBuilder_cVoteRegistration_addDelegation ::
  "bytes \<Rightarrow> u32 \<Rightarrow> aux_data_hash_builder_t stmt" where
  "auxDataHashBuilder_cVoteRegistration_addDelegation votePubKey weight = seq
     [assert_that (\<lambda>_. length votePubKey < BUFFER_SIZE_PARANOIA),
      aux_in [AUX_DATA_HASH_BUILDER_IN_CVOTE_REGISTRATION_PAYLOAD_DELEGATIONS],
      assert_that (\<lambda>b. remainingDelegations b > 0),
      modify (\<lambda>b. b\<lparr>remainingDelegations := remainingDelegations b - 1\<rparr>),
      aux_append_cbor HC_BOTH CBOR_TYPE_ARRAY 2,
      assert_that (\<lambda>_. length votePubKey = PUBLIC_KEY_SIZE),
      aux_append_cbor HC_BOTH CBOR_TYPE_BYTES (word_of_nat (length votePubKey)),
      aux_append_data HC_BOTH votePubKey,
      aux_append_cbor HC_BOTH CBOR_TYPE_UNSIGNED (ucast weight)]"

definition auxDataHashBuilder_cVoteRegistration_addStakingKey ::
  "bytes \<Rightarrow> aux_data_hash_builder_t stmt" where
  "auxDataHashBuilder_cVoteRegistration_addStakingKey stakingPubKey = seq
     [assert_that (\<lambda>_. length stakingPubKey < BUFFER_SIZE_PARANOIA),
      assert_that (\<lambda>b. case auxState b of
          AUX_DATA_HASH_BUILDER_IN_CVOTE_REGISTRATION_PAYLOAD_VOTE_KEY \<Rightarrow> True
        | AUX_DATA_HASH_BUILDER_IN_CVOTE_REGISTRATION_PAYLOAD_DELEGATIONS \<Rightarrow>
            remainingDelegations b = 0
        | _ \<Rightarrow> False),
      aux_append_cbor HC_BOTH CBOR_TYPE_UNSIGNED CVOTE_REGISTRATION_PAYLOAD_KEY_STAKING_KEY,
      assert_that (\<lambda>_. length stakingPubKey = PUBLIC_KEY_SIZE),
      aux_append_cbor HC_BOTH CBOR_TYPE_BYTES (word_of_nat (length stakingPubKey)),
      aux_append_data HC_BOTH stakingPubKey,
      aux_goto AUX_DATA_HASH_BUILDER_IN_CVOTE_REGISTRATION_PAYLOAD_STAKING_KEY]"

definition auxDataHashBuilder_cVoteRegistration_addPaymentAddress ::
  "bytes \<Rightarrow> aux_data_hash_builder_t stmt" where
  "auxDataHashBuilder_cVoteRegistration_addPaymentAddress address = seq
     [assert_that (\<lambda>_. length address > 0),
      assert_that (\<lambda>_. length address < BUFFER_SIZE_PARANOIA),
      aux_in [AUX_DATA_HASH_BUILDER_IN_CVOTE_REGISTRATION_PAYLOAD_STAKING_KEY],
      aux_append_cbor HC_BOTH CBOR_TYPE_UNSIGNED CVOTE_REGISTRATION_PAYLOAD_PAYMENT_ADDRESS,
      aux_append_cbor HC_BOTH CBOR_TYPE_BYTES (word_of_nat (length address)),
      aux_append_data HC_BOTH address,
      aux_goto AUX_DATA_HASH_BUILDER_IN_CVOTE_REGISTRATION_PAYLOAD_PAYMENT_ADDRESS]"

definition auxDataHashBuilder_cVoteRegistration_addNonce ::
  "u64 \<Rightarrow> aux_data_hash_builder_t stmt" where
  "auxDataHashBuilder_cVoteRegistration_addNonce nonce = seq
     [aux_in [AUX_DATA_HASH_BUILDER_IN_CVOTE_REGISTRATION_PAYLOAD_PAYMENT_ADDRESS],
      aux_append_cbor HC_BOTH CBOR_TYPE_UNSIGNED CVOTE_REGISTRATION_PAYLOAD_KEY_NONCE,
      aux_append_cbor HC_BOTH CBOR_TYPE_UNSIGNED nonce,
      aux_goto AUX_DATA_HASH_BUILDER_IN_CVOTE_REGISTRATION_PAYLOAD_NONCE]"

definition auxDataHashBuilder_cVoteRegistration_addVotingPurpose ::
  "u64 \<Rightarrow> aux_data_hash_builder_t stmt" where
  "auxDataHashBuilder_cVoteRegistration_addVotingPurpose votingPurpose = seq
     [aux_in [AUX_DATA_HASH_BUILDER_IN_CVOTE_REGISTRATION_PAYLOAD_NONCE],
      aux_append_cbor HC_BOTH CBOR_TYPE_UNSIGNED CVOTE_REGISTRATION_PAYLOAD_VOTING_PURPOSE,
      aux_append_cbor HC_BOTH CBOR_TYPE_UNSIGNED votingPurpose,
      aux_goto AUX_DATA_HASH_BUILDER_IN_CVOTE_REGISTRATION_PAYLOAD_VOTING_PURPOSE]"

definition auxDataHashBuilder_cVoteRegistration_finalizePayload ::
  "(bytes \<Rightarrow> bytes option) \<Rightarrow> nat \<Rightarrow> aux_data_hash_builder_t \<Rightarrow> bytes res" where
  "auxDataHashBuilder_cVoteRegistration_finalizePayload blake2b_256 outSize b =
     (if \<not> outSize < BUFFER_SIZE_PARANOIA then Inl ERR_ASSERT
      else if \<not> (auxState b = AUX_DATA_HASH_BUILDER_IN_CVOTE_REGISTRATION_PAYLOAD_NONCE \<or>
        auxState b = AUX_DATA_HASH_BUILDER_IN_CVOTE_REGISTRATION_PAYLOAD_VOTING_PURPOSE)
      then Inl ERR_ASSERT
      else if outSize \<noteq> CVOTE_REGISTRATION_PAYLOAD_HASH_LENGTH then Inl ERR_ASSERT
      else blake2b_finalize blake2b_256 32 outSize (payloadHash b))"

definition auxDataHashBuilder_cVoteRegistration_addSignature ::
  "bytes \<Rightarrow> aux_data_hash_builder_t stmt" where
  "auxDataHashBuilder_cVoteRegistration_addSignature signature = seq
     [assert_that (\<lambda>_. length signature < BUFFER_SIZE_PARANOIA),
      aux_in [AUX_DATA_HASH_BUILDER_IN_CVOTE_REGISTRATION_PAYLOAD_NONCE,
        AUX_DATA_HASH_BUILDER_IN_CVOTE_REGISTRATION_PAYLOAD_VOTING_PURPOSE],
      aux_append_cbor HC_AUX_DATA CBOR_TYPE_UNSIGNED METADATA_KEY_CVOTE_REGISTRATION_SIGNATURE,
      assert_that (\<lambda>_. length signature = ED25519_SIGNATURE_LENGTH),
      aux_append_cbor HC_AUX_DATA CBOR_TYPE_MAP 1,
      aux_append_cbor HC_AUX_DATA CBOR_TYPE_UNSIGNED CVOTE_REGISTRATION_SIGNATURE_KEY,
      aux_append_cbor HC_AUX_DATA CBOR_TYPE_BYTES (word_of_nat (length signature)),
      aux_append_data HC_AUX_DATA signature,
      aux_goto AUX_DATA_HASH_BUILDER_IN_CVOTE_REGISTRATION_SIGNATURE]"

definition auxDataHashBuilder_cVoteRegistration_addAuxiliaryScripts ::
  "aux_data_hash_builder_t stmt" where
  "auxDataHashBuilder_cVoteRegistration_addAuxiliaryScripts = seq
     [aux_in [AUX_DATA_HASH_BUILDER_IN_CVOTE_REGISTRATION_SIGNATURE],
      aux_append_cbor HC_AUX_DATA CBOR_TYPE_ARRAY 0,
      aux_goto AUX_DATA_HASH_BUILDER_IN_AUXILIARY_SCRIPTS]"

definition auxDataHashBuilder_finalize ::
  "(bytes \<Rightarrow> bytes option) \<Rightarrow> nat \<Rightarrow> aux_data_hash_builder_t \<Rightarrow>
   (bytes \<times> aux_data_hash_builder_t) res" where
  "auxDataHashBuilder_finalize blake2b_256 outSize b =
     (if auxState b \<noteq> AUX_DATA_HASH_BUILDER_IN_AUXILIARY_SCRIPTS then Inl ERR_ASSERT
      else if outSize \<noteq> AUX_DATA_HASH_LENGTH then Inl ERR_ASSERT
      else res_bind (blake2b_finalize blake2b_256 32 outSize (auxDataHash b)) (\<lambda>out.
        Inr (out, b\<lparr>auxState := AUX_DATA_HASH_BUILDER_FINISHED\<rparr>)))"

subsection \<open>Programs of builder calls\<close>

datatype aux_op =
    AUX_ENTER cvote_registration_format_t
  | AUX_ENTER_PAYLOAD
  | AUX_VOTE_KEY bytes
  | AUX_ENTER_DELEGATIONS nat
  | AUX_DELEGATION bytes u32
  | AUX_STAKING_KEY bytes
  | AUX_PAYMENT_ADDRESS bytes
  | AUX_NONCE u64
  | AUX_VOTING_PURPOSE u64
  | AUX_SIGNATURE bytes
  | AUX_SCRIPTS

fun aux_exec :: "aux_op \<Rightarrow> aux_data_hash_builder_t stmt" where
  "aux_exec (AUX_ENTER f) = auxDataHashBuilder_cVoteRegistration_enter f"
| "aux_exec AUX_ENTER_PAYLOAD = auxDataHashBuilder_cVoteRegistration_enterPayload"
| "aux_exec (AUX_VOTE_KEY k) = auxDataHashBuilder_cVoteRegistration_addVoteKey k"
| "aux_exec (AUX_ENTER_DELEGATIONS n) = auxDataHashBuilder_cVoteRegistration_enterDelegations n"
| "aux_exec (AUX_DELEGATION k w) = auxDataHashBuilder_cVoteRegistration_addDelegation k w"
| "aux_exec (AUX_STAKING_KEY k) = auxDataHashBuilder_cVoteRegistration_addStakingKey k"
| "aux_exec (AUX_PAYMENT_ADDRESS a) = auxDataHashBuilder_cVoteRegistration_addPaymentAddress a"
| "aux_exec (AUX_NONCE n) = auxDataHashBuilder_cVoteRegistration_addNonce n"
| "aux_exec (AUX_VOTING_PURPOSE p) = auxDataHashBuilder_cVoteRegistration_addVotingPurpose p"
| "aux_exec (AUX_SIGNATURE s) = auxDataHashBuilder_cVoteRegistration_addSignature s"
| "aux_exec AUX_SCRIPTS = auxDataHashBuilder_cVoteRegistration_addAuxiliaryScripts"

definition aux_run :: "aux_op list \<Rightarrow> aux_data_hash_builder_t stmt" where
  "aux_run ops = seq (auxDataHashBuilder_init # map aux_exec ops)"

end
