(* ===== verification/AuxData.thy ===== *)
theory AuxData
  imports AuxDataHashBuilder
begin

text \<open>
  Properties of the auxiliary data builder: the payload that is signed is the payload that is
  hashed, both streams are CBOR, and every well-formed registration is accepted.
\<close>

subsection \<open>The builder as a sink\<close>

definition both_absorb :: "bytes \<Rightarrow> aux_data_hash_builder_t \<Rightarrow> aux_data_hash_builder_t" where
  "both_absorb bs b = b
     \<lparr>auxDataHash := (auxDataHash b)\<lparr>absorbed := absorbed (auxDataHash b) @ bs\<rparr>,
      payloadHash := (payloadHash b)\<lparr>absorbed := absorbed (payloadHash b) @ bs\<rparr>\<rparr>"

definition aux_absorb :: "bytes \<Rightarrow> aux_data_hash_builder_t \<Rightarrow> aux_data_hash_builder_t" where
  "aux_absorb bs b = b\<lparr>auxDataHash := (auxDataHash b)\<lparr>absorbed := absorbed (auxDataHash b) @ bs\<rparr>\<rparr>"

definition payload_absorb :: "bytes \<Rightarrow> aux_data_hash_builder_t \<Rightarrow> aux_data_hash_builder_t" where
  "payload_absorb bs b =
     b\<lparr>payloadHash := (payloadHash b)\<lparr>absorbed := absorbed (payloadHash b) @ bs\<rparr>\<rparr>"

abbreviation (input) aux_out :: "aux_data_hash_builder_t \<Rightarrow> bytes" where
  "aux_out b \<equiv> absorbed (auxDataHash b)"

abbreviation (input) payload_out :: "aux_data_hash_builder_t \<Rightarrow> bytes" where
  "payload_out b \<equiv> absorbed (payloadHash b)"

lemma both_fields [simp]:
  "aux_out (both_absorb bs b) = aux_out b @ bs" "payload_out (both_absorb bs b) = payload_out b @ bs"
  "cVoteFormat (both_absorb bs b) = cVoteFormat b" "auxState (both_absorb bs b) = auxState b"
  "remainingDelegations (both_absorb bs b) = remainingDelegations b"
  "initialized_magic (auxDataHash (both_absorb bs b)) = initialized_magic (auxDataHash b)"
  "initialized_magic (payloadHash (both_absorb bs b)) = initialized_magic (payloadHash b)"
  by (simp_all add: both_absorb_def)

lemma aux_fields [simp]:
  "aux_out (aux_absorb bs b) = aux_out b @ bs" "payload_out (aux_absorb bs b) = payload_out b"
  "cVoteFormat (aux_absorb bs b) = cVoteFormat b" "auxState (aux_absorb bs b) = auxState b"
  "initialized_magic (auxDataHash (aux_absorb bs b)) = initialized_magic (auxDataHash b)"
  "initialized_magic (payloadHash (aux_absorb bs b)) = initialized_magic (payloadHash b)"
  "aux_out (payload_absorb bs b) = aux_out b" "payload_out (payload_absorb bs b) = payload_out b @ bs"
  "cVoteFormat (payload_absorb bs b) = cVoteFormat b" "auxState (payload_absorb bs b) = auxState b"
  "initialized_magic (auxDataHash (payload_absorb bs b)) = initialized_magic (auxDataHash b)"
  "initialized_magic (payloadHash (payload_absorb bs b)) = initialized_magic (payloadHash b)"
  by (simp_all add: aux_absorb_def payload_absorb_def)

lemma both_cbor:
  "aux_append_cbor HC_BOTH t v b = Inr b' \<Longrightarrow>
   \<exists>bs. cbor_writeToken t v 10 = Inr bs \<and> b' = both_absorb bs b"
  by (auto simp: aux_append_cbor_def do_if_def on_aux_def on_payload_def blake2b_append_cbor_def
      res_bind_Inr_iff blake2b_append_Inr both_absorb_def)

lemma both_data: "aux_append_data HC_BOTH d b = Inr b' \<Longrightarrow> b' = both_absorb d b"
  by (auto simp: aux_append_data_def do_if_def on_aux_def on_payload_def
      blake2b_256_append_buffer_aux_data_def res_bind_Inr_iff blake2b_append_Inr both_absorb_def)

interpretation both: cbor_sink "\<lambda>b. absorbed (payloadHash b)" both_absorb
  "aux_append_cbor HC_BOTH" "aux_append_data HC_BOTH"
  by unfold_locales (auto dest: both_data both_cbor simp: both_absorb_def)

text \<open>The tokens that go to one context only.\<close>

lemma aux_cbor:
  "aux_append_cbor HC_AUX_DATA t v b = Inr b' \<Longrightarrow> b' = aux_absorb (tok t v) b"
  by (auto simp: aux_append_cbor_def do_if_def on_aux_def on_payload_def blake2b_append_cbor_def
      res_bind_Inr_iff blake2b_append_Inr aux_absorb_def tok_def)

lemma payload_cbor:
  "aux_append_cbor HC_CVOTE_REGISTRATION_PAYLOAD t v b = Inr b' \<Longrightarrow> b' = payload_absorb (tok t v) b"
  by (auto simp: aux_append_cbor_def do_if_def on_aux_def on_payload_def blake2b_append_cbor_def
      res_bind_Inr_iff blake2b_append_Inr payload_absorb_def tok_def)

lemma aux_data: "aux_append_data HC_AUX_DATA d b = Inr b' \<Longrightarrow> b' = aux_absorb d b"
  by (auto simp: aux_append_data_def do_if_def on_aux_def on_payload_def
      blake2b_256_append_buffer_aux_data_def res_bind_Inr_iff blake2b_append_Inr aux_absorb_def)

subsection \<open>What each call adds to the payload\<close>

lemma both_uint: "writes both_absorb (aux_append_cbor HC_BOTH CBOR_TYPE_UNSIGNED v) item_eff"
  by (rule writes_item, rule both.writes_head) auto

lemma both_bytes_head:
  "length d < BUFFER_SIZE_PARANOIA \<Longrightarrow>
   writes both_absorb (aux_append_cbor HC_BOTH CBOR_TYPE_BYTES (word_of_nat (length d)))
     (head_eff CBOR_TYPE_BYTES (length d))"
  using both.writes_head [of CBOR_TYPE_BYTES "word_of_nat (length d)"]
  by (simp add: word_of_nat_length)

lemma both_assert: "writes both_absorb (assert_that p) Some" "writes both_absorb (aux_in ss) Some"
  by (simp_all add: aux_in_def both.writes_assert)

lemmas both_steps = both_uint both_bytes_head both_assert both.writes_data

text \<open>One map entry of the payload: whatever is open, two items of it are gone.\<close>

definition entry :: "bytes \<Rightarrow> bool" where
  "entry bs \<longleftrightarrow> (\<forall>n s. read_stream (0, Suc (Suc n) # s) bs = Some (0, push n s))"

lemma both_writes:
  assumes "op = seq l" "op b = Inr b'" "last l = aux_goto t" "l \<noteq> []"
    and "list_all2 (writes both_absorb) (butlast l) gs"
  shows "\<exists>bs. b' = (both_absorb bs b)\<lparr>auxState := t\<rparr> \<and>
    (\<forall>e e'. effs gs e = Some e' \<longrightarrow> read_stream e bs = Some e')"
proof -
  have "seq (butlast l @ [aux_goto t]) b = Inr b'"
    using assms(1-4) append_butlast_last_id by metis
  then obtain c where c: "seq (butlast l) b = Inr c" "b' = c\<lparr>auxState := t\<rparr>"
    by (auto simp: seq_append res_bind_Inr_iff aux_goto_def)
  then show ?thesis
    using writesD [OF both.writes_seq [OF assms(5)] c(1)] by auto
qed

lemma both_reads:
  assumes "seq l b = Inr b'" "last l = aux_goto t" "l \<noteq> []"
    and "list_all2 (writes both_absorb) (butlast l) gs"
    and "\<And>n s. effs gs (0, f n s) = Some (0, g n s)"
  shows "\<exists>bs. b' = (both_absorb bs b)\<lparr>auxState := t\<rparr> \<and>
    (\<forall>n s. read_stream (0, f n s) bs = Some (0, g n s))"
  using both_writes [OF refl assms(1-4)] assms(5) by blast

lemma both_entry:
  assumes "op = seq l" "op b = Inr b'" "last l = aux_goto t" "l \<noteq> []"
    and "list_all2 (writes both_absorb) (butlast l) gs"
    and "\<And>n s. effs gs (0, Suc (Suc n) # s) = Some (0, push n s)"
  shows "\<exists>bs. b' = (both_absorb bs b)\<lparr>auxState := t\<rparr> \<and> entry bs"
  using both_writes [OF assms(1-5)] assms(6) unfolding entry_def by blast

lemma addVoteKey_entry:
  assumes "auxDataHashBuilder_cVoteRegistration_addVoteKey k b = Inr b'"
  shows "auxState b = AUX_DATA_HASH_BUILDER_IN_CVOTE_REGISTRATION_PAYLOAD_INIT"
    "\<exists>bs. b' = (both_absorb bs b)
      \<lparr>auxState := AUX_DATA_HASH_BUILDER_IN_CVOTE_REGISTRATION_PAYLOAD_VOTE_KEY\<rparr> \<and> entry bs"
proof -
  have st: "auxState b = AUX_DATA_HASH_BUILDER_IN_CVOTE_REGISTRATION_PAYLOAD_INIT \<and> length k < 1024"
    using assms by (auto simp: auxDataHashBuilder_cVoteRegistration_addVoteKey_def aux_in_def
        res_bind_Inr_iff)
  then show "auxState b = AUX_DATA_HASH_BUILDER_IN_CVOTE_REGISTRATION_PAYLOAD_INIT"
    by simp
  show "\<exists>bs. b' = (both_absorb bs b)
      \<lparr>auxState := AUX_DATA_HASH_BUILDER_IN_CVOTE_REGISTRATION_PAYLOAD_VOTE_KEY\<rparr> \<and> entry bs"
    by (rule both_entry [OF auxDataHashBuilder_cVoteRegistration_addVoteKey_def assms,
        where gs = "[Some, Some, item_eff, Some, head_eff CBOR_TYPE_BYTES (length k), data_eff (length k)]"])
      (use st in \<open>simp_all add: both_steps\<close>)
qed

lemma addStakingKey_entry:
  assumes "auxDataHashBuilder_cVoteRegistration_addStakingKey k b = Inr b'"
  shows "(auxState b = AUX_DATA_HASH_BUILDER_IN_CVOTE_REGISTRATION_PAYLOAD_VOTE_KEY \<or>
    auxState b = AUX_DATA_HASH_BUILDER_IN_CVOTE_REGISTRATION_PAYLOAD_DELEGATIONS \<and>
    remainingDelegations b = 0)"
    "\<exists>bs. b' = (both_absorb bs b)
      \<lparr>auxState := AUX_DATA_HASH_BUILDER_IN_CVOTE_REGISTRATION_PAYLOAD_STAKING_KEY\<rparr> \<and> entry bs"
proof -
  have st: "(auxState b = AUX_DATA_HASH_BUILDER_IN_CVOTE_REGISTRATION_PAYLOAD_VOTE_KEY \<or>
    auxState b = AUX_DATA_HASH_BUILDER_IN_CVOTE_REGISTRATION_PAYLOAD_DELEGATIONS \<and>
    remainingDelegations b = 0) \<and> length k < 1024"
    using assms by (auto simp: auxDataHashBuilder_cVoteRegistration_addStakingKey_def aux_in_def
        res_bind_Inr_iff split: aux_data_hash_builder_state_t.splits)
  then show "(auxState b = AUX_DATA_HASH_BUILDER_IN_CVOTE_REGISTRATION_PAYLOAD_VOTE_KEY \<or>
    auxState b = AUX_DATA_HASH_BUILDER_IN_CVOTE_REGISTRATION_PAYLOAD_DELEGATIONS \<and>
    remainingDelegations b = 0)"
    by simp
  show "\<exists>bs. b' = (both_absorb bs b)
      \<lparr>auxState := AUX_DATA_HASH_BUILDER_IN_CVOTE_REGISTRATION_PAYLOAD_STAKING_KEY\<rparr> \<and> entry bs"
    by (rule both_entry [OF auxDataHashBuilder_cVoteRegistration_addStakingKey_def assms,
        where gs = "[Some, Some, item_eff, Some, head_eff CBOR_TYPE_BYTES (length k), data_eff (length k)]"])
      (use st in \<open>simp_all add: both_steps\<close>)
qed

lemma addPaymentAddress_entry:
  assumes "auxDataHashBuilder_cVoteRegistration_addPaymentAddress k b = Inr b'"
  shows "auxState b = AUX_DATA_HASH_BUILDER_IN_CVOTE_REGISTRATION_PAYLOAD_STAKING_KEY"
    "\<exists>bs. b' = (both_absorb bs b)
      \<lparr>auxState := AUX_DATA_HASH_BUILDER_IN_CVOTE_REGISTRATION_PAYLOAD_PAYMENT_ADDRESS\<rparr> \<and> entry bs"
proof -
  have st: "auxState b = AUX_DATA_HASH_BUILDER_IN_CVOTE_REGISTRATION_PAYLOAD_STAKING_KEY \<and> length k < 1024"
    using assms by (auto simp: auxDataHashBuilder_cVoteRegistration_addPaymentAddress_def aux_in_def
        res_bind_Inr_iff)
  then show "auxState b = AUX_DATA_HASH_BUILDER_IN_CVOTE_REGISTRATION_PAYLOAD_STAKING_KEY"
    by simp
  show "\<exists>bs. b' = (both_absorb bs b)
      \<lparr>auxState := AUX_DATA_HASH_BUILDER_IN_CVOTE_REGISTRATION_PAYLOAD_PAYMENT_ADDRESS\<rparr> \<and> entry bs"
    by (rule both_entry [OF auxDataHashBuilder_cVoteRegistration_addPaymentAddress_def assms,
        where gs = "[Some, Some, Some, item_eff, head_eff CBOR_TYPE_BYTES (length k), data_eff (length k)]"])
      (use st in \<open>simp_all add: both_steps\<close>)
qed

lemma addNonce_entry:
  assumes "auxDataHashBuilder_cVoteRegistration_addNonce v b = Inr b'"
  shows "auxState b = AUX_DATA_HASH_BUILDER_IN_CVOTE_REGISTRATION_PAYLOAD_PAYMENT_ADDRESS"
    "\<exists>bs. b' = (both_absorb bs b)
      \<lparr>auxState := AUX_DATA_HASH_BUILDER_IN_CVOTE_REGISTRATION_PAYLOAD_NONCE\<rparr> \<and> entry bs"
proof -
  have st: "auxState b = AUX_DATA_HASH_BUILDER_IN_CVOTE_REGISTRATION_PAYLOAD_PAYMENT_ADDRESS"
    using assms by (auto simp: auxDataHashBuilder_cVoteRegistration_addNonce_def aux_in_def
        res_bind_Inr_iff)
  then show "auxState b = AUX_DATA_HASH_BUILDER_IN_CVOTE_REGISTRATION_PAYLOAD_PAYMENT_ADDRESS"
    by simp
  show "\<exists>bs. b' = (both_absorb bs b)
      \<lparr>auxState := AUX_DATA_HASH_BUILDER_IN_CVOTE_REGISTRATION_PAYLOAD_NONCE\<rparr> \<and> entry bs"
    by (rule both_entry [OF auxDataHashBuilder_cVoteRegistration_addNonce_def assms,
        where gs = "[Some, item_eff, item_eff]"])
      (use st in \<open>simp_all add: both_steps\<close>)
qed

lemma addVotingPurpose_entry:
  assumes "auxDataHashBuilder_cVoteRegistration_addVotingPurpose v b = Inr b'"
  shows "auxState b = AUX_DATA_HASH_BUILDER_IN_CVOTE_REGISTRATION_PAYLOAD_NONCE"
    "\<exists>bs. b' = (both_absorb bs b)
      \<lparr>auxState := AUX_DATA_HASH_BUILDER_IN_CVOTE_REGISTRATION_PAYLOAD_VOTING_PURPOSE\<rparr> \<and> entry bs"
proof -
  have st: "auxState b = AUX_DATA_HASH_BUILDER_IN_CVOTE_REGISTRATION_PAYLOAD_NONCE"
    using assms by (auto simp: auxDataHashBuilder_cVoteRegistration_addVotingPurpose_def aux_in_def
        res_bind_Inr_iff)
  then show "auxState b = AUX_DATA_HASH_BUILDER_IN_CVOTE_REGISTRATION_PAYLOAD_NONCE"
    by simp
  show "\<exists>bs. b' = (both_absorb bs b)
      \<lparr>auxState := AUX_DATA_HASH_BUILDER_IN_CVOTE_REGISTRATION_PAYLOAD_VOTING_PURPOSE\<rparr> \<and> entry bs"
    by (rule both_entry [OF auxDataHashBuilder_cVoteRegistration_addVotingPurpose_def assms,
        where gs = "[Some, item_eff, item_eff]"])
      (use st in \<open>simp_all add: both_steps\<close>)
qed

lemma enterPayload_opens:
  assumes "auxDataHashBuilder_cVoteRegistration_enterPayload b = Inr b'"
  shows "auxState b = AUX_DATA_HASH_BUILDER_IN_CVOTE_REGISTRATION_INIT"
    "\<exists>bs. b' = (both_absorb bs b)
      \<lparr>auxState := AUX_DATA_HASH_BUILDER_IN_CVOTE_REGISTRATION_PAYLOAD_INIT\<rparr> \<and>
      (\<forall>n s. read_stream (0, Suc (Suc n) # s) bs =
        Some (0, (if cVoteFormat b = CIP36 then 10 else 8) # push n s))"
proof -
  let ?v = "if cVoteFormat b = CIP36 then 5 else 4 :: u64"
  let ?l = "[aux_in [AUX_DATA_HASH_BUILDER_IN_CVOTE_REGISTRATION_INIT],
      aux_append_cbor HC_BOTH CBOR_TYPE_UNSIGNED METADATA_KEY_CVOTE_REGISTRATION_PAYLOAD,
      aux_append_cbor HC_BOTH CBOR_TYPE_MAP ?v,
      aux_goto AUX_DATA_HASH_BUILDER_IN_CVOTE_REGISTRATION_PAYLOAD_INIT]"
  show "auxState b = AUX_DATA_HASH_BUILDER_IN_CVOTE_REGISTRATION_INIT"
    using assms by (auto simp: auxDataHashBuilder_cVoteRegistration_enterPayload_def aux_in_def
        res_bind_Inr_iff)
  have "seq ?l b = Inr b'"
    using assms both_cbor [of CBOR_TYPE_UNSIGNED METADATA_KEY_CVOTE_REGISTRATION_PAYLOAD b]
    by (auto simp: auxDataHashBuilder_cVoteRegistration_enterPayload_def aux_in_def res_bind_Inr_iff)
  then show "\<exists>bs. b' = (both_absorb bs b)
      \<lparr>auxState := AUX_DATA_HASH_BUILDER_IN_CVOTE_REGISTRATION_PAYLOAD_INIT\<rparr> \<and>
      (\<forall>n s. read_stream (0, Suc (Suc n) # s) bs =
        Some (0, (if cVoteFormat b = CIP36 then 10 else 8) # push n s))"
    by (rule both_reads [where gs = "[Some, item_eff, head_eff CBOR_TYPE_MAP (unat ?v)]"])
      (simp_all add: both_steps both.writes_head del: unat_numeral if_split)
qed

lemma enterDelegations_opens:
  assumes "auxDataHashBuilder_cVoteRegistration_enterDelegations d b = Inr b'"
  shows "auxState b = AUX_DATA_HASH_BUILDER_IN_CVOTE_REGISTRATION_PAYLOAD_INIT"
    "\<exists>bs. b' = (both_absorb bs b)\<lparr>remainingDelegations := word_of_nat d,
      auxState := AUX_DATA_HASH_BUILDER_IN_CVOTE_REGISTRATION_PAYLOAD_DELEGATIONS\<rparr> \<and>
      (\<forall>n s. read_stream (0, Suc (Suc n) # s) bs =
        Some (0, push (unat (word_of_nat d :: u64)) (push n s)))"
proof -
  let ?l = "[aux_in [AUX_DATA_HASH_BUILDER_IN_CVOTE_REGISTRATION_PAYLOAD_INIT],
      aux_append_cbor HC_BOTH CBOR_TYPE_UNSIGNED CVOTE_REGISTRATION_PAYLOAD_KEY_VOTE_KEY,
      aux_append_cbor HC_BOTH CBOR_TYPE_ARRAY (word_of_nat d),
      aux_goto AUX_DATA_HASH_BUILDER_IN_CVOTE_REGISTRATION_PAYLOAD_DELEGATIONS]"
  let ?g = "[Some, item_eff, head_eff CBOR_TYPE_ARRAY (unat (word_of_nat d :: u64))]"
  show "auxState b = AUX_DATA_HASH_BUILDER_IN_CVOTE_REGISTRATION_PAYLOAD_INIT"
    using assms by (auto simp: auxDataHashBuilder_cVoteRegistration_enterDelegations_def aux_in_def
        res_bind_Inr_iff)
  have "seq ?l (b\<lparr>remainingDelegations := word_of_nat d\<rparr>) = Inr b'"
    using assms by (simp add: auxDataHashBuilder_cVoteRegistration_enterDelegations_def modify_def)
  then have "\<exists>bs. b' = (both_absorb bs (b\<lparr>remainingDelegations := word_of_nat d\<rparr>))
      \<lparr>auxState := AUX_DATA_HASH_BUILDER_IN_CVOTE_REGISTRATION_PAYLOAD_DELEGATIONS\<rparr> \<and>
      (\<forall>n s. read_stream (0, Suc (Suc n) # s) bs =
        Some (0, push (unat (word_of_nat d :: u64)) (push n s)))"
    by (rule both_reads [where gs = ?g]) (simp_all add: both_steps both.writes_head)
  then obtain bs where "b' = (both_absorb bs (b\<lparr>remainingDelegations := word_of_nat d\<rparr>))
      \<lparr>auxState := AUX_DATA_HASH_BUILDER_IN_CVOTE_REGISTRATION_PAYLOAD_DELEGATIONS\<rparr>"
    "\<And>n s. read_stream (0, Suc (Suc n) # s) bs =
        Some (0, push (unat (word_of_nat d :: u64)) (push n s))" by blast
  then show "\<exists>bs. b' = (both_absorb bs b)\<lparr>remainingDelegations := word_of_nat d,
      auxState := AUX_DATA_HASH_BUILDER_IN_CVOTE_REGISTRATION_PAYLOAD_DELEGATIONS\<rparr> \<and>
      (\<forall>n s. read_stream (0, Suc (Suc n) # s) bs =
        Some (0, push (unat (word_of_nat d :: u64)) (push n s)))"
    by (intro exI [of _ bs]) (auto simp: both_absorb_def)
qed

lemma addDelegation_adds:
  assumes "auxDataHashBuilder_cVoteRegistration_addDelegation k w b = Inr b'"
  shows "auxState b = AUX_DATA_HASH_BUILDER_IN_CVOTE_REGISTRATION_PAYLOAD_DELEGATIONS"
    "0 < remainingDelegations b"
    "\<exists>bs. b' = (both_absorb bs b)\<lparr>remainingDelegations := remainingDelegations b - 1\<rparr> \<and>
      (\<forall>n s. read_stream (0, Suc n # s) bs = Some (0, push n s))"
proof -
  let ?l = "[aux_append_cbor HC_BOTH CBOR_TYPE_ARRAY 2, assert_that (\<lambda>_. length k = PUBLIC_KEY_SIZE),
      aux_append_cbor HC_BOTH CBOR_TYPE_BYTES (word_of_nat (length k)),
      aux_append_data HC_BOTH k, aux_append_cbor HC_BOTH CBOR_TYPE_UNSIGNED (ucast w)]"
  let ?g = "[head_eff CBOR_TYPE_ARRAY 2, Some, head_eff CBOR_TYPE_BYTES (length k), data_eff (length k),
      item_eff]"
  let ?b = "b\<lparr>remainingDelegations := remainingDelegations b - 1\<rparr>"
  have st: "length k < 1024" "auxState b = AUX_DATA_HASH_BUILDER_IN_CVOTE_REGISTRATION_PAYLOAD_DELEGATIONS"
    "0 < remainingDelegations b"
    using assms by (auto simp: auxDataHashBuilder_cVoteRegistration_addDelegation_def aux_in_def
        res_bind_Inr_iff)
  then show "auxState b = AUX_DATA_HASH_BUILDER_IN_CVOTE_REGISTRATION_PAYLOAD_DELEGATIONS"
    "0 < remainingDelegations b" by simp_all
  have "seq ?l ?b = Inr b'"
    using assms st by (simp add: auxDataHashBuilder_cVoteRegistration_addDelegation_def modify_def
        assert_that_def aux_in_def)
  moreover have "list_all2 (writes both_absorb) ?l ?g"
    using st both.writes_head [of CBOR_TYPE_ARRAY 2] by (simp add: both_steps)
  ultimately obtain bs where bs: "b' = both_absorb bs ?b"
    "\<forall>e e'. effs ?g e = Some e' \<longrightarrow> read_stream e bs = Some e'"
    using writesD [OF both.writes_seq [of ?l ?g], of ?b b'] by blast
  have "effs ?g (0, Suc n # s) = Some (0, push n s)" for n s
    by simp
  then have "read_stream (0, Suc n # s) bs = Some (0, push n s)" for n s
    using bs(2) by blast
  with bs(1) show "\<exists>bs. b' = (both_absorb bs b)\<lparr>remainingDelegations := remainingDelegations b - 1\<rparr> \<and>
      (\<forall>n s. read_stream (0, Suc n # s) bs = Some (0, push n s))"
    by (intro exI [of _ bs]) (auto simp: both_absorb_def)
qed

subsection \<open>The two streams\<close>

definition aux_head :: bytes where
  "aux_head = tok CBOR_TYPE_ARRAY 2 @ tok CBOR_TYPE_MAP 2"

definition signature_part :: "bytes \<Rightarrow> bytes" where
  "signature_part sig = tok CBOR_TYPE_UNSIGNED METADATA_KEY_CVOTE_REGISTRATION_SIGNATURE @
     tok CBOR_TYPE_MAP 1 @ tok CBOR_TYPE_UNSIGNED CVOTE_REGISTRATION_SIGNATURE_KEY @
     tok CBOR_TYPE_BYTES 64 @ sig"

text \<open>
  \<open>opens P E\<close>: reading the payload's map entry \<open>P\<close> leaves \<open>E\<close> open on top of what was open.
  \<open>shares\<close>: the auxiliary data stream contains the payload stream's entry, followed by \<open>R\<close>.
\<close>

definition opens :: "bytes \<Rightarrow> nat list \<Rightarrow> bool" where
  "opens P E \<longleftrightarrow> (\<forall>n s. read_stream (0, Suc (Suc n) # s) P = Some (0, E @ push n s))"

definition shares :: "bool \<Rightarrow> nat list \<Rightarrow> bytes \<Rightarrow> aux_data_hash_builder_t \<Rightarrow> bool" where
  "shares k E R b \<longleftrightarrow> (\<exists>P. absorbed (payloadHash b) = tok CBOR_TYPE_MAP 1 @ P \<and>
     absorbed (auxDataHash b) = aux_head @ P @ R \<and> (k \<longrightarrow> opens P E))"

definition fields_left :: "aux_data_hash_builder_t \<Rightarrow> nat \<Rightarrow> nat list" where
  "fields_left b done = push ((if cVoteFormat b = CIP36 then 10 else 8) - 2 * done) []"

text \<open>
  The invariant. \<open>k\<close>: the announced numbers of delegations fit the counter; \<open>p\<close>: a voting
  purpose has been added.
\<close>

definition aux_inv :: "bool \<Rightarrow> bool \<Rightarrow> aux_data_hash_builder_t \<Rightarrow> bool" where
  "aux_inv k p b \<longleftrightarrow> (case auxState b of
     AUX_DATA_HASH_BUILDER_INIT \<Rightarrow> \<not> p \<and> absorbed (payloadHash b) = [] \<and>
       absorbed (auxDataHash b) = tok CBOR_TYPE_ARRAY 2
   | AUX_DATA_HASH_BUILDER_IN_CVOTE_REGISTRATION_INIT \<Rightarrow> \<not> p \<and>
       absorbed (payloadHash b) = tok CBOR_TYPE_MAP 1 \<and> absorbed (auxDataHash b) = aux_head
   | AUX_DATA_HASH_BUILDER_IN_CVOTE_REGISTRATION_PAYLOAD_INIT \<Rightarrow>
       \<not> p \<and> shares k (fields_left b 0) [] b
   | AUX_DATA_HASH_BUILDER_IN_CVOTE_REGISTRATION_PAYLOAD_VOTE_KEY \<Rightarrow>
       \<not> p \<and> shares k (fields_left b 1) [] b
   | AUX_DATA_HASH_BUILDER_IN_CVOTE_REGISTRATION_PAYLOAD_DELEGATIONS \<Rightarrow>
       \<not> p \<and> shares k (push (unat (remainingDelegations b)) (fields_left b 1)) [] b
   | AUX_DATA_HASH_BUILDER_IN_CVOTE_REGISTRATION_PAYLOAD_STAKING_KEY \<Rightarrow>
       \<not> p \<and> shares k (fields_left b 2) [] b
   | AUX_DATA_HASH_BUILDER_IN_CVOTE_REGISTRATION_PAYLOAD_PAYMENT_ADDRESS \<Rightarrow>
       \<not> p \<and> shares k (fields_left b 3) [] b
   | AUX_DATA_HASH_BUILDER_IN_CVOTE_REGISTRATION_PAYLOAD_NONCE \<Rightarrow>
       \<not> p \<and> shares k (fields_left b 4) [] b
   | AUX_DATA_HASH_BUILDER_IN_CVOTE_REGISTRATION_PAYLOAD_VOTING_PURPOSE \<Rightarrow>
       p \<and> shares (k \<and> cVoteFormat b = CIP36) [] [] b
   | AUX_DATA_HASH_BUILDER_IN_CVOTE_REGISTRATION_SIGNATURE \<Rightarrow>
       (\<exists>sig. length sig = 64 \<and> shares (k \<and> (cVoteFormat b = CIP36) = p) [] (signature_part sig) b)
   | AUX_DATA_HASH_BUILDER_IN_AUXILIARY_SCRIPTS \<Rightarrow>
       (\<exists>sig. length sig = 64 \<and> shares (k \<and> (cVoteFormat b = CIP36) = p) []
         (signature_part sig @ tok CBOR_TYPE_ARRAY 0) b)
   | AUX_DATA_HASH_BUILDER_FINISHED \<Rightarrow> False)"

lemma push_append: "push n xs @ ys = push n (xs @ ys)"
  by (simp add: push_def)

lemma opens_entry: "opens P (push (Suc (Suc n)) []) \<Longrightarrow> entry bs \<Longrightarrow> opens (P @ bs) (push n [])"
  by (simp add: opens_def entry_def read_stream_append push_append)

lemma shares_grow:
  assumes "shares k E [] b" "k' \<longrightarrow> k" "\<And>P. k' \<Longrightarrow> opens P E \<Longrightarrow> opens (P @ bs) E'"
    and "b' = both_absorb bs b"
  shows "shares k' E' [] b'"
proof -
  obtain P where "absorbed (payloadHash b) = tok CBOR_TYPE_MAP 1 @ P"
    "absorbed (auxDataHash b) = aux_head @ P" "k \<longrightarrow> opens P E"
    using assms(1) by (auto simp: shares_def)
  then show ?thesis
    using assms unfolding shares_def by (intro exI [of _ "P @ bs"]) auto
qed

lemma shares_update [simp]:
  "shares k E R (b\<lparr>auxState := s\<rparr>) = shares k E R b"
  "shares k E R (b\<lparr>remainingDelegations := r\<rparr>) = shares k E R b"
  by (simp_all add: shares_def)

lemma fields_left_simps [simp]:
  "fields_left (b\<lparr>auxState := s\<rparr>) d = fields_left b d"
  "fields_left (b\<lparr>remainingDelegations := r\<rparr>) d = fields_left b d"
  "fields_left (both_absorb bs b) d = fields_left b d"
  by (simp_all add: fields_left_def)

text \<open>A map entry takes one field off what the payload lacks.\<close>

lemma fields_left_Suc:
  assumes "d < 4"
  shows "\<exists>n. fields_left b d = [Suc (Suc n)] \<and> fields_left b (Suc d) = push n []"
proof -
  let ?n = "(if cVoteFormat b = CIP36 then 10 else 8) - 2 * Suc d"
  have "(if cVoteFormat b = CIP36 then 10 else 8) - 2 * d = Suc (Suc ?n)"
    using assms by auto
  then show ?thesis
    unfolding fields_left_def by (metis push_simps(2))
qed

lemma shares_entry:
  assumes "shares k (fields_left b d) [] b" "entry bs" "d < 4"
  shows "shares k (fields_left b (Suc d)) [] (both_absorb bs b)"
proof (rule shares_grow [OF assms(1)])
  fix P
  show "opens P (fields_left b d) \<Longrightarrow> opens (P @ bs) (fields_left b (Suc d))"
    using opens_entry [OF _ assms(2)] fields_left_Suc [OF assms(3), of b] by fastforce
qed auto

lemma shares_purpose:
  assumes "shares k (fields_left b 4) [] b" "entry bs"
  shows "shares (k \<and> cVoteFormat b = CIP36) [] [] (both_absorb bs b)"
proof (rule shares_grow [OF assms(1)])
  fix P
  assume "k \<and> cVoteFormat b = CIP36" "opens P (fields_left b 4)"
  then have "opens P (push (Suc (Suc 0)) [])"
    by (simp add: fields_left_def push_def numeral_2_eq_2)
  from opens_entry [OF this assms(2)] show "opens (P @ bs) []"
    by simp
qed auto

subsection \<open>Every call keeps the invariant\<close>

definition counts_fit :: "aux_op \<Rightarrow> bool" where
  "counts_fit op = (case op of AUX_ENTER_DELEGATIONS n \<Rightarrow> n < 65536 | _ \<Rightarrow> True)"

definition is_purpose :: "aux_op \<Rightarrow> bool" where
  "is_purpose op = (case op of AUX_VOTING_PURPOSE _ \<Rightarrow> True | _ \<Rightarrow> False)"

lemma inv_enterPayload:
  assumes "aux_inv k p b" "auxDataHashBuilder_cVoteRegistration_enterPayload b = Inr b'"
  shows "aux_inv k p b'"
proof -
  obtain bs where b': "b' = (both_absorb bs b)
      \<lparr>auxState := AUX_DATA_HASH_BUILDER_IN_CVOTE_REGISTRATION_PAYLOAD_INIT\<rparr>"
    and r: "\<forall>n s. read_stream (0, Suc (Suc n) # s) bs =
        Some (0, (if cVoteFormat b = CIP36 then 10 else 8) # push n s)"
    using enterPayload_opens(2) [OF assms(2)] by blast
  have "opens bs (fields_left b 0)"
    using r by (simp add: opens_def fields_left_def push_def)
  then show ?thesis
    using assms(1) enterPayload_opens(1) [OF assms(2)]
    by (simp add: aux_inv_def b' shares_def)
qed

lemma inv_enterDelegations:
  assumes "aux_inv k p b" "auxDataHashBuilder_cVoteRegistration_enterDelegations d b = Inr b'"
  shows "aux_inv (k \<and> d < 65536) p b'"
proof -
  obtain bs where b': "b' = (both_absorb bs b)\<lparr>remainingDelegations := word_of_nat d,
      auxState := AUX_DATA_HASH_BUILDER_IN_CVOTE_REGISTRATION_PAYLOAD_DELEGATIONS\<rparr>"
    and r: "\<forall>n s. read_stream (0, Suc (Suc n) # s) bs =
        Some (0, push (unat (word_of_nat d :: u64)) (push n s))"
    using enterDelegations_opens(2) [OF assms(2)] by blast
  have inv: "\<not> p" "shares k (fields_left b 0) [] b"
    using assms(1) enterDelegations_opens(1) [OF assms(2)] by (simp_all add: aux_inv_def)
  have "shares (k \<and> d < 65536) (push (unat (word_of_nat d :: u16)) (fields_left b 1)) [] (both_absorb bs b)"
  proof (rule shares_grow [OF inv(2)])
    fix P
    assume a: "k \<and> d < 65536" "opens P (fields_left b 0)"
    have "unat (word_of_nat d :: u16) = d" "unat (word_of_nat d :: u64) = d"
      using a(1) by (simp_all add: unat_of_nat take_bit_nat_eq_self_iff)
    moreover obtain m where "fields_left b 0 = [Suc (Suc m)]" "fields_left b 1 = push m []"
      using fields_left_Suc [of 0 b] by auto
    ultimately show "opens (P @ bs) (push (unat (word_of_nat d :: u16)) (fields_left b 1))"
      using r a(2) by (simp add: opens_def read_stream_append push_append)
  qed auto
  then show ?thesis
    using inv(1) by (simp add: aux_inv_def b')
qed

lemma inv_addDelegation:
  assumes "aux_inv k p b" "auxDataHashBuilder_cVoteRegistration_addDelegation key w b = Inr b'"
  shows "aux_inv k p b'"
proof -
  obtain bs where b': "b' = (both_absorb bs b)\<lparr>remainingDelegations := remainingDelegations b - 1\<rparr>"
    and r: "\<forall>n s. read_stream (0, Suc n # s) bs = Some (0, push n s)"
    using addDelegation_adds(3) [OF assms(2)] by blast
  have st: "auxState b = AUX_DATA_HASH_BUILDER_IN_CVOTE_REGISTRATION_PAYLOAD_DELEGATIONS"
    using addDelegation_adds(1) [OF assms(2)] .
  then have inv: "\<not> p" "shares k (push (unat (remainingDelegations b)) (fields_left b 1)) [] b"
    using assms(1) by (simp_all add: aux_inv_def)
  define m where "m = unat (remainingDelegations b - 1)"
  have "0 < unat (remainingDelegations b)"
    using addDelegation_adds(2) [OF assms(2)] unat_pos by blast
  then have m: "unat (remainingDelegations b) = Suc m" "unat (remainingDelegations b - 1) = m"
    using unat_pred [OF addDelegation_adds(2) [OF assms(2)]] by (simp_all add: m_def)
  have "shares k (push m (fields_left b 1)) [] (both_absorb bs b)"
  proof (rule shares_grow [OF inv(2)])
    fix P
    assume "opens P (push (unat (remainingDelegations b)) (fields_left b 1))"
    then show "opens (P @ bs) (push m (fields_left b 1))"
      using r unfolding m(1) by (simp add: opens_def read_stream_append push_append)
  qed auto
  then have "shares k (push (unat (remainingDelegations b - 1)) (fields_left b 1)) [] (both_absorb bs b)"
    by (simp only: m(2))
  with inv(1) st show ?thesis
    by (simp add: aux_inv_def b')
qed

lemma inv_enter:
  assumes "aux_inv k p b" "auxDataHashBuilder_cVoteRegistration_enter f b = Inr b'"
  shows "aux_inv k p b'"
proof -
  have st: "auxState b = AUX_DATA_HASH_BUILDER_INIT"
    and "b' = (payload_absorb (tok CBOR_TYPE_MAP 1) (aux_absorb (tok CBOR_TYPE_MAP 2) (b\<lparr>cVoteFormat := f\<rparr>)))
      \<lparr>auxState := AUX_DATA_HASH_BUILDER_IN_CVOTE_REGISTRATION_INIT\<rparr>"
    using assms(2) by (auto simp: auxDataHashBuilder_cVoteRegistration_enter_def aux_in_def
        aux_goto_def res_bind_Inr_iff dest!: aux_cbor payload_cbor)
  then show ?thesis
    using assms(1) by (simp add: aux_inv_def aux_head_def)
qed

lemma inv_addSignature:
  assumes "aux_inv k p b" "auxDataHashBuilder_cVoteRegistration_addSignature sig b = Inr b'"
  shows "aux_inv k p b' \<and> length sig = 64 \<and> cVoteFormat b' = cVoteFormat b \<and>
    absorbed (auxDataHash b') = absorbed (auxDataHash b) @ signature_part sig"
proof -
  have st: "auxState b = AUX_DATA_HASH_BUILDER_IN_CVOTE_REGISTRATION_PAYLOAD_NONCE \<or>
      auxState b = AUX_DATA_HASH_BUILDER_IN_CVOTE_REGISTRATION_PAYLOAD_VOTING_PURPOSE"
    and l: "length sig = 64"
    using assms(2) by (auto simp: auxDataHashBuilder_cVoteRegistration_addSignature_def aux_in_def
        res_bind_Inr_iff)
  have b': "b' = (aux_absorb sig (aux_absorb (tok CBOR_TYPE_BYTES 64)
      (aux_absorb (tok CBOR_TYPE_UNSIGNED CVOTE_REGISTRATION_SIGNATURE_KEY)
      (aux_absorb (tok CBOR_TYPE_MAP 1)
      (aux_absorb (tok CBOR_TYPE_UNSIGNED METADATA_KEY_CVOTE_REGISTRATION_SIGNATURE) b)))))
      \<lparr>auxState := AUX_DATA_HASH_BUILDER_IN_CVOTE_REGISTRATION_SIGNATURE\<rparr>"
    using assms(2) l by (auto simp: auxDataHashBuilder_cVoteRegistration_addSignature_def aux_in_def
        aux_goto_def res_bind_Inr_iff dest!: aux_cbor aux_data)
  have "shares (k \<and> (cVoteFormat b = CIP36) = p) [] [] b"
    using st assms(1) by (elim disjE) (auto simp: aux_inv_def shares_def fields_left_def)
  then have "shares (k \<and> (cVoteFormat b = CIP36) = p) [] (signature_part sig) b'"
    by (auto simp: shares_def b' signature_part_def)
  then show ?thesis
    using l by (auto simp: aux_inv_def b' signature_part_def)
qed

lemma inv_addAuxiliaryScripts:
  assumes "aux_inv k p b" "auxDataHashBuilder_cVoteRegistration_addAuxiliaryScripts b = Inr b'"
  shows "aux_inv k p b' \<and>
    absorbed (auxDataHash b') = absorbed (auxDataHash b) @ tok CBOR_TYPE_ARRAY 0"
proof -
  have st: "auxState b = AUX_DATA_HASH_BUILDER_IN_CVOTE_REGISTRATION_SIGNATURE"
    and b': "b' = (aux_absorb (tok CBOR_TYPE_ARRAY 0) b)
      \<lparr>auxState := AUX_DATA_HASH_BUILDER_IN_AUXILIARY_SCRIPTS\<rparr>"
    using assms(2) by (auto simp: auxDataHashBuilder_cVoteRegistration_addAuxiliaryScripts_def
        aux_in_def aux_goto_def res_bind_Inr_iff dest!: aux_cbor)
  show ?thesis
    using assms(1) st by (auto simp: aux_inv_def b' shares_def)
qed

lemma inv_exec:
  assumes "aux_inv k p b" "aux_exec op b = Inr b'"
  shows "aux_inv (k \<and> counts_fit op) (p \<or> is_purpose op) b'"
proof (cases op)
  case (AUX_ENTER_DELEGATIONS n)
  with assms show ?thesis using inv_enterDelegations by (simp add: counts_fit_def is_purpose_def)
next
  case (AUX_VOTE_KEY key)
  then have e: "auxDataHashBuilder_cVoteRegistration_addVoteKey key b = Inr b'" using assms by simp
  show ?thesis
    using assms(1) addVoteKey_entry [OF e] shares_entry [of k b 0] AUX_VOTE_KEY
    by (auto simp: aux_inv_def counts_fit_def is_purpose_def)
next
  case (AUX_STAKING_KEY key)
  then have e: "auxDataHashBuilder_cVoteRegistration_addStakingKey key b = Inr b'" using assms by simp
  show ?thesis
    using assms(1) addStakingKey_entry [OF e] shares_entry [of k b 1] AUX_STAKING_KEY
    by (auto simp: aux_inv_def counts_fit_def is_purpose_def numeral_2_eq_2)
next
  case (AUX_PAYMENT_ADDRESS a)
  then have e: "auxDataHashBuilder_cVoteRegistration_addPaymentAddress a b = Inr b'" using assms by simp
  show ?thesis
    using assms(1) addPaymentAddress_entry [OF e] shares_entry [of k b 2] AUX_PAYMENT_ADDRESS
    by (auto simp: aux_inv_def counts_fit_def is_purpose_def)
next
  case (AUX_NONCE v)
  then have e: "auxDataHashBuilder_cVoteRegistration_addNonce v b = Inr b'" using assms by simp
  show ?thesis
    using assms(1) addNonce_entry [OF e] shares_entry [of k b 3] AUX_NONCE
    by (auto simp: aux_inv_def counts_fit_def is_purpose_def)
next
  case (AUX_VOTING_PURPOSE v)
  then have e: "auxDataHashBuilder_cVoteRegistration_addVotingPurpose v b = Inr b'" using assms by simp
  show ?thesis
    using assms(1) addVotingPurpose_entry [OF e] shares_purpose [of k b] AUX_VOTING_PURPOSE
    by (auto simp: aux_inv_def counts_fit_def is_purpose_def)
next
  case (AUX_ENTER f)
  then show ?thesis
    using inv_enter [OF assms(1)] assms(2) by (simp add: counts_fit_def is_purpose_def)
next
  case AUX_ENTER_PAYLOAD
  then show ?thesis
    using inv_enterPayload [OF assms(1)] assms(2) by (simp add: counts_fit_def is_purpose_def)
next
  case (AUX_DELEGATION key w)
  then show ?thesis
    using inv_addDelegation [OF assms(1)] assms(2) by (simp add: counts_fit_def is_purpose_def)
next
  case (AUX_SIGNATURE sig)
  then show ?thesis
    using inv_addSignature [OF assms(1)] assms(2) by (simp add: counts_fit_def is_purpose_def)
next
  case AUX_SCRIPTS
  then show ?thesis
    using inv_addAuxiliaryScripts [OF assms(1)] assms(2) by (simp add: counts_fit_def is_purpose_def)
qed

lemma inv_init:
  assumes "auxDataHashBuilder_init b = Inr b'"
  shows "aux_inv k False b'"
proof -
  have "b' = (aux_absorb (tok CBOR_TYPE_ARRAY 2) (b\<lparr>auxDataHash := blake2b_init, payloadHash := blake2b_init\<rparr>))
      \<lparr>auxState := AUX_DATA_HASH_BUILDER_INIT\<rparr>"
    using assms by (auto simp: auxDataHashBuilder_init_def aux_goto_def res_bind_Inr_iff dest!: aux_cbor)
  then show ?thesis
    by (simp add: aux_inv_def blake2b_init_def)
qed

lemma inv_run:
  "seq (map aux_exec ops) b = Inr b' \<Longrightarrow> aux_inv k p b \<Longrightarrow>
   aux_inv (k \<and> list_all counts_fit ops) (p \<or> list_ex is_purpose ops) b'"
proof (induction ops arbitrary: b k p)
  case (Cons op ops)
  then obtain c where "aux_exec op b = Inr c" "seq (map aux_exec ops) c = Inr b'"
    by (auto simp: res_bind_Inr_iff)
  then show ?case
    using Cons.IH inv_exec [OF Cons.prems(2)] by (fastforce simp: conj_assoc disj_assoc)
qed simp

lemma aux_run_inv:
  assumes "aux_run ops b = Inr b'"
  shows "aux_inv (list_all counts_fit ops) (list_ex is_purpose ops) b'"
proof -
  obtain c where "auxDataHashBuilder_init b = Inr c" "seq (map aux_exec ops) c = Inr b'"
    using assms by (auto simp: aux_run_def res_bind_Inr_iff)
  then show ?thesis
    using inv_run [OF _ inv_init [of b c True]] by fastforce
qed

lemma finalize_digest:
  "blake2b_finalize H n m ctx = Inr out \<Longrightarrow> H (absorbed ctx) = Some out"
  by (auto simp: blake2b_finalize_def split: if_splits option.splits)

subsection \<open>Every well-formed registration is accepted\<close>

definition both_ok :: "aux_data_hash_builder_t \<Rightarrow> bool" where
  "both_ok b \<longleftrightarrow> initialized_magic (auxDataHash b) = HASH_CONTEXT_INITIALIZED_MAGIC \<and>
     initialized_magic (payloadHash b) = HASH_CONTEXT_INITIALIZED_MAGIC"

lemma both_ok_simps [simp]:
  "both_ok (both_absorb bs b) = both_ok b" "both_ok (aux_absorb bs b) = both_ok b"
  "both_ok (payload_absorb bs b) = both_ok b" "both_ok (b\<lparr>auxState := s\<rparr>) = both_ok b"
  "both_ok (b\<lparr>remainingDelegations := r\<rparr>) = both_ok b" "both_ok (b\<lparr>cVoteFormat := f\<rparr>) = both_ok b"
  by (simp_all add: both_ok_def)

lemma append_succeeds:
  assumes "both_ok b"
  shows "t \<in> head_types \<Longrightarrow> aux_append_cbor HC_BOTH t v b = Inr (both_absorb (tok t v) b)"
    and "t \<in> head_types \<Longrightarrow> aux_append_cbor HC_AUX_DATA t v b = Inr (aux_absorb (tok t v) b)"
    and "t \<in> head_types \<Longrightarrow>
      aux_append_cbor HC_CVOTE_REGISTRATION_PAYLOAD t v b = Inr (payload_absorb (tok t v) b)"
    and "length d < BUFFER_SIZE_PARANOIA \<Longrightarrow> aux_append_data HC_BOTH d b = Inr (both_absorb d b)"
    and "length d < BUFFER_SIZE_PARANOIA \<Longrightarrow> aux_append_data HC_AUX_DATA d b = Inr (aux_absorb d b)"
  using assms write_total(2) [of t v]
  by (simp_all add: both_ok_def aux_append_cbor_def aux_append_data_def on_aux_def on_payload_def
      blake2b_append_cbor_def blake2b_append_def blake2b_256_append_buffer_aux_data_def do_if_def
      both_absorb_def aux_absorb_def payload_absorb_def assert_that_def)

text \<open>A registration as a value, its calls and its encoding as a map entry.\<close>

record registration =
  reg_format :: cvote_registration_format_t
  reg_keys :: "bytes + (bytes \<times> u32) list"
  reg_staking_key :: bytes
  reg_address :: bytes
  reg_nonce :: u64
  reg_purpose :: "u64 option"

definition registration_ok :: "registration \<Rightarrow> bool" where
  "registration_ok r \<longleftrightarrow> reg_format r \<noteq> UNKNOWN_FORMAT \<and>
     (case reg_keys r of Inl k \<Rightarrow> length k = PUBLIC_KEY_SIZE
      | Inr ds \<Rightarrow> length ds < 65536 \<and> list_all (\<lambda>(k, w). length k = PUBLIC_KEY_SIZE) ds) \<and>
     length (reg_staking_key r) = PUBLIC_KEY_SIZE \<and>
     0 < length (reg_address r) \<and> length (reg_address r) < BUFFER_SIZE_PARANOIA"

definition registration_calls :: "registration \<Rightarrow> aux_op list" where
  "registration_calls r =
     [AUX_ENTER (reg_format r), AUX_ENTER_PAYLOAD] @
     (case reg_keys r of Inl k \<Rightarrow> [AUX_VOTE_KEY k]
      | Inr ds \<Rightarrow> AUX_ENTER_DELEGATIONS (length ds) # map (\<lambda>(k, w). AUX_DELEGATION k w) ds) @
     [AUX_STAKING_KEY (reg_staking_key r), AUX_PAYMENT_ADDRESS (reg_address r), AUX_NONCE (reg_nonce r)] @
     (case reg_purpose r of None \<Rightarrow> [] | Some p \<Rightarrow> [AUX_VOTING_PURPOSE p])"

definition encode_bytes :: "bytes \<Rightarrow> bytes" where
  "encode_bytes d = tok CBOR_TYPE_BYTES (word_of_nat (length d)) @ d"

definition encode_delegation :: "bytes \<times> u32 \<Rightarrow> bytes" where
  "encode_delegation = (\<lambda>(k, w). tok CBOR_TYPE_ARRAY 2 @ encode_bytes k @
     tok CBOR_TYPE_UNSIGNED (ucast w))"

definition encode_keys :: "bytes + (bytes \<times> u32) list \<Rightarrow> bytes" where
  "encode_keys ks = tok CBOR_TYPE_UNSIGNED CVOTE_REGISTRATION_PAYLOAD_KEY_VOTE_KEY @
     (case ks of Inl k \<Rightarrow> encode_bytes k
      | Inr ds \<Rightarrow> tok CBOR_TYPE_ARRAY (word_of_nat (length ds)) @ concat (map encode_delegation ds))"

definition encode_registration :: "registration \<Rightarrow> bytes" where
  "encode_registration r =
     tok CBOR_TYPE_UNSIGNED METADATA_KEY_CVOTE_REGISTRATION_PAYLOAD @
     tok CBOR_TYPE_MAP (if reg_format r = CIP36 then 5 else 4) @
     encode_keys (reg_keys r) @
     tok CBOR_TYPE_UNSIGNED CVOTE_REGISTRATION_PAYLOAD_KEY_STAKING_KEY @ encode_bytes (reg_staking_key r) @
     tok CBOR_TYPE_UNSIGNED CVOTE_REGISTRATION_PAYLOAD_PAYMENT_ADDRESS @ encode_bytes (reg_address r) @
     tok CBOR_TYPE_UNSIGNED CVOTE_REGISTRATION_PAYLOAD_KEY_NONCE @ tok CBOR_TYPE_UNSIGNED (reg_nonce r) @
     (case reg_purpose r of None \<Rightarrow> []
      | Some p \<Rightarrow> tok CBOR_TYPE_UNSIGNED CVOTE_REGISTRATION_PAYLOAD_VOTING_PURPOSE @
          tok CBOR_TYPE_UNSIGNED p)"

text \<open>\<open>at s P R b\<close>: the builder is in state \<open>s\<close>, both streams share \<open>P\<close>, and \<open>R\<close> follows it.\<close>

definition at :: "aux_data_hash_builder_state_t \<Rightarrow> cvote_registration_format_t \<Rightarrow> bytes \<Rightarrow> bytes \<Rightarrow>
  aux_data_hash_builder_t \<Rightarrow> bool" where
  "at s f P R b \<longleftrightarrow> auxState b = s \<and> both_ok b \<and> cVoteFormat b = f \<and>
     absorbed (payloadHash b) = tok CBOR_TYPE_MAP 1 @ P \<and> absorbed (auxDataHash b) = aux_head @ P @ R"

lemma at_simps:
  "at s f P [] b \<Longrightarrow> at s f (P @ bs) [] (both_absorb bs b)"
  "at s f P R b \<Longrightarrow> at s f P (R @ bs) (aux_absorb bs b)"
  "at s f P R b \<Longrightarrow> at t f P R (b\<lparr>auxState := t\<rparr>)"
  "at s f P R b \<Longrightarrow> at s f P R (b\<lparr>remainingDelegations := n\<rparr>)"
  by (simp_all add: at_def both_ok_def both_absorb_def aux_absorb_def)

lemmas aux_steps = aux_in_def assert_that_def modify_def aux_goto_def append_succeeds

lemma leads_aux_enter:
  assumes "f \<noteq> UNKNOWN_FORMAT"
  shows "leads (\<lambda>b. True) (seq [auxDataHashBuilder_init, auxDataHashBuilder_cVoteRegistration_enter f])
     (at AUX_DATA_HASH_BUILDER_IN_CVOTE_REGISTRATION_INIT f [] [])"
proof (rule leadsI)
  fix b :: aux_data_hash_builder_t
  let ?b = "b\<lparr>auxDataHash := blake2b_init, payloadHash := blake2b_init\<rparr>"
  have ok: "both_ok ?b"
    by (simp add: both_ok_def blake2b_init_def)
  have "f = CIP15 \<or> f = CIP36"
    using assms by (cases f) auto
  then show "\<exists>t. seq [auxDataHashBuilder_init, auxDataHashBuilder_cVoteRegistration_enter f] b = Inr t \<and>
      at AUX_DATA_HASH_BUILDER_IN_CVOTE_REGISTRATION_INIT f [] [] t"
    using ok by (auto simp: auxDataHashBuilder_init_def auxDataHashBuilder_cVoteRegistration_enter_def
        aux_steps at_def aux_head_def both_ok_def blake2b_init_def)
qed

lemma leads_enterPayload:
  "leads (at AUX_DATA_HASH_BUILDER_IN_CVOTE_REGISTRATION_INIT f P [])
     auxDataHashBuilder_cVoteRegistration_enterPayload
     (at AUX_DATA_HASH_BUILDER_IN_CVOTE_REGISTRATION_PAYLOAD_INIT f
       (P @ tok CBOR_TYPE_UNSIGNED METADATA_KEY_CVOTE_REGISTRATION_PAYLOAD @
         tok CBOR_TYPE_MAP (if f = CIP36 then 5 else 4)) [])"
  by (rule leadsI) (simp add: auxDataHashBuilder_cVoteRegistration_enterPayload_def aux_steps at_def)

lemma leads_addVoteKey:
  "length k = PUBLIC_KEY_SIZE \<Longrightarrow>
   leads (at AUX_DATA_HASH_BUILDER_IN_CVOTE_REGISTRATION_PAYLOAD_INIT f P [])
     (auxDataHashBuilder_cVoteRegistration_addVoteKey k)
     (at AUX_DATA_HASH_BUILDER_IN_CVOTE_REGISTRATION_PAYLOAD_VOTE_KEY f (P @ encode_keys (Inl k)) [])"
  by (rule leadsI) (simp add: auxDataHashBuilder_cVoteRegistration_addVoteKey_def aux_steps at_def
      encode_keys_def encode_bytes_def)

text \<open>In the delegations, with \<open>r\<close> of them missing.\<close>

definition delegating :: "nat \<Rightarrow> cvote_registration_format_t \<Rightarrow> bytes \<Rightarrow> aux_data_hash_builder_t \<Rightarrow> bool" where
  "delegating r f P b \<longleftrightarrow> at AUX_DATA_HASH_BUILDER_IN_CVOTE_REGISTRATION_PAYLOAD_DELEGATIONS f P [] b \<and>
     unat (remainingDelegations b) = r"

lemma leads_enterDelegations:
  "n < 65536 \<Longrightarrow>
   leads (at AUX_DATA_HASH_BUILDER_IN_CVOTE_REGISTRATION_PAYLOAD_INIT f P [])
     (auxDataHashBuilder_cVoteRegistration_enterDelegations n)
     (delegating n f (P @ tok CBOR_TYPE_UNSIGNED CVOTE_REGISTRATION_PAYLOAD_KEY_VOTE_KEY @
       tok CBOR_TYPE_ARRAY (word_of_nat n)))"
  by (rule leadsI) (simp add: auxDataHashBuilder_cVoteRegistration_enterDelegations_def aux_steps at_def
      delegating_def unat_of_nat take_bit_nat_eq_self_iff)

lemma leads_addDelegation:
  "length k = PUBLIC_KEY_SIZE \<Longrightarrow>
   leads (delegating (Suc r) f P) (auxDataHashBuilder_cVoteRegistration_addDelegation k w)
     (delegating r f (P @ encode_delegation (k, w)))"
proof (rule leadsI)
  fix b
  assume k: "length k = PUBLIC_KEY_SIZE" and d: "delegating (Suc r) f P b"
  have p: "0 < remainingDelegations b"
    using d by (simp add: delegating_def flip: unat_pos)
  then have "unat (remainingDelegations b - 1) = r"
    using d by (simp add: delegating_def unat_pred)
  then show "\<exists>t. auxDataHashBuilder_cVoteRegistration_addDelegation k w b = Inr t \<and>
      delegating r f (P @ encode_delegation (k, w)) t"
    using d k p by (simp add: auxDataHashBuilder_cVoteRegistration_addDelegation_def aux_steps at_def
        delegating_def encode_delegation_def encode_bytes_def)
qed

lemma leads_delegations:
  "list_all (\<lambda>(k, w). length k = PUBLIC_KEY_SIZE) ds \<Longrightarrow>
   leads (delegating (length ds) f P) (seq (map (\<lambda>(k, w). aux_exec (AUX_DELEGATION k w)) ds))
     (delegating 0 f (P @ concat (map encode_delegation ds)))"
proof (induction ds arbitrary: P)
  case Nil
  then show ?case by (simp add: leads_def)
next
  case (Cons d ds)
  obtain k w where d: "d = (k, w)" by (cases d)
  have "leads (delegating (Suc (length ds)) f P) (aux_exec (AUX_DELEGATION k w))
      (delegating (length ds) f (P @ encode_delegation (k, w)))"
    using Cons.prems leads_addDelegation by (simp add: d)
  moreover have "leads (delegating (length ds) f (P @ encode_delegation (k, w)))
      (seq (map (\<lambda>(k, w). aux_exec (AUX_DELEGATION k w)) ds))
      (delegating 0 f ((P @ encode_delegation (k, w)) @ concat (map encode_delegation ds)))"
    by (rule Cons.IH) (use Cons.prems in simp)
  ultimately have "leads (delegating (Suc (length ds)) f P)
      (seq (aux_exec (AUX_DELEGATION k w) # map (\<lambda>(k, w). aux_exec (AUX_DELEGATION k w)) ds))
      (delegating 0 f ((P @ encode_delegation (k, w)) @ concat (map encode_delegation ds)))"
    by (rule leads_Cons)
  then show ?case
    by (simp only: d list.map prod.case concat.simps append_assoc list.size add_Suc_right add_0_right)
qed

definition keyed :: "cvote_registration_format_t \<Rightarrow> bytes \<Rightarrow> aux_data_hash_builder_t \<Rightarrow> bool" where
  "keyed f P b \<longleftrightarrow> at AUX_DATA_HASH_BUILDER_IN_CVOTE_REGISTRATION_PAYLOAD_VOTE_KEY f P [] b \<or>
     delegating 0 f P b"

lemma leads_weaken: "leads P f Q \<Longrightarrow> (\<And>s. Q s \<Longrightarrow> R s) \<Longrightarrow> leads P f R"
  by (auto simp: leads_def)

lemma leads_keys:
  assumes "registration_ok r"
  shows "leads (at AUX_DATA_HASH_BUILDER_IN_CVOTE_REGISTRATION_PAYLOAD_INIT f P [])
     (seq (map aux_exec (case reg_keys r of Inl k \<Rightarrow> [AUX_VOTE_KEY k]
      | Inr ds \<Rightarrow> AUX_ENTER_DELEGATIONS (length ds) # map (\<lambda>(k, w). AUX_DELEGATION k w) ds)))
     (keyed f (P @ encode_keys (reg_keys r)))"
proof (cases "reg_keys r")
  case (Inl k)
  then have "length k = PUBLIC_KEY_SIZE"
    using assms by (simp add: registration_ok_def)
  from leads_weaken [OF leads_single [OF leads_addVoteKey [OF this, of f P]], of "keyed f (P @ encode_keys (Inl k))"]
  show ?thesis
    by (simp add: Inl keyed_def)
next
  case (Inr ds)
  then have d: "length ds < 65536" "list_all (\<lambda>(k, w). length k = PUBLIC_KEY_SIZE) ds"
    using assms by (simp_all add: registration_ok_def)
  have "map aux_exec (map (\<lambda>(k, w). AUX_DELEGATION k w) ds) =
      map (\<lambda>(k, w). aux_exec (AUX_DELEGATION k w)) ds"
    by auto
  moreover have "leads (at AUX_DATA_HASH_BUILDER_IN_CVOTE_REGISTRATION_PAYLOAD_INIT f P [])
      (seq (aux_exec (AUX_ENTER_DELEGATIONS (length ds)) #
        map (\<lambda>(k, w). aux_exec (AUX_DELEGATION k w)) ds))
      (delegating 0 f ((P @ tok CBOR_TYPE_UNSIGNED CVOTE_REGISTRATION_PAYLOAD_KEY_VOTE_KEY @
        tok CBOR_TYPE_ARRAY (word_of_nat (length ds))) @ concat (map encode_delegation ds)))"
    using leads_enterDelegations [OF d(1), of f P] leads_delegations [OF d(2), of f]
    by (simp only: aux_exec.simps) (rule leads_Cons)
  ultimately have "leads (at AUX_DATA_HASH_BUILDER_IN_CVOTE_REGISTRATION_PAYLOAD_INIT f P [])
      (seq (map aux_exec (AUX_ENTER_DELEGATIONS (length ds) # map (\<lambda>(k, w). AUX_DELEGATION k w) ds)))
      (delegating 0 f (P @ encode_keys (Inr ds)))"
    by (simp only: list.map encode_keys_def sum.case append_assoc)
  from leads_weaken [OF this, of "keyed f (P @ encode_keys (Inr ds))"] show ?thesis
    by (simp add: Inr keyed_def)
qed

lemma leads_addStakingKey:
  "length k = PUBLIC_KEY_SIZE \<Longrightarrow>
   leads (keyed f P) (auxDataHashBuilder_cVoteRegistration_addStakingKey k)
     (at AUX_DATA_HASH_BUILDER_IN_CVOTE_REGISTRATION_PAYLOAD_STAKING_KEY f
       (P @ tok CBOR_TYPE_UNSIGNED CVOTE_REGISTRATION_PAYLOAD_KEY_STAKING_KEY @ encode_bytes k) [])"
  by (rule leadsI) (auto simp: auxDataHashBuilder_cVoteRegistration_addStakingKey_def aux_steps at_def
      keyed_def delegating_def encode_bytes_def unat_eq_0)

lemma leads_addPaymentAddress:
  "0 < length a \<Longrightarrow> length a < BUFFER_SIZE_PARANOIA \<Longrightarrow>
   leads (at AUX_DATA_HASH_BUILDER_IN_CVOTE_REGISTRATION_PAYLOAD_STAKING_KEY f P [])
     (auxDataHashBuilder_cVoteRegistration_addPaymentAddress a)
     (at AUX_DATA_HASH_BUILDER_IN_CVOTE_REGISTRATION_PAYLOAD_PAYMENT_ADDRESS f
       (P @ tok CBOR_TYPE_UNSIGNED CVOTE_REGISTRATION_PAYLOAD_PAYMENT_ADDRESS @ encode_bytes a) [])"
  by (rule leadsI) (simp add: auxDataHashBuilder_cVoteRegistration_addPaymentAddress_def aux_steps at_def
      encode_bytes_def)

lemma leads_addNonce:
  "leads (at AUX_DATA_HASH_BUILDER_IN_CVOTE_REGISTRATION_PAYLOAD_PAYMENT_ADDRESS f P [])
     (auxDataHashBuilder_cVoteRegistration_addNonce v)
     (at AUX_DATA_HASH_BUILDER_IN_CVOTE_REGISTRATION_PAYLOAD_NONCE f
       (P @ tok CBOR_TYPE_UNSIGNED CVOTE_REGISTRATION_PAYLOAD_KEY_NONCE @ tok CBOR_TYPE_UNSIGNED v) [])"
  by (rule leadsI) (simp add: auxDataHashBuilder_cVoteRegistration_addNonce_def aux_steps at_def)

definition payload_done :: "cvote_registration_format_t \<Rightarrow> bytes \<Rightarrow> aux_data_hash_builder_t \<Rightarrow> bool" where
  "payload_done f P b \<longleftrightarrow>
     at AUX_DATA_HASH_BUILDER_IN_CVOTE_REGISTRATION_PAYLOAD_NONCE f P [] b \<or>
     at AUX_DATA_HASH_BUILDER_IN_CVOTE_REGISTRATION_PAYLOAD_VOTING_PURPOSE f P [] b"

lemma leads_purpose:
  "leads (at AUX_DATA_HASH_BUILDER_IN_CVOTE_REGISTRATION_PAYLOAD_NONCE f P [])
     (seq (map aux_exec (case q of None \<Rightarrow> [] | Some p \<Rightarrow> [AUX_VOTING_PURPOSE p])))
     (payload_done f (P @ (case q of None \<Rightarrow> []
        | Some p \<Rightarrow> tok CBOR_TYPE_UNSIGNED CVOTE_REGISTRATION_PAYLOAD_VOTING_PURPOSE @
            tok CBOR_TYPE_UNSIGNED p)))"
  by (rule leadsI) (auto simp: auxDataHashBuilder_cVoteRegistration_addVotingPurpose_def aux_steps at_def
      payload_done_def split: option.split)

lemma leads_registration:
  assumes "registration_ok r"
  shows "leads (\<lambda>b. True) (aux_run (registration_calls r))
     (payload_done (reg_format r) (encode_registration r))"
proof -
  let ?f = "reg_format r"
  have ok: "?f \<noteq> UNKNOWN_FORMAT" "length (reg_staking_key r) = PUBLIC_KEY_SIZE"
    "0 < length (reg_address r)" "length (reg_address r) < BUFFER_SIZE_PARANOIA"
    using assms by (simp_all add: registration_ok_def)
  note steps = leads_append [OF leads_aux_enter [OF ok(1)], OF leads_Cons [OF leads_enterPayload,
      OF leads_append [OF leads_keys [OF assms],
      OF leads_Cons [OF leads_addStakingKey [OF ok(2)],
      OF leads_Cons [OF leads_addPaymentAddress [OF ok(3,4)],
      OF leads_Cons [OF leads_addNonce leads_purpose]]]]]]
  from steps [of "reg_nonce r" "reg_purpose r"] show ?thesis
    by (simp only: aux_run_def registration_calls_def encode_registration_def list.map map_append
        aux_exec.simps append.simps append_assoc)
qed

subsection \<open>Properties\<close>

lemma leads_addSignature:
  assumes "length sig = ED25519_SIGNATURE_LENGTH"
  shows "leads (payload_done f P)
     (seq [auxDataHashBuilder_cVoteRegistration_addSignature sig,
        auxDataHashBuilder_cVoteRegistration_addAuxiliaryScripts])
     (at AUX_DATA_HASH_BUILDER_IN_AUXILIARY_SCRIPTS f P (signature_part sig @ tok CBOR_TYPE_ARRAY 0))"
  by (rule leadsI) (use assms in \<open>auto simp: auxDataHashBuilder_cVoteRegistration_addSignature_def
      auxDataHashBuilder_cVoteRegistration_addAuxiliaryScripts_def aux_steps payload_done_def at_def
      signature_part_def\<close>)



text \<open>
  C23. Every well-formed registration is accepted, in either format, with one key or with up to
  65535 delegations: no assertion fails, and both digests are those of the registration's
  encoding.
\<close>

theorem registration_accepted:
  assumes "registration_ok r" "length sig = ED25519_SIGNATURE_LENGTH"
  shows "\<exists>c d. aux_run (registration_calls r) b = Inr c \<and>
    auxDataHashBuilder_cVoteRegistration_finalizePayload blake2b_256 32 c =
      (case blake2b_256 (tok CBOR_TYPE_MAP 1 @ encode_registration r) of
         None \<Rightarrow> Inl ERR_ASSERT | Some out \<Rightarrow> Inr out) \<and>
    seq [auxDataHashBuilder_cVoteRegistration_addSignature sig,
      auxDataHashBuilder_cVoteRegistration_addAuxiliaryScripts] c = Inr d \<and>
    auxDataHashBuilder_finalize blake2b_256 32 d =
      (case blake2b_256 (aux_head @ encode_registration r @ signature_part sig @ tok CBOR_TYPE_ARRAY 0) of
         None \<Rightarrow> Inl ERR_ASSERT
       | Some out \<Rightarrow> Inr (out, d\<lparr>auxState := AUX_DATA_HASH_BUILDER_FINISHED\<rparr>))"
proof -
  obtain c where c: "aux_run (registration_calls r) b = Inr c"
    "payload_done (reg_format r) (encode_registration r) c"
    using leadsD [OF leads_registration [OF assms(1)]] by blast
  obtain d where d: "seq [auxDataHashBuilder_cVoteRegistration_addSignature sig,
      auxDataHashBuilder_cVoteRegistration_addAuxiliaryScripts] c = Inr d"
    "at AUX_DATA_HASH_BUILDER_IN_AUXILIARY_SCRIPTS (reg_format r) (encode_registration r)
      (signature_part sig @ tok CBOR_TYPE_ARRAY 0) d"
    using leadsD [OF leads_addSignature [OF assms(2)] c(2)] by blast
  have "auxDataHashBuilder_cVoteRegistration_finalizePayload blake2b_256 32 c =
      (case blake2b_256 (tok CBOR_TYPE_MAP 1 @ encode_registration r) of
         None \<Rightarrow> Inl ERR_ASSERT | Some out \<Rightarrow> Inr out)"
    using c(2) by (auto simp: payload_done_def at_def both_ok_def blake2b_finalize_def
        auxDataHashBuilder_cVoteRegistration_finalizePayload_def)
  moreover have "auxDataHashBuilder_finalize blake2b_256 32 d =
      (case blake2b_256 (aux_head @ encode_registration r @ signature_part sig @ tok CBOR_TYPE_ARRAY 0) of
         None \<Rightarrow> Inl ERR_ASSERT
       | Some out \<Rightarrow> Inr (out, d\<lparr>auxState := AUX_DATA_HASH_BUILDER_FINISHED\<rparr>))"
    using d(2) by (auto simp: at_def both_ok_def blake2b_finalize_def auxDataHashBuilder_finalize_def
        split: option.split)
  ultimately show ?thesis
    using c(1) d(1) by blast
qed

definition sample_registration :: registration where
  "sample_registration = \<lparr>reg_format = CIP36, reg_keys = Inr [(replicate 32 1, 7)],
     reg_staking_key = replicate 32 2, reg_address = [0x61, 3], reg_nonce = 4242, reg_purpose = Some 0\<rparr>"

definition blank_aux_builder :: aux_data_hash_builder_t where
  "blank_aux_builder = \<lparr>payloadHash = \<lparr>initialized_magic = 0, absorbed = []\<rparr>,
     cVoteFormat = UNKNOWN_FORMAT, remainingDelegations = 0,
     auxState = AUX_DATA_HASH_BUILDER_FINISHED,
     auxDataHash = \<lparr>initialized_magic = 0, absorbed = []\<rparr>\<rparr>"

lemma sample_registration_ok: "registration_ok sample_registration"
  by (simp add: registration_ok_def sample_registration_def)

lemma registration_accepted_witness:
  "\<exists>c. aux_run (registration_calls sample_registration) blank_aux_builder = Inr c"
  using registration_accepted [OF sample_registration_ok, of "replicate 64 0" blank_aux_builder Some]
  by auto

lemma sample_run:
  "\<exists>c d. aux_run (registration_calls sample_registration) blank_aux_builder = Inr c \<and>
    cVoteFormat c = CIP36 \<and>
    (\<exists>out. auxDataHashBuilder_cVoteRegistration_finalizePayload Some 32 c = Inr out) \<and>
    seq [auxDataHashBuilder_cVoteRegistration_addSignature (replicate 64 0),
      auxDataHashBuilder_cVoteRegistration_addAuxiliaryScripts] c = Inr d \<and> cVoteFormat d = CIP36 \<and>
    (\<exists>out e. auxDataHashBuilder_finalize Some 32 d = Inr (out, e))"
proof -
  obtain c where c: "aux_run (registration_calls sample_registration) blank_aux_builder = Inr c"
    "payload_done CIP36 (encode_registration sample_registration) c"
    using leadsD [OF leads_registration [OF sample_registration_ok]]
    by (auto simp: sample_registration_def)
  obtain d where "seq [auxDataHashBuilder_cVoteRegistration_addSignature (replicate 64 0),
      auxDataHashBuilder_cVoteRegistration_addAuxiliaryScripts] c = Inr d"
    "at AUX_DATA_HASH_BUILDER_IN_AUXILIARY_SCRIPTS CIP36 (encode_registration sample_registration)
      (signature_part (replicate 64 0) @ tok CBOR_TYPE_ARRAY 0) d"
    using leadsD [OF leads_addSignature c(2), of "replicate 64 0"] by auto
  with c show ?thesis
    by (auto simp: payload_done_def at_def both_ok_def blake2b_finalize_def
        auxDataHashBuilder_cVoteRegistration_finalizePayload_def auxDataHashBuilder_finalize_def)
qed



end
