(* ===== verification/Bip44.thy ===== *)
theory Bip44
  imports Cbor
begin

text \<open>
  \<open>src/crypto/bip44.c\<close>: derivation paths. A path has room for five elements and a length; a
  read past the array is \<open>OUT_OF_BOUNDS\<close>, a getter on a path that is too short fails its
  assertion. The predicates are \<open>CHECK\<close> chains (\<open>checks\<close>), the classification follows the
  \<open>switch\<close> statements, and the printer keeps \<open>snprintf\<close>'s truncation to the space left.
\<close>

subsection \<open>Paths\<close>

abbreviation (input) BIP44_MAX_PATH_ELEMENTS :: nat where "BIP44_MAX_PATH_ELEMENTS \<equiv> 5"
abbreviation (input) BIP44_PATH_STRING_SIZE_MAX :: nat where "BIP44_PATH_STRING_SIZE_MAX \<equiv> 62"
abbreviation (input) PURPOSE_BYRON :: u32 where "PURPOSE_BYRON \<equiv> 44"
abbreviation (input) PURPOSE_SHELLEY :: u32 where "PURPOSE_SHELLEY \<equiv> 1852"
abbreviation (input) PURPOSE_MULTISIG :: u32 where "PURPOSE_MULTISIG \<equiv> 1854"
abbreviation (input) PURPOSE_MINT :: u32 where "PURPOSE_MINT \<equiv> 1855"
abbreviation (input) PURPOSE_POOL_COLD_KEY :: u32 where "PURPOSE_POOL_COLD_KEY \<equiv> 1853"
abbreviation (input) PURPOSE_CVOTE_KEY :: u32 where "PURPOSE_CVOTE_KEY \<equiv> 1694"
abbreviation (input) ADA_COIN_TYPE :: u32 where "ADA_COIN_TYPE \<equiv> 1815"
abbreviation (input) HARDENED_BIP32 :: u32 where "HARDENED_BIP32 \<equiv> 0x80000000"
abbreviation (input) CARDANO_CHAIN_EXTERNAL :: u32 where "CARDANO_CHAIN_EXTERNAL \<equiv> 0"
abbreviation (input) CARDANO_CHAIN_INTERNAL :: u32 where "CARDANO_CHAIN_INTERNAL \<equiv> 1"
abbreviation (input) CARDANO_CHAIN_STAKING_KEY :: u32 where "CARDANO_CHAIN_STAKING_KEY \<equiv> 2"
abbreviation (input) CARDANO_CHAIN_DREP_KEY :: u32 where "CARDANO_CHAIN_DREP_KEY \<equiv> 3"
abbreviation (input) CARDANO_CHAIN_COMMITTEE_COLD_KEY :: u32 where
  "CARDANO_CHAIN_COMMITTEE_COLD_KEY \<equiv> 4"
abbreviation (input) CARDANO_CHAIN_COMMITTEE_HOT_KEY :: u32 where
  "CARDANO_CHAIN_COMMITTEE_HOT_KEY \<equiv> 5"
abbreviation (input) MAX_REASONABLE_ACCOUNT :: u32 where "MAX_REASONABLE_ACCOUNT \<equiv> 100"
abbreviation (input) MAX_REASONABLE_ADDRESS :: u32 where "MAX_REASONABLE_ADDRESS \<equiv> 1000000"
abbreviation (input) MAX_REASONABLE_COLD_KEY_INDEX :: u32 where
  "MAX_REASONABLE_COLD_KEY_INDEX \<equiv> 1000000"
abbreviation (input) MAX_REASONABLE_MINT_POLICY_INDEX :: u32 where
  "MAX_REASONABLE_MINT_POLICY_INDEX \<equiv> 1000000"
abbreviation (input) BIP44_I_PURPOSE :: nat where "BIP44_I_PURPOSE \<equiv> 0"
abbreviation (input) BIP44_I_COIN_TYPE :: nat where "BIP44_I_COIN_TYPE \<equiv> 1"
abbreviation (input) BIP44_I_ACCOUNT :: nat where "BIP44_I_ACCOUNT \<equiv> 2"
abbreviation (input) BIP44_I_CHAIN :: nat where "BIP44_I_CHAIN \<equiv> 3"
abbreviation (input) BIP44_I_ADDRESS :: nat where "BIP44_I_ADDRESS \<equiv> 4"
abbreviation (input) BIP44_I_MINT_POLICY :: nat where "BIP44_I_MINT_POLICY \<equiv> 2"
abbreviation (input) BIP44_I_POOL_COLD_KEY_USECASE :: nat where "BIP44_I_POOL_COLD_KEY_USECASE \<equiv> 2"
abbreviation (input) BIP44_I_POOL_COLD_KEY :: nat where "BIP44_I_POOL_COLD_KEY \<equiv> 3"

record bip44_path_t =
  path :: "u32 list"
  path_length :: u32

datatype bip44_path_type_t =
    PATH_ORDINARY_ACCOUNT | PATH_MULTISIG_ACCOUNT
  | PATH_ORDINARY_PAYMENT_KEY | PATH_MULTISIG_PAYMENT_KEY
  | PATH_ORDINARY_STAKING_KEY | PATH_MULTISIG_STAKING_KEY
  | PATH_DREP_KEY | PATH_COMMITTEE_COLD_KEY | PATH_COMMITTEE_HOT_KEY
  | PATH_MINT_KEY | PATH_POOL_COLD_KEY
  | PATH_CVOTE_ACCOUNT | PATH_CVOTE_KEY
  | PATH_INVALID

text \<open>\<open>pathSpec->path[i]\<close>, and a test of the value of an expression.\<close>

definition path_at :: "bip44_path_t \<Rightarrow> nat \<Rightarrow> u32 res" where
  "path_at p i = (if i < length (path p) then Inr (path p ! i) else Inl OUT_OF_BOUNDS)"

definition test :: "'a res \<Rightarrow> ('a \<Rightarrow> bool) \<Rightarrow> bool res" where
  "test m c = res_bind m (\<lambda>x. Inr (c x))"

definition equal_res :: "u32 res \<Rightarrow> u32 res \<Rightarrow> bool res" where
  "equal_res a b = res_bind a (\<lambda>x. res_bind b (\<lambda>y. Inr (x = y)))"

lemma test_simps [simp]: "test (Inr x) c = Inr (c x)" "test (Inl e) c = Inl e"
  by (simp_all add: test_def)

lemma equal_res_simps [simp]: "equal_res (Inr x) (Inr y) = Inr (x = y)"
  by (simp add: equal_res_def)

abbreviation longer_than :: "bip44_path_t \<Rightarrow> nat \<Rightarrow> bool" where
  "longer_than p i \<equiv> i < unat (path_length p)"

subsection \<open>Parsing\<close>

definition bip44_check_path :: "bytes \<Rightarrow> bool" where
  "bip44_check_path dataBuffer =
     (if length dataBuffer < 1 then False
      else let n = unat (hd dataBuffer) in
        if n > BIP44_MAX_PATH_ELEMENTS then False
        else if n * 4 + 1 > length dataBuffer then False
        else True)"

definition u4be_read :: "bytes \<Rightarrow> nat \<Rightarrow> u32 res" where
  "u4be_read buf offset =
     (if offset + 4 \<le> length buf then Inr (word_of_nat (be_read (take 4 (drop offset buf))))
      else Inl OUT_OF_BOUNDS)"

text \<open>The loop of the parser, at element \<open>i\<close> of \<open>n\<close>.\<close>

fun parse_elements :: "bytes \<Rightarrow> nat \<Rightarrow> nat \<Rightarrow> nat \<Rightarrow> u32 list \<Rightarrow> (nat \<times> u32 list) res" where
  "parse_elements buf 0 i offset xs = Inr (offset, xs)"
| "parse_elements buf (Suc n) i offset xs =
     res_bind (u4be_read buf offset) (\<lambda>v.
       if i < length xs then parse_elements buf n (i + 1) (offset + 4) (xs[i := v])
       else Inl OUT_OF_BOUNDS)"

definition bip44_parseFromWire :: "bytes \<Rightarrow> bip44_path_t \<Rightarrow> (nat \<times> bip44_path_t) res" where
  "bip44_parseFromWire dataBuffer p =
     res_bind (VALIDATE (bip44_check_path dataBuffer) ERR_INVALID_DATA) (\<lambda>_.
     let n = hd dataBuffer in
     res_bind (parse_elements dataBuffer (unat n) 0 1 (path p)) (\<lambda>(offset, xs).
       Inr (offset, p\<lparr>path := xs, path_length := ucast n\<rparr>)))"

subsection \<open>Hardening\<close>

definition isHardened :: "u32 \<Rightarrow> bool" where
  "isHardened value \<longleftrightarrow> value = (value OR HARDENED_BIP32)"

definition harden :: "u32 \<Rightarrow> u32 res" where
  "harden value = res_bind (ASSERT (\<not> isHardened value)) (\<lambda>_. Inr (value OR HARDENED_BIP32))"

definition unharden :: "u32 \<Rightarrow> u32 res" where
  "unharden value = res_bind (ASSERT (isHardened value)) (\<lambda>_. Inr (value AND NOT HARDENED_BIP32))"

subsection \<open>Prefixes and elements\<close>

definition bip44_hasByronPrefix :: "bip44_path_t \<Rightarrow> bool res" where
  "bip44_hasByronPrefix p = checks
     [Inr (longer_than p BIP44_I_COIN_TYPE),
      equal_res (path_at p BIP44_I_PURPOSE) (harden PURPOSE_BYRON),
      equal_res (path_at p BIP44_I_COIN_TYPE) (harden ADA_COIN_TYPE)]"

definition bip44_hasShelleyPrefix :: "bip44_path_t \<Rightarrow> bool res" where
  "bip44_hasShelleyPrefix p = checks
     [Inr (longer_than p BIP44_I_COIN_TYPE),
      equal_res (path_at p BIP44_I_PURPOSE) (harden PURPOSE_SHELLEY),
      equal_res (path_at p BIP44_I_COIN_TYPE) (harden ADA_COIN_TYPE)]"

definition bip44_hasOrdinaryWalletKeyPrefix :: "bip44_path_t \<Rightarrow> bool res" where
  "bip44_hasOrdinaryWalletKeyPrefix p = or_else (bip44_hasByronPrefix p) (bip44_hasShelleyPrefix p)"

definition bip44_hasMultisigWalletKeyPrefix :: "bip44_path_t \<Rightarrow> bool res" where
  "bip44_hasMultisigWalletKeyPrefix p = checks
     [Inr (longer_than p BIP44_I_COIN_TYPE),
      equal_res (path_at p BIP44_I_PURPOSE) (harden PURPOSE_MULTISIG),
      equal_res (path_at p BIP44_I_COIN_TYPE) (harden ADA_COIN_TYPE)]"

definition bip44_hasMintKeyPrefix :: "bip44_path_t \<Rightarrow> bool res" where
  "bip44_hasMintKeyPrefix p = checks
     [Inr (longer_than p BIP44_I_COIN_TYPE),
      equal_res (path_at p BIP44_I_PURPOSE) (harden PURPOSE_MINT),
      equal_res (path_at p BIP44_I_COIN_TYPE) (harden ADA_COIN_TYPE)]"

definition bip44_hasPoolColdKeyPrefix :: "bip44_path_t \<Rightarrow> bool res" where
  "bip44_hasPoolColdKeyPrefix p = checks
     [Inr (longer_than p BIP44_I_COIN_TYPE),
      equal_res (path_at p BIP44_I_PURPOSE) (harden PURPOSE_POOL_COLD_KEY),
      equal_res (path_at p BIP44_I_COIN_TYPE) (harden ADA_COIN_TYPE)]"

definition bip44_hasCVoteKeyPrefix :: "bip44_path_t \<Rightarrow> bool res" where
  "bip44_hasCVoteKeyPrefix p = checks
     [Inr (longer_than p BIP44_I_COIN_TYPE),
      equal_res (path_at p BIP44_I_PURPOSE) (harden PURPOSE_CVOTE_KEY),
      equal_res (path_at p BIP44_I_COIN_TYPE) (harden ADA_COIN_TYPE)]"

definition bip44_containsAccount :: "bip44_path_t \<Rightarrow> bool" where
  "bip44_containsAccount p \<longleftrightarrow> longer_than p BIP44_I_ACCOUNT"

definition bip44_getAccount :: "bip44_path_t \<Rightarrow> u32 res" where
  "bip44_getAccount p =
     res_bind (ASSERT (longer_than p BIP44_I_ACCOUNT)) (\<lambda>_. path_at p BIP44_I_ACCOUNT)"

definition bip44_getMintPolicy :: "bip44_path_t \<Rightarrow> u32 res" where
  "bip44_getMintPolicy p =
     res_bind (ASSERT (longer_than p BIP44_I_MINT_POLICY)) (\<lambda>_. path_at p BIP44_I_MINT_POLICY)"

definition bip44_getColdKeyIndex :: "bip44_path_t \<Rightarrow> u32 res" where
  "bip44_getColdKeyIndex p =
     res_bind (ASSERT (longer_than p BIP44_I_POOL_COLD_KEY)) (\<lambda>_. path_at p BIP44_I_POOL_COLD_KEY)"

definition bip44_containsChainType :: "bip44_path_t \<Rightarrow> bool" where
  "bip44_containsChainType p \<longleftrightarrow> longer_than p BIP44_I_CHAIN"

definition bip44_getChainTypeValue :: "bip44_path_t \<Rightarrow> u32 res" where
  "bip44_getChainTypeValue p =
     res_bind (ASSERT (longer_than p BIP44_I_CHAIN)) (\<lambda>_. path_at p BIP44_I_CHAIN)"

definition bip44_containsAddress :: "bip44_path_t \<Rightarrow> bool" where
  "bip44_containsAddress p \<longleftrightarrow> longer_than p BIP44_I_ADDRESS"

definition bip44_getAddressValue :: "bip44_path_t \<Rightarrow> u32 res" where
  "bip44_getAddressValue p =
     res_bind (ASSERT (longer_than p BIP44_I_ADDRESS)) (\<lambda>_. path_at p BIP44_I_ADDRESS)"

definition bip44_containsMoreThanAddress :: "bip44_path_t \<Rightarrow> bool" where
  "bip44_containsMoreThanAddress p \<longleftrightarrow> longer_than p (BIP44_I_ADDRESS + 1)"

subsection \<open>Kinds of keys\<close>

definition bip44_isOrdinaryStakingKeyPath :: "bip44_path_t \<Rightarrow> bool res" where
  "bip44_isOrdinaryStakingKeyPath p = checks
     [Inr (bip44_containsAddress p),
      Inr (\<not> bip44_containsMoreThanAddress p),
      bip44_hasShelleyPrefix p,
      test (bip44_getAccount p) isHardened,
      test (bip44_getChainTypeValue p) (\<lambda>c. c = CARDANO_CHAIN_STAKING_KEY),
      test (bip44_getAddressValue p) (\<lambda>a. \<not> isHardened a)]"

definition bip44_isMultisigStakingKeyPath :: "bip44_path_t \<Rightarrow> bool res" where
  "bip44_isMultisigStakingKeyPath p = checks
     [Inr (bip44_containsAddress p),
      Inr (\<not> bip44_containsMoreThanAddress p),
      bip44_hasMultisigWalletKeyPrefix p,
      test (bip44_getAccount p) isHardened,
      test (bip44_getChainTypeValue p) (\<lambda>c. c = CARDANO_CHAIN_STAKING_KEY),
      test (bip44_getAddressValue p) (\<lambda>a. \<not> isHardened a)]"

definition bip44_isMultidelegationStakingKeyPath :: "bip44_path_t \<Rightarrow> bool res" where
  "bip44_isMultidelegationStakingKeyPath p =
     and_then (or_else (bip44_isOrdinaryStakingKeyPath p) (bip44_isMultisigStakingKeyPath p))
       (test (bip44_getAddressValue p) (\<lambda>a. a > 0))"

definition bip44_isDRepKeyPath :: "bip44_path_t \<Rightarrow> bool res" where
  "bip44_isDRepKeyPath p = checks
     [Inr (bip44_containsAddress p),
      Inr (\<not> bip44_containsMoreThanAddress p),
      bip44_hasShelleyPrefix p,
      test (bip44_getAccount p) isHardened,
      test (bip44_getChainTypeValue p) (\<lambda>c. c = CARDANO_CHAIN_DREP_KEY),
      test (bip44_getAddressValue p) (\<lambda>a. \<not> isHardened a)]"

definition bip44_isCommitteeColdKeyPath :: "bip44_path_t \<Rightarrow> bool res" where
  "bip44_isCommitteeColdKeyPath p = checks
     [Inr (bip44_containsAddress p),
      Inr (\<not> bip44_containsMoreThanAddress p),
      bip44_hasShelleyPrefix p,
      test (bip44_getAccount p) isHardened,
      test (bip44_getChainTypeValue p) (\<lambda>c. c = CARDANO_CHAIN_COMMITTEE_COLD_KEY),
      test (bip44_getAddressValue p) (\<lambda>a. \<not> isHardened a)]"

definition bip44_isCommitteeHotKeyPath :: "bip44_path_t \<Rightarrow> bool res" where
  "bip44_isCommitteeHotKeyPath p = checks
     [Inr (bip44_containsAddress p),
      Inr (\<not> bip44_containsMoreThanAddress p),
      bip44_hasShelleyPrefix p,
      test (bip44_getAccount p) isHardened,
      test (bip44_getChainTypeValue p) (\<lambda>c. c = CARDANO_CHAIN_COMMITTEE_HOT_KEY),
      test (bip44_getAddressValue p) (\<lambda>a. \<not> isHardened a)]"

definition bip44_isMintKeyPath :: "bip44_path_t \<Rightarrow> bool res" where
  "bip44_isMintKeyPath p = checks
     [Inr (unat (path_length p) = BIP44_I_MINT_POLICY + 1),
      bip44_hasMintKeyPrefix p,
      test (path_at p BIP44_I_MINT_POLICY) isHardened]"

definition bip44_isPoolColdKeyPath :: "bip44_path_t \<Rightarrow> bool res" where
  "bip44_isPoolColdKeyPath p = checks
     [Inr (unat (path_length p) = BIP44_I_POOL_COLD_KEY + 1),
      bip44_hasPoolColdKeyPrefix p,
      equal_res (path_at p BIP44_I_POOL_COLD_KEY_USECASE) (harden 0),
      test (path_at p BIP44_I_POOL_COLD_KEY) isHardened]"

definition bip44_isCVoteKeyPath :: "bip44_path_t \<Rightarrow> bool res" where
  "bip44_isCVoteKeyPath p = checks
     [Inr (unat (path_length p) = BIP44_I_ADDRESS + 1),
      bip44_hasCVoteKeyPrefix p,
      test (bip44_getAccount p) (\<lambda>a. a \<ge> HARDENED_BIP32),
      test (path_at p BIP44_I_CHAIN) (\<lambda>c. c = 0),
      test (bip44_getAddressValue p) (\<lambda>a. \<not> isHardened a)]"

subsection \<open>Classification\<close>

definition if_path :: "bool res \<Rightarrow> bip44_path_type_t \<Rightarrow> bip44_path_type_t res" where
  "if_path c t = res_bind c (\<lambda>b. Inr (if b then t else PATH_INVALID))"

text \<open>The chain type is read into a \<open>uint8_t\<close>.\<close>

definition bip44_classifyOrdinaryWalletPath :: "bip44_path_t \<Rightarrow> bip44_path_type_t res" where
  "bip44_classifyOrdinaryWalletPath p =
     res_bind (res_bind (bip44_hasOrdinaryWalletKeyPrefix p) ASSERT) (\<lambda>_.
     if \<not> bip44_containsAccount p then Inr PATH_INVALID
     else res_bind (bip44_getAccount p) (\<lambda>account.
     if \<not> isHardened account then Inr PATH_INVALID
     else if path_length p = 3 then Inr PATH_ORDINARY_ACCOUNT
     else if path_length p = 5 then
       res_bind (bip44_getChainTypeValue p) (\<lambda>value.
       let chainType = (ucast value :: u8) in
       if chainType = ucast CARDANO_CHAIN_INTERNAL \<or> chainType = ucast CARDANO_CHAIN_EXTERNAL
       then Inr PATH_ORDINARY_PAYMENT_KEY
       else if chainType = ucast CARDANO_CHAIN_STAKING_KEY
       then if_path (bip44_isOrdinaryStakingKeyPath p) PATH_ORDINARY_STAKING_KEY
       else if chainType = ucast CARDANO_CHAIN_DREP_KEY
       then if_path (bip44_isDRepKeyPath p) PATH_DREP_KEY
       else if chainType = ucast CARDANO_CHAIN_COMMITTEE_COLD_KEY
       then if_path (bip44_isCommitteeColdKeyPath p) PATH_COMMITTEE_COLD_KEY
       else if chainType = ucast CARDANO_CHAIN_COMMITTEE_HOT_KEY
       then if_path (bip44_isCommitteeHotKeyPath p) PATH_COMMITTEE_HOT_KEY
       else Inr PATH_INVALID)
     else Inr PATH_INVALID))"

definition bip44_classifyMultisigWalletPath :: "bip44_path_t \<Rightarrow> bip44_path_type_t res" where
  "bip44_classifyMultisigWalletPath p =
     res_bind (res_bind (bip44_hasMultisigWalletKeyPrefix p) ASSERT) (\<lambda>_.
     if \<not> bip44_containsAccount p then Inr PATH_INVALID
     else res_bind (bip44_getAccount p) (\<lambda>account.
     if \<not> isHardened account then Inr PATH_INVALID
     else if path_length p = 3 then Inr PATH_MULTISIG_ACCOUNT
     else if path_length p = 5 then
       res_bind (bip44_getChainTypeValue p) (\<lambda>value.
       let chainType = (ucast value :: u8) in
       if chainType = ucast CARDANO_CHAIN_EXTERNAL
       then res_bind (bip44_getAddressValue p) (\<lambda>address.
         Inr (if isHardened address then PATH_INVALID else PATH_MULTISIG_PAYMENT_KEY))
       else if chainType = ucast CARDANO_CHAIN_STAKING_KEY
       then if_path (bip44_isMultisigStakingKeyPath p) PATH_MULTISIG_STAKING_KEY
       else Inr PATH_INVALID)
     else Inr PATH_INVALID))"

definition bip44_classifyCVotePath :: "bip44_path_t \<Rightarrow> bip44_path_type_t res" where
  "bip44_classifyCVotePath p =
     res_bind (res_bind (bip44_hasCVoteKeyPrefix p) ASSERT) (\<lambda>_.
     if \<not> bip44_containsAccount p then Inr PATH_INVALID
     else res_bind (bip44_getAccount p) (\<lambda>account.
     if \<not> isHardened account then Inr PATH_INVALID
     else if path_length p = 3 then Inr PATH_CVOTE_ACCOUNT
     else if path_length p = 5 then if_path (bip44_isCVoteKeyPath p) PATH_CVOTE_KEY
     else Inr PATH_INVALID))"

definition bip44_classifyPath :: "bip44_path_t \<Rightarrow> bip44_path_type_t res" where
  "bip44_classifyPath p =
     res_bind (bip44_hasOrdinaryWalletKeyPrefix p) (\<lambda>b.
     if b then bip44_classifyOrdinaryWalletPath p else
     res_bind (bip44_hasMultisigWalletKeyPrefix p) (\<lambda>b.
     if b then bip44_classifyMultisigWalletPath p else
     res_bind (bip44_hasMintKeyPrefix p) (\<lambda>b.
     if b then if_path (bip44_isMintKeyPath p) PATH_MINT_KEY else
     res_bind (bip44_hasPoolColdKeyPrefix p) (\<lambda>b.
     if b then if_path (bip44_isPoolColdKeyPath p) PATH_POOL_COLD_KEY else
     res_bind (bip44_hasCVoteKeyPrefix p) (\<lambda>b.
     if b then bip44_classifyCVotePath p else Inr PATH_INVALID)))))"

subsection \<open>Reasonable paths\<close>

definition bip44_hasReasonableAccount :: "bip44_path_t \<Rightarrow> bool res" where
  "bip44_hasReasonableAccount p =
     (if \<not> bip44_containsAccount p then Inr False
      else res_bind (bip44_getAccount p) (\<lambda>account.
        if \<not> isHardened account then Inr False
        else test (unharden account) (\<lambda>a. a \<le> MAX_REASONABLE_ACCOUNT)))"

definition bip44_hasReasonableMintPolicy :: "bip44_path_t \<Rightarrow> bool res" where
  "bip44_hasReasonableMintPolicy p =
     res_bind (bip44_isMintKeyPath p) (\<lambda>b.
     if \<not> b then Inr False
     else res_bind (bip44_getMintPolicy p) (\<lambda>i.
       if \<not> isHardened i then Inr False
       else test (unharden i) (\<lambda>a. a \<le> MAX_REASONABLE_MINT_POLICY_INDEX)))"

definition bip44_hasReasonablePoolColdKeyIndex :: "bip44_path_t \<Rightarrow> bool res" where
  "bip44_hasReasonablePoolColdKeyIndex p =
     res_bind (bip44_isPoolColdKeyPath p) (\<lambda>b.
     if \<not> b then Inr False
     else res_bind (bip44_getColdKeyIndex p) (\<lambda>i.
       if \<not> isHardened i then Inr False
       else test (unharden i) (\<lambda>a. a \<le> MAX_REASONABLE_COLD_KEY_INDEX)))"

definition bip44_hasReasonableAddress :: "bip44_path_t \<Rightarrow> bool res" where
  "bip44_hasReasonableAddress p =
     (if \<not> bip44_containsAddress p then Inr False
      else test (bip44_getAddressValue p) (\<lambda>a. a \<le> MAX_REASONABLE_ADDRESS))"

definition bip44_isConwayPathRecommended :: "bip44_path_t \<Rightarrow> bool res" where
  "bip44_isConwayPathRecommended p =
     res_bind (bip44_classifyPath p) (\<lambda>t.
     if t \<in> {PATH_DREP_KEY, PATH_COMMITTEE_COLD_KEY, PATH_COMMITTEE_HOT_KEY}
     then test (bip44_getAddressValue p) (\<lambda>a. a = 0)
     else Inl ERR_ASSERT)"

definition bip44_isPathReasonable :: "bip44_path_t \<Rightarrow> bool res" where
  "bip44_isPathReasonable p =
     res_bind (bip44_classifyPath p) (\<lambda>t. case t of
       PATH_ORDINARY_ACCOUNT \<Rightarrow> bip44_hasReasonableAccount p
     | PATH_MULTISIG_ACCOUNT \<Rightarrow> bip44_hasReasonableAccount p
     | PATH_ORDINARY_PAYMENT_KEY \<Rightarrow>
         and_then (bip44_hasReasonableAccount p) (bip44_hasReasonableAddress p)
     | PATH_MULTISIG_PAYMENT_KEY \<Rightarrow>
         and_then (bip44_hasReasonableAccount p) (bip44_hasReasonableAddress p)
     | PATH_ORDINARY_STAKING_KEY \<Rightarrow>
         and_then (bip44_hasReasonableAccount p) (bip44_hasReasonableAddress p)
     | PATH_MULTISIG_STAKING_KEY \<Rightarrow>
         and_then (bip44_hasReasonableAccount p) (bip44_hasReasonableAddress p)
     | PATH_DREP_KEY \<Rightarrow>
         and_then (and_then (bip44_hasReasonableAccount p) (bip44_hasReasonableAddress p))
           (bip44_isConwayPathRecommended p)
     | PATH_COMMITTEE_COLD_KEY \<Rightarrow>
         and_then (and_then (bip44_hasReasonableAccount p) (bip44_hasReasonableAddress p))
           (bip44_isConwayPathRecommended p)
     | PATH_COMMITTEE_HOT_KEY \<Rightarrow>
         and_then (and_then (bip44_hasReasonableAccount p) (bip44_hasReasonableAddress p))
           (bip44_isConwayPathRecommended p)
     | PATH_MINT_KEY \<Rightarrow> bip44_hasReasonableMintPolicy p
     | PATH_POOL_COLD_KEY \<Rightarrow> bip44_hasReasonablePoolColdKeyIndex p
     | PATH_CVOTE_ACCOUNT \<Rightarrow> bip44_hasReasonableAccount p
     | PATH_CVOTE_KEY \<Rightarrow>
         and_then (bip44_hasReasonableAccount p) (bip44_hasReasonableAddress p)
     | PATH_INVALID \<Rightarrow> Inl ERR_ASSERT)"

definition bip44_pathsEqual :: "bip44_path_t \<Rightarrow> bip44_path_t \<Rightarrow> bool res" where
  "bip44_pathsEqual lhs rhs =
     (if path_length lhs \<noteq> path_length rhs then Inr False
      else checks (map (\<lambda>i. equal_res (path_at lhs i) (path_at rhs i))
        [0..<unat (path_length lhs)]))"

subsection \<open>Printing\<close>

definition digit :: "nat \<Rightarrow> char" where
  "digit d = char_of (48 + d)"

fun decimal :: "nat \<Rightarrow> string" where
  "decimal n = (if n < 10 then [digit n] else decimal (n div 10) @ [digit (n mod 10)])"

declare decimal.simps [simp del]

text \<open>
  The macro \<open>WRITE\<close>: \<open>snprintf\<close> stores at most the available size less one characters, and the
  assertion demands that one more than what it stored fits.
\<close>

definition write_str :: "nat \<Rightarrow> string \<Rightarrow> string stmt" where
  "write_str outSize s out =
     (let availableSize = outSize - length out;
          stored = take (availableSize - 1) s
      in if length stored + 1 < availableSize then Inr (out @ stored) else Inl ERR_ASSERT)"

definition print_element :: "nat \<Rightarrow> u32 \<Rightarrow> string stmt" where
  "print_element outSize value =
     (if isHardened value
      then (\<lambda>out. res_bind (unharden value) (\<lambda>v.
        write_str outSize (''/'' @ decimal (unat v) @ [CHR 0x27]) out))
      else write_str outSize (''/'' @ decimal (unat value)))"

definition bip44_printToStr :: "bip44_path_t \<Rightarrow> nat \<Rightarrow> string res" where
  "bip44_printToStr p outSize =
     (if \<not> outSize < BUFFER_SIZE_PARANOIA then Inl ERR_ASSERT
      else if \<not> outSize \<ge> BIP44_PATH_STRING_SIZE_MAX + 1 then Inl ERR_ASSERT
      else res_bind (write_str outSize ''m'' []) (\<lambda>out.
        if \<not> unat (path_length p) \<le> length (path p) then Inl ERR_ASSERT
        else res_bind (seq (map (print_element outSize) (take (unat (path_length p)) (path p))) out) (\<lambda>out.
        if length out + 1 < outSize then Inr out else Inl ERR_ASSERT)))"

end
