(* ===== verification/Bip44Properties.thy ===== *)
theory Bip44Properties
  imports Bip44
begin

text \<open>
  The classification of derivation paths against a reference written from CIP-1852, CIP-1853,
  CIP-1854, CIP-1855 and CIP-36 as a function on the list of elements; the limits of reasonable
  paths; the wire format; and the printed form, which fits its buffer and identifies the path.
\<close>

subsection \<open>Hardened elements\<close>

lemma isHardened_bit: "isHardened v \<longleftrightarrow> bit v 31"
proof -
  have p: "(0x80000000 :: u32) = 2 ^ 31"
    by simp
  have "v OR 2 ^ 31 = v \<longleftrightarrow> bit v 31"
  proof
    assume "v OR 2 ^ 31 = v"
    then have "bit (v OR 2 ^ 31) 31 = bit v 31" by simp
    then show "bit v 31" by (simp add: bit_or_iff bit_exp_iff)
  next
    assume "bit v 31"
    then show "v OR 2 ^ 31 = v"
      by (intro bit_word_eqI) (auto simp only: bit_or_iff bit_exp_iff)
  qed
  then show ?thesis
    unfolding isHardened_def p by metis
qed

lemma bit_31_iff: "bit v 31 \<longleftrightarrow> 0x80000000 \<le> v" for v :: u32
proof -
  have "bit v 31 \<longleftrightarrow> odd (unat v div 2 ^ 31)"
    by (metis bit_iff_odd bit_unsigned_iff possible_bit_nat)
  also have "\<dots> \<longleftrightarrow> 2 ^ 31 \<le> unat v"
  proof -
    have "unat v < 2 ^ 32" using unsigned_less [of v, where ?'a = nat] by simp
    then have "unat v div 2 ^ 31 < 2" by (simp add: less_mult_imp_div_less)
    then show ?thesis by (cases "unat v div 2 ^ 31") (auto simp: div_eq_0_iff not_less[symmetric])
  qed
  finally show ?thesis by (simp add: word_le_nat_alt)
qed

lemma isHardened_iff: "isHardened v \<longleftrightarrow> 0x80000000 \<le> v"
  by (simp add: isHardened_bit bit_31_iff)

lemma harden_constants:
  "harden 0 = Inr 0x80000000" "harden 44 = Inr 0x8000002C" "harden 1852 = Inr 0x8000073C"
  "harden 1853 = Inr 0x8000073D" "harden 1854 = Inr 0x8000073E" "harden 1855 = Inr 0x8000073F"
  "harden 1694 = Inr 0x8000069E" "harden 1815 = Inr 0x80000717"
  by (simp_all add: harden_def isHardened_def)

subsection \<open>The reference classification\<close>

definition hard :: "u32 \<Rightarrow> bool" where
  "hard v \<longleftrightarrow> 0x80000000 \<le> v"

text \<open>
  Elements after the coin type, for the ordinary wallet (with Byron or Shelley purpose), the
  multisig wallet and the vote keys. The first test of \<open>ordinary_kind\<close> on a full path looks
  at the low byte of the chain only, as the code does.
\<close>

fun ordinary_kind :: "bool \<Rightarrow> u32 list \<Rightarrow> bip44_path_type_t" where
  "ordinary_kind shelley [account] = (if hard account then PATH_ORDINARY_ACCOUNT else PATH_INVALID)"
| "ordinary_kind shelley [account, chain, index] =
     (if \<not> hard account then PATH_INVALID
      else if chain AND 0xFF \<in> {0, 1} then PATH_ORDINARY_PAYMENT_KEY
      else if \<not> shelley \<or> hard index then PATH_INVALID
      else if chain = 2 then PATH_ORDINARY_STAKING_KEY
      else if chain = 3 then PATH_DREP_KEY
      else if chain = 4 then PATH_COMMITTEE_COLD_KEY
      else if chain = 5 then PATH_COMMITTEE_HOT_KEY
      else PATH_INVALID)"
| "ordinary_kind shelley _ = PATH_INVALID"

fun multisig_kind :: "u32 list \<Rightarrow> bip44_path_type_t" where
  "multisig_kind [account] = (if hard account then PATH_MULTISIG_ACCOUNT else PATH_INVALID)"
| "multisig_kind [account, chain, index] =
     (if \<not> hard account \<or> hard index then PATH_INVALID
      else if chain AND 0xFF = 0 then PATH_MULTISIG_PAYMENT_KEY
      else if chain = 2 then PATH_MULTISIG_STAKING_KEY
      else PATH_INVALID)"
| "multisig_kind _ = PATH_INVALID"

fun vote_kind :: "u32 list \<Rightarrow> bip44_path_type_t" where
  "vote_kind [account] = (if hard account then PATH_CVOTE_ACCOUNT else PATH_INVALID)"
| "vote_kind [account, chain, index] =
     (if hard account \<and> chain = 0 \<and> \<not> hard index then PATH_CVOTE_KEY else PATH_INVALID)"
| "vote_kind _ = PATH_INVALID"

fun mint_kind :: "u32 list \<Rightarrow> bip44_path_type_t" where
  "mint_kind [policy] = (if hard policy then PATH_MINT_KEY else PATH_INVALID)"
| "mint_kind _ = PATH_INVALID"

fun pool_kind :: "u32 list \<Rightarrow> bip44_path_type_t" where
  "pool_kind [usecase, index] =
     (if usecase = 0x80000000 \<and> hard index then PATH_POOL_COLD_KEY else PATH_INVALID)"
| "pool_kind _ = PATH_INVALID"

text \<open>Purposes: 44', 1852', 1854', 1855', 1853' and 1694'; coin type 1815'.\<close>

fun path_kind :: "u32 list \<Rightarrow> bip44_path_type_t" where
  "path_kind (purpose # coin # rest) =
     (if coin \<noteq> 0x80000717 then PATH_INVALID
      else if purpose = 0x8000002C then ordinary_kind False rest
      else if purpose = 0x8000073C then ordinary_kind True rest
      else if purpose = 0x8000073E then multisig_kind rest
      else if purpose = 0x8000073F then mint_kind rest
      else if purpose = 0x8000073D then pool_kind rest
      else if purpose = 0x8000069E then vote_kind rest
      else PATH_INVALID)"
| "path_kind _ = PATH_INVALID"

subsection \<open>The predicates never fail\<close>

definition path_ok :: "bip44_path_t \<Rightarrow> bool" where
  "path_ok p \<longleftrightarrow> length (path p) = 5 \<and> path_length p \<le> 5"

definition elements :: "bip44_path_t \<Rightarrow> u32 list" where
  "elements p = take (unat (path_length p)) (path p)"

abbreviation full :: "u32 \<Rightarrow> u32 \<Rightarrow> u32 \<Rightarrow> u32 \<Rightarrow> u32 \<Rightarrow> u32 \<Rightarrow> bip44_path_t" where
  "full a b c d e n \<equiv> \<lparr>path = [a, b, c, d, e], path_length = n\<rparr>"

lemma small_length: "n \<le> 5 \<Longrightarrow> n = 0 \<or> n = 1 \<or> n = 2 \<or> n = 3 \<or> n = 4 \<or> n = 5" for n :: u32
  by (simp add: word_le_nat_alt word_unat_eq_iff) linarith

lemma path_okE:
  assumes "path_ok p"
  obtains a b c d e n where "p = full a b c d e n" "n \<le> 5"
proof -
  have "length (path p) = Suc (Suc (Suc (Suc (Suc 0))))"
    using assms by (simp add: path_ok_def)
  then obtain a b c d e where "path p = [a, b, c, d, e]"
    by (auto simp: length_Suc_conv)
  then show ?thesis
    using that [of a b c d e "path_length p"] assms by (cases p) (simp add: path_ok_def)
qed

lemma path_at_full [simp]:
  "path_at (full a b c d e n) 0 = Inr a" "path_at (full a b c d e n) 1 = Inr b"
  "path_at (full a b c d e n) (Suc 0) = Inr b"
  "path_at (full a b c d e n) 2 = Inr c" "path_at (full a b c d e n) 3 = Inr d"
  "path_at (full a b c d e n) 4 = Inr e"
  by (simp_all add: path_at_def)

lemmas prefix_defs = bip44_hasByronPrefix_def bip44_hasShelleyPrefix_def
  bip44_hasMultisigWalletKeyPrefix_def bip44_hasMintKeyPrefix_def bip44_hasPoolColdKeyPrefix_def
  bip44_hasCVoteKeyPrefix_def

lemma prefix_simps [simp]:
  "bip44_hasByronPrefix (full a b c d e n) = Inr (1 < unat n \<and> a = 0x8000002C \<and> b = 0x80000717)"
  "bip44_hasShelleyPrefix (full a b c d e n) = Inr (1 < unat n \<and> a = 0x8000073C \<and> b = 0x80000717)"
  "bip44_hasMultisigWalletKeyPrefix (full a b c d e n) =
     Inr (1 < unat n \<and> a = 0x8000073E \<and> b = 0x80000717)"
  "bip44_hasMintKeyPrefix (full a b c d e n) = Inr (1 < unat n \<and> a = 0x8000073F \<and> b = 0x80000717)"
  "bip44_hasPoolColdKeyPrefix (full a b c d e n) = Inr (1 < unat n \<and> a = 0x8000073D \<and> b = 0x80000717)"
  "bip44_hasCVoteKeyPrefix (full a b c d e n) = Inr (1 < unat n \<and> a = 0x8000069E \<and> b = 0x80000717)"
  by (simp_all add: prefix_defs harden_constants)

lemma getter_simps [simp]:
  "2 < unat n \<Longrightarrow> bip44_getAccount (full a b c d e n) = Inr c"
  "2 < unat n \<Longrightarrow> bip44_getMintPolicy (full a b c d e n) = Inr c"
  "3 < unat n \<Longrightarrow> bip44_getColdKeyIndex (full a b c d e n) = Inr d"
  "3 < unat n \<Longrightarrow> bip44_getChainTypeValue (full a b c d e n) = Inr d"
  "4 < unat n \<Longrightarrow> bip44_getAddressValue (full a b c d e n) = Inr e"
  by (simp_all add: bip44_getAccount_def bip44_getMintPolicy_def bip44_getColdKeyIndex_def
      bip44_getChainTypeValue_def bip44_getAddressValue_def)

lemmas kind_defs = bip44_isOrdinaryStakingKeyPath_def bip44_isMultisigStakingKeyPath_def
  bip44_isDRepKeyPath_def bip44_isCommitteeColdKeyPath_def bip44_isCommitteeHotKeyPath_def
  bip44_isMintKeyPath_def bip44_isPoolColdKeyPath_def bip44_isCVoteKeyPath_def
  bip44_containsAddress_def bip44_containsMoreThanAddress_def bip44_containsAccount_def

lemma kind_simps [simp]:
  "bip44_isOrdinaryStakingKeyPath (full a b c d e n) = Inr (unat n = 5 \<and> a = 0x8000073C \<and>
     b = 0x80000717 \<and> hard c \<and> d = 2 \<and> \<not> hard e)"
  "bip44_isMultisigStakingKeyPath (full a b c d e n) = Inr (unat n = 5 \<and> a = 0x8000073E \<and>
     b = 0x80000717 \<and> hard c \<and> d = 2 \<and> \<not> hard e)"
  "bip44_isDRepKeyPath (full a b c d e n) = Inr (unat n = 5 \<and> a = 0x8000073C \<and>
     b = 0x80000717 \<and> hard c \<and> d = 3 \<and> \<not> hard e)"
  "bip44_isCommitteeColdKeyPath (full a b c d e n) = Inr (unat n = 5 \<and> a = 0x8000073C \<and>
     b = 0x80000717 \<and> hard c \<and> d = 4 \<and> \<not> hard e)"
  "bip44_isCommitteeHotKeyPath (full a b c d e n) = Inr (unat n = 5 \<and> a = 0x8000073C \<and>
     b = 0x80000717 \<and> hard c \<and> d = 5 \<and> \<not> hard e)"
  "bip44_isMintKeyPath (full a b c d e n) = Inr (unat n = 3 \<and> a = 0x8000073F \<and>
     b = 0x80000717 \<and> hard c)"
  "bip44_isPoolColdKeyPath (full a b c d e n) = Inr (unat n = 4 \<and> a = 0x8000073D \<and>
     b = 0x80000717 \<and> c = 0x80000000 \<and> hard d)"
  "bip44_isCVoteKeyPath (full a b c d e n) = Inr (unat n = 5 \<and> a = 0x8000069E \<and>
     b = 0x80000717 \<and> hard c \<and> d = 0 \<and> \<not> hard e)"
  by (auto simp: kind_defs isHardened_iff hard_def harden_constants)

lemma low_byte: "(ucast d :: u8) = ucast (k :: u32) \<longleftrightarrow> d AND 0xFF = k AND 0xFF" for d :: u32
proof -
  have m: "(0xFF :: u32) = mask 8"
    by (simp add: mask_numeral)
  have "(ucast d :: u8) = ucast k \<longleftrightarrow> (\<forall>n < 8. bit d n = bit k n)"
    by (auto simp: bit_eq_iff bit_ucast_iff)
  also have "\<dots> \<longleftrightarrow> d AND 0xFF = k AND 0xFF"
    unfolding m
  proof
    assume e: "d AND mask 8 = k AND mask 8"
    show "\<forall>n<8. bit d n = bit k n"
    proof (intro allI impI)
      fix n :: nat assume "n < 8"
      moreover have "bit (d AND mask 8) n = bit (k AND mask 8) n"
        by (simp only: e)
      ultimately show "bit d n = bit k n"
        by (simp add: bit_and_iff bit_mask_iff)
    qed
  qed (auto simp: bit_eq_iff bit_and_iff bit_mask_iff)
  finally show ?thesis .
qed

lemma wallet_prefix_simp [simp]:
  "bip44_hasOrdinaryWalletKeyPrefix (full a b c d e n) =
   Inr (1 < unat n \<and> (a = 0x8000002C \<or> a = 0x8000073C) \<and> b = 0x80000717)"
  by (auto simp: bip44_hasOrdinaryWalletKeyPrefix_def)

lemmas chain_simps = low_byte [of _ 0, simplified] low_byte [of _ 1, simplified]
  low_byte [of _ 2, simplified] low_byte [of _ 3, simplified] low_byte [of _ 4, simplified]
  low_byte [of _ 5, simplified]

lemma longer_length: "n \<le> 5 \<Longrightarrow> 1 < unat n \<Longrightarrow> n = 2 \<or> n = 3 \<or> n = 4 \<or> n = 5" for n :: u32
  using small_length [of n] by auto

lemma ordinary_simp:
  assumes "n \<le> 5" "1 < unat n" "b = 0x80000717" "a = 0x8000002C \<or> a = 0x8000073C"
  shows "bip44_classifyOrdinaryWalletPath (full a b c d e n) =
    Inr (ordinary_kind (a = 0x8000073C) (take (unat n - 2) [c, d, e]))"
  using longer_length [OF assms(1,2)] assms(3,4)
  by (elim disjE) (auto simp: bip44_classifyOrdinaryWalletPath_def
      bip44_containsAccount_def isHardened_iff hard_def Let_def if_path_def chain_simps)

lemma multisig_simp:
  assumes "n \<le> 5" "1 < unat n" "b = 0x80000717" "a = 0x8000073E"
  shows "bip44_classifyMultisigWalletPath (full a b c d e n) =
    Inr (multisig_kind (take (unat n - 2) [c, d, e]))"
  using longer_length [OF assms(1,2)] assms(3,4)
  by (elim disjE) (auto simp: bip44_classifyMultisigWalletPath_def
      bip44_containsAccount_def isHardened_iff hard_def Let_def if_path_def chain_simps)

lemma vote_simp:
  assumes "n \<le> 5" "1 < unat n" "b = 0x80000717" "a = 0x8000069E"
  shows "bip44_classifyCVotePath (full a b c d e n) =
    Inr (vote_kind (take (unat n - 2) [c, d, e]))"
  using longer_length [OF assms(1,2)] assms(3,4)
  by (elim disjE) (auto simp: bip44_classifyCVotePath_def
      bip44_containsAccount_def isHardened_iff hard_def if_path_def)

lemma elements_full:
  assumes "n \<le> 5" "1 < unat n"
  shows "elements (full a b c d e n) = a # b # take (unat n - 2) [c, d, e]"
  using longer_length [OF assms] by (elim disjE) (simp_all add: elements_def)

lemma mint_pool_kinds:
  assumes "n \<le> 5" "1 < unat (n :: u32)"
  shows "mint_kind (take (unat n - 2) [c, d, e]) = (if unat n = 3 \<and> hard c then PATH_MINT_KEY else PATH_INVALID)"
    "pool_kind (take (unat n - 2) [c, d, e]) =
      (if unat n = 4 \<and> c = 0x80000000 \<and> hard d then PATH_POOL_COLD_KEY else PATH_INVALID)"
  using longer_length [OF assms] by auto

lemma short_invalid: "length xs \<le> 1 \<Longrightarrow> path_kind xs = PATH_INVALID"
  by (cases xs rule: path_kind.cases) auto

lemma classify_full:
  assumes "n \<le> 5"
  shows "bip44_classifyPath (full a b c d e n) = Inr (path_kind (elements (full a b c d e n)))"
proof (cases "1 < unat n")
  case False
  then have "length (elements (full a b c d e n)) \<le> 1"
    by (simp add: elements_def)
  then show ?thesis
    using False by (simp add: bip44_classifyPath_def short_invalid)
next
  case True
  note long = assms True
  show ?thesis
    unfolding elements_full [OF long] using True
    by (auto simp: bip44_classifyPath_def if_path_def ordinary_simp [OF long] multisig_simp [OF long]
        vote_simp [OF long] mint_pool_kinds [OF long])
qed

lemma classify_ok:
  assumes "path_ok p"
  shows "bip44_classifyPath p = Inr (path_kind (elements p))"
proof -
  obtain a b c d e n where "p = full a b c d e n" "n \<le> 5"
    using path_okE [OF assms] .
  then show ?thesis by (simp add: classify_full)
qed

subsection \<open>Reasonable paths\<close>

text \<open>The limits: account 100', address index 1000000, and 1000000' for mint policies and pool keys.\<close>

definition reasonable :: "u32 list \<Rightarrow> bool" where
  "reasonable xs =
     (let account = xs ! 2 \<le> 0x80000064; address = xs ! 4 \<le> 1000000
      in case path_kind xs of
        PATH_INVALID \<Rightarrow> False
      | PATH_MINT_KEY \<Rightarrow> xs ! 2 \<le> 0x800F4240
      | PATH_POOL_COLD_KEY \<Rightarrow> xs ! 3 \<le> 0x800F4240
      | PATH_ORDINARY_ACCOUNT \<Rightarrow> account
      | PATH_MULTISIG_ACCOUNT \<Rightarrow> account
      | PATH_CVOTE_ACCOUNT \<Rightarrow> account
      | PATH_DREP_KEY \<Rightarrow> account \<and> xs ! 4 = 0
      | PATH_COMMITTEE_COLD_KEY \<Rightarrow> account \<and> xs ! 4 = 0
      | PATH_COMMITTEE_HOT_KEY \<Rightarrow> account \<and> xs ! 4 = 0
      | _ \<Rightarrow> account \<and> address)"

lemma unharden_hard:
  assumes "hard v"
  shows "unharden v = Inr (v - 0x80000000)"
proof -
  have "bit v 31"
    using assms bit_31_iff [of v] by (simp add: hard_def)
  define m :: u32 where "m = 2 ^ 31"
  have "(v AND NOT m) AND m = 0"
    by (intro bit_word_eqI) (auto simp: bit_and_iff bit_not_iff)
  moreover have "(v AND NOT m) OR m = v"
    using \<open>bit v 31\<close> by (intro bit_word_eqI)
      (auto simp only: m_def bit_and_iff bit_or_iff bit_not_iff bit_exp_iff possible_bit_word)
  ultimately have "v = (v AND NOT m) + m"
    using word_plus_and_or [of "v AND NOT m" m] by simp
  then have "v AND NOT 0x80000000 = v - 0x80000000"
    by (simp add: m_def eq_diff_eq)
  then show ?thesis
    using assms by (simp add: unharden_def isHardened_iff hard_def)
qed

lemma unharden_le:
  assumes "hard v" "k < 0x80000000"
  shows "test (unharden v) (\<lambda>a. a \<le> k) = Inr (v \<le> 0x80000000 + k)"
proof -
  have "0x80000000 \<le> v"
    using assms(1) by (simp add: hard_def)
  then have "v - 0x80000000 \<le> k \<longleftrightarrow> v \<le> 0x80000000 + k"
    using assms(2) by unat_arith auto
  then show ?thesis
    by (simp add: unharden_hard [OF assms(1)])
qed

lemma address_simp:
  "4 < unat n \<Longrightarrow> bip44_hasReasonableAddress (full a b c d e n) = Inr (e \<le> 1000000)"
  by (simp add: bip44_hasReasonableAddress_def bip44_containsAddress_def)

lemma account_simp:
  "2 < unat n \<Longrightarrow> hard c \<Longrightarrow> bip44_hasReasonableAccount (full a b c d e n) = Inr (c \<le> 0x80000064)"
  by (simp add: bip44_hasReasonableAccount_def bip44_containsAccount_def unharden_le isHardened_iff hard_def)

lemma mint_reasonable_simp:
  "unat n = 3 \<Longrightarrow> hard c \<Longrightarrow> a = 0x8000073F \<Longrightarrow> b = 0x80000717 \<Longrightarrow>
   bip44_hasReasonableMintPolicy (full a b c d e n) = Inr (c \<le> 0x800F4240)"
  by (simp add: bip44_hasReasonableMintPolicy_def unharden_le isHardened_iff hard_def)

lemma pool_reasonable_simp:
  "unat n = 4 \<Longrightarrow> hard d \<Longrightarrow> a = 0x8000073D \<Longrightarrow> b = 0x80000717 \<Longrightarrow> c = 0x80000000 \<Longrightarrow>
   bip44_hasReasonablePoolColdKeyIndex (full a b c d e n) = Inr (d \<le> 0x800F4240)"
  by (simp add: bip44_hasReasonablePoolColdKeyIndex_def unharden_le isHardened_iff hard_def)

text \<open>What a classification says about the shape of the path.\<close>

lemma ordinary_kind_shape:
  "ordinary_kind s xs = k \<Longrightarrow> k \<noteq> PATH_INVALID \<Longrightarrow>
   (k = PATH_ORDINARY_ACCOUNT \<and> length xs = 1 \<or>
    k \<in> {PATH_ORDINARY_PAYMENT_KEY, PATH_ORDINARY_STAKING_KEY, PATH_DREP_KEY, PATH_COMMITTEE_COLD_KEY,
      PATH_COMMITTEE_HOT_KEY} \<and> length xs = 3) \<and> hard (hd xs)"
  by (induction s xs rule: ordinary_kind.induct) (auto split: if_splits)

lemma multisig_kind_shape:
  "multisig_kind xs = k \<Longrightarrow> k \<noteq> PATH_INVALID \<Longrightarrow>
   (k = PATH_MULTISIG_ACCOUNT \<and> length xs = 1 \<or>
    k \<in> {PATH_MULTISIG_PAYMENT_KEY, PATH_MULTISIG_STAKING_KEY} \<and> length xs = 3) \<and> hard (hd xs)"
  by (induction xs rule: multisig_kind.induct) (auto split: if_splits)

lemma vote_kind_shape:
  "vote_kind xs = k \<Longrightarrow> k \<noteq> PATH_INVALID \<Longrightarrow>
   (k = PATH_CVOTE_ACCOUNT \<and> length xs = 1 \<or> k = PATH_CVOTE_KEY \<and> length xs = 3) \<and> hard (hd xs)"
  by (induction xs rule: vote_kind.induct) (auto split: if_splits)

lemma mint_kind_shape:
  "mint_kind xs = k \<Longrightarrow> k \<noteq> PATH_INVALID \<Longrightarrow> k = PATH_MINT_KEY \<and> length xs = 1 \<and> hard (hd xs)"
  by (induction xs rule: mint_kind.induct) (auto split: if_splits)

lemma pool_kind_shape:
  "pool_kind xs = k \<Longrightarrow> k \<noteq> PATH_INVALID \<Longrightarrow>
   k = PATH_POOL_COLD_KEY \<and> length xs = 2 \<and> xs ! 0 = 0x80000000 \<and> hard (xs ! 1)"
  by (induction xs rule: pool_kind.induct) (auto split: if_splits)

lemma path_kind_shape:
  assumes "path_kind (a # b # xs) = k" "k \<noteq> PATH_INVALID"
  shows "case k of
      PATH_MINT_KEY \<Rightarrow> length xs = 1 \<and> hard (hd xs) \<and> a = 0x8000073F \<and> b = 0x80000717
    | PATH_POOL_COLD_KEY \<Rightarrow> length xs = 2 \<and> xs ! 0 = 0x80000000 \<and> hard (xs ! 1) \<and>
        a = 0x8000073D \<and> b = 0x80000717
    | PATH_ORDINARY_ACCOUNT \<Rightarrow> length xs = 1 \<and> hard (hd xs)
    | PATH_MULTISIG_ACCOUNT \<Rightarrow> length xs = 1 \<and> hard (hd xs)
    | PATH_CVOTE_ACCOUNT \<Rightarrow> length xs = 1 \<and> hard (hd xs)
    | _ \<Rightarrow> length xs = 3 \<and> hard (hd xs)"
proof -
  have k: "ordinary_kind False xs = k \<and> a = 0x8000002C \<or> ordinary_kind True xs = k \<and> a = 0x8000073C \<or>
      multisig_kind xs = k \<or> mint_kind xs = k \<and> a = 0x8000073F \<or>
      pool_kind xs = k \<and> a = 0x8000073D \<or> vote_kind xs = k" and "b = 0x80000717"
    using assms by (auto split: if_splits)
  then show ?thesis
    using ordinary_kind_shape [of False xs k] ordinary_kind_shape [of True xs k]
      multisig_kind_shape [of xs k] mint_kind_shape [of xs k] pool_kind_shape [of xs k]
      vote_kind_shape [of xs k] assms(2)
    by (elim disjE conjE) (auto split: bip44_path_type_t.split)
qed

lemma reasonable_full:
  assumes "n \<le> 5" "path_kind (elements (full a b c d e n)) \<noteq> PATH_INVALID"
  shows "bip44_isPathReasonable (full a b c d e n) = Inr (reasonable (elements (full a b c d e n)))"
proof -
  let ?p = "full a b c d e n" and ?xs = "take (unat n - 2) [c, d, e]"
  have "1 < unat n"
    using assms(2) short_invalid [of "elements ?p"] by (force simp: elements_def)
  note long = assms(1) this
  note el = elements_full [OF long, of a b c d e]
  define k where "k = path_kind (elements ?p)"
  have cl: "bip44_classifyPath ?p = Inr k"
    unfolding k_def by (rule classify_full [OF assms(1)])
  have shape: "case k of
      PATH_MINT_KEY \<Rightarrow> length ?xs = 1 \<and> hard (hd ?xs) \<and> a = 0x8000073F \<and> b = 0x80000717
    | PATH_POOL_COLD_KEY \<Rightarrow> length ?xs = 2 \<and> ?xs ! 0 = 0x80000000 \<and> hard (?xs ! 1) \<and>
        a = 0x8000073D \<and> b = 0x80000717
    | PATH_ORDINARY_ACCOUNT \<Rightarrow> length ?xs = 1 \<and> hard (hd ?xs)
    | PATH_MULTISIG_ACCOUNT \<Rightarrow> length ?xs = 1 \<and> hard (hd ?xs)
    | PATH_CVOTE_ACCOUNT \<Rightarrow> length ?xs = 1 \<and> hard (hd ?xs)
    | _ \<Rightarrow> length ?xs = 3 \<and> hard (hd ?xs)"
    using path_kind_shape [of a b ?xs k] assms(2) unfolding k_def el by simp
  have conway: "k \<in> {PATH_DREP_KEY, PATH_COMMITTEE_COLD_KEY, PATH_COMMITTEE_HOT_KEY} \<Longrightarrow> 4 < unat n \<Longrightarrow>
      bip44_isConwayPathRecommended ?p = Inr (e = 0)"
    by (simp add: bip44_isConwayPathRecommended_def cl)
  have n: "n = 2 \<or> n = 3 \<or> n = 4 \<or> n = 5"
    by (rule longer_length [OF long])
  have "k \<noteq> PATH_INVALID"
    using assms(2) by (simp add: k_def)
  then show ?thesis
    using shape n conway unfolding bip44_isPathReasonable_def cl reasonable_def k_def [symmetric] Let_def
    by (cases k) (auto simp: elements_def account_simp address_simp mint_reasonable_simp
        pool_reasonable_simp)
qed

lemma isPathReasonable_ok:
  assumes "path_ok p"
  shows "bip44_isPathReasonable p =
    (if path_kind (elements p) = PATH_INVALID then Inl ERR_ASSERT else Inr (reasonable (elements p)))"
proof (cases "path_kind (elements p) = PATH_INVALID")
  case True
  then show ?thesis
    using classify_ok [OF assms] by (simp add: bip44_isPathReasonable_def)
next
  case False
  obtain a b c d e n where "p = full a b c d e n" "n \<le> 5"
    using path_okE [OF assms] .
  then show ?thesis
    using False reasonable_full by simp
qed

subsection \<open>The wire format\<close>

definition encode_path :: "u32 list \<Rightarrow> bytes" where
  "encode_path xs = word_of_nat (length xs) # concat (map (\<lambda>x. be_write 4 (unat x)) xs)"

lemma length_encoded: "length (concat (map (\<lambda>x. be_write 4 (unat x)) xs)) = 4 * length xs"
  by (induction xs) auto

lemma read_encoded:
  "u4be_read (pre @ be_write 4 (unat x) @ post) (length pre) = Inr x"
  using word_be_read_write [of x 4] unsigned_less [of x, where ?'a = nat]
  by (simp add: u4be_read_def)

lemma parse_encoded:
  "i + length xs \<le> length ys \<Longrightarrow>
   parse_elements (pre @ concat (map (\<lambda>x. be_write 4 (unat x)) xs) @ post) (length xs) i (length pre) ys =
     Inr (length pre + 4 * length xs, take i ys @ xs @ drop (i + length xs) ys)"
proof (induction xs arbitrary: i pre ys)
  case (Cons x xs)
  have r: "u4be_read (pre @ concat (map (\<lambda>x. be_write 4 (unat x)) (x # xs)) @ post) (length pre) = Inr x"
    using read_encoded [of pre x "concat (map (\<lambda>x. be_write 4 (unat x)) xs) @ post"] by simp
  have "parse_elements ((pre @ be_write 4 (unat x)) @ concat (map (\<lambda>x. be_write 4 (unat x)) xs) @ post)
      (length xs) (i + 1) (length (pre @ be_write 4 (unat x))) (ys[i := x]) =
      Inr (length (pre @ be_write 4 (unat x)) + 4 * length xs,
        take (i + 1) (ys[i := x]) @ xs @ drop (i + 1 + length xs) (ys[i := x]))"
    by (rule Cons.IH) (use Cons.prems in simp)
  moreover have "take (i + 1) (ys[i := x]) = take i ys @ [x]"
    using Cons.prems by (simp add: take_Suc_conv_app_nth)
  ultimately show ?case
    using r Cons.prems by simp
qed simp

lemma parse_in_bounds:
  "i + n \<le> length ys \<Longrightarrow> offset + 4 * n \<le> length buf \<Longrightarrow>
   \<exists>xs. parse_elements buf n i offset ys = Inr (offset + 4 * n, xs) \<and> length xs = length ys"
proof (induction buf n i offset ys rule: parse_elements.induct)
  case (2 buf n i offset xs)
  then obtain v where "u4be_read buf offset = Inr v"
    by (simp add: u4be_read_def)
  then show ?case
    using "2.IH" [of v] "2.prems" by (simp add: add.assoc)
qed simp

subsection \<open>The printed form\<close>

definition show_element :: "u32 \<Rightarrow> string" where
  "show_element v = (if hard v then decimal (unat v - 2 ^ 31) @ [CHR 0x27] else decimal (unat v))"

definition show_path :: "u32 list \<Rightarrow> string" where
  "show_path xs = CHR ''m'' # concat (map (\<lambda>v. CHR ''/'' # show_element v) xs)"

lemma decimal_small: "n < 10 \<Longrightarrow> decimal n = [digit n]"
  by (subst decimal.simps) simp

lemma decimal_large: "10 \<le> n \<Longrightarrow> decimal n = decimal (n div 10) @ [digit (n mod 10)]"
  by (subst decimal.simps) simp

lemma length_decimal: "0 < k \<Longrightarrow> n < 10 ^ k \<Longrightarrow> length (decimal n) \<le> k"
proof (induction n arbitrary: k rule: decimal.induct)
  case (1 n)
  show ?case
  proof (cases "n < 10")
    case True
    then show ?thesis using 1 by (simp add: decimal_small)
  next
    case False
    obtain j where "k = Suc j"
      using "1.prems"(1) gr0_implies_Suc by blast
    moreover have "j \<noteq> 0"
      using False "1.prems"(2) calculation by (intro notI) simp
    ultimately have j: "k = Suc j" "0 < j"
      by simp_all
    then have "n div 10 < 10 ^ j"
      using "1.prems" by (simp add: less_mult_imp_div_less mult.commute)
    then show ?thesis
      using "1.IH" [OF False j(2)] False j(1) by (simp add: decimal_large)
  qed
qed

definition digits :: "string \<Rightarrow> bool" where
  "digits s \<longleftrightarrow> (\<forall>c \<in> set s. \<exists>d < 10. c = digit d)"

lemma digits_decimal: "digits (decimal n)"
proof (induction n rule: decimal.induct)
  case (1 n)
  show ?case
  proof (cases "n < 10")
    case True
    then show ?thesis by (auto simp: decimal_small digits_def)
  next
    case False
    moreover have "\<exists>d < 10. digit (n mod 10) = digit d"
      by (rule exI [of _ "n mod 10"]) simp
    ultimately show ?thesis
      using "1.IH" by (simp add: decimal_large digits_def)
  qed
qed

lemma of_char_digit: "d < 10 \<Longrightarrow> (of_char (digit d) :: nat) = 48 + d"
  by (simp add: digit_def take_bit_nat_eq_self)

definition undecimal :: "string \<Rightarrow> nat" where
  "undecimal s = foldl (\<lambda>a c. a * 10 + (of_char c - 48)) 0 s"

lemma undecimal_decimal: "undecimal (decimal n) = n"
proof (induction n rule: decimal.induct)
  case (1 n)
  show ?case
  proof (cases "n < 10")
    case True
    then show ?thesis by (simp add: decimal_small undecimal_def of_char_digit)
  next
    case False
    then show ?thesis
      using "1.IH" by (simp add: decimal_large undecimal_def of_char_digit)
  qed
qed

lemma decimal_inject: "decimal n = decimal m \<longleftrightarrow> n = m"
  by (metis undecimal_decimal)

lemma digit_neq: "d < 10 \<Longrightarrow> digit d \<noteq> CHR ''/'' \<and> digit d \<noteq> CHR 0x27"
proof -
  assume "d < 10"
  then have "d \<in> {0, 1, 2, 3, 4, 5, 6, 7, 8, 9}" by auto
  then show ?thesis by (auto simp: digit_def char_of_def)
qed

lemma digits_no: "digits s \<Longrightarrow> CHR ''/'' \<notin> set s" "digits s \<Longrightarrow> CHR 0x27 \<notin> set s"
  unfolding digits_def using digit_neq by metis+

lemma show_element_inject:
  assumes "show_element v = show_element w"
  shows "v = w"
proof -
  have no: "CHR 0x27 \<notin> set (decimal n)" for n
    using digits_no(2) [OF digits_decimal] .
  have "hard v = hard w"
    using arg_cong [OF assms, of "\<lambda>s. CHR 0x27 \<in> set s"] no by (auto simp: show_element_def split: if_splits)
  moreover have "unat v = unat w" if "hard v" "hard w"
    using assms that by (auto simp: show_element_def decimal_inject hard_def word_le_nat_alt)
  ultimately show ?thesis
    using assms by (cases "hard v") (auto simp: show_element_def decimal_inject word_unat_eq_iff)
qed

lemma show_element_no_slash: "CHR ''/'' \<notin> set (show_element v)"
  using digits_no(1) [OF digits_decimal] by (auto simp: show_element_def)

lemma split_at_slash:
  assumes "CHR ''/'' \<notin> set s" "CHR ''/'' \<notin> set t" "r = [] \<or> hd r = CHR ''/''"
    "q = [] \<or> hd q = CHR ''/''" "s @ r = t @ q"
  shows "s = t \<and> r = q"
proof -
  have *: "takeWhile (\<lambda>c. c \<noteq> CHR ''/'') (u @ x) = u"
    if "CHR ''/'' \<notin> set u" "x = [] \<or> hd x = CHR ''/''" for u x :: string
    using that by (subst takeWhile_append2) (auto simp: takeWhile_eq_Nil_iff)
  have "s = t"
    using * [OF assms(1,3)] * [OF assms(2,4)] assms(5) by simp
  then show ?thesis
    using assms(5) by simp
qed

lemma show_path_inject: "show_path xs = show_path ys \<Longrightarrow> xs = ys"
proof (induction xs arbitrary: ys)
  case Nil
  then show ?case by (cases ys) (simp_all add: show_path_def)
next
  case (Cons x xs)
  then obtain y zs where y: "ys = y # zs"
    by (cases ys) (simp_all add: show_path_def)
  let ?r = "\<lambda>xs. concat (map (\<lambda>v. CHR ''/'' # show_element v) xs)"
  have r: "?r zs = [] \<or> hd (?r zs) = CHR ''/''" for zs
    by (cases zs) auto
  have "show_element x = show_element y \<and> ?r xs = ?r zs"
    by (rule split_at_slash [OF show_element_no_slash show_element_no_slash r r])
      (use Cons.prems y in \<open>simp add: show_path_def\<close>)
  then show ?case
    using show_element_inject Cons.IH [of zs] y by (simp add: show_path_def)
qed

text \<open>Every write of the printer fits, so it prints \<open>show_path\<close>.\<close>

lemma write_str_fits: "length out + length s + 1 < n \<Longrightarrow> write_str n s out = Inr (out @ s)"
  by (simp add: write_str_def Let_def)

lemma unharden_unat: "hard v \<Longrightarrow> unat (v - 0x80000000) = unat v - 2 ^ 31"
  by (simp add: hard_def unat_sub)

lemma length_show_element: "length (show_element v) \<le> 11"
proof -
  have "unat v < 10 ^ 10"
    using unsigned_less [of v, where ?'a = nat] by simp
  then have "length (decimal (unat v)) \<le> 10" "length (decimal (unat v - 2 ^ 31)) \<le> 10"
    by (auto intro: length_decimal)
  then show ?thesis
    by (auto simp: show_element_def)
qed

lemma print_element_fits:
  assumes "length out + 13 < n"
  shows "print_element n v out = Inr (out @ CHR ''/'' # show_element v)"
proof (cases "hard v")
  case True
  note u = unharden_hard [OF True] unharden_unat [OF True]
  then show ?thesis
    using True length_show_element [of v] assms
    by (simp add: print_element_def isHardened_iff hard_def write_str_fits show_element_def)
next
  case False
  then show ?thesis
    using length_show_element [of v] assms
    by (simp add: print_element_def isHardened_iff hard_def write_str_fits show_element_def)
qed

lemma print_elements:
  "length out + 12 * length xs + 1 < n \<Longrightarrow>
   seq (map (print_element n) xs) out = Inr (out @ concat (map (\<lambda>v. CHR ''/'' # show_element v) xs)) \<and>
   length (concat (map (\<lambda>v. CHR ''/'' # show_element v) xs)) \<le> 12 * length xs"
proof (induction xs arbitrary: out)
  case (Cons x xs)
  have "print_element n x out = Inr (out @ CHR ''/'' # show_element x)"
    by (rule print_element_fits) (use Cons.prems in simp)
  then show ?case
    using Cons.IH [of "out @ CHR ''/'' # show_element x"] Cons.prems length_show_element [of x] by simp
qed simp

lemma printToStr_ok:
  assumes "path_ok p" "63 \<le> n" "n < 1024"
  shows "bip44_printToStr p n = Inr (show_path (elements p))" "length (show_path (elements p)) \<le> 61"
proof -
  have l: "length (elements p) \<le> 5" "unat (path_length p) \<le> length (path p)"
    using assms(1) by (simp_all add: path_ok_def elements_def word_le_nat_alt)
  have s: "seq (map (print_element n) (elements p)) ''m'' = Inr (show_path (elements p))"
    and len: "length (show_path (elements p)) \<le> 61"
    using print_elements [of "''m''" "elements p" n] l(1) assms(2) by (auto simp: show_path_def)
  show "bip44_printToStr p n = Inr (show_path (elements p))"
    using s len l assms(2,3) by (simp add: bip44_printToStr_def write_str_fits elements_def)
  show "length (show_path (elements p)) \<le> 61"
    by (rule len)
qed

subsection \<open>Properties\<close>

text \<open>
  C16. The classification agrees with the reference on every path of up to five elements, and no
  assertion or array bound fails on the way.
\<close>

theorem classify_reference:
  assumes "path_ok p"
  shows "bip44_classifyPath p = Inr (path_kind (elements p))"
  using assms by (rule classify_ok)

definition sample_path :: bip44_path_t where
  "sample_path = \<lparr>path = [0x8000073C, 0x80000717, 0x80000000, 2, 0], path_length = 5\<rparr>"

lemma sample_path_ok: "path_ok sample_path"
  by (simp add: path_ok_def sample_path_def)

lemma classify_reference_witness:
  "bip44_classifyPath sample_path = Inr PATH_ORDINARY_STAKING_KEY"
proof -
  have "path_kind (elements sample_path) = PATH_ORDINARY_STAKING_KEY"
    by (simp add: elements_def sample_path_def hard_def)
  then show ?thesis
    using classify_reference [OF sample_path_ok] by simp
qed

text \<open>
  C32. A path is checked for being reasonable without any failure exactly when it is of a known
  kind; the answer is then that of the limits on account, index, mint policy and pool key.
\<close>

theorem reasonable_limits:
  assumes "path_ok p"
  shows "bip44_isPathReasonable p =
    (if path_kind (elements p) = PATH_INVALID then Inl ERR_ASSERT else Inr (reasonable (elements p)))"
  using assms by (rule isPathReasonable_ok)

lemma reasonable_limits_witness: "bip44_isPathReasonable sample_path = Inr True"
proof -
  have "path_kind (elements sample_path) = PATH_ORDINARY_STAKING_KEY"
    "reasonable (elements sample_path)"
    by (simp_all add: elements_def sample_path_def hard_def reasonable_def)
  then show ?thesis
    using reasonable_limits [OF sample_path_ok] by simp
qed

lemma parse_encoded_path:
  assumes "length xs \<le> 5" "length (path p) = 5"
  shows "\<exists>q. bip44_parseFromWire (encode_path xs @ rest) p = Inr (1 + 4 * length xs, q) \<and>
    elements q = xs \<and> path_ok q"
proof -
  let ?n = "word_of_nat (length xs) :: u8"
  let ?ys = "xs @ drop (length xs) (path p)"
  have n: "unat ?n = length xs"
    using assms(1) by (simp add: unat_of_nat take_bit_nat_eq_self_iff)
  then have n32: "unat (ucast ?n :: u32) = length xs"
    using assms(1) by (simp add: unat_of_nat unsigned_ucast_eq take_bit_nat_eq_self_iff)
  have "parse_elements ([?n] @ concat (map (\<lambda>x. be_write 4 (unat x)) xs) @ rest) (length xs) 0
      (length [?n]) (path p) = Inr (length [?n] + 4 * length xs, take 0 (path p) @ xs @ drop (0 + length xs) (path p))"
    by (rule parse_encoded) (use assms in simp)
  then have "parse_elements (encode_path xs @ rest) (length xs) 0 1 (path p) =
      Inr (1 + 4 * length xs, ?ys)"
    by (simp add: encode_path_def)
  moreover have "bip44_check_path (encode_path xs @ rest)"
    using assms(1) n by (simp add: bip44_check_path_def encode_path_def length_encoded)
  ultimately have "bip44_parseFromWire (encode_path xs @ rest) p =
      Inr (1 + 4 * length xs, p\<lparr>path := ?ys, path_length := ucast ?n\<rparr>)"
    by (simp add: bip44_parseFromWire_def encode_path_def n)
  moreover have "path_ok (p\<lparr>path := ?ys, path_length := ucast ?n\<rparr>)"
    using assms n32 by (simp add: path_ok_def word_le_nat_alt)
  moreover have "elements (p\<lparr>path := ?ys, path_length := ucast ?n\<rparr>) = xs"
    using n32 by (simp add: elements_def)
  ultimately show ?thesis by blast
qed

text \<open>
  C29. Reading a path from the wire gives back the encoded elements and the number of bytes
  consumed, whatever follows them.
\<close>

theorem path_wire_roundtrip:
  assumes "length xs \<le> 5" "length (path p) = 5"
  shows "\<exists>q. bip44_parseFromWire (encode_path xs @ rest) p = Inr (1 + 4 * length xs, q) \<and>
    elements q = xs \<and> path_ok q"
  by (rule parse_encoded_path [OF assms])

lemma path_wire_roundtrip_witness:
  "\<exists>q. bip44_parseFromWire (encode_path [0x8000073C, 7] @ [9]) sample_path = Inr (9, q) \<and>
    elements q = [0x8000073C, 7]"
  using path_wire_roundtrip [of "[0x8000073C, 7]" sample_path "[9]"] sample_path_ok
  by (auto simp: path_ok_def)

lemma parse_any_path:
  assumes "length (path p) = 5"
  shows "bip44_parseFromWire bs p = Inl ERR_INVALID_DATA \<or>
    (\<exists>n q. bip44_parseFromWire bs p = Inr (n, q) \<and> path_ok q \<and> n \<le> length bs \<and>
      n = 1 + 4 * length (elements q))"
proof (cases "bip44_check_path bs")
  case False
  then show ?thesis by (simp add: bip44_parseFromWire_def)
next
  case True
  then have c: "unat (hd bs) \<le> 5" "unat (hd bs) * 4 + 1 \<le> length bs"
    by (auto simp: bip44_check_path_def Let_def split: if_splits)
  obtain xs where xs: "parse_elements bs (unat (hd bs)) 0 1 (path p) = Inr (1 + 4 * unat (hd bs), xs)"
    "length xs = 5"
    using parse_in_bounds [of 0 "unat (hd bs)" "path p" 1 bs] c assms by auto
  have h: "unat (ucast (hd bs) :: u32) = unat (hd bs)"
    using c(1) by (simp add: unsigned_ucast_eq take_bit_nat_eq_self_iff)
  have "bip44_parseFromWire bs p =
      Inr (1 + 4 * unat (hd bs), p\<lparr>path := xs, path_length := ucast (hd bs)\<rparr>)"
    using True xs(1) by (simp add: bip44_parseFromWire_def Let_def)
  moreover have "path_ok (p\<lparr>path := xs, path_length := ucast (hd bs)\<rparr>)"
    using xs(2) c(1) h by (simp add: path_ok_def word_le_nat_alt)
  moreover have "length (elements (p\<lparr>path := xs, path_length := ucast (hd bs)\<rparr>)) = unat (hd bs)"
    using xs(2) c(1) h by (simp add: elements_def)
  ultimately show ?thesis
    using c(2) by auto
qed

text \<open>
  C30. Whatever bytes arrive, the parser either refuses them as invalid data or reads within the
  buffer and the array and returns a path of at most five elements, having consumed no more
  bytes than there are.
\<close>

theorem path_parse_safe:
  assumes "length (path p) = 5"
  shows "bip44_parseFromWire bs p = Inl ERR_INVALID_DATA \<or>
    (\<exists>n q. bip44_parseFromWire bs p = Inr (n, q) \<and> path_ok q \<and> n \<le> length bs \<and>
      n = 1 + 4 * length (elements q))"
  by (rule parse_any_path [OF assms])

lemma path_parse_safe_witness:
  "bip44_parseFromWire [6, 0] sample_path = Inl ERR_INVALID_DATA"
  using path_parse_safe [of sample_path "[6, 0]"] sample_path_ok
  by (auto simp: path_ok_def bip44_parseFromWire_def bip44_check_path_def)

text \<open>
  C31. A path prints without truncation or failed assertion into every buffer the app uses, and
  two paths that print alike have the same elements: what the user sees identifies the key.
\<close>

theorem printed_path_identifies:
  assumes "path_ok p" "path_ok q" "63 \<le> n" "n < BUFFER_SIZE_PARANOIA"
  shows "\<exists>s t. bip44_printToStr p n = Inr s \<and> bip44_printToStr q n = Inr t \<and>
    length s < BIP44_PATH_STRING_SIZE_MAX \<and> (s = t \<longrightarrow> elements p = elements q)"
proof (intro exI conjI impI)
  show "bip44_printToStr p n = Inr (show_path (elements p))"
    by (rule printToStr_ok [OF assms(1,3,4)])
  show "bip44_printToStr q n = Inr (show_path (elements q))"
    by (rule printToStr_ok [OF assms(2,3,4)])
  show "length (show_path (elements p)) < BIP44_PATH_STRING_SIZE_MAX"
    using printToStr_ok(2) [OF assms(1,3,4)] by simp
qed (rule show_path_inject)

lemma printed_path_identifies_witness:
  "\<exists>s. bip44_printToStr sample_path 63 = Inr s \<and> length s < 62"
  using printed_path_identifies [OF sample_path_ok sample_path_ok, of 63] by auto

text \<open>
  Only the low byte of the chain element decides whether a path is a payment key: chains
  that CIP-1852 does not define, such as 256 or the hardened 0', pass as payment keys.
\<close>

theorem chain_low_byte:
  assumes "hard account" "chain AND 0xFF \<in> {0, 1}"
  shows "bip44_classifyPath \<lparr>path = [0x8000073C, 0x80000717, account, chain, index], path_length = 5\<rparr> =
    Inr PATH_ORDINARY_PAYMENT_KEY"
  using classify_full [of 5 "0x8000073C" "0x80000717" account chain index] assms
  by (auto simp: elements_def)

lemma chain_low_byte_witness:
  "bip44_classifyPath \<lparr>path = [0x8000073C, 0x80000717, 0x80000000, 0x80000000, 0], path_length = 5\<rparr> =
    Inr PATH_ORDINARY_PAYMENT_KEY \<and>
   bip44_classifyPath \<lparr>path = [0x8000073C, 0x80000717, 0x80000000, 256, 0], path_length = 5\<rparr> =
    Inr PATH_ORDINARY_PAYMENT_KEY"
  using chain_low_byte [of "0x80000000" "0x80000000" 0] chain_low_byte [of "0x80000000" 256 0]
  by (simp add: hard_def)

end
