(* ===== verification/KeyDerivation.thy ===== *)
theory KeyDerivation
  imports Hash Bip44Properties
begin

text \<open>
  \<open>src/keyDerivation/keyDerivation.c\<close> and \<open>bip44_pathToKeyHash\<close>: public keys and their
  hashes from derivation paths, with the policy that guards them. What the device firmware
  computes (key derivation, hash functions, checksum) is the record \<open>firmware\<close>, a parameter
  of every definition that needs it; \<open>firmware_ok\<close> states the output sizes it documents.
\<close>

subsection \<open>The firmware\<close>

text \<open>A firmware function that can report an error returns an option.\<close>

record firmware =
  get_pubkey :: "u32 list \<Rightarrow> (bytes \<times> bytes) option"
  blake2b_224 :: "bytes \<Rightarrow> bytes option"
  blake2b_256 :: "bytes \<Rightarrow> bytes option"
  sha3_256 :: "bytes \<Rightarrow> bytes option"
  crc32 :: "bytes \<Rightarrow> u32"
  eddsa_sign :: "u32 list \<Rightarrow> bytes \<Rightarrow> bytes option"

definition firmware_ok :: "firmware \<Rightarrow> bool" where
  "firmware_ok fw \<longleftrightarrow>
     (\<forall>p. case get_pubkey fw p of None \<Rightarrow> True | Some (raw, cc) \<Rightarrow> length raw = 65 \<and> length cc = 32) \<and>
     (\<forall>bs. case blake2b_224 fw bs of None \<Rightarrow> True | Some h \<Rightarrow> length h = 28) \<and>
     (\<forall>bs. case blake2b_256 fw bs of None \<Rightarrow> True | Some h \<Rightarrow> length h = 32) \<and>
     (\<forall>bs. case sha3_256 fw bs of None \<Rightarrow> True | Some h \<Rightarrow> length h = 32) \<and>
     (\<forall>p bs. case eddsa_sign fw p bs of None \<Rightarrow> True | Some s \<Rightarrow> length s = 64)"

lemma firmware_sizes:
  assumes "firmware_ok fw"
  shows "get_pubkey fw p = Some (raw, cc) \<Longrightarrow> length raw = 65 \<and> length cc = 32"
    "blake2b_224 fw bs = Some h \<Longrightarrow> length h = 28"
    "blake2b_256 fw bs = Some h \<Longrightarrow> length h = 32"
    "sha3_256 fw bs = Some h \<Longrightarrow> length h = 32"
    "eddsa_sign fw p bs = Some s \<Longrightarrow> length s = 64"
  using assms unfolding firmware_ok_def by (auto split: option.splits)

text \<open>A firmware that never fails, to evaluate examples with.\<close>

definition sample_firmware :: firmware where
  "sample_firmware = \<lparr>get_pubkey = (\<lambda>p. Some (replicate 65 (word_of_nat (length p)), replicate 32 0)),
     blake2b_224 = (\<lambda>bs. Some (replicate 28 (hd (bs @ [0])))),
     blake2b_256 = (\<lambda>bs. Some (replicate 32 (hd (bs @ [0])))),
     sha3_256 = (\<lambda>bs. Some (replicate 32 (hd (bs @ [0])))),
     crc32 = (\<lambda>bs. word_of_nat (length bs)), eddsa_sign = (\<lambda>p bs. Some (replicate 64 (hd (bs @ [0]))))\<rparr>"

lemma sample_firmware_ok: "firmware_ok sample_firmware"
  by (simp add: firmware_ok_def sample_firmware_def)

subsection \<open>Policies\<close>

datatype security_policy_t =
    POLICY_DENY
  | POLICY_ALLOW_WITHOUT_PROMPT
  | POLICY_PROMPT_BEFORE_RESPONSE
  | POLICY_PROMPT_WARN_UNUSUAL
  | POLICY_SHOW_BEFORE_RESPONSE

definition ENSURE_NOT_DENIED :: "security_policy_t \<Rightarrow> unit res" where
  "ENSURE_NOT_DENIED policy = (if policy = POLICY_DENY then Inl ERR_REJECTED_BY_POLICY else Inr ())"

definition policyForDerivePrivateKey :: "bip44_path_t \<Rightarrow> security_policy_t res" where
  "policyForDerivePrivateKey p =
     res_bind (bip44_classifyPath p) (\<lambda>t. Inr (
       if t \<in> {PATH_ORDINARY_ACCOUNT, PATH_ORDINARY_PAYMENT_KEY, PATH_ORDINARY_STAKING_KEY,
         PATH_MULTISIG_ACCOUNT, PATH_MULTISIG_PAYMENT_KEY, PATH_MULTISIG_STAKING_KEY,
         PATH_DREP_KEY, PATH_COMMITTEE_COLD_KEY, PATH_COMMITTEE_HOT_KEY,
         PATH_MINT_KEY, PATH_POOL_COLD_KEY, PATH_CVOTE_ACCOUNT, PATH_CVOTE_KEY}
       then POLICY_ALLOW_WITHOUT_PROMPT else POLICY_DENY))"

subsection \<open>Keys\<close>

record extendedPublicKey_t =
  pubKey :: bytes
  chainCode :: bytes

text \<open>The key is the reverse of the last 32 bytes, with the sign bit of the other coordinate.\<close>

definition extractRawPublicKey :: "bytes \<Rightarrow> bytes res" where
  "extractRawPublicKey rawPubkey =
     (let out = map (\<lambda>i. rawPubkey ! (64 - i)) [0..<32]
      in Inr (if rawPubkey ! 32 AND 1 \<noteq> 0 then out[31 := out ! 31 OR 0x80] else out))"

definition deriveExtendedPublicKey :: "firmware \<Rightarrow> bip44_path_t \<Rightarrow> extendedPublicKey_t res" where
  "deriveExtendedPublicKey fw p =
     (if \<not> unat (path_length p) \<le> length (path p) then Inl ERR_ASSERT
      else res_bind (policyForDerivePrivateKey p) (\<lambda>policy.
        if policy = POLICY_DENY then Inl ERR_ASSERT
        else case get_pubkey fw (take (unat (path_length p)) (path p)) of
            None \<Rightarrow> Inl ERR_ASSERT
          | Some (rawPubkey, cc) \<Rightarrow>
            res_bind (extractRawPublicKey rawPubkey) (\<lambda>key.
              Inr \<lparr>pubKey = key, chainCode = cc\<rparr>)))"

definition bip44_pathToKeyHash :: "firmware \<Rightarrow> bip44_path_t \<Rightarrow> nat \<Rightarrow> bytes res" where
  "bip44_pathToKeyHash fw p hashSize =
     (if \<not> hashSize < BUFFER_SIZE_PARANOIA then Inl ERR_ASSERT
      else res_bind (deriveExtendedPublicKey fw p) (\<lambda>extPubKey.
        if hashSize = 28
        then blake2b_hash (blake2b_224 fw) 28 (pubKey extPubKey) hashSize
        else Inl ERR_ASSERT))"

subsection \<open>Facts\<close>

lemma derive_policy:
  assumes "path_ok p"
  shows "policyForDerivePrivateKey p =
    Inr (if path_kind (elements p) = PATH_INVALID then POLICY_DENY else POLICY_ALLOW_WITHOUT_PROMPT)"
  by (cases "path_kind (elements p)") (simp_all add: policyForDerivePrivateKey_def classify_ok [OF assms])

lemma keyHash_length:
  "firmware_ok fw \<Longrightarrow> bip44_pathToKeyHash fw p 28 = Inr h \<Longrightarrow> length h = 28"
  unfolding firmware_ok_def
  by (auto simp: bip44_pathToKeyHash_def res_bind_Inr_iff blake2b_hash_def blake2b_finalize_def
      split: if_splits option.splits)

end
