(* ===== verification/BufView.thy ===== *)
theory BufView
  imports Cbor
begin

text \<open>
  \<open>src/bufView.h\<close>: bounded cursors over buffers. A read view is its buffer and the offset of
  its pointer; a write view is its capacity and the bytes written so far. Every access is
  checked against the end of the buffer. The locale \<open>wire_codec\<close> states what a parser of
  wire data promises about the encoding it reads; the parsers of integers and buffers
  interpret it, and compound parsers chain its lemmas.
\<close>

subsection \<open>Read views\<close>

record read_view_t =
  rv_buf :: bytes
  rv_ptr :: nat

type_synonym 'a parser = "read_view_t \<Rightarrow> ('a \<times> read_view_t) res"

definition make_read_view :: "bytes \<Rightarrow> read_view_t" where
  "make_read_view buf = \<lparr>rv_buf = buf, rv_ptr = 0\<rparr>"

definition read_view_check :: "read_view_t \<Rightarrow> unit res" where
  "read_view_check view =
     (if \<not> rv_ptr view \<le> length (rv_buf view) then Inl ERR_ASSERT
      else if \<not> length (rv_buf view) \<le> BUFFER_SIZE_PARANOIA then Inl ERR_ASSERT
      else Inr ())"

definition read_view_remaining_size :: "read_view_t \<Rightarrow> nat res" where
  "read_view_remaining_size view =
     res_bind (read_view_check view) (\<lambda>_. Inr (length (rv_buf view) - rv_ptr view))"

definition read_view_processed_size :: "read_view_t \<Rightarrow> nat res" where
  "read_view_processed_size view = res_bind (read_view_check view) (\<lambda>_. Inr (rv_ptr view))"

text \<open>The bytes from the pointer on.\<close>

definition view_rest :: "read_view_t \<Rightarrow> bytes" where
  "view_rest view = drop (rv_ptr view) (rv_buf view)"

definition read_view_skip :: "nat \<Rightarrow> read_view_t \<Rightarrow> read_view_t res" where
  "read_view_skip n view =
     res_bind (read_view_check view) (\<lambda>_.
     res_bind (read_view_remaining_size view) (\<lambda>size.
     res_bind (VALIDATE (n \<le> size) ERR_NOT_ENOUGH_INPUT) (\<lambda>_.
     let view = view\<lparr>rv_ptr := rv_ptr view + n\<rparr> in
     res_bind (read_view_check view) (\<lambda>_. Inr view))))"

definition view_parseToken :: "cbor_token parser" where
  "view_parseToken view =
     res_bind (read_view_remaining_size view) (\<lambda>_.
     res_bind (cbor_parseToken (view_rest view)) (\<lambda>token.
     res_bind (read_view_skip (unat (tokWidth token) + 1) view) (\<lambda>view. Inr (token, view))))"

definition view_parseBuffer :: "nat \<Rightarrow> bytes parser" where
  "view_parseBuffer n view =
     (if \<not> n < BUFFER_SIZE_PARANOIA then Inl ERR_ASSERT
      else res_bind (read_view_remaining_size view) (\<lambda>size.
        res_bind (VALIDATE (size \<ge> n) ERR_INVALID_DATA) (\<lambda>_.
        res_bind (read_view_skip n view) (\<lambda>view'. Inr (take n (view_rest view), view')))))"

text \<open>\<open>parse_u1be\<close>, \<open>parse_u2be\<close>, \<open>parse_u4be\<close> and \<open>parse_u8be\<close> are one macro.\<close>

definition parse_ube :: "nat \<Rightarrow> nat parser" where
  "parse_ube width view =
     res_bind (read_view_remaining_size view) (\<lambda>size.
     res_bind (VALIDATE (size \<ge> width) ERR_INVALID_DATA) (\<lambda>_.
       Inr (be_read (take width (view_rest view)), view\<lparr>rv_ptr := rv_ptr view + width\<rparr>)))"

definition parse_u1be :: "u8 parser" where
  "parse_u1be view = res_bind (parse_ube 1 view) (\<lambda>(v, view). Inr (word_of_nat v, view))"

definition parse_u2be :: "u16 parser" where
  "parse_u2be view = res_bind (parse_ube 2 view) (\<lambda>(v, view). Inr (word_of_nat v, view))"

definition parse_u4be :: "u32 parser" where
  "parse_u4be view = res_bind (parse_ube 4 view) (\<lambda>(v, view). Inr (word_of_nat v, view))"

definition parse_u8be :: "u64 parser" where
  "parse_u8be view = res_bind (parse_ube 8 view) (\<lambda>(v, view). Inr (word_of_nat v, view))"

definition parse_int64be :: "int parser" where
  "parse_int64be view = res_bind (parse_u8be view) (\<lambda>(v, view). Inr (sint v, view))"

definition parse_bool :: "bool parser" where
  "parse_bool view =
     res_bind (parse_u1be view) (\<lambda>(value, view).
       if value = 0 then Inr (False, view)
       else if value = 1 then Inr (True, view)
       else Inl ERR_INVALID_DATA)"

subsection \<open>Write views\<close>

record write_view_t =
  wv_size :: nat
  wv_out :: bytes

definition make_write_view :: "nat \<Rightarrow> write_view_t" where
  "make_write_view outSize = \<lparr>wv_size = outSize, wv_out = []\<rparr>"

definition write_view_check :: "write_view_t \<Rightarrow> unit res" where
  "write_view_check view =
     (if \<not> length (wv_out view) \<le> wv_size view then Inl ERR_ASSERT
      else if \<not> wv_size view \<le> BUFFER_SIZE_PARANOIA then Inl ERR_ASSERT
      else Inr ())"

definition write_view_remaining_size :: "write_view_t \<Rightarrow> nat res" where
  "write_view_remaining_size view =
     res_bind (write_view_check view) (\<lambda>_. Inr (wv_size view - length (wv_out view)))"

definition write_view_processed_size :: "write_view_t \<Rightarrow> nat res" where
  "write_view_processed_size view = res_bind (write_view_check view) (\<lambda>_. Inr (length (wv_out view)))"

definition view_appendToken :: "u8 \<Rightarrow> u64 \<Rightarrow> write_view_t stmt" where
  "view_appendToken type value view =
     res_bind (write_view_remaining_size view) (\<lambda>size.
     res_bind (ASSERT (size \<le> BUFFER_SIZE_PARANOIA)) (\<lambda>_.
     res_bind (cbor_writeToken type value size) (\<lambda>bs.
       Inr (view\<lparr>wv_out := wv_out view @ bs\<rparr>))))"

definition view_appendBuffer :: "bytes \<Rightarrow> write_view_t stmt" where
  "view_appendBuffer source view =
     res_bind (write_view_check view) (\<lambda>_.
     res_bind (write_view_remaining_size view) (\<lambda>size.
     res_bind (VALIDATE (length source \<le> size) ERR_DATA_TOO_LARGE) (\<lambda>_.
     let view = view\<lparr>wv_out := wv_out view @ source\<rparr> in
     res_bind (write_view_check view) (\<lambda>_. Inr view))))"

subsection \<open>Facts about views\<close>

definition rv_ok :: "read_view_t \<Rightarrow> bool" where
  "rv_ok view \<longleftrightarrow> rv_ptr view \<le> length (rv_buf view) \<and> length (rv_buf view) \<le> BUFFER_SIZE_PARANOIA"

lemma check_ok: "read_view_check view = (if rv_ok view then Inr () else Inl ERR_ASSERT)"
  by (simp add: read_view_check_def rv_ok_def)

lemma view_simps [simp]:
  "rv_ok view \<Longrightarrow> read_view_check view = Inr ()"
  "rv_ok view \<Longrightarrow> read_view_remaining_size view = Inr (length (view_rest view))"
  "rv_ok view \<Longrightarrow> read_view_processed_size view = Inr (rv_ptr view)"
  by (simp_all add: check_ok read_view_remaining_size_def read_view_processed_size_def view_rest_def)

lemma remaining_Inr: "read_view_remaining_size view = Inr n \<longleftrightarrow> rv_ok view \<and> n = length (view_rest view)"
  by (auto simp: read_view_remaining_size_def check_ok view_rest_def)

text \<open>The view after \<open>n\<close> more bytes.\<close>

definition advance :: "nat \<Rightarrow> read_view_t \<Rightarrow> read_view_t" where
  "advance n view = view\<lparr>rv_ptr := rv_ptr view + n\<rparr>"

lemma advance_ok: "rv_ok view \<Longrightarrow> n \<le> length (view_rest view) \<Longrightarrow> rv_ok (advance n view)"
  by (auto simp: rv_ok_def advance_def view_rest_def)

lemma advance_rest [simp]: "view_rest (advance n view) = drop n (view_rest view)"
  by (simp add: advance_def view_rest_def add.commute)

lemma advance_simps [simp]:
  "advance 0 view = view" "advance m (advance n view) = advance (n + m) view"
  by (simp_all add: advance_def add.assoc)

lemma skip_eq:
  "rv_ok view \<Longrightarrow> read_view_skip n view =
    (if n \<le> length (view_rest view) then Inr (advance n view) else Inl ERR_NOT_ENOUGH_INPUT)"
  using advance_ok [of view n] by (simp add: read_view_skip_def advance_def Let_def)

lemma parse_ube_eq:
  "rv_ok view \<Longrightarrow> parse_ube n view =
    (if n \<le> length (view_rest view) then Inr (be_read (take n (view_rest view)), advance n view)
     else Inl ERR_INVALID_DATA)"
  by (simp add: parse_ube_def advance_def)

lemma parseBuffer_eq:
  "rv_ok view \<Longrightarrow> n < BUFFER_SIZE_PARANOIA \<Longrightarrow> view_parseBuffer n view =
    (if n \<le> length (view_rest view) then Inr (take n (view_rest view), advance n view)
     else Inl ERR_INVALID_DATA)"
  by (simp add: view_parseBuffer_def skip_eq)

text \<open>Parsers move the pointer forward, within the buffer, and change nothing else.\<close>

definition moves_on :: "read_view_t \<Rightarrow> read_view_t \<Rightarrow> bool" where
  "moves_on view view' \<longleftrightarrow> rv_ok view \<and> (\<exists>n \<le> length (view_rest view). view' = advance n view)"

lemma moves_on_ok: "moves_on view view' \<Longrightarrow> rv_ok view'"
  by (auto simp: moves_on_def intro: advance_ok)

lemma moves_on_refl: "rv_ok view \<Longrightarrow> moves_on view view"
  unfolding moves_on_def by (intro conjI exI [of _ 0]) auto

lemma moves_on_trans:
  assumes "moves_on u v" "moves_on v w"
  shows "moves_on u w"
proof -
  obtain n m where "rv_ok u" "n \<le> length (view_rest u)" "v = advance n u"
    "m \<le> length (view_rest v)" "w = advance m v"
    using assms by (auto simp: moves_on_def)
  then show ?thesis
    unfolding moves_on_def by (intro conjI exI [of _ "n + m"]) auto
qed

definition safe_parser :: "'a parser \<Rightarrow> bool" where
  "safe_parser p \<longleftrightarrow> (\<forall>view. rv_ok view \<longrightarrow>
     (case p view of Inl e \<Rightarrow> e \<noteq> OUT_OF_BOUNDS \<and> e \<noteq> ERR_ASSERT | Inr (x, view') \<Rightarrow> moves_on view view'))"

lemma safe_parserD:
  "safe_parser p \<Longrightarrow> rv_ok view \<Longrightarrow> p view = Inr (x, view') \<Longrightarrow> moves_on view view'"
  unfolding safe_parser_def by fastforce

lemma safe_ube: "safe_parser (parse_ube n)"
  by (auto simp: safe_parser_def parse_ube_eq moves_on_def)

lemma safe_map:
  assumes "safe_parser p"
  shows "safe_parser (\<lambda>view. res_bind (p view) (\<lambda>(v, view). Inr (f v, view)))"
proof -
  have "case res_bind (p view) (\<lambda>(v, view). Inr (f v, view)) of
      Inl e \<Rightarrow> e \<noteq> OUT_OF_BOUNDS \<and> e \<noteq> ERR_ASSERT | Inr (x, view') \<Rightarrow> moves_on view view'"
    if "rv_ok view" for view
    using assms that unfolding safe_parser_def by (cases "p view") fastforce+
  then show ?thesis
    by (simp add: safe_parser_def)
qed

lemma safe_uints: "safe_parser parse_u1be" "safe_parser parse_u2be" "safe_parser parse_u4be"
  "safe_parser parse_u8be"
  unfolding parse_u1be_def [abs_def] parse_u2be_def [abs_def] parse_u4be_def [abs_def]
    parse_u8be_def [abs_def]
  by (rule safe_map [OF safe_ube])+

lemma safe_buffer: "n < BUFFER_SIZE_PARANOIA \<Longrightarrow> safe_parser (view_parseBuffer n)"
  by (auto simp: safe_parser_def parseBuffer_eq moves_on_def)

text \<open>
  The rules to follow a parser: it either refuses its input or yields a value and a view with
  the stated property.
\<close>

definition yields :: "('a \<Rightarrow> read_view_t \<Rightarrow> bool) \<Rightarrow> ('a \<times> read_view_t) res \<Rightarrow> bool" where
  "yields P m \<longleftrightarrow> (case m of Inl e \<Rightarrow> e = ERR_INVALID_DATA \<or> e = ERR_NOT_ENOUGH_INPUT
     | Inr (x, view) \<Rightarrow> P x view)"

lemma yields_Inr: "P x view \<Longrightarrow> yields P (Inr (x, view))"
  by (simp add: yields_def)

lemma yields_bind:
  "yields Q m \<Longrightarrow> (\<And>x view. Q x view \<Longrightarrow> yields P (f (x, view))) \<Longrightarrow> yields P (res_bind m f)"
  by (cases m) (auto simp: yields_def)

lemma yields_validate:
  "(c \<Longrightarrow> yields P (f ())) \<Longrightarrow> yields P (res_bind (VALIDATE c ERR_INVALID_DATA) f)"
  by (cases c) (simp_all add: yields_def)

lemma yields_weaken: "yields Q m \<Longrightarrow> (\<And>x view. Q x view \<Longrightarrow> P x view) \<Longrightarrow> yields P m"
  unfolding yields_def by (auto split: sum.splits)

lemma yields_ube: "rv_ok view \<Longrightarrow> yields (\<lambda>_. moves_on view) (parse_ube n view)"
  by (auto simp: yields_def parse_ube_eq moves_on_def)

lemma yields_uints:
  assumes "rv_ok view"
  shows "yields (\<lambda>_. moves_on view) (parse_u1be view)" "yields (\<lambda>_. moves_on view) (parse_u2be view)"
    "yields (\<lambda>_. moves_on view) (parse_u4be view)" "yields (\<lambda>_. moves_on view) (parse_u8be view)"
  unfolding parse_u1be_def parse_u2be_def parse_u4be_def parse_u8be_def
  by (rule yields_bind [OF yields_ube [OF assms]], simp add: yields_Inr)+

lemma yields_buffer:
  "rv_ok view \<Longrightarrow> n < BUFFER_SIZE_PARANOIA \<Longrightarrow>
   yields (\<lambda>bs view'. length bs = n \<and> moves_on view view') (view_parseBuffer n view)"
  by (auto simp: yields_def parseBuffer_eq moves_on_def)

subsection \<open>The interface of a wire format\<close>

definition views :: "read_view_t \<Rightarrow> bytes \<Rightarrow> bool" where
  "views view bs \<longleftrightarrow> rv_ok view \<and> view_rest view = bs"

lemma views_make: "length bs \<le> BUFFER_SIZE_PARANOIA \<Longrightarrow> views (make_read_view bs) bs"
  by (simp add: views_def rv_ok_def make_read_view_def view_rest_def)

locale wire_codec =
  fixes parse :: "'a parser" and encode :: "'a \<Rightarrow> bytes" and valid :: "'a \<Rightarrow> bool"
  assumes parse_encode:
    "valid x \<Longrightarrow> views view (encode x @ r) \<Longrightarrow> parse view = Inr (x, advance (length (encode x)) view)"
begin

lemma parses:
  assumes "valid x" "views view (encode x @ r)"
  shows "\<exists>view'. parse view = Inr (x, view') \<and> views view' r"
proof (intro exI conjI)
  show "parse view = Inr (x, advance (length (encode x)) view)"
    by (rule parse_encode [OF assms])
  show "views (advance (length (encode x)) view) r"
    using assms(2) by (auto simp: views_def intro: advance_ok)
qed

text \<open>What is parsed next sees exactly what follows.\<close>

lemma parse_then:
  assumes "valid x" "views view (encode x @ r)" "\<And>view'. views view' r \<Longrightarrow> k (x, view') = y"
  shows "res_bind (parse view) k = y"
  using parses [OF assms(1,2)] assms(3) by auto

text \<open>An encoding determines its value and where it ends.\<close>

lemma encode_inject:
  assumes "valid x" "valid y" "encode x @ r = encode y @ s"
    and "length (encode x @ r) \<le> BUFFER_SIZE_PARANOIA"
  shows "x = y \<and> r = s"
proof -
  let ?v = "make_read_view (encode x @ r)"
  have "views ?v (encode x @ r)" "views ?v (encode y @ s)"
    using views_make [OF assms(4)] assms(3) by simp_all
  then have "parse ?v = Inr (x, advance (length (encode x)) ?v)"
    "parse ?v = Inr (y, advance (length (encode y)) ?v)"
    using parse_encode assms(1,2) by blast+
  then have "x = y" by simp
  then show ?thesis using assms(3) by simp
qed

end

lemma parse_uint_eq:
  assumes "views view (be_write n (unat x) @ r)" "unat x < 256 ^ n"
  shows "parse_ube n view = Inr (unat x, advance n view)"
  using assms by (auto simp: views_def parse_ube_eq be_read_write)

interpretation u1: wire_codec parse_u1be "\<lambda>x. be_write 1 (unat x)" "\<lambda>_. True"
proof
  fix x :: u8 and view r
  assume "views view (be_write 1 (unat x) @ r)"
  then show "parse_u1be view = Inr (x, advance (length (be_write 1 (unat x))) view)"
    using parse_uint_eq [of view 1 x r] unsigned_less [of x, where ?'a = nat]
    by (simp add: parse_u1be_def del: be_write.simps)
qed

interpretation u2: wire_codec parse_u2be "\<lambda>x. be_write 2 (unat x)" "\<lambda>_. True"
proof
  fix x :: u16 and view r
  assume "views view (be_write 2 (unat x) @ r)"
  then show "parse_u2be view = Inr (x, advance (length (be_write 2 (unat x))) view)"
    using parse_uint_eq [of view 2 x r] unsigned_less [of x, where ?'a = nat]
    by (simp add: parse_u2be_def del: be_write.simps)
qed

interpretation u4: wire_codec parse_u4be "\<lambda>x. be_write 4 (unat x)" "\<lambda>_. True"
proof
  fix x :: u32 and view r
  assume "views view (be_write 4 (unat x) @ r)"
  then show "parse_u4be view = Inr (x, advance (length (be_write 4 (unat x))) view)"
    using parse_uint_eq [of view 4 x r] unsigned_less [of x, where ?'a = nat]
    by (simp add: parse_u4be_def del: be_write.simps)
qed

interpretation u8: wire_codec parse_u8be "\<lambda>x. be_write 8 (unat x)" "\<lambda>_. True"
proof
  fix x :: u64 and view r
  assume "views view (be_write 8 (unat x) @ r)"
  then show "parse_u8be view = Inr (x, advance (length (be_write 8 (unat x))) view)"
    using parse_uint_eq [of view 8 x r] unsigned_less [of x, where ?'a = nat]
    by (simp add: parse_u8be_def del: be_write.simps)
qed

interpretation buf28: wire_codec "view_parseBuffer 28" id "\<lambda>bs. length bs = 28"
  by unfold_locales (auto simp: views_def parseBuffer_eq)

subsection \<open>Write views fill up to their size\<close>

definition wv_ok :: "write_view_t \<Rightarrow> bool" where
  "wv_ok view \<longleftrightarrow> length (wv_out view) \<le> wv_size view \<and> wv_size view \<le> BUFFER_SIZE_PARANOIA"

lemma write_view_simps:
  "write_view_check view = (if wv_ok view then Inr () else Inl ERR_ASSERT)"
  "wv_ok view \<Longrightarrow> write_view_remaining_size view = Inr (wv_size view - length (wv_out view))"
  "wv_ok view \<Longrightarrow> write_view_processed_size view = Inr (length (wv_out view))"
  by (auto simp: wv_ok_def write_view_check_def write_view_remaining_size_def write_view_processed_size_def)

lemma appendBuffer_eq:
  "wv_ok view \<Longrightarrow> view_appendBuffer bs view =
    (if length (wv_out view) + length bs \<le> wv_size view then Inr (view\<lparr>wv_out := wv_out view @ bs\<rparr>)
     else Inl ERR_DATA_TOO_LARGE)"
  by (simp add: view_appendBuffer_def write_view_simps Let_def) (auto simp: wv_ok_def VALIDATE_def)

end
