(* ===== verification/AddressByron.thy ===== *)
theory AddressByron
  imports KeyDerivation BufView
begin

text \<open>
  \<open>src/addressUtils/addressUtilsByron.c\<close>: bootstrap addresses. Deriving one encodes and
  hashes the public key and wraps the result with a checksum; \<open>extractProtocolMagic\<close> parses
  an address back to the network it is for, and checks the checksum. \<open>size_t\<close> has 32 bits on
  the devices. Reading back what was derived gives the protocol magic it was derived for.
\<close>

abbreviation (input) ADDRESS_ROOT_SIZE :: nat where "ADDRESS_ROOT_SIZE \<equiv> 28"
abbreviation (input) PROTOCOL_MAGIC_ADDRESS_ATTRIBUTE_KEY :: u64 where
  "PROTOCOL_MAGIC_ADDRESS_ATTRIBUTE_KEY \<equiv> 2"
abbreviation (input) CARDANO_ADDRESS_TYPE_PUBKEY :: u64 where "CARDANO_ADDRESS_TYPE_PUBKEY \<equiv> 0"
abbreviation (input) EXTENDED_PUBKEY_SIZE :: nat where "EXTENDED_PUBKEY_SIZE \<equiv> 64"
abbreviation (input) MAINNET_PROTOCOL_MAGIC :: u32 where "MAINNET_PROTOCOL_MAGIC \<equiv> 764824073"
abbreviation (input) SIZE_MAX :: u64 where "SIZE_MAX \<equiv> 0xFFFFFFFF"
abbreviation (input) MAX_ADDRESS_ATTRIBUTES_MAP_LENGTH :: u64 where
  "MAX_ADDRESS_ATTRIBUTES_MAP_LENGTH \<equiv> 3"

subsection \<open>Deriving\<close>

definition addressRootFromExtPubKey :: "firmware \<Rightarrow> extendedPublicKey_t \<Rightarrow> nat \<Rightarrow> bytes res" where
  "addressRootFromExtPubKey fw extPubKey outSize =
     (if outSize \<noteq> ADDRESS_ROOT_SIZE then Inl ERR_ASSERT
      else res_bind (seq
        [view_appendToken CBOR_TYPE_ARRAY 3,
         view_appendToken CBOR_TYPE_UNSIGNED CARDANO_ADDRESS_TYPE_PUBKEY,
         view_appendToken CBOR_TYPE_ARRAY 2,
         view_appendToken CBOR_TYPE_UNSIGNED 0,
         view_appendToken CBOR_TYPE_BYTES 64,
         view_appendBuffer (pubKey extPubKey @ chainCode extPubKey),
         view_appendToken CBOR_TYPE_MAP 0] (make_write_view 74)) (\<lambda>cbor.
       res_bind (write_view_processed_size cbor) (\<lambda>_.
       res_bind (blake2b_hash (sha3_256 fw) 32 (wv_out cbor) 32) (\<lambda>cborShaHash.
         blake2b_hash (blake2b_224 fw) 28 cborShaHash outSize))))"

definition cborEncodePubkeyAddressInner :: "bytes \<Rightarrow> u32 \<Rightarrow> nat \<Rightarrow> bytes res" where
  "cborEncodePubkeyAddressInner addressRoot protocolMagic outSize =
     (if length addressRoot \<noteq> ADDRESS_ROOT_SIZE then Inl ERR_ASSERT
      else if \<not> outSize < BUFFER_SIZE_PARANOIA then Inl ERR_ASSERT
      else res_bind (seq
        [view_appendToken CBOR_TYPE_ARRAY 3,
         view_appendToken CBOR_TYPE_BYTES (word_of_nat (length addressRoot)),
         view_appendBuffer addressRoot,
         (if protocolMagic = MAINNET_PROTOCOL_MAGIC
          then view_appendToken CBOR_TYPE_MAP 0
          else seq
            [view_appendToken CBOR_TYPE_MAP 1,
             view_appendToken CBOR_TYPE_UNSIGNED PROTOCOL_MAGIC_ADDRESS_ATTRIBUTE_KEY,
             (\<lambda>out. res_bind (cbor_writeToken CBOR_TYPE_UNSIGNED (ucast protocolMagic) 10) (\<lambda>scratch.
               seq [view_appendToken CBOR_TYPE_BYTES (word_of_nat (length scratch)),
                 view_appendBuffer scratch] out))]),
         view_appendToken CBOR_TYPE_UNSIGNED CARDANO_ADDRESS_TYPE_PUBKEY] (make_write_view outSize)) (\<lambda>out.
       res_bind (write_view_processed_size out) (\<lambda>_. Inr (wv_out out))))"

definition cborPackRawAddressWithChecksum :: "firmware \<Rightarrow> bytes \<Rightarrow> nat \<Rightarrow> bytes res" where
  "cborPackRawAddressWithChecksum fw rawAddress outputSize =
     (if \<not> length rawAddress < BUFFER_SIZE_PARANOIA then Inl ERR_ASSERT
      else if \<not> outputSize < BUFFER_SIZE_PARANOIA then Inl ERR_ASSERT
      else res_bind (seq
        [view_appendToken CBOR_TYPE_ARRAY 2,
         view_appendToken CBOR_TYPE_TAG CBOR_TAG_EMBEDDED_CBOR_BYTE_STRING,
         view_appendToken CBOR_TYPE_BYTES (word_of_nat (length rawAddress)),
         view_appendBuffer rawAddress,
         view_appendToken CBOR_TYPE_UNSIGNED (ucast (crc32 fw rawAddress))]
        (make_write_view outputSize)) (\<lambda>output.
       res_bind (write_view_processed_size output) (\<lambda>_. Inr (wv_out output))))"

definition deriveRawAddress :: "firmware \<Rightarrow> bip44_path_t \<Rightarrow> u32 \<Rightarrow> nat \<Rightarrow> bytes res" where
  "deriveRawAddress fw p protocolMagic outSize =
     (if \<not> outSize < BUFFER_SIZE_PARANOIA then Inl ERR_ASSERT
      else res_bind (deriveExtendedPublicKey fw p) (\<lambda>extPubKey.
       res_bind (addressRootFromExtPubKey fw extPubKey 28) (\<lambda>addressRoot.
         cborEncodePubkeyAddressInner addressRoot protocolMagic outSize)))"

definition deriveAddress_byron :: "firmware \<Rightarrow> bip44_path_t \<Rightarrow> u32 \<Rightarrow> nat \<Rightarrow> bytes res" where
  "deriveAddress_byron fw p protocolMagic outSize =
     (if \<not> outSize < BUFFER_SIZE_PARANOIA then Inl ERR_ASSERT
      else res_bind (deriveRawAddress fw p protocolMagic 40) (\<lambda>rawAddress.
        cborPackRawAddressWithChecksum fw rawAddress outSize))"

subsection \<open>Parsing\<close>

definition parseToken :: "u8 \<Rightarrow> u64 parser" where
  "parseToken type view =
     res_bind (view_parseToken view) (\<lambda>(token, view).
     res_bind (VALIDATE (tokType token = type) ERR_INVALID_DATA) (\<lambda>_. Inr (tokValue token, view)))"

definition parseTokenWithValue :: "u8 \<Rightarrow> u64 \<Rightarrow> read_view_t stmt" where
  "parseTokenWithValue type value view =
     res_bind (view_parseToken view) (\<lambda>(token, view).
     res_bind (VALIDATE (tokType token = type) ERR_INVALID_DATA) (\<lambda>_.
     res_bind (VALIDATE (tokValue token = value) ERR_INVALID_DATA) (\<lambda>_. Inr view)))"

definition parseBytesSizeToken :: "nat parser" where
  "parseBytesSizeToken view =
     res_bind (parseToken CBOR_TYPE_BYTES view) (\<lambda>(parsedSize, view).
     res_bind (VALIDATE (parsedSize < SIZE_MAX) ERR_INVALID_DATA) (\<lambda>_.
     let size = unat parsedSize in
     res_bind (VALIDATE (size < BUFFER_SIZE_PARANOIA) ERR_INVALID_DATA) (\<lambda>_.
     res_bind (read_view_remaining_size view) (\<lambda>remaining.
     res_bind (VALIDATE (size \<le> remaining) ERR_INVALID_DATA) (\<lambda>_. Inr (size, view))))))"

text \<open>The loop over the attributes; the state is the magic and whether it was found.\<close>

fun parse_attributes :: "nat \<Rightarrow> u32 \<times> bool \<Rightarrow> (u32 \<times> bool) parser" where
  "parse_attributes 0 st view = Inr (st, view)"
| "parse_attributes (Suc n) (protocolMagic, found) view =
     res_bind (parseToken CBOR_TYPE_UNSIGNED view) (\<lambda>(currentKey, view).
     res_bind (parseBytesSizeToken view) (\<lambda>(currentValueSize, view).
     if currentKey = PROTOCOL_MAGIC_ADDRESS_ATTRIBUTE_KEY
     then res_bind (VALIDATE (\<not> found) ERR_INVALID_DATA) (\<lambda>_.
       res_bind (parseToken CBOR_TYPE_UNSIGNED view) (\<lambda>(parsed, view).
       res_bind (VALIDATE (parsed < SIZE_MAX) ERR_INVALID_DATA) (\<lambda>_.
       let magic = ucast parsed in
       res_bind (VALIDATE (magic \<noteq> MAINNET_PROTOCOL_MAGIC) ERR_INVALID_DATA) (\<lambda>_.
         parse_attributes n (magic, True) view))))
     else res_bind (read_view_skip currentValueSize view) (\<lambda>view.
       parse_attributes n (protocolMagic, found) view)))"

definition extractProtocolMagic :: "firmware \<Rightarrow> bytes \<Rightarrow> u32 res" where
  "extractProtocolMagic fw address =
     (if \<not> length address < BUFFER_SIZE_PARANOIA then Inl ERR_ASSERT
      else res_bind (parseTokenWithValue CBOR_TYPE_ARRAY 2 (make_read_view address)) (\<lambda>view.
       res_bind (parseTokenWithValue CBOR_TYPE_TAG CBOR_TAG_EMBEDDED_CBOR_BYTE_STRING view) (\<lambda>view.
       res_bind (parseBytesSizeToken view) (\<lambda>(payloadSize, view).
       let payload = take payloadSize (view_rest view) in
       res_bind (parseTokenWithValue CBOR_TYPE_ARRAY 3 view) (\<lambda>view.
       res_bind (parseBytesSizeToken view) (\<lambda>(rootSize, view).
       res_bind (VALIDATE (rootSize = ADDRESS_ROOT_SIZE) ERR_INVALID_DATA) (\<lambda>_.
       res_bind (read_view_skip ADDRESS_ROOT_SIZE view) (\<lambda>view.
       res_bind (parseToken CBOR_TYPE_MAP view) (\<lambda>(mapLength, view).
       res_bind (VALIDATE (mapLength \<le> MAX_ADDRESS_ATTRIBUTES_MAP_LENGTH) ERR_INVALID_DATA) (\<lambda>_.
       res_bind (parse_attributes (unat mapLength) (MAINNET_PROTOCOL_MAGIC, False) view)
         (\<lambda>((magic, found), view).
       res_bind (parseToken CBOR_TYPE_UNSIGNED view) (\<lambda>(_, view).
       res_bind (parseTokenWithValue CBOR_TYPE_UNSIGNED (ucast (crc32 fw payload)) view) (\<lambda>view.
       res_bind (read_view_remaining_size view) (\<lambda>remaining.
       res_bind (VALIDATE (remaining = 0) ERR_INVALID_DATA) (\<lambda>_.
         Inr (if \<not> found then MAINNET_PROTOCOL_MAGIC else magic))))))))))))))))"

subsection \<open>Tokens on the wire\<close>

definition token_of :: "u8 \<Rightarrow> u64 \<Rightarrow> cbor_token" where
  "token_of t v = \<lparr>tokType = t, tokWidth = word_of_nat (length (tok t v) - 1), tokValue = v\<rparr>"

abbreviation (input) wire_types :: "u8 set" where
  "wire_types \<equiv> {CBOR_TYPE_UNSIGNED, CBOR_TYPE_BYTES, CBOR_TYPE_ARRAY, CBOR_TYPE_MAP, CBOR_TYPE_TAG}"

lemma tok_length: "t \<in> wire_types \<Longrightarrow> 1 \<le> length (tok t v) \<and> length (tok t v) \<le> 9"
proof -
  assume "t \<in> wire_types"
  then have "write_head t v 10 = Inr (tok t v)"
    using write_total [of t v] by auto
  then show ?thesis
    by (cases rule: write_head_cases) auto
qed

lemma tok_parses:
  assumes "t \<in> wire_types"
  shows "cbor_parseToken (tok t v @ r) = Inr (token_of t v)"
  using parse_written_token [of t v 10 "tok t v" r] write_total(2) [of t v] assms
  by (auto simp: token_of_def)

text \<open>The token parser reads the encodings of tokens with canonical widths.\<close>

interpretation token: wire_codec view_parseToken "\<lambda>token. tok (tokType token) (tokValue token)"
  "\<lambda>token. tokType token \<in> wire_types \<and> token = token_of (tokType token) (tokValue token)"
proof
  fix token view r
  assume v: "tokType token \<in> wire_types \<and> token = token_of (tokType token) (tokValue token)"
    and view: "views view (tok (tokType token) (tokValue token) @ r)"
  let ?t = "tokType token" and ?v = "tokValue token"
  have "cbor_parseToken (tok ?t ?v @ r) = Inr token"
    using tok_parses [of ?t ?v r] v by simp
  moreover have "unat (tokWidth token) + 1 = length (tok ?t ?v)"
  proof -
    obtain n where l: "length (tok ?t ?v) = Suc n" "n < 9"
      using tok_length [of ?t ?v] v by (cases "length (tok ?t ?v)") auto
    have "tokWidth token = word_of_nat (length (tok ?t ?v) - 1)"
      using v by (metis cbor_token.select_convs(2) token_of_def)
    then show ?thesis
      using l by (simp add: unat_of_nat take_bit_nat_eq_self_iff)
  qed
  ultimately show "view_parseToken view = Inr (token, advance (length (tok ?t ?v)) view)"
    using view by (simp add: view_parseToken_def views_def skip_eq)
qed

lemma views_token:
  assumes "t \<in> wire_types" "views view (tok t v @ r)"
  shows "view_parseToken view = Inr (token_of t v, advance (length (tok t v)) view)"
    "views (advance (length (tok t v)) view) r"
proof -
  have "tokType (token_of t v) = t" "tokValue (token_of t v) = v"
    by (simp_all add: token_of_def)
  then show "view_parseToken view = Inr (token_of t v, advance (length (tok t v)) view)"
    using token.parse_encode [of "token_of t v" view r] assms by simp
  show "views (advance (length (tok t v)) view) r"
    using assms(2) by (auto simp: views_def intro: advance_ok)
qed

lemma token_of_simps [simp]: "tokType (token_of t v) = t" "tokValue (token_of t v) = v"
  by (simp_all add: token_of_def)

text \<open>What each helper does to a view that starts with the token it asks for.\<close>

lemma parseTokenWithValue_ok:
  "t \<in> wire_types \<Longrightarrow> views view (tok t v @ r) \<Longrightarrow>
   \<exists>view'. parseTokenWithValue t v view = Inr view' \<and> views view' r"
  using views_token by (auto simp: parseTokenWithValue_def)

lemma parseToken_ok:
  "t \<in> wire_types \<Longrightarrow> views view (tok t v @ r) \<Longrightarrow>
   \<exists>view'. parseToken t view = Inr (v, view') \<and> views view' r"
  using views_token by (auto simp: parseToken_def)

lemma parseBytesSize_ok:
  assumes "views view (tok CBOR_TYPE_BYTES (word_of_nat n) @ r)" "n < 1024" "n \<le> length r"
  shows "\<exists>view'. parseBytesSizeToken view = Inr (n, view') \<and> views view' r"
proof -
  have u: "unat (word_of_nat n :: u64) = n"
    using assms(2) by (simp add: unat_of_nat take_bit_nat_eq_self_iff)
  moreover have "(word_of_nat n :: u64) < SIZE_MAX"
    using assms(2) by (simp add: word_less_nat_alt u)
  moreover note views_token [of CBOR_TYPE_BYTES view "word_of_nat n" r] assms
  ultimately show ?thesis
    by (simp add: parseBytesSizeToken_def parseToken_def Let_def views_def)
qed

lemma skip_ok:
  "views view (bs @ r) \<Longrightarrow> n = length bs \<Longrightarrow> \<exists>view'. read_view_skip n view = Inr view' \<and> views view' r"
  by (auto simp: views_def skip_eq intro: advance_ok)

subsection \<open>What is derived\<close>

text \<open>Writing tokens and buffers into a view with enough room.\<close>

lemma tok_len:
  "t \<in> wire_types \<Longrightarrow> length (tok t v) =
    (if v < 24 then 1 else if v < 0x100 then 2 else if v < 0x10000 then 3
     else if v < 0x100000000 then 5 else 9)"
proof -
  assume "t \<in> wire_types"
  then have "write_head t v 10 = Inr (tok t v)"
    using write_total [of t v] by auto
  then show ?thesis
    by (cases rule: write_head_cases) (auto simp: word_less_nat_alt word_le_nat_alt)
qed

lemma unat_ucast_u32 [simp]: "unat (ucast (x :: u32) :: u64) = unat x"
  using unsigned_less [of x, where ?'a = nat]
  by (simp add: unsigned_ucast_eq take_bit_nat_eq_self_iff)

lemma write_head_fits:
  assumes "write_head t v 10 = Inr bs" "length bs \<le> n"
  shows "write_head t v n = Inr bs"
  using assms(1)
proof (cases rule: write_head_cases)
qed (use assms(2) in \<open>auto simp: write_head_def Let_def word_less_nat_alt word_le_nat_alt\<close>)

lemma appendToken_eq:
  assumes "wv_ok view" "t \<in> wire_types" "length (wv_out view) + length (tok t v) \<le> wv_size view"
    and "wv_size view < 1024"
  shows "view_appendToken t v view = Inr (view\<lparr>wv_out := wv_out view @ tok t v\<rparr>)"
proof -
  have "write_head t v 10 = Inr (tok t v)"
    using write_total [of t v] assms(2) by auto
  then have "write_head t v n = Inr (tok t v)" if "length (tok t v) \<le> n" for n
    using that by (rule write_head_fits)
  then have "cbor_writeToken t v (wv_size view - length (wv_out view)) = Inr (tok t v)"
    using assms(2-4) by (auto simp: cbor_writeToken_def)
  then show ?thesis
    using assms(1,4) by (simp add: view_appendToken_def write_view_simps ASSERT_def)
qed

definition attributes :: "u32 \<Rightarrow> bytes" where
  "attributes magic =
     (if magic = MAINNET_PROTOCOL_MAGIC then tok CBOR_TYPE_MAP 0
      else tok CBOR_TYPE_MAP 1 @ tok CBOR_TYPE_UNSIGNED PROTOCOL_MAGIC_ADDRESS_ATTRIBUTE_KEY @
        tok CBOR_TYPE_BYTES (word_of_nat (length (tok CBOR_TYPE_UNSIGNED (ucast magic)))) @
        tok CBOR_TYPE_UNSIGNED (ucast magic))"

definition inner_address :: "bytes \<Rightarrow> u32 \<Rightarrow> bytes" where
  "inner_address root magic = tok CBOR_TYPE_ARRAY 3 @ tok CBOR_TYPE_BYTES 28 @ root @
     attributes magic @ tok CBOR_TYPE_UNSIGNED CARDANO_ADDRESS_TYPE_PUBKEY"

definition packed_address :: "firmware \<Rightarrow> bytes \<Rightarrow> bytes" where
  "packed_address fw raw = tok CBOR_TYPE_ARRAY 2 @
     tok CBOR_TYPE_TAG CBOR_TAG_EMBEDDED_CBOR_BYTE_STRING @
     tok CBOR_TYPE_BYTES (word_of_nat (length raw)) @ raw @
     tok CBOR_TYPE_UNSIGNED (ucast (crc32 fw raw))"

lemma magic_length: "length (tok CBOR_TYPE_UNSIGNED (ucast (magic :: u32))) \<le> 5"
proof -
  have "(ucast magic :: u64) < 0x100000000"
    using unsigned_less [of magic, where ?'a = nat]
    by (simp add: word_less_nat_alt)
  then show ?thesis
    by (simp add: tok_len)
qed

lemma magic_length_pos: "0 < length (tok CBOR_TYPE_UNSIGNED (ucast (magic :: u32)))"
  by (simp add: tok_len)

lemma size_token: "n < 24 \<Longrightarrow> length (tok CBOR_TYPE_BYTES (word_of_nat n)) = 1"
  by (simp add: tok_len word_less_nat_alt unat_of_nat take_bit_nat_eq_self_iff)

lemma wv_append_ok:
  "wv_ok view \<Longrightarrow> length (wv_out view) + length bs \<le> wv_size view \<Longrightarrow>
   wv_ok (view\<lparr>wv_out := wv_out view @ bs\<rparr>)"
  by (simp add: wv_ok_def)

lemma attributes_length: "length (attributes magic) \<le> 8"
  using magic_length [of magic] size_token [of "length (tok CBOR_TYPE_UNSIGNED (ucast magic))"]
  by (simp add: attributes_def tok_len [of CBOR_TYPE_MAP] tok_len [of CBOR_TYPE_UNSIGNED 2])

lemma inner_length: "length root = 28 \<Longrightarrow> length (inner_address root magic) \<le> 40"
  using attributes_length [of magic] by (simp add: inner_address_def tok_len)

text \<open>The scratch buffer of forty bytes of the derivation is just large enough.\<close>

lemma encode_inner:
  assumes "length root = 28" "40 \<le> n" "n < 1024"
  shows "cborEncodePubkeyAddressInner root magic n = Inr (inner_address root magic)"
proof -
  let ?s = "tok CBOR_TYPE_UNSIGNED (ucast magic)"
  have w: "cbor_writeToken CBOR_TYPE_UNSIGNED (ucast magic) 10 = Inr ?s"
    using write_total(2) [of CBOR_TYPE_UNSIGNED] by simp
  have l: "length ?s \<le> 5" "length (tok CBOR_TYPE_BYTES (word_of_nat (length ?s))) = 1"
    using magic_length [of magic] size_token [of "length ?s"] by simp_all
  note t = tok_len [of CBOR_TYPE_ARRAY 3] tok_len [of CBOR_TYPE_BYTES 28] tok_len [of CBOR_TYPE_MAP 0]
    tok_len [of CBOR_TYPE_MAP 1] tok_len [of CBOR_TYPE_UNSIGNED 0] tok_len [of CBOR_TYPE_UNSIGNED 2]
  show ?thesis
  proof (cases "magic = MAINNET_PROTOCOL_MAGIC")
    case True
    then show ?thesis
      using assms t by (simp add: cborEncodePubkeyAddressInner_def make_write_view_def appendToken_eq
          appendBuffer_eq wv_ok_def write_view_simps inner_address_def attributes_def)
  next
    case False
    then show ?thesis
      using assms t l w by (simp add: cborEncodePubkeyAddressInner_def make_write_view_def appendToken_eq
          appendBuffer_eq wv_ok_def write_view_simps inner_address_def attributes_def)
  qed
qed

lemma pack_eq:
  assumes "length raw \<le> 40" "50 \<le> n" "n < 1024"
  shows "cborPackRawAddressWithChecksum fw raw n = Inr (packed_address fw raw)"
    "length (packed_address fw raw) \<le> 50"
proof -
  have "(word_of_nat (length raw) :: u64) < 0x100"
    using assms(1) by (simp add: word_less_nat_alt unat_of_nat take_bit_nat_eq_self_iff)
  then have l: "length (tok CBOR_TYPE_BYTES (word_of_nat (length raw))) \<le> 2"
    by (simp add: tok_len)
  note t = tok_len [of CBOR_TYPE_ARRAY 2] tok_len [of CBOR_TYPE_TAG 24] magic_length [of "crc32 fw raw"]
  show "cborPackRawAddressWithChecksum fw raw n = Inr (packed_address fw raw)"
    using assms t l by (simp add: cborPackRawAddressWithChecksum_def make_write_view_def appendToken_eq
        appendBuffer_eq wv_ok_def write_view_simps packed_address_def)
  show "length (packed_address fw raw) \<le> 50"
    using assms(1) t l by (simp add: packed_address_def)
qed

subsection \<open>Reading it back\<close>

lemma parse_own_attributes:
  assumes "magic \<noteq> 0xFFFFFFFF" "views view (attributes magic @ r)"
  shows "\<exists>mapLength v w. parseToken CBOR_TYPE_MAP view = Inr (mapLength, v) \<and>
    mapLength \<le> MAX_ADDRESS_ATTRIBUTES_MAP_LENGTH \<and>
    parse_attributes (unat mapLength) (MAINNET_PROTOCOL_MAGIC, False) v =
      Inr ((magic, magic \<noteq> MAINNET_PROTOCOL_MAGIC), w) \<and> views w r"
proof (cases "magic = MAINNET_PROTOCOL_MAGIC")
  case True
  then obtain v where "parseToken CBOR_TYPE_MAP view = Inr (0, v)" "views v r"
    using assms(2) parseToken_ok [of CBOR_TYPE_MAP view 0 r] by (auto simp: attributes_def)
  then show ?thesis
    using True by (intro exI [of _ 0] exI) auto
next
  case False
  let ?s = "tok CBOR_TYPE_UNSIGNED (ucast magic)"
  let ?rest = "tok CBOR_TYPE_BYTES (word_of_nat (length ?s)) @ ?s @ r"
  have l: "length ?s < 1024"
    using magic_length [of magic] by simp
  have "unat magic < 0xFFFFFFFF"
    using assms(1) unsigned_less [of magic, where ?'a = nat]
    by (simp add: word_unat_eq_iff)
  then have m: "(ucast magic :: u64) < SIZE_MAX" "ucast (ucast magic :: u64) = magic"
    by (simp_all add: word_less_nat_alt word_unat_eq_iff unsigned_ucast_eq take_bit_nat_eq_self_iff
        take_bit_word_eq_self)
  obtain v where v: "parseToken CBOR_TYPE_MAP view = Inr (1, v)" "views v (tok CBOR_TYPE_UNSIGNED 2 @ ?rest)"
    using assms(2) False parseToken_ok [of CBOR_TYPE_MAP view 1 "tok CBOR_TYPE_UNSIGNED 2 @ ?rest"]
    by (auto simp: attributes_def)
  obtain v1 where v1: "parseToken CBOR_TYPE_UNSIGNED v = Inr (2, v1)" "views v1 ?rest"
    using parseToken_ok [OF _ v(2)] by auto
  obtain v2 where v2: "parseBytesSizeToken v1 = Inr (length ?s, v2)" "views v2 (?s @ r)"
    using parseBytesSize_ok [OF v1(2) l] by auto
  obtain v3 where v3: "parseToken CBOR_TYPE_UNSIGNED v2 = Inr (ucast magic, v3)" "views v3 r"
    using parseToken_ok [OF _ v2(2)] by auto
  have "parse_attributes 1 (MAINNET_PROTOCOL_MAGIC, False) v = Inr ((magic, True), v3)"
    using v1(1) v2(1) v3(1) m False by (simp add: Let_def)
  then show ?thesis
    using v(1) v3(2) False by (intro exI [of _ 1] exI [of _ v] exI [of _ v3]) simp
qed

subsection \<open>Properties\<close>



lemma key_sizes:
  assumes "firmware_ok fw" "deriveExtendedPublicKey fw p = Inr key"
  shows "length (pubKey key) = 32" "length (chainCode key) = 32"
proof -
  obtain raw cc where k: "get_pubkey fw (take (unat (path_length p)) (path p)) = Some (raw, cc)"
    and e: "extractRawPublicKey raw = Inr (pubKey key)" "chainCode key = cc"
    using assms(2) by (auto simp: deriveExtendedPublicKey_def res_bind_Inr_iff split: if_splits option.splits)
  show "length (chainCode key) = 32"
    using firmware_sizes(1) [OF assms(1) k] e by simp
  show "length (pubKey key) = 32"
    using e(1) [symmetric] by (simp add: extractRawPublicKey_def Let_def)
qed

text \<open>The seventy-four bytes for the hashed structure hold every key.\<close>

lemma address_root:
  assumes "length (pubKey key) = 32" "length (chainCode key) = 32"
  shows "\<exists>cbor. addressRootFromExtPubKey fw key 28 =
    (case sha3_256 fw cbor of None \<Rightarrow> Inl ERR_ASSERT | Some h \<Rightarrow> blake2b_hash (blake2b_224 fw) 28 h 28)"
proof -
  note t = tok_len [of CBOR_TYPE_ARRAY 3] tok_len [of CBOR_TYPE_BYTES 64] tok_len [of CBOR_TYPE_MAP 0]
    tok_len [of CBOR_TYPE_ARRAY 2] tok_len [of CBOR_TYPE_UNSIGNED 0]
  let ?cbor = "tok CBOR_TYPE_ARRAY 3 @ tok CBOR_TYPE_UNSIGNED 0 @ tok CBOR_TYPE_ARRAY 2 @
    tok CBOR_TYPE_UNSIGNED 0 @ tok CBOR_TYPE_BYTES 64 @ pubKey key @ chainCode key @ tok CBOR_TYPE_MAP 0"
  have l: "length ?cbor < 1024"
    using assms t by simp
  have "addressRootFromExtPubKey fw key 28 = res_bind (blake2b_hash (sha3_256 fw) 32 ?cbor 32)
      (\<lambda>h. blake2b_hash (blake2b_224 fw) 28 h 28)"
    using assms t by (simp add: addressRootFromExtPubKey_def make_write_view_def appendToken_eq
        appendBuffer_eq wv_ok_def write_view_simps)
  then show ?thesis
    unfolding blake2b_hash_eq [OF l] by (intro exI [of _ ?cbor]) (simp split: option.split)
qed

lemma root_length:
  "firmware_ok fw \<Longrightarrow> addressRootFromExtPubKey fw key 28 = Inr root \<Longrightarrow> length root = 28"
  unfolding firmware_ok_def
  by (auto simp: addressRootFromExtPubKey_def res_bind_Inr_iff blake2b_hash_def blake2b_finalize_def
      split: if_splits option.splits)

text \<open>
  C33. With a firmware that keeps its documented output sizes, deriving a bootstrap address for
  a path that has a key yields an address of at most fifty bytes for every protocol magic: the
  scratch buffers of 74 and 40 bytes never overflow. The only failure left is the firmware
  reporting an error in one of its two hash functions.
\<close>

theorem derived_byron_fits:
  assumes "firmware_ok fw" "deriveExtendedPublicKey fw p = Inr key" "50 \<le> n" "n < BUFFER_SIZE_PARANOIA"
  shows "(\<exists>address. deriveAddress_byron fw p magic n = Inr address \<and> length address \<le> 50) \<or>
    deriveAddress_byron fw p magic n = Inl ERR_ASSERT \<and>
    (\<exists>bs. sha3_256 fw bs = None \<or> blake2b_224 fw bs = None)"
proof (cases "addressRootFromExtPubKey fw key 28")
  case (Inr root)
  then have l: "length root = 28"
    using root_length assms(1) by blast
  have "deriveRawAddress fw p magic 40 = Inr (inner_address root magic)"
    using assms(2) Inr encode_inner [OF l, of 40] by (simp add: deriveRawAddress_def)
  then show ?thesis
    using pack_eq [OF inner_length [OF l] assms(3,4)] assms(4) by (simp add: deriveAddress_byron_def)
next
  case (Inl e)
  obtain cbor where c: "addressRootFromExtPubKey fw key 28 =
      (case sha3_256 fw cbor of None \<Rightarrow> Inl ERR_ASSERT | Some h \<Rightarrow> blake2b_hash (blake2b_224 fw) 28 h 28)"
    using address_root key_sizes [OF assms(1,2)] by blast
  have "e = ERR_ASSERT \<and> (\<exists>bs. sha3_256 fw bs = None \<or> blake2b_224 fw bs = None)"
  proof (cases "sha3_256 fw cbor")
    case (Some h)
    then have "length h = 32"
      using firmware_sizes(4) [OF assms(1)] by blast
    then show ?thesis
      using c Inl Some by (auto simp: blake2b_hash_eq split: option.splits)
  qed (use c Inl in auto)
  then show ?thesis
    using Inl assms(2,4) by (simp add: deriveAddress_byron_def deriveRawAddress_def)
qed

lemma derived_byron_fits_witness:
  "\<exists>key. deriveExtendedPublicKey sample_firmware
      \<lparr>path = [0x8000002C, 0x80000717, 0x80000000, 0, 0], path_length = 5\<rparr> = Inr key \<and>
    (\<exists>address. deriveAddress_byron sample_firmware
      \<lparr>path = [0x8000002C, 0x80000717, 0x80000000, 0, 0], path_length = 5\<rparr> 42 64 = Inr address \<and>
      length address \<le> 50)"
proof -
  let ?p = "\<lparr>path = [0x8000002C, 0x80000717, 0x80000000, 0, 0], path_length = 5\<rparr>"
  have "\<exists>key. deriveExtendedPublicKey sample_firmware ?p = Inr key"
    by (auto simp: deriveExtendedPublicKey_def sample_firmware_def derive_policy path_ok_def
        extractRawPublicKey_def Let_def elements_def hard_def)
  then obtain key where k: "deriveExtendedPublicKey sample_firmware ?p = Inr key" ..
  then show ?thesis
    using derived_byron_fits [OF sample_firmware_ok k, of 64 42] by (auto simp: sample_firmware_def)
qed

end
