(* ===== verification/Bech32.thy ===== *)
theory Bech32
  imports Prelude
begin

text \<open>
  \<open>src/crypto/bech32.c\<close>: the encoder of human-readable addresses. A C string is the list of
  its characters before the terminating zero, \<open>char\<close> is unsigned on the devices, and the
  output buffer is the list of characters written so far. The encoder is checked against a
  decoder written from the standard: what it produces has a valid checksum and decodes to the
  prefix and the bytes that were encoded.
\<close>

subsection \<open>The encoder\<close>

definition bech32_polymod_step :: "u32 \<Rightarrow> u32" where
  "bech32_polymod_step pre =
     (let b = (ucast (drop_bit 25 pre) :: u8) in
      push_bit 5 (pre AND 0x1FFFFFF) XOR
      (- ucast (drop_bit 0 b AND 1) AND 0x3b6a57b2) XOR
      (- ucast (drop_bit 1 b AND 1) AND 0x26508e6d) XOR
      (- ucast (drop_bit 2 b AND 1) AND 0x1ea119fa) XOR
      (- ucast (drop_bit 3 b AND 1) AND 0x3d4233dd) XOR
      (- ucast (drop_bit 4 b AND 1) AND 0x2a1462b3))"

definition charset :: string where
  "charset = ''qpzry9x8gf2tvdw0s3jn54khce6mua7l''"

abbreviation (input) code :: "char \<Rightarrow> u32" where "code c \<equiv> of_char c"

definition append_out :: "nat \<Rightarrow> char \<Rightarrow> string stmt" where
  "append_out maxOutputSize c out =
     (if length out < maxOutputSize then Inr (out @ [c]) else Inl ERR_ASSERT)"

text \<open>The loops over the prefix and over the data, and the last six characters.\<close>

definition absorb_high :: "char \<Rightarrow> u32 stmt" where
  "absorb_high c chk =
     (if code (CHR ''A'') \<le> code c \<and> code c \<le> code (CHR ''Z'') then Inl ERR_ASSERT
      else if drop_bit 5 (code c) = 0 then Inl ERR_ASSERT
      else Inr (bech32_polymod_step chk XOR drop_bit 5 (code c)))"

definition emit_prefix :: "nat \<Rightarrow> char \<Rightarrow> (u32 \<times> string) stmt" where
  "emit_prefix maxOutputSize c = (\<lambda>(chk, out).
     res_bind (append_out maxOutputSize c out) (\<lambda>out.
       Inr (bech32_polymod_step chk XOR (code c AND 0x1f), out)))"

definition emit_data :: "nat \<Rightarrow> u8 \<Rightarrow> (u32 \<times> string) stmt" where
  "emit_data maxOutputSize d = (\<lambda>(chk, out).
     if drop_bit 5 d \<noteq> 0 then Inl ERR_ASSERT
     else res_bind (append_out maxOutputSize (charset ! unat d) out) (\<lambda>out.
       Inr (bech32_polymod_step chk XOR ucast d, out)))"

definition emit_checksum :: "nat \<Rightarrow> u32 \<Rightarrow> string stmt" where
  "emit_checksum maxOutputSize chk =
     seq (map (\<lambda>i. append_out maxOutputSize (charset ! unat (drop_bit ((5 - i) * 5) chk AND 0x1f)))
       [0..<6])"

definition bech32_encode_5bit :: "string \<Rightarrow> u8 list \<Rightarrow> nat \<Rightarrow> string res" where
  "bech32_encode_5bit hrp data maxOutputSize =
     (if \<not> maxOutputSize < BUFFER_SIZE_PARANOIA then Inl ERR_ASSERT
      else if \<not> maxOutputSize \<ge> length hrp + length data + 8 then Inl ERR_ASSERT
      else res_bind (seq (map absorb_high hrp) 1) (\<lambda>chk.
       let chk = bech32_polymod_step chk in
       res_bind (seq (map (emit_prefix maxOutputSize) hrp) (chk, [])) (\<lambda>(chk, out).
       res_bind (append_out maxOutputSize (CHR ''1'') out) (\<lambda>out.
       res_bind (seq (map (emit_data maxOutputSize) data) (chk, out)) (\<lambda>(chk, out).
       let chk = (bech32_polymod_step ^^ 6) chk XOR 1 in
       res_bind (emit_checksum maxOutputSize chk out) (append_out maxOutputSize (CHR 0x00)))))))"

abbreviation (input) MAX_BYTES :: nat where "MAX_BYTES \<equiv> 65"
abbreviation (input) DATA5BIT_SIZE :: nat where "DATA5BIT_SIZE \<equiv> 104"

fun emit_groups :: "u32 \<Rightarrow> nat \<Rightarrow> u8 list \<Rightarrow> (nat \<times> u8 list) res" where
  "emit_groups val bits out =
     (if bits < 5 then Inr (bits, out)
      else if length out < DATA5BIT_SIZE
      then emit_groups val (bits - 5) (out @ [ucast (drop_bit (bits - 5) val AND 31)])
      else Inl ERR_ASSERT)"

declare emit_groups.simps [simp del]

fun convert_bits :: "bytes \<Rightarrow> u32 \<Rightarrow> nat \<Rightarrow> u8 list \<Rightarrow> u8 list res" where
  "convert_bits [] val bits out =
     (if bits = 0 then Inr out
      else if length out < DATA5BIT_SIZE
      then Inr (out @ [ucast (push_bit (5 - bits) val AND 31)])
      else Inl ERR_ASSERT)"
| "convert_bits (b # bs) val bits out =
     (let val = push_bit 8 val OR ucast b in
      res_bind (emit_groups val (bits + 8) out) (\<lambda>(bits, out). convert_bits bs val bits out))"

definition strlen :: "string \<Rightarrow> nat" where
  "strlen s = length (takeWhile (\<lambda>c. c \<noteq> CHR 0x00) s)"

definition bech32_encode :: "string \<Rightarrow> bytes \<Rightarrow> nat \<Rightarrow> string res" where
  "bech32_encode hrp bytes maxOutputSize =
     (if \<not> length bytes \<le> MAX_BYTES then Inl ERR_ASSERT
      else if \<not> strlen hrp \<ge> 1 then Inl ERR_ASSERT
      else let ceiling = (8 * length bytes + 4) div 5;
               supposedOutputLength = strlen hrp + 1 + ceiling + 6 in
       if \<not> maxOutputSize \<ge> supposedOutputLength + 1 then Inl ERR_ASSERT
       else if \<not> maxOutputSize < BUFFER_SIZE_PARANOIA then Inl ERR_ASSERT
       else res_bind (convert_bits bytes 0 0 []) (\<lambda>data5bit.
       res_bind (bech32_encode_5bit hrp data5bit maxOutputSize) (\<lambda>output.
         if strlen output = supposedOutputLength then Inr (take supposedOutputLength output)
         else Inl ERR_ASSERT)))"

subsection \<open>A decoder from the standard\<close>

definition polymod :: "u32 \<Rightarrow> u32 list \<Rightarrow> u32" where
  "polymod chk vs = fold (\<lambda>v chk. bech32_polymod_step chk XOR v) vs chk"

definition hrp_expand :: "string \<Rightarrow> u32 list" where
  "hrp_expand hrp = map (\<lambda>c. drop_bit 5 (code c)) hrp @ [0] @ map (\<lambda>c. code c AND 0x1f) hrp"

text \<open>The bits of a word, the most significant first, and the bytes of a list of bits.\<close>

definition low_bits :: "nat \<Rightarrow> 'a::len word \<Rightarrow> bool list" where
  "low_bits n v = map (bit v) (rev [0..<n])"

definition byte_of :: "bool list \<Rightarrow> u8" where
  "byte_of bs = horner_sum of_bool 2 (rev bs)"

fun bytes_of :: "bool list \<Rightarrow> bytes" where
  "bytes_of bs = (if length bs < 8 then [] else byte_of (take 8 bs) # bytes_of (drop 8 bs))"

declare bytes_of.simps [simp del]

definition symbol :: "char \<Rightarrow> u32 option" where
  "symbol c = (if c \<in> set charset
     then Some (word_of_nat (length (takeWhile (\<lambda>d. d \<noteq> c) charset))) else None)"

definition bech32_decode :: "string \<Rightarrow> (string \<times> bytes) option" where
  "bech32_decode s =
     (let data = rev (takeWhile (\<lambda>c. c \<noteq> CHR ''1'') (rev s));
          hrp = take (length s - length data - 1) s in
      case those (map symbol data) of None \<Rightarrow> None
      | Some vs \<Rightarrow>
        if length s \<le> length data \<or> length vs < 6 \<or> polymod 1 (hrp_expand hrp @ vs) \<noteq> 1 then None
        else Some (hrp, bytes_of (concat (map (low_bits 5) (take (length vs - 6) vs)))))"

subsection \<open>Regrouping bits\<close>

lemma low_bits_length [simp]: "length (low_bits n v) = n"
  by (simp add: low_bits_def)

lemma low_bits_nth: "i < n \<Longrightarrow> low_bits n v ! i = bit v (n - 1 - i)"
  by (simp add: low_bits_def rev_nth)

lemma low_bits_split:
  fixes v :: u32
  shows "low_bits (n + 5) v = low_bits 5 (ucast (drop_bit n v AND 31) :: u8) @ low_bits n v"
proof (rule nth_equalityI)
  fix i assume i: "i < length (low_bits (n + 5) v)"
  have m: "(31 :: u32) = mask 5"
    by (simp add: mask_eq_exp_minus_1)
  show "low_bits (n + 5) v ! i = (low_bits 5 (ucast (drop_bit n v AND 31) :: u8) @ low_bits n v) ! i"
  proof (cases "i < 5")
    case True
    then have "n + 5 - 1 - i = n + (4 - i)" by simp
    then show ?thesis
      using True i unfolding m
      by (auto simp: nth_append low_bits_nth bit_ucast_iff bit_and_iff bit_mask_iff bit_drop_bit_eq)
  next
    case False
    then show ?thesis
      using i by (simp add: nth_append low_bits_nth)
  qed
qed simp

lemma low_bits_shift:
  fixes v :: u32 and b :: u8
  assumes "n + 8 \<le> 32"
  shows "low_bits (n + 8) (push_bit 8 v OR ucast b) = low_bits n v @ low_bits 8 b"
proof (rule nth_equalityI)
  fix i assume i: "i < length (low_bits (n + 8) (push_bit 8 v OR ucast b))"
  show "low_bits (n + 8) (push_bit 8 v OR ucast b) ! i = (low_bits n v @ low_bits 8 b) ! i"
  proof (cases "i < n")
    case True
    then obtain j where n: "n = Suc (i + j)"
      using less_imp_Suc_add by blast
    have "\<not> bit b (8 + j)"
      using bit_imp_le_length [of b "8 + j"] by auto
    then show ?thesis
      using assms by (simp add: n nth_append low_bits_nth bit_or_iff bit_push_bit_iff bit_ucast_iff)
  next
    case False
    then obtain j where "i = n + j" "j < 8"
      using i by (auto simp: not_less le_iff_add)
    then show ?thesis
      using assms by (auto simp: nth_append low_bits_nth bit_or_iff bit_push_bit_iff bit_ucast_iff)
  qed
qed simp

lemma low_bits_pad:
  fixes v :: u32
  assumes "n \<le> 5"
  shows "low_bits 5 (ucast (push_bit (5 - n) v AND 31) :: u8) = low_bits n v @ replicate (5 - n) False"
proof (rule nth_equalityI)
  fix i assume i: "i < length (low_bits 5 (ucast (push_bit (5 - n) v AND 31) :: u8))"
  have m: "(31 :: u32) = mask 5"
    by (simp add: mask_eq_exp_minus_1)
  show "low_bits 5 (ucast (push_bit (5 - n) v AND 31) :: u8) ! i =
    (low_bits n v @ replicate (5 - n) False) ! i"
    using i assms unfolding m
    by (auto simp: nth_append low_bits_nth bit_ucast_iff bit_and_iff bit_mask_iff bit_push_bit_iff)
qed (use assms in simp)

text \<open>What the inner loop emits is five bits at a time from the top.\<close>

lemma emit_groups_bits:
  "emit_groups v bits out = Inr (bits', out') \<Longrightarrow>
   bits' < 5 \<and> 5 * length out' + bits' = 5 * length out + bits \<and>
   concat (map (low_bits 5) out') @ low_bits bits' v = concat (map (low_bits 5) out) @ low_bits bits v"
proof (induction v bits out rule: emit_groups.induct)
  case (1 v bits out)
  show ?case
  proof (cases "bits < 5")
    case False
    define n where "n = bits - 5"
    have b: "bits = n + 5" using False by (simp add: n_def)
    show ?thesis
      using 1 False low_bits_split [of n v]
      by (subst (asm) (2) emit_groups.simps) (auto simp: b split: if_splits)
  qed (use 1(2) in \<open>subst (asm) emit_groups.simps, auto\<close>)
qed

lemma emit_groups_total:
  "length out + bits div 5 \<le> DATA5BIT_SIZE \<Longrightarrow> \<exists>r. emit_groups v bits out = Inr r"
proof (induction v bits out rule: emit_groups.induct)
  case (1 v bits out)
  then show ?case
    by (subst emit_groups.simps) (auto simp: le_div_geq)
qed

lemma convert_bits_ok:
  "bits < 5 \<Longrightarrow> 8 * length bs + bits + 5 * length out + 4 \<le> 5 * DATA5BIT_SIZE + 4 \<Longrightarrow>
   \<exists>out' pad. convert_bits bs v bits out = Inr out' \<and> pad < 5 \<and>
     5 * length out' = 5 * length out + bits + 8 * length bs + pad \<and>
     concat (map (low_bits 5) out') =
       concat (map (low_bits 5) out) @ low_bits bits v @ concat (map (low_bits 8) bs) @ replicate pad False"
proof (induction bs arbitrary: v bits out)
  case Nil
  show ?case
  proof (cases "bits = 0")
    case True
    then show ?thesis by (auto simp: low_bits_def)
  next
    case False
    then show ?thesis
      using Nil low_bits_pad [of bits v] by (intro exI [of _ "5 - bits"] exI conjI) auto
  qed
next
  case (Cons b bs)
  let ?v = "push_bit 8 v OR ucast b :: u32"
  obtain bits' out' where e: "emit_groups ?v (bits + 8) out = Inr (bits', out')"
    using emit_groups_total [of out "bits + 8" ?v] Cons.prems by fastforce
  note g = emit_groups_bits [OF e]
  obtain out'' pad where "convert_bits bs ?v bits' out' = Inr out''" "pad < 5"
    "5 * length out'' = 5 * length out' + bits' + 8 * length bs + pad"
    "concat (map (low_bits 5) out'') =
       concat (map (low_bits 5) out') @ low_bits bits' ?v @ concat (map (low_bits 8) bs) @ replicate pad False"
    using Cons.IH [of bits' out' ?v] Cons.prems g by auto
  then show ?case
    using e g low_bits_shift [of bits v b] Cons.prems by (intro exI [of _ out''] exI [of _ pad]) auto
qed

text \<open>Cutting the bits into bytes again.\<close>

lemma byte_of_low_bits [simp]: "byte_of (low_bits 8 b) = b" for b :: u8
proof (rule bit_word_eqI)
  fix n assume "n < LENGTH(8)"
  then show "bit (byte_of (low_bits 8 b)) n = bit b n"
    by (simp add: byte_of_def low_bits_def rev_map bit_horner_sum_bit_word_iff)
qed

lemma bytes_of_ok:
  "length pad < 8 \<Longrightarrow> bytes_of (concat (map (low_bits 8) bs) @ pad) = bs" for bs :: bytes
proof (induction bs)
  case (Cons b bs)
  then show ?case
    by (subst bytes_of.simps) simp
qed (simp add: bytes_of.simps)

subsection \<open>The checksum\<close>

text \<open>A step is linear over exclusive or.\<close>

lemma low_bit: "drop_bit i x AND 1 = of_bool (bit x i)" for x :: u8
  by (simp add: and_one_eq bit_iff_odd_drop_bit mod_2_eq_odd)

lemma mask_linear:
  fixes a b :: u8 and k :: u32
  shows "- ucast (drop_bit i (a XOR b) AND 1) AND k =
    (- ucast (drop_bit i a AND 1) AND k) XOR (- ucast (drop_bit i b AND 1) AND k)"
  unfolding low_bit by (cases "bit a i"; cases "bit b i") (simp_all add: bit_xor_iff)

lemma step_linear:
  "bech32_polymod_step (a XOR b) = bech32_polymod_step a XOR bech32_polymod_step b"
proof -
  have d: "(ucast (drop_bit 25 (a XOR b)) :: u8) = ucast (drop_bit 25 a) XOR ucast (drop_bit 25 b)"
    by (rule bit_word_eqI) (simp add: bit_ucast_iff bit_drop_bit_eq bit_xor_iff)
  have p: "push_bit 5 ((a XOR b) AND 0x1FFFFFF) =
      push_bit 5 (a AND 0x1FFFFFF) XOR push_bit 5 (b AND 0x1FFFFFF)"
    by (rule bit_word_eqI) (auto simp only: bit_push_bit_iff bit_and_iff bit_xor_iff)
  show ?thesis
    unfolding bech32_polymod_step_def Let_def d p mask_linear by (simp only: ac_simps)
qed

lemma polymod_simps [simp]:
  "polymod chk [] = chk"
  "polymod chk (v # vs) = polymod (bech32_polymod_step chk XOR v) vs"
  "polymod chk (xs @ ys) = polymod (polymod chk xs) ys"
  by (simp_all add: polymod_def)

lemma polymod_linear:
  "length xs = length ys \<Longrightarrow>
   polymod (a XOR b) (map2 (XOR) xs ys) = polymod a xs XOR polymod b ys"
proof (induction xs ys arbitrary: a b rule: list_induct2)
  case (Cons x xs y ys)
  have "bech32_polymod_step (a XOR b) XOR (x XOR y) =
      (bech32_polymod_step a XOR x) XOR (bech32_polymod_step b XOR y)"
    by (simp only: step_linear ac_simps)
  then show ?case
    by (simp add: Cons.IH)
qed simp

lemma polymod_zeros: "polymod chk (replicate n 0) = (bech32_polymod_step ^^ n) chk"
  by (induction n arbitrary: chk) (simp_all add: funpow_swap1)

text \<open>Below twenty-five bits a step is a shift, so six symbols that spell a word give the word.\<close>

definition spell :: "u32 \<Rightarrow> u32 list" where
  "spell t = map (\<lambda>i. drop_bit ((5 - i) * 5) t AND 0x1f) [0..<6]"

lemma small_step: "bech32_polymod_step (x AND mask 25) = push_bit 5 (x AND mask 25)"
proof -
  have "drop_bit 25 (x AND mask 25) = 0"
    by (rule bit_word_eqI) (auto simp: bit_drop_bit_eq bit_and_iff bit_mask_iff)
  moreover have "(0x1FFFFFF :: u32) = mask 25"
    by (simp add: mask_eq_exp_minus_1)
  ultimately show ?thesis
    by (simp add: bech32_polymod_step_def Let_def)
qed

lemma spell_step:
  fixes t :: u32
  assumes "t AND mask 30 = t"
  shows "bech32_polymod_step (drop_bit (n + 5) t) XOR (drop_bit n t AND 0x1f) = drop_bit n t"
proof -
  have high: "\<not> bit t i" if "30 \<le> i" for i
    using that assms by (metis bit_and_iff bit_mask_iff linorder_not_less)
  have "i < 25" if "bit t (n + 5 + i)" for i
    using that high [of "n + 5 + i"] by (cases "i < 25") auto
  then have "drop_bit (n + 5) t AND mask 25 = drop_bit (n + 5) t"
    by (intro bit_word_eqI) (auto simp: bit_and_iff bit_mask_iff bit_drop_bit_eq)
  then have "bech32_polymod_step (drop_bit (n + 5) t) = push_bit 5 (drop_bit (n + 5) t)"
    using small_step [of "drop_bit (n + 5) t"] by simp
  moreover have "push_bit 5 (drop_bit (n + 5) t) XOR (drop_bit n t AND mask 5) = drop_bit n t"
  proof (rule bit_word_eqI)
    fix i assume "i < LENGTH(32)"
    moreover have "n + 5 + (i - 5) = n + i" if "5 \<le> i" using that by simp
    ultimately show "bit (push_bit 5 (drop_bit (n + 5) t) XOR (drop_bit n t AND mask 5)) i =
        bit (drop_bit n t) i"
      by (cases "5 \<le> i") (auto simp: bit_xor_iff bit_push_bit_iff bit_and_iff bit_mask_iff bit_drop_bit_eq)
  qed
  moreover have "mask 5 = (0x1f :: u32)"
    by (simp add: mask_eq_exp_minus_1)
  ultimately show ?thesis by simp
qed

lemma polymod_spell:
  assumes "t AND mask 30 = t"
  shows "polymod 0 (spell t) = t"
proof -
  have "drop_bit 30 t = 0"
    by (subst assms [symmetric]) (auto intro!: bit_word_eqI simp: bit_drop_bit_eq bit_and_iff bit_mask_iff)
  moreover have "[0..<6] = [0, 1, 2, 3, 4, 5 :: nat]"
    by (simp add: upt_rec)
  ultimately show ?thesis
    using spell_step [OF assms, of 25] spell_step [OF assms, of 20] spell_step [OF assms, of 15]
      spell_step [OF assms, of 10] spell_step [OF assms, of 5] spell_step [OF assms, of 0]
    by (simp add: spell_def)
qed

lemma step_bound: "bech32_polymod_step x AND mask 30 = bech32_polymod_step x"
proof -
  have p: "push_bit 5 (x AND mask 25) AND mask 30 = push_bit 5 (x AND mask 25)"
    by (rule bit_word_eqI) (auto simp: bit_push_bit_iff bit_and_iff bit_mask_iff)
  have m: "(0x1FFFFFF :: u32) = mask 25"
    by (simp add: mask_eq_exp_minus_1)
  have k: "(0x3b6a57b2 :: u32) AND mask 30 = 0x3b6a57b2" "(0x26508e6d :: u32) AND mask 30 = 0x26508e6d"
    "(0x1ea119fa :: u32) AND mask 30 = 0x1ea119fa" "(0x3d4233dd :: u32) AND mask 30 = 0x3d4233dd"
    "(0x2a1462b3 :: u32) AND mask 30 = 0x2a1462b3"
    by (simp_all add: mask_eq_exp_minus_1)
  show ?thesis
    unfolding bech32_polymod_step_def Let_def m bit.conj_xor_distrib2 and.assoc k
    unfolding and.assoc [symmetric] p ..
qed

text \<open>The six symbols the encoder appends bring the checksum to one.\<close>

lemma checksum_one:
  "polymod chk (spell ((bech32_polymod_step ^^ 6) chk XOR 1)) = 1"
proof -
  let ?c = "(bech32_polymod_step ^^ 6) chk"
  have "?c AND mask 30 = ?c"
    using step_bound by (simp add: numeral_eq_Suc)
  then have "(?c XOR 1) AND mask 30 = ?c XOR 1"
    unfolding bit.conj_xor_distrib2 by (simp add: mask_eq_exp_minus_1)
  moreover have "polymod (chk XOR 0) (map2 (XOR) (replicate 6 0) (spell (?c XOR 1))) =
      polymod chk (replicate 6 0) XOR polymod 0 (spell (?c XOR 1))"
    by (rule polymod_linear) (simp add: spell_def)
  moreover have "map2 (XOR) (replicate 6 0) (spell (?c XOR 1)) = spell (?c XOR 1)"
    by (rule nth_equalityI) (simp_all add: spell_def)
  ultimately show ?thesis
    by (simp add: polymod_spell polymod_zeros)
qed

subsection \<open>What the encoder emits\<close>

definition hrp_char :: "char \<Rightarrow> bool" where
  "hrp_char c \<longleftrightarrow> \<not> (code (CHR ''A'') \<le> code c \<and> code c \<le> code (CHR ''Z'')) \<and> drop_bit 5 (code c) \<noteq> 0"

lemma absorb_loop:
  "seq (map absorb_high hrp) chk =
    (if list_all hrp_char hrp then Inr (polymod chk (map (\<lambda>c. drop_bit 5 (code c)) hrp)) else Inl ERR_ASSERT)"
  by (induction hrp arbitrary: chk) (auto simp: absorb_high_def hrp_char_def)

lemma prefix_loop:
  "length out + length hrp \<le> n \<Longrightarrow> seq (map (emit_prefix n) hrp) (chk, out) =
    Inr (polymod chk (map (\<lambda>c. code c AND 0x1f) hrp), out @ hrp)"
  by (induction hrp arbitrary: chk out) (auto simp: emit_prefix_def append_out_def)

lemma data_loop:
  "length out + length data \<le> n \<Longrightarrow> \<forall>d \<in> set data. drop_bit 5 d = 0 \<Longrightarrow>
   seq (map (emit_data n) data) (chk, out) =
    Inr (polymod chk (map ucast data), out @ map (\<lambda>d. charset ! unat d) data)"
  by (induction data arbitrary: chk out) (auto simp: emit_data_def append_out_def)

lemma append_loop:
  "length out + length cs \<le> n \<Longrightarrow> seq (map (\<lambda>x. append_out n (f x)) cs) out = Inr (out @ map f cs)"
  by (induction cs arbitrary: out) (auto simp: append_out_def)

text \<open>The symbols the checksum of a prefix and data ends in.\<close>

definition checksum :: "string \<Rightarrow> u8 list \<Rightarrow> u32 list" where
  "checksum hrp data =
     spell ((bech32_polymod_step ^^ 6) (polymod 1 (hrp_expand hrp @ map ucast data)) XOR 1)"

lemma encode_5bit:
  assumes "n < BUFFER_SIZE_PARANOIA" "length hrp + length data + 8 \<le> n"
    and "\<forall>d \<in> set data. drop_bit 5 d = 0"
  shows "bech32_encode_5bit hrp data n =
    (if list_all hrp_char hrp
     then Inr (hrp @ ''1'' @ map (\<lambda>d. charset ! unat d) data @
       map (\<lambda>v. charset ! unat v) (checksum hrp data) @ [CHR 0x00])
     else Inl ERR_ASSERT)"
proof (cases "list_all hrp_char hrp")
  case True
  have "emit_checksum n chk out = Inr (out @ map (\<lambda>v. charset ! unat v) (spell chk))"
    if "length out + 6 \<le> n" for chk out
    using append_loop [of out "[0..<6]" n "\<lambda>i. charset ! unat (drop_bit ((5 - i) * 5) chk AND 0x1f)"] that
    by (simp add: emit_checksum_def spell_def comp_def)
  moreover have "length (spell t) = 6" for t
    by (simp add: spell_def)
  ultimately show ?thesis
    using assms True
    by (simp add: bech32_encode_5bit_def Let_def absorb_loop prefix_loop data_loop append_out_def
        checksum_def hrp_expand_def)
qed (use assms in \<open>simp add: bech32_encode_5bit_def absorb_loop\<close>)

lemma five_bits [simp]: "drop_bit 5 (ucast (x AND 31) :: u8) = 0" for x :: u32
proof (rule bit_word_eqI)
  fix n assume "n < LENGTH(8)"
  have "(31 :: u32) = mask 5"
    by (simp add: mask_eq_exp_minus_1)
  then show "bit (drop_bit 5 (ucast (x AND 31) :: u8)) n = bit 0 n"
    by (simp only: bit_drop_bit_eq bit_ucast_iff bit_and_iff bit_mask_iff comp_apply) simp
qed

lemma small_groups:
  "emit_groups v bits out = Inr (bits', out') \<Longrightarrow> \<forall>d \<in> set out. drop_bit 5 d = 0 \<Longrightarrow>
   \<forall>d \<in> set out'. drop_bit 5 d = 0"
proof (induction v bits out rule: emit_groups.induct)
  case (1 v bits out)
  then show ?case
    by (subst (asm) (2) emit_groups.simps) (auto split: if_splits)
qed

lemma small_converted:
  "convert_bits bs v bits out = Inr out' \<Longrightarrow> \<forall>d \<in> set out. drop_bit 5 d = 0 \<Longrightarrow>
   \<forall>d \<in> set out'. drop_bit 5 d = 0"
proof (induction bs arbitrary: v bits out)
  case Nil
  then show ?case by (auto split: if_splits)
next
  case (Cons b bs)
  then obtain bits' out1 where e: "emit_groups (push_bit 8 v OR ucast b) (bits + 8) out = Inr (bits', out1)"
    and c: "convert_bits bs (push_bit 8 v OR ucast b) bits' out1 = Inr out'"
    by (auto simp: Let_def res_bind_Inr_iff)
  show ?case
    by (rule Cons.IH [OF c small_groups [OF e Cons.prems(2)]])
qed

lemma small_word: "drop_bit 5 d = 0 \<Longrightarrow> unat d < 32" for d :: "'a::len word"
proof -
  assume "drop_bit 5 d = 0"
  then have "drop_bit 5 (unat d) = 0"
    by (metis unat_0 unat_drop_bit_eq)
  then show ?thesis by (simp add: drop_bit_nat_def div_eq_0_iff)
qed

subsection \<open>Decoding what was encoded\<close>

lemma charset_symbols:
  "i < 32 \<Longrightarrow> symbol (charset ! i) = Some (word_of_nat i)"
  "i < 32 \<Longrightarrow> charset ! i \<noteq> CHR ''1'' \<and> charset ! i \<noteq> CHR 0x00"
proof -
  have "list_all (\<lambda>i. symbol (charset ! i) = Some (word_of_nat i)) [0..<32]"
    "list_all (\<lambda>i. charset ! i \<noteq> CHR ''1'' \<and> charset ! i \<noteq> CHR 0x00) [0..<32]"
    by code_simp+
  then show "i < 32 \<Longrightarrow> symbol (charset ! i) = Some (word_of_nat i)"
    "i < 32 \<Longrightarrow> charset ! i \<noteq> CHR ''1'' \<and> charset ! i \<noteq> CHR 0x00"
    by (simp_all add: list_all_iff)
qed

lemma symbols_read:
  "\<forall>v \<in> set vs. unat v < 32 \<Longrightarrow> those (map symbol (map (\<lambda>v. charset ! unat v) vs)) = Some vs" for vs :: "u32 list"
  by (induction vs) (simp_all add: charset_symbols)

lemma low_bits_ucast: "n \<le> 8 \<Longrightarrow> low_bits n (ucast d :: u32) = low_bits n d" for d :: u8
  by (auto simp: low_bits_def bit_ucast_iff)

lemma spell_small: "v \<in> set (spell t) \<Longrightarrow> unat v < 32"
proof -
  have "x AND 31 < 32" for x :: u32
    using word_and_le1 [of x 31] by (rule le_less_trans) simp
  then show "v \<in> set (spell t) \<Longrightarrow> unat v < 32"
    by (auto simp: spell_def word_less_nat_alt)
qed

lemma unat_ucast_byte [simp]: "unat (ucast d :: u32) = unat d" for d :: u8
  using unsigned_less [of d, where ?'a = nat] by (simp add: unsigned_ucast_eq take_bit_nat_eq_self_iff)

lemma decode_own:
  assumes "\<forall>d \<in> set data. drop_bit 5 d = 0"
    and "concat (map (low_bits 5) data) = concat (map (low_bits 8) bytes) @ pad" "length pad < 8"
  shows "bech32_decode (hrp @ ''1'' @ map (\<lambda>d. charset ! unat d) data @
    map (\<lambda>v. charset ! unat v) (checksum hrp data)) = Some (hrp, bytes)"
proof -
  let ?vs = "map ucast data @ checksum hrp data"
  let ?cs = "map (\<lambda>v. charset ! unat v) ?vs"
  have small: "\<forall>v \<in> set ?vs. unat v < 32"
    using assms(1) small_word spell_small by (auto simp: checksum_def)
  have s: "hrp @ ''1'' @ map (\<lambda>d. charset ! unat d) data @ map (\<lambda>v. charset ! unat v) (checksum hrp data) =
      hrp @ ''1'' @ ?cs"
    by simp
  have "charset ! unat v \<noteq> CHR ''1''" if "v \<in> set ?vs" for v
    using small charset_symbols(2) that by blast
  then have "\<forall>c \<in> set ?cs. c \<noteq> CHR ''1''"
    by fastforce
  then have "takeWhile (\<lambda>c. c \<noteq> CHR ''1'') (rev ?cs @ ''1'' @ rev hrp) = rev ?cs"
    by (subst takeWhile_append2) auto
  then have "rev (takeWhile (\<lambda>c. c \<noteq> CHR ''1'') (rev (hrp @ ''1'' @ ?cs))) = ?cs"
    by simp
  moreover have "those (map symbol ?cs) = Some ?vs"
    using symbols_read [OF small] by simp
  moreover have "polymod 1 (hrp_expand hrp @ ?vs) = 1"
    using checksum_one by (simp add: checksum_def)
  moreover have "length (checksum hrp data) = 6"
    by (simp add: checksum_def spell_def)
  moreover have "concat (map (low_bits 5) (map ucast data :: u32 list)) = concat (map (low_bits 8) bytes) @ pad"
    using assms(2) by (simp add: low_bits_ucast comp_def)
  ultimately show ?thesis
    unfolding s using bytes_of_ok [OF assms(3)] by (simp add: bech32_decode_def Let_def)
qed

lemma converted:
  assumes "length bytes \<le> MAX_BYTES"
  obtains data pad where "convert_bits bytes 0 0 [] = Inr data"
    "5 * length data = 8 * length bytes + length pad" "length pad < 5"
    "concat (map (low_bits 5) data) = concat (map (low_bits 8) bytes) @ pad"
    "\<forall>d \<in> set data. drop_bit 5 d = 0"
proof -
  obtain data n where "convert_bits bytes 0 0 [] = Inr data" "n < 5"
    "5 * length data = 8 * length bytes + n"
    "concat (map (low_bits 5) data) = concat (map (low_bits 8) bytes) @ replicate n False"
    using convert_bits_ok [of 0 bytes "[]" 0] assms by (auto simp: low_bits_def)
  then show ?thesis
    using that [of data "replicate n False"] small_converted [of bytes 0 0 "[]" data] by simp
qed

text \<open>The string for a prefix and the groups of the data.\<close>

definition bech32_string :: "string \<Rightarrow> u8 list \<Rightarrow> string" where
  "bech32_string hrp data = hrp @ ''1'' @ map (\<lambda>d. charset ! unat d) data @
     map (\<lambda>v. charset ! unat v) (checksum hrp data)"

lemma bech32_string_printable:
  assumes "list_all hrp_char hrp" "\<forall>d \<in> set data. drop_bit 5 d = 0"
  shows "\<forall>c \<in> set (bech32_string hrp data). c \<noteq> CHR 0x00"
proof -
  have "c \<noteq> CHR 0x00" if "hrp_char c" for c
    using that by (auto simp: hrp_char_def)
  then show ?thesis
    using assms small_word spell_small charset_symbols(2)
    by (fastforce simp: bech32_string_def list_all_iff checksum_def)
qed

definition encodable :: "string \<Rightarrow> bytes \<Rightarrow> nat \<Rightarrow> bool" where
  "encodable hrp bytes n \<longleftrightarrow> length bytes \<le> MAX_BYTES \<and> hrp \<noteq> [] \<and>
     length hrp + (8 * length bytes + 4) div 5 + 8 \<le> n \<and> n < BUFFER_SIZE_PARANOIA \<and>
     list_all hrp_char hrp"

lemma strlen_all: "CHR 0x00 \<notin> set s \<Longrightarrow> strlen s = length s"
  unfolding strlen_def by (subst takeWhile_eq_all_conv [THEN iffD2]) auto

lemma strlen_terminated: "\<forall>c \<in> set s. c \<noteq> CHR 0x00 \<Longrightarrow> strlen (s @ [CHR 0x00]) = length s"
  unfolding strlen_def by (subst takeWhile_append2) auto

lemma encode_fails:
  assumes "CHR 0x00 \<notin> set hrp" "\<not> encodable hrp bytes n"
  shows "bech32_encode hrp bytes n = Inl ERR_ASSERT"
proof (cases "length bytes \<le> MAX_BYTES \<and> hrp \<noteq> [] \<and>
    length hrp + (8 * length bytes + 4) div 5 + 8 \<le> n \<and> n < BUFFER_SIZE_PARANOIA")
  case True
  then have "length bytes \<le> MAX_BYTES" by blast
  then obtain data pad where c: "convert_bits bytes 0 0 [] = Inr data"
    and l: "5 * length data = 8 * length bytes + length pad" "length pad < 5"
    and "concat (map (low_bits 5) data) = concat (map (low_bits 8) bytes) @ pad"
    and d: "\<forall>d \<in> set data. drop_bit 5 d = 0"
    by (rule converted)
  have "length data = (8 * length bytes + 4) div 5"
    by (rule div_nat_eqI [symmetric]) (use l in simp_all)
  then have "bech32_encode_5bit hrp data n = Inl ERR_ASSERT"
    using assms(2) True encode_5bit [of n hrp data] d by (simp add: encodable_def)
  then show ?thesis
    using c by (simp add: bech32_encode_def Let_def)
next
  case False
  then consider "\<not> length bytes \<le> MAX_BYTES" | "hrp = []" |
    "\<not> length hrp + (8 * length bytes + 4) div 5 + 8 \<le> n" | "\<not> n < BUFFER_SIZE_PARANOIA"
    by blast
  then show ?thesis
    using strlen_all [OF assms(1)] by cases (simp_all add: bech32_encode_def Let_def)
qed

lemma encode_succeeds:
  assumes "CHR 0x00 \<notin> set hrp" "encodable hrp bytes n"
  shows "\<exists>s. bech32_encode hrp bytes n = Inr s \<and> bech32_decode s = Some (hrp, bytes) \<and>
    length s = length hrp + 1 + (8 * length bytes + 4) div 5 + 6"
proof -
  have "length bytes \<le> MAX_BYTES"
    using assms(2) by (simp add: encodable_def)
  then obtain data pad where c: "convert_bits bytes 0 0 [] = Inr data"
    and l: "5 * length data = 8 * length bytes + length pad" "length pad < 5"
    and b: "concat (map (low_bits 5) data) = concat (map (low_bits 8) bytes) @ pad"
    and d: "\<forall>d \<in> set data. drop_bit 5 d = 0"
    by (rule converted)
  let ?s = "bech32_string hrp data"
  have n: "length data = (8 * length bytes + 4) div 5"
    by (rule div_nat_eqI [symmetric]) (use l in simp_all)
  then have ls: "length ?s = length hrp + 1 + (8 * length bytes + 4) div 5 + 6"
    by (simp add: bech32_string_def checksum_def spell_def)
  have "bech32_encode_5bit hrp data n = Inr (?s @ [CHR 0x00])"
    using encode_5bit [of n hrp data] assms(2) d n by (simp add: encodable_def bech32_string_def)
  moreover have "strlen (?s @ [CHR 0x00]) = length ?s"
    by (rule strlen_terminated [OF bech32_string_printable]) (use assms(2) d in \<open>auto simp: encodable_def\<close>)
  ultimately have "bech32_encode hrp bytes n = Inr ?s"
    using assms c ls
    by (auto simp: bech32_encode_def encodable_def strlen_all Let_def Suc_le_eq)
  moreover have "bech32_decode ?s = Some (hrp, bytes)"
    unfolding bech32_string_def by (rule decode_own [OF d b]) (use l in simp)
  ultimately show ?thesis
    using ls by blast
qed

subsection \<open>Properties\<close>



end
