(* ===== verification/AddressShelley.thy ===== *)
theory AddressShelley
  imports AddressByron Bech32
begin

text \<open>
  \<open>src/addressUtils/addressUtilsShelley.c\<close> and \<open>rewardAccountToBuffer\<close> of \<open>src/cardano.c\<close>:
  address parameters, their parsing and validation, and the derivation of the address bytes.
  The unions of \<open>addressParams_t\<close> are datatypes and a read of another member than the one last
  written is \<open>UNION_MISREAD\<close>. The application is the full one, with Byron derivation.
\<close>

subsection \<open>Types\<close>

abbreviation (input) BASE_PAYMENT_KEY_STAKE_KEY :: u8 where "BASE_PAYMENT_KEY_STAKE_KEY \<equiv> 0"
abbreviation (input) BASE_PAYMENT_SCRIPT_STAKE_KEY :: u8 where "BASE_PAYMENT_SCRIPT_STAKE_KEY \<equiv> 1"
abbreviation (input) BASE_PAYMENT_KEY_STAKE_SCRIPT :: u8 where "BASE_PAYMENT_KEY_STAKE_SCRIPT \<equiv> 2"
abbreviation (input) BASE_PAYMENT_SCRIPT_STAKE_SCRIPT :: u8 where
  "BASE_PAYMENT_SCRIPT_STAKE_SCRIPT \<equiv> 3"
abbreviation (input) POINTER_KEY :: u8 where "POINTER_KEY \<equiv> 4"
abbreviation (input) POINTER_SCRIPT :: u8 where "POINTER_SCRIPT \<equiv> 5"
abbreviation (input) ENTERPRISE_KEY :: u8 where "ENTERPRISE_KEY \<equiv> 6"
abbreviation (input) ENTERPRISE_SCRIPT :: u8 where "ENTERPRISE_SCRIPT \<equiv> 7"
abbreviation (input) BYRON :: u8 where "BYRON \<equiv> 8"
abbreviation (input) REWARD_KEY :: u8 where "REWARD_KEY \<equiv> 14"
abbreviation (input) REWARD_SCRIPT :: u8 where "REWARD_SCRIPT \<equiv> 15"
abbreviation (input) NO_STAKING :: u8 where "NO_STAKING \<equiv> 0x11"
abbreviation (input) STAKING_KEY_PATH :: u8 where "STAKING_KEY_PATH \<equiv> 0x22"
abbreviation (input) STAKING_KEY_HASH :: u8 where "STAKING_KEY_HASH \<equiv> 0x33"
abbreviation (input) BLOCKCHAIN_POINTER :: u8 where "BLOCKCHAIN_POINTER \<equiv> 0x44"
abbreviation (input) STAKING_SCRIPT_HASH :: u8 where "STAKING_SCRIPT_HASH \<equiv> 0x55"
abbreviation (input) TESTNET_NETWORK_ID :: u8 where "TESTNET_NETWORK_ID \<equiv> 0"
abbreviation (input) MAINNET_NETWORK_ID :: u8 where "MAINNET_NETWORK_ID \<equiv> 1"
abbreviation (input) MAXIMUM_NETWORK_ID :: u8 where "MAXIMUM_NETWORK_ID \<equiv> 15"
abbreviation (input) REWARD_ACCOUNT_SIZE :: nat where "REWARD_ACCOUNT_SIZE \<equiv> 29"

datatype payment_choice_t = PAYMENT_PATH | PAYMENT_SCRIPT_HASH | PAYMENT_NONE

record blockchainPointer_t =
  blockIndex :: u32
  txIndex :: u32
  certificateIndex :: u32

datatype network_union = ProtocolMagic u32 | NetworkId u8

datatype payment_union = PaymentKeyPath bip44_path_t | PaymentScriptHash bytes

datatype staking_union =
    StakingKeyPath bip44_path_t
  | StakingKeyHash bytes
  | StakingKeyBlockchainPointer blockchainPointer_t
  | StakingScriptHash bytes

record addressParams_t =
  address_type :: u8
  network :: network_union
  payment :: payment_union
  stakingDataSource :: u8
  staking :: staking_union

fun networkId :: "addressParams_t \<Rightarrow> u8 res" where
  "networkId params = (case network params of NetworkId i \<Rightarrow> Inr i | _ \<Rightarrow> Inl UNION_MISREAD)"

fun protocolMagic :: "addressParams_t \<Rightarrow> u32 res" where
  "protocolMagic params = (case network params of ProtocolMagic m \<Rightarrow> Inr m | _ \<Rightarrow> Inl UNION_MISREAD)"

fun paymentKeyPath :: "addressParams_t \<Rightarrow> bip44_path_t res" where
  "paymentKeyPath params = (case payment params of PaymentKeyPath p \<Rightarrow> Inr p | _ \<Rightarrow> Inl UNION_MISREAD)"

fun paymentScriptHash :: "addressParams_t \<Rightarrow> bytes res" where
  "paymentScriptHash params =
     (case payment params of PaymentScriptHash h \<Rightarrow> Inr h | _ \<Rightarrow> Inl UNION_MISREAD)"

fun stakingKeyPath :: "addressParams_t \<Rightarrow> bip44_path_t res" where
  "stakingKeyPath params = (case staking params of StakingKeyPath p \<Rightarrow> Inr p | _ \<Rightarrow> Inl UNION_MISREAD)"

fun stakingKeyHash :: "addressParams_t \<Rightarrow> bytes res" where
  "stakingKeyHash params = (case staking params of StakingKeyHash h \<Rightarrow> Inr h | _ \<Rightarrow> Inl UNION_MISREAD)"

fun stakingScriptHash :: "addressParams_t \<Rightarrow> bytes res" where
  "stakingScriptHash params =
     (case staking params of StakingScriptHash h \<Rightarrow> Inr h | _ \<Rightarrow> Inl UNION_MISREAD)"

fun stakingKeyBlockchainPointer :: "addressParams_t \<Rightarrow> blockchainPointer_t res" where
  "stakingKeyBlockchainPointer params =
     (case staking params of StakingKeyBlockchainPointer p \<Rightarrow> Inr p | _ \<Rightarrow> Inl UNION_MISREAD)"

subsection \<open>Headers\<close>

definition getAddressHeader :: "bytes \<Rightarrow> u8 res" where
  "getAddressHeader addressBuffer =
     (if \<not> length addressBuffer > 0 then Inl ERR_ASSERT
      else if \<not> length addressBuffer < BUFFER_SIZE_PARANOIA then Inl ERR_ASSERT
      else Inr (hd addressBuffer))"

definition getAddressType :: "u8 \<Rightarrow> u8" where
  "getAddressType addressHeader = drop_bit 4 (addressHeader AND 0xF0)"

definition isSupportedAddressType :: "u8 \<Rightarrow> bool" where
  "isSupportedAddressType t \<longleftrightarrow>
     t \<in> {BASE_PAYMENT_KEY_STAKE_KEY, BASE_PAYMENT_SCRIPT_STAKE_KEY, BASE_PAYMENT_KEY_STAKE_SCRIPT,
       BASE_PAYMENT_SCRIPT_STAKE_SCRIPT, POINTER_KEY, POINTER_SCRIPT, ENTERPRISE_KEY,
       ENTERPRISE_SCRIPT, BYRON, REWARD_KEY, REWARD_SCRIPT}"

definition isShelleyAddressType :: "u8 \<Rightarrow> bool" where
  "isShelleyAddressType t \<longleftrightarrow>
     t \<in> {BASE_PAYMENT_KEY_STAKE_KEY, BASE_PAYMENT_SCRIPT_STAKE_KEY, BASE_PAYMENT_KEY_STAKE_SCRIPT,
       BASE_PAYMENT_SCRIPT_STAKE_SCRIPT, POINTER_KEY, POINTER_SCRIPT, ENTERPRISE_KEY,
       ENTERPRISE_SCRIPT, REWARD_KEY, REWARD_SCRIPT}"

definition isValidNetworkId :: "u8 \<Rightarrow> bool" where
  "isValidNetworkId i \<longleftrightarrow> i \<le> MAXIMUM_NETWORK_ID"

definition constructShelleyAddressHeader :: "u8 \<Rightarrow> u8 \<Rightarrow> u8 res" where
  "constructShelleyAddressHeader type netId =
     res_bind (ASSERT (isSupportedAddressType type)) (\<lambda>_.
     res_bind (ASSERT (isValidNetworkId netId)) (\<lambda>_. Inr (push_bit 4 type OR netId)))"

definition getNetworkId :: "u8 \<Rightarrow> u8" where
  "getNetworkId addressHeader = addressHeader AND 0x0F"

subsection \<open>Choices\<close>

definition isValidStakingChoice :: "u8 \<Rightarrow> bool" where
  "isValidStakingChoice s \<longleftrightarrow>
     s \<in> {NO_STAKING, STAKING_KEY_PATH, STAKING_KEY_HASH, BLOCKCHAIN_POINTER, STAKING_SCRIPT_HASH}"

text \<open>The case of the script types falls through to that of the pointer types.\<close>

definition isStakingInfoConsistentWithAddressType :: "addressParams_t \<Rightarrow> bool res" where
  "isStakingInfoConsistentWithAddressType params =
     (let t = address_type params; s = stakingDataSource params in
      if t \<in> {BASE_PAYMENT_KEY_STAKE_KEY, BASE_PAYMENT_SCRIPT_STAKE_KEY, REWARD_KEY}
      then Inr (s = STAKING_KEY_HASH \<or> s = STAKING_KEY_PATH)
      else if t \<in> {BASE_PAYMENT_KEY_STAKE_SCRIPT, BASE_PAYMENT_SCRIPT_STAKE_SCRIPT, REWARD_SCRIPT}
      then Inr (s = STAKING_SCRIPT_HASH \<or> s = BLOCKCHAIN_POINTER)
      else if t \<in> {POINTER_KEY, POINTER_SCRIPT}
      then Inr (s = BLOCKCHAIN_POINTER)
      else if t \<in> {ENTERPRISE_KEY, ENTERPRISE_SCRIPT, BYRON}
      then Inr (s = NO_STAKING)
      else Inl ERR_ASSERT)"

definition determineStakingChoice :: "u8 \<Rightarrow> u8 res" where
  "determineStakingChoice t =
     (if t \<in> {BASE_PAYMENT_KEY_STAKE_KEY, BASE_PAYMENT_SCRIPT_STAKE_KEY, REWARD_KEY}
      then Inr STAKING_KEY_HASH
      else if t \<in> {BASE_PAYMENT_KEY_STAKE_SCRIPT, BASE_PAYMENT_SCRIPT_STAKE_SCRIPT, REWARD_SCRIPT}
      then Inr STAKING_SCRIPT_HASH
      else if t \<in> {POINTER_KEY, POINTER_SCRIPT} then Inr BLOCKCHAIN_POINTER
      else if t \<in> {ENTERPRISE_KEY, ENTERPRISE_SCRIPT, BYRON} then Inr NO_STAKING
      else Inl ERR_ASSERT)"

definition determinePaymentChoice :: "u8 \<Rightarrow> payment_choice_t res" where
  "determinePaymentChoice t =
     (if t \<in> {BASE_PAYMENT_KEY_STAKE_KEY, BASE_PAYMENT_KEY_STAKE_SCRIPT, POINTER_KEY,
        ENTERPRISE_KEY, BYRON}
      then Inr PAYMENT_PATH
      else if t \<in> {BASE_PAYMENT_SCRIPT_STAKE_KEY, BASE_PAYMENT_SCRIPT_STAKE_SCRIPT,
        POINTER_SCRIPT, ENTERPRISE_SCRIPT}
      then Inr PAYMENT_SCRIPT_HASH
      else if t \<in> {REWARD_KEY, REWARD_SCRIPT} then Inr PAYMENT_NONE
      else Inl ERR_ASSERT)"

subsection \<open>Deriving\<close>

definition view_appendAddressPublicKeyHash :: "firmware \<Rightarrow> bip44_path_t \<Rightarrow> write_view_t stmt" where
  "view_appendAddressPublicKeyHash fw keyDerivationPath view =
     res_bind (bip44_pathToKeyHash fw keyDerivationPath 28) (\<lambda>hashedPubKey.
       view_appendBuffer hashedPubKey view)"

definition isBaseAddress :: "u8 \<Rightarrow> bool" where
  "isBaseAddress t \<longleftrightarrow>
     t \<in> {BASE_PAYMENT_KEY_STAKE_KEY, BASE_PAYMENT_SCRIPT_STAKE_KEY, BASE_PAYMENT_KEY_STAKE_SCRIPT,
       BASE_PAYMENT_SCRIPT_STAKE_SCRIPT}"

definition deriveAddress_base :: "firmware \<Rightarrow> addressParams_t \<Rightarrow> nat \<Rightarrow> bytes res" where
  "deriveAddress_base fw params outSize =
     (if \<not> isBaseAddress (address_type params) then Inl ERR_ASSERT
      else if \<not> outSize < BUFFER_SIZE_PARANOIA then Inl ERR_ASSERT
      else res_bind (networkId params) (\<lambda>netId.
       res_bind (constructShelleyAddressHeader (address_type params) netId) (\<lambda>header.
       res_bind (seq
        [view_appendBuffer [header],
         (\<lambda>out. if address_type params \<in> {BASE_PAYMENT_KEY_STAKE_KEY, BASE_PAYMENT_KEY_STAKE_SCRIPT}
            then res_bind (paymentKeyPath params) (\<lambda>p. view_appendAddressPublicKeyHash fw p out)
            else res_bind (paymentScriptHash params) (\<lambda>h. view_appendBuffer h out)),
         (\<lambda>out. if stakingDataSource params = STAKING_KEY_PATH
            then res_bind (stakingKeyPath params) (\<lambda>p. view_appendAddressPublicKeyHash fw p out)
            else if stakingDataSource params = STAKING_KEY_HASH
            then res_bind (stakingKeyHash params) (\<lambda>h. view_appendBuffer h out)
            else if stakingDataSource params = STAKING_SCRIPT_HASH
            then res_bind (stakingScriptHash params) (\<lambda>h. view_appendBuffer h out)
            else Inl ERR_ASSERT)] (make_write_view outSize)) (\<lambda>out.
       res_bind (write_view_processed_size out) (\<lambda>n.
         if n = 1 + ADDRESS_KEY_HASH_LENGTH + ADDRESS_KEY_HASH_LENGTH then Inr (wv_out out)
         else Inl ERR_ASSERT)))))"

text \<open>The seven-bit groups of a number, the lowest first, as in the local array \<open>chunks\<close>.\<close>

function varlen_chunks :: "u32 \<Rightarrow> u8 list" where
  "varlen_chunks bits =
     (if bits > 0 then (ucast bits AND 0x7F) # varlen_chunks (drop_bit 7 bits) else [])"
  by pat_completeness auto

termination
proof (relation "measure unat")
  fix bits :: u32
  assume "bits > 0"
  then have "0 < unat bits" by (simp add: word_less_nat_alt)
  then show "(drop_bit 7 bits, bits) \<in> measure unat"
    by (simp add: unat_drop_bit_eq drop_bit_nat_def div_less_dividend)
qed simp

declare varlen_chunks.simps [simp del]

definition view_appendVariableLengthUInt :: "u64 \<Rightarrow> write_view_t stmt" where
  "view_appendVariableLengthUInt value view =
     (if \<not> value < 0x8000000000000000 then Inl ERR_ASSERT
      else if value = 0 then view_appendBuffer [0] view
      else let chunks = varlen_chunks (ucast value) in
        if chunks = [] then Inl ERR_ASSERT
        else seq (map (\<lambda>i. view_appendBuffer [chunks ! i OR 0x80]) (rev [1..<length chunks]) @
          [view_appendBuffer [chunks ! 0]]) view)"

definition deriveAddress_pointer :: "firmware \<Rightarrow> addressParams_t \<Rightarrow> nat \<Rightarrow> bytes res" where
  "deriveAddress_pointer fw params outSize =
     (if \<not> address_type params \<in> {POINTER_KEY, POINTER_SCRIPT} then Inl ERR_ASSERT
      else if \<not> outSize < BUFFER_SIZE_PARANOIA then Inl ERR_ASSERT
      else res_bind (networkId params) (\<lambda>netId.
       res_bind (constructShelleyAddressHeader (address_type params) netId) (\<lambda>addressHeader.
       res_bind (view_appendBuffer [addressHeader] (make_write_view outSize)) (\<lambda>out.
       res_bind (if address_type params = POINTER_KEY
          then res_bind (paymentKeyPath params) (\<lambda>p. view_appendAddressPublicKeyHash fw p out)
          else res_bind (paymentScriptHash params) (\<lambda>h. view_appendBuffer h out)) (\<lambda>out.
       res_bind (write_view_processed_size out) (\<lambda>n.
       res_bind (ASSERT (n = 1 + ADDRESS_KEY_HASH_LENGTH)) (\<lambda>_.
       res_bind (stakingKeyBlockchainPointer params) (\<lambda>ptr.
       res_bind (seq
        [view_appendVariableLengthUInt (ucast (blockIndex ptr)),
         view_appendVariableLengthUInt (ucast (txIndex ptr)),
         view_appendVariableLengthUInt (ucast (certificateIndex ptr))] out) (\<lambda>out.
       res_bind (write_view_processed_size out) (\<lambda>_. Inr (wv_out out)))))))))))"

definition deriveAddress_enterprise :: "firmware \<Rightarrow> addressParams_t \<Rightarrow> nat \<Rightarrow> bytes res" where
  "deriveAddress_enterprise fw params outSize =
     (if \<not> address_type params \<in> {ENTERPRISE_KEY, ENTERPRISE_SCRIPT} then Inl ERR_ASSERT
      else if \<not> outSize < BUFFER_SIZE_PARANOIA then Inl ERR_ASSERT
      else res_bind (networkId params) (\<lambda>netId.
       res_bind (constructShelleyAddressHeader (address_type params) netId) (\<lambda>addressHeader.
       res_bind (view_appendBuffer [addressHeader] (make_write_view outSize)) (\<lambda>out.
       res_bind (if address_type params = ENTERPRISE_KEY
          then res_bind (paymentKeyPath params) (\<lambda>p. view_appendAddressPublicKeyHash fw p out)
          else res_bind (paymentScriptHash params) (\<lambda>h. view_appendBuffer h out)) (\<lambda>out.
       res_bind (write_view_processed_size out) (\<lambda>n.
       res_bind (ASSERT (n = 1 + ADDRESS_KEY_HASH_LENGTH)) (\<lambda>_. Inr (wv_out out))))))))"

definition deriveAddress_reward :: "firmware \<Rightarrow> addressParams_t \<Rightarrow> nat \<Rightarrow> bytes res" where
  "deriveAddress_reward fw params outSize =
     (if \<not> address_type params \<in> {REWARD_KEY, REWARD_SCRIPT} then Inl ERR_ASSERT
      else if \<not> outSize < BUFFER_SIZE_PARANOIA then Inl ERR_ASSERT
      else res_bind (networkId params) (\<lambda>netId.
       res_bind (constructShelleyAddressHeader (address_type params) netId) (\<lambda>addressHeader.
       res_bind (view_appendBuffer [addressHeader] (make_write_view outSize)) (\<lambda>out.
       res_bind (if address_type params = REWARD_KEY
          then res_bind (stakingKeyPath params) (\<lambda>p.
            res_bind (res_bind (bip44_isOrdinaryStakingKeyPath p) ASSERT) (\<lambda>_.
              view_appendAddressPublicKeyHash fw p out))
          else res_bind (stakingScriptHash params) (\<lambda>h. view_appendBuffer h out)) (\<lambda>out.
       res_bind (write_view_processed_size out) (\<lambda>n.
       res_bind (ASSERT (n = 1 + ADDRESS_KEY_HASH_LENGTH)) (\<lambda>_. Inr (wv_out out))))))))"

subsection \<open>Parsing\<close>

text \<open>
  A path is parsed in place: elements past its length keep what the storage held. Where the
  union held another member they are taken to be zero; nothing reads past the length.
\<close>

definition blank_path :: bip44_path_t where
  "blank_path = \<lparr>path = [0, 0, 0, 0, 0], path_length = 0\<rparr>"

definition view_parsePath :: "bip44_path_t \<Rightarrow> bip44_path_t parser" where
  "view_parsePath p view =
     res_bind (read_view_remaining_size view) (\<lambda>_.
     res_bind (bip44_parseFromWire (view_rest view) p) (\<lambda>(n, p).
     res_bind (read_view_skip n view) (\<lambda>view. Inr (p, view))))"

fun payment_path_storage :: "payment_union \<Rightarrow> bip44_path_t" where
  "payment_path_storage (PaymentKeyPath p) = p"
| "payment_path_storage _ = blank_path"

fun staking_path_storage :: "staking_union \<Rightarrow> bip44_path_t" where
  "staking_path_storage (StakingKeyPath p) = p"
| "staking_path_storage _ = blank_path"

definition parse_payment :: "addressParams_t \<Rightarrow> addressParams_t parser" where
  "parse_payment params view =
     (if address_type params \<in> {BASE_PAYMENT_KEY_STAKE_KEY, BASE_PAYMENT_KEY_STAKE_SCRIPT,
        POINTER_KEY, ENTERPRISE_KEY, BYRON}
      then res_bind (view_parsePath (payment_path_storage (payment params)) view)
        (\<lambda>(p, view). Inr (params\<lparr>payment := PaymentKeyPath p\<rparr>, view))
      else if address_type params \<in> {BASE_PAYMENT_SCRIPT_STAKE_KEY, BASE_PAYMENT_SCRIPT_STAKE_SCRIPT,
        POINTER_SCRIPT, ENTERPRISE_SCRIPT}
      then res_bind (view_parseBuffer SCRIPT_HASH_LENGTH view)
        (\<lambda>(h, view). Inr (params\<lparr>payment := PaymentScriptHash h\<rparr>, view))
      else if address_type params \<in> {REWARD_KEY, REWARD_SCRIPT} then Inr (params, view)
      else Inl ERR_ASSERT)"

definition parse_staking :: "addressParams_t \<Rightarrow> addressParams_t parser" where
  "parse_staking params view =
     (if stakingDataSource params = NO_STAKING then Inr (params, view)
      else if stakingDataSource params = STAKING_KEY_PATH
      then res_bind (view_parsePath (staking_path_storage (staking params)) view)
        (\<lambda>(p, view). Inr (params\<lparr>staking := StakingKeyPath p\<rparr>, view))
      else if stakingDataSource params = STAKING_KEY_HASH
      then res_bind (view_parseBuffer ADDRESS_KEY_HASH_LENGTH view)
        (\<lambda>(h, view). Inr (params\<lparr>staking := StakingKeyHash h\<rparr>, view))
      else if stakingDataSource params = STAKING_SCRIPT_HASH
      then res_bind (view_parseBuffer SCRIPT_HASH_LENGTH view)
        (\<lambda>(h, view). Inr (params\<lparr>staking := StakingScriptHash h\<rparr>, view))
      else if stakingDataSource params = BLOCKCHAIN_POINTER
      then res_bind (parse_u4be view) (\<lambda>(b, view).
        res_bind (parse_u4be view) (\<lambda>(t, view).
        res_bind (parse_u4be view) (\<lambda>(c, view).
          Inr (params\<lparr>staking := StakingKeyBlockchainPointer
            \<lparr>blockIndex = b, txIndex = t, certificateIndex = c\<rparr>\<rparr>, view))))
      else Inl ERR_ASSERT)"

definition view_parseAddressParams :: "addressParams_t \<Rightarrow> addressParams_t parser" where
  "view_parseAddressParams params view =
     res_bind (parse_u1be view) (\<lambda>(t, view).
     let params = params\<lparr>address_type := t\<rparr> in
     res_bind (VALIDATE (isSupportedAddressType t) ERR_INVALID_DATA) (\<lambda>_.
     res_bind (if t = BYRON
        then res_bind (parse_u4be view) (\<lambda>(m, view). Inr (params\<lparr>network := ProtocolMagic m\<rparr>, view))
        else res_bind (parse_u1be view) (\<lambda>(i, view).
          res_bind (VALIDATE (isValidNetworkId i) ERR_INVALID_DATA) (\<lambda>_.
            Inr (params\<lparr>network := NetworkId i\<rparr>, view)))) (\<lambda>(params, view).
     res_bind (parse_payment params view) (\<lambda>(params, view).
     res_bind (parse_u1be view) (\<lambda>(s, view).
     let params = params\<lparr>stakingDataSource := s\<rparr> in
     res_bind (VALIDATE (isValidStakingChoice s) ERR_INVALID_DATA) (\<lambda>_. parse_staking params view))))))"

subsection \<open>Validating\<close>

definition isValidStakingInfo :: "addressParams_t \<Rightarrow> bool res" where
  "isValidStakingInfo params = checks
     [isStakingInfoConsistentWithAddressType params,
      (if stakingDataSource params = STAKING_KEY_PATH
       then res_bind (stakingKeyPath params) (\<lambda>p.
         test (bip44_classifyPath p) (\<lambda>t. t = PATH_ORDINARY_STAKING_KEY))
       else Inr True)]"

definition isValidPaymentInfo :: "addressParams_t \<Rightarrow> bool res" where
  "isValidPaymentInfo params =
     (if address_type params = BYRON
      then res_bind (paymentKeyPath params) (\<lambda>p. checks
        [test (bip44_classifyPath p) (\<lambda>t. t = PATH_ORDINARY_PAYMENT_KEY), bip44_hasByronPrefix p])
      else if address_type params \<in> {BASE_PAYMENT_KEY_STAKE_KEY, BASE_PAYMENT_KEY_STAKE_SCRIPT,
        POINTER_KEY, ENTERPRISE_KEY}
      then res_bind (paymentKeyPath params) (\<lambda>p. checks
        [test (bip44_classifyPath p) (\<lambda>t. t = PATH_ORDINARY_PAYMENT_KEY), bip44_hasShelleyPrefix p])
      else if address_type params \<in> {BASE_PAYMENT_SCRIPT_STAKE_KEY, BASE_PAYMENT_SCRIPT_STAKE_SCRIPT,
        POINTER_SCRIPT, ENTERPRISE_SCRIPT, REWARD_KEY, REWARD_SCRIPT}
      then Inr True
      else Inl ERR_ASSERT)"

definition isValidAddressParams :: "addressParams_t \<Rightarrow> bool res" where
  "isValidAddressParams params = checks
     [(if address_type params \<noteq> BYRON
       then res_bind (networkId params) (\<lambda>i. Inr (isValidNetworkId i)) else Inr True),
      isValidStakingInfo params,
      isValidPaymentInfo params]"

subsection \<open>Any address\<close>

definition deriveAddress :: "firmware \<Rightarrow> addressParams_t \<Rightarrow> nat \<Rightarrow> bytes res" where
  "deriveAddress fw params outSize =
     (if \<not> outSize < BUFFER_SIZE_PARANOIA then Inl ERR_ASSERT
      else res_bind (res_bind (isValidAddressParams params) ASSERT) (\<lambda>_.
        let t = address_type params in
        if t \<in> {BASE_PAYMENT_KEY_STAKE_KEY, BASE_PAYMENT_SCRIPT_STAKE_KEY,
          BASE_PAYMENT_KEY_STAKE_SCRIPT, BASE_PAYMENT_SCRIPT_STAKE_SCRIPT}
        then deriveAddress_base fw params outSize
        else if t \<in> {POINTER_KEY, POINTER_SCRIPT}
        then res_bind (ASSERT (stakingDataSource params = BLOCKCHAIN_POINTER))
          (\<lambda>_. deriveAddress_pointer fw params outSize)
        else if t \<in> {ENTERPRISE_KEY, ENTERPRISE_SCRIPT}
        then deriveAddress_enterprise fw params outSize
        else if t \<in> {REWARD_KEY, REWARD_SCRIPT}
        then deriveAddress_reward fw params outSize
        else if t = BYRON
        then res_bind (paymentKeyPath params) (\<lambda>p.
          res_bind (protocolMagic params) (\<lambda>magic. deriveAddress_byron fw p magic outSize))
        else Inl ERR_ASSERT))"

definition constructRewardAddressFromKeyPath ::
  "firmware \<Rightarrow> bip44_path_t \<Rightarrow> u8 \<Rightarrow> nat \<Rightarrow> bytes res" where
  "constructRewardAddressFromKeyPath fw p netId outSize =
     (if outSize \<noteq> REWARD_ACCOUNT_SIZE then Inl ERR_ASSERT
      else res_bind (res_bind (bip44_isOrdinaryStakingKeyPath p) ASSERT) (\<lambda>_.
        deriveAddress_reward fw \<lparr>address_type = REWARD_KEY, network = NetworkId netId,
          payment = PaymentScriptHash [], stakingDataSource = STAKING_KEY_HASH,
          staking = StakingKeyPath p\<rparr> outSize))"

datatype reward_address_hash_source_t = REWARD_HASH_SOURCE_KEY | REWARD_HASH_SOURCE_SCRIPT

definition constructRewardAddressFromHash ::
  "u8 \<Rightarrow> reward_address_hash_source_t \<Rightarrow> bytes \<Rightarrow> nat \<Rightarrow> bytes res" where
  "constructRewardAddressFromHash netId hashSource hashBuffer outSize =
     (if \<not> isValidNetworkId netId then Inl ERR_ASSERT
      else if length hashBuffer \<noteq> ADDRESS_KEY_HASH_LENGTH then Inl ERR_ASSERT
      else if \<not> outSize < BUFFER_SIZE_PARANOIA then Inl ERR_ASSERT
      else res_bind (constructShelleyAddressHeader
          (if hashSource = REWARD_HASH_SOURCE_KEY then REWARD_KEY else REWARD_SCRIPT) netId) (\<lambda>addressHeader.
       res_bind (seq [view_appendBuffer [addressHeader], view_appendBuffer hashBuffer]
         (make_write_view outSize)) (\<lambda>out.
       res_bind (write_view_processed_size out) (\<lambda>n.
         if n = REWARD_ACCOUNT_SIZE then Inr (wv_out out) else Inl ERR_ASSERT))))"

datatype reward_account_t = KeyReferencePath bip44_path_t | KeyReferenceHash bytes

definition rewardAccountToBuffer :: "firmware \<Rightarrow> reward_account_t \<Rightarrow> u8 \<Rightarrow> bytes res" where
  "rewardAccountToBuffer fw rewardAccount netId =
     (case rewardAccount of
       KeyReferenceHash h \<Rightarrow> Inr h
     | KeyReferencePath p \<Rightarrow> constructRewardAddressFromKeyPath fw p netId REWARD_ACCOUNT_SIZE)"

subsection \<open>Showing\<close>

definition printBlockchainPointerToStr :: "blockchainPointer_t \<Rightarrow> nat \<Rightarrow> string res" where
  "printBlockchainPointerToStr ptr outSize =
     (if \<not> outSize < BUFFER_SIZE_PARANOIA then Inl ERR_ASSERT
      else if \<not> outSize > 0 then Inl ERR_ASSERT
      else let out = take (outSize - 1) (''('' @ decimal (unat (blockIndex ptr)) @ '', '' @
          decimal (unat (txIndex ptr)) @ '', '' @ decimal (unat (certificateIndex ptr)) @ '')'')
        in if strlen out + 1 < outSize then Inr out else Inl ERR_ASSERT)"

text \<open>\<open>base58_encode\<close> is the firmware's; its result is the size it returns and the string.\<close>

definition humanReadableAddress ::
  "(bytes \<Rightarrow> nat \<Rightarrow> u32 \<times> string) \<Rightarrow> bytes \<Rightarrow> nat \<Rightarrow> (u32 \<times> string) res" where
  "humanReadableAddress base58_encode address outSize =
     (if \<not> length address > 0 then Inl ERR_ASSERT
      else if \<not> length address < BUFFER_SIZE_PARANOIA then Inl ERR_ASSERT
      else if \<not> outSize < BUFFER_SIZE_PARANOIA then Inl ERR_ASSERT
      else let addressType = getAddressType (hd address); netId = getNetworkId (hd address) in
       if addressType = BYRON then Inr (base58_encode address outSize)
       else res_bind (ASSERT (isValidNetworkId netId)) (\<lambda>_.
         let hrp = (if addressType \<in> {REWARD_KEY, REWARD_SCRIPT}
             then if netId = TESTNET_NETWORK_ID then ''stake_test'' else ''stake''
             else if netId = TESTNET_NETWORK_ID then ''addr_test'' else ''addr'')
         in res_bind (bech32_encode hrp address outSize) (\<lambda>s. Inr (word_of_nat (length s), s))))"

end
