(* ===== verification/ShelleyAddresses.thy ===== *)
theory ShelleyAddresses
  imports AddressShelley
begin

text \<open>
  Facts about Shelley addresses: the numbers of a pointer address read back, the parsed
  parameters are well formed and are the ones that were sent, the derived bytes are the header
  and the credentials the parameters name, reward accounts have one form, and what is shown
  identifies the address.
\<close>

subsection \<open>Numbers of variable length\<close>

fun read_varlen :: "bytes \<Rightarrow> nat \<Rightarrow> (nat \<times> bytes) option" where
  "read_varlen [] acc = None"
| "read_varlen (b # bs) acc =
     (let acc = acc * 128 + unat (b AND 0x7F)
      in if b AND 0x80 \<noteq> 0 then read_varlen bs acc else Some (acc, bs))"

definition varlen :: "u32 \<Rightarrow> bytes" where
  "varlen v = (if v = 0 then [0]
     else map (\<lambda>c. c OR 0x80) (rev (tl (varlen_chunks v))) @ [hd (varlen_chunks v)])"

fun chunks_value :: "u8 list \<Rightarrow> nat" where
  "chunks_value [] = 0"
| "chunks_value (c # cs) = unat c + 128 * chunks_value cs"

lemma chunk_split: "unat bits = unat (ucast bits AND 0x7F :: u8) + 128 * unat (drop_bit 7 bits)"
  for bits :: u32
proof -
  have m: "(0x7F :: u8) = mask 7"
    by (simp add: mask_eq_exp_minus_1)
  have "unat (ucast bits AND 0x7F :: u8) = unat bits mod 128"
    unfolding m take_bit_eq_mask [symmetric] unsigned_take_bit_eq unsigned_ucast_eq take_bit_take_bit
    by (simp add: take_bit_eq_mod)
  moreover have "unat (drop_bit 7 bits) = unat bits div 128"
    by (simp add: unat_drop_bit_eq drop_bit_nat_def)
  ultimately show ?thesis
    by simp
qed

lemma chunks_value_ok: "chunks_value (varlen_chunks v) = unat v"
proof (induction v rule: varlen_chunks.induct)
  case (1 v)
  then show ?case
    using chunk_split [of v] by (subst varlen_chunks.simps) (simp add: word_gt_0)
qed

lemma chunks_small: "c \<in> set (varlen_chunks v) \<Longrightarrow> c AND 0x7F = c"
proof (induction v rule: varlen_chunks.induct)
  case (1 v)
  then show ?case
    by (subst (asm) (2) varlen_chunks.simps) (auto split: if_splits simp: and.assoc)
qed

lemma chunks_length: "unat v < 128 ^ n \<Longrightarrow> length (varlen_chunks v) \<le> n"
proof (induction n arbitrary: v)
  case 0
  then show ?case by (simp add: varlen_chunks.simps word_gt_0 unat_eq_0)
next
  case (Suc n)
  then have "unat (drop_bit 7 v) < 128 ^ n"
    by (simp add: unat_drop_bit_eq drop_bit_nat_def less_mult_imp_div_less mult.commute)
  then show ?case
    using Suc.IH by (subst varlen_chunks.simps) simp
qed

lemma last_chunk: "c AND 0x7F = c \<Longrightarrow> c AND 0x80 = 0" for c :: u8
proof -
  assume "c AND 0x7F = c"
  then have "c AND 0x80 = (c AND 0x7F) AND 0x80" by simp
  then show ?thesis by (simp add: and.assoc)
qed

lemma more_chunk: "c AND 0x7F = c \<Longrightarrow> (c OR 0x80) AND 0x7F = c \<and> (c OR 0x80) AND 0x80 \<noteq> 0" for c :: u8
  by (simp add: bit.conj_disj_distrib2)

lemma read_more:
  "\<forall>c \<in> set cs. c AND 0x7F = c \<Longrightarrow>
   read_varlen (map (\<lambda>c. c OR 0x80) (rev cs) @ r) acc =
     read_varlen r (acc * 128 ^ length cs + chunks_value cs)"
proof (induction cs arbitrary: r)
  case (Cons c cs)
  then show ?case
    using more_chunk [of c] by (simp add: algebra_simps)
qed simp

lemma read_varlen_ok: "read_varlen (varlen v @ r) 0 = Some (unat v, r)"
proof (cases "varlen_chunks v")
  case Nil
  then have "v = 0"
    using chunks_value_ok [of v] by (simp add: unat_eq_0)
  then show ?thesis by (simp add: varlen_def)
next
  case (Cons c cs)
  then have "v \<noteq> 0"
    by (auto simp: varlen_chunks.simps)
  then show ?thesis
    using Cons read_more [of cs "c # r" 0] chunks_small [of _ v] last_chunk [of c] chunks_value_ok [of v]
    by (simp add: varlen_def)
qed

lemma varlen_length: "length (varlen v) \<le> 5"
  using chunks_length [of v 5] unsigned_less [of v, where ?'a = nat]
  by (cases "varlen_chunks v") (auto simp: varlen_def)

lemma append_bytes:
  "wv_ok view \<Longrightarrow> length (wv_out view) + length bs \<le> wv_size view \<Longrightarrow>
   seq (map (\<lambda>b. view_appendBuffer [b]) bs) view = Inr (view\<lparr>wv_out := wv_out view @ bs\<rparr>)"
proof (induction bs arbitrary: view)
  case (Cons b bs)
  then show ?case
    by (simp add: appendBuffer_eq wv_append_ok)
qed simp

lemma map_nth_tl: "map (\<lambda>i. f (xs ! i)) [Suc 0..<length xs] = map f (tl xs)"
  by (rule nth_equalityI) (simp_all add: nth_tl)

lemma append_varlen:
  assumes "wv_ok view" "length (wv_out view) + length (varlen v) \<le> wv_size view"
  shows "view_appendVariableLengthUInt (ucast v) view = Inr (view\<lparr>wv_out := wv_out view @ varlen v\<rparr>)"
proof (cases "v = 0")
  case True
  then show ?thesis
    using assms by (simp add: view_appendVariableLengthUInt_def varlen_def appendBuffer_eq)
next
  case False
  let ?cs = "varlen_chunks v"
  have ne: "?cs \<noteq> []"
    using False by (simp add: varlen_chunks.simps word_gt_0)
  have "varlen v = map (\<lambda>i. ?cs ! i OR 0x80) (rev [1..<length ?cs]) @ [?cs ! 0]"
    using False ne map_nth_tl [of "\<lambda>c. c OR 0x80" ?cs] by (simp add: varlen_def hd_conv_nth flip: rev_map)
  moreover have "(ucast v :: u64) < 0x8000000000000000"
    using unsigned_less [of v, where ?'a = nat] by (simp add: word_less_nat_alt)
  moreover have "(ucast v :: u64) \<noteq> 0"
    using False by (simp add: word_unat_eq_iff)
  moreover have "(ucast (ucast v :: u64) :: u32) = v"
    by (rule bit_word_eqI) (simp add: bit_ucast_iff)
  ultimately show ?thesis
    using append_bytes [OF assms] ne
    by (simp add: view_appendVariableLengthUInt_def Let_def comp_def)
qed

subsection \<open>Well-formed parameters\<close>

text \<open>Storage for paths always has room for five elements.\<close>

definition storage_ok :: "addressParams_t \<Rightarrow> bool" where
  "storage_ok params \<longleftrightarrow> length (path (payment_path_storage (payment params))) = 5 \<and>
     length (path (staking_path_storage (staking params))) = 5"

lemma yields_path:
  assumes "rv_ok view" "length (path p) = 5"
  shows "yields (\<lambda>q view'. path_ok q \<and> moves_on view view') (view_parsePath p view)"
proof (cases "bip44_parseFromWire (view_rest view) p")
  case (Inl e)
  then show ?thesis
    using parse_any_path [OF assms(2), of "view_rest view"] assms(1)
    by (simp add: view_parsePath_def yields_def)
next
  case (Inr r)
  then obtain n q where "bip44_parseFromWire (view_rest view) p = Inr (n, q)" "path_ok q"
    "n \<le> length (view_rest view)"
    using parse_any_path [OF assms(2), of "view_rest view"] by auto
  then show ?thesis
    using assms(1) by (auto simp: view_parsePath_def skip_eq moves_on_def yields_def)
qed

text \<open>What parsing the payment part and the staking part establishes.\<close>

definition payment_ok :: "addressParams_t \<Rightarrow> bool" where
  "payment_ok params \<longleftrightarrow> (case determinePaymentChoice (address_type params) of
        Inl _ \<Rightarrow> False
      | Inr PAYMENT_PATH \<Rightarrow> \<exists>p. payment params = PaymentKeyPath p \<and> path_ok p
      | Inr PAYMENT_SCRIPT_HASH \<Rightarrow> \<exists>h. payment params = PaymentScriptHash h \<and> length h = 28
      | Inr PAYMENT_NONE \<Rightarrow> True)"

definition staking_ok :: "addressParams_t \<Rightarrow> bool" where
  "staking_ok params \<longleftrightarrow>
     (if stakingDataSource params = STAKING_KEY_PATH
      then \<exists>p. staking params = StakingKeyPath p \<and> path_ok p
      else if stakingDataSource params = STAKING_KEY_HASH
      then \<exists>h. staking params = StakingKeyHash h \<and> length h = 28
      else if stakingDataSource params = STAKING_SCRIPT_HASH
      then \<exists>h. staking params = StakingScriptHash h \<and> length h = 28
      else if stakingDataSource params = BLOCKCHAIN_POINTER
      then \<exists>q. staking params = StakingKeyBlockchainPointer q
      else True)"

definition network_ok :: "addressParams_t \<Rightarrow> bool" where
  "network_ok params \<longleftrightarrow> (if address_type params = BYRON then \<exists>m. network params = ProtocolMagic m
     else \<exists>i. network params = NetworkId i \<and> isValidNetworkId i)"

text \<open>
  The unions hold what the address type and the staking choice say they hold, and the buffers
  and paths have their fixed sizes.
\<close>

definition params_ok :: "addressParams_t \<Rightarrow> bool" where
  "params_ok params \<longleftrightarrow>
     isSupportedAddressType (address_type params) \<and> isValidStakingChoice (stakingDataSource params) \<and>
     network_ok params \<and> payment_ok params \<and> staking_ok params"

lemma part_updates [simp]:
  "payment_ok (params\<lparr>stakingDataSource := s\<rparr>) = payment_ok params"
  "payment_ok (params\<lparr>staking := u\<rparr>) = payment_ok params"
  "network_ok (params\<lparr>stakingDataSource := s\<rparr>) = network_ok params"
  "network_ok (params\<lparr>staking := u\<rparr>) = network_ok params"
  "network_ok (params\<lparr>payment := v\<rparr>) = network_ok params"
  "storage_ok (params\<lparr>stakingDataSource := s\<rparr>) = storage_ok params"
  "storage_ok (params\<lparr>network := n\<rparr>) = storage_ok params"
  "storage_ok (params\<lparr>address_type := t\<rparr>) = storage_ok params"
  by (auto simp: payment_ok_def network_ok_def storage_ok_def split: sum.splits payment_choice_t.splits)

lemma yields_payment:
  assumes "rv_ok view" "isSupportedAddressType (address_type params)" "storage_ok params"
  shows "yields (\<lambda>params' view'. (\<exists>u. params' = params\<lparr>payment := u\<rparr>) \<and> payment_ok params' \<and>
    storage_ok params' \<and> moves_on view view') (parse_payment params view)"
proof -
  let ?P = "\<lambda>params' view'. (\<exists>u. params' = params\<lparr>payment := u\<rparr>) \<and> payment_ok params' \<and>
    storage_ok params' \<and> moves_on view view'"
  have c: "yields ?P (res_bind (view_parsePath (payment_path_storage (payment params)) view)
      (\<lambda>(p, view). Inr (params\<lparr>payment := PaymentKeyPath p\<rparr>, view)))"
    if "determinePaymentChoice (address_type params) = Inr PAYMENT_PATH"
    by (rule yields_bind [OF yields_path [OF assms(1)]])
      (use assms(3) that in \<open>auto simp: storage_ok_def payment_ok_def path_ok_def intro!: yields_Inr\<close>)
  have h: "yields ?P (res_bind (view_parseBuffer SCRIPT_HASH_LENGTH view)
      (\<lambda>(h, view). Inr (params\<lparr>payment := PaymentScriptHash h\<rparr>, view)))"
    if "determinePaymentChoice (address_type params) = Inr PAYMENT_SCRIPT_HASH"
    by (rule yields_bind [OF yields_buffer [OF assms(1)]])
      (use assms(3) that in \<open>auto simp: storage_ok_def blank_path_def payment_ok_def intro!: yields_Inr\<close>)
  have n: "yields ?P (Inr (params, view))" if "determinePaymentChoice (address_type params) = Inr PAYMENT_NONE"
    by (rule yields_Inr) (use that assms(1,3) in \<open>auto simp: payment_ok_def moves_on_refl intro!: exI [of _ "payment params"]\<close>)
  show ?thesis
    using assms(2) c h n unfolding parse_payment_def isSupportedAddressType_def determinePaymentChoice_def
    by auto
qed

lemma yields_staking:
  assumes "rv_ok view" "isValidStakingChoice (stakingDataSource params)" "storage_ok params"
  shows "yields (\<lambda>params' view'. (\<exists>u. params' = params\<lparr>staking := u\<rparr>) \<and> staking_ok params' \<and>
    moves_on view view') (parse_staking params view)"
proof -
  let ?P = "\<lambda>params' view'. (\<exists>u. params' = params\<lparr>staking := u\<rparr>) \<and> staking_ok params' \<and>
    moves_on view view'"
  have p: "yields ?P (res_bind (view_parsePath (staking_path_storage (staking params)) view)
      (\<lambda>(p, view). Inr (params\<lparr>staking := StakingKeyPath p\<rparr>, view)))"
    if "stakingDataSource params = STAKING_KEY_PATH"
    by (rule yields_bind [OF yields_path [OF assms(1)]])
      (use assms(3) that in \<open>auto simp: storage_ok_def staking_ok_def intro!: yields_Inr\<close>)
  have h: "yields ?P (res_bind (view_parseBuffer 28 view) (\<lambda>(h, view). Inr (params\<lparr>staking := f h\<rparr>, view)))"
    if "f = StakingKeyHash \<and> stakingDataSource params = STAKING_KEY_HASH \<or>
      f = StakingScriptHash \<and> stakingDataSource params = STAKING_SCRIPT_HASH" for f
    by (rule yields_bind [OF yields_buffer [OF assms(1)]])
      (use that in \<open>auto simp: staking_ok_def intro!: yields_Inr\<close>)
  have q: "yields ?P (res_bind (parse_u4be view) (\<lambda>(b, view). res_bind (parse_u4be view) (\<lambda>(t, view).
      res_bind (parse_u4be view) (\<lambda>(c, view). Inr (params\<lparr>staking := StakingKeyBlockchainPointer
        \<lparr>blockIndex = b, txIndex = t, certificateIndex = c\<rparr>\<rparr>, view)))))"
    if "stakingDataSource params = BLOCKCHAIN_POINTER"
  proof (rule yields_bind [OF yields_uints(3) [OF assms(1)]], unfold case_prod_conv)
    fix b v1 assume v1: "moves_on view v1"
    show "yields ?P (res_bind (parse_u4be v1) (\<lambda>(t, view). res_bind (parse_u4be view) (\<lambda>(c, view).
        Inr (params\<lparr>staking := StakingKeyBlockchainPointer
          \<lparr>blockIndex = b, txIndex = t, certificateIndex = c\<rparr>\<rparr>, view))))"
    proof (rule yields_bind [OF yields_uints(3) [OF moves_on_ok [OF v1]]], unfold case_prod_conv)
      fix t v2 assume v2: "moves_on v1 v2"
      show "yields ?P (res_bind (parse_u4be v2) (\<lambda>(c, view). Inr (params\<lparr>staking :=
          StakingKeyBlockchainPointer \<lparr>blockIndex = b, txIndex = t, certificateIndex = c\<rparr>\<rparr>, view)))"
        by (rule yields_bind [OF yields_uints(3) [OF moves_on_ok [OF v2]]])
          (use that v1 v2 in \<open>auto simp: staking_ok_def intro!: yields_Inr dest: moves_on_trans\<close>)
    qed
  qed
  have n: "yields ?P (Inr (params, view))" if "stakingDataSource params = NO_STAKING"
    by (rule yields_Inr) (use that assms(1) in \<open>auto simp: staking_ok_def moves_on_refl intro!: exI [of _ "staking params"]\<close>)
  show ?thesis
    using assms(2) p h [of StakingKeyHash] h [of StakingScriptHash] q n
    unfolding parse_staking_def isValidStakingChoice_def by auto
qed

lemma yields_network:
  assumes "rv_ok view"
  shows "yields (\<lambda>q view'. (\<exists>n. q = params\<lparr>network := n\<rparr>) \<and> network_ok q \<and> moves_on view view')
    (if address_type params = BYRON
     then res_bind (parse_u4be view) (\<lambda>(m, view). Inr (params\<lparr>network := ProtocolMagic m\<rparr>, view))
     else res_bind (parse_u1be view) (\<lambda>(i, view). res_bind (VALIDATE (isValidNetworkId i) ERR_INVALID_DATA)
       (\<lambda>_. Inr (params\<lparr>network := NetworkId i\<rparr>, view))))"
proof (cases "address_type params = BYRON")
  case True
  show ?thesis
    unfolding if_P [OF True]
    by (rule yields_bind [OF yields_uints(3) [OF assms]])
      (use True in \<open>auto simp: network_ok_def intro!: yields_Inr\<close>)
next
  case False
  show ?thesis
    unfolding if_not_P [OF False]
    by (rule yields_bind [OF yields_uints(1) [OF assms]], unfold case_prod_conv, rule yields_validate)
      (use False in \<open>auto simp: network_ok_def intro!: yields_Inr\<close>)
qed

lemma yields_credentials:
  assumes "rv_ok view" "isSupportedAddressType (address_type params)" "storage_ok params" "network_ok params"
  shows "yields (\<lambda>params' view'. params_ok params' \<and> moves_on view view')
    (res_bind (parse_payment params view) (\<lambda>(params, view).
     res_bind (parse_u1be view) (\<lambda>(s, view). res_bind (VALIDATE (isValidStakingChoice s) ERR_INVALID_DATA)
       (\<lambda>_. parse_staking (params\<lparr>stakingDataSource := s\<rparr>) view))))"
proof (rule yields_bind [OF yields_payment [OF assms(1-3)]], unfold case_prod_conv)
  fix q v1
  assume q: "(\<exists>u. q = params\<lparr>payment := u\<rparr>) \<and> payment_ok q \<and> storage_ok q \<and> moves_on view v1"
  then have r: "rv_ok v1"
    by (auto intro: moves_on_ok)
  show "yields (\<lambda>params' view'. params_ok params' \<and> moves_on view view')
     (res_bind (parse_u1be v1) (\<lambda>(s, view). res_bind (VALIDATE (isValidStakingChoice s) ERR_INVALID_DATA)
       (\<lambda>_. parse_staking (q\<lparr>stakingDataSource := s\<rparr>) view)))"
  proof (rule yields_bind [OF yields_uints(1) [OF r]], unfold case_prod_conv, rule yields_validate)
    fix s v2 assume s: "moves_on v1 v2" "isValidStakingChoice s"
    let ?q = "q\<lparr>stakingDataSource := s\<rparr>"
    show "yields (\<lambda>params' view'. params_ok params' \<and> moves_on view view') (parse_staking ?q v2)"
    proof (rule yields_weaken [OF yields_staking [OF moves_on_ok [OF s(1)]]])
      fix p v3
      assume "(\<exists>u. p = ?q\<lparr>staking := u\<rparr>) \<and> staking_ok p \<and> moves_on v2 v3"
      then show "params_ok p \<and> moves_on view v3"
        using q s assms(2,4) moves_on_trans by (auto simp: params_ok_def)
    qed (use q s(2) in simp_all)
  qed
qed

lemma parsed_params_ok:
  assumes "rv_ok view" "storage_ok params"
  shows "yields (\<lambda>params' view'. params_ok params' \<and> moves_on view view')
    (view_parseAddressParams params view)"
  unfolding view_parseAddressParams_def
proof (rule yields_bind [OF yields_uints(1) [OF assms(1)]], unfold case_prod_conv Let_def, rule yields_validate)
  fix t v1 assume v1: "moves_on view v1" and t: "isSupportedAddressType t"
  let ?p = "params\<lparr>address_type := t\<rparr>"
  have r: "rv_ok v1"
    by (rule moves_on_ok [OF v1])
  note net = yields_network [OF r, of ?p]
  show "yields (\<lambda>params' view'. params_ok params' \<and> moves_on view view')
     (res_bind (if t = BYRON
        then res_bind (parse_u4be v1) (\<lambda>(m, view). Inr (?p\<lparr>network := ProtocolMagic m\<rparr>, view))
        else res_bind (parse_u1be v1) (\<lambda>(i, view). res_bind (VALIDATE (isValidNetworkId i) ERR_INVALID_DATA)
          (\<lambda>_. Inr (?p\<lparr>network := NetworkId i\<rparr>, view))))
       (\<lambda>(params, view). res_bind (parse_payment params view) (\<lambda>(params, view).
       res_bind (parse_u1be view) (\<lambda>(s, view). res_bind (VALIDATE (isValidStakingChoice s) ERR_INVALID_DATA)
         (\<lambda>_. parse_staking (params\<lparr>stakingDataSource := s\<rparr>) view)))))"
  proof (rule yields_bind [OF net [simplified]], unfold case_prod_conv)
    fix q v2
    assume q: "(\<exists>n. q = ?p\<lparr>network := n\<rparr>) \<and> network_ok q \<and> moves_on v1 v2"
    show "yields (\<lambda>params' view'. params_ok params' \<and> moves_on view view')
       (res_bind (parse_payment q v2) (\<lambda>(params, view).
       res_bind (parse_u1be view) (\<lambda>(s, view). res_bind (VALIDATE (isValidStakingChoice s) ERR_INVALID_DATA)
         (\<lambda>_. parse_staking (params\<lparr>stakingDataSource := s\<rparr>) view))))"
      by (rule yields_weaken [OF yields_credentials])
        (use q t assms(2) v1 in \<open>auto intro: moves_on_ok moves_on_trans\<close>)
  qed
qed

subsection \<open>Parameters on the wire\<close>

fun encode_network :: "network_union \<Rightarrow> bytes" where
  "encode_network (ProtocolMagic m) = be_write 4 (unat m)"
| "encode_network (NetworkId i) = [i]"

fun encode_payment :: "payment_union \<Rightarrow> bytes" where
  "encode_payment (PaymentKeyPath p) = encode_path (elements p)"
| "encode_payment (PaymentScriptHash h) = h"

fun encode_staking :: "staking_union \<Rightarrow> bytes" where
  "encode_staking (StakingKeyPath p) = encode_path (elements p)"
| "encode_staking (StakingKeyHash h) = h"
| "encode_staking (StakingScriptHash h) = h"
| "encode_staking (StakingKeyBlockchainPointer q) = be_write 4 (unat (blockIndex q)) @
     be_write 4 (unat (txIndex q)) @ be_write 4 (unat (certificateIndex q))"

definition encode_params :: "addressParams_t \<Rightarrow> bytes" where
  "encode_params params = [address_type params] @ encode_network (network params) @
     (if determinePaymentChoice (address_type params) = Inr PAYMENT_NONE then []
      else encode_payment (payment params)) @
     [stakingDataSource params] @
     (if stakingDataSource params = NO_STAKING then [] else encode_staking (staking params))"

text \<open>Two parameters mean the same when they differ at most in storage nothing reads.\<close>

fun same_payment :: "payment_union \<Rightarrow> payment_union \<Rightarrow> bool" where
  "same_payment (PaymentKeyPath p) (PaymentKeyPath q) = (elements p = elements q)"
| "same_payment (PaymentScriptHash h) (PaymentScriptHash k) = (h = k)"
| "same_payment _ _ = False"

fun same_staking :: "staking_union \<Rightarrow> staking_union \<Rightarrow> bool" where
  "same_staking (StakingKeyPath p) (StakingKeyPath q) = (elements p = elements q)"
| "same_staking u v = (u = v)"

definition same_params :: "addressParams_t \<Rightarrow> addressParams_t \<Rightarrow> bool" where
  "same_params p q \<longleftrightarrow> address_type p = address_type q \<and> network p = network q \<and>
     stakingDataSource p = stakingDataSource q \<and>
     (determinePaymentChoice (address_type q) = Inr PAYMENT_NONE \<or> same_payment (payment p) (payment q)) \<and>
     (stakingDataSource q = NO_STAKING \<or> same_staking (staking p) (staking q))"

lemma path_reads:
  assumes "path_ok p" "length (path old) = 5" "views view (encode_path (elements p) @ r)"
  shows "\<exists>q view'. view_parsePath old view = Inr (q, view') \<and> elements q = elements p \<and> path_ok q \<and> views view' r"
proof -
  have l: "length (elements p) \<le> 5"
    using assms(1) by (simp add: elements_def path_ok_def)
  obtain q where q: "bip44_parseFromWire (encode_path (elements p) @ r) old =
      Inr (1 + 4 * length (elements p), q)" "elements q = elements p" "path_ok q"
    using parse_encoded_path [OF l assms(2), of r] by blast
  have "length (encode_path (elements p)) = 1 + 4 * length (elements p)"
    by (simp add: encode_path_def length_encoded)
  then obtain view' where "read_view_skip (1 + 4 * length (elements p)) view = Inr view'" "views view' r"
    using skip_ok [OF assms(3)] by metis
  then show ?thesis
    using q assms(3) by (auto simp: view_parsePath_def views_def)
qed

lemma byte_reads: "views view (x # r) \<Longrightarrow> \<exists>view'. parse_u1be view = Inr (x, view') \<and> views view' r"
proof -
  assume v: "views view (x # r)"
  have "be_write 1 (unat x) = [x]"
    using unsigned_less [of x, where ?'a = nat] by simp
  then show ?thesis
    using u1.parses [where x = x and view = view and r = r] v by simp
qed

lemma payment_reads:
  assumes "payment_ok p" "storage_ok old" "address_type old = address_type p"
    and "views view ((if determinePaymentChoice (address_type p) = Inr PAYMENT_NONE then []
      else encode_payment (payment p)) @ r)"
  shows "\<exists>u view'. parse_payment old view = Inr (old\<lparr>payment := u\<rparr>, view') \<and> views view' r \<and>
    length (path (payment_path_storage u)) = 5 \<and>
    (determinePaymentChoice (address_type p) = Inr PAYMENT_NONE \<or> same_payment u (payment p))"
proof (cases "determinePaymentChoice (address_type p)")
  case (Inr c)
  show ?thesis
  proof (cases c)
    case PAYMENT_PATH
    then obtain q where q: "payment p = PaymentKeyPath q" "path_ok q"
      using assms(1) Inr by (auto simp: payment_ok_def)
    then obtain q' view' where "view_parsePath (payment_path_storage (payment old)) view = Inr (q', view')"
      "elements q' = elements q" "path_ok q'" "views view' r"
      using path_reads [of q "payment_path_storage (payment old)" view r] assms(2,4) Inr PAYMENT_PATH
      by (auto simp: storage_ok_def)
    then show ?thesis
      using q Inr PAYMENT_PATH assms(3)
      by (intro exI [of _ "PaymentKeyPath q'"] exI [of _ view'])
        (auto simp: parse_payment_def determinePaymentChoice_def path_ok_def split: if_splits)
  next
    case PAYMENT_SCRIPT_HASH
    then obtain h where h: "payment p = PaymentScriptHash h" "length h = 28"
      using assms(1) Inr by (auto simp: payment_ok_def)
    then obtain view' where "view_parseBuffer 28 view = Inr (h, view')" "views view' r"
      using buf28.parses [of h view r] assms(4) Inr PAYMENT_SCRIPT_HASH by auto
    then show ?thesis
      using h Inr PAYMENT_SCRIPT_HASH assms(3)
      by (intro exI [of _ "PaymentScriptHash h"] exI [of _ view'])
        (auto simp: parse_payment_def determinePaymentChoice_def blank_path_def split: if_splits)
  next
    case PAYMENT_NONE
    then show ?thesis
      using Inr assms
      by (intro exI [of _ "payment old"] exI [of _ view])
        (auto simp: parse_payment_def determinePaymentChoice_def storage_ok_def split: if_splits)
  qed
qed (use assms(1) in \<open>simp add: payment_ok_def\<close>)

lemma staking_reads:
  assumes "staking_ok p" "isValidStakingChoice (stakingDataSource p)" "storage_ok old"
    and "stakingDataSource old = stakingDataSource p"
    and "views view ((if stakingDataSource p = NO_STAKING then [] else encode_staking (staking p)) @ r)"
  shows "\<exists>u view'. parse_staking old view = Inr (old\<lparr>staking := u\<rparr>, view') \<and> views view' r \<and>
    (stakingDataSource p = NO_STAKING \<or> same_staking u (staking p))"
proof -
  consider "stakingDataSource p = NO_STAKING"
    | q where "stakingDataSource p = STAKING_KEY_PATH" "staking p = StakingKeyPath q" "path_ok q"
    | h where "stakingDataSource p = STAKING_KEY_HASH" "staking p = StakingKeyHash h" "length h = 28"
    | h where "stakingDataSource p = STAKING_SCRIPT_HASH" "staking p = StakingScriptHash h" "length h = 28"
    | q where "stakingDataSource p = BLOCKCHAIN_POINTER" "staking p = StakingKeyBlockchainPointer q"
    using assms(1,2) unfolding staking_ok_def isValidStakingChoice_def by auto
  then show ?thesis
  proof cases
    case 1
    then show ?thesis
      using assms by (intro exI [of _ "staking old"] exI [of _ view]) (auto simp: parse_staking_def)
  next
    case (2 q)
    then obtain q' view' where "view_parsePath (staking_path_storage (staking old)) view = Inr (q', view')"
      "elements q' = elements q" "path_ok q'" "views view' r"
      using path_reads [of q "staking_path_storage (staking old)" view r] assms(3,5)
      by (auto simp: storage_ok_def)
    then show ?thesis
      using 2 assms(4) by (intro exI [of _ "StakingKeyPath q'"] exI [of _ view']) (auto simp: parse_staking_def)
  next
    case (3 h)
    then obtain view' where "view_parseBuffer 28 view = Inr (h, view')" "views view' r"
      using buf28.parses [of h view r] assms(5) by auto
    then show ?thesis
      using 3 assms(4) by (intro exI [of _ "StakingKeyHash h"] exI [of _ view']) (auto simp: parse_staking_def)
  next
    case (4 h)
    then obtain view' where "view_parseBuffer 28 view = Inr (h, view')" "views view' r"
      using buf28.parses [of h view r] assms(5) by auto
    then show ?thesis
      using 4 assms(4) by (intro exI [of _ "StakingScriptHash h"] exI [of _ view']) (auto simp: parse_staking_def)
  next
    case (5 q)
    then obtain v1 where v1: "parse_u4be view = Inr (blockIndex q, v1)"
      "views v1 (be_write 4 (unat (txIndex q)) @ be_write 4 (unat (certificateIndex q)) @ r)"
      using u4.parses [where x = "blockIndex q" and view = view] assms(5) by (auto simp del: be_write.simps)
    then obtain v2 where v2: "parse_u4be v1 = Inr (txIndex q, v2)"
      "views v2 (be_write 4 (unat (certificateIndex q)) @ r)"
      using u4.parses [where x = "txIndex q" and view = v1] by (auto simp del: be_write.simps)
    then obtain v3 where v3: "parse_u4be v2 = Inr (certificateIndex q, v3)" "views v3 r"
      using u4.parses [where x = "certificateIndex q" and view = v2] by (auto simp del: be_write.simps)
    show ?thesis
      using 5 assms(4) v1(1) v2(1) v3
      by (intro exI [of _ "StakingKeyBlockchainPointer q"] exI [of _ v3]) (auto simp: parse_staking_def)
  qed
qed

lemma network_reads:
  assumes "network_ok p" "address_type old = address_type p" "views view (encode_network (network p) @ r)"
  shows "\<exists>view'. (if address_type old = BYRON
     then res_bind (parse_u4be view) (\<lambda>(m, view). Inr (old\<lparr>network := ProtocolMagic m\<rparr>, view))
     else res_bind (parse_u1be view) (\<lambda>(i, view). res_bind (VALIDATE (isValidNetworkId i) ERR_INVALID_DATA)
       (\<lambda>_. Inr (old\<lparr>network := NetworkId i\<rparr>, view)))) = Inr (old\<lparr>network := network p\<rparr>, view') \<and>
    views view' r"
proof (cases "address_type p = BYRON")
  case True
  then obtain m where m: "network p = ProtocolMagic m"
    using assms(1) by (auto simp: network_ok_def)
  then show ?thesis
    using u4.parses [where x = m and view = view and r = r] True assms(2,3)
    by (auto simp del: be_write.simps)
next
  case False
  then obtain i where "network p = NetworkId i" "isValidNetworkId i"
    using assms(1) by (auto simp: network_ok_def)
  then show ?thesis
    using byte_reads [of view i r] False assms(2,3) by auto
qed

lemma params_read:
  assumes "params_ok p" "storage_ok old" "views view (encode_params p @ r)"
  shows "\<exists>q view'. view_parseAddressParams old view = Inr (q, view') \<and> same_params q p \<and> views view' r"
proof -
  let ?t = "address_type p" and ?s = "stakingDataSource p"
  let ?pay = "if determinePaymentChoice ?t = Inr PAYMENT_NONE then [] else encode_payment (payment p)"
  let ?st = "if ?s = NO_STAKING then [] else encode_staking (staking p)"
  have ok: "isSupportedAddressType ?t" "isValidStakingChoice ?s" "network_ok p" "payment_ok p" "staking_ok p"
    using assms(1) by (simp_all add: params_ok_def)
  have "views view (?t # (encode_network (network p) @ ?pay @ ?s # ?st @ r))"
    using assms(3) by (simp add: encode_params_def)
  then obtain v1 where v1: "parse_u1be view = Inr (?t, v1)"
    "views v1 (encode_network (network p) @ ?pay @ ?s # ?st @ r)"
    using byte_reads by blast
  define o1 where "o1 = old\<lparr>address_type := ?t\<rparr>"
  obtain v2 where v2: "(if ?t = BYRON
     then res_bind (parse_u4be v1) (\<lambda>(m, view). Inr (o1\<lparr>network := ProtocolMagic m\<rparr>, view))
     else res_bind (parse_u1be v1) (\<lambda>(i, view). res_bind (VALIDATE (isValidNetworkId i) ERR_INVALID_DATA)
       (\<lambda>_. Inr (o1\<lparr>network := NetworkId i\<rparr>, view)))) = Inr (o1\<lparr>network := network p\<rparr>, v2)"
    "views v2 (?pay @ ?s # ?st @ r)"
    using network_reads [OF ok(3) _ v1(2), of o1] by (auto simp: o1_def)
  define o2 where "o2 = o1\<lparr>network := network p\<rparr>"
  obtain u v3 where v3: "parse_payment o2 v2 = Inr (o2\<lparr>payment := u\<rparr>, v3)" "views v3 (?s # ?st @ r)"
    "length (path (payment_path_storage u)) = 5"
    "determinePaymentChoice ?t = Inr PAYMENT_NONE \<or> same_payment u (payment p)"
    using payment_reads [OF ok(4) _ _ v2(2), of o2] assms(2) by (auto simp: o1_def o2_def)
  obtain v4 where v4: "parse_u1be v3 = Inr (?s, v4)" "views v4 (?st @ r)"
    using byte_reads [OF v3(2)] by blast
  define o3 where "o3 = o2\<lparr>payment := u, stakingDataSource := ?s\<rparr>"
  have "storage_ok o3"
    using assms(2) v3(3) by (simp add: o3_def o2_def o1_def storage_ok_def)
  then obtain w v5 where v5: "parse_staking o3 v4 = Inr (o3\<lparr>staking := w\<rparr>, v5)" "views v5 r"
    "?s = NO_STAKING \<or> same_staking w (staking p)"
    using staking_reads [OF ok(5,2) _ _ v4(2), of o3] by (auto simp: o3_def)
  have "view_parseAddressParams old view = Inr (o3\<lparr>staking := w\<rparr>, v5)"
    unfolding view_parseAddressParams_def v1(1) Let_def res_bind_simps case_prod_conv
      o1_def [symmetric] v2(1) o2_def [symmetric]
    using ok(1,2) v3(1) v4(1) v5(1) by (simp add: o3_def)
  moreover have "same_params (o3\<lparr>staking := w\<rparr>) p"
    using v3(4) v5(3) by (simp add: same_params_def o3_def o2_def o1_def)
  ultimately show ?thesis
    using v5(2) by blast
qed

subsection \<open>Derivation\<close>

lemma ordinary_staking_shape:
  "ordinary_kind shelley xs = PATH_ORDINARY_STAKING_KEY \<Longrightarrow>
   shelley \<and> (\<exists>c e. xs = [c, 2, e] \<and> hard c \<and> \<not> hard e)"
  by (induction shelley xs rule: ordinary_kind.induct) (auto split: if_splits)

lemma staking_path:
  assumes "path_ok p" "bip44_classifyPath p = Inr PATH_ORDINARY_STAKING_KEY"
  shows "bip44_isOrdinaryStakingKeyPath p = Inr True"
proof -
  obtain a b c d e n where p: "p = full a b c d e n" "n \<le> 5"
    by (rule path_okE [OF assms(1)])
  have k: "path_kind (elements p) = PATH_ORDINARY_STAKING_KEY"
    using assms classify_ok by simp
  then have n: "1 < unat n"
    using short_invalid [of "elements p"] p(1) by (force simp: elements_def)
  let ?xs = "take (unat n - 2) [c, d, e]"
  have "path_kind (a # b # ?xs) = PATH_ORDINARY_STAKING_KEY"
    using k elements_full [OF p(2) n] p(1) by simp
  then have "ordinary_kind False ?xs = PATH_ORDINARY_STAKING_KEY \<or>
      ordinary_kind True ?xs = PATH_ORDINARY_STAKING_KEY \<and> a = 0x8000073C" and b: "b = 0x80000717"
    using multisig_kind_shape [of ?xs PATH_ORDINARY_STAKING_KEY] mint_kind_shape [of ?xs PATH_ORDINARY_STAKING_KEY]
      pool_kind_shape [of ?xs PATH_ORDINARY_STAKING_KEY] vote_kind_shape [of ?xs PATH_ORDINARY_STAKING_KEY]
    by (auto split: if_splits)
  then have "a = 0x8000073C" "\<exists>c' e'. ?xs = [c', 2, e'] \<and> hard c' \<and> \<not> hard e'"
    using ordinary_staking_shape by blast+
  then show ?thesis
    using b longer_length [OF p(2) n] p(1) by auto
qed

definition payment_credential :: "firmware \<Rightarrow> addressParams_t \<Rightarrow> bytes res" where
  "payment_credential fw params = (case determinePaymentChoice (address_type params) of
       Inr PAYMENT_PATH \<Rightarrow> res_bind (paymentKeyPath params) (\<lambda>p. bip44_pathToKeyHash fw p 28)
     | Inr PAYMENT_SCRIPT_HASH \<Rightarrow> paymentScriptHash params
     | _ \<Rightarrow> Inr [])"

definition staking_credential :: "firmware \<Rightarrow> addressParams_t \<Rightarrow> bytes res" where
  "staking_credential fw params =
     (if stakingDataSource params = STAKING_KEY_PATH
      then res_bind (stakingKeyPath params) (\<lambda>p. bip44_pathToKeyHash fw p 28)
      else if stakingDataSource params = STAKING_KEY_HASH then stakingKeyHash params
      else if stakingDataSource params = STAKING_SCRIPT_HASH then stakingScriptHash params
      else if stakingDataSource params = BLOCKCHAIN_POINTER
      then res_bind (stakingKeyBlockchainPointer params) (\<lambda>q.
        Inr (varlen (blockIndex q) @ varlen (txIndex q) @ varlen (certificateIndex q)))
      else Inr [])"

lemma payment_credential_length:
  assumes "firmware_ok fw" "payment_ok params" "payment_credential fw params = Inr h"
    and "determinePaymentChoice (address_type params) \<noteq> Inr PAYMENT_NONE"
  shows "length h = 28"
  using assms keyHash_length [OF assms(1)]
  by (auto simp: payment_credential_def payment_ok_def res_bind_Inr_iff
      split: sum.splits payment_choice_t.splits)

lemma staking_credential_length:
  assumes "firmware_ok fw" "staking_ok params" "staking_credential fw params = Inr h"
    and "stakingDataSource params \<in> {STAKING_KEY_PATH, STAKING_KEY_HASH, STAKING_SCRIPT_HASH}"
  shows "length h = 28"
  using assms keyHash_length [OF assms(1)]
  by (auto simp: staking_credential_def staking_ok_def res_bind_Inr_iff)

lemma base_derived:
  assumes "firmware_ok fw" "params_ok params" "isBaseAddress (address_type params)"
    and "network params = NetworkId i" "57 \<le> n" "n < BUFFER_SIZE_PARANOIA"
    and "stakingDataSource params \<in> {STAKING_KEY_PATH, STAKING_KEY_HASH, STAKING_SCRIPT_HASH}"
  shows "deriveAddress_base fw params n = res_bind (payment_credential fw params) (\<lambda>p.
    res_bind (staking_credential fw params) (\<lambda>s.
      Inr ((push_bit 4 (address_type params) OR i) # p @ s)))"
proof -
  have t: "isSupportedAddressType (address_type params)" "isValidNetworkId i"
    "address_type params \<noteq> BYRON"
    using assms(2,3,4) by (auto simp: params_ok_def network_ok_def isBaseAddress_def split: if_splits)
  have pay: "(if address_type params \<in> {BASE_PAYMENT_KEY_STAKE_KEY, BASE_PAYMENT_KEY_STAKE_SCRIPT}
      then res_bind (paymentKeyPath params) (\<lambda>p. view_appendAddressPublicKeyHash fw p out)
      else res_bind (paymentScriptHash params) (\<lambda>h. view_appendBuffer h out)) =
      res_bind (payment_credential fw params) (\<lambda>h. view_appendBuffer h out)" for out
    using assms(3) by (auto simp: isBaseAddress_def payment_credential_def determinePaymentChoice_def
        view_appendAddressPublicKeyHash_def res_bind_assoc)
  have st: "(if stakingDataSource params = STAKING_KEY_PATH
      then res_bind (stakingKeyPath params) (\<lambda>p. view_appendAddressPublicKeyHash fw p out)
      else if stakingDataSource params = STAKING_KEY_HASH
      then res_bind (stakingKeyHash params) (\<lambda>h. view_appendBuffer h out)
      else if stakingDataSource params = STAKING_SCRIPT_HASH
      then res_bind (stakingScriptHash params) (\<lambda>h. view_appendBuffer h out)
      else Inl ERR_ASSERT) =
      res_bind (staking_credential fw params) (\<lambda>h. view_appendBuffer h out)" for out
    using assms(7) by (auto simp: staking_credential_def view_appendAddressPublicKeyHash_def res_bind_assoc)
  have lp: "length h = 28" if "payment_credential fw params = Inr h" for h
    using payment_credential_length [OF assms(1) _ that] assms(2,3)
    by (auto simp: params_ok_def isBaseAddress_def determinePaymentChoice_def)
  have ls: "length h = 28" if "staking_credential fw params = Inr h" for h
    using staking_credential_length [OF assms(1) _ that assms(7)] assms(2) by (simp add: params_ok_def)
  show ?thesis
    unfolding deriveAddress_base_def pay st
    using assms(3-6) t lp ls
    by (cases "payment_credential fw params"; cases "staking_credential fw params")
      (simp_all add: constructShelleyAddressHeader_def make_write_view_def appendBuffer_eq wv_ok_def
        write_view_simps)
qed

lemma payment_step:
  assumes "determinePaymentChoice (address_type params) = Inr (if keyed then PAYMENT_PATH else PAYMENT_SCRIPT_HASH)"
  shows "(if keyed
      then res_bind (paymentKeyPath params) (\<lambda>p. view_appendAddressPublicKeyHash fw p out)
      else res_bind (paymentScriptHash params) (\<lambda>h. view_appendBuffer h out)) =
    res_bind (payment_credential fw params) (\<lambda>h. view_appendBuffer h out)"
  using assms by (auto simp: payment_credential_def view_appendAddressPublicKeyHash_def res_bind_assoc)

lemma pointer_derived:
  assumes "firmware_ok fw" "params_ok params" "address_type params \<in> {POINTER_KEY, POINTER_SCRIPT}"
    and "network params = NetworkId i" "57 \<le> n" "n < BUFFER_SIZE_PARANOIA"
    and "stakingDataSource params = BLOCKCHAIN_POINTER"
  shows "deriveAddress_pointer fw params n = res_bind (payment_credential fw params) (\<lambda>p.
    res_bind (staking_credential fw params) (\<lambda>s.
      Inr ((push_bit 4 (address_type params) OR i) # p @ s)))"
proof -
  have t: "isSupportedAddressType (address_type params)" "isValidNetworkId i"
    "address_type params \<noteq> BYRON"
    using assms(2,3,4) by (auto simp: params_ok_def network_ok_def split: if_splits)
  obtain q where q: "staking params = StakingKeyBlockchainPointer q"
    using assms(2,7) by (auto simp: params_ok_def staking_ok_def)
  note pay = payment_step [of params "address_type params = POINTER_KEY" fw]
  have c: "determinePaymentChoice (address_type params) =
      Inr (if address_type params = POINTER_KEY then PAYMENT_PATH else PAYMENT_SCRIPT_HASH)"
    using assms(3) by (auto simp: determinePaymentChoice_def)
  have lp: "length h = 28" if "payment_credential fw params = Inr h" for h
    using payment_credential_length [OF assms(1) _ that] assms(2) c by (auto simp: params_ok_def)
  have vl: "length (varlen (blockIndex q)) \<le> 5" "length (varlen (txIndex q)) \<le> 5"
    "length (varlen (certificateIndex q)) \<le> 5"
    by (rule varlen_length)+
  show ?thesis
    unfolding deriveAddress_pointer_def pay [OF c]
    using assms(3-7) t lp q vl
    by (cases "payment_credential fw params")
      (simp_all add: constructShelleyAddressHeader_def make_write_view_def appendBuffer_eq wv_ok_def
        write_view_simps append_varlen staking_credential_def)
qed

lemma enterprise_derived:
  assumes "firmware_ok fw" "params_ok params" "address_type params \<in> {ENTERPRISE_KEY, ENTERPRISE_SCRIPT}"
    and "network params = NetworkId i" "57 \<le> n" "n < BUFFER_SIZE_PARANOIA"
    and "stakingDataSource params = NO_STAKING"
  shows "deriveAddress_enterprise fw params n = res_bind (payment_credential fw params) (\<lambda>p.
    res_bind (staking_credential fw params) (\<lambda>s.
      Inr ((push_bit 4 (address_type params) OR i) # p @ s)))"
proof -
  have t: "isSupportedAddressType (address_type params)" "isValidNetworkId i"
    "address_type params \<noteq> BYRON"
    using assms(2,3,4) by (auto simp: params_ok_def network_ok_def split: if_splits)
  note pay = payment_step [of params "address_type params = ENTERPRISE_KEY" fw]
  have c: "determinePaymentChoice (address_type params) =
      Inr (if address_type params = ENTERPRISE_KEY then PAYMENT_PATH else PAYMENT_SCRIPT_HASH)"
    using assms(3) by (auto simp: determinePaymentChoice_def)
  have lp: "length h = 28" if "payment_credential fw params = Inr h" for h
    using payment_credential_length [OF assms(1) _ that] assms(2) c by (auto simp: params_ok_def)
  show ?thesis
    unfolding deriveAddress_enterprise_def pay [OF c]
    using assms(3-7) t lp
    by (cases "payment_credential fw params")
      (simp_all add: constructShelleyAddressHeader_def make_write_view_def appendBuffer_eq wv_ok_def
        write_view_simps staking_credential_def)
qed

lemma reward_derived:
  assumes "firmware_ok fw" "params_ok params" "address_type params \<in> {REWARD_KEY, REWARD_SCRIPT}"
    and "network params = NetworkId i" "29 \<le> n" "n < BUFFER_SIZE_PARANOIA"
    and "stakingDataSource params =
      (if address_type params = REWARD_KEY then STAKING_KEY_PATH else STAKING_SCRIPT_HASH)"
    and "isValidStakingInfo params = Inr True"
  shows "deriveAddress_reward fw params n = res_bind (payment_credential fw params) (\<lambda>p.
    res_bind (staking_credential fw params) (\<lambda>s.
      Inr ((push_bit 4 (address_type params) OR i) # p @ s)))"
proof -
  have t: "isSupportedAddressType (address_type params)" "isValidNetworkId i"
    "address_type params \<noteq> BYRON"
    using assms(2,3,4) by (auto simp: params_ok_def network_ok_def split: if_splits)
  have no_payment: "payment_credential fw params = Inr []"
    using assms(3) by (auto simp: payment_credential_def determinePaymentChoice_def)
  have so: "staking_ok params"
    using assms(2) by (simp add: params_ok_def)
  have ls: "length h = 28" if "staking_credential fw params = Inr h" for h
    using staking_credential_length [OF assms(1) so that] assms(7) by simp
  have st: "(if address_type params = REWARD_KEY
      then res_bind (stakingKeyPath params) (\<lambda>p. res_bind (res_bind (bip44_isOrdinaryStakingKeyPath p) ASSERT)
        (\<lambda>_. view_appendAddressPublicKeyHash fw p out))
      else res_bind (stakingScriptHash params) (\<lambda>h. view_appendBuffer h out)) =
    res_bind (staking_credential fw params) (\<lambda>h. view_appendBuffer h out)" for out
  proof (cases "address_type params = REWARD_KEY")
    case True
    then obtain p where p: "staking params = StakingKeyPath p" "path_ok p"
      using so assms(7) by (auto simp: staking_ok_def)
    then have "bip44_classifyPath p = Inr PATH_ORDINARY_STAKING_KEY"
      using assms(7,8) True classify_ok [of p]
      by (auto simp: isValidStakingInfo_def isStakingInfoConsistentWithAddressType_def split: if_splits)
    then show ?thesis
      using p True assms(7) staking_path [OF p(2)]
      by (simp add: staking_credential_def view_appendAddressPublicKeyHash_def)
  qed (use assms(7) in \<open>simp add: staking_credential_def\<close>)
  show ?thesis
    unfolding deriveAddress_reward_def st no_payment
    using assms(3-6) t ls
    by (cases "staking_credential fw params")
      (simp_all add: constructShelleyAddressHeader_def make_write_view_def appendBuffer_eq wv_ok_def
        write_view_simps)
qed

text \<open>
  Three pairs of address type and staking choice pass the validation without an address: the
  consistency check lets the script types through with a pointer, and reward addresses by key
  through with a hash, which the derivation then reads as a path.
\<close>

definition misread_pair :: "addressParams_t \<Rightarrow> bool" where
  "misread_pair params \<longleftrightarrow>
     address_type params = REWARD_KEY \<and> stakingDataSource params = STAKING_KEY_HASH \<or>
     address_type params = REWARD_SCRIPT \<and> stakingDataSource params = BLOCKCHAIN_POINTER"

definition refused_pair :: "addressParams_t \<Rightarrow> bool" where
  "refused_pair params \<longleftrightarrow>
     address_type params \<in> {BASE_PAYMENT_KEY_STAKE_SCRIPT, BASE_PAYMENT_SCRIPT_STAKE_SCRIPT} \<and>
     stakingDataSource params = BLOCKCHAIN_POINTER"

lemma misread_derived:
  assumes "params_ok params" "misread_pair params" "network params = NetworkId i" "29 \<le> n"
    "n < BUFFER_SIZE_PARANOIA"
  shows "deriveAddress_reward fw params n = Inl UNION_MISREAD"
proof -
  have "isSupportedAddressType (address_type params)" "isValidNetworkId i" "staking_ok params"
    using assms(1-3) by (auto simp: params_ok_def network_ok_def misread_pair_def split: if_splits)
  then show ?thesis
    using assms(2-5) by (auto simp: deriveAddress_reward_def misread_pair_def constructShelleyAddressHeader_def
        make_write_view_def appendBuffer_eq wv_ok_def staking_ok_def)
qed

lemma refused_derived:
  assumes "firmware_ok fw" "params_ok params" "refused_pair params" "network params = NetworkId i" "29 \<le> n"
    "n < BUFFER_SIZE_PARANOIA"
  shows "deriveAddress_base fw params n = res_bind (payment_credential fw params) (\<lambda>_. Inl ERR_ASSERT)"
proof -
  have t: "isSupportedAddressType (address_type params)" "isValidNetworkId i" "payment_ok params"
    using assms(2-4) by (auto simp: params_ok_def network_ok_def refused_pair_def split: if_splits)
  have c: "determinePaymentChoice (address_type params) =
      Inr (if address_type params = BASE_PAYMENT_KEY_STAKE_SCRIPT then PAYMENT_PATH else PAYMENT_SCRIPT_HASH)"
    and b: "address_type params \<in> {BASE_PAYMENT_KEY_STAKE_KEY, BASE_PAYMENT_KEY_STAKE_SCRIPT} \<longleftrightarrow>
      address_type params = BASE_PAYMENT_KEY_STAKE_SCRIPT"
    using assms(3) by (auto simp: determinePaymentChoice_def refused_pair_def)
  have lp: "length h = 28" if "payment_credential fw params = Inr h" for h
    using payment_credential_length [OF assms(1) t(3) that] c by auto
  show ?thesis
    unfolding deriveAddress_base_def b payment_step [OF c]
    using assms(3-6) t lp
    by (cases "payment_credential fw params")
      (auto simp: refused_pair_def isBaseAddress_def constructShelleyAddressHeader_def make_write_view_def
        appendBuffer_eq wv_ok_def)
qed

lemma derive_shelley:
  assumes "firmware_ok fw" "params_ok params" "isValidAddressParams params = Inr True"
    and "network params = NetworkId i" "address_type params \<noteq> BYRON" "57 \<le> n" "n < BUFFER_SIZE_PARANOIA"
  shows "deriveAddress fw params n =
    (if misread_pair params then Inl UNION_MISREAD
     else res_bind (payment_credential fw params) (\<lambda>p.
       if refused_pair params then Inl ERR_ASSERT
       else res_bind (staking_credential fw params) (\<lambda>s.
         Inr ((push_bit 4 (address_type params) OR i) # p @ s))))"
proof -
  have v: "isValidStakingInfo params = Inr True"
    using assms(3) by (auto simp: isValidAddressParams_def res_bind_Inr_iff split: if_splits)
  then have c: "isStakingInfoConsistentWithAddressType params = Inr True"
    by (auto simp: isValidStakingInfo_def res_bind_Inr_iff split: if_splits)
  then consider "misread_pair params" | "refused_pair params"
    | "isBaseAddress (address_type params)"
      "stakingDataSource params \<in> {STAKING_KEY_PATH, STAKING_KEY_HASH, STAKING_SCRIPT_HASH}"
    | "address_type params \<in> {POINTER_KEY, POINTER_SCRIPT}" "stakingDataSource params = BLOCKCHAIN_POINTER"
    | "address_type params \<in> {ENTERPRISE_KEY, ENTERPRISE_SCRIPT}" "stakingDataSource params = NO_STAKING"
    | "address_type params \<in> {REWARD_KEY, REWARD_SCRIPT}" "stakingDataSource params =
        (if address_type params = REWARD_KEY then STAKING_KEY_PATH else STAKING_SCRIPT_HASH)"
    using assms(5) unfolding isStakingInfoConsistentWithAddressType_def misread_pair_def refused_pair_def
      isBaseAddress_def Let_def by (auto split: if_splits)
  then show ?thesis
  proof cases
    case 1
    then show ?thesis
      using misread_derived [OF assms(2) 1 assms(4), of n] assms
      by (auto simp: deriveAddress_def misread_pair_def Let_def)
  next
    case 2
    then show ?thesis
      using refused_derived [OF assms(1,2) 2 assms(4), of n] assms
      by (auto simp: deriveAddress_def misread_pair_def refused_pair_def Let_def)
  next
    case 3
    then show ?thesis
      using base_derived [OF assms(1,2) 3(1) assms(4,6,7) 3(2)] assms
      by (auto simp: deriveAddress_def misread_pair_def refused_pair_def isBaseAddress_def Let_def)
  next
    case 4
    then show ?thesis
      using pointer_derived [OF assms(1,2) 4(1) assms(4,6,7) 4(2)] assms
      by (auto simp: deriveAddress_def misread_pair_def refused_pair_def Let_def)
  next
    case 5
    then show ?thesis
      using enterprise_derived [OF assms(1,2) 5(1) assms(4,6,7) 5(2)] assms
      by (auto simp: deriveAddress_def misread_pair_def refused_pair_def Let_def)
  next
    case 6
    then show ?thesis
      using reward_derived [OF assms(1,2) 6(1) assms(4) _ assms(7) 6(2) v] assms
      by (auto simp: deriveAddress_def misread_pair_def refused_pair_def Let_def)
  qed
qed

lemma header_parts:
  assumes "isSupportedAddressType t" "isValidNetworkId i"
  shows "getAddressType (push_bit 4 t OR i) = t" "getNetworkId (push_bit 4 t OR i) = i"
proof -
  have m: "(0x0F :: u8) = mask 4"
    by (simp add: mask_eq_exp_minus_1)
  have "unat i < 16"
    using assms(2) by (simp add: isValidNetworkId_def word_le_nat_alt)
  then have i: "i AND 0x0F = i"
    unfolding m take_bit_eq_mask [symmetric]
    by (simp add: word_unat_eq_iff unsigned_take_bit_eq take_bit_nat_eq_self_iff)
  have "i AND 0xF0 = (i AND 0x0F) AND 0xF0"
    by (simp only: i)
  then have "i AND 0xF0 = 0"
    by (simp add: and.assoc)
  show "getAddressType (push_bit 4 t OR i) = t" "getNetworkId (push_bit 4 t OR i) = i"
    using assms(1) i \<open>i AND 0xF0 = 0\<close> by (auto simp: isSupportedAddressType_def getAddressType_def getNetworkId_def
        bit.conj_disj_distrib2)
qed

subsection \<open>Properties\<close>

text \<open>
  C15. For validated parameters of a Shelley address, derivation gives exactly the header byte
  followed by the credential of the payment part and that of the staking part (key hashes of
  the paths, the hashes sent, or the three numbers of the pointer), and fails otherwise only as
  the key derivation does. The exceptions are spelled out: script types with a pointer are
  refused, and for two pairs the derivation reads a union member that was never written.
\<close>

theorem shelley_address_derived:
  assumes "firmware_ok fw" "params_ok params" "isValidAddressParams params = Inr True"
    and "network params = NetworkId i" "address_type params \<noteq> BYRON" "57 \<le> n" "n < BUFFER_SIZE_PARANOIA"
  shows "deriveAddress fw params n =
    (if misread_pair params then Inl UNION_MISREAD
     else res_bind (payment_credential fw params) (\<lambda>p.
       if refused_pair params then Inl ERR_ASSERT
       else res_bind (staking_credential fw params) (\<lambda>s.
         Inr ((push_bit 4 (address_type params) OR i) # p @ s))))"
  by (rule derive_shelley [OF assms])

lemma shelley_address_derived_witness:
  "deriveAddress sample_firmware \<lparr>address_type = ENTERPRISE_SCRIPT, network = NetworkId 1,
     payment = PaymentScriptHash (replicate 28 7), stakingDataSource = NO_STAKING,
     staking = StakingKeyHash []\<rparr> 128 = Inr (0x71 # replicate 28 7)"
proof -
  let ?p = "\<lparr>address_type = ENTERPRISE_SCRIPT, network = NetworkId 1,
     payment = PaymentScriptHash (replicate 28 7), stakingDataSource = NO_STAKING,
     staking = StakingKeyHash []\<rparr>"
  have "params_ok ?p" "isValidAddressParams ?p = Inr True"
    by (simp_all add: params_ok_def isSupportedAddressType_def isValidStakingChoice_def network_ok_def
        isValidNetworkId_def payment_ok_def determinePaymentChoice_def staking_ok_def isValidAddressParams_def
        isValidStakingInfo_def isValidPaymentInfo_def isStakingInfoConsistentWithAddressType_def)
  then show ?thesis
    using shelley_address_derived [OF sample_firmware_ok, of ?p 1 128]
    by (simp add: misread_pair_def refused_pair_def payment_credential_def determinePaymentChoice_def
        staking_credential_def)
qed

text \<open>
  A header byte is made exactly of a supported type and a valid network, and both are read
  back from it.
\<close>

theorem shelley_header_roundtrip:
  "case constructShelleyAddressHeader t i of
     Inl e \<Rightarrow> e = ERR_ASSERT \<and> \<not> (isSupportedAddressType t \<and> isValidNetworkId i)
   | Inr header \<Rightarrow> isSupportedAddressType t \<and> isValidNetworkId i \<and>
       getAddressType header = t \<and> getNetworkId header = i"
  using header_parts [of t i] by (auto simp: constructShelleyAddressHeader_def ASSERT_def)

text \<open>
  A number of a pointer address takes at most five bytes whatever its value, and a reader of
  the seven-bit groups gets the number back and knows where it ends.
\<close>

theorem pointer_number_roundtrip:
  assumes "wv_ok view" "length (wv_out view) + 5 \<le> wv_size view"
  shows "\<exists>bs. view_appendVariableLengthUInt (ucast (v :: u32)) view =
      Inr (view\<lparr>wv_out := wv_out view @ bs\<rparr>) \<and>
    length bs \<le> 5 \<and> (\<forall>r. read_varlen (bs @ r) 0 = Some (unat v, r))"
  using append_varlen [OF assms(1), of v] varlen_length [of v] read_varlen_ok [of v] assms(2)
  by (intro exI [of _ "varlen v"]) simp

lemma pointer_number_roundtrip_witness:
  "\<exists>bs. view_appendVariableLengthUInt (ucast (300 :: u32)) (make_write_view 20) =
    Inr \<lparr>wv_size = 20, wv_out = bs\<rparr> \<and> read_varlen bs 0 = Some (300, [])"
  using pointer_number_roundtrip [of "make_write_view 20" 300]
  by (auto simp: wv_ok_def make_write_view_def dest: spec [of _ "[]"])

text \<open>
  C28. Whatever bytes arrive, parsing address parameters either refuses them as invalid or ends
  within the buffer with parameters whose type, network, staking choice and unions agree and
  whose paths and hashes have their sizes.
\<close>

theorem parsed_params_well_formed:
  assumes "rv_ok view" "storage_ok params"
  shows "case view_parseAddressParams params view of
      Inl e \<Rightarrow> e = ERR_INVALID_DATA \<or> e = ERR_NOT_ENOUGH_INPUT
    | Inr (params', view') \<Rightarrow> params_ok params' \<and> moves_on view view'"
  using parsed_params_ok [OF assms] by (simp add: yields_def)

definition blank_params :: addressParams_t where
  "blank_params = \<lparr>address_type = 0, network = NetworkId 0, payment = PaymentKeyPath blank_path,
     stakingDataSource = 0, staking = StakingKeyPath blank_path\<rparr>"

lemma blank_storage: "storage_ok blank_params"
  by (simp add: storage_ok_def blank_params_def blank_path_def)

lemma parsed_params_well_formed_witness:
  "case view_parseAddressParams blank_params (make_read_view [9]) of
     Inl e \<Rightarrow> e = ERR_INVALID_DATA \<or> e = ERR_NOT_ENOUGH_INPUT
   | Inr (params', view') \<Rightarrow> params_ok params' \<and> moves_on (make_read_view [9]) view'"
  by (rule parsed_params_well_formed [OF _ blank_storage]) (simp add: rv_ok_def make_read_view_def)



text \<open>
  C34. The reward account of a staking key path is the one constructed from the hash of its key.
\<close>

theorem reward_account_forms:
  assumes "firmware_ok fw" "bip44_isOrdinaryStakingKeyPath p = Inr True" "isValidNetworkId i"
  shows "rewardAccountToBuffer fw (KeyReferencePath p) i =
    res_bind (bip44_pathToKeyHash fw p 28) (\<lambda>h.
      constructRewardAddressFromHash i REWARD_HASH_SOURCE_KEY h REWARD_ACCOUNT_SIZE)"
  using assms keyHash_length [OF assms(1), of p]
  by (cases "bip44_pathToKeyHash fw p 28")
    (auto simp: rewardAccountToBuffer_def constructRewardAddressFromKeyPath_def deriveAddress_reward_def
      constructRewardAddressFromHash_def constructShelleyAddressHeader_def isSupportedAddressType_def
      view_appendAddressPublicKeyHash_def make_write_view_def appendBuffer_eq wv_ok_def write_view_simps)

lemma reward_account_forms_witness:
  "rewardAccountToBuffer sample_firmware
     (KeyReferencePath \<lparr>path = [0x8000073C, 0x80000717, 0x80000000, 2, 0], path_length = 5\<rparr>) 1 =
   res_bind (bip44_pathToKeyHash sample_firmware
     \<lparr>path = [0x8000073C, 0x80000717, 0x80000000, 2, 0], path_length = 5\<rparr> 28) (\<lambda>h.
      constructRewardAddressFromHash 1 REWARD_HASH_SOURCE_KEY h REWARD_ACCOUNT_SIZE)"
  by (rule reward_account_forms [OF sample_firmware_ok]) (simp_all add: hard_def isValidNetworkId_def)

text \<open>
  C35. The string shown for a Shelley address of at most 65 bytes fits the buffers of the app,
  and decoding it gives the prefix of its kind and network and exactly the address.
\<close>

theorem shown_address_identifies:
  assumes "address \<noteq> []" "length address \<le> MAX_BYTES" "getAddressType (hd address) \<noteq> BYRON"
    and "122 \<le> n" "n < BUFFER_SIZE_PARANOIA"
  shows "\<exists>s. humanReadableAddress base58 address n = Inr (word_of_nat (length s), s) \<and>
    bech32_decode s = Some (
      (if getAddressType (hd address) \<in> {REWARD_KEY, REWARD_SCRIPT} then ''stake'' else ''addr'') @
      (if getNetworkId (hd address) = TESTNET_NETWORK_ID then ''_test'' else []), address)"
proof -
  let ?a = "getAddressType (hd address)" and ?i = "getNetworkId (hd address)"
  let ?hrp = "(if ?a \<in> {REWARD_KEY, REWARD_SCRIPT} then ''stake'' else ''addr'') @
    (if ?i = TESTNET_NETWORK_ID then ''_test'' else [])"
  have i: "isValidNetworkId ?i"
    by (simp add: isValidNetworkId_def getNetworkId_def word_and_le1)
  have c: "list_all hrp_char ''stake''" "list_all hrp_char ''addr''" "list_all hrp_char ''_test''"
    by (simp_all add: hrp_char_def)
  have "(8 * length address + 4) div 5 \<le> 104"
    using assms(2) by linarith
  then have "encodable ?hrp address n" "CHR 0x00 \<notin> set ?hrp"
    using c assms(2,4,5) by (auto simp: encodable_def)
  then obtain s where s: "bech32_encode ?hrp address n = Inr s" "bech32_decode s = Some (?hrp, address)"
    using encode_succeeds by blast
  have "humanReadableAddress base58 address n = res_bind (bech32_encode ?hrp address n)
      (\<lambda>s. Inr (word_of_nat (length s), s))"
    using assms i by (auto simp: humanReadableAddress_def Let_def)
  then show ?thesis
    using s by auto
qed

lemma shown_address_identifies_witness:
  "\<exists>s. humanReadableAddress (\<lambda>_ _. (0, [])) (0x61 # replicate 28 5) 150 = Inr (word_of_nat (length s), s) \<and>
    bech32_decode s = Some (''addr'', 0x61 # replicate 28 5)"
  using shown_address_identifies [of "0x61 # replicate 28 5" 150 "\<lambda>_ _. (0, [])"]
  by (auto simp: getAddressType_def getNetworkId_def)

end
