(* ===== verification/SignTxUtils.thy ===== *)
theory SignTxUtils
  imports TxHashBuilder ShelleyAddresses
begin

text \<open>
  \<open>src/signTx/signTxUtils.c\<close>: the single-account check of a transaction and the parser of
  destinations. The account data of the transaction is passed and returned explicitly. Over a
  whole transaction the check keeps all keys in one account.
\<close>

subsection \<open>The single-account check\<close>

record single_account_data_t =
  isStored :: bool
  isByron :: bool
  accountNumber :: u32

type_synonym 'a acct = "single_account_data_t \<Rightarrow> ('a \<times> single_account_data_t) res"

definition violatesSingleAccountOrStoreIt :: "bip44_path_t \<Rightarrow> bool acct" where
  "violatesSingleAccountOrStoreIt p st =
     res_bind (bip44_hasOrdinaryWalletKeyPrefix p) (\<lambda>prefix.
     if \<not> prefix \<or> \<not> bip44_containsAccount p then Inl ERR_ASSERT
     else res_bind (bip44_hasByronPrefix p) (\<lambda>byron.
       res_bind (bip44_getAccount p) (\<lambda>account.
       if isStored st
       then if account \<noteq> accountNumber st then Inr (True, st)
         else res_bind (harden 0) (\<lambda>first.
           if isByron st \<noteq> byron \<and> accountNumber st \<noteq> first then Inr (True, st) else Inr (False, st))
       else Inr (False, \<lparr>isStored = True, isByron = byron, accountNumber = account\<rparr>))))"

subsection \<open>Destinations\<close>

abbreviation (input) DESTINATION_TYPE_THIRD_PARTY :: u8 where "DESTINATION_TYPE_THIRD_PARTY \<equiv> 1"
abbreviation (input) DESTINATION_TYPE_DEVICE_OWNED :: u8 where "DESTINATION_TYPE_DEVICE_OWNED \<equiv> 2"
abbreviation (input) MAX_ADDRESS_SIZE :: nat where "MAX_ADDRESS_SIZE \<equiv> 128"

definition view_parseDestination ::
  "addressParams_t \<Rightarrow> addressParams_t tx_output_destination_t parser" where
  "view_parseDestination params view =
     res_bind (parse_u1be view) (\<lambda>(t, view).
     if t = DESTINATION_TYPE_THIRD_PARTY
     then res_bind (parse_u4be view) (\<lambda>(n, view).
       res_bind (VALIDATE (unat n \<le> MAX_ADDRESS_SIZE) ERR_INVALID_DATA) (\<lambda>_.
       res_bind (view_parseBuffer (unat n) view) (\<lambda>(address, view).
         Inr (DESTINATION_THIRD_PARTY address, view))))
     else if t = DESTINATION_TYPE_DEVICE_OWNED
     then res_bind (view_parseAddressParams params view) (\<lambda>(params, view).
       Inr (DESTINATION_DEVICE_OWNED params, view))
     else Inl ERR_INVALID_DATA)"

subsection \<open>One account over a transaction\<close>

text \<open>The checks of a transaction in their order; the first violation ends it.\<close>

fun check_accounts :: "bip44_path_t list \<Rightarrow> bool acct" where
  "check_accounts [] st = Inr (True, st)"
| "check_accounts (p # ps) st =
     res_bind (violatesSingleAccountOrStoreIt p st) (\<lambda>(violated, st).
       if violated then Inr (False, st) else check_accounts ps st)"

definition account_of :: "bip44_path_t \<Rightarrow> u32" where
  "account_of p = elements p ! 2"

definition byron :: "bip44_path_t \<Rightarrow> bool" where
  "byron p \<longleftrightarrow> elements p ! 0 = 0x8000002C"

definition compatible :: "bool \<Rightarrow> u32 \<Rightarrow> bip44_path_t \<Rightarrow> bool" where
  "compatible b account p \<longleftrightarrow> account_of p = account \<and> (byron p = b \<or> account = 0x80000000)"

lemma check_path:
  assumes "path_ok p" "violatesSingleAccountOrStoreIt p st = Inr (v, st')"
  shows "(if isStored st then st' = st \<and> v = (\<not> compatible (isByron st) (accountNumber st) p)
      else \<not> v \<and> st' = \<lparr>isStored = True, isByron = byron p, accountNumber = account_of p\<rparr>)"
proof -
  obtain a b c d e n where p: "p = full a b c d e n" "n \<le> 5"
    by (rule path_okE [OF assms(1)])
  have n: "2 < unat n"
    using assms(2) p(1) by (auto simp: violatesSingleAccountOrStoreIt_def bip44_containsAccount_def
        res_bind_Inr_iff split: if_splits)
  then have "n = 3 \<or> n = 4 \<or> n = 5"
    using small_length [OF p(2)] by auto
  then have el: "elements p ! 0 = a" "elements p ! 2 = c"
    using p(1) by (auto simp: elements_def)
  have "harden 0 = Inr 0x80000000"
    by (simp add: harden_constants)
  then show ?thesis
    using assms(2) p(1) n el
    by (auto simp: violatesSingleAccountOrStoreIt_def bip44_containsAccount_def account_of_def byron_def
        compatible_def split: if_splits)
qed

lemma checked_accounts:
  assumes "\<forall>p \<in> set ps. path_ok p" "check_accounts ps st = Inr (True, st')" "isStored st"
  shows "\<forall>p \<in> set ps. compatible (isByron st) (accountNumber st) p"
  using assms
proof (induction ps)
  case (Cons p ps)
  then obtain v s where v: "violatesSingleAccountOrStoreIt p st = Inr (v, s)"
    by (auto simp: res_bind_Inr_iff)
  then have "s = st" "v = (\<not> compatible (isByron st) (accountNumber st) p)"
    using check_path [OF _ v] Cons.prems by auto
  then show ?case
    using Cons v by (auto split: if_splits)
qed simp

lemma one_account:
  assumes "\<forall>p \<in> set ps. path_ok p" "check_accounts ps st = Inr (True, st')" "\<not> isStored st"
    and "p \<in> set ps" "q \<in> set ps"
  shows "account_of p = account_of q \<and> (byron p = byron q \<or> account_of p = 0x80000000)"
proof (cases ps)
  case (Cons r rs)
  then obtain v s where v: "violatesSingleAccountOrStoreIt r st = Inr (v, s)"
    using assms(2) by (auto simp: res_bind_Inr_iff)
  then have s: "\<not> v" "s = \<lparr>isStored = True, isByron = byron r, accountNumber = account_of r\<rparr>"
    using check_path [OF _ v] assms(1,3) Cons by auto
  then have "\<forall>p \<in> set rs. compatible (byron r) (account_of r) p"
    using checked_accounts [of rs s st'] v assms(1,2) Cons by auto
  then show ?thesis
    using assms(4,5) Cons by (auto simp: compatible_def)
qed (use assms(4) in simp)

subsection \<open>What the parser of destinations yields\<close>

definition destination_ok :: "addressParams_t tx_output_destination_t \<Rightarrow> bool" where
  "destination_ok d \<longleftrightarrow> (case d of
       DESTINATION_THIRD_PARTY address \<Rightarrow> length address \<le> MAX_ADDRESS_SIZE
     | DESTINATION_DEVICE_OWNED params \<Rightarrow> params_ok params)"

lemma yields_destination:
  assumes "rv_ok view" "storage_ok params"
  shows "yields (\<lambda>d view'. destination_ok d \<and> moves_on view view') (view_parseDestination params view)"
  unfolding view_parseDestination_def
proof (rule yields_bind [OF yields_uints(1) [OF assms(1)]], unfold case_prod_conv)
  fix t v1 assume v1: "moves_on view v1"
  let ?P = "\<lambda>d view'. destination_ok d \<and> moves_on view view'"
  note r1 = moves_on_ok [OF v1]
  have a: "yields ?P (res_bind (parse_u4be v1) (\<lambda>(n, view).
       res_bind (VALIDATE (unat n \<le> MAX_ADDRESS_SIZE) ERR_INVALID_DATA) (\<lambda>_.
       res_bind (view_parseBuffer (unat n) view) (\<lambda>(address, view).
         Inr (DESTINATION_THIRD_PARTY address, view)))))"
  proof (rule yields_bind [OF yields_uints(3) [OF r1]], unfold case_prod_conv, rule yields_validate)
    fix n v2 assume v2: "moves_on v1 v2" and n: "unat (n :: u32) \<le> MAX_ADDRESS_SIZE"
    show "yields ?P (res_bind (view_parseBuffer (unat n) v2) (\<lambda>(address, view).
        Inr (DESTINATION_THIRD_PARTY address, view)))"
      by (rule yields_bind [OF yields_buffer [OF moves_on_ok [OF v2]]])
        (use n v1 v2 in \<open>auto simp: destination_ok_def intro!: yields_Inr intro: moves_on_trans\<close>)
  qed
  have b: "yields ?P (res_bind (view_parseAddressParams params v1) (\<lambda>(params, view).
      Inr (DESTINATION_DEVICE_OWNED params, view)))"
    by (rule yields_bind [OF parsed_params_ok [OF r1 assms(2)]])
      (use v1 in \<open>auto simp: destination_ok_def intro!: yields_Inr intro: moves_on_trans\<close>)
  have "yields ?P (Inl ERR_INVALID_DATA)"
    by (simp add: yields_def)
  then show "yields ?P (if t = DESTINATION_TYPE_THIRD_PARTY
     then res_bind (parse_u4be v1) (\<lambda>(n, view).
       res_bind (VALIDATE (unat n \<le> MAX_ADDRESS_SIZE) ERR_INVALID_DATA) (\<lambda>_.
       res_bind (view_parseBuffer (unat n) view) (\<lambda>(address, view).
         Inr (DESTINATION_THIRD_PARTY address, view))))
     else if t = DESTINATION_TYPE_DEVICE_OWNED
     then res_bind (view_parseAddressParams params v1) (\<lambda>(params, view).
       Inr (DESTINATION_DEVICE_OWNED params, view))
     else Inl ERR_INVALID_DATA)"
    using a b by simp
qed

subsection \<open>Properties\<close>

text \<open>
  C17. When every check of a transaction passes, all the keys checked are in one account, and
  Byron and Shelley keys are mixed only in the first account.
\<close>

theorem single_account_invariant:
  assumes "\<forall>p \<in> set ps. path_ok p" "check_accounts ps st = Inr (True, st')" "\<not> isStored st"
    and "p \<in> set ps" "q \<in> set ps"
  shows "account_of p = account_of q \<and> (byron p = byron q \<or> account_of p = 0x80000000)"
  by (rule one_account [OF assms])

lemma single_account_invariant_witness:
  "account_of \<lparr>path = [0x8000002C, 0x80000717, 0x80000000, 0, 0], path_length = 5\<rparr> =
   account_of \<lparr>path = [0x8000073C, 0x80000717, 0x80000000, 2, 0], path_length = 5\<rparr>"
proof -
  let ?p = "\<lparr>path = [0x8000002C, 0x80000717, 0x80000000, 0, 0], path_length = 5\<rparr>"
  let ?q = "\<lparr>path = [0x8000073C, 0x80000717, 0x80000000, 2, 0], path_length = 5\<rparr>"
  let ?st = "\<lparr>isStored = False, isByron = False, accountNumber = 0\<rparr>"
  have "\<exists>st'. check_accounts [?p, ?q] ?st = Inr (True, st')"
    by (simp add: violatesSingleAccountOrStoreIt_def bip44_containsAccount_def harden_constants)
  then show ?thesis
    using single_account_invariant [of "[?p, ?q]" ?st _ ?p ?q] by (auto simp: path_ok_def)
qed

text \<open>
  Whatever bytes arrive, parsing a destination either refuses them as invalid or ends within
  the buffer with an address of at most 128 bytes or with well-formed address parameters.
\<close>

theorem parsed_destination_well_formed:
  assumes "rv_ok view" "storage_ok params"
  shows "case view_parseDestination params view of
      Inl e \<Rightarrow> e = ERR_INVALID_DATA \<or> e = ERR_NOT_ENOUGH_INPUT
    | Inr (d, view') \<Rightarrow> destination_ok d \<and> moves_on view view'"
  using yields_destination [OF assms] by (simp add: yields_def)

lemma parsed_destination_well_formed_witness:
  "case view_parseDestination blank_params (make_read_view [1, 0, 0, 0, 2, 7, 8]) of
     Inl e \<Rightarrow> e = ERR_INVALID_DATA \<or> e = ERR_NOT_ENOUGH_INPUT
   | Inr (d, view') \<Rightarrow> destination_ok d \<and> moves_on (make_read_view [1, 0, 0, 0, 2, 7, 8]) view'"
  by (rule parsed_destination_well_formed [OF _ blank_storage]) (simp add: rv_ok_def make_read_view_def)

end
