(* ===== verification/SecurityPolicy.thy ===== *)
theory SecurityPolicy
  imports SignTxUtils AuxDataHashBuilder
begin

text \<open>
  \<open>src/securityPolicy/securityPolicy.c\<close>: the policy of every request and of every element of a
  transaction. A policy function is a chain of rules, \<open>DENY_IF\<close>, \<open>WARN_UNLESS\<close> and so on, of
  which the first that applies decides (\<open>decide\<close>); the rules of a function that calls the
  single-account check also pass its state (\<open>decide_acct\<close>). \<open>expert\<close> is the value of
  \<open>app_mode_expert()\<close>. Enumerations are datatypes of their constants, so the \<open>default\<close> branches
  that assert have no values to run on, except where a branch has such values in the source.
\<close>

subsection \<open>Rules\<close>

definition not_res :: "bool res \<Rightarrow> bool res" where
  "not_res c = res_bind c (\<lambda>b. Inr (\<not> b))"

lemma not_res_simps [simp]: "not_res (Inr b) = Inr (\<not> b)" "not_res (Inl e) = Inl e"
  by (simp_all add: not_res_def)

abbreviation DENY_IF where "DENY_IF c \<equiv> (c, POLICY_DENY)"
abbreviation DENY_UNLESS where "DENY_UNLESS c \<equiv> (not_res c, POLICY_DENY)"
abbreviation WARN_IF where "WARN_IF c \<equiv> (c, POLICY_PROMPT_WARN_UNUSUAL)"
abbreviation WARN_UNLESS where "WARN_UNLESS c \<equiv> (not_res c, POLICY_PROMPT_WARN_UNUSUAL)"
abbreviation PROMPT_IF where "PROMPT_IF c \<equiv> (c, POLICY_PROMPT_BEFORE_RESPONSE)"
abbreviation PROMPT_UNLESS where "PROMPT_UNLESS c \<equiv> (not_res c, POLICY_PROMPT_BEFORE_RESPONSE)"
abbreviation SHOW_IF where "SHOW_IF c \<equiv> (c, POLICY_SHOW_BEFORE_RESPONSE)"
abbreviation SHOW_UNLESS where "SHOW_UNLESS c \<equiv> (not_res c, POLICY_SHOW_BEFORE_RESPONSE)"
abbreviation (input) DENY where "DENY \<equiv> POLICY_DENY"
abbreviation (input) WARN where "WARN \<equiv> POLICY_PROMPT_WARN_UNUSUAL"
abbreviation (input) PROMPT where "PROMPT \<equiv> POLICY_PROMPT_BEFORE_RESPONSE"
abbreviation (input) ALLOW where "ALLOW \<equiv> POLICY_ALLOW_WITHOUT_PROMPT"
abbreviation (input) SHOW where "SHOW \<equiv> POLICY_SHOW_BEFORE_RESPONSE"

fun decide :: "(bool res \<times> security_policy_t) list \<Rightarrow> security_policy_t \<Rightarrow> security_policy_t res" where
  "decide [] final = Inr final"
| "decide ((c, p) # rules) final = res_bind c (\<lambda>b. if b then Inr p else decide rules final)"

definition with_acct :: "'a res \<Rightarrow> 'a acct" where
  "with_acct m st = res_bind m (\<lambda>x. Inr (x, st))"

fun decide_acct ::
  "(bool acct \<times> security_policy_t) list \<Rightarrow> security_policy_t res \<Rightarrow> security_policy_t acct" where
  "decide_acct [] final st = with_acct final st"
| "decide_acct ((c, p) # rules) final st =
     res_bind (c st) (\<lambda>(b, st). if b then Inr (p, st) else decide_acct rules final st)"

abbreviation pure_rule :: "bool res \<times> security_policy_t \<Rightarrow> bool acct \<times> security_policy_t" where
  "pure_rule r \<equiv> (with_acct (fst r), snd r)"

datatype sign_tx_signingmode_t =
    SIGN_TX_SIGNINGMODE_ORDINARY_TX
  | SIGN_TX_SIGNINGMODE_POOL_REGISTRATION_OWNER
  | SIGN_TX_SIGNINGMODE_POOL_REGISTRATION_OPERATOR
  | SIGN_TX_SIGNINGMODE_MULTISIG_TX
  | SIGN_TX_SIGNINGMODE_PLUTUS_TX

subsection \<open>Keys\<close>

definition policyForGetPublicKeysInit :: "u32 \<Rightarrow> security_policy_t res" where
  "policyForGetPublicKeysInit numPaths = decide [PROMPT_IF (Inr (numPaths > 1))] ALLOW"

definition policyForGetExtendedPublicKey :: "bool \<Rightarrow> bip44_path_t \<Rightarrow> security_policy_t res" where
  "policyForGetExtendedPublicKey expert p =
     res_bind (bip44_classifyPath p) (\<lambda>t.
     if t = PATH_ORDINARY_ACCOUNT
     then decide [WARN_UNLESS (bip44_isPathReasonable p), PROMPT_UNLESS (bip44_hasShelleyPrefix p),
       PROMPT_IF (Inr expert)] ALLOW
     else if t \<in> {PATH_MULTISIG_ACCOUNT, PATH_MINT_KEY, PATH_POOL_COLD_KEY}
     then decide [WARN_UNLESS (bip44_isPathReasonable p)] PROMPT
     else if t = PATH_CVOTE_ACCOUNT
     then decide [WARN_UNLESS (bip44_isPathReasonable p), PROMPT_IF (Inr expert)] ALLOW
     else if t \<in> {PATH_ORDINARY_PAYMENT_KEY, PATH_ORDINARY_STAKING_KEY, PATH_MULTISIG_PAYMENT_KEY,
       PATH_MULTISIG_STAKING_KEY, PATH_DREP_KEY, PATH_COMMITTEE_COLD_KEY, PATH_COMMITTEE_HOT_KEY,
       PATH_CVOTE_KEY}
     then decide [WARN_UNLESS (bip44_isPathReasonable p)] PROMPT
     else Inr DENY)"

definition policyForGetExtendedPublicKeyBulkExport :: "bip44_path_t \<Rightarrow> security_policy_t res" where
  "policyForGetExtendedPublicKeyBulkExport p =
     res_bind (bip44_classifyPath p) (\<lambda>t.
     if t \<in> {PATH_ORDINARY_ACCOUNT, PATH_ORDINARY_PAYMENT_KEY, PATH_ORDINARY_STAKING_KEY,
       PATH_MULTISIG_ACCOUNT, PATH_MULTISIG_PAYMENT_KEY, PATH_MULTISIG_STAKING_KEY, PATH_DREP_KEY,
       PATH_COMMITTEE_COLD_KEY, PATH_COMMITTEE_HOT_KEY, PATH_MINT_KEY, PATH_CVOTE_ACCOUNT,
       PATH_CVOTE_KEY}
     then decide [WARN_UNLESS (bip44_isPathReasonable p)] ALLOW
     else if t = PATH_POOL_COLD_KEY
     then decide [WARN_UNLESS (bip44_isPathReasonable p)] PROMPT
     else Inr DENY)"

subsection \<open>Addresses\<close>

definition is_standard_base_address :: "addressParams_t \<Rightarrow> bool res" where
  "is_standard_base_address params =
     res_bind (res_bind (isValidAddressParams params) ASSERT) (\<lambda>_. checks
       [Inr (address_type params = BASE_PAYMENT_KEY_STAKE_KEY),
        Inr (stakingDataSource params = STAKING_KEY_PATH),
        res_bind (paymentKeyPath params) (\<lambda>p. test (bip44_classifyPath p) (\<lambda>t. t = PATH_ORDINARY_PAYMENT_KEY)),
        res_bind (paymentKeyPath params) bip44_isPathReasonable,
        res_bind (stakingKeyPath params) (\<lambda>p. test (bip44_classifyPath p) (\<lambda>t. t = PATH_ORDINARY_STAKING_KEY)),
        res_bind (stakingKeyPath params) bip44_isPathReasonable,
        res_bind (stakingKeyPath params) (\<lambda>p. not_res (bip44_isMultidelegationStakingKeyPath p)),
        equal_res (res_bind (stakingKeyPath params) bip44_getAccount)
          (res_bind (paymentKeyPath params) bip44_getAccount)])"

definition policyForDeriveAddress :: "addressParams_t \<Rightarrow> security_policy_t \<Rightarrow> security_policy_t res" where
  "policyForDeriveAddress params successPolicy =
     res_bind (isValidAddressParams params) (\<lambda>valid.
     if \<not> valid then Inr DENY
     else let t = address_type params in
     if t = BASE_PAYMENT_KEY_STAKE_KEY
     then decide [WARN_UNLESS (res_bind (paymentKeyPath params) bip44_isPathReasonable),
       WARN_IF (and_then (Inr (stakingDataSource params = STAKING_KEY_PATH))
         (res_bind (stakingKeyPath params) (\<lambda>p. not_res (bip44_isPathReasonable p))))] successPolicy
     else if t \<in> {BASE_PAYMENT_KEY_STAKE_SCRIPT, POINTER_KEY, ENTERPRISE_KEY, BYRON}
     then decide [WARN_UNLESS (res_bind (paymentKeyPath params) bip44_isPathReasonable)] successPolicy
     else if t \<in> {BASE_PAYMENT_SCRIPT_STAKE_KEY, REWARD_KEY}
     then decide [DENY_IF (Inr (stakingDataSource params \<noteq> STAKING_KEY_PATH)),
       WARN_UNLESS (res_bind (stakingKeyPath params) bip44_isPathReasonable)] successPolicy
     else if t \<in> {BASE_PAYMENT_SCRIPT_STAKE_SCRIPT, POINTER_SCRIPT, ENTERPRISE_SCRIPT, REWARD_SCRIPT}
     then Inr successPolicy
     else Inr DENY)"

definition policyForReturnDeriveAddress :: "bool \<Rightarrow> addressParams_t \<Rightarrow> security_policy_t res" where
  "policyForReturnDeriveAddress expert params =
     policyForDeriveAddress params (if expert then PROMPT else ALLOW)"

definition policyForShowDeriveAddress :: "addressParams_t \<Rightarrow> security_policy_t res" where
  "policyForShowDeriveAddress params = policyForDeriveAddress params SHOW"

subsection \<open>Beginning a transaction\<close>

abbreviation (input) TESTNET_PROTOCOL_MAGIC_LEGACY :: u32 where
  "TESTNET_PROTOCOL_MAGIC_LEGACY \<equiv> 1097911063"
abbreviation (input) TESTNET_PROTOCOL_MAGIC_PREPROD :: u32 where "TESTNET_PROTOCOL_MAGIC_PREPROD \<equiv> 1"
abbreviation (input) TESTNET_PROTOCOL_MAGIC_PREVIEW :: u32 where "TESTNET_PROTOCOL_MAGIC_PREVIEW \<equiv> 2"

definition isNetworkUsual :: "u32 \<Rightarrow> u32 \<Rightarrow> bool" where
  "isNetworkUsual netId magic =
     (if netId = 1 \<and> magic = MAINNET_PROTOCOL_MAGIC then True
      else if netId = 0 \<and> (magic = TESTNET_PROTOCOL_MAGIC_LEGACY \<or>
        magic = TESTNET_PROTOCOL_MAGIC_PREPROD \<or> magic = TESTNET_PROTOCOL_MAGIC_PREVIEW) then True
      else False)"

definition isTxNetworkIdVerifiable :: "bool \<Rightarrow> u32 \<Rightarrow> u32 \<Rightarrow> sign_tx_signingmode_t \<Rightarrow> bool" where
  "isTxNetworkIdVerifiable includesNetworkId numOutputs numWithdrawals mode =
     (if includesNetworkId then True
      else if numOutputs > 0 then True
      else if numWithdrawals > 0 then True
      else mode \<in> {SIGN_TX_SIGNINGMODE_POOL_REGISTRATION_OPERATOR, SIGN_TX_SIGNINGMODE_POOL_REGISTRATION_OWNER})"

definition needsRunningScriptWarning :: "int \<Rightarrow> bool" where
  "needsRunningScriptWarning numCollateralInputs \<longleftrightarrow> numCollateralInputs > 0"

definition needsMissingCollateralWarning :: "sign_tx_signingmode_t \<Rightarrow> u32 \<Rightarrow> bool" where
  "needsMissingCollateralWarning mode numCollateralInputs \<longleftrightarrow>
     mode = SIGN_TX_SIGNINGMODE_PLUTUS_TX \<and> numCollateralInputs = 0"

definition needsUnknownCollateralWarning :: "sign_tx_signingmode_t \<Rightarrow> bool \<Rightarrow> bool" where
  "needsUnknownCollateralWarning mode includesTotalCollateral \<longleftrightarrow>
     mode = SIGN_TX_SIGNINGMODE_PLUTUS_TX \<and> \<not> includesTotalCollateral"

definition needsMissingScriptDataHashWarning :: "sign_tx_signingmode_t \<Rightarrow> bool \<Rightarrow> bool" where
  "needsMissingScriptDataHashWarning mode includesScriptDataHash \<longleftrightarrow>
     mode = SIGN_TX_SIGNINGMODE_PLUTUS_TX \<and> \<not> includesScriptDataHash"

text \<open>The parameters of \<open>policyForSignTxInit\<close>, in their order.\<close>

record sign_tx_init_t =
  initMode :: sign_tx_signingmode_t
  initNetworkId :: u32
  initProtocolMagic :: u32
  initNumOutputs :: u16
  initNumCertificates :: u16
  initNumWithdrawals :: u16
  initMint :: bool
  initScriptDataHash :: bool
  initNumCollateralInputs :: u16
  initNumRequiredSigners :: u16
  initWithNetworkId :: bool
  initCollateralOutput :: bool
  initTotalCollateral :: bool
  initNumReferenceInputs :: u16
  initNumVotingProcedures :: u16
  initTreasury :: bool
  initDonation :: bool

definition init_mode_rules :: "sign_tx_init_t \<Rightarrow> (bool res \<times> security_policy_t) list" where
  "init_mode_rules i = (case initMode i of
       SIGN_TX_SIGNINGMODE_POOL_REGISTRATION_OPERATOR \<Rightarrow>
         [DENY_UNLESS (Inr (initNumCertificates i = 1)), DENY_UNLESS (Inr (initNumWithdrawals i = 0)),
          DENY_IF (Inr (initMint i)), DENY_IF (Inr (initScriptDataHash i)),
          DENY_IF (Inr (initNumCollateralInputs i > 0)), DENY_IF (Inr (initNumRequiredSigners i > 0)),
          DENY_IF (Inr (initCollateralOutput i)), DENY_IF (Inr (initTotalCollateral i)),
          DENY_IF (Inr (initNumReferenceInputs i > 0)), DENY_IF (Inr (initNumVotingProcedures i > 0)),
          DENY_IF (Inr (initTreasury i)), DENY_IF (Inr (initDonation i))]
     | SIGN_TX_SIGNINGMODE_POOL_REGISTRATION_OWNER \<Rightarrow>
         [DENY_UNLESS (Inr (initNumCertificates i = 1)), DENY_UNLESS (Inr (initNumWithdrawals i = 0)),
          DENY_IF (Inr (initMint i)), DENY_IF (Inr (initScriptDataHash i)),
          DENY_IF (Inr (initNumCollateralInputs i > 0)), DENY_IF (Inr (initNumRequiredSigners i > 0)),
          DENY_IF (Inr (initCollateralOutput i)), DENY_IF (Inr (initTotalCollateral i)),
          DENY_IF (Inr (initNumReferenceInputs i > 0)), DENY_IF (Inr (initNumVotingProcedures i > 0)),
          DENY_IF (Inr (initTreasury i)), DENY_IF (Inr (initDonation i))]
     | SIGN_TX_SIGNINGMODE_ORDINARY_TX \<Rightarrow>
         [DENY_IF (Inr (initNumCollateralInputs i > 0)), DENY_IF (Inr (initCollateralOutput i)),
          DENY_IF (Inr (initTotalCollateral i)), DENY_IF (Inr (initNumReferenceInputs i > 0))]
     | SIGN_TX_SIGNINGMODE_MULTISIG_TX \<Rightarrow>
         [DENY_IF (Inr (initNumCollateralInputs i > 0)), DENY_IF (Inr (initCollateralOutput i)),
          DENY_IF (Inr (initTotalCollateral i)), DENY_IF (Inr (initNumReferenceInputs i > 0))]
     | SIGN_TX_SIGNINGMODE_PLUTUS_TX \<Rightarrow>
         [WARN_IF (Inr (initNumCollateralInputs i = 0)), WARN_UNLESS (Inr (initScriptDataHash i)),
          WARN_IF (Inr True)])"

text \<open>
  The network id is checked as a \<open>uint8_t\<close>, and the number of collateral inputs is what the
  code passes to \<open>needsUnknownCollateralWarning\<close>.
\<close>

definition policyForSignTxInit :: "sign_tx_init_t \<Rightarrow> security_policy_t res" where
  "policyForSignTxInit i = decide
     ([DENY_UNLESS (Inr (isValidNetworkId (ucast (initNetworkId i)))),
       DENY_IF (Inr (initNetworkId i = 1 \<and> initProtocolMagic i \<noteq> MAINNET_PROTOCOL_MAGIC))] @
      init_mode_rules i @
      [WARN_UNLESS (Inr (isTxNetworkIdVerifiable (initWithNetworkId i) (ucast (initNumOutputs i))
         (ucast (initNumWithdrawals i)) (initMode i))),
       WARN_UNLESS (Inr (isNetworkUsual (initNetworkId i) (initProtocolMagic i))),
       WARN_IF (Inr (needsRunningScriptWarning (uint (initNumCollateralInputs i)))),
       WARN_IF (Inr (needsMissingCollateralWarning (initMode i) (ucast (initNumCollateralInputs i)))),
       WARN_IF (Inr (needsUnknownCollateralWarning (initMode i) (initNumCollateralInputs i \<noteq> 0))),
       WARN_IF (Inr (needsMissingScriptDataHashWarning (initMode i) (initScriptDataHash i)))]) PROMPT"

definition policyForSignTxInput :: "bool \<Rightarrow> sign_tx_signingmode_t \<Rightarrow> security_policy_t res" where
  "policyForSignTxInput expert mode =
     (if mode = SIGN_TX_SIGNINGMODE_PLUTUS_TX then decide [SHOW_IF (Inr expert)] ALLOW
      else Inr ALLOW)"

subsection \<open>Outputs\<close>

type_synonym output_t = "addressParams_t tx_output_description_t"

definition getDestinationAddressType :: "addressParams_t tx_output_destination_t \<Rightarrow> u8 res" where
  "getDestinationAddressType destination = (case destination of
       DESTINATION_DEVICE_OWNED params \<Rightarrow> Inr (address_type params)
     | DESTINATION_THIRD_PARTY address \<Rightarrow>
         if address = [] then Inl OUT_OF_BOUNDS else Inr (getAddressType (hd address)))"

definition is_addressBytes_suitable_for_tx_output ::
  "firmware \<Rightarrow> bytes \<Rightarrow> u8 \<Rightarrow> u32 \<Rightarrow> bool res" where
  "is_addressBytes_suitable_for_tx_output fw address netId magic =
     (if \<not> length address < BUFFER_SIZE_PARANOIA then Inl ERR_ASSERT
      else if \<not> length address \<ge> 1 then Inl ERR_ASSERT
      else let addressType = getAddressType (hd address) in
       if addressType \<in> {REWARD_KEY, REWARD_SCRIPT} then Inr False
       else checks
         [(if addressType = BYRON
           then res_bind (extractProtocolMagic fw address) (\<lambda>m. Inr (m = magic))
           else Inr (getNetworkId (hd address) = netId)),
          Inr (if addressType \<in> {BASE_PAYMENT_KEY_STAKE_KEY, BASE_PAYMENT_KEY_STAKE_SCRIPT,
              BASE_PAYMENT_SCRIPT_STAKE_KEY, BASE_PAYMENT_SCRIPT_STAKE_SCRIPT}
            then length address = 1 + ADDRESS_KEY_HASH_LENGTH + ADDRESS_KEY_HASH_LENGTH
            else if addressType \<in> {ENTERPRISE_KEY, ENTERPRISE_SCRIPT}
            then length address = 1 + ADDRESS_KEY_HASH_LENGTH
            else True)])"

definition contains_forbidden_plutus_elements :: "output_t \<Rightarrow> sign_tx_signingmode_t \<Rightarrow> bool" where
  "contains_forbidden_plutus_elements out mode =
     (if outIncludeDatum out \<or> outIncludeRefScript out
      then mode \<notin> {SIGN_TX_SIGNINGMODE_ORDINARY_TX, SIGN_TX_SIGNINGMODE_MULTISIG_TX,
        SIGN_TX_SIGNINGMODE_PLUTUS_TX}
      else False)"

definition needsMissingDatumWarning :: "addressParams_t tx_output_destination_t \<Rightarrow> bool \<Rightarrow> bool res" where
  "needsMissingDatumWarning destination withDatum =
     res_bind (getDestinationAddressType destination) (\<lambda>t.
     res_bind (determinePaymentChoice t) (\<lambda>choice.
       Inr (choice = PAYMENT_SCRIPT_HASH \<and> \<not> withDatum)))"

definition policyForSignTxOutputAddressBytes ::
  "firmware \<Rightarrow> output_t \<Rightarrow> sign_tx_signingmode_t \<Rightarrow> u8 \<Rightarrow> u32 \<Rightarrow> security_policy_t res" where
  "policyForSignTxOutputAddressBytes fw out mode netId magic = (case outDestination out of
       DESTINATION_DEVICE_OWNED _ \<Rightarrow> Inl ERR_ASSERT
     | DESTINATION_THIRD_PARTY address \<Rightarrow>
         decide ([DENY_UNLESS (is_addressBytes_suitable_for_tx_output fw address netId magic),
           DENY_IF (Inr (contains_forbidden_plutus_elements out mode))] @
          (if mode = SIGN_TX_SIGNINGMODE_POOL_REGISTRATION_OWNER then []
           else [WARN_IF (needsMissingDatumWarning (outDestination out) (outIncludeDatum out))]))
         (if mode = SIGN_TX_SIGNINGMODE_POOL_REGISTRATION_OWNER then ALLOW else SHOW))"

text \<open>The last check stores the account of the payment key, or compares it with the stored one.\<close>

definition is_addressParams_suitable_for_tx_output ::
  "addressParams_t \<Rightarrow> u8 \<Rightarrow> u32 \<Rightarrow> bool acct" where
  "is_addressParams_suitable_for_tx_output params netId magic st =
     res_bind (checks
       [isValidAddressParams params,
        (if address_type params \<in> {REWARD_KEY, REWARD_SCRIPT} then Inr False
         else if address_type params = BYRON
         then res_bind (protocolMagic params) (\<lambda>m. Inr (m = magic))
         else res_bind (networkId params) (\<lambda>i. Inr (i = netId))),
        res_bind (determinePaymentChoice (address_type params)) (\<lambda>c. Inr (c = PAYMENT_PATH))])
     (\<lambda>b. if \<not> b then Inr (False, st)
       else res_bind (paymentKeyPath params) (\<lambda>p.
         res_bind (violatesSingleAccountOrStoreIt p st) (\<lambda>(v, st). Inr (\<not> v, st))))"

definition not_acct :: "bool acct \<Rightarrow> bool acct" where
  "not_acct c st = res_bind (c st) (\<lambda>(b, st). Inr (\<not> b, st))"

definition policyForSignTxOutputAddressParams ::
  "bool \<Rightarrow> output_t \<Rightarrow> sign_tx_signingmode_t \<Rightarrow> u8 \<Rightarrow> u32 \<Rightarrow> security_policy_t acct" where
  "policyForSignTxOutputAddressParams expert out mode netId magic st = (case outDestination out of
       DESTINATION_THIRD_PARTY _ \<Rightarrow> Inl ERR_ASSERT
     | DESTINATION_DEVICE_OWNED params \<Rightarrow>
         decide_acct
          [(not_acct (is_addressParams_suitable_for_tx_output params netId magic), DENY),
           pure_rule (DENY_IF (Inr (contains_forbidden_plutus_elements out mode)))]
          (if mode \<in> {SIGN_TX_SIGNINGMODE_POOL_REGISTRATION_OPERATOR, SIGN_TX_SIGNINGMODE_ORDINARY_TX}
           then decide [SHOW_UNLESS (is_standard_base_address params),
             SHOW_IF (Inr ((outIncludeDatum out \<or> outIncludeRefScript out) \<and> expert))] ALLOW
           else if mode = SIGN_TX_SIGNINGMODE_PLUTUS_TX then decide [SHOW_IF (Inr expert)] ALLOW
           else Inr DENY) st)"

definition policyForSignTxOutputDatumHash :: "bool \<Rightarrow> security_policy_t \<Rightarrow> security_policy_t res" where
  "policyForSignTxOutputDatumHash expert outputPolicy =
     (if outputPolicy = ALLOW then Inr ALLOW
      else if outputPolicy \<in> {SHOW, WARN} then decide [SHOW_IF (Inr expert)] ALLOW
      else Inl ERR_ASSERT)"

definition policyForSignTxOutputRefScript :: "bool \<Rightarrow> security_policy_t \<Rightarrow> security_policy_t res" where
  "policyForSignTxOutputRefScript expert outputPolicy =
     (if outputPolicy = ALLOW then Inr ALLOW
      else if outputPolicy \<in> {SHOW, WARN} then decide [SHOW_IF (Inr expert)] ALLOW
      else Inl ERR_ASSERT)"

definition policyForSignTxOutputConfirm ::
  "bool \<Rightarrow> security_policy_t \<Rightarrow> u64 \<Rightarrow> bool \<Rightarrow> bool \<Rightarrow> security_policy_t res" where
  "policyForSignTxOutputConfirm expert outputPolicy numAssetGroups containsDatum containsRefScript =
     (if outputPolicy = ALLOW then Inr ALLOW
      else if outputPolicy = SHOW
      then decide [PROMPT_IF (Inr (numAssetGroups > 0)), PROMPT_IF (Inr (containsDatum \<and> expert)),
        PROMPT_IF (Inr (containsRefScript \<and> expert))] ALLOW
      else if outputPolicy = WARN then Inr PROMPT
      else Inl ERR_ASSERT)"

definition is_address_suitable_for_collateral_output :: "output_t \<Rightarrow> bool res" where
  "is_address_suitable_for_collateral_output out =
     res_bind (getDestinationAddressType (outDestination out)) (\<lambda>t.
       Inr (t \<in> {BASE_PAYMENT_KEY_STAKE_KEY, BASE_PAYMENT_KEY_STAKE_SCRIPT, POINTER_KEY, ENTERPRISE_KEY}))"

definition policyForSignTxCollateralOutputAddressBytes ::
  "firmware \<Rightarrow> output_t \<Rightarrow> sign_tx_signingmode_t \<Rightarrow> u8 \<Rightarrow> u32 \<Rightarrow> security_policy_t res" where
  "policyForSignTxCollateralOutputAddressBytes fw out mode netId magic = (case outDestination out of
       DESTINATION_DEVICE_OWNED _ \<Rightarrow> Inl ERR_ASSERT
     | DESTINATION_THIRD_PARTY address \<Rightarrow> decide
         [DENY_UNLESS (is_addressBytes_suitable_for_tx_output fw address netId magic),
          DENY_UNLESS (is_address_suitable_for_collateral_output out),
          DENY_IF (Inr (outIncludeDatum out)),
          DENY_IF (Inr (outIncludeRefScript out)),
          DENY_IF (Inr (mode \<noteq> SIGN_TX_SIGNINGMODE_PLUTUS_TX))] SHOW)"

definition policyForSignTxCollateralOutputAddressParams ::
  "output_t \<Rightarrow> sign_tx_signingmode_t \<Rightarrow> u8 \<Rightarrow> u32 \<Rightarrow> bool \<Rightarrow> security_policy_t acct" where
  "policyForSignTxCollateralOutputAddressParams out mode netId magic totalCollateral st =
     (case outDestination out of
       DESTINATION_THIRD_PARTY _ \<Rightarrow> Inl ERR_ASSERT
     | DESTINATION_DEVICE_OWNED params \<Rightarrow>
         decide_acct
          [(not_acct (is_addressParams_suitable_for_tx_output params netId magic), DENY),
           pure_rule (DENY_UNLESS (is_address_suitable_for_collateral_output out)),
           pure_rule (DENY_IF (Inr (outIncludeDatum out))),
           pure_rule (DENY_IF (Inr (outIncludeRefScript out)))]
          (if mode = SIGN_TX_SIGNINGMODE_PLUTUS_TX
           then if totalCollateral then decide [SHOW_UNLESS (is_standard_base_address params)] ALLOW
             else Inr SHOW
           else Inr DENY) st)"

definition policyForSignTxCollateralOutputAdaAmount ::
  "bool \<Rightarrow> security_policy_t \<Rightarrow> bool \<Rightarrow> security_policy_t res" where
  "policyForSignTxCollateralOutputAdaAmount expert outputPolicy totalCollateral =
     (if outputPolicy = ALLOW then Inr ALLOW
      else decide [SHOW_IF (Inr (\<not> totalCollateral \<and> expert))] ALLOW)"

definition policyForSignTxCollateralOutputTokens ::
  "bool \<Rightarrow> security_policy_t \<Rightarrow> output_t \<Rightarrow> security_policy_t res" where
  "policyForSignTxCollateralOutputTokens expert outputPolicy out =
     (if outputPolicy = ALLOW then Inr ALLOW
      else decide [SHOW_IF (Inr ((case outDestination out of DESTINATION_DEVICE_OWNED _ \<Rightarrow> False | _ \<Rightarrow> True) \<and>
        expert))] ALLOW)"

definition policyForSignTxCollateralOutputConfirm ::
  "security_policy_t \<Rightarrow> u64 \<Rightarrow> security_policy_t res" where
  "policyForSignTxCollateralOutputConfirm outputPolicy numAssetGroups =
     (if outputPolicy = ALLOW then Inr ALLOW
      else if outputPolicy = SHOW then decide [PROMPT_IF (Inr (numAssetGroups > 0))] ALLOW
      else if outputPolicy = WARN then Inr PROMPT
      else Inl ERR_ASSERT)"

definition policyForSignTxFee :: "sign_tx_signingmode_t \<Rightarrow> u64 \<Rightarrow> security_policy_t res" where
  "policyForSignTxFee mode fee =
     Inr (if mode = SIGN_TX_SIGNINGMODE_POOL_REGISTRATION_OWNER then ALLOW else SHOW)"

definition policyForSignTxTtl :: "bool \<Rightarrow> u32 \<Rightarrow> security_policy_t res" where
  "policyForSignTxTtl expert ttl = decide [SHOW_IF (Inr expert)] ALLOW"

subsection \<open>Certificates\<close>

datatype ext_credential_t =
    EXT_CREDENTIAL_KEY_PATH bip44_path_t
  | EXT_CREDENTIAL_KEY_HASH bytes
  | EXT_CREDENTIAL_SCRIPT_HASH bytes

datatype ext_drep_t =
    EXT_DREP_KEY_PATH bip44_path_t
  | EXT_DREP_KEY_HASH bytes
  | EXT_DREP_SCRIPT_HASH bytes
  | EXT_DREP_ABSTAIN
  | EXT_DREP_NO_CONFIDENCE

definition policyForSignTxCertificate ::
  "sign_tx_signingmode_t \<Rightarrow> certificate_type_t \<Rightarrow> security_policy_t res" where
  "policyForSignTxCertificate mode t = (case mode of
       SIGN_TX_SIGNINGMODE_PLUTUS_TX \<Rightarrow>
         decide [DENY_IF (Inr (t = CERTIFICATE_STAKE_POOL_REGISTRATION))] ALLOW
     | SIGN_TX_SIGNINGMODE_ORDINARY_TX \<Rightarrow>
         decide [DENY_IF (Inr (t = CERTIFICATE_STAKE_POOL_REGISTRATION))] ALLOW
     | SIGN_TX_SIGNINGMODE_MULTISIG_TX \<Rightarrow>
         decide [DENY_IF (Inr (t = CERTIFICATE_STAKE_POOL_REGISTRATION)),
           DENY_IF (Inr (t = CERTIFICATE_STAKE_POOL_RETIREMENT))] ALLOW
     | SIGN_TX_SIGNINGMODE_POOL_REGISTRATION_OPERATOR \<Rightarrow>
         decide [DENY_UNLESS (Inr (t = CERTIFICATE_STAKE_POOL_REGISTRATION))] ALLOW
     | SIGN_TX_SIGNINGMODE_POOL_REGISTRATION_OWNER \<Rightarrow>
         decide [DENY_UNLESS (Inr (t = CERTIFICATE_STAKE_POOL_REGISTRATION))] ALLOW)"

definition forbiddenCredential :: "sign_tx_signingmode_t \<Rightarrow> ext_credential_t \<Rightarrow> bool res" where
  "forbiddenCredential mode credential = (case mode of
       SIGN_TX_SIGNINGMODE_MULTISIG_TX \<Rightarrow> (case credential of
         EXT_CREDENTIAL_KEY_PATH _ \<Rightarrow> Inr True
       | EXT_CREDENTIAL_KEY_HASH _ \<Rightarrow> Inr True
       | EXT_CREDENTIAL_SCRIPT_HASH _ \<Rightarrow> Inr False)
     | SIGN_TX_SIGNINGMODE_PLUTUS_TX \<Rightarrow> Inr False
     | SIGN_TX_SIGNINGMODE_ORDINARY_TX \<Rightarrow> (case credential of
         EXT_CREDENTIAL_KEY_HASH _ \<Rightarrow> Inr True
       | EXT_CREDENTIAL_SCRIPT_HASH _ \<Rightarrow> Inr True
       | EXT_CREDENTIAL_KEY_PATH _ \<Rightarrow> Inr False)
     | _ \<Rightarrow> Inl ERR_ASSERT)"

text \<open>The rules the certificate policies share for a credential that is witnessed.\<close>

definition credential_rules ::
  "(bip44_path_t \<Rightarrow> bool res) \<Rightarrow> ext_credential_t \<Rightarrow> (bool acct \<times> security_policy_t) list" where
  "credential_rules is_path credential = (case credential of
       EXT_CREDENTIAL_KEY_PATH p \<Rightarrow>
         [pure_rule (DENY_UNLESS (is_path p)), DENY_IF (violatesSingleAccountOrStoreIt p)]
     | _ \<Rightarrow> [])"

definition policyForSignTxCertificateStakeCredential ::
  "sign_tx_signingmode_t \<Rightarrow> ext_credential_t \<Rightarrow> security_policy_t acct" where
  "policyForSignTxCertificateStakeCredential mode stakeCredential = decide_acct
     (pure_rule (DENY_IF (forbiddenCredential mode stakeCredential)) #
      credential_rules bip44_isOrdinaryStakingKeyPath stakeCredential) (Inr PROMPT)"

definition policyForSignTxCertificateStaking ::
  "sign_tx_signingmode_t \<Rightarrow> certificate_type_t \<Rightarrow> ext_credential_t \<Rightarrow> security_policy_t acct" where
  "policyForSignTxCertificateStaking mode t stakeCredential st =
     (if t \<in> {CERTIFICATE_STAKE_REGISTRATION, CERTIFICATE_STAKE_REGISTRATION_CONWAY,
        CERTIFICATE_STAKE_DEREGISTRATION, CERTIFICATE_STAKE_DEREGISTRATION_CONWAY,
        CERTIFICATE_STAKE_DELEGATION}
      then policyForSignTxCertificateStakeCredential mode stakeCredential st
      else Inl ERR_ASSERT)"

definition policyForSignTxCertificateVoteDelegation ::
  "sign_tx_signingmode_t \<Rightarrow> ext_credential_t \<Rightarrow> ext_drep_t \<Rightarrow> security_policy_t acct" where
  "policyForSignTxCertificateVoteDelegation mode stakeCredential drep st =
     res_bind (case drep of EXT_DREP_KEY_PATH p \<Rightarrow> bip44_isDRepKeyPath p | _ \<Rightarrow> Inr True) (\<lambda>ok.
       if \<not> ok then Inr (DENY, st)
       else policyForSignTxCertificateStakeCredential mode stakeCredential st)"

definition policyForSignTxCertificateCommitteeAuth ::
  "sign_tx_signingmode_t \<Rightarrow> ext_credential_t \<Rightarrow> ext_credential_t \<Rightarrow> security_policy_t acct" where
  "policyForSignTxCertificateCommitteeAuth mode coldCredential hotCredential = decide_acct
     (pure_rule (DENY_IF (forbiddenCredential mode coldCredential)) #
      credential_rules bip44_isCommitteeColdKeyPath coldCredential @
      (case hotCredential of
         EXT_CREDENTIAL_KEY_PATH p \<Rightarrow> [pure_rule (DENY_UNLESS (bip44_isCommitteeHotKeyPath p))]
       | _ \<Rightarrow> [])) (Inr PROMPT)"

definition policyForSignTxCertificateCommitteeResign ::
  "sign_tx_signingmode_t \<Rightarrow> ext_credential_t \<Rightarrow> security_policy_t acct" where
  "policyForSignTxCertificateCommitteeResign mode coldCredential = decide_acct
     (pure_rule (DENY_IF (forbiddenCredential mode coldCredential)) #
      credential_rules bip44_isCommitteeColdKeyPath coldCredential) (Inr PROMPT)"

definition policyForSignTxCertificateDRep ::
  "sign_tx_signingmode_t \<Rightarrow> ext_credential_t \<Rightarrow> security_policy_t acct" where
  "policyForSignTxCertificateDRep mode dRepCredential = decide_acct
     (pure_rule (DENY_IF (forbiddenCredential mode dRepCredential)) #
      credential_rules bip44_isDRepKeyPath dRepCredential) (Inr PROMPT)"

definition policyForSignTxCertificateStakePoolRetirement ::
  "sign_tx_signingmode_t \<Rightarrow> ext_credential_t \<Rightarrow> u64 \<Rightarrow> security_policy_t res" where
  "policyForSignTxCertificateStakePoolRetirement mode poolCredential epoch =
     (if mode = SIGN_TX_SIGNINGMODE_ORDINARY_TX
      then (case poolCredential of
          EXT_CREDENTIAL_KEY_PATH p \<Rightarrow> decide [DENY_UNLESS (bip44_isPoolColdKeyPath p)] PROMPT
        | _ \<Rightarrow> Inr DENY)
      else Inl ERR_ASSERT)"

end
