(* ===== verification/WitnessPolicy.thy ===== *)
theory WitnessPolicy
  imports SecurityPolicy
begin

text \<open>
  The rest of \<open>src/securityPolicy/securityPolicy.c\<close>: pool registration, withdrawals,
  witnesses, the remaining elements of a transaction, registrations for voting, operational
  certificates, votes and signed messages. Its functions use the rules of \<open>SecurityPolicy\<close>.
\<close>

subsection \<open>Pool registration\<close>

text \<open>\<open>pool_id_t\<close> and \<open>pool_owner_t\<close>: a key given by its path or by its hash.\<close>

datatype key_reference_t = KEY_REFERENCE_PATH bip44_path_t | KEY_REFERENCE_HASH bytes

definition policyForSignTxStakePoolRegistrationInit ::
  "sign_tx_signingmode_t \<Rightarrow> u32 \<Rightarrow> security_policy_t res" where
  "policyForSignTxStakePoolRegistrationInit mode numOwners = (case mode of
       SIGN_TX_SIGNINGMODE_POOL_REGISTRATION_OWNER \<Rightarrow> decide [DENY_IF (Inr (numOwners = 0))] ALLOW
     | SIGN_TX_SIGNINGMODE_POOL_REGISTRATION_OPERATOR \<Rightarrow> Inr ALLOW
     | _ \<Rightarrow> Inr DENY)"

definition policyForSignTxStakePoolRegistrationPoolId ::
  "sign_tx_signingmode_t \<Rightarrow> key_reference_t \<Rightarrow> security_policy_t res" where
  "policyForSignTxStakePoolRegistrationPoolId mode poolId = (case mode of
       SIGN_TX_SIGNINGMODE_POOL_REGISTRATION_OWNER \<Rightarrow>
         decide [DENY_UNLESS (Inr (case poolId of KEY_REFERENCE_HASH _ \<Rightarrow> True | _ \<Rightarrow> False))] SHOW
     | SIGN_TX_SIGNINGMODE_POOL_REGISTRATION_OPERATOR \<Rightarrow>
         decide [DENY_UNLESS (Inr (case poolId of KEY_REFERENCE_PATH _ \<Rightarrow> True | _ \<Rightarrow> False))] SHOW
     | _ \<Rightarrow> Inl ERR_ASSERT)"

definition policyForSignTxStakePoolRegistrationVrfKey ::
  "sign_tx_signingmode_t \<Rightarrow> security_policy_t res" where
  "policyForSignTxStakePoolRegistrationVrfKey mode = (case mode of
       SIGN_TX_SIGNINGMODE_POOL_REGISTRATION_OWNER \<Rightarrow> Inr ALLOW
     | SIGN_TX_SIGNINGMODE_POOL_REGISTRATION_OPERATOR \<Rightarrow> Inr SHOW
     | _ \<Rightarrow> Inl ERR_ASSERT)"

definition policyForSignTxStakePoolRegistrationRewardAccount ::
  "sign_tx_signingmode_t \<Rightarrow> reward_account_t \<Rightarrow> security_policy_t res" where
  "policyForSignTxStakePoolRegistrationRewardAccount mode poolRewardAccount = (case mode of
       SIGN_TX_SIGNINGMODE_POOL_REGISTRATION_OWNER \<Rightarrow> Inr SHOW
     | SIGN_TX_SIGNINGMODE_POOL_REGISTRATION_OPERATOR \<Rightarrow> Inr SHOW
     | _ \<Rightarrow> Inl ERR_ASSERT)"

definition policyForSignTxStakePoolRegistrationOwner ::
  "sign_tx_signingmode_t \<Rightarrow> key_reference_t \<Rightarrow> u32 \<Rightarrow> security_policy_t acct" where
  "policyForSignTxStakePoolRegistrationOwner mode owner numOwnersGivenByPath = decide_acct
     (case owner of
        KEY_REFERENCE_PATH p \<Rightarrow> [pure_rule (DENY_UNLESS (bip44_isOrdinaryStakingKeyPath p)),
          DENY_IF (violatesSingleAccountOrStoreIt p)]
      | KEY_REFERENCE_HASH _ \<Rightarrow> [])
     (case mode of
        SIGN_TX_SIGNINGMODE_POOL_REGISTRATION_OWNER \<Rightarrow>
          decide [DENY_UNLESS (Inr (numOwnersGivenByPath \<le> 1))] SHOW
      | SIGN_TX_SIGNINGMODE_POOL_REGISTRATION_OPERATOR \<Rightarrow>
          res_bind (ASSERT (numOwnersGivenByPath = 0)) (\<lambda>_.
            decide [DENY_UNLESS (Inr (case owner of KEY_REFERENCE_HASH _ \<Rightarrow> True | _ \<Rightarrow> False))] SHOW)
      | _ \<Rightarrow> Inl ERR_ASSERT)"

definition policyForSignTxStakePoolRegistrationRelay ::
  "sign_tx_signingmode_t \<Rightarrow> pool_relay_t \<Rightarrow> security_policy_t res" where
  "policyForSignTxStakePoolRegistrationRelay mode relay = (case mode of
       SIGN_TX_SIGNINGMODE_POOL_REGISTRATION_OWNER \<Rightarrow> Inr ALLOW
     | SIGN_TX_SIGNINGMODE_POOL_REGISTRATION_OPERATOR \<Rightarrow> Inr SHOW
     | _ \<Rightarrow> Inl ERR_ASSERT)"

definition policyForSignTxStakePoolRegistrationMetadata :: security_policy_t where
  "policyForSignTxStakePoolRegistrationMetadata = SHOW"

definition policyForSignTxStakePoolRegistrationNoMetadata :: security_policy_t where
  "policyForSignTxStakePoolRegistrationNoMetadata = SHOW"

definition policyForSignTxStakePoolRegistrationConfirm :: "u32 \<Rightarrow> u32 \<Rightarrow> security_policy_t res" where
  "policyForSignTxStakePoolRegistrationConfirm numOwners numRelays =
     decide [PROMPT_IF (Inr (numOwners = 0)), PROMPT_IF (Inr (numRelays = 0))] ALLOW"

subsection \<open>Withdrawals\<close>

definition policyForSignTxWithdrawal ::
  "bool \<Rightarrow> sign_tx_signingmode_t \<Rightarrow> ext_credential_t \<Rightarrow> security_policy_t acct" where
  "policyForSignTxWithdrawal expert mode stakeCredential = (case stakeCredential of
       EXT_CREDENTIAL_KEY_PATH p \<Rightarrow> decide_acct
         [pure_rule (DENY_UNLESS (bip44_isOrdinaryStakingKeyPath p)),
          DENY_IF (violatesSingleAccountOrStoreIt p)]
         (case mode of
            SIGN_TX_SIGNINGMODE_ORDINARY_TX \<Rightarrow> decide [SHOW_IF (Inr expert)] ALLOW
          | SIGN_TX_SIGNINGMODE_PLUTUS_TX \<Rightarrow> decide [SHOW_IF (Inr expert)] ALLOW
          | SIGN_TX_SIGNINGMODE_MULTISIG_TX \<Rightarrow> Inr DENY
          | _ \<Rightarrow> Inl ERR_ASSERT)
     | EXT_CREDENTIAL_KEY_HASH _ \<Rightarrow> with_acct (case mode of
            SIGN_TX_SIGNINGMODE_PLUTUS_TX \<Rightarrow> decide [SHOW_IF (Inr expert)] ALLOW
          | SIGN_TX_SIGNINGMODE_ORDINARY_TX \<Rightarrow> Inr DENY
          | SIGN_TX_SIGNINGMODE_MULTISIG_TX \<Rightarrow> Inr DENY
          | _ \<Rightarrow> Inl ERR_ASSERT)
     | EXT_CREDENTIAL_SCRIPT_HASH _ \<Rightarrow> with_acct (case mode of
            SIGN_TX_SIGNINGMODE_MULTISIG_TX \<Rightarrow> decide [SHOW_IF (Inr expert)] ALLOW
          | SIGN_TX_SIGNINGMODE_PLUTUS_TX \<Rightarrow> decide [SHOW_IF (Inr expert)] ALLOW
          | SIGN_TX_SIGNINGMODE_ORDINARY_TX \<Rightarrow> Inr DENY
          | _ \<Rightarrow> Inl ERR_ASSERT))"

subsection \<open>Witnesses\<close>

definition ordinaryWitnessPolicy :: "bool \<Rightarrow> bip44_path_t \<Rightarrow> bool \<Rightarrow> security_policy_t acct" where
  "ordinaryWitnessPolicy expert p mintPresent st =
     res_bind (bip44_classifyPath p) (\<lambda>t.
     if t \<in> {PATH_ORDINARY_PAYMENT_KEY, PATH_ORDINARY_STAKING_KEY}
     then decide_acct [DENY_IF (violatesSingleAccountOrStoreIt p),
       pure_rule (WARN_UNLESS (bip44_isPathReasonable p)), pure_rule (SHOW_IF (Inr expert))] (Inr ALLOW) st
     else if t \<in> {PATH_DREP_KEY, PATH_COMMITTEE_COLD_KEY, PATH_COMMITTEE_HOT_KEY}
     then decide_acct [DENY_IF (violatesSingleAccountOrStoreIt p),
       pure_rule (WARN_UNLESS (bip44_isPathReasonable p))] (Inr SHOW) st
     else if t = PATH_POOL_COLD_KEY
     then with_acct (decide [WARN_UNLESS (bip44_isPathReasonable p)] SHOW) st
     else if t = PATH_MINT_KEY then with_acct (decide [DENY_UNLESS (Inr mintPresent)] SHOW) st
     else Inr (DENY, st))"

definition multisigWitnessPolicy :: "bip44_path_t \<Rightarrow> bool \<Rightarrow> security_policy_t res" where
  "multisigWitnessPolicy p mintPresent =
     res_bind (bip44_classifyPath p) (\<lambda>t.
     if t \<in> {PATH_MULTISIG_PAYMENT_KEY, PATH_MULTISIG_STAKING_KEY}
     then decide [WARN_UNLESS (bip44_isPathReasonable p)] SHOW
     else if t = PATH_MINT_KEY then decide [DENY_UNLESS (Inr mintPresent)] SHOW
     else Inr DENY)"

definition plutusWitnessPolicy :: "bip44_path_t \<Rightarrow> bool \<Rightarrow> security_policy_t res" where
  "plutusWitnessPolicy p mintPresent =
     res_bind (bip44_classifyPath p) (\<lambda>t.
     if t \<in> {PATH_ORDINARY_PAYMENT_KEY, PATH_ORDINARY_STAKING_KEY, PATH_MULTISIG_PAYMENT_KEY,
       PATH_MULTISIG_STAKING_KEY, PATH_DREP_KEY, PATH_COMMITTEE_COLD_KEY, PATH_COMMITTEE_HOT_KEY}
     then decide [WARN_UNLESS (bip44_isPathReasonable p)] SHOW
     else if t = PATH_MINT_KEY then decide [SHOW_UNLESS (Inr mintPresent)] SHOW
     else Inr DENY)"

definition poolRegistrationOwnerWitnessPolicy ::
  "bip44_path_t \<Rightarrow> bip44_path_t option \<Rightarrow> security_policy_t res" where
  "poolRegistrationOwnerWitnessPolicy witnessPath poolOwnerPath =
     res_bind (bip44_classifyPath witnessPath) (\<lambda>t.
     if t = PATH_ORDINARY_STAKING_KEY
     then (case poolOwnerPath of
         Some owner \<Rightarrow> decide [DENY_UNLESS (bip44_pathsEqual witnessPath owner),
           WARN_UNLESS (bip44_isPathReasonable witnessPath)] SHOW
       | None \<Rightarrow> Inr DENY)
     else Inr DENY)"

definition poolRegistrationOperatorWitnessPolicy :: "bip44_path_t \<Rightarrow> security_policy_t res" where
  "poolRegistrationOperatorWitnessPolicy p =
     res_bind (bip44_classifyPath p) (\<lambda>t.
     if t \<in> {PATH_ORDINARY_PAYMENT_KEY, PATH_POOL_COLD_KEY}
     then decide [WARN_UNLESS (bip44_isPathReasonable p)] SHOW
     else Inr DENY)"

definition policyForSignTxWitness :: "bool \<Rightarrow> sign_tx_signingmode_t \<Rightarrow> bip44_path_t \<Rightarrow> bool \<Rightarrow>
    bip44_path_t option \<Rightarrow> security_policy_t acct" where
  "policyForSignTxWitness expert mode witnessPath mintPresent poolOwnerPath = (case mode of
       SIGN_TX_SIGNINGMODE_ORDINARY_TX \<Rightarrow> ordinaryWitnessPolicy expert witnessPath mintPresent
     | SIGN_TX_SIGNINGMODE_MULTISIG_TX \<Rightarrow> with_acct (multisigWitnessPolicy witnessPath mintPresent)
     | SIGN_TX_SIGNINGMODE_PLUTUS_TX \<Rightarrow> with_acct (plutusWitnessPolicy witnessPath mintPresent)
     | SIGN_TX_SIGNINGMODE_POOL_REGISTRATION_OWNER \<Rightarrow>
         with_acct (poolRegistrationOwnerWitnessPolicy witnessPath poolOwnerPath)
     | SIGN_TX_SIGNINGMODE_POOL_REGISTRATION_OPERATOR \<Rightarrow>
         with_acct (poolRegistrationOperatorWitnessPolicy witnessPath))"

subsection \<open>Other elements of a transaction\<close>

datatype aux_data_type_t = AUX_DATA_TYPE_ARBITRARY_HASH | AUX_DATA_TYPE_CVOTE_REGISTRATION

definition policyForSignTxAuxData :: "bool \<Rightarrow> aux_data_type_t \<Rightarrow> security_policy_t res" where
  "policyForSignTxAuxData expert auxDataType = (case auxDataType of
       AUX_DATA_TYPE_ARBITRARY_HASH \<Rightarrow> decide [SHOW_IF (Inr expert)] ALLOW
     | AUX_DATA_TYPE_CVOTE_REGISTRATION \<Rightarrow> Inr SHOW)"

definition policyForSignTxValidityIntervalStart :: "bool \<Rightarrow> security_policy_t res" where
  "policyForSignTxValidityIntervalStart expert = decide [SHOW_IF (Inr expert)] ALLOW"

definition policyForSignTxMintInit :: "sign_tx_signingmode_t \<Rightarrow> security_policy_t res" where
  "policyForSignTxMintInit mode =
     (if mode \<in> {SIGN_TX_SIGNINGMODE_ORDINARY_TX, SIGN_TX_SIGNINGMODE_MULTISIG_TX,
        SIGN_TX_SIGNINGMODE_PLUTUS_TX}
      then Inr SHOW else Inl ERR_ASSERT)"

definition policyForSignTxMintConfirm :: "security_policy_t \<Rightarrow> security_policy_t res" where
  "policyForSignTxMintConfirm mintInitPolicy =
     (if mintInitPolicy = ALLOW then Inr ALLOW
      else if mintInitPolicy = SHOW then Inr PROMPT
      else Inl ERR_ASSERT)"

definition policyForSignTxScriptDataHash :: "bool \<Rightarrow> sign_tx_signingmode_t \<Rightarrow> security_policy_t res" where
  "policyForSignTxScriptDataHash expert mode =
     (if mode \<in> {SIGN_TX_SIGNINGMODE_ORDINARY_TX, SIGN_TX_SIGNINGMODE_MULTISIG_TX,
        SIGN_TX_SIGNINGMODE_PLUTUS_TX}
      then decide [SHOW_IF (Inr expert)] ALLOW else Inr DENY)"

definition policyForSignTxCollateralInput ::
  "bool \<Rightarrow> sign_tx_signingmode_t \<Rightarrow> bool \<Rightarrow> security_policy_t res" where
  "policyForSignTxCollateralInput expert mode totalCollateral =
     (if mode = SIGN_TX_SIGNINGMODE_PLUTUS_TX
      then decide [SHOW_IF (Inr (\<not> totalCollateral \<and> expert))] ALLOW
      else Inr DENY)"

definition required_signers_allowed :: "sign_tx_signingmode_t \<Rightarrow> bool" where
  "required_signers_allowed mode \<longleftrightarrow>
     mode \<in> {SIGN_TX_SIGNINGMODE_PLUTUS_TX, SIGN_TX_SIGNINGMODE_ORDINARY_TX, SIGN_TX_SIGNINGMODE_MULTISIG_TX}"

definition is_required_signer_allowed :: "bip44_path_t \<Rightarrow> bool res" where
  "is_required_signer_allowed p =
     res_bind (bip44_classifyPath p) (\<lambda>t.
     if t \<in> {PATH_ORDINARY_ACCOUNT, PATH_ORDINARY_PAYMENT_KEY, PATH_ORDINARY_STAKING_KEY}
     then bip44_hasShelleyPrefix p
     else Inr (t \<in> {PATH_MULTISIG_ACCOUNT, PATH_MULTISIG_PAYMENT_KEY, PATH_MULTISIG_STAKING_KEY,
       PATH_DREP_KEY, PATH_COMMITTEE_COLD_KEY, PATH_COMMITTEE_HOT_KEY, PATH_MINT_KEY}))"

datatype sign_tx_required_signer_t =
    REQUIRED_SIGNER_WITH_PATH bip44_path_t
  | REQUIRED_SIGNER_WITH_HASH bytes

definition policyForSignTxRequiredSigner ::
  "bool \<Rightarrow> sign_tx_signingmode_t \<Rightarrow> sign_tx_required_signer_t \<Rightarrow> security_policy_t res" where
  "policyForSignTxRequiredSigner expert mode requiredSigner = decide
     (DENY_UNLESS (Inr (required_signers_allowed mode)) #
      (case requiredSigner of
         REQUIRED_SIGNER_WITH_HASH _ \<Rightarrow> []
       | REQUIRED_SIGNER_WITH_PATH p \<Rightarrow> [DENY_UNLESS (is_required_signer_allowed p)]) @
      [SHOW_IF (Inr expert)]) ALLOW"

definition policyForSignTxTotalCollateral :: security_policy_t where
  "policyForSignTxTotalCollateral = SHOW"

definition policyForSignTxReferenceInput :: "bool \<Rightarrow> sign_tx_signingmode_t \<Rightarrow> security_policy_t res" where
  "policyForSignTxReferenceInput expert mode =
     (if mode = SIGN_TX_SIGNINGMODE_PLUTUS_TX then decide [SHOW_IF (Inr expert)] ALLOW
      else Inr DENY)"

datatype ext_voter_t =
    EXT_VOTER_COMMITTEE_HOT_KEY_PATH bip44_path_t
  | EXT_VOTER_COMMITTEE_HOT_KEY_HASH bytes
  | EXT_VOTER_COMMITTEE_HOT_SCRIPT_HASH bytes
  | EXT_VOTER_DREP_KEY_PATH bip44_path_t
  | EXT_VOTER_DREP_KEY_HASH bytes
  | EXT_VOTER_DREP_SCRIPT_HASH bytes
  | EXT_VOTER_STAKE_POOL_KEY_PATH bip44_path_t
  | EXT_VOTER_STAKE_POOL_KEY_HASH bytes

definition policyForSignTxVotingProcedure ::
  "sign_tx_signingmode_t \<Rightarrow> ext_voter_t \<Rightarrow> security_policy_t res" where
  "policyForSignTxVotingProcedure mode voter = (case mode of
       SIGN_TX_SIGNINGMODE_ORDINARY_TX \<Rightarrow> (case voter of
         EXT_VOTER_COMMITTEE_HOT_KEY_PATH p \<Rightarrow> decide [DENY_UNLESS (bip44_isCommitteeHotKeyPath p)] SHOW
       | EXT_VOTER_DREP_KEY_PATH p \<Rightarrow> decide [DENY_UNLESS (bip44_isDRepKeyPath p)] SHOW
       | EXT_VOTER_STAKE_POOL_KEY_PATH p \<Rightarrow> decide [DENY_UNLESS (bip44_isPoolColdKeyPath p)] SHOW
       | _ \<Rightarrow> Inr DENY)
     | SIGN_TX_SIGNINGMODE_MULTISIG_TX \<Rightarrow> (case voter of
         EXT_VOTER_COMMITTEE_HOT_SCRIPT_HASH _ \<Rightarrow> Inr SHOW
       | EXT_VOTER_DREP_SCRIPT_HASH _ \<Rightarrow> Inr SHOW
       | _ \<Rightarrow> Inr DENY)
     | SIGN_TX_SIGNINGMODE_PLUTUS_TX \<Rightarrow> Inr SHOW
     | _ \<Rightarrow> Inl ERR_ASSERT)"

definition policyForSignTxTreasury :: "sign_tx_signingmode_t \<Rightarrow> u64 \<Rightarrow> security_policy_t" where
  "policyForSignTxTreasury mode treasury = SHOW"

definition policyForSignTxDonation :: "sign_tx_signingmode_t \<Rightarrow> u64 \<Rightarrow> security_policy_t" where
  "policyForSignTxDonation mode donation = SHOW"

definition policyForSignTxConfirm :: security_policy_t where
  "policyForSignTxConfirm = PROMPT"

subsection \<open>Registrations for voting\<close>

definition policyForCVoteRegistrationVoteKey :: security_policy_t where
  "policyForCVoteRegistrationVoteKey = SHOW"

definition policyForCVoteRegistrationVoteKeyPath ::
  "bip44_path_t \<Rightarrow> cvote_registration_format_t \<Rightarrow> security_policy_t res" where
  "policyForCVoteRegistrationVoteKeyPath p format = decide
     [DENY_UNLESS (Inr (format = CIP36)),
      DENY_UNLESS (test (bip44_classifyPath p) (\<lambda>t. t = PATH_CVOTE_KEY)),
      WARN_UNLESS (bip44_isPathReasonable p)] SHOW"

definition policyForCVoteRegistrationStakingKey :: "bip44_path_t \<Rightarrow> security_policy_t res" where
  "policyForCVoteRegistrationStakingKey stakingPath = decide
     [DENY_UNLESS (bip44_isOrdinaryStakingKeyPath stakingPath),
      WARN_UNLESS (bip44_isPathReasonable stakingPath)] SHOW"

definition policyForCVoteRegistrationPaymentDestination ::
  "addressParams_t tx_output_destination_t \<Rightarrow> u8 \<Rightarrow> security_policy_t res" where
  "policyForCVoteRegistrationPaymentDestination destination netId = (case destination of
       DESTINATION_DEVICE_OWNED params \<Rightarrow> decide
         [DENY_UNLESS (isValidAddressParams params),
          DENY_UNLESS (Inr (isShelleyAddressType (address_type params))),
          DENY_IF (res_bind (networkId params) (\<lambda>i. Inr (i \<noteq> netId))),
          WARN_UNLESS (is_standard_base_address params)] SHOW
     | DESTINATION_THIRD_PARTY address \<Rightarrow>
         res_bind (getAddressHeader address) (\<lambda>header. decide
           [DENY_UNLESS (Inr (isShelleyAddressType (getAddressType header))),
            DENY_IF (Inr (getNetworkId header \<noteq> netId))] WARN))"

definition policyForCVoteRegistrationNonce :: security_policy_t where
  "policyForCVoteRegistrationNonce = SHOW"

definition policyForCVoteRegistrationVotingPurpose :: "bool \<Rightarrow> security_policy_t res" where
  "policyForCVoteRegistrationVotingPurpose expert = decide [SHOW_IF (Inr expert)] ALLOW"

definition policyForCVoteRegistrationConfirm :: security_policy_t where
  "policyForCVoteRegistrationConfirm = PROMPT"

subsection \<open>Other requests\<close>

definition policyForSignOpCert :: "bip44_path_t \<Rightarrow> security_policy_t res" where
  "policyForSignOpCert poolColdKeyPath =
     res_bind (bip44_classifyPath poolColdKeyPath) (\<lambda>t.
     if t = PATH_POOL_COLD_KEY
     then res_bind (bip44_isPathReasonable poolColdKeyPath) (\<lambda>b. Inr (if b then PROMPT else WARN))
     else Inr DENY)"

definition policyForSignCVoteInit :: security_policy_t where
  "policyForSignCVoteInit = PROMPT"

definition policyForSignCVoteConfirm :: security_policy_t where
  "policyForSignCVoteConfirm = PROMPT"

definition policyForSignCVoteWitness :: "bip44_path_t \<Rightarrow> security_policy_t res" where
  "policyForSignCVoteWitness p =
     res_bind (bip44_classifyPath p) (\<lambda>t.
     if t = PATH_CVOTE_KEY then decide [WARN_UNLESS (bip44_isPathReasonable p)] SHOW
     else Inr DENY)"

datatype cip8_address_field_type_t = CIP8_ADDRESS_FIELD_ADDRESS | CIP8_ADDRESS_FIELD_KEYHASH

definition policyForSignMsg ::
  "bip44_path_t \<Rightarrow> cip8_address_field_type_t \<Rightarrow> addressParams_t \<Rightarrow> security_policy_t res" where
  "policyForSignMsg witnessPath addressFieldType params =
     res_bind (bip44_classifyPath witnessPath) (\<lambda>t.
     if t \<notin> {PATH_ORDINARY_PAYMENT_KEY, PATH_ORDINARY_STAKING_KEY, PATH_MULTISIG_PAYMENT_KEY,
       PATH_MULTISIG_STAKING_KEY, PATH_MINT_KEY, PATH_DREP_KEY, PATH_COMMITTEE_COLD_KEY,
       PATH_COMMITTEE_HOT_KEY, PATH_POOL_COLD_KEY}
     then Inr DENY
     else if addressFieldType = CIP8_ADDRESS_FIELD_ADDRESS
     then decide [DENY_UNLESS (isValidAddressParams params),
       DENY_UNLESS (Inr (address_type params \<in> {BASE_PAYMENT_KEY_STAKE_KEY,
         BASE_PAYMENT_KEY_STAKE_SCRIPT, REWARD_KEY, ENTERPRISE_KEY}))] PROMPT
     else Inr PROMPT)"

end
