(* ===== verification/PolicyProperties.thy ===== *)
theory PolicyProperties
  imports WitnessPolicy
begin

text \<open>
  What the policies promise: what is shown of a transaction and what may be hidden, which keys
  may witness in which signing mode, what the beginning of a transaction and the credentials of
  certificates must satisfy, and where the policies let an address through that the derivation
  cannot derive.
\<close>

subsection \<open>Chains of rules\<close>

lemma decide_Cons_Inr:
  "decide ((c, q) # rules) final = Inr p \<longleftrightarrow>
   c = Inr True \<and> p = q \<or> c = Inr False \<and> decide rules final = Inr p"
  by (auto simp: res_bind_Inr_iff split: if_splits)

lemma decide_values: "decide rules final = Inr p \<Longrightarrow> p = final \<or> p \<in> snd ` set rules"
  by (induction rules) (auto simp: res_bind_Inr_iff split: if_splits)

lemma not_res_Inr: "not_res c = Inr b \<longleftrightarrow> c = Inr (\<not> b)"
  by (cases c) auto

lemma with_acct_Inr: "with_acct m st = Inr (x, st') \<longleftrightarrow> m = Inr x \<and> st' = st"
  by (cases m) (auto simp: with_acct_def)

lemma decide_acct_Cons_Inr:
  "decide_acct ((c, q) # rules) final st = Inr (p, st') \<longleftrightarrow>
   c st = Inr (True, st') \<and> p = q \<or>
   (\<exists>s. c st = Inr (False, s) \<and> decide_acct rules final s = Inr (p, st'))"
  by (cases "c st") (auto split: if_splits)

lemma decide_acct_Nil_Inr:
  "decide_acct [] final st = Inr (p, st') \<longleftrightarrow> final = Inr p \<and> st' = st"
  by (simp add: with_acct_Inr)

declare decide.simps(2) [simp del] decide_acct.simps [simp del]

lemmas rule_simps = decide_Cons_Inr not_res_Inr with_acct_Inr decide_acct_Cons_Inr decide_acct_Nil_Inr

text \<open>After a passed account check the account is stored and the path is compatible with it.\<close>

lemma passed_check:
  assumes "path_ok p" "violatesSingleAccountOrStoreIt p st = Inr (False, st')"
  shows "isStored st' \<and> compatible (isByron st') (accountNumber st') p"
  using check_path [OF assms] by (auto simp: compatible_def split: if_splits)

subsection \<open>Outputs\<close>

lemma suitable_address:
  assumes "is_addressBytes_suitable_for_tx_output fw address netId magic = Inr True"
  shows "address \<noteq> [] \<and> getAddressType (hd address) \<notin> {REWARD_KEY, REWARD_SCRIPT} \<and>
    (if getAddressType (hd address) = BYRON then extractProtocolMagic fw address = Inr magic
     else getNetworkId (hd address) = netId) \<and>
    (isBaseAddress (getAddressType (hd address)) \<longrightarrow> length address = 57) \<and>
    (getAddressType (hd address) \<in> {ENTERPRISE_KEY, ENTERPRISE_SCRIPT} \<longrightarrow> length address = 29)"
  using assms unfolding is_addressBytes_suitable_for_tx_output_def Let_def
  by (auto simp: res_bind_Inr_iff isBaseAddress_def split: if_splits)



text \<open>What a passed check of address parameters and a hidden change output mean.\<close>

lemma suitable_params:
  assumes "is_addressParams_suitable_for_tx_output params netId magic st = Inr (True, st')" "params_ok params"
  obtains p where "payment params = PaymentKeyPath p" "path_ok p"
    "violatesSingleAccountOrStoreIt p st = Inr (False, st')"
    "if address_type params = BYRON then network params = ProtocolMagic magic
     else network params = NetworkId netId"
proof -
  obtain b where c: "checks
       [isValidAddressParams params,
        (if address_type params \<in> {REWARD_KEY, REWARD_SCRIPT} then Inr False
         else if address_type params = BYRON
         then res_bind (protocolMagic params) (\<lambda>m. Inr (m = magic))
         else res_bind (networkId params) (\<lambda>i. Inr (i = netId))),
        res_bind (determinePaymentChoice (address_type params)) (\<lambda>c. Inr (c = PAYMENT_PATH))] = Inr b"
    and rest: "(if \<not> b then Inr (False, st) else res_bind (paymentKeyPath params) (\<lambda>p.
         res_bind (violatesSingleAccountOrStoreIt p st) (\<lambda>(v, st). Inr (\<not> v, st)))) = Inr (True, st')"
    using assms(1) unfolding is_addressParams_suitable_for_tx_output_def res_bind_Inr_iff by blast
  then have b: "b" by (cases b) auto
  have pc: "determinePaymentChoice (address_type params) = Inr PAYMENT_PATH"
    and n: "if address_type params = BYRON then network params = ProtocolMagic magic
      else network params = NetworkId netId"
    using c b by (auto simp: res_bind_Inr_iff split: if_splits network_union.splits)
  then obtain p where "payment params = PaymentKeyPath p" "path_ok p"
    using assms(2) by (auto simp: params_ok_def payment_ok_def)
  then show ?thesis
    using that rest b n by (auto simp: res_bind_Inr_iff)
qed

lemma standard_base:
  assumes "is_standard_base_address params = Inr True"
  shows "address_type params = BASE_PAYMENT_KEY_STAKE_KEY \<and> stakingDataSource params = STAKING_KEY_PATH \<and>
    (\<exists>p q. payment params = PaymentKeyPath p \<and> staking params = StakingKeyPath q \<and>
      bip44_classifyPath p = Inr PATH_ORDINARY_PAYMENT_KEY \<and> bip44_isPathReasonable p = Inr True \<and>
      bip44_classifyPath q = Inr PATH_ORDINARY_STAKING_KEY \<and> bip44_isPathReasonable q = Inr True \<and>
      bip44_isMultidelegationStakingKeyPath q = Inr False \<and> equal_res (bip44_getAccount q) (bip44_getAccount p) = Inr True)"
proof -
  have c: "checks
       [Inr (address_type params = BASE_PAYMENT_KEY_STAKE_KEY),
        Inr (stakingDataSource params = STAKING_KEY_PATH),
        res_bind (paymentKeyPath params) (\<lambda>p. test (bip44_classifyPath p) (\<lambda>t. t = PATH_ORDINARY_PAYMENT_KEY)),
        res_bind (paymentKeyPath params) bip44_isPathReasonable,
        res_bind (stakingKeyPath params) (\<lambda>p. test (bip44_classifyPath p) (\<lambda>t. t = PATH_ORDINARY_STAKING_KEY)),
        res_bind (stakingKeyPath params) bip44_isPathReasonable,
        res_bind (stakingKeyPath params) (\<lambda>p. not_res (bip44_isMultidelegationStakingKeyPath p)),
        equal_res (res_bind (stakingKeyPath params) bip44_getAccount)
          (res_bind (paymentKeyPath params) bip44_getAccount)] = Inr True"
    using assms unfolding is_standard_base_address_def res_bind_Inr_iff by blast
  then have p: "\<exists>p. payment params = PaymentKeyPath p" and q: "\<exists>q. staking params = StakingKeyPath q"
    by (auto simp: res_bind_Inr_iff split: if_splits payment_union.splits staking_union.splits)
  then show ?thesis
    using c by (auto simp: res_bind_Inr_iff test_def not_res_Inr split: if_splits)
qed

lemma getAccount_value:
  assumes "path_ok p" "bip44_getAccount p = Inr x"
  shows "x = account_of p"
proof -
  obtain a b c d e n where p: "p = full a b c d e n" "n \<le> 5"
    by (rule path_okE [OF assms(1)])
  then have n: "2 < unat n"
    using assms(2) by (auto simp: bip44_getAccount_def res_bind_Inr_iff split: if_splits)
  then have "n = 3 \<or> n = 4 \<or> n = 5"
    using small_length [OF p(2)] by auto
  then show ?thesis
    using assms(2) p(1) n by (auto simp: account_of_def elements_def)
qed

lemma first_staking_key:
  assumes "path_ok q" "bip44_classifyPath q = Inr PATH_ORDINARY_STAKING_KEY"
    "bip44_isMultidelegationStakingKeyPath q = Inr False"
  shows "elements q ! 4 = 0"
proof -
  obtain a b c d e n where q: "q = full a b c d e n" "n \<le> 5"
    by (rule path_okE [OF assms(1)])
  have s: "bip44_isOrdinaryStakingKeyPath q = Inr True"
    by (rule staking_path [OF assms(1,2)])
  then have "unat n = 5"
    using q(1) by simp
  moreover from this s have "e = 0"
    using assms(3) q(1) by (simp add: bip44_isMultidelegationStakingKeyPath_def or_else_def word_gt_0)
  ultimately show ?thesis
    using q(1) by (simp add: elements_def)
qed

text \<open>Two keys of the first account, and the parameters of a change output to them.\<close>

definition payment_key :: bip44_path_t where
  "payment_key = \<lparr>path = [0x8000073C, 0x80000717, 0x80000000, 0, 1], path_length = 5\<rparr>"

definition staking_key :: bip44_path_t where
  "staking_key = \<lparr>path = [0x8000073C, 0x80000717, 0x80000000, 2, 0], path_length = 5\<rparr>"

definition change_params :: addressParams_t where
  "change_params = \<lparr>address_type = BASE_PAYMENT_KEY_STAKE_KEY, network = NetworkId 1,
     payment = PaymentKeyPath payment_key, stakingDataSource = STAKING_KEY_PATH,
     staking = StakingKeyPath staking_key\<rparr>"

definition no_account :: single_account_data_t where
  "no_account = \<lparr>isStored = False, isByron = False, accountNumber = 0\<rparr>"

lemma sample_keys:
  "path_ok payment_key" "path_ok staking_key"
  "bip44_classifyPath payment_key = Inr PATH_ORDINARY_PAYMENT_KEY"
  "bip44_classifyPath staking_key = Inr PATH_ORDINARY_STAKING_KEY"
  "bip44_isPathReasonable payment_key = Inr True" "bip44_isPathReasonable staking_key = Inr True"
  "bip44_isMultidelegationStakingKeyPath staking_key = Inr False"
  "bip44_hasShelleyPrefix payment_key = Inr True"
  "bip44_getAccount payment_key = Inr 0x80000000" "bip44_getAccount staking_key = Inr 0x80000000"
  "\<exists>st. violatesSingleAccountOrStoreIt payment_key no_account = Inr (False, st)"
proof -
  show ok: "path_ok payment_key" "path_ok staking_key"
    by (simp_all add: path_ok_def payment_key_def staking_key_def)
  have k: "path_kind (elements payment_key) = PATH_ORDINARY_PAYMENT_KEY"
    "path_kind (elements staking_key) = PATH_ORDINARY_STAKING_KEY"
    "reasonable (elements payment_key)" "reasonable (elements staking_key)"
    by (simp_all add: elements_def payment_key_def staking_key_def hard_def reasonable_def)
  show "bip44_classifyPath payment_key = Inr PATH_ORDINARY_PAYMENT_KEY"
    "bip44_classifyPath staking_key = Inr PATH_ORDINARY_STAKING_KEY"
    "bip44_isPathReasonable payment_key = Inr True" "bip44_isPathReasonable staking_key = Inr True"
    using k ok by (simp_all add: classify_ok isPathReasonable_ok)
  show "bip44_isMultidelegationStakingKeyPath staking_key = Inr False"
    "bip44_hasShelleyPrefix payment_key = Inr True"
    "bip44_getAccount payment_key = Inr 0x80000000" "bip44_getAccount staking_key = Inr 0x80000000"
    "\<exists>st. violatesSingleAccountOrStoreIt payment_key no_account = Inr (False, st)"
    by (simp_all add: payment_key_def staking_key_def bip44_isMultidelegationStakingKeyPath_def
        violatesSingleAccountOrStoreIt_def no_account_def bip44_containsAccount_def hard_def)
qed

lemma sample_params: "params_ok change_params" "isValidAddressParams change_params = Inr True"
  "is_standard_base_address change_params = Inr True"
proof -
  show "params_ok change_params"
    by (simp add: change_params_def params_ok_def isSupportedAddressType_def isValidStakingChoice_def
        network_ok_def isValidNetworkId_def payment_ok_def determinePaymentChoice_def staking_ok_def sample_keys)
  show v: "isValidAddressParams change_params = Inr True"
    by (simp add: change_params_def isValidAddressParams_def isValidNetworkId_def isValidStakingInfo_def
        isStakingInfoConsistentWithAddressType_def isValidPaymentInfo_def sample_keys)
  show "is_standard_base_address change_params = Inr True"
    using v by (simp add: is_standard_base_address_def) (simp add: change_params_def sample_keys)
qed



subsection \<open>Witnesses\<close>

fun witness_kinds :: "sign_tx_signingmode_t \<Rightarrow> bool \<Rightarrow> bip44_path_type_t set" where
  "witness_kinds SIGN_TX_SIGNINGMODE_ORDINARY_TX mint =
     {PATH_ORDINARY_PAYMENT_KEY, PATH_ORDINARY_STAKING_KEY, PATH_DREP_KEY, PATH_COMMITTEE_COLD_KEY,
      PATH_COMMITTEE_HOT_KEY, PATH_POOL_COLD_KEY} \<union> (if mint then {PATH_MINT_KEY} else {})"
| "witness_kinds SIGN_TX_SIGNINGMODE_MULTISIG_TX mint =
     {PATH_MULTISIG_PAYMENT_KEY, PATH_MULTISIG_STAKING_KEY} \<union> (if mint then {PATH_MINT_KEY} else {})"
| "witness_kinds SIGN_TX_SIGNINGMODE_PLUTUS_TX mint =
     {PATH_ORDINARY_PAYMENT_KEY, PATH_ORDINARY_STAKING_KEY, PATH_MULTISIG_PAYMENT_KEY,
      PATH_MULTISIG_STAKING_KEY, PATH_DREP_KEY, PATH_COMMITTEE_COLD_KEY, PATH_COMMITTEE_HOT_KEY, PATH_MINT_KEY}"
| "witness_kinds SIGN_TX_SIGNINGMODE_POOL_REGISTRATION_OWNER mint = {PATH_ORDINARY_STAKING_KEY}"
| "witness_kinds SIGN_TX_SIGNINGMODE_POOL_REGISTRATION_OPERATOR mint =
     {PATH_ORDINARY_PAYMENT_KEY, PATH_POOL_COLD_KEY}"

text \<open>
  C4. A witness is given only with a key of the kinds its signing mode allows; a mint key only
  with a mint in the transaction, except in a Plutus transaction; for a pool owner only with the
  very path the owner was given by. It is given without being shown only in an ordinary
  transaction, to a user who is not an expert, with a payment or staking key of the account of
  the transaction.
\<close>

theorem witness_keys_by_mode:
  assumes "path_ok p" "policyForSignTxWitness expert mode p mint owner st = Inr (policy, st')"
    and "policy \<noteq> DENY"
  shows "path_kind (elements p) \<in> witness_kinds mode mint \<and>
    (mode = SIGN_TX_SIGNINGMODE_POOL_REGISTRATION_OWNER \<longrightarrow>
      (\<exists>q. owner = Some q \<and> bip44_pathsEqual p q = Inr True)) \<and>
    (policy = ALLOW \<longrightarrow> mode = SIGN_TX_SIGNINGMODE_ORDINARY_TX \<and> \<not> expert \<and>
      path_kind (elements p) \<in> {PATH_ORDINARY_PAYMENT_KEY, PATH_ORDINARY_STAKING_KEY} \<and>
      isStored st' \<and> compatible (isByron st') (accountNumber st') p)"
proof (cases mode)
  case SIGN_TX_SIGNINGMODE_ORDINARY_TX
  then show ?thesis
    using assms passed_check [OF assms(1), of st st']
    by (auto simp: policyForSignTxWitness_def ordinaryWitnessPolicy_def classify_ok rule_simps split: if_splits)
next
  case SIGN_TX_SIGNINGMODE_POOL_REGISTRATION_OWNER
  then show ?thesis
    using assms by (auto simp: policyForSignTxWitness_def poolRegistrationOwnerWitnessPolicy_def classify_ok
        rule_simps split: if_splits option.splits)
qed (use assms in \<open>auto simp: policyForSignTxWitness_def multisigWitnessPolicy_def plutusWitnessPolicy_def
      poolRegistrationOperatorWitnessPolicy_def classify_ok rule_simps split: if_splits\<close>)

lemma witness_keys_by_mode_witness:
  "\<exists>st'. policyForSignTxWitness False SIGN_TX_SIGNINGMODE_POOL_REGISTRATION_OWNER staking_key False
     (Some staking_key) no_account = Inr (SHOW, st') \<and>
    path_kind (elements staking_key) \<in> witness_kinds SIGN_TX_SIGNINGMODE_POOL_REGISTRATION_OWNER False"
proof -
  have "bip44_pathsEqual staking_key staking_key = Inr True"
    by (simp add: bip44_pathsEqual_def staking_key_def upt_rec path_at_def)
  then have "policyForSignTxWitness False SIGN_TX_SIGNINGMODE_POOL_REGISTRATION_OWNER staking_key False
     (Some staking_key) no_account = Inr (SHOW, no_account)"
    by (simp add: policyForSignTxWitness_def with_acct_def poolRegistrationOwnerWitnessPolicy_def
        sample_keys decide.simps)
  then show ?thesis
    using witness_keys_by_mode [OF sample_keys(2)] by fastforce
qed

subsection \<open>Beginning a transaction\<close>

text \<open>
  C18. Every transaction is refused, prompted or warned about at its beginning, never let through
  silently. What is not refused has a valid network, and on the main network its magic; a pool
  registration has one certificate and none of the elements that could share its witnesses; only
  a Plutus transaction has collateral or reference inputs. The plain prompt is given only when
  the network can be seen in the transaction and is a usual one, and never for Plutus.
\<close>

theorem init_never_silent:
  "\<exists>p. policyForSignTxInit i = Inr p \<and> p \<in> {DENY, PROMPT, WARN} \<and>
    (p \<noteq> DENY \<longrightarrow>
      isValidNetworkId (ucast (initNetworkId i)) \<and>
      (initNetworkId i = 1 \<longrightarrow> initProtocolMagic i = MAINNET_PROTOCOL_MAGIC) \<and>
      (initMode i \<in> {SIGN_TX_SIGNINGMODE_POOL_REGISTRATION_OPERATOR, SIGN_TX_SIGNINGMODE_POOL_REGISTRATION_OWNER} \<longrightarrow>
        initNumCertificates i = 1 \<and> initNumWithdrawals i = 0 \<and> \<not> initMint i \<and> \<not> initScriptDataHash i \<and>
        initNumRequiredSigners i = 0 \<and> initNumVotingProcedures i = 0 \<and> \<not> initTreasury i \<and> \<not> initDonation i) \<and>
      (initMode i \<noteq> SIGN_TX_SIGNINGMODE_PLUTUS_TX \<longrightarrow>
        initNumCollateralInputs i = 0 \<and> \<not> initCollateralOutput i \<and> \<not> initTotalCollateral i \<and>
        initNumReferenceInputs i = 0)) \<and>
    (p = PROMPT \<longrightarrow> initMode i \<noteq> SIGN_TX_SIGNINGMODE_PLUTUS_TX \<and>
      isNetworkUsual (initNetworkId i) (initProtocolMagic i) \<and>
      isTxNetworkIdVerifiable (initWithNetworkId i) (ucast (initNumOutputs i)) (ucast (initNumWithdrawals i))
        (initMode i))"
  by (cases "initMode i")
    (simp_all add: policyForSignTxInit_def init_mode_rules_def decide.simps word_gt_0)

subsection \<open>Credentials of certificates\<close>

definition sample_init :: sign_tx_init_t where
  "sample_init = \<lparr>initMode = SIGN_TX_SIGNINGMODE_POOL_REGISTRATION_OWNER, initNetworkId = 1,
     initProtocolMagic = 764824073, initNumOutputs = 1, initNumCertificates = 1, initNumWithdrawals = 0,
     initMint = False, initScriptDataHash = False, initNumCollateralInputs = 0,
     initNumRequiredSigners = 0, initWithNetworkId = False, initCollateralOutput = False,
     initTotalCollateral = False, initNumReferenceInputs = 0, initNumVotingProcedures = 0,
     initTreasury = False, initDonation = False\<rparr>"

lemma init_never_silent_witness:
  "policyForSignTxInit sample_init = Inr PROMPT \<and> isValidNetworkId (ucast (initNetworkId sample_init)) \<and>
   isNetworkUsual (initNetworkId sample_init) (initProtocolMagic sample_init)"
proof -
  have "policyForSignTxInit sample_init = Inr PROMPT"
    by code_simp
  then show ?thesis
    using init_never_silent [of sample_init] by auto
qed

lemma decided_credential:
  assumes "decide_acct (pure_rule (DENY_IF (forbiddenCredential mode cred)) #
      credential_rules is_path cred) (Inr PROMPT) st = Inr (p, st')"
  shows "p \<in> {DENY, PROMPT} \<and> (p = PROMPT \<longrightarrow>
    (case mode of
       SIGN_TX_SIGNINGMODE_MULTISIG_TX \<Rightarrow> (\<exists>h. cred = EXT_CREDENTIAL_SCRIPT_HASH h)
     | SIGN_TX_SIGNINGMODE_ORDINARY_TX \<Rightarrow> (\<exists>q. cred = EXT_CREDENTIAL_KEY_PATH q)
     | SIGN_TX_SIGNINGMODE_PLUTUS_TX \<Rightarrow> True
     | _ \<Rightarrow> False) \<and>
    (\<forall>q. cred = EXT_CREDENTIAL_KEY_PATH q \<longrightarrow> is_path q = Inr True \<and>
      (path_ok q \<longrightarrow> isStored st' \<and> compatible (isByron st') (accountNumber st') q)))"
  using assms passed_check[of _ st st']
  by (cases mode; cases cred) (auto simp: forbiddenCredential_def credential_rules_def rule_simps)



subsection \<open>Addresses let through\<close>

text \<open>
  C38. The policies do not close the gap of the validation: a reward address by script with a
  pointer is shown, and one by key with a hash is accepted in a message to be signed, although
  deriving either reads a member of the staking union that was never written.
\<close>

theorem unwritten_member_derived:
  assumes "params_ok params" "misread_pair params" "57 \<le> n" "n < BUFFER_SIZE_PARANOIA"
    and "path_ok witness" "path_kind (elements witness) = PATH_ORDINARY_STAKING_KEY"
  shows "deriveAddress fw params n = Inl UNION_MISREAD \<and>
    (address_type params = REWARD_SCRIPT \<longrightarrow> policyForShowDeriveAddress params = Inr SHOW) \<and>
    (address_type params = REWARD_KEY \<longrightarrow>
      policyForSignMsg witness CIP8_ADDRESS_FIELD_ADDRESS params = Inr PROMPT)"
proof -
  obtain i where i: "network params = NetworkId i" "isValidNetworkId i"
    using assms(1,2) by (auto simp: params_ok_def network_ok_def misread_pair_def)
  have v: "isValidAddressParams params = Inr True"
    using assms(2) i by (auto simp: isValidAddressParams_def isValidStakingInfo_def
        isStakingInfoConsistentWithAddressType_def isValidPaymentInfo_def misread_pair_def)
  have "deriveAddress_reward fw params n = Inl UNION_MISREAD"
    by (rule misread_derived [OF assms(1,2) i(1) _ assms(4)]) (use assms(3) in simp)
  then have "deriveAddress fw params n = Inl UNION_MISREAD"
    using v assms(2-4) by (auto simp: deriveAddress_def misread_pair_def Let_def)
  then show ?thesis
    using v assms(2,5,6) by (auto simp: policyForShowDeriveAddress_def policyForDeriveAddress_def
        policyForSignMsg_def misread_pair_def classify_ok decide.simps)
qed

lemma unwritten_member_derived_witness:
  "deriveAddress sample_firmware \<lparr>address_type = REWARD_KEY, network = NetworkId 1,
     payment = PaymentKeyPath blank_path, stakingDataSource = STAKING_KEY_HASH,
     staking = StakingKeyHash (replicate 28 1)\<rparr> 128 = Inl UNION_MISREAD"
proof -
  let ?p = "\<lparr>address_type = REWARD_KEY, network = NetworkId 1,
     payment = PaymentKeyPath blank_path, stakingDataSource = STAKING_KEY_HASH,
     staking = StakingKeyHash (replicate 28 1)\<rparr>"
  have "params_ok ?p" "misread_pair ?p"
    by (simp_all add: params_ok_def isSupportedAddressType_def isValidStakingChoice_def network_ok_def
        isValidNetworkId_def payment_ok_def determinePaymentChoice_def staking_ok_def misread_pair_def)
  moreover have "path_kind (elements staking_key) = PATH_ORDINARY_STAKING_KEY"
    using sample_keys(2,4) by (simp add: classify_ok)
  ultimately show ?thesis
    using unwritten_member_derived [of ?p 128 staking_key] sample_keys(2) by auto
qed

end
