(* ===== verification/SignTxDialogue.thy ===== *)
theory SignTxDialogue
  imports WitnessPolicy ShelleyAddresses
begin

text \<open>
  What the dialogues of a transaction share: the stages and the common data of
  \<open>src/signTx/signTx.h\<close>, the frame a handler runs in, the screens of the \<open>*_ui.c\<close> files, and
  \<open>src/messageSigning/messageSigning.c\<close>.

  A handler runs from the arrival of a message to the moment the next one may arrive, so it
  includes the screens it sets up: they are recorded in the order they are displayed, with the
  data they show, and \<open>approve\<close> says whether the user confirms them all. Rejecting ends the
  call, as every error does. The labels are those of the Nano devices (\<open>HAVE_BAGL\<close>); how the
  data of a screen is turned into text is not modelled. The app is not called by the exchange
  app (\<open>G_called_from_swap\<close> is false).
\<close>

subsection \<open>The transaction's data\<close>

datatype sign_tx_stage_t =
    SIGN_STAGE_NONE | SIGN_STAGE_INIT
  | SIGN_STAGE_AUX_DATA | SIGN_STAGE_AUX_DATA_CVOTE_REGISTRATION_SUBMACHINE
  | SIGN_STAGE_BODY_INPUTS
  | SIGN_STAGE_BODY_OUTPUTS | SIGN_STAGE_BODY_OUTPUTS_SUBMACHINE
  | SIGN_STAGE_BODY_FEE | SIGN_STAGE_BODY_TTL
  | SIGN_STAGE_BODY_CERTIFICATES | SIGN_STAGE_BODY_CERTIFICATES_POOL_SUBMACHINE
  | SIGN_STAGE_BODY_WITHDRAWALS | SIGN_STAGE_BODY_VALIDITY_INTERVAL
  | SIGN_STAGE_BODY_MINT | SIGN_STAGE_BODY_MINT_SUBMACHINE
  | SIGN_STAGE_BODY_SCRIPT_DATA_HASH | SIGN_STAGE_BODY_COLLATERAL_INPUTS
  | SIGN_STAGE_BODY_REQUIRED_SIGNERS
  | SIGN_STAGE_BODY_COLLATERAL_OUTPUT | SIGN_STAGE_BODY_COLLATERAL_OUTPUT_SUBMACHINE
  | SIGN_STAGE_BODY_TOTAL_COLLATERAL | SIGN_STAGE_BODY_REFERENCE_INPUTS
  | SIGN_STAGE_BODY_VOTING_PROCEDURES | SIGN_STAGE_BODY_TREASURY | SIGN_STAGE_BODY_DONATION
  | SIGN_STAGE_CONFIRM | SIGN_STAGE_WITNESSES

record common_tx_data_t =
  txSigningMode :: sign_tx_signingmode_t
  txNetworkId :: u8
  txProtocolMagic :: u32
  singleAccountData :: single_account_data_t
  txTagCborSets :: bool

definition signTx_parseIncluded :: "u8 \<Rightarrow> bool res" where
  "signTx_parseIncluded value =
     (if value = 2 then Inr True else if value = 1 then Inr False else Inl ERR_INVALID_DATA)"

subsection \<open>Messages\<close>

text \<open>The data of a message; \<open>None\<close> is the null buffer that comes with size zero.\<close>

type_synonym wire_data = "bytes option"

definition wire_bytes :: "wire_data \<Rightarrow> bytes" where
  "wire_bytes data = (case data of None \<Rightarrow> [] | Some bs \<Rightarrow> bs)"

abbreviation (input) P1_UNUSED :: u8 where "P1_UNUSED \<equiv> 0"
abbreviation (input) P2_UNUSED :: u8 where "P2_UNUSED \<equiv> 0"

subsection \<open>Screens\<close>

datatype screen_data =
    TEXT string
  | QUESTION string
  | ADA_AMOUNT u64
  | ADDRESS bytes
  | BECH32 string bytes
  | HEX bytes
  | KEY_PATH bip44_path_t
  | ACCOUNT_PATH bip44_path_t
  | NETWORK_PARAMS u8 u32
  | VALIDITY_BOUNDARY u64
  | NUMBER nat
  | SIGNED_NUMBER int
  | DATA_PREFIX bytes
  | ASCII bytes
  | IP_ADDRESS "bytes option"
  | PORT "u16 option"

text \<open>
  A screen is its first line and what it shows below; those of \<open>ui_display...Screen\<close> functions that
  choose the first line themselves have their own constructors.
\<close>

datatype screen =
    SCREEN string screen_data
  | PAYMENT_INFO addressParams_t
  | STAKING_INFO addressParams_t
  | ASSET_FINGERPRINT bytes bytes
  | OUTPUT_TOKEN_AMOUNT bytes bytes u64
  | MINT_TOKEN_AMOUNT bytes bytes int
  | INPUT_SCREEN string nat tx_input_t
  | REWARD_ACCOUNT reward_account_t u8
  | STAKING_KEY bip44_path_t bool
  | POOL_OWNER key_reference_t nat u8
  | POOL_RELAY nat
  | SIZED_DATA string nat screen_data

text \<open>
  \<open>ui_displayRewardAccountScreen\<close> and \<open>ui_displayStakingKeyScreen\<close> of \<open>uiScreens_bagl.c\<close>, as far as
  they can fail before they show something.
\<close>

definition reward_account_screens :: "reward_account_t \<Rightarrow> u8 \<Rightarrow> screen list res" where
  "reward_account_screens rewardAccount netId =
     res_bind (ASSERT (isValidNetworkId netId)) (\<lambda>_.
     res_bind (case rewardAccount of
         KeyReferencePath p \<Rightarrow>
           res_bind (res_bind (bip44_isOrdinaryStakingKeyPath p) ASSERT) (\<lambda>_.
           res_bind (res_bind (bip44_getAccount p) unharden) (\<lambda>_. Inr ()))
       | KeyReferenceHash _ \<Rightarrow> Inr ()) (\<lambda>_.
       Inr [REWARD_ACCOUNT rewardAccount netId]))"

definition staking_key_screens :: "bip44_path_t \<Rightarrow> screen list res" where
  "staking_key_screens stakingPath =
     res_bind (res_bind (bip44_isOrdinaryStakingKeyPath stakingPath) ASSERT) (\<lambda>_.
     res_bind (bip44_isPathReasonable stakingPath) (\<lambda>reasonable.
       Inr [STAKING_KEY stakingPath reasonable]))"

text \<open>\<open>ui_displayUnusualWarning\<close>.\<close>

definition unusual_warning :: screen where
  "unusual_warning = SCREEN ''Unusual request'' (TEXT ''Proceed with care'')"

subsection \<open>The frame of a handler\<close>

text \<open>
  What a handler of a dialogue reads and writes: the dialogue's own context, the hash builder it
  feeds (that of the transaction or of the auxiliary data), the part of the transaction's context
  that it touches, and the data it answers with. \<open>poolOwnerByPath\<close> and \<open>poolOwnerPath\<close> are one option.
\<close>

record ('b, 'c) dialogue =
  dlgCommon :: common_tx_data_t
  dlgStage :: sign_tx_stage_t
  dlgTotalCollateral :: bool
  dlgDisplayTxid :: bool
  dlgPoolOwner :: "bip44_path_t option"
  dlgBuilder :: 'b
  dlgShown :: "screen list"
  dlgAnswer :: bytes
  dlgContext :: 'c

definition on_builder :: "'b stmt \<Rightarrow> ('b, 'c) dialogue stmt" where
  "on_builder s f = res_bind (s (dlgBuilder f)) (\<lambda>b. Inr (f\<lparr>dlgBuilder := b\<rparr>))"

definition on_context :: "'c stmt \<Rightarrow> ('b, 'c) dialogue stmt" where
  "on_context s f = res_bind (s (dlgContext f)) (\<lambda>c. Inr (f\<lparr>dlgContext := c\<rparr>))"

definition set_account :: "single_account_data_t \<Rightarrow> ('b, 'c) dialogue \<Rightarrow> ('b, 'c) dialogue" where
  "set_account acct f = f\<lparr>dlgCommon := (dlgCommon f)\<lparr>singleAccountData := acct\<rparr>\<rparr>"

text \<open>
  The \<open>*_ui_runStep\<close> functions: screens one after the other, recorded by \<open>record_shown\<close>, then the step
  that responds. When there are no screens the user is not asked.
\<close>

definition run_screens ::
  "(screen list \<Rightarrow> 's \<Rightarrow> 's) \<Rightarrow> bool \<Rightarrow> screen list \<Rightarrow> 's stmt \<Rightarrow> 's stmt" where
  "run_screens record_shown approve screens respond s =
     (if screens \<noteq> [] \<and> \<not> approve then Inl ERR_REJECTED_BY_USER
      else respond (record_shown screens s))"

lemma run_screens_Inr:
  "run_screens r approve screens respond s = Inr s' \<longleftrightarrow> (screens = [] \<or> approve) \<and> respond (r screens s) = Inr s'"
  by (auto simp: run_screens_def)

text \<open>
  The \<open>switch (policy)\<close> with \<open>CASE\<close> entries: the policies that lead to the screens, and
  \<open>POLICY_ALLOW_WITHOUT_PROMPT\<close>, which goes to the last step; the others are not implemented.
\<close>

definition select_screens ::
  "(screen list \<Rightarrow> 's \<Rightarrow> 's) \<Rightarrow> bool \<Rightarrow> security_policy_t list \<Rightarrow> security_policy_t \<Rightarrow>
   screen list \<Rightarrow> 's stmt \<Rightarrow> 's stmt" where
  "select_screens record_shown approve shownFor policy screens respond s =
     (if policy \<in> set shownFor then run_screens record_shown approve screens respond s
      else if policy = ALLOW then run_screens record_shown approve [] respond s
      else Inl ERR_NOT_IMPLEMENTED)"

definition ui_runSteps :: "bool \<Rightarrow> screen list \<Rightarrow> ('b, 'c) dialogue stmt \<Rightarrow> ('b, 'c) dialogue stmt" where
  "ui_runSteps = run_screens (\<lambda>screens f. f\<lparr>dlgShown := dlgShown f @ screens\<rparr>)"

definition ui_select ::
  "bool \<Rightarrow> security_policy_t list \<Rightarrow> security_policy_t \<Rightarrow> screen list \<Rightarrow> ('b, 'c) dialogue stmt \<Rightarrow> ('b, 'c) dialogue stmt" where
  "ui_select = select_screens (\<lambda>screens f. f\<lparr>dlgShown := dlgShown f @ screens\<rparr>)"

definition no_more_data :: "read_view_t \<Rightarrow> unit res" where
  "no_more_data view =
     res_bind (read_view_remaining_size view) (\<lambda>n. VALIDATE (n = 0) ERR_INVALID_DATA)"

abbreviation (input) OUTPUT_ASSET_GROUPS_MAX :: u32 where "OUTPUT_ASSET_GROUPS_MAX \<equiv> 65535"
abbreviation (input) OUTPUT_TOKENS_IN_GROUP_MAX :: u32 where "OUTPUT_TOKENS_IN_GROUP_MAX \<equiv> 65535"

subsection \<open>Signatures\<close>

definition signRawMessageWithPath :: "firmware \<Rightarrow> bip44_path_t \<Rightarrow> bytes \<Rightarrow> nat \<Rightarrow> bytes res" where
  "signRawMessageWithPath fw pathSpec message outSize =
     res_bind (ASSERT (length message < BUFFER_SIZE_PARANOIA)) (\<lambda>_.
     res_bind (ASSERT (outSize = ED25519_SIGNATURE_LENGTH)) (\<lambda>_.
     res_bind (ASSERT (unat (path_length pathSpec) \<le> length (path pathSpec))) (\<lambda>_.
     res_bind (policyForDerivePrivateKey pathSpec) (\<lambda>policy.
     res_bind (ASSERT (policy \<noteq> POLICY_DENY)) (\<lambda>_.
     case eddsa_sign fw (take (unat (path_length pathSpec)) (path pathSpec)) message of
       None \<Rightarrow> Inl ERR_ASSERT
     | Some signature \<Rightarrow>
         res_bind (ASSERT (length signature = ED25519_SIGNATURE_LENGTH)) (\<lambda>_. Inr signature))))))"

definition getWitness :: "firmware \<Rightarrow> bip44_path_t \<Rightarrow> bytes \<Rightarrow> nat \<Rightarrow> bytes res" where
  "getWitness fw pathSpec hash outSize =
     res_bind (ASSERT (outSize < BUFFER_SIZE_PARANOIA)) (\<lambda>_.
       signRawMessageWithPath fw pathSpec hash outSize)"

definition getCVoteRegistrationSignature ::
  "firmware \<Rightarrow> bip44_path_t \<Rightarrow> bytes \<Rightarrow> nat \<Rightarrow> bytes res" where
  "getCVoteRegistrationSignature fw pathSpec hash outSize =
     res_bind (ASSERT (length hash = CVOTE_REGISTRATION_PAYLOAD_HASH_LENGTH)) (\<lambda>_.
     res_bind (ASSERT (outSize < BUFFER_SIZE_PARANOIA)) (\<lambda>_.
       signRawMessageWithPath fw pathSpec hash outSize))"

abbreviation (input) OP_CERT_BODY_LENGTH :: nat where "OP_CERT_BODY_LENGTH \<equiv> 48"

definition getOpCertSignature :: "firmware \<Rightarrow> bip44_path_t \<Rightarrow> bytes \<Rightarrow> nat \<Rightarrow> bytes res" where
  "getOpCertSignature fw pathSpec opCertBody outSize =
     res_bind (res_bind (bip44_isPoolColdKeyPath pathSpec) ASSERT) (\<lambda>_.
     res_bind (ASSERT (length opCertBody = OP_CERT_BODY_LENGTH)) (\<lambda>_.
     res_bind (ASSERT (outSize < BUFFER_SIZE_PARANOIA)) (\<lambda>_.
       signRawMessageWithPath fw pathSpec opCertBody outSize)))"

end
