(* ===== verification/SignTxOutput.thy ===== *)
theory SignTxOutput
  imports SignTxDialogue
begin

text \<open>
  \<open>src/signTx/signTxOutput.c\<close> and \<open>.h\<close>, with the steps of \<open>signTxOutput_ui.c\<close>: the dialogue that
  receives one output (or the collateral return output) in pieces, asks the policies, feeds the
  transaction hash builder and shows the pieces to the user.
  Both kinds of output share the dialogue; \<open>ctx->stage\<close> tells them apart where it matters.
\<close>

subsection \<open>The dialogue's context\<close>

datatype sign_tx_output_state_t =
    STATE_OUTPUT_TOP_LEVEL_DATA
  | STATE_OUTPUT_ASSET_GROUP
  | STATE_OUTPUT_TOKEN
  | STATE_OUTPUT_DATUM
  | STATE_OUTPUT_DATUM_INLINE_CHUNKS
  | STATE_OUTPUT_REFERENCE_SCRIPT
  | STATE_OUTPUT_REFERENCE_SCRIPT_CHUNKS
  | STATE_OUTPUT_CONFIRM
  | STATE_OUTPUT_FINISHED

text \<open>
  The union \<open>stateData\<close>. The members of its multiasset struct that were not written since the
  union took that form are \<open>None\<close>.
\<close>

record token_data =
  tdPolicyId :: "bytes option"
  tdTokenName :: "bytes option"
  tdTokenAmount :: u64
  tdCurrentAssetGroup :: u16
  tdCurrentToken :: u16
  tdNumTokens :: u16

datatype output_state_data =
    OUTPUT_DATA_ZERO
  | OUTPUT_DATA_DESTINATION "addressParams_t tx_output_destination_t" u64 security_policy_t
  | OUTPUT_DATA_TOKENS token_data
  | OUTPUT_DATA_DATUM_HASH bytes
  | OUTPUT_DATA_DATUM_INLINE nat bytes
  | OUTPUT_DATA_SCRIPT nat bytes

text \<open>
  The counters of the multiasset struct are read before they are written, while the memory
  still holds the destination. On the devices \<open>currentAssetGroup\<close>, \<open>currentToken\<close> and
  \<open>numTokens\<close> are at bytes 80 to 85 of the union: the policy id takes 28 bytes, the token starts
  at the next multiple of 8 and takes 32 bytes of name, 4 of size, 4 of padding and 8 of amount.
  The buffer of a third-party address starts at byte 4, so they are its bytes 76 to 81, little
  endian; the memory behind a shorter address was cleared when the dialogue began. The struct
  of a device-owned address ends before byte 80.
\<close>

definition buffer_u16 :: "bytes \<Rightarrow> nat \<Rightarrow> u16" where
  "buffer_u16 address i =
     (let byte = (\<lambda>j. if j < length address then ucast (address ! j) else 0)
      in byte i OR push_bit 8 (byte (i + 1)))"

definition multiasset_data :: "output_state_data \<Rightarrow> token_data res" where
  "multiasset_data data = (case data of
       OUTPUT_DATA_ZERO \<Rightarrow> Inr \<lparr>tdPolicyId = None, tdTokenName = None, tdTokenAmount = 0,
         tdCurrentAssetGroup = 0, tdCurrentToken = 0, tdNumTokens = 0\<rparr>
     | OUTPUT_DATA_DESTINATION (DESTINATION_THIRD_PARTY address) _ _ \<Rightarrow>
         Inr \<lparr>tdPolicyId = None, tdTokenName = None, tdTokenAmount = 0,
           tdCurrentAssetGroup = buffer_u16 address 76, tdCurrentToken = buffer_u16 address 78,
           tdNumTokens = buffer_u16 address 80\<rparr>
     | OUTPUT_DATA_DESTINATION (DESTINATION_DEVICE_OWNED _) _ _ \<Rightarrow>
         Inr \<lparr>tdPolicyId = None, tdTokenName = None, tdTokenAmount = 0,
           tdCurrentAssetGroup = 0, tdCurrentToken = 0, tdNumTokens = 0\<rparr>
     | OUTPUT_DATA_TOKENS t \<Rightarrow> Inr t
     | _ \<Rightarrow> Inl UNION_MISREAD)"

record output_context_t =
  ocState :: sign_tx_output_state_t
  ocFormat :: tx_output_serialization_format_t
  ocNumAssetGroups :: u16
  ocIncludeDatum :: bool
  ocDatumHashReceived :: bool
  ocIncludeRefScript :: bool
  ocPolicy :: security_policy_t
  ocTokensPolicy :: security_policy_t
  ocData :: output_state_data

text \<open>Everything is zeroed; zero is no policy, and both are written before they are read.\<close>

definition initializeOutputSubmachine :: output_context_t where
  "initializeOutputSubmachine = \<lparr>ocState = STATE_OUTPUT_TOP_LEVEL_DATA, ocFormat = ARRAY_LEGACY,
     ocNumAssetGroups = 0, ocIncludeDatum = False, ocDatumHashReceived = False,
     ocIncludeRefScript = False, ocPolicy = POLICY_DENY, ocTokensPolicy = POLICY_DENY,
     ocData = OUTPUT_DATA_ZERO\<rparr>"

definition isCurrentOutputFinished :: "output_context_t \<Rightarrow> bool" where
  "isCurrentOutputFinished c \<longleftrightarrow> ocState c = STATE_OUTPUT_FINISHED"

definition state_after_datum :: "output_context_t \<Rightarrow> sign_tx_output_state_t" where
  "state_after_datum c =
     (if ocIncludeRefScript c then STATE_OUTPUT_REFERENCE_SCRIPT else STATE_OUTPUT_CONFIRM)"

definition state_after_tokens :: "output_context_t \<Rightarrow> sign_tx_output_state_t" where
  "state_after_tokens c = (if ocIncludeDatum c then STATE_OUTPUT_DATUM else state_after_datum c)"

definition tx_output_advanceState :: "output_context_t stmt" where
  "tx_output_advanceState c = (case ocState c of
       STATE_OUTPUT_TOP_LEVEL_DATA \<Rightarrow>
         if ocNumAssetGroups c > 0
         then res_bind (multiasset_data (ocData c)) (\<lambda>t.
           res_bind (ASSERT (tdCurrentAssetGroup t = 0)) (\<lambda>_.
             Inr (c\<lparr>ocState := STATE_OUTPUT_ASSET_GROUP\<rparr>)))
         else Inr (c\<lparr>ocState := state_after_tokens c\<rparr>)
     | STATE_OUTPUT_ASSET_GROUP \<Rightarrow>
         res_bind (multiasset_data (ocData c)) (\<lambda>t.
         res_bind (ASSERT (tdCurrentAssetGroup t < ocNumAssetGroups c)) (\<lambda>_.
         res_bind (ASSERT (tdNumTokens t > 0)) (\<lambda>_.
         res_bind (ASSERT (tdCurrentToken t = 0)) (\<lambda>_.
           Inr (c\<lparr>ocState := STATE_OUTPUT_TOKEN\<rparr>)))))
     | STATE_OUTPUT_TOKEN \<Rightarrow>
         res_bind (multiasset_data (ocData c)) (\<lambda>t.
         res_bind (ASSERT (tdCurrentToken t = tdNumTokens t)) (\<lambda>_.
         let t = t\<lparr>tdCurrentToken := 0\<rparr> in
         res_bind (ASSERT (tdCurrentAssetGroup t < ocNumAssetGroups c)) (\<lambda>_.
         let t = t\<lparr>tdCurrentAssetGroup := tdCurrentAssetGroup t + 1\<rparr> in
           Inr (c\<lparr>ocData := OUTPUT_DATA_TOKENS t,
             ocState := (if tdCurrentAssetGroup t = ocNumAssetGroups c then state_after_tokens c
               else STATE_OUTPUT_ASSET_GROUP)\<rparr>))))
     | STATE_OUTPUT_DATUM \<Rightarrow>
         res_bind (ASSERT (ocIncludeDatum c)) (\<lambda>_.
         case ocData c of
           OUTPUT_DATA_DATUM_HASH _ \<Rightarrow>
             res_bind (ASSERT (ocDatumHashReceived c)) (\<lambda>_. Inr (c\<lparr>ocState := state_after_datum c\<rparr>))
         | OUTPUT_DATA_DATUM_INLINE remaining _ \<Rightarrow>
             Inr (c\<lparr>ocState := (if remaining > 0 then STATE_OUTPUT_DATUM_INLINE_CHUNKS
               else state_after_datum c)\<rparr>)
         | _ \<Rightarrow> Inl UNION_MISREAD)
     | STATE_OUTPUT_DATUM_INLINE_CHUNKS \<Rightarrow>
         res_bind (ASSERT (ocIncludeDatum c)) (\<lambda>_.
         case ocData c of
           OUTPUT_DATA_DATUM_INLINE remaining _ \<Rightarrow>
             res_bind (ASSERT (remaining = 0)) (\<lambda>_. Inr (c\<lparr>ocState := state_after_datum c\<rparr>))
         | _ \<Rightarrow> Inl UNION_MISREAD)
     | STATE_OUTPUT_REFERENCE_SCRIPT \<Rightarrow>
         res_bind (ASSERT (ocIncludeRefScript c)) (\<lambda>_.
         case ocData c of
           OUTPUT_DATA_SCRIPT remaining _ \<Rightarrow>
             Inr (c\<lparr>ocState := (if remaining > 0 then STATE_OUTPUT_REFERENCE_SCRIPT_CHUNKS
               else STATE_OUTPUT_CONFIRM)\<rparr>)
         | _ \<Rightarrow> Inl UNION_MISREAD)
     | STATE_OUTPUT_REFERENCE_SCRIPT_CHUNKS \<Rightarrow>
         (case ocData c of
           OUTPUT_DATA_SCRIPT remaining _ \<Rightarrow>
             res_bind (ASSERT (remaining = 0)) (\<lambda>_. Inr (c\<lparr>ocState := STATE_OUTPUT_CONFIRM\<rparr>))
         | _ \<Rightarrow> Inl UNION_MISREAD)
     | STATE_OUTPUT_CONFIRM \<Rightarrow> Inr (c\<lparr>ocState := STATE_OUTPUT_FINISHED\<rparr>)
     | STATE_OUTPUT_FINISHED \<Rightarrow> Inl ERR_ASSERT)"

subsection \<open>Steps\<close>

type_synonym output_dialogue = "(tx_hash_builder_t, output_context_t) dialogue"

definition CHECK_STATE_output :: "sign_tx_output_state_t \<Rightarrow> output_dialogue stmt" where
  "CHECK_STATE_output expected f =
     (if ocState (dlgContext f) = expected then Inr f else Inl ERR_INVALID_STATE)"

definition set_data :: "output_state_data \<Rightarrow> output_dialogue \<Rightarrow> output_dialogue" where
  "set_data d f = f\<lparr>dlgContext := (dlgContext f)\<lparr>ocData := d\<rparr>\<rparr>"

text \<open>\<open>respondSuccessEmptyMsg\<close> sends the answer; the state advances with it.\<close>

definition respond_and_advance :: "output_dialogue stmt" where
  "respond_and_advance = on_context tx_output_advanceState"

subsection \<open>Top level data\<close>

abbreviation (input) LOVELACE_MAX_SUPPLY :: u64 where "LOVELACE_MAX_SUPPLY \<equiv> 45000000000000000"
abbreviation (input) MAX_CHUNK_SIZE :: nat where "MAX_CHUNK_SIZE \<equiv> 240"

definition isValidOutputSerializationFormat :: "u8 \<Rightarrow> tx_output_serialization_format_t res" where
  "isValidOutputSerializationFormat format =
     (if format = 0 then Inr ARRAY_LEGACY else if format = 1 then Inr MAP_BABBAGE
      else Inl ERR_INVALID_DATA)"

definition parseTopLevelData :: "bytes \<Rightarrow> output_dialogue stmt" where
  "parseTopLevelData wire f =
     res_bind (CHECK_STATE_output STATE_OUTPUT_TOP_LEVEL_DATA f) (\<lambda>f.
     res_bind (parse_u1be (make_read_view wire)) (\<lambda>(formatByte, view).
     res_bind (isValidOutputSerializationFormat formatByte) (\<lambda>format.
     res_bind (view_parseDestination blank_params view) (\<lambda>(destination, view).
     res_bind (parse_u8be view) (\<lambda>(adaAmount, view).
     res_bind (VALIDATE (adaAmount < LOVELACE_MAX_SUPPLY) ERR_INVALID_DATA) (\<lambda>_.
     res_bind (parse_u4be view) (\<lambda>(numAssetGroups, view).
     res_bind (VALIDATE (numAssetGroups \<le> OUTPUT_ASSET_GROUPS_MAX) ERR_INVALID_DATA) (\<lambda>_.
     res_bind (parse_u1be view) (\<lambda>(datumByte, view).
     res_bind (signTx_parseIncluded datumByte) (\<lambda>withDatum.
     res_bind (parse_u1be view) (\<lambda>(scriptByte, view).
     res_bind (signTx_parseIncluded scriptByte) (\<lambda>withScript.
     res_bind (no_more_data view) (\<lambda>_.
       Inr (f\<lparr>dlgDisplayTxid := dlgDisplayTxid f \<or> withDatum \<or> withScript,
         dlgContext := (dlgContext f)\<lparr>ocFormat := format, ocNumAssetGroups := ucast numAssetGroups,
           ocIncludeDatum := withDatum, ocIncludeRefScript := withScript,
           ocData := OUTPUT_DATA_DESTINATION destination adaAmount POLICY_DENY\<rparr>\<rparr>))))))))))))))"

text \<open>The description handed to the policies and the builder, with the stored destination.\<close>

definition output_description :: "output_context_t \<Rightarrow> addressParams_t tx_output_destination_t \<Rightarrow> u64 \<Rightarrow> output_t" where
  "output_description c destination amount =
     \<lparr>outFormat = ocFormat c, outDestination = destination, outAmount = amount,
      outNumAssetGroups = ocNumAssetGroups c, outIncludeDatum = ocIncludeDatum c,
      outIncludeRefScript = ocIncludeRefScript c\<rparr>"

definition set_policies :: "security_policy_t \<Rightarrow> security_policy_t \<Rightarrow> output_dialogue \<Rightarrow> output_dialogue" where
  "set_policies policy tokensPolicy f =
     f\<lparr>dlgContext := (dlgContext f)\<lparr>ocPolicy := policy, ocTokensPolicy := tokensPolicy\<rparr>\<rparr>"

text \<open>The screens of \<open>signTx_handleOutput_address_bytes_ui_runStep\<close>.\<close>

definition output_address_bytes_screens :: "bytes \<Rightarrow> u64 \<Rightarrow> bool \<Rightarrow> screen list" where
  "output_address_bytes_screens address adaAmount missingDatum =
     [SCREEN ''Send to address'' (ADDRESS address)] @
     (if missingDatum then [SCREEN ''WARNING: output'' (TEXT ''could be unspendable due to missing datum'')]
      else []) @
     [SCREEN ''Send'' (ADA_AMOUNT adaAmount)]"

definition handleOutput_addressBytes :: "firmware \<Rightarrow> bool \<Rightarrow> bytes \<Rightarrow> u64 \<Rightarrow> output_dialogue stmt" where
  "handleOutput_addressBytes fw approve address adaAmount f =
     (let destination = DESTINATION_THIRD_PARTY address;
          out = output_description (dlgContext f) destination adaAmount in
     res_bind (policyForSignTxOutputAddressBytes fw out (txSigningMode (dlgCommon f))
       (txNetworkId (dlgCommon f)) (txProtocolMagic (dlgCommon f))) (\<lambda>policy.
     res_bind (ENSURE_NOT_DENIED policy) (\<lambda>_.
     res_bind (on_builder (txHashBuilder_addOutput_topLevelData out) (set_policies policy policy f)) (\<lambda>f.
     res_bind (if policy \<in> {WARN, SHOW}
         then needsMissingDatumWarning destination (ocIncludeDatum (dlgContext f)) else Inr False) (\<lambda>missing.
       ui_select approve [WARN, SHOW] policy (output_address_bytes_screens address adaAmount missing)
         respond_and_advance f)))))"

text \<open>The screens of \<open>signTx_handleOutput_addressParams_ui_runStep\<close>, used by both kinds of output.\<close>

definition address_params_screens :: "string \<Rightarrow> string \<Rightarrow> string \<Rightarrow> string \<Rightarrow> addressParams_t \<Rightarrow>
    bytes \<Rightarrow> u64 \<Rightarrow> security_policy_t \<Rightarrow> screen list" where
  "address_params_screens text1 text2 text3 text4 params address adaAmount adaAmountPolicy =
     [SCREEN text1 (TEXT text2), PAYMENT_INFO params,
      STAKING_INFO params, SCREEN text3 (ADDRESS address)] @
     (if adaAmountPolicy = ALLOW then [] else [SCREEN text4 (ADA_AMOUNT adaAmount)])"

definition derive_output_address :: "firmware \<Rightarrow> addressParams_t \<Rightarrow> bytes res" where
  "derive_output_address fw params =
     res_bind (deriveAddress fw params MAX_ADDRESS_SIZE) (\<lambda>address.
     res_bind (ASSERT (length address > 0)) (\<lambda>_.
     res_bind (ASSERT (length address \<le> MAX_ADDRESS_SIZE)) (\<lambda>_. Inr address)))"

definition handleOutput_addressParams ::
  "firmware \<Rightarrow> bool \<Rightarrow> bool \<Rightarrow> addressParams_t \<Rightarrow> u64 \<Rightarrow> output_dialogue stmt" where
  "handleOutput_addressParams fw expert approve params adaAmount f =
     (let out = output_description (dlgContext f) (DESTINATION_DEVICE_OWNED params) adaAmount in
     res_bind (policyForSignTxOutputAddressParams expert out (txSigningMode (dlgCommon f))
       (txNetworkId (dlgCommon f)) (txProtocolMagic (dlgCommon f)) (singleAccountData (dlgCommon f)))
       (\<lambda>(policy, acct).
     res_bind (ENSURE_NOT_DENIED policy) (\<lambda>_.
     res_bind (derive_output_address fw params) (\<lambda>address.
     res_bind (on_builder (txHashBuilder_addOutput_topLevelData
         (out\<lparr>outDestination := DESTINATION_THIRD_PARTY address\<rparr>))
       (set_policies policy policy (set_account acct f))) (\<lambda>f.
       ui_select approve [WARN, SHOW] policy (address_params_screens ''Change'' ''output'' ''Address'' ''Send''
           params address adaAmount SHOW)
         respond_and_advance
         (set_data (OUTPUT_DATA_DESTINATION (DESTINATION_DEVICE_OWNED params) adaAmount SHOW) f))))))"

definition handleTopLevelDataAPDU_output ::
  "firmware \<Rightarrow> bool \<Rightarrow> bool \<Rightarrow> bytes \<Rightarrow> output_dialogue stmt" where
  "handleTopLevelDataAPDU_output fw expert approve wire f =
     res_bind (CHECK_STATE_output STATE_OUTPUT_TOP_LEVEL_DATA f) (\<lambda>f.
     res_bind (parseTopLevelData wire f) (\<lambda>f.
     case ocData (dlgContext f) of
       OUTPUT_DATA_DESTINATION (DESTINATION_THIRD_PARTY address) adaAmount _ \<Rightarrow>
         handleOutput_addressBytes fw approve address adaAmount f
     | OUTPUT_DATA_DESTINATION (DESTINATION_DEVICE_OWNED params) adaAmount _ \<Rightarrow>
         handleOutput_addressParams fw expert approve params adaAmount f
     | _ \<Rightarrow> Inl ERR_ASSERT))"

subsection \<open>Top level data of the collateral return output\<close>

text \<open>The screens of \<open>signTx_handleCollateralOutput_addressBytes_ui_runStep\<close>.\<close>

definition collateral_address_bytes_screens :: "bytes \<Rightarrow> u64 \<Rightarrow> security_policy_t \<Rightarrow> screen list" where
  "collateral_address_bytes_screens address adaAmount adaAmountPolicy =
     [SCREEN ''Collateral'' (TEXT ''return output''), SCREEN ''Address'' (ADDRESS address)] @
     (if adaAmountPolicy = ALLOW then [] else [SCREEN ''Amount'' (ADA_AMOUNT adaAmount)])"

definition handleCollateralOutput_addressBytes ::
  "firmware \<Rightarrow> bool \<Rightarrow> bool \<Rightarrow> bytes \<Rightarrow> u64 \<Rightarrow> output_dialogue stmt" where
  "handleCollateralOutput_addressBytes fw expert approve address adaAmount f =
     (let destination = DESTINATION_THIRD_PARTY address;
          out = output_description (dlgContext f) destination adaAmount in
     res_bind (policyForSignTxCollateralOutputAddressBytes fw out (txSigningMode (dlgCommon f))
       (txNetworkId (dlgCommon f)) (txProtocolMagic (dlgCommon f))) (\<lambda>policy.
     res_bind (ENSURE_NOT_DENIED policy) (\<lambda>_.
     res_bind (policyForSignTxCollateralOutputTokens expert policy out) (\<lambda>tokensPolicy.
     res_bind (ENSURE_NOT_DENIED tokensPolicy) (\<lambda>_.
     res_bind (policyForSignTxCollateralOutputAdaAmount expert policy (dlgTotalCollateral f)) (\<lambda>adaPolicy.
     res_bind (ENSURE_NOT_DENIED adaPolicy) (\<lambda>_.
     res_bind (on_builder (txHashBuilder_addCollateralOutput out)
       (set_data (OUTPUT_DATA_DESTINATION destination adaAmount adaPolicy)
         (set_policies policy tokensPolicy f)))
       (ui_select approve [SHOW] policy (collateral_address_bytes_screens address adaAmount adaPolicy)
         respond_and_advance))))))))"

definition handleCollateralOutput_addressParams ::
  "firmware \<Rightarrow> bool \<Rightarrow> bool \<Rightarrow> addressParams_t \<Rightarrow> u64 \<Rightarrow> output_dialogue stmt" where
  "handleCollateralOutput_addressParams fw expert approve params adaAmount f =
     (let destination = DESTINATION_DEVICE_OWNED params;
          out = output_description (dlgContext f) destination adaAmount in
     res_bind (policyForSignTxCollateralOutputAddressParams out (txSigningMode (dlgCommon f))
       (txNetworkId (dlgCommon f)) (txProtocolMagic (dlgCommon f)) (dlgTotalCollateral f)
       (singleAccountData (dlgCommon f))) (\<lambda>(policy, acct).
     res_bind (ENSURE_NOT_DENIED policy) (\<lambda>_.
     res_bind (policyForSignTxCollateralOutputTokens expert policy out) (\<lambda>tokensPolicy.
     res_bind (ENSURE_NOT_DENIED tokensPolicy) (\<lambda>_.
     res_bind (policyForSignTxCollateralOutputAdaAmount expert policy (dlgTotalCollateral f)) (\<lambda>adaPolicy.
     res_bind (ENSURE_NOT_DENIED adaPolicy) (\<lambda>_.
     res_bind (derive_output_address fw params) (\<lambda>address.
     res_bind (on_builder (txHashBuilder_addCollateralOutput
         (out\<lparr>outDestination := DESTINATION_THIRD_PARTY address\<rparr>))
       (set_data (OUTPUT_DATA_DESTINATION destination adaAmount adaPolicy)
         (set_policies policy tokensPolicy (set_account acct f))))
       (ui_select approve [SHOW] policy (address_params_screens ''Collateral'' ''return output'' ''Address''
           ''Amount'' params address adaAmount adaPolicy)
         respond_and_advance)))))))))"

definition handleTopLevelDataAPDU_collateralOutput ::
  "firmware \<Rightarrow> bool \<Rightarrow> bool \<Rightarrow> bytes \<Rightarrow> output_dialogue stmt" where
  "handleTopLevelDataAPDU_collateralOutput fw expert approve wire f =
     res_bind (CHECK_STATE_output STATE_OUTPUT_TOP_LEVEL_DATA f) (\<lambda>f.
     res_bind (parseTopLevelData wire f) (\<lambda>f.
     case ocData (dlgContext f) of
       OUTPUT_DATA_DESTINATION (DESTINATION_THIRD_PARTY address) adaAmount _ \<Rightarrow>
         handleCollateralOutput_addressBytes fw expert approve address adaAmount f
     | OUTPUT_DATA_DESTINATION (DESTINATION_DEVICE_OWNED params) adaAmount _ \<Rightarrow>
         handleCollateralOutput_addressParams fw expert approve params adaAmount f
     | _ \<Rightarrow> Inl ERR_ASSERT))"

subsection \<open>Tokens\<close>

text \<open>The order of map keys, checked when an entry is not the first of its map.\<close>

definition validate_order :: "bool \<Rightarrow> bytes option \<Rightarrow> bytes \<Rightarrow> unit res" where
  "validate_order first previous next =
     (if first then Inr ()
      else case previous of
        None \<Rightarrow> Inl UNION_MISREAD
      | Some previous \<Rightarrow> res_bind (cbor_mapKeyFulfillsCanonicalOrdering previous next)
          (\<lambda>ordered. VALIDATE ordered ERR_INVALID_DATA))"

text \<open>The wire form of an asset group, parsed the same way by the outputs and the mint.\<close>

definition parse_asset_group :: "bool \<Rightarrow> bytes option \<Rightarrow> bytes \<Rightarrow> (bytes \<times> u16) res" where
  "parse_asset_group first previous wire =
     res_bind (view_parseBuffer MINTING_POLICY_ID_SIZE (make_read_view wire)) (\<lambda>(policyId, view).
     res_bind (validate_order first previous policyId) (\<lambda>_.
     res_bind (parse_u4be view) (\<lambda>(numTokens, view).
     res_bind (VALIDATE (numTokens \<le> OUTPUT_TOKENS_IN_GROUP_MAX) ERR_INVALID_DATA) (\<lambda>_.
     res_bind (VALIDATE (numTokens > 0) ERR_INVALID_DATA) (\<lambda>_.
     res_bind (no_more_data view) (\<lambda>_.
       Inr (policyId, ucast numTokens)))))))"

definition parse_asset_name :: "bool \<Rightarrow> bytes option \<Rightarrow> bytes parser" where
  "parse_asset_name first previous view =
     res_bind (parse_u4be view) (\<lambda>(n, view).
     res_bind (VALIDATE (unat n \<le> ASSET_NAME_SIZE_MAX) ERR_INVALID_DATA) (\<lambda>_.
     res_bind (view_parseBuffer (unat n) view) (\<lambda>(name, view).
     res_bind (validate_order first previous name) (\<lambda>_.
       Inr (name, view)))))"

text \<open>The builder call of the kind of output that is being received.\<close>

definition by_stage :: "sign_tx_stage_t \<Rightarrow> tx_hash_builder_t stmt \<Rightarrow> tx_hash_builder_t stmt \<Rightarrow>
    tx_hash_builder_t stmt" where
  "by_stage stage output collateral b =
     (if stage = SIGN_STAGE_BODY_OUTPUTS_SUBMACHINE then output b
      else if stage = SIGN_STAGE_BODY_COLLATERAL_OUTPUT_SUBMACHINE then collateral b
      else Inl ERR_ASSERT)"

definition handleAssetGroupAPDU :: "bytes \<Rightarrow> output_dialogue stmt" where
  "handleAssetGroupAPDU wire f =
     res_bind (CHECK_STATE_output STATE_OUTPUT_ASSET_GROUP f) (\<lambda>f.
     res_bind (multiasset_data (ocData (dlgContext f))) (\<lambda>t.
     res_bind (parse_asset_group (tdCurrentAssetGroup t = 0) (tdPolicyId t) wire) (\<lambda>(policyId, n).
     res_bind (on_builder (by_stage (dlgStage f)
         (txHashBuilder_addOutput_tokenGroup policyId n)
         (txHashBuilder_addCollateralOutput_tokenGroup policyId n))
       (set_data (OUTPUT_DATA_TOKENS (t\<lparr>tdPolicyId := Some policyId, tdNumTokens := n\<rparr>)) f))
       respond_and_advance)))"

text \<open>The last step of a token, which counts it.\<close>

definition respond_token :: "output_dialogue stmt" where
  "respond_token f =
     res_bind (multiasset_data (ocData (dlgContext f))) (\<lambda>t.
     res_bind (ASSERT (tdCurrentToken t < tdNumTokens t)) (\<lambda>_.
     let t = t\<lparr>tdCurrentToken := tdCurrentToken t + 1\<rparr>;
         f = set_data (OUTPUT_DATA_TOKENS t) f in
     if tdCurrentToken t = tdNumTokens t then on_context tx_output_advanceState f else Inr f))"

text \<open>The screens of \<open>handleToken_ui_runStep\<close>.\<close>

definition token_screens :: "bytes \<Rightarrow> bytes \<Rightarrow> u64 \<Rightarrow> screen list" where
  "token_screens policyId name amount =
     [ASSET_FINGERPRINT policyId name, OUTPUT_TOKEN_AMOUNT policyId name amount]"

definition written :: "'a option \<Rightarrow> 'a res" where
  "written x = (case x of None \<Rightarrow> Inl UNION_MISREAD | Some v \<Rightarrow> Inr v)"

definition handleTokenAPDU :: "bool \<Rightarrow> bytes \<Rightarrow> output_dialogue stmt" where
  "handleTokenAPDU approve wire f =
     res_bind (CHECK_STATE_output STATE_OUTPUT_TOKEN f) (\<lambda>f.
     res_bind (multiasset_data (ocData (dlgContext f))) (\<lambda>t.
     res_bind (parse_asset_name (tdCurrentToken t = 0) (tdTokenName t) (make_read_view wire)) (\<lambda>(name, view).
     res_bind (parse_u8be view) (\<lambda>(amount, view).
     res_bind (no_more_data view) (\<lambda>_.
     res_bind (written (tdPolicyId t)) (\<lambda>policyId.
     res_bind (on_builder (by_stage (dlgStage f)
         (txHashBuilder_addOutput_token name amount)
         (txHashBuilder_addCollateralOutput_token name amount))
       (set_data (OUTPUT_DATA_TOKENS (t\<lparr>tdTokenName := Some name, tdTokenAmount := amount\<rparr>)) f))
       (ui_select approve [WARN, SHOW] (ocTokensPolicy (dlgContext f))
         (token_screens policyId name amount) respond_token)))))))"

subsection \<open>Datums and reference scripts\<close>

text \<open>
  The first chunk of an inline datum or of a script: its total size, the size of the chunk and
  the chunk. The first chunk of a datum, and every chunk of a script after the first, must have the
  maximal size when that many bytes are left (\<open>forced\<close>); the others need not.
\<close>

definition parse_chunk :: "bool \<Rightarrow> nat \<Rightarrow> bytes parser" where
  "parse_chunk forced remaining view =
     res_bind (parse_u4be view) (\<lambda>(size, view).
     res_bind (VALIDATE (size > 0) ERR_INVALID_DATA) (\<lambda>_.
     res_bind (VALIDATE (unat size \<le> MAX_CHUNK_SIZE) ERR_INVALID_DATA) (\<lambda>_.
     res_bind (VALIDATE (forced \<and> remaining \<ge> MAX_CHUNK_SIZE \<longrightarrow> unat size = MAX_CHUNK_SIZE) ERR_INVALID_DATA) (\<lambda>_.
     res_bind (VALIDATE (unat size \<le> remaining) ERR_INVALID_DATA) (\<lambda>_.
     res_bind (view_parseBuffer (unat size) view) (\<lambda>(chunk, view).
     res_bind (no_more_data view) (\<lambda>_. Inr (chunk, view))))))))"

definition parse_first_chunk :: "bool \<Rightarrow> (nat \<times> bytes) parser" where
  "parse_first_chunk forced view =
     res_bind (parse_u4be view) (\<lambda>(totalSize, view).
     res_bind (VALIDATE (totalSize > 0) ERR_INVALID_DATA) (\<lambda>_.
     res_bind (parse_chunk forced (unat totalSize) view) (\<lambda>(chunk, view).
       Inr ((unat totalSize, chunk), view))))"

definition datum_hash_screens :: "bytes \<Rightarrow> screen list" where
  "datum_hash_screens hash = [SCREEN ''Datum hash'' (BECH32 ''datum'' hash)]"

definition handleDatumHash :: "bool \<Rightarrow> bool \<Rightarrow> read_view_t \<Rightarrow> output_dialogue stmt" where
  "handleDatumHash expert approve view f =
     res_bind (view_parseBuffer OUTPUT_DATUM_HASH_LENGTH view) (\<lambda>(hash, view).
     res_bind (no_more_data view) (\<lambda>_.
     res_bind (on_builder (txHashBuilder_addOutput_datum DATUM_HASH hash OUTPUT_DATUM_HASH_LENGTH) f) (\<lambda>f.
     let f = f\<lparr>dlgContext := (dlgContext f)\<lparr>ocData := OUTPUT_DATA_DATUM_HASH hash,
       ocDatumHashReceived := True\<rparr>\<rparr> in
     res_bind (policyForSignTxOutputDatumHash expert (ocPolicy (dlgContext f))) (\<lambda>policy.
     res_bind (ENSURE_NOT_DENIED policy) (\<lambda>_.
       ui_select approve [SHOW] policy (datum_hash_screens hash)
         respond_and_advance f)))))"

text \<open>The size shown is an unsigned 32-bit number, and may not be the largest one.\<close>

definition assert_size_shown :: "security_policy_t \<Rightarrow> nat \<Rightarrow> unit res" where
  "assert_size_shown policy totalSize = ASSERT (policy = SHOW \<longrightarrow> totalSize < 2 ^ 32 - 1)"

definition datum_inline_screens :: "nat \<Rightarrow> bytes \<Rightarrow> screen list" where
  "datum_inline_screens totalSize chunk = [SIZED_DATA ''Datum'' totalSize (DATA_PREFIX (take 6 chunk))]"

definition handleDatumInline :: "bool \<Rightarrow> bool \<Rightarrow> read_view_t \<Rightarrow> output_dialogue stmt" where
  "handleDatumInline expert approve view f =
     res_bind (parse_first_chunk True view) (\<lambda>((totalSize, chunk), view).
     res_bind (on_builder (txHashBuilder_addOutput_datum DATUM_INLINE [] totalSize) f) (\<lambda>f.
     res_bind (on_builder (txHashBuilder_addOutput_datum_inline_chunk chunk) f) (\<lambda>f.
     let f = set_data (OUTPUT_DATA_DATUM_INLINE (totalSize - length chunk) chunk) f in
     res_bind (policyForSignTxOutputDatumHash expert (ocPolicy (dlgContext f))) (\<lambda>policy.
     res_bind (ENSURE_NOT_DENIED policy) (\<lambda>_.
     res_bind (assert_size_shown policy totalSize) (\<lambda>_.
       ui_select approve [SHOW] policy (datum_inline_screens totalSize chunk)
         respond_and_advance f))))))"

definition handleDatumAPDU :: "bool \<Rightarrow> bool \<Rightarrow> bytes \<Rightarrow> output_dialogue stmt" where
  "handleDatumAPDU expert approve wire f =
     res_bind (CHECK_STATE_output STATE_OUTPUT_DATUM f) (\<lambda>f.
     res_bind (parse_u1be (make_read_view wire)) (\<lambda>(datumType, view).
       if datumType = 0 then handleDatumHash expert approve view f
       else if datumType = 1 then handleDatumInline expert approve view f
       else Inl ERR_INVALID_DATA))"

definition handleDatumChunkAPDU :: "bytes \<Rightarrow> output_dialogue stmt" where
  "handleDatumChunkAPDU wire f =
     res_bind (CHECK_STATE_output STATE_OUTPUT_DATUM_INLINE_CHUNKS f) (\<lambda>f.
     case ocData (dlgContext f) of
       OUTPUT_DATA_DATUM_INLINE remaining _ \<Rightarrow>
         res_bind (parse_chunk False remaining (make_read_view wire)) (\<lambda>(chunk, view).
         let remaining = remaining - length chunk in
         res_bind (on_builder (txHashBuilder_addOutput_datum_inline_chunk chunk)
           (set_data (OUTPUT_DATA_DATUM_INLINE remaining chunk) f)) (\<lambda>f.
           if remaining = 0 then respond_and_advance f else Inr f))
     | _ \<Rightarrow> Inl UNION_MISREAD)"

definition ref_script_screens :: "nat \<Rightarrow> bytes \<Rightarrow> screen list" where
  "ref_script_screens totalSize chunk = [SIZED_DATA ''Script'' totalSize (DATA_PREFIX (take 6 chunk))]"

definition handleRefScriptAPDU :: "bool \<Rightarrow> bool \<Rightarrow> bytes \<Rightarrow> output_dialogue stmt" where
  "handleRefScriptAPDU expert approve wire f =
     res_bind (CHECK_STATE_output STATE_OUTPUT_REFERENCE_SCRIPT f) (\<lambda>f.
     res_bind (parse_first_chunk False (make_read_view wire)) (\<lambda>((totalSize, chunk), view).
     res_bind (on_builder (txHashBuilder_addOutput_referenceScript totalSize) f) (\<lambda>f.
     res_bind (on_builder (txHashBuilder_addOutput_referenceScript_dataChunk chunk) f) (\<lambda>f.
     let f = set_data (OUTPUT_DATA_SCRIPT (totalSize - length chunk) chunk) f in
     res_bind (policyForSignTxOutputRefScript expert (ocPolicy (dlgContext f))) (\<lambda>policy.
     res_bind (ENSURE_NOT_DENIED policy) (\<lambda>_.
     res_bind (assert_size_shown policy totalSize) (\<lambda>_.
       ui_select approve [SHOW] policy (ref_script_screens totalSize chunk)
         respond_and_advance f)))))))"

definition handleRefScriptChunkAPDU :: "bytes \<Rightarrow> output_dialogue stmt" where
  "handleRefScriptChunkAPDU wire f =
     res_bind (CHECK_STATE_output STATE_OUTPUT_REFERENCE_SCRIPT_CHUNKS f) (\<lambda>f.
     case ocData (dlgContext f) of
       OUTPUT_DATA_SCRIPT remaining _ \<Rightarrow>
         res_bind (parse_chunk True remaining (make_read_view wire)) (\<lambda>(chunk, view).
         let remaining = remaining - length chunk in
         res_bind (on_builder (txHashBuilder_addOutput_referenceScript_dataChunk chunk)
           (set_data (OUTPUT_DATA_SCRIPT remaining chunk) f)) (\<lambda>f.
           if remaining = 0 then respond_and_advance f else Inr f))
     | _ \<Rightarrow> Inl UNION_MISREAD)"

subsection \<open>Confirmation\<close>

definition output_confirm_screens :: "screen list" where
  "output_confirm_screens = [SCREEN ''Confirm'' (QUESTION ''output?'')]"

definition handleConfirmAPDU_output :: "bool \<Rightarrow> bool \<Rightarrow> nat \<Rightarrow> output_dialogue stmt" where
  "handleConfirmAPDU_output expert approve wireDataSize f =
     res_bind (CHECK_STATE_output STATE_OUTPUT_CONFIRM f) (\<lambda>f.
     res_bind (VALIDATE (wireDataSize = 0) ERR_INVALID_DATA) (\<lambda>_.
     let c = dlgContext f in
     res_bind (policyForSignTxOutputConfirm expert (ocPolicy c) (ucast (ocNumAssetGroups c))
       (ocIncludeDatum c) (ocIncludeRefScript c)) (\<lambda>policy.
     res_bind (ENSURE_NOT_DENIED policy) (\<lambda>_.
       ui_select approve [PROMPT] policy output_confirm_screens
         respond_and_advance f))))"

definition collateral_confirm_screens :: "screen list" where
  "collateral_confirm_screens = [SCREEN ''Confirm collateral'' (QUESTION ''return output?'')]"

definition handleConfirmAPDU_collateralOutput :: "bool \<Rightarrow> nat \<Rightarrow> output_dialogue stmt" where
  "handleConfirmAPDU_collateralOutput approve wireDataSize f =
     res_bind (CHECK_STATE_output STATE_OUTPUT_CONFIRM f) (\<lambda>f.
     res_bind (VALIDATE (wireDataSize = 0) ERR_INVALID_DATA) (\<lambda>_.
     let c = dlgContext f in
     res_bind (policyForSignTxCollateralOutputConfirm (ocPolicy c) (ucast (ocNumAssetGroups c))) (\<lambda>policy.
     res_bind (ENSURE_NOT_DENIED policy) (\<lambda>_.
       ui_select approve [PROMPT] policy collateral_confirm_screens
         respond_and_advance f))))"

subsection \<open>Messages\<close>

abbreviation (input) APDU_INSTRUCTION_TOP_LEVEL_DATA :: u8 where "APDU_INSTRUCTION_TOP_LEVEL_DATA \<equiv> 0x30"
abbreviation (input) APDU_INSTRUCTION_ASSET_GROUP :: u8 where "APDU_INSTRUCTION_ASSET_GROUP \<equiv> 0x31"
abbreviation (input) APDU_INSTRUCTION_TOKEN :: u8 where "APDU_INSTRUCTION_TOKEN \<equiv> 0x32"
abbreviation (input) APDU_INSTRUCTION_CONFIRM :: u8 where "APDU_INSTRUCTION_CONFIRM \<equiv> 0x33"
abbreviation (input) APDU_INSTRUCTION_DATUM :: u8 where "APDU_INSTRUCTION_DATUM \<equiv> 0x34"
abbreviation (input) APDU_INSTRUCTION_DATUM_CHUNK :: u8 where "APDU_INSTRUCTION_DATUM_CHUNK \<equiv> 0x35"
abbreviation (input) APDU_INSTRUCTION_REF_SCRIPT :: u8 where "APDU_INSTRUCTION_REF_SCRIPT \<equiv> 0x36"
abbreviation (input) APDU_INSTRUCTION_REF_SCRIPT_CHUNK :: u8 where "APDU_INSTRUCTION_REF_SCRIPT_CHUNK \<equiv> 0x37"

definition signTxOutput_isValidInstruction :: "u8 \<Rightarrow> bool" where
  "signTxOutput_isValidInstruction p2 \<longleftrightarrow> p2 \<in> {APDU_INSTRUCTION_TOP_LEVEL_DATA,
     APDU_INSTRUCTION_ASSET_GROUP, APDU_INSTRUCTION_TOKEN, APDU_INSTRUCTION_DATUM,
     APDU_INSTRUCTION_DATUM_CHUNK, APDU_INSTRUCTION_REF_SCRIPT, APDU_INSTRUCTION_REF_SCRIPT_CHUNK,
     APDU_INSTRUCTION_CONFIRM}"

definition signTxCollateralOutput_isValidInstruction :: "u8 \<Rightarrow> bool" where
  "signTxCollateralOutput_isValidInstruction p2 \<longleftrightarrow> p2 \<in> {APDU_INSTRUCTION_TOP_LEVEL_DATA,
     APDU_INSTRUCTION_ASSET_GROUP, APDU_INSTRUCTION_TOKEN, APDU_INSTRUCTION_DATUM,
     APDU_INSTRUCTION_DATUM_CHUNK, APDU_INSTRUCTION_REF_SCRIPT, APDU_INSTRUCTION_REF_SCRIPT_CHUNK,
     APDU_INSTRUCTION_CONFIRM}"

text \<open>Only the confirmation comes without data.\<close>

definition assert_wire_data :: "u8 \<Rightarrow> wire_data \<Rightarrow> unit res" where
  "assert_wire_data p2 data =
     (if p2 = APDU_INSTRUCTION_CONFIRM
      then res_bind (ASSERT (data = None)) (\<lambda>_. ASSERT (length (wire_bytes data) = 0))
      else res_bind (ASSERT (data \<noteq> None)) (\<lambda>_. ASSERT (length (wire_bytes data) < BUFFER_SIZE_PARANOIA)))"

definition signTxOutput_handleAPDU ::
  "firmware \<Rightarrow> bool \<Rightarrow> bool \<Rightarrow> u8 \<Rightarrow> wire_data \<Rightarrow> output_dialogue stmt" where
  "signTxOutput_handleAPDU fw expert approve p2 data f =
     res_bind (assert_wire_data p2 data) (\<lambda>_.
     let wire = wire_bytes data in
     if p2 = APDU_INSTRUCTION_TOP_LEVEL_DATA then handleTopLevelDataAPDU_output fw expert approve wire f
     else if p2 = APDU_INSTRUCTION_ASSET_GROUP then handleAssetGroupAPDU wire f
     else if p2 = APDU_INSTRUCTION_TOKEN then handleTokenAPDU approve wire f
     else if p2 = APDU_INSTRUCTION_DATUM then handleDatumAPDU expert approve wire f
     else if p2 = APDU_INSTRUCTION_DATUM_CHUNK then handleDatumChunkAPDU wire f
     else if p2 = APDU_INSTRUCTION_REF_SCRIPT then handleRefScriptAPDU expert approve wire f
     else if p2 = APDU_INSTRUCTION_REF_SCRIPT_CHUNK then handleRefScriptChunkAPDU wire f
     else if p2 = APDU_INSTRUCTION_CONFIRM then handleConfirmAPDU_output expert approve (length wire) f
     else Inl ERR_ASSERT)"

definition signTxCollateralOutput_handleAPDU ::
  "firmware \<Rightarrow> bool \<Rightarrow> bool \<Rightarrow> u8 \<Rightarrow> wire_data \<Rightarrow> output_dialogue stmt" where
  "signTxCollateralOutput_handleAPDU fw expert approve p2 data f =
     res_bind (assert_wire_data p2 data) (\<lambda>_.
     let wire = wire_bytes data in
     if p2 = APDU_INSTRUCTION_TOP_LEVEL_DATA
     then handleTopLevelDataAPDU_collateralOutput fw expert approve wire f
     else if p2 = APDU_INSTRUCTION_ASSET_GROUP then handleAssetGroupAPDU wire f
     else if p2 = APDU_INSTRUCTION_TOKEN then handleTokenAPDU approve wire f
     else if p2 = APDU_INSTRUCTION_CONFIRM then handleConfirmAPDU_collateralOutput approve (length wire) f
     else if p2 \<in> {APDU_INSTRUCTION_DATUM, APDU_INSTRUCTION_DATUM_CHUNK, APDU_INSTRUCTION_REF_SCRIPT,
       APDU_INSTRUCTION_REF_SCRIPT_CHUNK} then Inl ERR_REJECTED_BY_POLICY
     else Inl ERR_ASSERT)"

end
