(* ===== verification/SignTxMint.thy ===== *)
theory SignTxMint
  imports SignTxOutput
begin

text \<open>
  \<open>src/signTx/signTxMint.c\<close>, \<open>.h\<close> and \<open>signTxMint_ui.c\<close>: the dialogue that receives the mint of a
  transaction, asset group by asset group and token by token. Its counters are not in a union.
\<close>

datatype sign_tx_mint_state_t =
    STATE_MINT_TOP_LEVEL_DATA
  | STATE_MINT_ASSET_GROUP
  | STATE_MINT_TOKEN
  | STATE_MINT_CONFIRM
  | STATE_MINT_FINISHED

record mint_context_t =
  mcState :: sign_tx_mint_state_t
  mcNumAssetGroups :: u16
  mcCurrentAssetGroup :: u16
  mcNumTokens :: u16
  mcCurrentToken :: u16
  mcPolicy :: security_policy_t
  mcPolicyId :: bytes
  mcTokenName :: bytes
  mcTokenAmount :: int

type_synonym mint_dialogue = "(tx_hash_builder_t, mint_context_t) dialogue"

text \<open>Everything is zeroed; the policy is written before it is read.\<close>

definition signTxMint_init :: mint_context_t where
  "signTxMint_init = \<lparr>mcState = STATE_MINT_TOP_LEVEL_DATA, mcNumAssetGroups = 0,
     mcCurrentAssetGroup = 0, mcNumTokens = 0, mcCurrentToken = 0, mcPolicy = POLICY_DENY,
     mcPolicyId = replicate 28 0, mcTokenName = [], mcTokenAmount = 0\<rparr>"

definition signTxMint_isFinished :: "mint_context_t \<Rightarrow> bool" where
  "signTxMint_isFinished c \<longleftrightarrow> mcState c = STATE_MINT_FINISHED"

definition mint_advanceState :: "mint_context_t stmt" where
  "mint_advanceState c = (case mcState c of
       STATE_MINT_TOP_LEVEL_DATA \<Rightarrow>
         res_bind (ASSERT (mcNumAssetGroups c > 0)) (\<lambda>_.
         res_bind (ASSERT (mcCurrentAssetGroup c = 0)) (\<lambda>_.
           Inr (c\<lparr>mcState := STATE_MINT_ASSET_GROUP\<rparr>)))
     | STATE_MINT_ASSET_GROUP \<Rightarrow>
         res_bind (ASSERT (mcCurrentAssetGroup c < mcNumAssetGroups c)) (\<lambda>_.
         res_bind (ASSERT (mcNumTokens c > 0)) (\<lambda>_.
         res_bind (ASSERT (mcCurrentToken c = 0)) (\<lambda>_.
           Inr (c\<lparr>mcState := STATE_MINT_TOKEN\<rparr>))))
     | STATE_MINT_TOKEN \<Rightarrow>
         res_bind (ASSERT (mcCurrentToken c = mcNumTokens c)) (\<lambda>_.
         let c = c\<lparr>mcCurrentToken := 0\<rparr> in
         res_bind (ASSERT (mcCurrentAssetGroup c < mcNumAssetGroups c)) (\<lambda>_.
         let c = c\<lparr>mcCurrentAssetGroup := mcCurrentAssetGroup c + 1\<rparr> in
           Inr (c\<lparr>mcState := (if mcCurrentAssetGroup c = mcNumAssetGroups c then STATE_MINT_CONFIRM
             else STATE_MINT_ASSET_GROUP)\<rparr>)))
     | STATE_MINT_CONFIRM \<Rightarrow> Inr (c\<lparr>mcState := STATE_MINT_FINISHED\<rparr>)
     | STATE_MINT_FINISHED \<Rightarrow> Inl ERR_ASSERT)"

definition CHECK_STATE_mint :: "sign_tx_mint_state_t \<Rightarrow> mint_dialogue stmt" where
  "CHECK_STATE_mint expected f =
     (if mcState (dlgContext f) = expected then Inr f else Inl ERR_INVALID_STATE)"

definition update_mint :: "(mint_context_t \<Rightarrow> mint_context_t) \<Rightarrow> mint_dialogue \<Rightarrow> mint_dialogue" where
  "update_mint u f = f\<lparr>dlgContext := u (dlgContext f)\<rparr>"

definition mint_respond_and_advance :: "mint_dialogue stmt" where
  "mint_respond_and_advance = on_context mint_advanceState"

definition mint_init_screens :: "u16 \<Rightarrow> screen list" where
  "mint_init_screens numAssetGroups = [SCREEN ''Mint'' (NUMBER (unat numAssetGroups))]"

text \<open>The number of asset groups is always shown.\<close>

definition signTxMint_handleTopLevelDataAPDU :: "bool \<Rightarrow> bytes \<Rightarrow> mint_dialogue stmt" where
  "signTxMint_handleTopLevelDataAPDU approve wire f =
     res_bind (CHECK_STATE_mint STATE_MINT_TOP_LEVEL_DATA f) (\<lambda>f.
     res_bind (parse_u4be (make_read_view wire)) (\<lambda>(numAssetGroups, view).
     res_bind (VALIDATE (numAssetGroups \<le> OUTPUT_ASSET_GROUPS_MAX) ERR_INVALID_DATA) (\<lambda>_.
     res_bind (VALIDATE (numAssetGroups > 0) ERR_INVALID_DATA) (\<lambda>_.
     res_bind (no_more_data view) (\<lambda>_.
     res_bind (policyForSignTxMintInit (txSigningMode (dlgCommon f))) (\<lambda>policy.
     res_bind (ENSURE_NOT_DENIED policy) (\<lambda>_.
     res_bind (on_builder (txHashBuilder_addMint_topLevelData (ucast numAssetGroups))
       (update_mint (\<lambda>c. c\<lparr>mcNumAssetGroups := ucast numAssetGroups, mcPolicy := policy\<rparr>) f))
       (ui_runSteps approve (mint_init_screens (ucast numAssetGroups)) mint_respond_and_advance))))))))"

definition signTxMint_handleAssetGroupAPDU :: "bytes \<Rightarrow> mint_dialogue stmt" where
  "signTxMint_handleAssetGroupAPDU wire f =
     res_bind (CHECK_STATE_mint STATE_MINT_ASSET_GROUP f) (\<lambda>f.
     let c = dlgContext f in
     res_bind (parse_asset_group (mcCurrentAssetGroup c = 0) (Some (mcPolicyId c)) wire) (\<lambda>(policyId, n).
     res_bind (on_builder (txHashBuilder_addMint_tokenGroup policyId n)
       (update_mint (\<lambda>c. c\<lparr>mcPolicyId := policyId, mcNumTokens := n\<rparr>) f))
       mint_respond_and_advance))"

definition mint_respond_token :: "mint_dialogue stmt" where
  "mint_respond_token f =
     (let c = dlgContext f in
     res_bind (ASSERT (mcCurrentToken c < mcNumTokens c)) (\<lambda>_.
     let c = c\<lparr>mcCurrentToken := mcCurrentToken c + 1\<rparr>;
         f = f\<lparr>dlgContext := c\<rparr> in
     if mcCurrentToken c = mcNumTokens c then on_context mint_advanceState f else Inr f))"

definition mint_token_screens :: "bytes \<Rightarrow> bytes \<Rightarrow> int \<Rightarrow> screen list" where
  "mint_token_screens policyId name amount =
     [ASSET_FINGERPRINT policyId name, MINT_TOKEN_AMOUNT policyId name amount]"

text \<open>The builder takes the amount as the 64-bit word it is stored in.\<close>

definition signTxMint_handleTokenAPDU :: "bool \<Rightarrow> bytes \<Rightarrow> mint_dialogue stmt" where
  "signTxMint_handleTokenAPDU approve wire f =
     res_bind (CHECK_STATE_mint STATE_MINT_TOKEN f) (\<lambda>f.
     let c = dlgContext f in
     res_bind (parse_asset_name (mcCurrentToken c = 0) (Some (mcTokenName c)) (make_read_view wire)) (\<lambda>(name, view).
     res_bind (parse_int64be view) (\<lambda>(amount, view).
     res_bind (no_more_data view) (\<lambda>_.
     res_bind (if mcPolicy c \<in> {SHOW, ALLOW} then Inr () else Inl ERR_NOT_IMPLEMENTED) (\<lambda>_.
     res_bind (on_builder (txHashBuilder_addMint_token name (word_of_int amount))
       (update_mint (\<lambda>c. c\<lparr>mcTokenName := name, mcTokenAmount := amount\<rparr>) f))
       (ui_select approve [SHOW] (mcPolicy c) (mint_token_screens (mcPolicyId c) name amount)
         mint_respond_token))))))"

definition mint_confirm_screens :: "screen list" where
  "mint_confirm_screens = [SCREEN ''Confirm'' (QUESTION ''mint?'')]"

definition signTxMint_handleConfirmAPDU :: "bool \<Rightarrow> nat \<Rightarrow> mint_dialogue stmt" where
  "signTxMint_handleConfirmAPDU approve wireDataSize f =
     res_bind (CHECK_STATE_mint STATE_MINT_CONFIRM f) (\<lambda>f.
     res_bind (VALIDATE (wireDataSize = 0) ERR_INVALID_DATA) (\<lambda>_.
     res_bind (policyForSignTxMintConfirm (mcPolicy (dlgContext f))) (\<lambda>policy.
     res_bind (ENSURE_NOT_DENIED policy) (\<lambda>_.
       ui_select approve [PROMPT] policy mint_confirm_screens
         mint_respond_and_advance f))))"

definition signTxMint_isValidInstruction :: "u8 \<Rightarrow> bool" where
  "signTxMint_isValidInstruction p2 \<longleftrightarrow> p2 \<in> {APDU_INSTRUCTION_TOP_LEVEL_DATA,
     APDU_INSTRUCTION_ASSET_GROUP, APDU_INSTRUCTION_TOKEN, APDU_INSTRUCTION_CONFIRM}"

definition signTxMint_handleAPDU :: "bool \<Rightarrow> u8 \<Rightarrow> wire_data \<Rightarrow> mint_dialogue stmt" where
  "signTxMint_handleAPDU approve p2 data f =
     res_bind (assert_wire_data p2 data) (\<lambda>_.
     let wire = wire_bytes data in
     if p2 = APDU_INSTRUCTION_TOP_LEVEL_DATA then signTxMint_handleTopLevelDataAPDU approve wire f
     else if p2 = APDU_INSTRUCTION_ASSET_GROUP then signTxMint_handleAssetGroupAPDU wire f
     else if p2 = APDU_INSTRUCTION_TOKEN then signTxMint_handleTokenAPDU approve wire f
     else if p2 = APDU_INSTRUCTION_CONFIRM then signTxMint_handleConfirmAPDU approve (length wire) f
     else Inl ERR_ASSERT)"

end
