(* ===== verification/SignTxPoolRegistration.thy ===== *)
theory SignTxPoolRegistration
  imports SignTxOutput
begin

text \<open>
  \<open>src/signTx/signTxPoolRegistration.c\<close>, \<open>.h\<close> and \<open>signTxPoolRegistration_ui.c\<close>: the dialogue that
  receives a stake pool registration certificate, with the checks of texts of
  \<open>src/utils/textUtils.c\<close> it makes and the screen of \<open>uiScreens_bagl.c\<close> that shows the margin.
  The union \<open>stateData\<close> holds data of one message only, so its members are local here.
\<close>

subsection \<open>Texts\<close>

definition str_isPrintableAsciiWithoutSpaces :: "bytes \<Rightarrow> bool res" where
  "str_isPrintableAsciiWithoutSpaces buffer =
     res_bind (ASSERT (length buffer < BUFFER_SIZE_PARANOIA)) (\<lambda>_.
       Inr (list_all (\<lambda>b. \<not> b > 126 \<and> \<not> b < 33) buffer))"

definition str_isPrintableAsciiWithSpaces :: "bytes \<Rightarrow> bool res" where
  "str_isPrintableAsciiWithSpaces buffer =
     res_bind (ASSERT (length buffer < BUFFER_SIZE_PARANOIA)) (\<lambda>_.
       Inr (list_all (\<lambda>b. \<not> b > 126 \<and> \<not> b < 32) buffer))"

text \<open>The loop over neighbours.\<close>

fun no_double_spaces :: "bytes \<Rightarrow> bool" where
  "no_double_spaces (a # b # bs) \<longleftrightarrow> \<not> (a = 32 \<and> b = 32) \<and> no_double_spaces (b # bs)"
| "no_double_spaces _ \<longleftrightarrow> True"

definition str_isUnambiguousAscii :: "bytes \<Rightarrow> bool res" where
  "str_isUnambiguousAscii buffer =
     res_bind (ASSERT (length buffer < BUFFER_SIZE_PARANOIA)) (\<lambda>_.
     if buffer = [] then Inr False
     else checks
       [str_isPrintableAsciiWithSpaces buffer,
        Inr (hd buffer \<noteq> 32),
        Inr (last buffer \<noteq> 32),
        Inr (no_double_spaces buffer)])"

definition u8be_read :: "bytes \<Rightarrow> nat \<Rightarrow> u64 res" where
  "u8be_read buf offset =
     (if offset + 8 \<le> length buf then Inr (word_of_nat (be_read (take 8 (drop offset buf))))
      else Inl OUT_OF_BOUNDS)"

subsection \<open>The dialogue's context\<close>

datatype sign_tx_pool_registration_state_t =
    STAKE_POOL_REGISTRATION_INIT
  | STAKE_POOL_REGISTRATION_POOL_KEY
  | STAKE_POOL_REGISTRATION_VRF_KEY
  | STAKE_POOL_REGISTRATION_FINANCIALS
  | STAKE_POOL_REGISTRATION_REWARD_ACCOUNT
  | STAKE_POOL_REGISTRATION_OWNERS
  | STAKE_POOL_REGISTRATION_RELAYS
  | STAKE_POOL_REGISTRATION_METADATA
  | STAKE_POOL_REGISTRATION_CONFIRM
  | STAKE_POOL_REGISTRATION_FINISHED

record pool_registration_context_t =
  pcState :: sign_tx_pool_registration_state_t
  pcCurrentOwner :: u16
  pcNumOwnersGivenByPath :: u16
  pcCurrentRelay :: u16
  pcNumOwners :: u16
  pcNumRelays :: u16

type_synonym pool_dialogue = "(tx_hash_builder_t, pool_registration_context_t) dialogue"

abbreviation (input) POOL_MAX_OWNERS :: nat where "POOL_MAX_OWNERS \<equiv> 1000"
abbreviation (input) POOL_MAX_RELAYS :: nat where "POOL_MAX_RELAYS \<equiv> 1000"
abbreviation (input) MARGIN_DENOMINATOR_MAX :: u64 where "MARGIN_DENOMINATOR_MAX \<equiv> 1000000000000000"
abbreviation (input) POOL_METADATA_URL_LENGTH_MAX :: nat where "POOL_METADATA_URL_LENGTH_MAX \<equiv> 128"
abbreviation (input) KEY_REFERENCE_TYPE_PATH :: u8 where "KEY_REFERENCE_TYPE_PATH \<equiv> 1"
abbreviation (input) KEY_REFERENCE_TYPE_HASH :: u8 where "KEY_REFERENCE_TYPE_HASH \<equiv> 2"

definition signTxPoolRegistration_init :: pool_registration_context_t where
  "signTxPoolRegistration_init = \<lparr>pcState = STAKE_POOL_REGISTRATION_INIT, pcCurrentOwner = 0,
     pcNumOwnersGivenByPath = 0, pcCurrentRelay = 0, pcNumOwners = 0, pcNumRelays = 0\<rparr>"

definition signTxPoolRegistration_isFinished :: "pool_registration_context_t \<Rightarrow> bool" where
  "signTxPoolRegistration_isFinished c \<longleftrightarrow> pcState c = STAKE_POOL_REGISTRATION_FINISHED"

definition CHECK_STATE_pool :: "sign_tx_pool_registration_state_t \<Rightarrow> pool_dialogue stmt" where
  "CHECK_STATE_pool expected f =
     (if pcState (dlgContext f) = expected then Inr f else Inl ERR_INVALID_STATE)"

definition pool_goto :: "sign_tx_pool_registration_state_t \<Rightarrow> pool_dialogue stmt" where
  "pool_goto s f = Inr (f\<lparr>dlgContext := (dlgContext f)\<lparr>pcState := s\<rparr>\<rparr>)"

text \<open>The switch of \<open>advanceState\<close> falls through the owners and the relays when there are none.\<close>

definition pool_advance_from_relays :: "pool_dialogue stmt" where
  "pool_advance_from_relays = seq
     [assert_that (\<lambda>f. pcCurrentRelay (dlgContext f) = pcNumRelays (dlgContext f)),
      pool_goto STAKE_POOL_REGISTRATION_METADATA]"

definition pool_advance_from_owners :: "pool_dialogue stmt" where
  "pool_advance_from_owners = seq
     [assert_that (\<lambda>f. pcCurrentOwner (dlgContext f) = pcNumOwners (dlgContext f)),
      on_builder txHashBuilder_addPoolRegistrationCertificate_enterRelays,
      pool_goto STAKE_POOL_REGISTRATION_RELAYS,
      (\<lambda>f. do_if (\<not> pcNumRelays (dlgContext f) > 0) pool_advance_from_relays f)]"

definition pool_advance_from_reward_account :: "pool_dialogue stmt" where
  "pool_advance_from_reward_account = seq
     [on_builder txHashBuilder_addPoolRegistrationCertificate_enterOwners,
      pool_goto STAKE_POOL_REGISTRATION_OWNERS,
      (\<lambda>f. do_if (\<not> pcNumOwners (dlgContext f) > 0) pool_advance_from_owners f)]"

definition pool_advanceState :: "pool_dialogue stmt" where
  "pool_advanceState f = (case pcState (dlgContext f) of
       STAKE_POOL_REGISTRATION_INIT \<Rightarrow> pool_goto STAKE_POOL_REGISTRATION_POOL_KEY f
     | STAKE_POOL_REGISTRATION_POOL_KEY \<Rightarrow> pool_goto STAKE_POOL_REGISTRATION_VRF_KEY f
     | STAKE_POOL_REGISTRATION_VRF_KEY \<Rightarrow> pool_goto STAKE_POOL_REGISTRATION_FINANCIALS f
     | STAKE_POOL_REGISTRATION_FINANCIALS \<Rightarrow> pool_goto STAKE_POOL_REGISTRATION_REWARD_ACCOUNT f
     | STAKE_POOL_REGISTRATION_REWARD_ACCOUNT \<Rightarrow> pool_advance_from_reward_account f
     | STAKE_POOL_REGISTRATION_OWNERS \<Rightarrow> pool_advance_from_owners f
     | STAKE_POOL_REGISTRATION_RELAYS \<Rightarrow> pool_advance_from_relays f
     | STAKE_POOL_REGISTRATION_METADATA \<Rightarrow> pool_goto STAKE_POOL_REGISTRATION_CONFIRM f
     | STAKE_POOL_REGISTRATION_CONFIRM \<Rightarrow> pool_goto STAKE_POOL_REGISTRATION_FINISHED f
     | STAKE_POOL_REGISTRATION_FINISHED \<Rightarrow> Inl ERR_ASSERT)"

definition update_pool ::
  "(pool_registration_context_t \<Rightarrow> pool_registration_context_t) \<Rightarrow> pool_dialogue \<Rightarrow> pool_dialogue" where
  "update_pool u f = f\<lparr>dlgContext := u (dlgContext f)\<rparr>"

subsection \<open>Init\<close>

definition pool_init_screens :: "screen list" where
  "pool_init_screens = [SCREEN ''Pool registration'' (TEXT ''certificate'')]"

text \<open>
  The bounds are checked on the fields of the context, before the numbers received are stored in
  them; the numbers themselves are truncated to sixteen bits.
\<close>

definition signTxPoolRegistration_handleInitAPDU :: "bool \<Rightarrow> bytes \<Rightarrow> pool_dialogue stmt" where
  "signTxPoolRegistration_handleInitAPDU approve wire f =
     res_bind (CHECK_STATE_pool STAKE_POOL_REGISTRATION_INIT f) (\<lambda>f.
     let f = update_pool (\<lambda>c. c\<lparr>pcCurrentOwner := 0, pcCurrentRelay := 0\<rparr>) f in
     res_bind (VALIDATE (length wire = 8) ERR_INVALID_DATA) (\<lambda>_.
     res_bind (u4be_read wire 0) (\<lambda>numOwners.
     res_bind (u4be_read wire 4) (\<lambda>numRelays.
     res_bind (VALIDATE (unat (pcNumOwners (dlgContext f)) \<le> POOL_MAX_OWNERS) ERR_INVALID_DATA) (\<lambda>_.
     res_bind (VALIDATE (unat (pcNumRelays (dlgContext f)) \<le> POOL_MAX_RELAYS) ERR_INVALID_DATA) (\<lambda>_.
     let f = update_pool (\<lambda>c. c\<lparr>pcNumOwners := ucast numOwners, pcNumRelays := ucast numRelays\<rparr>) f;
         c = dlgContext f in
     res_bind (policyForSignTxStakePoolRegistrationInit (txSigningMode (dlgCommon f))
       (ucast (pcNumOwners c))) (\<lambda>policy.
     res_bind (ENSURE_NOT_DENIED policy) (\<lambda>_.
     res_bind (on_builder (txHashBuilder_poolRegistrationCertificate_enter (pcNumOwners c) (pcNumRelays c)) f)
       (ui_runSteps approve pool_init_screens pool_advanceState)))))))))"

subsection \<open>Pool key\<close>

definition toPoolKeyHash :: "firmware \<Rightarrow> key_reference_t \<Rightarrow> bytes res" where
  "toPoolKeyHash fw poolId = (case poolId of
       KEY_REFERENCE_HASH h \<Rightarrow> Inr h
     | KEY_REFERENCE_PATH p \<Rightarrow> bip44_pathToKeyHash fw p POOL_KEY_HASH_LENGTH)"

text \<open>A key given by its path or by a hash of 28 bytes: the pool's, and an owner's.\<close>

definition parsePoolId :: "key_reference_t parser" where
  "parsePoolId view =
     res_bind (parse_u1be view) (\<lambda>(t, view).
     if t = KEY_REFERENCE_TYPE_HASH
     then res_bind (view_parseBuffer POOL_KEY_HASH_LENGTH view) (\<lambda>(h, view). Inr (KEY_REFERENCE_HASH h, view))
     else if t = KEY_REFERENCE_TYPE_PATH
     then res_bind (view_parsePath blank_path view) (\<lambda>(p, view). Inr (KEY_REFERENCE_PATH p, view))
     else Inl ERR_INVALID_DATA)"

text \<open>The screens of \<open>handlePoolKey_ui_runStep\<close>; an owner's start at the second one.\<close>

definition pool_key_screens :: "firmware \<Rightarrow> sign_tx_signingmode_t \<Rightarrow> key_reference_t \<Rightarrow> screen list res" where
  "pool_key_screens fw mode poolId =
     res_bind (toPoolKeyHash fw poolId) (\<lambda>keyHash.
     let idScreen = SCREEN ''Pool ID'' (BECH32 ''pool'' keyHash) in
     case mode of
       SIGN_TX_SIGNINGMODE_POOL_REGISTRATION_OWNER \<Rightarrow> Inr [idScreen]
     | SIGN_TX_SIGNINGMODE_POOL_REGISTRATION_OPERATOR \<Rightarrow> (case poolId of
           KEY_REFERENCE_PATH p \<Rightarrow> Inr [SCREEN ''Pool ID path'' (KEY_PATH p), idScreen]
         | _ \<Rightarrow> Inl UNION_MISREAD)
     | _ \<Rightarrow> Inl ERR_ASSERT)"

definition signTxPoolRegistration_handlePoolKeyAPDU ::
  "firmware \<Rightarrow> bool \<Rightarrow> bytes \<Rightarrow> pool_dialogue stmt" where
  "signTxPoolRegistration_handlePoolKeyAPDU fw approve wire f =
     res_bind (CHECK_STATE_pool STAKE_POOL_REGISTRATION_POOL_KEY f) (\<lambda>f.
     res_bind (parsePoolId (make_read_view wire)) (\<lambda>(poolId, view).
     res_bind (no_more_data view) (\<lambda>_.
     res_bind (policyForSignTxStakePoolRegistrationPoolId (txSigningMode (dlgCommon f)) poolId) (\<lambda>policy.
     res_bind (ENSURE_NOT_DENIED policy) (\<lambda>_.
     res_bind (toPoolKeyHash fw poolId) (\<lambda>keyHash.
     res_bind (on_builder (txHashBuilder_poolRegistrationCertificate_poolKeyHash keyHash) f) (\<lambda>f.
     res_bind (pool_key_screens fw (txSigningMode (dlgCommon f)) poolId) (\<lambda>screens.
       ui_select approve [SHOW] policy screens pool_advanceState f))))))))"

subsection \<open>VRF key\<close>

definition vrf_key_screens :: "bytes \<Rightarrow> screen list" where
  "vrf_key_screens wire = [SCREEN ''VRF key hash'' (BECH32 ''vrf_vk'' wire)]"

definition signTxPoolRegistration_handleVrfKeyAPDU :: "bool \<Rightarrow> bytes \<Rightarrow> pool_dialogue stmt" where
  "signTxPoolRegistration_handleVrfKeyAPDU approve wire f =
     res_bind (CHECK_STATE_pool STAKE_POOL_REGISTRATION_VRF_KEY f) (\<lambda>f.
     res_bind (VALIDATE (length wire = VRF_KEY_HASH_LENGTH) ERR_INVALID_DATA) (\<lambda>_.
     res_bind (policyForSignTxStakePoolRegistrationVrfKey (txSigningMode (dlgCommon f))) (\<lambda>policy.
     res_bind (ENSURE_NOT_DENIED policy) (\<lambda>_.
     res_bind (on_builder (txHashBuilder_poolRegistrationCertificate_vrfKeyHash wire) f)
       (ui_select approve [SHOW] policy (vrf_key_screens wire) pool_advanceState)))))"

subsection \<open>Financials\<close>

text \<open>
  The text of \<open>ui_displayPoolMarginScreen\<close>: the percentage with the two digits of its fractional
  part, each part printed with \<open>%u\<close>.
\<close>

definition pool_margin_text :: "u64 \<Rightarrow> u64 \<Rightarrow> string res" where
  "pool_margin_text marginNumerator marginDenominator =
     res_bind (ASSERT (marginDenominator \<noteq> 0)) (\<lambda>_.
     res_bind (ASSERT (marginNumerator \<le> marginDenominator)) (\<lambda>_.
     res_bind (ASSERT (marginDenominator \<le> MARGIN_DENOMINATOR_MAX)) (\<lambda>_.
     let percentage = (10000 * marginNumerator + marginDenominator div 2) div marginDenominator in
     res_bind (ASSERT (percentage \<le> 10000)) (\<lambda>_.
     let p = unat percentage in
       Inr (decimal (p div 100) @ ''.'' @ decimal (p mod 100) @ '' %'')))))"

definition financials_screens :: "u64 \<Rightarrow> u64 \<Rightarrow> u64 \<Rightarrow> u64 \<Rightarrow> screen list res" where
  "financials_screens pledge cost marginNumerator marginDenominator =
     res_bind (pool_margin_text marginNumerator marginDenominator) (\<lambda>margin.
       Inr [SCREEN ''Pledge'' (ADA_AMOUNT pledge), SCREEN ''Cost'' (ADA_AMOUNT cost),
         SCREEN ''Profit margin'' (TEXT margin)])"

definition signTxPoolRegistration_handlePoolFinancialsAPDU :: "bool \<Rightarrow> bytes \<Rightarrow> pool_dialogue stmt" where
  "signTxPoolRegistration_handlePoolFinancialsAPDU approve wire f =
     res_bind (CHECK_STATE_pool STAKE_POOL_REGISTRATION_FINANCIALS f) (\<lambda>f.
     res_bind (VALIDATE (length wire = 32) ERR_INVALID_DATA) (\<lambda>_.
     res_bind (u8be_read wire 0) (\<lambda>pledge.
     res_bind (VALIDATE (pledge < LOVELACE_MAX_SUPPLY) ERR_INVALID_DATA) (\<lambda>_.
     res_bind (u8be_read wire 8) (\<lambda>cost.
     res_bind (VALIDATE (cost < LOVELACE_MAX_SUPPLY) ERR_INVALID_DATA) (\<lambda>_.
     res_bind (u8be_read wire 16) (\<lambda>marginNumerator.
     res_bind (VALIDATE (marginNumerator \<le> MARGIN_DENOMINATOR_MAX) ERR_INVALID_DATA) (\<lambda>_.
     res_bind (u8be_read wire 24) (\<lambda>marginDenominator.
     res_bind (VALIDATE (marginDenominator \<noteq> 0) ERR_INVALID_DATA) (\<lambda>_.
     res_bind (VALIDATE (marginDenominator \<le> MARGIN_DENOMINATOR_MAX) ERR_INVALID_DATA) (\<lambda>_.
     res_bind (VALIDATE (marginNumerator \<le> marginDenominator) ERR_INVALID_DATA) (\<lambda>_.
     res_bind (on_builder (txHashBuilder_poolRegistrationCertificate_financials pledge cost
       marginNumerator marginDenominator) f) (\<lambda>f.
     res_bind (financials_screens pledge cost marginNumerator marginDenominator) (\<lambda>screens.
       ui_runSteps approve screens pool_advanceState f))))))))))))))"

subsection \<open>Reward account\<close>

definition parsePoolRewardAccount :: "u8 \<Rightarrow> reward_account_t parser" where
  "parsePoolRewardAccount netId view =
     res_bind (parse_u1be view) (\<lambda>(t, view).
     if t = KEY_REFERENCE_TYPE_HASH
     then res_bind (view_parseBuffer REWARD_ACCOUNT_SIZE view) (\<lambda>(account, view).
       res_bind (getAddressHeader account) (\<lambda>header.
       res_bind (VALIDATE (getAddressType header \<in> {REWARD_KEY, REWARD_SCRIPT}) ERR_INVALID_DATA) (\<lambda>_.
       res_bind (VALIDATE (getNetworkId header = netId) ERR_INVALID_DATA) (\<lambda>_.
         Inr (KeyReferenceHash account, view)))))
     else if t = KEY_REFERENCE_TYPE_PATH
     then res_bind (view_parsePath blank_path view) (\<lambda>(p, view). Inr (KeyReferencePath p, view))
     else Inl ERR_INVALID_DATA)"

definition signTxPoolRegistration_handleRewardAccountAPDU ::
  "firmware \<Rightarrow> bool \<Rightarrow> bytes \<Rightarrow> pool_dialogue stmt" where
  "signTxPoolRegistration_handleRewardAccountAPDU fw approve wire f =
     res_bind (CHECK_STATE_pool STAKE_POOL_REGISTRATION_REWARD_ACCOUNT f) (\<lambda>f.
     let netId = txNetworkId (dlgCommon f) in
     res_bind (parsePoolRewardAccount netId (make_read_view wire)) (\<lambda>(account, view).
     res_bind (no_more_data view) (\<lambda>_.
     res_bind (policyForSignTxStakePoolRegistrationRewardAccount (txSigningMode (dlgCommon f)) account) (\<lambda>policy.
     res_bind (ENSURE_NOT_DENIED policy) (\<lambda>_.
     res_bind (rewardAccountToBuffer fw account netId) (\<lambda>buffer.
     res_bind (on_builder (txHashBuilder_poolRegistrationCertificate_rewardAccount buffer) f) (\<lambda>f.
     res_bind (if policy = SHOW then reward_account_screens account netId else Inr []) (\<lambda>screens.
       ui_select approve [SHOW] policy screens pool_advanceState f))))))))"

subsection \<open>Owners\<close>

definition ownerKeyHash :: "firmware \<Rightarrow> key_reference_t \<Rightarrow> bytes res" where
  "ownerKeyHash fw owner = (case owner of
       KEY_REFERENCE_PATH p \<Rightarrow> bip44_pathToKeyHash fw p ADDRESS_KEY_HASH_LENGTH
     | KEY_REFERENCE_HASH h \<Rightarrow> Inr h)"

text \<open>An owner given by path is remembered for the witnesses; there may be one in a transaction.\<close>

definition parsePoolOwner :: "read_view_t \<Rightarrow> pool_dialogue \<Rightarrow> ((key_reference_t \<times> read_view_t) \<times> pool_dialogue) res" where
  "parsePoolOwner view f =
     res_bind (parse_u1be view) (\<lambda>(t, view).
     if t = KEY_REFERENCE_TYPE_HASH
     then res_bind (view_parseBuffer ADDRESS_KEY_HASH_LENGTH view) (\<lambda>(h, view).
       Inr ((KEY_REFERENCE_HASH h, view), f))
     else if t = KEY_REFERENCE_TYPE_PATH
     then res_bind (view_parsePath blank_path view) (\<lambda>(p, view).
       res_bind (VALIDATE (dlgPoolOwner f = None) ERR_INVALID_DATA) (\<lambda>_.
         Inr ((KEY_REFERENCE_PATH p, view),
           (update_pool (\<lambda>c. c\<lparr>pcNumOwnersGivenByPath := pcNumOwnersGivenByPath c + 1\<rparr>) f)
             \<lparr>dlgPoolOwner := Some p\<rparr>)))
     else Inl ERR_INVALID_DATA)"

text \<open>\<open>ui_displayPoolOwnerScreen\<close> shows at most a thousand owners.\<close>

definition pool_owner_screens :: "key_reference_t \<Rightarrow> u16 \<Rightarrow> u8 \<Rightarrow> screen list res" where
  "pool_owner_screens owner ownerIndex netId =
     res_bind (ASSERT (isValidNetworkId netId)) (\<lambda>_.
     res_bind (ASSERT (unat ownerIndex < POOL_MAX_OWNERS)) (\<lambda>_.
     res_bind (case owner of
         KEY_REFERENCE_PATH p \<Rightarrow> res_bind (bip44_isOrdinaryStakingKeyPath p) ASSERT
       | KEY_REFERENCE_HASH _ \<Rightarrow> Inr ()) (\<lambda>_.
       Inr [POOL_OWNER owner (unat ownerIndex) netId])))"

definition respond_owner :: "pool_dialogue stmt" where
  "respond_owner f =
     (let f = update_pool (\<lambda>c. c\<lparr>pcCurrentOwner := pcCurrentOwner c + 1\<rparr>) f;
          c = dlgContext f in
      if pcCurrentOwner c = pcNumOwners c then pool_advanceState f else Inr f)"

definition signTxPoolRegistration_handleOwnerAPDU ::
  "firmware \<Rightarrow> bool \<Rightarrow> bytes \<Rightarrow> pool_dialogue stmt" where
  "signTxPoolRegistration_handleOwnerAPDU fw approve wire f =
     res_bind (CHECK_STATE_pool STAKE_POOL_REGISTRATION_OWNERS f) (\<lambda>f.
     res_bind (parsePoolOwner (make_read_view wire) f) (\<lambda>((owner, view), f).
     res_bind (no_more_data view) (\<lambda>_.
     res_bind (policyForSignTxStakePoolRegistrationOwner (txSigningMode (dlgCommon f)) owner
       (ucast (pcNumOwnersGivenByPath (dlgContext f))) (singleAccountData (dlgCommon f))) (\<lambda>(policy, acct).
     res_bind (ENSURE_NOT_DENIED policy) (\<lambda>_.
     res_bind (ownerKeyHash fw owner) (\<lambda>keyHash.
     res_bind (on_builder (txHashBuilder_addPoolRegistrationCertificate_addOwner keyHash) (set_account acct f)) (\<lambda>f.
     res_bind (if policy = SHOW
         then pool_owner_screens owner (pcCurrentOwner (dlgContext f)) (txNetworkId (dlgCommon f))
         else Inr []) (\<lambda>screens.
       ui_select approve [SHOW] policy screens respond_owner f))))))))"

subsection \<open>Relays\<close>

definition parsePort :: "u16 option parser" where
  "parsePort view =
     res_bind (parse_u1be view) (\<lambda>(given, view).
     if given = 2 then res_bind (parse_u2be view) (\<lambda>(port, view). Inr (Some port, view))
     else res_bind (VALIDATE (given = 1) ERR_INVALID_DATA) (\<lambda>_. Inr (None, view)))"

definition parseIpv4 :: "bytes option parser" where
  "parseIpv4 view =
     res_bind (parse_u1be view) (\<lambda>(given, view).
     if given = 2 then res_bind (view_parseBuffer IPV4_SIZE view) (\<lambda>(ip, view). Inr (Some ip, view))
     else res_bind (VALIDATE (given = 1) ERR_INVALID_DATA) (\<lambda>_. Inr (None, view)))"

definition parseIpv6 :: "bytes option parser" where
  "parseIpv6 view =
     res_bind (parse_u1be view) (\<lambda>(given, view).
     if given = 2 then res_bind (view_parseBuffer IPV6_SIZE view) (\<lambda>(ip, view). Inr (Some ip, view))
     else res_bind (VALIDATE (given = 1) ERR_INVALID_DATA) (\<lambda>_. Inr (None, view)))"

definition parseDnsName :: "bytes parser" where
  "parseDnsName view =
     res_bind (read_view_remaining_size view) (\<lambda>size.
     res_bind (VALIDATE (size \<le> DNS_NAME_SIZE_MAX) ERR_INVALID_DATA) (\<lambda>_.
     res_bind (str_isUnambiguousAscii (view_rest view)) (\<lambda>ok.
     res_bind (VALIDATE ok ERR_INVALID_DATA) (\<lambda>_.
       view_parseBuffer size view))))"

text \<open>The fields a format does not use keep the zeroes of the union.\<close>

definition parse_relay :: "pool_relay_t parser" where
  "parse_relay view =
     res_bind (parse_u1be view) (\<lambda>(format, view).
     if format = 0
     then res_bind (parsePort view) (\<lambda>(port, view).
       res_bind (VALIDATE (port \<noteq> None) ERR_INVALID_DATA) (\<lambda>_.
       res_bind (parseIpv4 view) (\<lambda>(ipv4, view).
       res_bind (parseIpv6 view) (\<lambda>(ipv6, view).
       res_bind (VALIDATE (ipv4 \<noteq> None \<or> ipv6 \<noteq> None) ERR_INVALID_DATA) (\<lambda>_.
         Inr (\<lparr>relayFormat = RELAY_SINGLE_HOST_IP, relayPort = port, relayIpv4 = ipv4,
           relayIpv6 = ipv6, relayDnsName = []\<rparr>, view))))))
     else if format = 1
     then res_bind (parsePort view) (\<lambda>(port, view).
       res_bind (VALIDATE (port \<noteq> None) ERR_INVALID_DATA) (\<lambda>_.
       res_bind (parseDnsName view) (\<lambda>(name, view).
       res_bind (VALIDATE (length name > 0) ERR_INVALID_DATA) (\<lambda>_.
         Inr (\<lparr>relayFormat = RELAY_SINGLE_HOST_NAME, relayPort = port,
           relayIpv4 = Some [0, 0, 0, 0], relayIpv6 = Some (replicate 16 0), relayDnsName = name\<rparr>, view)))))
     else if format = 2
     then res_bind (parseDnsName view) (\<lambda>(name, view).
       res_bind (VALIDATE (length name > 0) ERR_INVALID_DATA) (\<lambda>_.
         Inr (\<lparr>relayFormat = RELAY_MULTIPLE_HOST_NAME, relayPort = Some 0,
           relayIpv4 = Some [0, 0, 0, 0], relayIpv6 = Some (replicate 16 0), relayDnsName = name\<rparr>, view)))
     else Inl ERR_INVALID_DATA)"

text \<open>The screens of \<open>handleRelay_ip_ui_runStep\<close> and of \<open>handleRelay_dns_ui_runStep\<close>.\<close>

definition relay_ip_screens :: "pool_relay_t \<Rightarrow> u16 \<Rightarrow> screen list" where
  "relay_ip_screens relay index =
     [POOL_RELAY (unat index), SCREEN ''IPv4 address'' (IP_ADDRESS (relayIpv4 relay)),
      SCREEN ''IPv6 address'' (IP_ADDRESS (relayIpv6 relay)), SCREEN ''Port'' (PORT (relayPort relay))]"

definition relay_dns_screens :: "pool_relay_t \<Rightarrow> u16 \<Rightarrow> screen list" where
  "relay_dns_screens relay index =
     [POOL_RELAY (unat index), SCREEN ''DNS name'' (ASCII (relayDnsName relay))] @
     (if relayFormat relay = RELAY_MULTIPLE_HOST_NAME then []
      else [SCREEN ''Port'' (PORT (relayPort relay))])"

definition respond_relay :: "pool_dialogue stmt" where
  "respond_relay f =
     (let f = update_pool (\<lambda>c. c\<lparr>pcCurrentRelay := pcCurrentRelay c + 1\<rparr>) f;
          c = dlgContext f in
      if pcCurrentRelay c = pcNumRelays c then pool_advanceState f else Inr f)"

definition signTxPoolRegistration_handleRelayAPDU :: "bool \<Rightarrow> bytes \<Rightarrow> pool_dialogue stmt" where
  "signTxPoolRegistration_handleRelayAPDU approve wire f =
     res_bind (CHECK_STATE_pool STAKE_POOL_REGISTRATION_RELAYS f) (\<lambda>f.
     res_bind (parse_relay (make_read_view wire)) (\<lambda>(relay, view).
     res_bind (no_more_data view) (\<lambda>_.
     res_bind (policyForSignTxStakePoolRegistrationRelay (txSigningMode (dlgCommon f)) relay) (\<lambda>policy.
     res_bind (ENSURE_NOT_DENIED policy) (\<lambda>_.
     res_bind (on_builder (txHashBuilder_addPoolRegistrationCertificate_addRelay relay) f) (\<lambda>f.
     let index = pcCurrentRelay (dlgContext f);
         screens = (case relayFormat relay of
             RELAY_SINGLE_HOST_IP \<Rightarrow> relay_ip_screens relay index
           | RELAY_SINGLE_HOST_NAME \<Rightarrow> relay_dns_screens relay index
           | RELAY_MULTIPLE_HOST_NAME \<Rightarrow> relay_dns_screens relay index) in
       ui_select approve [SHOW] policy screens respond_relay f))))))"

subsection \<open>Metadata\<close>

definition null_metadata_screens :: "screen list" where
  "null_metadata_screens = [SCREEN ''No metadata'' (TEXT ''(anonymous pool)'')]"

definition handleNullMetadata :: "bool \<Rightarrow> pool_dialogue stmt" where
  "handleNullMetadata approve f =
     (let policy = policyForSignTxStakePoolRegistrationNoMetadata in
     res_bind (ENSURE_NOT_DENIED policy) (\<lambda>_.
     res_bind (on_builder txHashBuilder_addPoolRegistrationCertificate_addPoolMetadata_null f)
       (ui_select approve [SHOW] policy null_metadata_screens pool_advanceState)))"

definition metadata_screens :: "bytes \<Rightarrow> bytes \<Rightarrow> screen list" where
  "metadata_screens url hash =
     [SCREEN ''Pool metadata url'' (ASCII url), SCREEN ''Pool metadata hash'' (HEX hash)]"

definition signTxPoolRegistration_handlePoolMetadataAPDU :: "bool \<Rightarrow> bytes \<Rightarrow> pool_dialogue stmt" where
  "signTxPoolRegistration_handlePoolMetadataAPDU approve wire f =
     res_bind (CHECK_STATE_pool STAKE_POOL_REGISTRATION_METADATA f) (\<lambda>f.
     res_bind (parse_u1be (make_read_view wire)) (\<lambda>(includeByte, view).
     res_bind (signTx_parseIncluded includeByte) (\<lambda>included.
     if \<not> included
     then res_bind (no_more_data view) (\<lambda>_. handleNullMetadata approve f)
     else
     res_bind (view_parseBuffer POOL_METADATA_HASH_LENGTH view) (\<lambda>(hash, view).
     res_bind (read_view_remaining_size view) (\<lambda>urlSize.
     res_bind (VALIDATE (urlSize \<le> POOL_METADATA_URL_LENGTH_MAX) ERR_INVALID_DATA) (\<lambda>_.
     res_bind (view_parseBuffer urlSize view) (\<lambda>(url, view).
     res_bind (str_isPrintableAsciiWithoutSpaces url) (\<lambda>ok.
     res_bind (VALIDATE ok ERR_INVALID_DATA) (\<lambda>_.
     res_bind (no_more_data view) (\<lambda>_.
     let policy = policyForSignTxStakePoolRegistrationMetadata in
     res_bind (ENSURE_NOT_DENIED policy) (\<lambda>_.
     res_bind (on_builder (txHashBuilder_addPoolRegistrationCertificate_addPoolMetadata url hash) f)
       (ui_select approve [SHOW] policy (metadata_screens url hash) pool_advanceState))))))))))))"

subsection \<open>Confirmation\<close>

definition pool_confirm_screens :: "sign_tx_signingmode_t \<Rightarrow> u16 \<Rightarrow> u16 \<Rightarrow> screen list" where
  "pool_confirm_screens mode numOwners numRelays =
     (if numOwners = 0 then [SCREEN ''No'' (TEXT ''pool owners'')] else []) @
     (if numRelays = 0 \<and> mode = SIGN_TX_SIGNINGMODE_POOL_REGISTRATION_OPERATOR
      then [SCREEN ''No'' (TEXT ''pool relays'')] else []) @
     [SCREEN ''Confirm stake'' (QUESTION ''pool registration?'')]"

definition signTxPoolRegistration_handleConfirmAPDU :: "bool \<Rightarrow> nat \<Rightarrow> pool_dialogue stmt" where
  "signTxPoolRegistration_handleConfirmAPDU approve wireDataSize f =
     res_bind (CHECK_STATE_pool STAKE_POOL_REGISTRATION_CONFIRM f) (\<lambda>f.
     res_bind (VALIDATE (wireDataSize = 0) ERR_INVALID_DATA) (\<lambda>_.
     let c = dlgContext f in
     res_bind (policyForSignTxStakePoolRegistrationConfirm (ucast (pcNumOwners c)) (ucast (pcNumRelays c))) (\<lambda>policy.
     res_bind (ENSURE_NOT_DENIED policy) (\<lambda>_.
       ui_select approve [PROMPT] policy
         (pool_confirm_screens (txSigningMode (dlgCommon f)) (pcNumOwners c) (pcNumRelays c)) pool_advanceState f))))"

subsection \<open>Messages\<close>

abbreviation (input) APDU_INSTRUCTION_POOL_INIT :: u8 where "APDU_INSTRUCTION_POOL_INIT \<equiv> 0x30"
abbreviation (input) APDU_INSTRUCTION_POOL_KEY :: u8 where "APDU_INSTRUCTION_POOL_KEY \<equiv> 0x31"
abbreviation (input) APDU_INSTRUCTION_VRF_KEY :: u8 where "APDU_INSTRUCTION_VRF_KEY \<equiv> 0x32"
abbreviation (input) APDU_INSTRUCTION_FINANCIALS :: u8 where "APDU_INSTRUCTION_FINANCIALS \<equiv> 0x33"
abbreviation (input) APDU_INSTRUCTION_REWARD_ACCOUNT :: u8 where "APDU_INSTRUCTION_REWARD_ACCOUNT \<equiv> 0x34"
abbreviation (input) APDU_INSTRUCTION_OWNERS :: u8 where "APDU_INSTRUCTION_OWNERS \<equiv> 0x35"
abbreviation (input) APDU_INSTRUCTION_RELAYS :: u8 where "APDU_INSTRUCTION_RELAYS \<equiv> 0x36"
abbreviation (input) APDU_INSTRUCTION_METADATA :: u8 where "APDU_INSTRUCTION_METADATA \<equiv> 0x37"
abbreviation (input) APDU_INSTRUCTION_CONFIRMATION :: u8 where "APDU_INSTRUCTION_CONFIRMATION \<equiv> 0x38"

definition signTxPoolRegistration_isValidInstruction :: "u8 \<Rightarrow> bool" where
  "signTxPoolRegistration_isValidInstruction p2 \<longleftrightarrow> p2 \<in> {APDU_INSTRUCTION_POOL_INIT,
     APDU_INSTRUCTION_POOL_KEY, APDU_INSTRUCTION_VRF_KEY, APDU_INSTRUCTION_FINANCIALS,
     APDU_INSTRUCTION_REWARD_ACCOUNT, APDU_INSTRUCTION_OWNERS, APDU_INSTRUCTION_RELAYS,
     APDU_INSTRUCTION_METADATA, APDU_INSTRUCTION_CONFIRMATION}"

definition signTxPoolRegistration_handleAPDU ::
  "firmware \<Rightarrow> bool \<Rightarrow> u8 \<Rightarrow> wire_data \<Rightarrow> pool_dialogue stmt" where
  "signTxPoolRegistration_handleAPDU fw approve p2 data f =
     res_bind (if p2 = APDU_INSTRUCTION_CONFIRMATION
       then res_bind (ASSERT (data = None)) (\<lambda>_. ASSERT (length (wire_bytes data) = 0))
       else res_bind (ASSERT (data \<noteq> None)) (\<lambda>_. ASSERT (length (wire_bytes data) < BUFFER_SIZE_PARANOIA))) (\<lambda>_.
     let wire = wire_bytes data in
     if p2 = APDU_INSTRUCTION_POOL_INIT then signTxPoolRegistration_handleInitAPDU approve wire f
     else if p2 = APDU_INSTRUCTION_POOL_KEY then signTxPoolRegistration_handlePoolKeyAPDU fw approve wire f
     else if p2 = APDU_INSTRUCTION_VRF_KEY then signTxPoolRegistration_handleVrfKeyAPDU approve wire f
     else if p2 = APDU_INSTRUCTION_FINANCIALS then signTxPoolRegistration_handlePoolFinancialsAPDU approve wire f
     else if p2 = APDU_INSTRUCTION_REWARD_ACCOUNT
     then signTxPoolRegistration_handleRewardAccountAPDU fw approve wire f
     else if p2 = APDU_INSTRUCTION_OWNERS then signTxPoolRegistration_handleOwnerAPDU fw approve wire f
     else if p2 = APDU_INSTRUCTION_RELAYS then signTxPoolRegistration_handleRelayAPDU approve wire f
     else if p2 = APDU_INSTRUCTION_METADATA then signTxPoolRegistration_handlePoolMetadataAPDU approve wire f
     else if p2 = APDU_INSTRUCTION_CONFIRMATION
     then signTxPoolRegistration_handleConfirmAPDU approve (length wire) f
     else Inl ERR_ASSERT)"

end
