(* ===== verification/SignTxCVoteRegistration.thy ===== *)
theory SignTxCVoteRegistration
  imports SignTxPoolRegistration
begin

text \<open>
  \<open>src/signTx/signTxCVoteRegistration.c\<close>, \<open>.h\<close> and \<open>signTxCVoteRegistration_ui.c\<close>: the dialogue that
  receives a governance registration, feeds the builder of the auxiliary data and signs the
  registration payload. Of the union \<open>stateData\<close> nothing outlives a message, so its members are
  local here; the staking key path is a field of the context because the signature needs it.
\<close>

subsection \<open>The dialogue's context\<close>

datatype sign_tx_cvote_registration_state_t =
    STATE_CVOTE_REGISTRATION_INIT
  | STATE_CVOTE_REGISTRATION_VOTE_KEY
  | STATE_CVOTE_REGISTRATION_DELEGATIONS
  | STATE_CVOTE_REGISTRATION_STAKING_KEY
  | STATE_CVOTE_REGISTRATION_PAYMENT_ADDRESS
  | STATE_CVOTE_REGISTRATION_NONCE
  | STATE_CVOTE_REGISTRATION_VOTING_PURPOSE
  | STATE_CVOTE_REGISTRATION_CONFIRM
  | STATE_CVOTE_REGISTRATION_FINISHED

datatype cvote_delegation_t = DELEGATION_KEY bytes | DELEGATION_PATH bip44_path_t

record cvote_registration_context_t =
  vcState :: sign_tx_cvote_registration_state_t
  vcFormat :: cvote_registration_format_t
  vcNumDelegations :: u16
  vcCurrentDelegation :: u16
  vcStakingKeyPath :: bip44_path_t
  vcAuxDataHash :: bytes

type_synonym cvote_dialogue = "(aux_data_hash_builder_t, cvote_registration_context_t) dialogue"

abbreviation (input) CVOTE_PUBLIC_KEY_LENGTH :: nat where "CVOTE_PUBLIC_KEY_LENGTH \<equiv> 32"

text \<open>The context and the builder, zeroed and initialised. A zeroed format is neither of the two.\<close>

definition signTxCVoteRegistration_init :: "cvote_dialogue stmt" where
  "signTxCVoteRegistration_init f =
     on_builder auxDataHashBuilder_init (f\<lparr>dlgContext :=
       \<lparr>vcState = STATE_CVOTE_REGISTRATION_INIT, vcFormat = UNKNOWN_FORMAT, vcNumDelegations = 0,
        vcCurrentDelegation = 0, vcStakingKeyPath = blank_path,
        vcAuxDataHash = replicate AUX_DATA_HASH_LENGTH 0\<rparr>\<rparr>)"

definition signTxCVoteRegistration_isFinished :: "cvote_registration_context_t \<Rightarrow> bool" where
  "signTxCVoteRegistration_isFinished c \<longleftrightarrow> vcState c = STATE_CVOTE_REGISTRATION_FINISHED"

definition CHECK_STATE_cvote :: "sign_tx_cvote_registration_state_t \<Rightarrow> cvote_dialogue stmt" where
  "CHECK_STATE_cvote expected f =
     (if vcState (dlgContext f) = expected then Inr f else Inl ERR_INVALID_STATE)"

definition cvote_goto :: "sign_tx_cvote_registration_state_t \<Rightarrow> cvote_dialogue stmt" where
  "cvote_goto s f = Inr (f\<lparr>dlgContext := (dlgContext f)\<lparr>vcState := s\<rparr>\<rparr>)"

definition voting_registration_advanceState :: "cvote_dialogue stmt" where
  "voting_registration_advanceState f = (let c = dlgContext f in case vcState c of
       STATE_CVOTE_REGISTRATION_INIT \<Rightarrow>
         if vcNumDelegations c > 0
         then seq [cvote_goto STATE_CVOTE_REGISTRATION_DELEGATIONS,
           on_builder (auxDataHashBuilder_cVoteRegistration_enterDelegations (unat (vcNumDelegations c)))] f
         else cvote_goto STATE_CVOTE_REGISTRATION_VOTE_KEY f
     | STATE_CVOTE_REGISTRATION_DELEGATIONS \<Rightarrow>
         res_bind (ASSERT (vcCurrentDelegation c = vcNumDelegations c)) (\<lambda>_.
           cvote_goto STATE_CVOTE_REGISTRATION_STAKING_KEY f)
     | STATE_CVOTE_REGISTRATION_VOTE_KEY \<Rightarrow> cvote_goto STATE_CVOTE_REGISTRATION_STAKING_KEY f
     | STATE_CVOTE_REGISTRATION_STAKING_KEY \<Rightarrow> cvote_goto STATE_CVOTE_REGISTRATION_PAYMENT_ADDRESS f
     | STATE_CVOTE_REGISTRATION_PAYMENT_ADDRESS \<Rightarrow> cvote_goto STATE_CVOTE_REGISTRATION_NONCE f
     | STATE_CVOTE_REGISTRATION_NONCE \<Rightarrow> cvote_goto STATE_CVOTE_REGISTRATION_VOTING_PURPOSE f
     | STATE_CVOTE_REGISTRATION_VOTING_PURPOSE \<Rightarrow> cvote_goto STATE_CVOTE_REGISTRATION_CONFIRM f
     | STATE_CVOTE_REGISTRATION_CONFIRM \<Rightarrow> cvote_goto STATE_CVOTE_REGISTRATION_FINISHED f
     | STATE_CVOTE_REGISTRATION_FINISHED \<Rightarrow> Inl ERR_ASSERT)"

definition update_cvote ::
  "(cvote_registration_context_t \<Rightarrow> cvote_registration_context_t) \<Rightarrow> cvote_dialogue \<Rightarrow> cvote_dialogue" where
  "update_cvote u f = f\<lparr>dlgContext := u (dlgContext f)\<rparr>"

subsection \<open>Init\<close>

text \<open>The number of delegations is truncated to sixteen bits before it is looked at.\<close>

definition signTxCVoteRegistration_handleInitAPDU :: "bytes \<Rightarrow> cvote_dialogue stmt" where
  "signTxCVoteRegistration_handleInitAPDU wire f =
     res_bind (CHECK_STATE_cvote STATE_CVOTE_REGISTRATION_INIT f) (\<lambda>f.
     res_bind (parse_u1be (make_read_view wire)) (\<lambda>(formatByte, view).
     res_bind (if formatByte = 1 then Inr CIP15 else if formatByte = 2 then Inr CIP36
       else Inl ERR_INVALID_DATA) (\<lambda>format.
     res_bind (parse_u4be view) (\<lambda>(n, view).
     let numDelegations = (ucast n :: u16) in
     res_bind (if format = CIP15 then VALIDATE (numDelegations = 0) ERR_INVALID_DATA else Inr ()) (\<lambda>_.
     res_bind (no_more_data view) (\<lambda>_.
     res_bind (on_builder (auxDataHashBuilder_cVoteRegistration_enter format)
       (update_cvote (\<lambda>c. c\<lparr>vcFormat := format, vcNumDelegations := numDelegations\<rparr>) f)) (\<lambda>f.
     res_bind (on_builder auxDataHashBuilder_cVoteRegistration_enterPayload f)
       voting_registration_advanceState)))))))"

subsection \<open>Vote keys and delegations\<close>

definition parseVoteKey :: "cvote_delegation_t parser" where
  "parseVoteKey view =
     res_bind (parse_u1be view) (\<lambda>(t, view).
     if t = 1
     then res_bind (view_parseBuffer CVOTE_PUBLIC_KEY_LENGTH view) (\<lambda>(key, view). Inr (DELEGATION_KEY key, view))
     else if t = 2
     then res_bind (view_parsePath blank_path view) (\<lambda>(p, view). Inr (DELEGATION_PATH p, view))
     else Inl ERR_INVALID_DATA)"

definition determineVoteKeyPolicy ::
  "cvote_delegation_t \<Rightarrow> cvote_registration_format_t \<Rightarrow> security_policy_t res" where
  "determineVoteKeyPolicy delegation format = (case delegation of
       DELEGATION_PATH p \<Rightarrow> policyForCVoteRegistrationVoteKeyPath p format
     | DELEGATION_KEY _ \<Rightarrow> Inr policyForCVoteRegistrationVoteKey)"

definition vote_pub_key :: "firmware \<Rightarrow> cvote_delegation_t \<Rightarrow> bytes res" where
  "vote_pub_key fw delegation = (case delegation of
       DELEGATION_KEY key \<Rightarrow> Inr key
     | DELEGATION_PATH p \<Rightarrow> res_bind (deriveExtendedPublicKey fw p) (\<lambda>k. Inr (pubKey k)))"

definition displayVoteKey :: "cvote_delegation_t \<Rightarrow> screen" where
  "displayVoteKey delegation = SCREEN ''Vote public key'' (case delegation of
       DELEGATION_KEY key \<Rightarrow> BECH32 ''cvote_vk'' key
     | DELEGATION_PATH p \<Rightarrow> KEY_PATH p)"

definition vote_key_screens :: "security_policy_t \<Rightarrow> cvote_delegation_t \<Rightarrow> screen list" where
  "vote_key_screens policy delegation =
     (if policy = WARN then [SCREEN ''WARNING:'' (TEXT ''unusual vote key'')] else []) @
     [displayVoteKey delegation]"

definition signTxCVoteRegistration_handleVoteKeyAPDU ::
  "firmware \<Rightarrow> bool \<Rightarrow> bytes \<Rightarrow> cvote_dialogue stmt" where
  "signTxCVoteRegistration_handleVoteKeyAPDU fw approve wire f =
     res_bind (CHECK_STATE_cvote STATE_CVOTE_REGISTRATION_VOTE_KEY f) (\<lambda>f.
     res_bind (parseVoteKey (make_read_view wire)) (\<lambda>(delegation, view).
     res_bind (no_more_data view) (\<lambda>_.
     res_bind (determineVoteKeyPolicy delegation (vcFormat (dlgContext f))) (\<lambda>policy.
     res_bind (ENSURE_NOT_DENIED policy) (\<lambda>_.
     res_bind (vote_pub_key fw delegation) (\<lambda>key.
     res_bind (on_builder (auxDataHashBuilder_cVoteRegistration_addVoteKey key) f)
       (ui_select approve [WARN, SHOW] policy (vote_key_screens policy delegation)
         voting_registration_advanceState)))))))"

text \<open>
  The steps of a delegation. The warning of the switch in \<open>signTxCVoteRegistration_handleDelegation_ui_runStep\<close>
  has the number of the warning of a vote key (8200), not the one the handler selects (8300),
  which therefore ends in the \<open>default\<close> of the switch, a failed assertion.
\<close>

definition delegation_screens :: "security_policy_t \<Rightarrow> cvote_delegation_t \<Rightarrow> u32 \<Rightarrow> screen list res" where
  "delegation_screens policy delegation weight =
     (if policy = WARN then Inl ERR_ASSERT
      else Inr [displayVoteKey delegation, SCREEN ''Weight'' (NUMBER (unat weight))])"

definition respond_delegation :: "cvote_dialogue stmt" where
  "respond_delegation f =
     (let f = update_cvote (\<lambda>c. c\<lparr>vcCurrentDelegation := vcCurrentDelegation c + 1\<rparr>) f;
          c = dlgContext f in
      if vcCurrentDelegation c = vcNumDelegations c then voting_registration_advanceState f else Inr f)"

definition signTxCVoteRegistration_handleDelegationAPDU ::
  "firmware \<Rightarrow> bool \<Rightarrow> bytes \<Rightarrow> cvote_dialogue stmt" where
  "signTxCVoteRegistration_handleDelegationAPDU fw approve wire f =
     res_bind (CHECK_STATE_cvote STATE_CVOTE_REGISTRATION_DELEGATIONS f) (\<lambda>f.
     res_bind (ASSERT (vcCurrentDelegation (dlgContext f) < vcNumDelegations (dlgContext f))) (\<lambda>_.
     res_bind (parseVoteKey (make_read_view wire)) (\<lambda>(delegation, view).
     res_bind (parse_u4be view) (\<lambda>(weight, view).
     res_bind (no_more_data view) (\<lambda>_.
     res_bind (determineVoteKeyPolicy delegation (vcFormat (dlgContext f))) (\<lambda>policy.
     res_bind (ENSURE_NOT_DENIED policy) (\<lambda>_.
     res_bind (vote_pub_key fw delegation) (\<lambda>key.
     res_bind (on_builder (auxDataHashBuilder_cVoteRegistration_addDelegation key weight) f) (\<lambda>f.
     res_bind (delegation_screens policy delegation weight) (\<lambda>screens.
       ui_select approve [WARN, SHOW] policy screens respond_delegation f))))))))))"

subsection \<open>Staking key\<close>

definition cvote_staking_key_screens :: "security_policy_t \<Rightarrow> bip44_path_t \<Rightarrow> screen list res" where
  "cvote_staking_key_screens policy stakingPath =
     res_bind (staking_key_screens stakingPath) (\<lambda>screens.
       Inr ((if policy = WARN then [unusual_warning] else []) @ screens))"

definition signTxCVoteRegistration_handleStakingKeyAPDU ::
  "firmware \<Rightarrow> bool \<Rightarrow> bytes \<Rightarrow> cvote_dialogue stmt" where
  "signTxCVoteRegistration_handleStakingKeyAPDU fw approve wire f =
     res_bind (CHECK_STATE_cvote STATE_CVOTE_REGISTRATION_STAKING_KEY f) (\<lambda>f.
     res_bind (view_parsePath blank_path (make_read_view wire)) (\<lambda>(p, view).
     res_bind (no_more_data view) (\<lambda>_.
     let f = update_cvote (\<lambda>c. c\<lparr>vcStakingKeyPath := p\<rparr>) f in
     res_bind (policyForCVoteRegistrationStakingKey p) (\<lambda>policy.
     res_bind (ENSURE_NOT_DENIED policy) (\<lambda>_.
     res_bind (deriveExtendedPublicKey fw p) (\<lambda>key.
     res_bind (on_builder (auxDataHashBuilder_cVoteRegistration_addStakingKey (pubKey key)) f) (\<lambda>f.
     res_bind (if policy \<in> {WARN, SHOW} then cvote_staking_key_screens policy p else Inr []) (\<lambda>screens.
       ui_select approve [WARN, SHOW] policy screens voting_registration_advanceState f))))))))"

subsection \<open>Payment address\<close>

definition destinationToAddress ::
  "firmware \<Rightarrow> addressParams_t tx_output_destination_t \<Rightarrow> nat \<Rightarrow> bytes res" where
  "destinationToAddress fw destination addressBufferSize = (case destination of
       DESTINATION_DEVICE_OWNED params \<Rightarrow> deriveAddress fw params addressBufferSize
     | DESTINATION_THIRD_PARTY address \<Rightarrow>
         res_bind (ASSERT (length address \<le> addressBufferSize)) (\<lambda>_. Inr address))"

definition payment_address_screens :: "security_policy_t \<Rightarrow> bytes \<Rightarrow> screen list" where
  "payment_address_screens policy address =
     (if policy = WARN then [unusual_warning] else []) @
     [SCREEN ''Rewards go to'' (ADDRESS address)]"

definition signTxCVoteRegistration_handlePaymentAddressAPDU ::
  "firmware \<Rightarrow> bool \<Rightarrow> bytes \<Rightarrow> cvote_dialogue stmt" where
  "signTxCVoteRegistration_handlePaymentAddressAPDU fw approve wire f =
     res_bind (CHECK_STATE_cvote STATE_CVOTE_REGISTRATION_PAYMENT_ADDRESS f) (\<lambda>f.
     res_bind (view_parseDestination blank_params (make_read_view wire)) (\<lambda>(destination, view).
     res_bind (no_more_data view) (\<lambda>_.
     res_bind (policyForCVoteRegistrationPaymentDestination destination (txNetworkId (dlgCommon f))) (\<lambda>policy.
     res_bind (ENSURE_NOT_DENIED policy) (\<lambda>_.
     res_bind (destinationToAddress fw destination MAX_ADDRESS_SIZE) (\<lambda>address.
     res_bind (on_builder (auxDataHashBuilder_cVoteRegistration_addPaymentAddress address) f)
       (ui_select approve [WARN, SHOW] policy (payment_address_screens policy address)
         voting_registration_advanceState)))))))"

subsection \<open>Nonce and voting purpose\<close>

definition nonce_screens :: "u64 \<Rightarrow> screen list" where
  "nonce_screens nonce = [SCREEN ''Nonce'' (NUMBER (unat nonce))]"

definition signTxCVoteRegistration_handleNonceAPDU :: "bool \<Rightarrow> bytes \<Rightarrow> cvote_dialogue stmt" where
  "signTxCVoteRegistration_handleNonceAPDU approve wire f =
     res_bind (CHECK_STATE_cvote STATE_CVOTE_REGISTRATION_NONCE f) (\<lambda>f.
     res_bind (VALIDATE (length wire = 8) ERR_INVALID_DATA) (\<lambda>_.
     res_bind (u8be_read wire 0) (\<lambda>nonce.
     let policy = policyForCVoteRegistrationNonce in
     res_bind (ENSURE_NOT_DENIED policy) (\<lambda>_.
     res_bind (on_builder (auxDataHashBuilder_cVoteRegistration_addNonce nonce) f)
       (ui_select approve [SHOW] policy (nonce_screens nonce)
         voting_registration_advanceState)))))"

definition voting_purpose_screens :: "u64 \<Rightarrow> screen list" where
  "voting_purpose_screens votingPurpose = [SCREEN ''Voting purpose'' (NUMBER (unat votingPurpose))]"

text \<open>A CIP-15 registration gets the message as well, but it may not hold a purpose and adds nothing.\<close>

definition signTxCVoteRegistration_handleVotingPurposeAPDU :: "bool \<Rightarrow> bool \<Rightarrow> bytes \<Rightarrow> cvote_dialogue stmt" where
  "signTxCVoteRegistration_handleVotingPurposeAPDU expert approve wire f =
     res_bind (CHECK_STATE_cvote STATE_CVOTE_REGISTRATION_VOTING_PURPOSE f) (\<lambda>f.
     res_bind (parse_u1be (make_read_view wire)) (\<lambda>(includeByte, view).
     res_bind (signTx_parseIncluded includeByte) (\<lambda>included.
     res_bind (if included then VALIDATE (vcFormat (dlgContext f) = CIP36) ERR_INVALID_DATA else Inr ()) (\<lambda>_.
     res_bind (if included then parse_u8be view else Inr (0, view)) (\<lambda>(votingPurpose, view).
     res_bind (no_more_data view) (\<lambda>_.
     if vcFormat (dlgContext f) \<noteq> CIP36 then voting_registration_advanceState f
     else
     res_bind (policyForCVoteRegistrationVotingPurpose expert) (\<lambda>policy.
     res_bind (ENSURE_NOT_DENIED policy) (\<lambda>_.
     res_bind (on_builder (auxDataHashBuilder_cVoteRegistration_addVotingPurpose votingPurpose) f)
       (ui_select approve [SHOW] policy (voting_purpose_screens votingPurpose)
         voting_registration_advanceState)))))))))"

subsection \<open>Confirmation\<close>

definition cvote_confirm_screens :: "bool \<Rightarrow> bytes \<Rightarrow> screen list" where
  "cvote_confirm_screens expert hash =
     [SCREEN ''Confirm vote key'' (QUESTION ''registration?'')] @
     (if expert then [SCREEN ''Auxiliary data hash'' (HEX hash)] else [])"

definition cvote_respond_confirm :: "bytes \<Rightarrow> cvote_dialogue stmt" where
  "cvote_respond_confirm signature f =
     voting_registration_advanceState (f\<lparr>dlgAnswer := vcAuxDataHash (dlgContext f) @ signature\<rparr>)"

definition signTxCVoteRegistration_handleConfirmAPDU ::
  "firmware \<Rightarrow> bool \<Rightarrow> bool \<Rightarrow> nat \<Rightarrow> cvote_dialogue stmt" where
  "signTxCVoteRegistration_handleConfirmAPDU fw expert approve wireDataSize f =
     res_bind (CHECK_STATE_cvote STATE_CVOTE_REGISTRATION_CONFIRM f) (\<lambda>f.
     res_bind (VALIDATE (wireDataSize = 0) ERR_INVALID_DATA) (\<lambda>_.
     let policy = policyForCVoteRegistrationConfirm in
     res_bind (ENSURE_NOT_DENIED policy) (\<lambda>_.
     res_bind (auxDataHashBuilder_cVoteRegistration_finalizePayload (blake2b_256 fw)
       AUX_DATA_HASH_LENGTH (dlgBuilder f)) (\<lambda>payloadDigest.
     res_bind (getCVoteRegistrationSignature fw (vcStakingKeyPath (dlgContext f)) payloadDigest
       ED25519_SIGNATURE_LENGTH) (\<lambda>signature.
     res_bind (on_builder (auxDataHashBuilder_cVoteRegistration_addSignature signature) f) (\<lambda>f.
     res_bind (on_builder auxDataHashBuilder_cVoteRegistration_addAuxiliaryScripts f) (\<lambda>f.
     res_bind (auxDataHashBuilder_finalize (blake2b_256 fw) AUX_DATA_HASH_LENGTH (dlgBuilder f)) (\<lambda>(hash, b).
     let f = update_cvote (\<lambda>c. c\<lparr>vcAuxDataHash := hash\<rparr>) (f\<lparr>dlgBuilder := b\<rparr>) in
       ui_select approve [PROMPT] policy (cvote_confirm_screens expert hash)
         (cvote_respond_confirm signature) f))))))))"

subsection \<open>Messages\<close>

abbreviation (input) APDU_INSTRUCTION_CVOTE_INIT :: u8 where "APDU_INSTRUCTION_CVOTE_INIT \<equiv> 0x36"
abbreviation (input) APDU_INSTRUCTION_VOTE_KEY :: u8 where "APDU_INSTRUCTION_VOTE_KEY \<equiv> 0x30"
abbreviation (input) APDU_INSTRUCTION_DELEGATION :: u8 where "APDU_INSTRUCTION_DELEGATION \<equiv> 0x37"
abbreviation (input) APDU_INSTRUCTION_STAKING_KEY :: u8 where "APDU_INSTRUCTION_STAKING_KEY \<equiv> 0x31"
abbreviation (input) APDU_INSTRUCTION_PAYMENT_ADDRESS :: u8 where "APDU_INSTRUCTION_PAYMENT_ADDRESS \<equiv> 0x32"
abbreviation (input) APDU_INSTRUCTION_NONCE :: u8 where "APDU_INSTRUCTION_NONCE \<equiv> 0x33"
abbreviation (input) APDU_INSTRUCTION_VOTING_PURPOSE :: u8 where "APDU_INSTRUCTION_VOTING_PURPOSE \<equiv> 0x35"
abbreviation (input) APDU_INSTRUCTION_CVOTE_CONFIRM :: u8 where "APDU_INSTRUCTION_CVOTE_CONFIRM \<equiv> 0x34"

definition signTxCVoteRegistration_isValidInstruction :: "u8 \<Rightarrow> bool" where
  "signTxCVoteRegistration_isValidInstruction p2 \<longleftrightarrow> p2 \<in> {APDU_INSTRUCTION_CVOTE_INIT,
     APDU_INSTRUCTION_VOTE_KEY, APDU_INSTRUCTION_DELEGATION, APDU_INSTRUCTION_STAKING_KEY,
     APDU_INSTRUCTION_PAYMENT_ADDRESS, APDU_INSTRUCTION_NONCE, APDU_INSTRUCTION_VOTING_PURPOSE,
     APDU_INSTRUCTION_CVOTE_CONFIRM}"

definition signTxCVoteRegistration_handleAPDU ::
  "firmware \<Rightarrow> bool \<Rightarrow> bool \<Rightarrow> u8 \<Rightarrow> wire_data \<Rightarrow> cvote_dialogue stmt" where
  "signTxCVoteRegistration_handleAPDU fw expert approve p2 data f =
     res_bind (if p2 = APDU_INSTRUCTION_CVOTE_CONFIRM
       then res_bind (ASSERT (data = None)) (\<lambda>_. ASSERT (length (wire_bytes data) = 0))
       else res_bind (ASSERT (data \<noteq> None)) (\<lambda>_. ASSERT (length (wire_bytes data) < BUFFER_SIZE_PARANOIA))) (\<lambda>_.
     let wire = wire_bytes data in
     if p2 = APDU_INSTRUCTION_CVOTE_INIT then signTxCVoteRegistration_handleInitAPDU wire f
     else if p2 = APDU_INSTRUCTION_VOTE_KEY then signTxCVoteRegistration_handleVoteKeyAPDU fw approve wire f
     else if p2 = APDU_INSTRUCTION_DELEGATION
     then signTxCVoteRegistration_handleDelegationAPDU fw approve wire f
     else if p2 = APDU_INSTRUCTION_STAKING_KEY
     then signTxCVoteRegistration_handleStakingKeyAPDU fw approve wire f
     else if p2 = APDU_INSTRUCTION_PAYMENT_ADDRESS
     then signTxCVoteRegistration_handlePaymentAddressAPDU fw approve wire f
     else if p2 = APDU_INSTRUCTION_NONCE then signTxCVoteRegistration_handleNonceAPDU approve wire f
     else if p2 = APDU_INSTRUCTION_VOTING_PURPOSE
     then signTxCVoteRegistration_handleVotingPurposeAPDU expert approve wire f
     else if p2 = APDU_INSTRUCTION_CVOTE_CONFIRM
     then signTxCVoteRegistration_handleConfirmAPDU fw expert approve (length wire) f
     else Inl ERR_ASSERT)"

end
