(* ===== verification/SignTxStages.thy ===== *)
theory SignTxStages
  imports SignTxMint SignTxCVoteRegistration
begin

text \<open>
  The context of \<open>src/signTx/signTx.h\<close> and the stages of \<open>signTx.c\<close>: how the transaction moves from
  one part to the next, starts the dialogues of the parts and notices that they have finished.
  \<open>ui_advanceState\<close> and \<open>ui_step\<close> are not part of the state: each handler runs to the end of its
  screens.
\<close>

subsection \<open>The context\<close>

text \<open>
  The union \<open>stageContext\<close> of the transaction body. Of the union \<open>stageData\<close> only the reward account
  of the last withdrawal outlives a message; it is \<open>None\<close> before there was a withdrawal.
\<close>

datatype body_stage_context =
    NO_SUBCTX
  | POOL_SUBCTX pool_registration_context_t
  | OUTPUT_SUBCTX output_context_t
  | MINT_SUBCTX mint_context_t

record body_context_t =
  bcBuilder :: tx_hash_builder_t
  bcCurrentInput :: u16
  bcCurrentOutput :: u16
  bcCurrentCertificate :: u16
  bcCurrentWithdrawal :: u16
  bcCurrentCollateral :: u16
  bcCurrentRequiredSigner :: u16
  bcCurrentReferenceInput :: u16
  bcCurrentVotingProcedure :: u16
  bcFeeReceived :: bool
  bcTtlReceived :: bool
  bcValidityIntervalStartReceived :: bool
  bcMintReceived :: bool
  bcScriptDataHashReceived :: bool
  bcCollateralOutputReceived :: bool
  bcTotalCollateralReceived :: bool
  bcTreasuryReceived :: bool
  bcDonationReceived :: bool
  bcPreviousRewardAccount :: "bytes option"
  bcStageContext :: body_stage_context

record aux_data_context_t =
  acAuxDataReceived :: bool
  acBuilder :: aux_data_hash_builder_t
  acCVote :: cvote_registration_context_t

text \<open>The union \<open>txPartCtx\<close>; of the witnesses only the counter is kept.\<close>

datatype tx_part_ctx =
    PART_ZERO
  | PART_AUX_DATA aux_data_context_t
  | PART_BODY body_context_t
  | PART_WITNESSES u16

text \<open>The last two fields are what the device has shown and what it answers to the message.\<close>

record sign_tx_context =
  tcStage :: sign_tx_stage_t
  tcCommon :: common_tx_data_t
  tcIncludeAuxData :: bool
  tcNumInputs :: u16
  tcNumOutputs :: u16
  tcIncludeTtl :: bool
  tcNumCertificates :: u16
  tcNumWithdrawals :: u16
  tcIncludeValidityIntervalStart :: bool
  tcIncludeMint :: bool
  tcIncludeScriptDataHash :: bool
  tcNumCollateralInputs :: u16
  tcNumRequiredSigners :: u16
  tcIncludeNetworkId :: bool
  tcIncludeCollateralOutput :: bool
  tcIncludeTotalCollateral :: bool
  tcNumReferenceInputs :: u16
  tcNumVotingProcedures :: u16
  tcIncludeTreasury :: bool
  tcIncludeDonation :: bool
  tcNumWitnesses :: u16
  tcAuxDataHash :: bytes
  tcTxHash :: bytes
  tcPart :: tx_part_ctx
  tcPoolOwner :: "bip44_path_t option"
  tcDisplayTxid :: bool
  tcShown :: "screen list"
  tcAnswer :: bytes

text \<open>The context after \<open>explicit_bzero\<close>, in the first stage; a zeroed signing mode is no mode.\<close>

definition new_context :: sign_tx_context where
  "new_context = \<lparr>tcStage = SIGN_STAGE_INIT,
     tcCommon = \<lparr>txSigningMode = SIGN_TX_SIGNINGMODE_ORDINARY_TX, txNetworkId = 0, txProtocolMagic = 0,
       singleAccountData = \<lparr>isStored = False, isByron = False, accountNumber = 0\<rparr>, txTagCborSets = False\<rparr>,
     tcIncludeAuxData = False, tcNumInputs = 0, tcNumOutputs = 0, tcIncludeTtl = False,
     tcNumCertificates = 0, tcNumWithdrawals = 0, tcIncludeValidityIntervalStart = False,
     tcIncludeMint = False, tcIncludeScriptDataHash = False, tcNumCollateralInputs = 0,
     tcNumRequiredSigners = 0, tcIncludeNetworkId = False, tcIncludeCollateralOutput = False,
     tcIncludeTotalCollateral = False, tcNumReferenceInputs = 0, tcNumVotingProcedures = 0,
     tcIncludeTreasury = False, tcIncludeDonation = False, tcNumWitnesses = 0,
     tcAuxDataHash = replicate 32 0, tcTxHash = replicate 32 0, tcPart = PART_ZERO,
     tcPoolOwner = None, tcDisplayTxid = False, tcShown = [], tcAnswer = []\<rparr>"

subsection \<open>Access to the parts\<close>

definition aux_data_stage :: "sign_tx_stage_t \<Rightarrow> bool" where
  "aux_data_stage s \<longleftrightarrow>
     s \<in> {SIGN_STAGE_AUX_DATA, SIGN_STAGE_AUX_DATA_CVOTE_REGISTRATION_SUBMACHINE}"

definition body_stage :: "sign_tx_stage_t \<Rightarrow> bool" where
  "body_stage s \<longleftrightarrow> s \<in> {SIGN_STAGE_BODY_INPUTS, SIGN_STAGE_BODY_OUTPUTS,
     SIGN_STAGE_BODY_OUTPUTS_SUBMACHINE, SIGN_STAGE_BODY_FEE, SIGN_STAGE_BODY_TTL,
     SIGN_STAGE_BODY_CERTIFICATES, SIGN_STAGE_BODY_CERTIFICATES_POOL_SUBMACHINE,
     SIGN_STAGE_BODY_WITHDRAWALS, SIGN_STAGE_BODY_VALIDITY_INTERVAL, SIGN_STAGE_BODY_MINT,
     SIGN_STAGE_BODY_MINT_SUBMACHINE, SIGN_STAGE_BODY_SCRIPT_DATA_HASH,
     SIGN_STAGE_BODY_COLLATERAL_INPUTS, SIGN_STAGE_BODY_REQUIRED_SIGNERS,
     SIGN_STAGE_BODY_COLLATERAL_OUTPUT, SIGN_STAGE_BODY_COLLATERAL_OUTPUT_SUBMACHINE,
     SIGN_STAGE_BODY_TOTAL_COLLATERAL, SIGN_STAGE_BODY_REFERENCE_INPUTS,
     SIGN_STAGE_BODY_VOTING_PROCEDURES, SIGN_STAGE_BODY_TREASURY, SIGN_STAGE_BODY_DONATION,
     SIGN_STAGE_CONFIRM}"

definition accessAuxDataContext :: "sign_tx_context \<Rightarrow> aux_data_context_t res" where
  "accessAuxDataContext c =
     (if aux_data_stage (tcStage c)
      then case tcPart c of PART_AUX_DATA a \<Rightarrow> Inr a | _ \<Rightarrow> Inl UNION_MISREAD
      else Inl ERR_ASSERT)"

definition accessBodyContext :: "sign_tx_context \<Rightarrow> body_context_t res" where
  "accessBodyContext c =
     (if body_stage (tcStage c)
      then case tcPart c of PART_BODY b \<Rightarrow> Inr b | _ \<Rightarrow> Inl UNION_MISREAD
      else Inl ERR_ASSERT)"

definition accessWitnessContext :: "sign_tx_context \<Rightarrow> u16 res" where
  "accessWitnessContext c =
     (if tcStage c = SIGN_STAGE_WITNESSES
      then case tcPart c of PART_WITNESSES n \<Rightarrow> Inr n | _ \<Rightarrow> Inl UNION_MISREAD
      else Inl ERR_ASSERT)"

text \<open>Statements on a part.\<close>

definition on_body :: "body_context_t stmt \<Rightarrow> sign_tx_context stmt" where
  "on_body s c = res_bind (accessBodyContext c) (\<lambda>b. res_bind (s b) (\<lambda>b. Inr (c\<lparr>tcPart := PART_BODY b\<rparr>)))"

definition on_tx_builder :: "tx_hash_builder_t stmt \<Rightarrow> sign_tx_context stmt" where
  "on_tx_builder s = on_body (\<lambda>b. res_bind (s (bcBuilder b)) (\<lambda>x. Inr (b\<lparr>bcBuilder := x\<rparr>)))"

definition set_body :: "(body_context_t \<Rightarrow> body_context_t) \<Rightarrow> sign_tx_context stmt" where
  "set_body u = on_body (modify u)"

definition goto_stage :: "sign_tx_stage_t \<Rightarrow> sign_tx_context stmt" where
  "goto_stage s = modify (\<lambda>c. c\<lparr>tcStage := s\<rparr>)"

definition assert_body :: "(sign_tx_context \<Rightarrow> body_context_t \<Rightarrow> bool) \<Rightarrow> sign_tx_context stmt" where
  "assert_body p c = res_bind (accessBodyContext c) (\<lambda>b. res_bind (ASSERT (p c b)) (\<lambda>_. Inr c))"

text \<open>The screens of the main handler.\<close>

definition record_tx_shown :: "screen list \<Rightarrow> sign_tx_context \<Rightarrow> sign_tx_context" where
  "record_tx_shown screens c = c\<lparr>tcShown := tcShown c @ screens\<rparr>"

definition tx_runSteps :: "bool \<Rightarrow> screen list \<Rightarrow> sign_tx_context stmt \<Rightarrow> sign_tx_context stmt" where
  "tx_runSteps = run_screens record_tx_shown"

definition tx_select ::
  "bool \<Rightarrow> security_policy_t list \<Rightarrow> security_policy_t \<Rightarrow> screen list \<Rightarrow> sign_tx_context stmt \<Rightarrow> sign_tx_context stmt" where
  "tx_select = select_screens record_tx_shown"

subsection \<open>Dialogues in the transaction\<close>

definition frame :: "sign_tx_context \<Rightarrow> 'b \<Rightarrow> 'c \<Rightarrow> ('b, 'c) dialogue" where
  "frame c b x = \<lparr>dlgCommon = tcCommon c, dlgStage = tcStage c,
     dlgTotalCollateral = tcIncludeTotalCollateral c, dlgDisplayTxid = tcDisplayTxid c,
     dlgPoolOwner = tcPoolOwner c, dlgBuilder = b, dlgShown = tcShown c, dlgAnswer = tcAnswer c,
     dlgContext = x\<rparr>"

definition unframe :: "('b, 'c) dialogue \<Rightarrow> sign_tx_context \<Rightarrow> sign_tx_context" where
  "unframe f c = c\<lparr>tcCommon := dlgCommon f, tcDisplayTxid := dlgDisplayTxid f,
     tcPoolOwner := dlgPoolOwner f, tcShown := dlgShown f, tcAnswer := dlgAnswer f\<rparr>"

definition in_body_dialogue ::
  "(body_stage_context \<Rightarrow> 'c option) \<Rightarrow> ('c \<Rightarrow> body_stage_context) \<Rightarrow>
   (tx_hash_builder_t, 'c) dialogue stmt \<Rightarrow> sign_tx_context stmt" where
  "in_body_dialogue get put d c =
     res_bind (accessBodyContext c) (\<lambda>b.
     case get (bcStageContext b) of
       None \<Rightarrow> Inl UNION_MISREAD
     | Some x \<Rightarrow> res_bind (d (frame c (bcBuilder b) x)) (\<lambda>f.
         Inr ((unframe f c)\<lparr>tcPart := PART_BODY (b\<lparr>bcBuilder := dlgBuilder f,
           bcStageContext := put (dlgContext f)\<rparr>)\<rparr>)))"

fun output_subctx :: "body_stage_context \<Rightarrow> output_context_t option" where
  "output_subctx (OUTPUT_SUBCTX x) = Some x"
| "output_subctx _ = None"

fun mint_subctx :: "body_stage_context \<Rightarrow> mint_context_t option" where
  "mint_subctx (MINT_SUBCTX x) = Some x"
| "mint_subctx _ = None"

fun pool_subctx :: "body_stage_context \<Rightarrow> pool_registration_context_t option" where
  "pool_subctx (POOL_SUBCTX x) = Some x"
| "pool_subctx _ = None"

definition in_cvote_dialogue :: "cvote_dialogue stmt \<Rightarrow> sign_tx_context stmt" where
  "in_cvote_dialogue d c =
     res_bind (accessAuxDataContext c) (\<lambda>a.
     res_bind (d (frame c (acBuilder a) (acCVote a))) (\<lambda>f.
       Inr ((unframe f c)\<lparr>tcPart := PART_AUX_DATA (a\<lparr>acBuilder := dlgBuilder f,
         acCVote := dlgContext f\<rparr>)\<rparr>)))"

text \<open>Whether the dialogue of the current stage is finished.\<close>

definition subctx_finished ::
  "(body_stage_context \<Rightarrow> 'c option) \<Rightarrow> ('c \<Rightarrow> bool) \<Rightarrow> sign_tx_context \<Rightarrow> bool res" where
  "subctx_finished get finished c =
     res_bind (accessBodyContext c) (\<lambda>b.
     case get (bcStageContext b) of None \<Rightarrow> Inl UNION_MISREAD | Some x \<Rightarrow> Inr (finished x))"

subsection \<open>Initialisation of the parts\<close>

text \<open>
  Zeroed states are none of the enumerators; the finished ones stand for them here, and are
  overwritten before the stage that reads them.
\<close>

definition zeroed_aux_builder :: aux_data_hash_builder_t where
  "zeroed_aux_builder = \<lparr>payloadHash = \<lparr>initialized_magic = 0, absorbed = []\<rparr>, cVoteFormat = UNKNOWN_FORMAT,
     remainingDelegations = 0, auxState = AUX_DATA_HASH_BUILDER_FINISHED,
     auxDataHash = \<lparr>initialized_magic = 0, absorbed = []\<rparr>\<rparr>"

definition initTxBodyCtx :: "sign_tx_context stmt" where
  "initTxBodyCtx c = res_bind (ASSERT (body_stage (tcStage c))) (\<lambda>_. Inr (c\<lparr>tcPart := PART_BODY
     \<lparr>bcBuilder = zeroed_builder, bcCurrentInput = 0, bcCurrentOutput = 0, bcCurrentCertificate = 0,
      bcCurrentWithdrawal = 0, bcCurrentCollateral = 0, bcCurrentRequiredSigner = 0,
      bcCurrentReferenceInput = 0, bcCurrentVotingProcedure = 0, bcFeeReceived = False,
      bcTtlReceived = False, bcValidityIntervalStartReceived = False, bcMintReceived = False,
      bcScriptDataHashReceived = False, bcCollateralOutputReceived = False,
      bcTotalCollateralReceived = False, bcTreasuryReceived = False, bcDonationReceived = False,
      bcPreviousRewardAccount = None, bcStageContext = NO_SUBCTX\<rparr>\<rparr>))"

definition initTxAuxDataCtx :: "sign_tx_context stmt" where
  "initTxAuxDataCtx c = res_bind (ASSERT (aux_data_stage (tcStage c))) (\<lambda>_. Inr (c\<lparr>tcPart := PART_AUX_DATA
     \<lparr>acAuxDataReceived = False, acBuilder = zeroed_aux_builder,
      acCVote = \<lparr>vcState = STATE_CVOTE_REGISTRATION_FINISHED, vcFormat = UNKNOWN_FORMAT, vcNumDelegations = 0,
        vcCurrentDelegation = 0, vcStakingKeyPath = blank_path, vcAuxDataHash = replicate 32 0\<rparr>\<rparr>\<rparr>))"

definition initTxWitnessCtx :: "sign_tx_context stmt" where
  "initTxWitnessCtx c = res_bind (ASSERT (tcStage c = SIGN_STAGE_WITNESSES)) (\<lambda>_.
     Inr (c\<lparr>tcPart := PART_WITNESSES 0\<rparr>))"

subsection \<open>Stages\<close>

text \<open>
  The switch of \<open>tx_advanceStage\<close> falls through every part that the transaction does not have, so
  there is a definition for the code from each case on, the last one first. An assertion about what
  was received reads the body's context only when the part was announced.
\<close>

definition assert_received ::
  "(sign_tx_context \<Rightarrow> bool) \<Rightarrow> (body_context_t \<Rightarrow> bool) \<Rightarrow> sign_tx_context stmt" where
  "assert_received announced received c =
     (if announced c then assert_body (\<lambda>_. received) c else Inr c)"

definition assert_count ::
  "(body_context_t \<Rightarrow> u16) \<Rightarrow> (sign_tx_context \<Rightarrow> u16) \<Rightarrow> sign_tx_context stmt" where
  "assert_count current tot = assert_body (\<lambda>c b. current b = tot c)"

definition wait_or :: "(sign_tx_context \<Rightarrow> bool) \<Rightarrow> sign_tx_context stmt \<Rightarrow> sign_tx_context stmt" where
  "wait_or announced next c = (if announced c then Inr c else next c)"

definition enter_or ::
  "(sign_tx_context \<Rightarrow> u16) \<Rightarrow> tx_hash_builder_t stmt \<Rightarrow> sign_tx_context stmt \<Rightarrow> sign_tx_context stmt" where
  "enter_or tot enter next c = (if tot c > 0 then on_tx_builder enter c else next c)"

definition advance_from_witnesses :: "sign_tx_context stmt" where
  "advance_from_witnesses = goto_stage SIGN_STAGE_NONE"

definition advance_from_confirm :: "sign_tx_context stmt" where
  "advance_from_confirm = seq
     [goto_stage SIGN_STAGE_WITNESSES, initTxWitnessCtx,
      wait_or (\<lambda>c. tcNumWitnesses c > 0) advance_from_witnesses]"

definition advance_from_donation :: "sign_tx_context stmt" where
  "advance_from_donation = seq
     [assert_received tcIncludeDonation bcDonationReceived, goto_stage SIGN_STAGE_CONFIRM]"

definition advance_from_treasury :: "sign_tx_context stmt" where
  "advance_from_treasury = seq
     [assert_received tcIncludeTreasury bcTreasuryReceived, goto_stage SIGN_STAGE_BODY_DONATION,
      wait_or tcIncludeDonation advance_from_donation]"

definition advance_from_voting_procedures :: "sign_tx_context stmt" where
  "advance_from_voting_procedures = seq
     [assert_count bcCurrentVotingProcedure tcNumVotingProcedures, goto_stage SIGN_STAGE_BODY_TREASURY,
      wait_or tcIncludeTreasury advance_from_treasury]"

definition advance_from_reference_inputs :: "sign_tx_context stmt" where
  "advance_from_reference_inputs = seq
     [assert_count bcCurrentReferenceInput tcNumReferenceInputs,
      goto_stage SIGN_STAGE_BODY_VOTING_PROCEDURES,
      enter_or tcNumVotingProcedures txHashBuilder_enterVotingProcedures advance_from_voting_procedures]"

definition advance_from_total_collateral :: "sign_tx_context stmt" where
  "advance_from_total_collateral = seq
     [assert_received tcIncludeTotalCollateral bcTotalCollateralReceived,
      goto_stage SIGN_STAGE_BODY_REFERENCE_INPUTS,
      enter_or tcNumReferenceInputs txHashBuilder_enterReferenceInputs advance_from_reference_inputs]"

definition advance_from_collateral_output :: "sign_tx_context stmt" where
  "advance_from_collateral_output = seq
     [assert_received tcIncludeCollateralOutput bcCollateralOutputReceived,
      goto_stage SIGN_STAGE_BODY_TOTAL_COLLATERAL,
      wait_or tcIncludeTotalCollateral advance_from_total_collateral]"

definition advance_from_required_signers :: "sign_tx_context stmt" where
  "advance_from_required_signers = seq
     [assert_count bcCurrentRequiredSigner tcNumRequiredSigners,
      (\<lambda>c. do_if (tcIncludeNetworkId c)
        (on_tx_builder (txHashBuilder_addNetworkId (txNetworkId (tcCommon c)))) c),
      goto_stage SIGN_STAGE_BODY_COLLATERAL_OUTPUT,
      wait_or tcIncludeCollateralOutput advance_from_collateral_output]"

definition advance_from_collateral_inputs :: "sign_tx_context stmt" where
  "advance_from_collateral_inputs = seq
     [assert_count bcCurrentCollateral tcNumCollateralInputs,
      goto_stage SIGN_STAGE_BODY_REQUIRED_SIGNERS,
      enter_or tcNumRequiredSigners txHashBuilder_enterRequiredSigners advance_from_required_signers]"

definition advance_from_script_data_hash :: "sign_tx_context stmt" where
  "advance_from_script_data_hash = seq
     [assert_received tcIncludeScriptDataHash bcScriptDataHashReceived,
      goto_stage SIGN_STAGE_BODY_COLLATERAL_INPUTS,
      enter_or tcNumCollateralInputs txHashBuilder_enterCollateralInputs advance_from_collateral_inputs]"

definition advance_from_mint :: "sign_tx_context stmt" where
  "advance_from_mint = seq
     [assert_received tcIncludeMint bcMintReceived, goto_stage SIGN_STAGE_BODY_SCRIPT_DATA_HASH,
      wait_or tcIncludeScriptDataHash advance_from_script_data_hash]"

definition advance_from_validity_interval :: "sign_tx_context stmt" where
  "advance_from_validity_interval = seq
     [assert_received tcIncludeValidityIntervalStart bcValidityIntervalStartReceived,
      goto_stage SIGN_STAGE_BODY_MINT,
      (\<lambda>c. if tcIncludeMint c
        then seq [on_tx_builder txHashBuilder_enterMint,
          set_body (\<lambda>b. b\<lparr>bcStageContext := MINT_SUBCTX signTxMint_init\<rparr>)] c
        else advance_from_mint c)]"

definition advance_from_withdrawals :: "sign_tx_context stmt" where
  "advance_from_withdrawals = seq
     [assert_count bcCurrentWithdrawal tcNumWithdrawals,
      (\<lambda>c. do_if (tcIncludeAuxData c) (on_tx_builder (txHashBuilder_addAuxData (tcAuxDataHash c))) c),
      goto_stage SIGN_STAGE_BODY_VALIDITY_INTERVAL,
      wait_or tcIncludeValidityIntervalStart advance_from_validity_interval]"

definition advance_from_certificates :: "sign_tx_context stmt" where
  "advance_from_certificates = seq
     [assert_count bcCurrentCertificate tcNumCertificates, goto_stage SIGN_STAGE_BODY_WITHDRAWALS,
      enter_or tcNumWithdrawals txHashBuilder_enterWithdrawals advance_from_withdrawals]"

definition advance_from_ttl :: "sign_tx_context stmt" where
  "advance_from_ttl = seq
     [assert_received tcIncludeTtl bcTtlReceived, goto_stage SIGN_STAGE_BODY_CERTIFICATES,
      enter_or tcNumCertificates txHashBuilder_enterCertificates advance_from_certificates]"

definition advance_from_fee :: "sign_tx_context stmt" where
  "advance_from_fee = seq
     [assert_body (\<lambda>_. bcFeeReceived), goto_stage SIGN_STAGE_BODY_TTL,
      wait_or tcIncludeTtl advance_from_ttl]"

definition advance_from_outputs :: "sign_tx_context stmt" where
  "advance_from_outputs = seq
     [assert_count bcCurrentOutput tcNumOutputs, goto_stage SIGN_STAGE_BODY_FEE]"

definition advance_from_inputs :: "sign_tx_context stmt" where
  "advance_from_inputs = seq
     [assert_count bcCurrentInput tcNumInputs,
      on_tx_builder txHashBuilder_enterOutputs,
      set_body (\<lambda>b. b\<lparr>bcStageContext := OUTPUT_SUBCTX initializeOutputSubmachine\<rparr>),
      goto_stage SIGN_STAGE_BODY_OUTPUTS,
      wait_or (\<lambda>c. tcNumOutputs c > 0) advance_from_outputs]"

text \<open>The arguments of \<open>txHashBuilder_init\<close>.\<close>

definition init_params :: "sign_tx_context \<Rightarrow> tx_params" where
  "init_params c = \<lparr>pTagCborSets = txTagCborSets (tcCommon c), pNumInputs = tcNumInputs c,
     pNumOutputs = tcNumOutputs c, pIncludeTtl = tcIncludeTtl c, pNumCertificates = tcNumCertificates c,
     pNumWithdrawals = tcNumWithdrawals c, pIncludeAuxData = tcIncludeAuxData c,
     pIncludeValidityIntervalStart = tcIncludeValidityIntervalStart c, pIncludeMint = tcIncludeMint c,
     pIncludeScriptDataHash = tcIncludeScriptDataHash c,
     pNumCollateralInputs = tcNumCollateralInputs c, pNumRequiredSigners = tcNumRequiredSigners c,
     pIncludeNetworkId = tcIncludeNetworkId c, pIncludeCollateralOutput = tcIncludeCollateralOutput c,
     pIncludeTotalCollateral = tcIncludeTotalCollateral c,
     pNumReferenceInputs = tcNumReferenceInputs c, pNumVotingProcedures = tcNumVotingProcedures c,
     pIncludeTreasury = tcIncludeTreasury c, pIncludeDonation = tcIncludeDonation c\<rparr>"

definition advance_from_aux_data :: "sign_tx_context stmt" where
  "advance_from_aux_data = seq
     [(\<lambda>c. if tcIncludeAuxData c
        then res_bind (accessAuxDataContext c) (\<lambda>a. res_bind (ASSERT (acAuxDataReceived a)) (\<lambda>_. Inr c))
        else Inr c),
      goto_stage SIGN_STAGE_BODY_INPUTS,
      initTxBodyCtx,
      (\<lambda>c. on_tx_builder (txHashBuilder_init (init_params c)) c),
      on_tx_builder txHashBuilder_enterInputs]"

definition advance_from_init :: "sign_tx_context stmt" where
  "advance_from_init = seq
     [goto_stage SIGN_STAGE_AUX_DATA, initTxAuxDataCtx, wait_or tcIncludeAuxData advance_from_aux_data]"

definition tx_advanceStage :: "sign_tx_context stmt" where
  "tx_advanceStage c = (case tcStage c of
       SIGN_STAGE_INIT \<Rightarrow> advance_from_init c
     | SIGN_STAGE_AUX_DATA \<Rightarrow> advance_from_aux_data c
     | SIGN_STAGE_BODY_INPUTS \<Rightarrow> advance_from_inputs c
     | SIGN_STAGE_BODY_OUTPUTS \<Rightarrow> advance_from_outputs c
     | SIGN_STAGE_BODY_FEE \<Rightarrow> advance_from_fee c
     | SIGN_STAGE_BODY_TTL \<Rightarrow> advance_from_ttl c
     | SIGN_STAGE_BODY_CERTIFICATES \<Rightarrow> advance_from_certificates c
     | SIGN_STAGE_BODY_WITHDRAWALS \<Rightarrow> advance_from_withdrawals c
     | SIGN_STAGE_BODY_VALIDITY_INTERVAL \<Rightarrow> advance_from_validity_interval c
     | SIGN_STAGE_BODY_MINT \<Rightarrow> advance_from_mint c
     | SIGN_STAGE_BODY_SCRIPT_DATA_HASH \<Rightarrow> advance_from_script_data_hash c
     | SIGN_STAGE_BODY_COLLATERAL_INPUTS \<Rightarrow> advance_from_collateral_inputs c
     | SIGN_STAGE_BODY_REQUIRED_SIGNERS \<Rightarrow> advance_from_required_signers c
     | SIGN_STAGE_BODY_COLLATERAL_OUTPUT \<Rightarrow> advance_from_collateral_output c
     | SIGN_STAGE_BODY_TOTAL_COLLATERAL \<Rightarrow> advance_from_total_collateral c
     | SIGN_STAGE_BODY_REFERENCE_INPUTS \<Rightarrow> advance_from_reference_inputs c
     | SIGN_STAGE_BODY_VOTING_PROCEDURES \<Rightarrow> advance_from_voting_procedures c
     | SIGN_STAGE_BODY_TREASURY \<Rightarrow> advance_from_treasury c
     | SIGN_STAGE_BODY_DONATION \<Rightarrow> advance_from_donation c
     | SIGN_STAGE_CONFIRM \<Rightarrow> advance_from_confirm c
     | SIGN_STAGE_WITNESSES \<Rightarrow> advance_from_witnesses c
     | _ \<Rightarrow> Inl ERR_ASSERT)"

text \<open>The end of one of several equal parts: the counter, and the next stage after the last one.\<close>

definition count_and_advance ::
  "(body_context_t \<Rightarrow> u16) \<Rightarrow> ((u16 \<Rightarrow> u16) \<Rightarrow> body_context_t \<Rightarrow> body_context_t) \<Rightarrow>
   (sign_tx_context \<Rightarrow> u16) \<Rightarrow> sign_tx_context stmt" where
  "count_and_advance current update tot = seq
     [assert_body (\<lambda>c b. current b < tot c),
      set_body (update (\<lambda>n. n + 1)),
      (\<lambda>c. res_bind (accessBodyContext c) (\<lambda>b. do_if (current b = tot c) tx_advanceStage c))]"

definition tx_advanceCertificatesStateIfAppropriate :: "sign_tx_context stmt" where
  "tx_advanceCertificatesStateIfAppropriate c =
     (if tcStage c = SIGN_STAGE_BODY_CERTIFICATES
      then count_and_advance bcCurrentCertificate bcCurrentCertificate_update tcNumCertificates c
      else res_bind (ASSERT (tcStage c = SIGN_STAGE_BODY_CERTIFICATES_POOL_SUBMACHINE)) (\<lambda>_. Inr c))"

text \<open>Each message first moves on from a dialogue that ended with the last one.\<close>

definition checkForFinishedSubmachines :: "sign_tx_context stmt" where
  "checkForFinishedSubmachines c = (case tcStage c of
       SIGN_STAGE_BODY_OUTPUTS_SUBMACHINE \<Rightarrow>
         res_bind (subctx_finished output_subctx isCurrentOutputFinished c) (\<lambda>finished.
           do_if finished (seq
             [assert_body (\<lambda>c b. bcCurrentOutput b < tcNumOutputs c),
              goto_stage SIGN_STAGE_BODY_OUTPUTS,
              set_body (\<lambda>b. b\<lparr>bcCurrentOutput := bcCurrentOutput b + 1\<rparr>),
              (\<lambda>c. res_bind (accessBodyContext c) (\<lambda>b.
                do_if (bcCurrentOutput b = tcNumOutputs c) tx_advanceStage c))]) c)
     | SIGN_STAGE_BODY_CERTIFICATES_POOL_SUBMACHINE \<Rightarrow>
         res_bind (subctx_finished pool_subctx signTxPoolRegistration_isFinished c) (\<lambda>finished.
           do_if finished (seq
             [assert_body (\<lambda>c b. bcCurrentCertificate b < tcNumCertificates c),
              goto_stage SIGN_STAGE_BODY_CERTIFICATES,
              tx_advanceCertificatesStateIfAppropriate]) c)
     | SIGN_STAGE_AUX_DATA_CVOTE_REGISTRATION_SUBMACHINE \<Rightarrow>
         res_bind (accessAuxDataContext c) (\<lambda>a.
           do_if (signTxCVoteRegistration_isFinished (acCVote a)) (seq
             [goto_stage SIGN_STAGE_AUX_DATA,
              modify (\<lambda>c. c\<lparr>tcPart := PART_AUX_DATA (a\<lparr>acAuxDataReceived := True\<rparr>),
                tcAuxDataHash := vcAuxDataHash (acCVote a)\<rparr>),
              tx_advanceStage]) c)
     | SIGN_STAGE_BODY_MINT_SUBMACHINE \<Rightarrow>
         res_bind (subctx_finished mint_subctx signTxMint_isFinished c) (\<lambda>finished.
           do_if finished (seq
             [goto_stage SIGN_STAGE_BODY_MINT,
              set_body (\<lambda>b. b\<lparr>bcMintReceived := True\<rparr>),
              tx_advanceStage]) c)
     | SIGN_STAGE_BODY_COLLATERAL_OUTPUT_SUBMACHINE \<Rightarrow>
         res_bind (subctx_finished output_subctx isCurrentOutputFinished c) (\<lambda>finished.
           do_if finished (seq
             [goto_stage SIGN_STAGE_BODY_COLLATERAL_OUTPUT,
              set_body (\<lambda>b. b\<lparr>bcCollateralOutputReceived := True\<rparr>),
              tx_advanceStage]) c)
     | _ \<Rightarrow> Inr c)"

definition CHECK_STAGE :: "sign_tx_stage_t \<Rightarrow> sign_tx_context stmt" where
  "CHECK_STAGE expected c = (if tcStage c = expected then Inr c else Inl ERR_INVALID_STATE)"

end
