(* ===== verification/SignTxCertificates.thy ===== *)
theory SignTxCertificates
  imports SignTxStages
begin

text \<open>
  The certificates and withdrawals of \<open>src/signTx/signTx.c\<close>, with their screens in \<open>signTx_ui.c\<close>:
  parsing, the policies, the calls of the builder. A stake pool registration starts its dialogue.
\<close>

subsection \<open>Data\<close>

abbreviation (input) ANCHOR_URL_LENGTH_MAX :: nat where "ANCHOR_URL_LENGTH_MAX \<equiv> 128"

text \<open>The second union of \<open>sign_tx_certificate_data_t\<close>; the first one has the same type throughout.\<close>

datatype certificate_union =
    CERTIFICATE_UNION_ZERO
  | POOL_CREDENTIAL ext_credential_t
  | COMMITTEE_HOT_CREDENTIAL ext_credential_t
  | CERTIFICATE_DREP ext_drep_t
  | CERTIFICATE_ANCHOR anchor_t

record sign_tx_certificate_data_t =
  cdType :: certificate_type_t
  cdCredential :: ext_credential_t
  cdUnion :: certificate_union
  cdValue :: u64

definition poolCredential :: "sign_tx_certificate_data_t \<Rightarrow> ext_credential_t res" where
  "poolCredential cert = (case cdUnion cert of POOL_CREDENTIAL x \<Rightarrow> Inr x | _ \<Rightarrow> Inl UNION_MISREAD)"

definition committeeHotCredential :: "sign_tx_certificate_data_t \<Rightarrow> ext_credential_t res" where
  "committeeHotCredential cert =
     (case cdUnion cert of COMMITTEE_HOT_CREDENTIAL x \<Rightarrow> Inr x | _ \<Rightarrow> Inl UNION_MISREAD)"

definition certificateDRep :: "sign_tx_certificate_data_t \<Rightarrow> ext_drep_t res" where
  "certificateDRep cert = (case cdUnion cert of CERTIFICATE_DREP x \<Rightarrow> Inr x | _ \<Rightarrow> Inl UNION_MISREAD)"

definition certificateAnchor :: "sign_tx_certificate_data_t \<Rightarrow> anchor_t res" where
  "certificateAnchor cert = (case cdUnion cert of CERTIFICATE_ANCHOR x \<Rightarrow> Inr x | _ \<Rightarrow> Inl UNION_MISREAD)"

subsection \<open>Parsing\<close>

definition parseCredential :: "ext_credential_t parser" where
  "parseCredential view =
     res_bind (parse_u1be view) (\<lambda>(t, view).
     if t = 0
     then res_bind (view_parsePath blank_path view) (\<lambda>(p, view). Inr (EXT_CREDENTIAL_KEY_PATH p, view))
     else if t = 2
     then res_bind (view_parseBuffer ADDRESS_KEY_HASH_LENGTH view) (\<lambda>(h, view).
       Inr (EXT_CREDENTIAL_KEY_HASH h, view))
     else if t = 1
     then res_bind (view_parseBuffer SCRIPT_HASH_LENGTH view) (\<lambda>(h, view).
       Inr (EXT_CREDENTIAL_SCRIPT_HASH h, view))
     else Inl ERR_INVALID_DATA)"

definition parseDRep :: "ext_drep_t parser" where
  "parseDRep view =
     res_bind (parse_u1be view) (\<lambda>(t, view).
     if t = 100
     then res_bind (view_parsePath blank_path view) (\<lambda>(p, view). Inr (EXT_DREP_KEY_PATH p, view))
     else if t = 0
     then res_bind (view_parseBuffer ADDRESS_KEY_HASH_LENGTH view) (\<lambda>(h, view). Inr (EXT_DREP_KEY_HASH h, view))
     else if t = 1
     then res_bind (view_parseBuffer SCRIPT_HASH_LENGTH view) (\<lambda>(h, view). Inr (EXT_DREP_SCRIPT_HASH h, view))
     else if t = 2 then Inr (EXT_DREP_ABSTAIN, view)
     else if t = 3 then Inr (EXT_DREP_NO_CONFIDENCE, view)
     else Inl ERR_INVALID_DATA)"

text \<open>The anchor is the rest of the message.\<close>

definition parseAnchor :: "anchor_t parser" where
  "parseAnchor view =
     res_bind (parse_u1be view) (\<lambda>(includeByte, view).
     res_bind (signTx_parseIncluded includeByte) (\<lambda>included.
     if \<not> included
     then res_bind (no_more_data view) (\<lambda>_.
       Inr (\<lparr>anchorIsIncluded = False, anchorUrl = [], anchorHash = replicate 32 0\<rparr>, view))
     else
     res_bind (view_parseBuffer ANCHOR_HASH_LENGTH view) (\<lambda>(hash, view).
     res_bind (read_view_remaining_size view) (\<lambda>urlLength.
     res_bind (VALIDATE (urlLength \<le> ANCHOR_URL_LENGTH_MAX) ERR_INVALID_DATA) (\<lambda>_.
     res_bind (view_parseBuffer urlLength view) (\<lambda>(url, view).
     res_bind (str_isPrintableAsciiWithoutSpaces url) (\<lambda>ok.
     res_bind (VALIDATE ok ERR_INVALID_DATA) (\<lambda>_.
     res_bind (no_more_data view) (\<lambda>_.
       Inr (\<lparr>anchorIsIncluded = True, anchorUrl = url, anchorHash = hash\<rparr>, view))))))))))"

definition parse_certificate_type :: "u8 \<Rightarrow> certificate_type_t res" where
  "parse_certificate_type t =
     (if t = 0 then Inr CERTIFICATE_STAKE_REGISTRATION
      else if t = 1 then Inr CERTIFICATE_STAKE_DEREGISTRATION
      else if t = 2 then Inr CERTIFICATE_STAKE_DELEGATION
      else if t = 3 then Inr CERTIFICATE_STAKE_POOL_REGISTRATION
      else if t = 4 then Inr CERTIFICATE_STAKE_POOL_RETIREMENT
      else if t = 7 then Inr CERTIFICATE_STAKE_REGISTRATION_CONWAY
      else if t = 8 then Inr CERTIFICATE_STAKE_DEREGISTRATION_CONWAY
      else if t = 9 then Inr CERTIFICATE_VOTE_DELEGATION
      else if t = 14 then Inr CERTIFICATE_AUTHORIZE_COMMITTEE_HOT
      else if t = 15 then Inr CERTIFICATE_RESIGN_COMMITTEE_COLD
      else if t = 16 then Inr CERTIFICATE_DREP_REGISTRATION
      else if t = 17 then Inr CERTIFICATE_DREP_DEREGISTRATION
      else if t = 18 then Inr CERTIFICATE_DREP_UPDATE
      else Inl ERR_INVALID_DATA)"

text \<open>The members a type does not set keep the zeroes; a zeroed credential is an empty path.\<close>

definition certificate_data ::
  "certificate_type_t \<Rightarrow> ext_credential_t \<Rightarrow> certificate_union \<Rightarrow> u64 \<Rightarrow> sign_tx_certificate_data_t" where
  "certificate_data t credential u value =
     \<lparr>cdType = t, cdCredential = credential, cdUnion = u, cdValue = value\<rparr>"

definition parse_credential_value ::
  "certificate_type_t \<Rightarrow> sign_tx_certificate_data_t parser" where
  "parse_credential_value t view =
     res_bind (parseCredential view) (\<lambda>(credential, view).
     res_bind (parse_u8be view) (\<lambda>(deposit, view).
       Inr (certificate_data t credential CERTIFICATE_UNION_ZERO deposit, view)))"

definition parse_credential_anchor ::
  "certificate_type_t \<Rightarrow> sign_tx_certificate_data_t parser" where
  "parse_credential_anchor t view =
     res_bind (parseCredential view) (\<lambda>(credential, view).
     res_bind (parseAnchor view) (\<lambda>(anchor, view).
       Inr (certificate_data t credential (CERTIFICATE_ANCHOR anchor) 0, view)))"

definition parse_certificate_body :: "certificate_type_t \<Rightarrow> sign_tx_certificate_data_t parser" where
  "parse_certificate_body t view = (case t of
       CERTIFICATE_STAKE_REGISTRATION \<Rightarrow> res_bind (parseCredential view) (\<lambda>(credential, view).
         Inr (certificate_data t credential CERTIFICATE_UNION_ZERO 0, view))
     | CERTIFICATE_STAKE_DEREGISTRATION \<Rightarrow> res_bind (parseCredential view) (\<lambda>(credential, view).
         Inr (certificate_data t credential CERTIFICATE_UNION_ZERO 0, view))
     | CERTIFICATE_STAKE_REGISTRATION_CONWAY \<Rightarrow> parse_credential_value t view
     | CERTIFICATE_STAKE_DEREGISTRATION_CONWAY \<Rightarrow> parse_credential_value t view
     | CERTIFICATE_STAKE_DELEGATION \<Rightarrow> res_bind (parseCredential view) (\<lambda>(credential, view).
         res_bind (view_parseBuffer POOL_KEY_HASH_LENGTH view) (\<lambda>(h, view).
           Inr (certificate_data t credential (POOL_CREDENTIAL (EXT_CREDENTIAL_KEY_HASH h)) 0, view)))
     | CERTIFICATE_VOTE_DELEGATION \<Rightarrow> res_bind (parseCredential view) (\<lambda>(credential, view).
         res_bind (parseDRep view) (\<lambda>(drep, view).
           Inr (certificate_data t credential (CERTIFICATE_DREP drep) 0, view)))
     | CERTIFICATE_AUTHORIZE_COMMITTEE_HOT \<Rightarrow> res_bind (parseCredential view) (\<lambda>(cold, view).
         res_bind (parseCredential view) (\<lambda>(hot, view).
           Inr (certificate_data t cold (COMMITTEE_HOT_CREDENTIAL hot) 0, view)))
     | CERTIFICATE_RESIGN_COMMITTEE_COLD \<Rightarrow> parse_credential_anchor t view
     | CERTIFICATE_DREP_REGISTRATION \<Rightarrow> res_bind (parseCredential view) (\<lambda>(credential, view).
         res_bind (parse_u8be view) (\<lambda>(deposit, view).
         res_bind (parseAnchor view) (\<lambda>(anchor, view).
           Inr (certificate_data t credential (CERTIFICATE_ANCHOR anchor) deposit, view))))
     | CERTIFICATE_DREP_DEREGISTRATION \<Rightarrow> parse_credential_value t view
     | CERTIFICATE_DREP_UPDATE \<Rightarrow> parse_credential_anchor t view
     | CERTIFICATE_STAKE_POOL_RETIREMENT \<Rightarrow> res_bind (view_parsePath blank_path view) (\<lambda>(p, view).
         res_bind (parse_u8be view) (\<lambda>(epoch, view).
           Inr (certificate_data t (EXT_CREDENTIAL_KEY_PATH blank_path)
             (POOL_CREDENTIAL (EXT_CREDENTIAL_KEY_PATH p)) epoch, view)))
     | CERTIFICATE_STAKE_POOL_REGISTRATION \<Rightarrow>
         Inr (certificate_data t (EXT_CREDENTIAL_KEY_PATH blank_path) CERTIFICATE_UNION_ZERO 0, view))"

text \<open>A pool registration does not check that nothing follows its type.\<close>

definition parseCertificateData :: "bytes \<Rightarrow> sign_tx_certificate_data_t res" where
  "parseCertificateData wire =
     res_bind (parse_u1be (make_read_view wire)) (\<lambda>(typeByte, view).
     res_bind (parse_certificate_type typeByte) (\<lambda>t.
     res_bind (parse_certificate_body t view) (\<lambda>(cert, view).
     if t = CERTIFICATE_STAKE_POOL_REGISTRATION then Inr cert
     else res_bind (no_more_data view) (\<lambda>_. Inr cert))))"

subsection \<open>The calls of the builder\<close>

definition setCredential :: "firmware \<Rightarrow> ext_credential_t \<Rightarrow> credential_t res" where
  "setCredential fw credential = (case credential of
       EXT_CREDENTIAL_KEY_PATH p \<Rightarrow> res_bind (bip44_pathToKeyHash fw p ADDRESS_KEY_HASH_LENGTH) (\<lambda>h.
         Inr \<lparr>credType = CREDENTIAL_KEY_HASH, credHash = h\<rparr>)
     | EXT_CREDENTIAL_KEY_HASH h \<Rightarrow> Inr \<lparr>credType = CREDENTIAL_KEY_HASH, credHash = h\<rparr>
     | EXT_CREDENTIAL_SCRIPT_HASH h \<Rightarrow> Inr \<lparr>credType = CREDENTIAL_SCRIPT_HASH, credHash = h\<rparr>)"

definition setDRep :: "firmware \<Rightarrow> ext_drep_t \<Rightarrow> drep_t res" where
  "setDRep fw drep = (case drep of
       EXT_DREP_KEY_PATH p \<Rightarrow> res_bind (bip44_pathToKeyHash fw p ADDRESS_KEY_HASH_LENGTH) (\<lambda>h.
         Inr (DREP_KEY_HASH h))
     | EXT_DREP_KEY_HASH h \<Rightarrow> Inr (DREP_KEY_HASH h)
     | EXT_DREP_SCRIPT_HASH h \<Rightarrow> Inr (DREP_SCRIPT_HASH h)
     | EXT_DREP_ABSTAIN \<Rightarrow> Inr DREP_ALWAYS_ABSTAIN
     | EXT_DREP_NO_CONFIDENCE \<Rightarrow> Inr DREP_ALWAYS_NO_CONFIDENCE)"

definition addCertificateDataToTx ::
  "firmware \<Rightarrow> sign_tx_certificate_data_t \<Rightarrow> tx_hash_builder_t stmt" where
  "addCertificateDataToTx fw cert b =
     (let t = cdType cert; deposit = cdValue cert;
          withCredential = (\<lambda>f. res_bind (setCredential fw (cdCredential cert)) f);
          withAnchor = (\<lambda>f. res_bind (certificateAnchor cert) f) in
      case t of
       CERTIFICATE_STAKE_REGISTRATION \<Rightarrow>
         withCredential (\<lambda>x. txHashBuilder_addCertificate_stakingOld t x b)
     | CERTIFICATE_STAKE_DEREGISTRATION \<Rightarrow>
         withCredential (\<lambda>x. txHashBuilder_addCertificate_stakingOld t x b)
     | CERTIFICATE_STAKE_REGISTRATION_CONWAY \<Rightarrow>
         withCredential (\<lambda>x. txHashBuilder_addCertificate_staking t x deposit b)
     | CERTIFICATE_STAKE_DEREGISTRATION_CONWAY \<Rightarrow>
         withCredential (\<lambda>x. txHashBuilder_addCertificate_staking t x deposit b)
     | CERTIFICATE_STAKE_DELEGATION \<Rightarrow> withCredential (\<lambda>x.
         res_bind (poolCredential cert) (\<lambda>pool. case pool of
           EXT_CREDENTIAL_KEY_HASH h \<Rightarrow> txHashBuilder_addCertificate_stakeDelegation x h b
         | _ \<Rightarrow> Inl ERR_ASSERT))
     | CERTIFICATE_VOTE_DELEGATION \<Rightarrow> withCredential (\<lambda>x.
         res_bind (res_bind (certificateDRep cert) (setDRep fw)) (\<lambda>drep.
           txHashBuilder_addCertificate_voteDelegation x drep b))
     | CERTIFICATE_AUTHORIZE_COMMITTEE_HOT \<Rightarrow> withCredential (\<lambda>x.
         res_bind (res_bind (committeeHotCredential cert) (setCredential fw)) (\<lambda>hot.
           txHashBuilder_addCertificate_committeeAuthHot x hot b))
     | CERTIFICATE_RESIGN_COMMITTEE_COLD \<Rightarrow> withCredential (\<lambda>x. withAnchor (\<lambda>anchor.
         txHashBuilder_addCertificate_committeeResign x anchor b))
     | CERTIFICATE_DREP_REGISTRATION \<Rightarrow> withCredential (\<lambda>x. withAnchor (\<lambda>anchor.
         txHashBuilder_addCertificate_dRepRegistration x deposit anchor b))
     | CERTIFICATE_DREP_DEREGISTRATION \<Rightarrow> withCredential (\<lambda>x.
         txHashBuilder_addCertificate_dRepDeregistration x deposit b)
     | CERTIFICATE_DREP_UPDATE \<Rightarrow> withCredential (\<lambda>x. withAnchor (\<lambda>anchor.
         txHashBuilder_addCertificate_dRepUpdate x anchor b))
     | CERTIFICATE_STAKE_POOL_RETIREMENT \<Rightarrow>
         res_bind (poolCredential cert) (\<lambda>pool. case pool of
           EXT_CREDENTIAL_KEY_PATH p \<Rightarrow> res_bind (bip44_pathToKeyHash fw p ADDRESS_KEY_HASH_LENGTH) (\<lambda>h.
             txHashBuilder_addCertificate_poolRetirement h (cdValue cert) b)
         | _ \<Rightarrow> Inl ERR_ASSERT)
     | CERTIFICATE_STAKE_POOL_REGISTRATION \<Rightarrow> Inl ERR_ASSERT)"

subsection \<open>Screens\<close>

definition displayCredential ::
  "ext_credential_t \<Rightarrow> string \<Rightarrow> string \<Rightarrow> string \<Rightarrow> string \<Rightarrow> string \<Rightarrow> screen" where
  "displayCredential credential keyPathLabel keyHashLabel keyHashPrefix scriptHashLabel scriptHashPrefix =
     (case credential of
       EXT_CREDENTIAL_KEY_PATH p \<Rightarrow> SCREEN keyPathLabel (KEY_PATH p)
     | EXT_CREDENTIAL_KEY_HASH h \<Rightarrow> SCREEN keyHashLabel (BECH32 keyHashPrefix h)
     | EXT_CREDENTIAL_SCRIPT_HASH h \<Rightarrow> SCREEN scriptHashLabel (BECH32 scriptHashPrefix h))"

definition displayStakeCredential :: "ext_credential_t \<Rightarrow> screen" where
  "displayStakeCredential credential = displayCredential credential
     ''Stake key'' ''Stake key hash'' ''stake_vkh'' ''Stake script hash'' ''script''"

definition displayDeposit :: "u64 \<Rightarrow> screen" where
  "displayDeposit deposit = SCREEN ''Deposit'' (ADA_AMOUNT deposit)"

text \<open>\<open>_displayAnchorNull\<close>, or \<open>_displayAnchorUrl\<close> and \<open>_displayAnchorHash\<close>.\<close>

definition anchor_screens :: "anchor_t \<Rightarrow> screen list" where
  "anchor_screens anchor =
     (if anchorIsIncluded anchor
      then [SCREEN ''Anchor url'' (ASCII (anchorUrl anchor)),
        SCREEN ''Anchor data hash'' (HEX (anchorHash anchor))]
      else [SCREEN ''Anchor'' (TEXT ''null'')])"

definition staking_screens :: "sign_tx_certificate_data_t \<Rightarrow> screen list res" where
  "staking_screens cert =
     (let t = cdType cert; credential = displayStakeCredential (cdCredential cert);
          deposit = displayDeposit (cdValue cert) in
      case t of
       CERTIFICATE_STAKE_REGISTRATION \<Rightarrow> Inr
         [SCREEN ''Register'' (TEXT ''stake key''), credential, SCREEN ''Confirm'' (QUESTION ''registration?'')]
     | CERTIFICATE_STAKE_REGISTRATION_CONWAY \<Rightarrow> Inr
         [SCREEN ''Register'' (TEXT ''stake key''), credential, deposit,
          SCREEN ''Confirm'' (QUESTION ''registration?'')]
     | CERTIFICATE_STAKE_DEREGISTRATION \<Rightarrow> Inr
         [SCREEN ''Deregister'' (TEXT ''stake key''), credential,
          SCREEN ''Confirm'' (QUESTION ''deregistration?'')]
     | CERTIFICATE_STAKE_DEREGISTRATION_CONWAY \<Rightarrow> Inr
         [SCREEN ''Deregister'' (TEXT ''stake key''), credential, deposit,
          SCREEN ''Confirm'' (QUESTION ''deregistration?'')]
     | CERTIFICATE_STAKE_DELEGATION \<Rightarrow> res_bind (poolCredential cert) (\<lambda>pool. case pool of
         EXT_CREDENTIAL_KEY_HASH h \<Rightarrow> Inr
           [SCREEN ''Delegate stake'' (BECH32 ''pool'' h), credential,
            SCREEN ''Confirm'' (QUESTION ''delegation?'')]
       | _ \<Rightarrow> Inl ERR_ASSERT)
     | _ \<Rightarrow> Inl ERR_ASSERT)"

definition drep_screen :: "ext_drep_t \<Rightarrow> screen" where
  "drep_screen drep = (case drep of
       EXT_DREP_KEY_PATH p \<Rightarrow> SCREEN ''DRep key'' (KEY_PATH p)
     | EXT_DREP_KEY_HASH h \<Rightarrow> SCREEN ''DRep key hash'' (BECH32 ''drep'' h)
     | EXT_DREP_SCRIPT_HASH h \<Rightarrow> SCREEN ''DRep script hash'' (BECH32 ''drep_script'' h)
     | EXT_DREP_ABSTAIN \<Rightarrow> SCREEN ''Always'' (TEXT ''abstain'')
     | EXT_DREP_NO_CONFIDENCE \<Rightarrow> SCREEN ''Always'' (TEXT ''no confidence''))"

definition vote_delegation_screens :: "sign_tx_certificate_data_t \<Rightarrow> screen list res" where
  "vote_delegation_screens cert =
     res_bind (certificateDRep cert) (\<lambda>drep. Inr
       [SCREEN ''Delegate'' (TEXT ''vote''), displayStakeCredential (cdCredential cert),
        drep_screen drep, SCREEN ''Confirm vote'' (QUESTION ''delegation'')])"

definition committee_auth_screens :: "sign_tx_certificate_data_t \<Rightarrow> screen list res" where
  "committee_auth_screens cert =
     res_bind (committeeHotCredential cert) (\<lambda>hot. Inr
       [SCREEN ''Authorize'' (TEXT ''committee''),
        displayCredential (cdCredential cert) ''Cmte. cold key'' ''Cmte. cold key hash'' ''cc_cold''
          ''Cmte. cold script'' ''cc_cold_script'',
        displayCredential hot ''Cmte. hot key'' ''Cmte. hot key hash'' ''cc_hot''
          ''Cmte. hot script'' ''cc_hot_script'',
        SCREEN ''Confirm'' (QUESTION ''authorization?'')])"

definition committee_resign_screens :: "sign_tx_certificate_data_t \<Rightarrow> screen list res" where
  "committee_resign_screens cert =
     res_bind (certificateAnchor cert) (\<lambda>anchor. Inr (
       [SCREEN ''Resign from'' (TEXT ''committee''),
        displayCredential (cdCredential cert) ''Cmte. cold key'' ''Cmte. cold key hash'' ''cc_cold''
          ''Cmte. cold script'' ''cc_cold''] @
       anchor_screens anchor @
       [SCREEN ''Confirm'' (QUESTION ''resignation'')]))"

definition drep_certificate_screens :: "sign_tx_certificate_data_t \<Rightarrow> screen list res" where
  "drep_certificate_screens cert =
     (let credential = displayCredential (cdCredential cert) ''DRep key'' ''DRep key hash'' ''drep''
            ''DRep script hash'' ''drep'';
          deposit = displayDeposit (cdValue cert) in
      case cdType cert of
       CERTIFICATE_DREP_REGISTRATION \<Rightarrow> res_bind (certificateAnchor cert) (\<lambda>anchor. Inr (
         [SCREEN ''Register'' (TEXT ''DRep''), credential, deposit] @ anchor_screens anchor @
         [SCREEN ''Confirm'' (QUESTION ''registration?'')]))
     | CERTIFICATE_DREP_DEREGISTRATION \<Rightarrow> Inr
         [SCREEN ''Deregister'' (TEXT ''DRep''), credential, deposit,
          SCREEN ''Confirm'' (QUESTION ''deregistration?'')]
     | CERTIFICATE_DREP_UPDATE \<Rightarrow> res_bind (certificateAnchor cert) (\<lambda>anchor. Inr (
         [SCREEN ''Update'' (TEXT ''DRep''), credential] @ anchor_screens anchor @
         [SCREEN ''Confirm'' (QUESTION ''update?'')]))
     | _ \<Rightarrow> Inl ERR_ASSERT)"

text \<open>
  The screen of a pool retirement shows \<open>poolCredential.keyHash\<close>, but the member of that union
  that was written is the path of the pool key: the 28 bytes displayed are the five
  (little-endian) words of the path, its length, and four bytes that were cleared.
\<close>

definition word_memory :: "u32 \<Rightarrow> bytes" where
  "word_memory w = map (\<lambda>i. ucast (drop_bit (8 * i) w)) [0..<4]"

definition path_memory :: "bip44_path_t \<Rightarrow> bytes" where
  "path_memory p = concat (map word_memory (path p)) @ word_memory (path_length p) @ [0, 0, 0, 0]"

definition pool_retirement_screens :: "sign_tx_certificate_data_t \<Rightarrow> screen list res" where
  "pool_retirement_screens cert =
     res_bind (poolCredential cert) (\<lambda>pool.
     let shown = (case pool of EXT_CREDENTIAL_KEY_PATH p \<Rightarrow> path_memory p
       | EXT_CREDENTIAL_KEY_HASH h \<Rightarrow> h | EXT_CREDENTIAL_SCRIPT_HASH h \<Rightarrow> h) in
     Inr [SCREEN ''Retire stake pool'' (BECH32 ''pool'' shown),
       SCREEN ''at the start of epoch'' (NUMBER (unat (cdValue cert))),
       SCREEN ''Confirm'' (QUESTION ''pool retirement'')])"

subsection \<open>The handlers of the types\<close>

text \<open>
  \<open>_handleCertificateStaking\<close> and its siblings: the policy of the type, the call of the builder, the
  screens, and the next certificate.
\<close>

definition handleCertificate ::
  "firmware \<Rightarrow> bool \<Rightarrow> security_policy_t acct \<Rightarrow> screen list res \<Rightarrow> sign_tx_certificate_data_t \<Rightarrow>
   sign_tx_context stmt" where
  "handleCertificate fw approve policyFor screensFor cert c =
     res_bind (policyFor (singleAccountData (tcCommon c))) (\<lambda>(policy, acct).
     res_bind (ENSURE_NOT_DENIED policy) (\<lambda>_.
     res_bind (on_tx_builder (addCertificateDataToTx fw cert)
       (c\<lparr>tcCommon := (tcCommon c)\<lparr>singleAccountData := acct\<rparr>\<rparr>)) (\<lambda>c.
     res_bind (if policy = PROMPT then screensFor else Inr []) (\<lambda>screens.
       tx_select approve [PROMPT] policy screens tx_advanceCertificatesStateIfAppropriate c))))"

definition handleCertificateStaking ::
  "firmware \<Rightarrow> bool \<Rightarrow> sign_tx_certificate_data_t \<Rightarrow> sign_tx_context stmt" where
  "handleCertificateStaking fw approve cert c = handleCertificate fw approve
     (policyForSignTxCertificateStaking (txSigningMode (tcCommon c)) (cdType cert) (cdCredential cert))
     (staking_screens cert) cert c"

definition handleCertificateVoteDeleg ::
  "firmware \<Rightarrow> bool \<Rightarrow> sign_tx_certificate_data_t \<Rightarrow> sign_tx_context stmt" where
  "handleCertificateVoteDeleg fw approve cert c =
     res_bind (certificateDRep cert) (\<lambda>drep. handleCertificate fw approve
       (policyForSignTxCertificateVoteDelegation (txSigningMode (tcCommon c)) (cdCredential cert) drep)
       (vote_delegation_screens cert) cert c)"

definition handleCertificateCommitteeAuth ::
  "firmware \<Rightarrow> bool \<Rightarrow> sign_tx_certificate_data_t \<Rightarrow> sign_tx_context stmt" where
  "handleCertificateCommitteeAuth fw approve cert c =
     res_bind (committeeHotCredential cert) (\<lambda>hot. handleCertificate fw approve
       (policyForSignTxCertificateCommitteeAuth (txSigningMode (tcCommon c)) (cdCredential cert) hot)
       (committee_auth_screens cert) cert c)"

definition handleCertificateCommitteeResign ::
  "firmware \<Rightarrow> bool \<Rightarrow> sign_tx_certificate_data_t \<Rightarrow> sign_tx_context stmt" where
  "handleCertificateCommitteeResign fw approve cert c = handleCertificate fw approve
     (policyForSignTxCertificateCommitteeResign (txSigningMode (tcCommon c)) (cdCredential cert))
     (committee_resign_screens cert) cert c"

definition handleCertificateDRep ::
  "firmware \<Rightarrow> bool \<Rightarrow> sign_tx_certificate_data_t \<Rightarrow> sign_tx_context stmt" where
  "handleCertificateDRep fw approve cert c = handleCertificate fw approve
     (policyForSignTxCertificateDRep (txSigningMode (tcCommon c)) (cdCredential cert))
     (drep_certificate_screens cert) cert c"

definition handleCertificatePoolRegistration :: "sign_tx_context stmt" where
  "handleCertificatePoolRegistration = seq
     [goto_stage SIGN_STAGE_BODY_CERTIFICATES_POOL_SUBMACHINE,
      set_body (\<lambda>b. b\<lparr>bcStageContext := POOL_SUBCTX signTxPoolRegistration_init\<rparr>)]"

definition handleCertificatePoolRetirement ::
  "firmware \<Rightarrow> bool \<Rightarrow> sign_tx_certificate_data_t \<Rightarrow> sign_tx_context stmt" where
  "handleCertificatePoolRetirement fw approve cert c =
     res_bind (poolCredential cert) (\<lambda>pool. handleCertificate fw approve
       (with_acct (policyForSignTxCertificateStakePoolRetirement (txSigningMode (tcCommon c)) pool (cdValue cert)))
       (pool_retirement_screens cert) cert c)"

definition signTx_handleCertificateAPDU ::
  "firmware \<Rightarrow> bool \<Rightarrow> u8 \<Rightarrow> wire_data \<Rightarrow> sign_tx_context stmt" where
  "signTx_handleCertificateAPDU fw approve p2 data c =
     res_bind (assert_body (\<lambda>c b. bcCurrentCertificate b < tcNumCertificates c) c) (\<lambda>c.
     if signTxPoolRegistration_isValidInstruction p2
     then res_bind (VALIDATE (tcStage c = SIGN_STAGE_BODY_CERTIFICATES_POOL_SUBMACHINE) ERR_INVALID_DATA) (\<lambda>_.
       in_body_dialogue pool_subctx POOL_SUBCTX (signTxPoolRegistration_handleAPDU fw approve p2 data) c)
     else
     res_bind (VALIDATE (p2 = P2_UNUSED) ERR_INVALID_REQUEST_PARAMETERS) (\<lambda>_.
     res_bind (CHECK_STAGE SIGN_STAGE_BODY_CERTIFICATES c) (\<lambda>c.
     res_bind (parseCertificateData (wire_bytes data)) (\<lambda>cert.
     res_bind (policyForSignTxCertificate (txSigningMode (tcCommon c)) (cdType cert)) (\<lambda>policy.
     res_bind (ENSURE_NOT_DENIED policy) (\<lambda>_.
     case cdType cert of
       CERTIFICATE_STAKE_REGISTRATION \<Rightarrow> handleCertificateStaking fw approve cert c
     | CERTIFICATE_STAKE_DEREGISTRATION \<Rightarrow> handleCertificateStaking fw approve cert c
     | CERTIFICATE_STAKE_REGISTRATION_CONWAY \<Rightarrow> handleCertificateStaking fw approve cert c
     | CERTIFICATE_STAKE_DEREGISTRATION_CONWAY \<Rightarrow> handleCertificateStaking fw approve cert c
     | CERTIFICATE_STAKE_DELEGATION \<Rightarrow> handleCertificateStaking fw approve cert c
     | CERTIFICATE_VOTE_DELEGATION \<Rightarrow> handleCertificateVoteDeleg fw approve cert c
     | CERTIFICATE_AUTHORIZE_COMMITTEE_HOT \<Rightarrow> handleCertificateCommitteeAuth fw approve cert c
     | CERTIFICATE_RESIGN_COMMITTEE_COLD \<Rightarrow> handleCertificateCommitteeResign fw approve cert c
     | CERTIFICATE_DREP_REGISTRATION \<Rightarrow> handleCertificateDRep fw approve cert c
     | CERTIFICATE_DREP_DEREGISTRATION \<Rightarrow> handleCertificateDRep fw approve cert c
     | CERTIFICATE_DREP_UPDATE \<Rightarrow> handleCertificateDRep fw approve cert c
     | CERTIFICATE_STAKE_POOL_REGISTRATION \<Rightarrow> handleCertificatePoolRegistration c
     | CERTIFICATE_STAKE_POOL_RETIREMENT \<Rightarrow> handleCertificatePoolRetirement fw approve cert c))))))"

subsection \<open>Withdrawals\<close>

definition withdrawal_reward_address :: "firmware \<Rightarrow> u8 \<Rightarrow> ext_credential_t \<Rightarrow> bytes res" where
  "withdrawal_reward_address fw netId credential = (case credential of
       EXT_CREDENTIAL_KEY_PATH p \<Rightarrow> constructRewardAddressFromKeyPath fw p netId REWARD_ACCOUNT_SIZE
     | EXT_CREDENTIAL_KEY_HASH h \<Rightarrow>
         constructRewardAddressFromHash netId REWARD_HASH_SOURCE_KEY h REWARD_ACCOUNT_SIZE
     | EXT_CREDENTIAL_SCRIPT_HASH h \<Rightarrow>
         constructRewardAddressFromHash netId REWARD_HASH_SOURCE_SCRIPT h REWARD_ACCOUNT_SIZE)"

definition addWithdrawalToTxHash ::
  "firmware \<Rightarrow> bool \<Rightarrow> ext_credential_t \<Rightarrow> u64 \<Rightarrow> sign_tx_context stmt" where
  "addWithdrawalToTxHash fw validateCanonicalOrdering credential amount c =
     res_bind (withdrawal_reward_address fw (txNetworkId (tcCommon c)) credential) (\<lambda>rewardAddress.
     res_bind (accessBodyContext c) (\<lambda>b.
     res_bind (validate_order (\<not> validateCanonicalOrdering) (bcPreviousRewardAccount b) rewardAddress) (\<lambda>_.
     seq [set_body (\<lambda>b. b\<lparr>bcPreviousRewardAccount := Some rewardAddress\<rparr>),
       on_tx_builder (txHashBuilder_addWithdrawal rewardAddress amount)] c)))"

text \<open>The reward account shown: the path, or the account built from the hash.\<close>

definition withdrawal_screens :: "firmware \<Rightarrow> u8 \<Rightarrow> ext_credential_t \<Rightarrow> u64 \<Rightarrow> screen list res" where
  "withdrawal_screens fw netId credential amount =
     res_bind (case credential of
         EXT_CREDENTIAL_KEY_PATH p \<Rightarrow> Inr (KeyReferencePath p)
       | _ \<Rightarrow> res_bind (withdrawal_reward_address fw netId credential) (\<lambda>a. Inr (KeyReferenceHash a)))
       (\<lambda>account.
     res_bind (reward_account_screens account netId) (\<lambda>screens.
       Inr (SCREEN ''Withdrawing rewards'' (ADA_AMOUNT amount) # screens)))"

definition respond_withdrawal :: "sign_tx_context stmt" where
  "respond_withdrawal = count_and_advance bcCurrentWithdrawal bcCurrentWithdrawal_update tcNumWithdrawals"

definition signTx_handleWithdrawalAPDU ::
  "firmware \<Rightarrow> bool \<Rightarrow> bool \<Rightarrow> u8 \<Rightarrow> wire_data \<Rightarrow> sign_tx_context stmt" where
  "signTx_handleWithdrawalAPDU fw expert approve p2 data c =
     res_bind (CHECK_STAGE SIGN_STAGE_BODY_WITHDRAWALS c) (\<lambda>c.
     res_bind (assert_body (\<lambda>c b. bcCurrentWithdrawal b < tcNumWithdrawals c) c) (\<lambda>c.
     res_bind (VALIDATE (p2 = P2_UNUSED) ERR_INVALID_REQUEST_PARAMETERS) (\<lambda>_.
     res_bind (parse_u8be (make_read_view (wire_bytes data))) (\<lambda>(amount, view).
     res_bind (parseCredential view) (\<lambda>(credential, view).
     res_bind (no_more_data view) (\<lambda>_.
     res_bind (policyForSignTxWithdrawal expert (txSigningMode (tcCommon c)) credential
       (singleAccountData (tcCommon c))) (\<lambda>(policy, acct).
     res_bind (ENSURE_NOT_DENIED policy) (\<lambda>_.
     res_bind (accessBodyContext c) (\<lambda>b.
     res_bind (addWithdrawalToTxHash fw (bcCurrentWithdrawal b > 0) credential amount
       (c\<lparr>tcCommon := (tcCommon c)\<lparr>singleAccountData := acct\<rparr>\<rparr>)) (\<lambda>c.
     res_bind (if policy = SHOW then withdrawal_screens fw (txNetworkId (tcCommon c)) credential amount
       else Inr []) (\<lambda>screens.
       tx_select approve [SHOW] policy screens respond_withdrawal c)))))))))))"

end
