(* ===== verification/SignTx.thy ===== *)
theory SignTx
  imports SignTxCertificates
begin

text \<open>
  The rest of \<open>src/signTx/signTx.c\<close>, with the screens of \<open>signTx_ui.c\<close>: the handlers of the
  initialisation, the auxiliary data, the inputs, the outputs and the mint, the numbers and hashes of
  the body, the required signers, the voting procedures, the confirmation and the witnesses, and
  \<open>signTx_handleAPDU\<close>, which every message goes through. \<open>expert\<close> is the setting of the app, \<open>approve\<close> the
  answer of the user to the screens of the message.
\<close>

subsection \<open>Initialisation\<close>

definition count_at :: "bytes \<Rightarrow> nat \<Rightarrow> u16 res" where
  "count_at wire offset = res_bind (u4be_read wire offset) (\<lambda>n. Inr (ucast n))"

definition included_at :: "bytes \<Rightarrow> nat \<Rightarrow> bool res" where
  "included_at wire offset = signTx_parseIncluded (wire ! offset)"

definition parse_signing_mode :: "u8 \<Rightarrow> sign_tx_signingmode_t res" where
  "parse_signing_mode m =
     (if m = 3 then Inr SIGN_TX_SIGNINGMODE_ORDINARY_TX
      else if m = 4 then Inr SIGN_TX_SIGNINGMODE_POOL_REGISTRATION_OWNER
      else if m = 5 then Inr SIGN_TX_SIGNINGMODE_POOL_REGISTRATION_OPERATOR
      else if m = 6 then Inr SIGN_TX_SIGNINGMODE_MULTISIG_TX
      else if m = 7 then Inr SIGN_TX_SIGNINGMODE_PLUTUS_TX
      else Inl ERR_INVALID_DATA)"

definition parseTxOptions :: "u64 \<Rightarrow> sign_tx_context stmt" where
  "parseTxOptions options c =
     res_bind (VALIDATE (and options (not 1) = 0) ERR_INVALID_DATA) (\<lambda>_.
       Inr (c\<lparr>tcCommon := (tcCommon c)\<lparr>txTagCborSets := bit options 0\<rparr>\<rparr>))"

text \<open>The network, the parts that are included and the signing mode.\<close>

definition parse_init_flags :: "bytes \<Rightarrow> sign_tx_context stmt" where
  "parse_init_flags wire c =
     res_bind (VALIDATE (isValidNetworkId (wire ! 8)) ERR_INVALID_DATA) (\<lambda>_.
     res_bind (u4be_read wire 9) (\<lambda>magic.
     res_bind (included_at wire 13) (\<lambda>ttl.
     res_bind (included_at wire 14) (\<lambda>auxData.
     res_bind (included_at wire 15) (\<lambda>validityIntervalStart.
     res_bind (included_at wire 16) (\<lambda>mint.
     res_bind (included_at wire 17) (\<lambda>scriptDataHash.
     res_bind (included_at wire 18) (\<lambda>withNetworkId.
     res_bind (included_at wire 19) (\<lambda>collateralOutput.
     res_bind (included_at wire 20) (\<lambda>totalCollateral.
     res_bind (included_at wire 21) (\<lambda>treasury.
     res_bind (included_at wire 22) (\<lambda>donation.
     res_bind (parse_signing_mode (wire ! 23)) (\<lambda>mode.
       Inr (c\<lparr>tcCommon := (tcCommon c)\<lparr>txNetworkId := wire ! 8, txProtocolMagic := magic,
           txSigningMode := mode\<rparr>,
         tcIncludeTtl := ttl, tcIncludeAuxData := auxData,
         tcIncludeValidityIntervalStart := validityIntervalStart, tcIncludeMint := mint,
         tcIncludeScriptDataHash := scriptDataHash, tcIncludeNetworkId := withNetworkId,
         tcIncludeCollateralOutput := collateralOutput, tcIncludeTotalCollateral := totalCollateral,
         tcIncludeTreasury := treasury, tcIncludeDonation := donation\<rparr>))))))))))))))"

text \<open>The numbers of parts: 32 bits on the wire, stored in 16 bits, and then compared with the limits.\<close>

abbreviation (input) SIGN_MAX_PARTS :: u16 where "SIGN_MAX_PARTS \<equiv> 65535"
abbreviation (input) SIGN_MAX_VOTING_PROCEDURES :: u16 where "SIGN_MAX_VOTING_PROCEDURES \<equiv> 1"

definition parse_init_counts :: "bytes \<Rightarrow> sign_tx_context stmt" where
  "parse_init_counts wire c =
     res_bind (count_at wire 24) (\<lambda>inputs.
     res_bind (count_at wire 28) (\<lambda>outputs.
     res_bind (count_at wire 32) (\<lambda>certificates.
     res_bind (count_at wire 36) (\<lambda>withdrawals.
     res_bind (count_at wire 40) (\<lambda>collateralInputs.
     res_bind (count_at wire 44) (\<lambda>requiredSigners.
     res_bind (count_at wire 48) (\<lambda>referenceInputs.
     res_bind (count_at wire 52) (\<lambda>votingProcedures.
     res_bind (count_at wire 56) (\<lambda>witnesses.
     res_bind (VALIDATE (inputs \<le> SIGN_MAX_PARTS \<and> outputs \<le> SIGN_MAX_PARTS \<and>
       certificates \<le> SIGN_MAX_PARTS \<and> withdrawals \<le> SIGN_MAX_PARTS \<and>
       collateralInputs \<le> SIGN_MAX_PARTS \<and> requiredSigners \<le> SIGN_MAX_PARTS \<and>
       referenceInputs \<le> SIGN_MAX_PARTS \<and> votingProcedures \<le> SIGN_MAX_VOTING_PROCEDURES) ERR_INVALID_DATA) (\<lambda>_.
     res_bind (VALIDATE (inputs > 0) ERR_INVALID_DATA) (\<lambda>_.
       Inr (c\<lparr>tcNumInputs := inputs, tcNumOutputs := outputs, tcNumCertificates := certificates,
         tcNumWithdrawals := withdrawals, tcNumCollateralInputs := collateralInputs,
         tcNumRequiredSigners := requiredSigners, tcNumReferenceInputs := referenceInputs,
         tcNumVotingProcedures := votingProcedures, tcNumWitnesses := witnesses\<rparr>))))))))))))"

definition init_description :: "sign_tx_context \<Rightarrow> sign_tx_init_t" where
  "init_description c = \<lparr>initMode = txSigningMode (tcCommon c), initNetworkId = ucast (txNetworkId (tcCommon c)),
     initProtocolMagic = txProtocolMagic (tcCommon c), initNumOutputs = tcNumOutputs c,
     initNumCertificates = tcNumCertificates c, initNumWithdrawals = tcNumWithdrawals c,
     initMint = tcIncludeMint c, initScriptDataHash = tcIncludeScriptDataHash c,
     initNumCollateralInputs = tcNumCollateralInputs c, initNumRequiredSigners = tcNumRequiredSigners c,
     initWithNetworkId = tcIncludeNetworkId c, initCollateralOutput = tcIncludeCollateralOutput c,
     initTotalCollateral = tcIncludeTotalCollateral c, initNumReferenceInputs = tcNumReferenceInputs c,
     initNumVotingProcedures = tcNumVotingProcedures c, initTreasury = tcIncludeTreasury c,
     initDonation = tcIncludeDonation c\<rparr>"

definition newTxLine1 :: "sign_tx_signingmode_t \<Rightarrow> string" where
  "newTxLine1 mode = (case mode of
       SIGN_TX_SIGNINGMODE_ORDINARY_TX \<Rightarrow> ''New ordinary''
     | SIGN_TX_SIGNINGMODE_POOL_REGISTRATION_OWNER \<Rightarrow> ''New pool owner''
     | SIGN_TX_SIGNINGMODE_POOL_REGISTRATION_OPERATOR \<Rightarrow> ''New pool operator''
     | SIGN_TX_SIGNINGMODE_MULTISIG_TX \<Rightarrow> ''New multisig''
     | SIGN_TX_SIGNINGMODE_PLUTUS_TX \<Rightarrow> ''New Plutus'')"

text \<open>
  \<open>signTx_handleInit_ui_runStep\<close>. The step that warns about an unknown collateral follows the one about
  a missing collateral, and is skipped with it.
\<close>

definition network_screens :: "sign_tx_context \<Rightarrow> screen list" where
  "network_screens c =
     (let netId = txNetworkId (tcCommon c); magic = txProtocolMagic (tcCommon c) in
      if isTxNetworkIdVerifiable (tcIncludeNetworkId c) (ucast (tcNumOutputs c)) (ucast (tcNumWithdrawals c))
        (txSigningMode (tcCommon c))
      then if isNetworkUsual (ucast netId) magic then []
        else [SCREEN ''Network details'' (NETWORK_PARAMS netId magic)]
      else [SCREEN ''Warning:'' (TEXT ''cannot verify network id: no outputs or withdrawals'')])"

definition collateral_screens :: "sign_tx_context \<Rightarrow> screen list" where
  "collateral_screens c =
     (if needsMissingCollateralWarning (txSigningMode (tcCommon c)) (ucast (tcNumCollateralInputs c))
      then SCREEN ''WARNING:'' (TEXT ''No collateral given for Plutus transaction'') #
        (if needsUnknownCollateralWarning (txSigningMode (tcCommon c)) (tcIncludeTotalCollateral c)
         then [SCREEN ''WARNING:'' (TEXT ''Unknown collateral amount'')] else [])
      else [])"

definition init_screens :: "sign_tx_context \<Rightarrow> screen list" where
  "init_screens c =
     [SCREEN (newTxLine1 (txSigningMode (tcCommon c))) (QUESTION ''transaction?'')] @
     network_screens c @
     (if needsRunningScriptWarning (uint (tcNumCollateralInputs c))
      then [SCREEN ''WARNING:'' (TEXT ''Plutus script will be evaluated'')] else []) @
     collateral_screens c @
     (if needsMissingScriptDataHashWarning (txSigningMode (tcCommon c)) (tcIncludeScriptDataHash c)
      then [SCREEN ''WARNING:'' (TEXT ''No script data given for Plutus transaction'')] else [])"

definition signTx_handleInitAPDU :: "bool \<Rightarrow> u8 \<Rightarrow> wire_data \<Rightarrow> sign_tx_context stmt" where
  "signTx_handleInitAPDU approve p2 data c =
     res_bind (CHECK_STAGE SIGN_STAGE_INIT c) (\<lambda>c.
     res_bind (VALIDATE (p2 = P2_UNUSED) ERR_INVALID_REQUEST_PARAMETERS) (\<lambda>_.
     let wire = wire_bytes data in
     res_bind (VALIDATE (length wire = 60) ERR_INVALID_DATA) (\<lambda>_.
     res_bind (u8be_read wire 0) (\<lambda>options.
     res_bind (seq [parseTxOptions options, parse_init_flags wire, parse_init_counts wire,
       modify (\<lambda>c. c\<lparr>tcPoolOwner := None, tcDisplayTxid := False\<rparr>)] c) (\<lambda>c.
     res_bind (policyForSignTxInit (init_description c)) (\<lambda>policy.
     res_bind (ENSURE_NOT_DENIED policy) (\<lambda>_.
       tx_select approve [WARN, PROMPT] policy (init_screens c) tx_advanceStage c)))))))"

subsection \<open>Auxiliary data\<close>

definition start_cvote_registration :: "sign_tx_context stmt" where
  "start_cvote_registration = seq
     [in_cvote_dialogue signTxCVoteRegistration_init,
      goto_stage SIGN_STAGE_AUX_DATA_CVOTE_REGISTRATION_SUBMACHINE]"

definition parse_aux_data :: "bytes \<Rightarrow> sign_tx_context \<Rightarrow> (aux_data_type_t \<times> sign_tx_context) res" where
  "parse_aux_data wire c =
     res_bind (accessAuxDataContext c) (\<lambda>a.
     res_bind (parse_u1be (make_read_view wire)) (\<lambda>(t, view).
     if t = 0
     then res_bind (view_parseBuffer AUX_DATA_HASH_LENGTH view) (\<lambda>(h, view).
       res_bind (no_more_data view) (\<lambda>_.
         Inr (AUX_DATA_TYPE_ARBITRARY_HASH, c\<lparr>tcAuxDataHash := h,
           tcPart := PART_AUX_DATA (a\<lparr>acAuxDataReceived := True\<rparr>)\<rparr>)))
     else if t = 1
     then res_bind (no_more_data view) (\<lambda>_.
       Inr (AUX_DATA_TYPE_CVOTE_REGISTRATION, c\<lparr>tcAuxDataHash := replicate 32 0\<rparr>))
     else Inl ERR_INVALID_DATA))"

definition aux_data_hash_screens :: "bytes \<Rightarrow> screen list" where
  "aux_data_hash_screens auxHash = [SCREEN ''Auxiliary data hash'' (HEX auxHash)]"

definition cvote_registration_screens :: "screen list" where
  "cvote_registration_screens = [SCREEN ''Register vote'' (QUESTION ''key (CIP-36)?'')]"

definition signTx_handleAuxDataAPDU ::
  "firmware \<Rightarrow> bool \<Rightarrow> bool \<Rightarrow> u8 \<Rightarrow> wire_data \<Rightarrow> sign_tx_context stmt" where
  "signTx_handleAuxDataAPDU fw expert approve p2 data c =
     res_bind (ASSERT (tcIncludeAuxData c)) (\<lambda>_.
     if signTxCVoteRegistration_isValidInstruction p2
     then res_bind (CHECK_STAGE SIGN_STAGE_AUX_DATA_CVOTE_REGISTRATION_SUBMACHINE c)
       (in_cvote_dialogue (signTxCVoteRegistration_handleAPDU fw expert approve p2 data))
     else
     res_bind (VALIDATE (p2 = P2_UNUSED) ERR_INVALID_REQUEST_PARAMETERS) (\<lambda>_.
     res_bind (CHECK_STAGE SIGN_STAGE_AUX_DATA c) (\<lambda>c.
     res_bind (parse_aux_data (wire_bytes data) c) (\<lambda>(auxDataType, c).
     res_bind (policyForSignTxAuxData expert auxDataType) (\<lambda>policy.
     res_bind (ENSURE_NOT_DENIED policy) (\<lambda>_.
     case auxDataType of
       AUX_DATA_TYPE_ARBITRARY_HASH \<Rightarrow>
         tx_select approve [SHOW] policy (aux_data_hash_screens (tcAuxDataHash c)) tx_advanceStage c
     | AUX_DATA_TYPE_CVOTE_REGISTRATION \<Rightarrow>
         tx_select approve [SHOW] policy cvote_registration_screens
           start_cvote_registration c))))))"

subsection \<open>Inputs\<close>

definition parseInput :: "bytes \<Rightarrow> tx_input_t res" where
  "parseInput wire =
     res_bind (VALIDATE (length wire = TX_HASH_LENGTH + 4) ERR_INVALID_DATA) (\<lambda>_.
     res_bind (u4be_read wire TX_HASH_LENGTH) (\<lambda>i.
       Inr \<lparr>inputTxHash = take TX_HASH_LENGTH wire, inputIndex = i\<rparr>))"

text \<open>\<open>constructInputLabel\<close> and \<open>signTx_handleInput_ui_runStep\<close>: inputs are numbered from zero.\<close>

definition input_screens :: "string \<Rightarrow> u16 \<Rightarrow> tx_input_t \<Rightarrow> screen list" where
  "input_screens inputLabel i input = [INPUT_SCREEN inputLabel (unat i) input]"

text \<open>What the handlers of the inputs, collateral inputs and reference inputs have in common.\<close>

definition handle_input ::
  "sign_tx_stage_t \<Rightarrow> (body_context_t \<Rightarrow> u16) \<Rightarrow> ((u16 \<Rightarrow> u16) \<Rightarrow> body_context_t \<Rightarrow> body_context_t) \<Rightarrow>
   (sign_tx_context \<Rightarrow> u16) \<Rightarrow> (sign_tx_context \<Rightarrow> security_policy_t res) \<Rightarrow>
   (tx_input_t \<Rightarrow> tx_hash_builder_t stmt) \<Rightarrow> string \<Rightarrow> bool \<Rightarrow> u8 \<Rightarrow> wire_data \<Rightarrow> sign_tx_context stmt" where
  "handle_input stage current update tot policyFor add inputLabel approve p2 data c =
     res_bind (CHECK_STAGE stage c) (\<lambda>c.
     res_bind (assert_body (\<lambda>c b. current b < tot c) c) (\<lambda>c.
     res_bind (VALIDATE (p2 = P2_UNUSED) ERR_INVALID_REQUEST_PARAMETERS) (\<lambda>_.
     res_bind (parseInput (wire_bytes data)) (\<lambda>input.
     res_bind (policyFor c) (\<lambda>policy.
     res_bind (ENSURE_NOT_DENIED policy) (\<lambda>_.
     res_bind (on_tx_builder (add input) c) (\<lambda>c.
     res_bind (accessBodyContext c) (\<lambda>b.
       tx_select approve [SHOW] policy (input_screens inputLabel (current b) input)
         (count_and_advance current update tot) c))))))))"

definition signTx_handleInputAPDU ::
  "bool \<Rightarrow> bool \<Rightarrow> u8 \<Rightarrow> wire_data \<Rightarrow> sign_tx_context stmt" where
  "signTx_handleInputAPDU expert = handle_input SIGN_STAGE_BODY_INPUTS
     bcCurrentInput bcCurrentInput_update tcNumInputs
     (\<lambda>c. policyForSignTxInput expert (txSigningMode (tcCommon c))) txHashBuilder_addInput ''Input''"

definition signTx_handleCollateralInputAPDU ::
  "bool \<Rightarrow> bool \<Rightarrow> u8 \<Rightarrow> wire_data \<Rightarrow> sign_tx_context stmt" where
  "signTx_handleCollateralInputAPDU expert = handle_input SIGN_STAGE_BODY_COLLATERAL_INPUTS
     bcCurrentCollateral bcCurrentCollateral_update tcNumCollateralInputs
     (\<lambda>c. policyForSignTxCollateralInput expert (txSigningMode (tcCommon c)) (tcIncludeTotalCollateral c))
     txHashBuilder_addCollateralInput ''Collat. input''"

definition signTx_handleReferenceInputAPDU ::
  "bool \<Rightarrow> bool \<Rightarrow> u8 \<Rightarrow> wire_data \<Rightarrow> sign_tx_context stmt" where
  "signTx_handleReferenceInputAPDU expert = handle_input SIGN_STAGE_BODY_REFERENCE_INPUTS
     bcCurrentReferenceInput bcCurrentReferenceInput_update tcNumReferenceInputs
     (\<lambda>c. policyForSignTxReferenceInput expert (txSigningMode (tcCommon c)))
     txHashBuilder_addReferenceInput ''Refer. input''"

subsection \<open>Outputs and mint\<close>

definition start_output :: "sign_tx_stage_t \<Rightarrow> sign_tx_context stmt" where
  "start_output stage = seq
     [set_body (\<lambda>b. b\<lparr>bcStageContext := OUTPUT_SUBCTX initializeOutputSubmachine\<rparr>), goto_stage stage]"

definition signTx_handleOutputAPDU ::
  "firmware \<Rightarrow> bool \<Rightarrow> bool \<Rightarrow> u8 \<Rightarrow> wire_data \<Rightarrow> sign_tx_context stmt" where
  "signTx_handleOutputAPDU fw expert approve p2 data c =
     res_bind (if tcStage c = SIGN_STAGE_BODY_OUTPUTS
       then res_bind (accessBodyContext c) (\<lambda>b.
         res_bind (VALIDATE (bcCurrentOutput b < tcNumOutputs c) ERR_INVALID_STATE) (\<lambda>_.
           start_output SIGN_STAGE_BODY_OUTPUTS_SUBMACHINE c))
       else Inr c) (\<lambda>c.
     res_bind (CHECK_STAGE SIGN_STAGE_BODY_OUTPUTS_SUBMACHINE c) (\<lambda>c.
     res_bind (assert_body (\<lambda>c b. bcCurrentOutput b < tcNumOutputs c) c) (\<lambda>c.
     res_bind (VALIDATE (signTxOutput_isValidInstruction p2) ERR_INVALID_REQUEST_PARAMETERS) (\<lambda>_.
       in_body_dialogue output_subctx OUTPUT_SUBCTX (signTxOutput_handleAPDU fw expert approve p2 data) c))))"

definition signTx_handleCollateralOutputAPDU ::
  "firmware \<Rightarrow> bool \<Rightarrow> bool \<Rightarrow> u8 \<Rightarrow> wire_data \<Rightarrow> sign_tx_context stmt" where
  "signTx_handleCollateralOutputAPDU fw expert approve p2 data c =
     res_bind (do_if (tcStage c = SIGN_STAGE_BODY_COLLATERAL_OUTPUT)
       (start_output SIGN_STAGE_BODY_COLLATERAL_OUTPUT_SUBMACHINE) c) (\<lambda>c.
     res_bind (CHECK_STAGE SIGN_STAGE_BODY_COLLATERAL_OUTPUT_SUBMACHINE c) (\<lambda>c.
     res_bind (VALIDATE (signTxCollateralOutput_isValidInstruction p2) ERR_INVALID_REQUEST_PARAMETERS) (\<lambda>_.
       in_body_dialogue output_subctx OUTPUT_SUBCTX
         (signTxCollateralOutput_handleAPDU fw expert approve p2 data) c)))"

definition signTx_handleMintAPDU :: "bool \<Rightarrow> u8 \<Rightarrow> wire_data \<Rightarrow> sign_tx_context stmt" where
  "signTx_handleMintAPDU approve p2 data c =
     res_bind (do_if (tcStage c = SIGN_STAGE_BODY_MINT) (goto_stage SIGN_STAGE_BODY_MINT_SUBMACHINE) c) (\<lambda>c.
     res_bind (CHECK_STAGE SIGN_STAGE_BODY_MINT_SUBMACHINE c) (\<lambda>c.
     res_bind (VALIDATE (signTxMint_isValidInstruction p2) ERR_INVALID_REQUEST_PARAMETERS) (\<lambda>_.
       in_body_dialogue mint_subctx MINT_SUBCTX (signTxMint_handleAPDU approve p2 data) c)))"

subsection \<open>Numbers of the body\<close>

text \<open>
  What the handlers of the fee, the two bounds of validity, the total collateral, the treasury and the
  donation have in common: a number of eight bytes, its policy, the call of the builder and a screen.
\<close>

definition handle_number ::
  "sign_tx_stage_t \<Rightarrow> (sign_tx_context \<Rightarrow> bool) \<Rightarrow> (u64 \<Rightarrow> bool) \<Rightarrow> (body_context_t \<Rightarrow> body_context_t) \<Rightarrow>
   (sign_tx_context \<Rightarrow> u64 \<Rightarrow> security_policy_t res) \<Rightarrow> (u64 \<Rightarrow> tx_hash_builder_t stmt) \<Rightarrow>
   (u64 \<Rightarrow> screen list) \<Rightarrow> bool \<Rightarrow> u8 \<Rightarrow> wire_data \<Rightarrow> sign_tx_context stmt" where
  "handle_number stage announced valid received policyFor add screens approve p2 data c =
     res_bind (CHECK_STAGE stage c) (\<lambda>c.
     res_bind (ASSERT (announced c)) (\<lambda>_.
     res_bind (VALIDATE (p2 = P2_UNUSED) ERR_INVALID_REQUEST_PARAMETERS) (\<lambda>_.
     res_bind (VALIDATE (length (wire_bytes data) = 8) ERR_INVALID_DATA) (\<lambda>_.
     res_bind (u8be_read (wire_bytes data) 0) (\<lambda>v.
     res_bind (VALIDATE (valid v) ERR_INVALID_DATA) (\<lambda>_.
     res_bind (set_body received c) (\<lambda>c.
     res_bind (policyFor c v) (\<lambda>policy.
     res_bind (ENSURE_NOT_DENIED policy) (\<lambda>_.
     res_bind (on_tx_builder (add v) c) (\<lambda>c.
       tx_select approve [SHOW] policy (screens v) tx_advanceStage c))))))))))"

abbreviation (input) MAX_FEES :: u64 where "MAX_FEES \<equiv> 5000000"

definition fee_screens :: "u64 \<Rightarrow> screen list" where
  "fee_screens fee =
     (if fee > MAX_FEES then [SCREEN ''Warning: Fees are'' (TEXT ''above 5 ADA'')] else []) @
     [SCREEN ''Transaction fee'' (ADA_AMOUNT fee)]"

definition signTx_handleFeeAPDU :: "bool \<Rightarrow> u8 \<Rightarrow> wire_data \<Rightarrow> sign_tx_context stmt" where
  "signTx_handleFeeAPDU = handle_number SIGN_STAGE_BODY_FEE (\<lambda>_. True) (\<lambda>_. True)
     (\<lambda>b. b\<lparr>bcFeeReceived := True\<rparr>) (\<lambda>c. policyForSignTxFee (txSigningMode (tcCommon c)))
     txHashBuilder_addFee fee_screens"

definition ttl_screens :: "u64 \<Rightarrow> screen list" where
  "ttl_screens ttl = [SCREEN ''Transaction TTL'' (VALIDITY_BOUNDARY ttl)]"

text \<open>The policy takes the bound as a 32-bit number.\<close>

definition signTx_handleTtlAPDU :: "bool \<Rightarrow> bool \<Rightarrow> u8 \<Rightarrow> wire_data \<Rightarrow> sign_tx_context stmt" where
  "signTx_handleTtlAPDU expert = handle_number SIGN_STAGE_BODY_TTL tcIncludeTtl (\<lambda>_. True)
     (\<lambda>b. b\<lparr>bcTtlReceived := True\<rparr>) (\<lambda>_ ttl. policyForSignTxTtl expert (ucast ttl))
     txHashBuilder_addTtl ttl_screens"

definition validity_interval_screens :: "u64 \<Rightarrow> screen list" where
  "validity_interval_screens start = [SCREEN ''Validity interval start'' (VALIDITY_BOUNDARY start)]"

definition signTx_handleValidityIntervalStartAPDU ::
  "bool \<Rightarrow> bool \<Rightarrow> u8 \<Rightarrow> wire_data \<Rightarrow> sign_tx_context stmt" where
  "signTx_handleValidityIntervalStartAPDU expert =
     handle_number SIGN_STAGE_BODY_VALIDITY_INTERVAL tcIncludeValidityIntervalStart (\<lambda>_. True)
     (\<lambda>b. b\<lparr>bcValidityIntervalStartReceived := True\<rparr>) (\<lambda>_ _. policyForSignTxValidityIntervalStart expert)
     txHashBuilder_addValidityIntervalStart validity_interval_screens"

definition total_collateral_screens :: "u64 \<Rightarrow> screen list" where
  "total_collateral_screens amount = [SCREEN ''Total collateral'' (ADA_AMOUNT amount)]"

definition signTx_handleTotalCollateralAPDU ::
  "bool \<Rightarrow> u8 \<Rightarrow> wire_data \<Rightarrow> sign_tx_context stmt" where
  "signTx_handleTotalCollateralAPDU =
     handle_number SIGN_STAGE_BODY_TOTAL_COLLATERAL tcIncludeTotalCollateral (\<lambda>_. True)
     (\<lambda>b. b\<lparr>bcTotalCollateralReceived := True\<rparr>) (\<lambda>_ _. Inr policyForSignTxTotalCollateral)
     txHashBuilder_addTotalCollateral total_collateral_screens"

definition treasury_screens :: "u64 \<Rightarrow> screen list" where
  "treasury_screens amount = [SCREEN ''Treasury amount'' (ADA_AMOUNT amount)]"

definition signTx_handleTreasuryAPDU :: "bool \<Rightarrow> u8 \<Rightarrow> wire_data \<Rightarrow> sign_tx_context stmt" where
  "signTx_handleTreasuryAPDU = handle_number SIGN_STAGE_BODY_TREASURY tcIncludeTreasury (\<lambda>_. True)
     (\<lambda>b. b\<lparr>bcTreasuryReceived := True\<rparr>)
     (\<lambda>c v. Inr (policyForSignTxTreasury (txSigningMode (tcCommon c)) v))
     txHashBuilder_addTreasury treasury_screens"

definition donation_screens :: "u64 \<Rightarrow> screen list" where
  "donation_screens amount = [SCREEN ''Donation'' (ADA_AMOUNT amount)]"

definition signTx_handleDonationAPDU :: "bool \<Rightarrow> u8 \<Rightarrow> wire_data \<Rightarrow> sign_tx_context stmt" where
  "signTx_handleDonationAPDU = handle_number SIGN_STAGE_BODY_DONATION tcIncludeDonation (\<lambda>v. v > 0)
     (\<lambda>b. b\<lparr>bcDonationReceived := True\<rparr>)
     (\<lambda>c v. Inr (policyForSignTxDonation (txSigningMode (tcCommon c)) v))
     txHashBuilder_addDonation donation_screens"

subsection \<open>Script data hash\<close>

definition script_data_hash_screens :: "bytes \<Rightarrow> screen list" where
  "script_data_hash_screens h = [SCREEN ''Script data hash'' (BECH32 ''script_data'' h)]"

definition signTx_handleScriptDataHashAPDU ::
  "bool \<Rightarrow> bool \<Rightarrow> u8 \<Rightarrow> wire_data \<Rightarrow> sign_tx_context stmt" where
  "signTx_handleScriptDataHashAPDU expert approve p2 data c =
     res_bind (CHECK_STAGE SIGN_STAGE_BODY_SCRIPT_DATA_HASH c) (\<lambda>c.
     res_bind (ASSERT (tcIncludeScriptDataHash c)) (\<lambda>_.
     res_bind (VALIDATE (p2 = P2_UNUSED) ERR_INVALID_REQUEST_PARAMETERS) (\<lambda>_.
     res_bind (view_parseBuffer SCRIPT_DATA_HASH_LENGTH (make_read_view (wire_bytes data))) (\<lambda>(h, view).
     res_bind (no_more_data view) (\<lambda>_.
     res_bind (set_body (\<lambda>b. b\<lparr>bcScriptDataHashReceived := True\<rparr>) c) (\<lambda>c.
     res_bind (policyForSignTxScriptDataHash expert (txSigningMode (tcCommon c))) (\<lambda>policy.
     res_bind (ENSURE_NOT_DENIED policy) (\<lambda>_.
     res_bind (on_tx_builder (txHashBuilder_addScriptDataHash h) c) (\<lambda>c.
       tx_select approve [SHOW] policy (script_data_hash_screens h) tx_advanceStage c)))))))))"

subsection \<open>Required signers\<close>

text \<open>A signer of an unknown type, \<open>None\<close>, is only noticed by the policy.\<close>

definition parse_required_signer :: "sign_tx_required_signer_t option parser" where
  "parse_required_signer view =
     res_bind (parse_u1be view) (\<lambda>(t, view).
     if t = 0
     then res_bind (view_parsePath blank_path view) (\<lambda>(p, view). Inr (Some (REQUIRED_SIGNER_WITH_PATH p), view))
     else if t = 1
     then res_bind (view_parseBuffer ADDRESS_KEY_HASH_LENGTH view) (\<lambda>(h, view).
       Inr (Some (REQUIRED_SIGNER_WITH_HASH h), view))
     else Inr (None, view))"

definition required_signer_policy ::
  "bool \<Rightarrow> sign_tx_signingmode_t \<Rightarrow> sign_tx_required_signer_t option \<Rightarrow> security_policy_t res" where
  "required_signer_policy expert mode signer = (case signer of
       Some s \<Rightarrow> policyForSignTxRequiredSigner expert mode s
     | None \<Rightarrow> if required_signers_allowed mode then Inl ERR_ASSERT else Inr DENY)"

definition required_signer_hash :: "firmware \<Rightarrow> sign_tx_required_signer_t \<Rightarrow> bytes res" where
  "required_signer_hash fw signer = (case signer of
       REQUIRED_SIGNER_WITH_PATH p \<Rightarrow> bip44_pathToKeyHash fw p ADDRESS_KEY_HASH_LENGTH
     | REQUIRED_SIGNER_WITH_HASH h \<Rightarrow> Inr h)"

definition required_signer_screens :: "sign_tx_required_signer_t \<Rightarrow> screen list" where
  "required_signer_screens signer = (case signer of
       REQUIRED_SIGNER_WITH_PATH p \<Rightarrow> [SCREEN ''Required signer'' (KEY_PATH p)]
     | REQUIRED_SIGNER_WITH_HASH h \<Rightarrow> [SCREEN ''Required signer'' (BECH32 ''req_signer_vkh'' h)])"

definition signTx_handleRequiredSignerAPDU ::
  "firmware \<Rightarrow> bool \<Rightarrow> bool \<Rightarrow> u8 \<Rightarrow> wire_data \<Rightarrow> sign_tx_context stmt" where
  "signTx_handleRequiredSignerAPDU fw expert approve p2 data c =
     res_bind (CHECK_STAGE SIGN_STAGE_BODY_REQUIRED_SIGNERS c) (\<lambda>c.
     res_bind (assert_body (\<lambda>c b. bcCurrentRequiredSigner b < tcNumRequiredSigners c) c) (\<lambda>c.
     res_bind (VALIDATE (p2 = P2_UNUSED) ERR_INVALID_REQUEST_PARAMETERS) (\<lambda>_.
     res_bind (parse_required_signer (make_read_view (wire_bytes data))) (\<lambda>(signer, view).
     res_bind (no_more_data view) (\<lambda>_.
     res_bind (required_signer_policy expert (txSigningMode (tcCommon c)) signer) (\<lambda>policy.
     res_bind (ENSURE_NOT_DENIED policy) (\<lambda>_.
     res_bind (written signer) (\<lambda>signer.
     res_bind (required_signer_hash fw signer) (\<lambda>h.
     res_bind (on_tx_builder (txHashBuilder_addRequiredSigner h) c) (\<lambda>c.
       tx_select approve [SHOW] policy (required_signer_screens signer)
         (count_and_advance bcCurrentRequiredSigner bcCurrentRequiredSigner_update tcNumRequiredSigners) c))))))))))"

subsection \<open>Voting procedures\<close>

definition parse_voter :: "ext_voter_t parser" where
  "parse_voter view =
     res_bind (parse_u1be view) (\<lambda>(t, view).
     let with_path = (\<lambda>f. res_bind (view_parsePath blank_path view) (\<lambda>(p, view). Inr (f p, view)));
         with_hash = (\<lambda>n f. res_bind (view_parseBuffer n view) (\<lambda>(h, view). Inr (f h, view))) in
     if t = 100 then with_path EXT_VOTER_COMMITTEE_HOT_KEY_PATH
     else if t = 102 then with_path EXT_VOTER_DREP_KEY_PATH
     else if t = 104 then with_path EXT_VOTER_STAKE_POOL_KEY_PATH
     else if t = 0 then with_hash ADDRESS_KEY_HASH_LENGTH EXT_VOTER_COMMITTEE_HOT_KEY_HASH
     else if t = 2 then with_hash ADDRESS_KEY_HASH_LENGTH EXT_VOTER_DREP_KEY_HASH
     else if t = 4 then with_hash ADDRESS_KEY_HASH_LENGTH EXT_VOTER_STAKE_POOL_KEY_HASH
     else if t = 1 then with_hash SCRIPT_HASH_LENGTH EXT_VOTER_COMMITTEE_HOT_SCRIPT_HASH
     else if t = 3 then with_hash SCRIPT_HASH_LENGTH EXT_VOTER_DREP_SCRIPT_HASH
     else Inl ERR_INVALID_DATA)"

definition parse_vote :: "u8 \<Rightarrow> vote_t res" where
  "parse_vote v =
     (if v = 0 then Inr VOTE_NO else if v = 1 then Inr VOTE_YES else if v = 2 then Inr VOTE_ABSTAIN
      else Inl ERR_INVALID_DATA)"

definition parse_voting_procedure ::
  "bytes \<Rightarrow> (ext_voter_t \<times> gov_action_id_t \<times> voting_procedure_t) res" where
  "parse_voting_procedure wire =
     res_bind (parse_voter (make_read_view wire)) (\<lambda>(voter, view).
     res_bind (view_parseBuffer TX_HASH_LENGTH view) (\<lambda>(h, view).
     res_bind (parse_u4be view) (\<lambda>(i, view).
     res_bind (parse_u1be view) (\<lambda>(v, view).
     res_bind (parse_vote v) (\<lambda>vote.
     res_bind (parseAnchor view) (\<lambda>(anchor, view).
     res_bind (no_more_data view) (\<lambda>_.
       Inr (voter, \<lparr>govTxHash = h, govActionIndex = i\<rparr>, \<lparr>votingVote = vote, votingAnchor = anchor\<rparr>))))))))"

definition setVoter :: "firmware \<Rightarrow> ext_voter_t \<Rightarrow> voter_t res" where
  "setVoter fw voter =
     (let key_hash = (\<lambda>f p. res_bind (bip44_pathToKeyHash fw p ADDRESS_KEY_HASH_LENGTH) (\<lambda>h. Inr (f h))) in
      case voter of
       EXT_VOTER_COMMITTEE_HOT_KEY_PATH p \<Rightarrow> key_hash VOTER_COMMITTEE_HOT_KEY_HASH p
     | EXT_VOTER_DREP_KEY_PATH p \<Rightarrow> key_hash VOTER_DREP_KEY_HASH p
     | EXT_VOTER_STAKE_POOL_KEY_PATH p \<Rightarrow> key_hash VOTER_STAKE_POOL_KEY_HASH p
     | EXT_VOTER_COMMITTEE_HOT_KEY_HASH h \<Rightarrow> Inr (VOTER_COMMITTEE_HOT_KEY_HASH h)
     | EXT_VOTER_DREP_KEY_HASH h \<Rightarrow> Inr (VOTER_DREP_KEY_HASH h)
     | EXT_VOTER_STAKE_POOL_KEY_HASH h \<Rightarrow> Inr (VOTER_STAKE_POOL_KEY_HASH h)
     | EXT_VOTER_COMMITTEE_HOT_SCRIPT_HASH h \<Rightarrow> Inr (VOTER_COMMITTEE_HOT_SCRIPT_HASH h)
     | EXT_VOTER_DREP_SCRIPT_HASH h \<Rightarrow> Inr (VOTER_DREP_SCRIPT_HASH h))"

definition voter_screen :: "ext_voter_t \<Rightarrow> screen" where
  "voter_screen voter = (case voter of
       EXT_VOTER_COMMITTEE_HOT_KEY_PATH p \<Rightarrow> SCREEN ''Voter key'' (KEY_PATH p)
     | EXT_VOTER_DREP_KEY_PATH p \<Rightarrow> SCREEN ''Voter key'' (KEY_PATH p)
     | EXT_VOTER_STAKE_POOL_KEY_PATH p \<Rightarrow> SCREEN ''Voter key'' (KEY_PATH p)
     | EXT_VOTER_DREP_KEY_HASH h \<Rightarrow> SCREEN ''Voter key hash'' (BECH32 ''drep'' h)
     | EXT_VOTER_COMMITTEE_HOT_KEY_HASH h \<Rightarrow> SCREEN ''Voter key hash'' (BECH32 ''cc_hot'' h)
     | EXT_VOTER_STAKE_POOL_KEY_HASH h \<Rightarrow> SCREEN ''Voter key hash'' (BECH32 ''pool'' h)
     | EXT_VOTER_COMMITTEE_HOT_SCRIPT_HASH h \<Rightarrow> SCREEN ''Voter script hash'' (BECH32 ''cc_hot'' h)
     | EXT_VOTER_DREP_SCRIPT_HASH h \<Rightarrow> SCREEN ''Voter script hash'' (BECH32 ''drep'' h))"

text \<open>The index of the action is printed with \<open>%d\<close>, as a signed number.\<close>

definition voting_procedure_screens ::
  "ext_voter_t \<Rightarrow> gov_action_id_t \<Rightarrow> voting_procedure_t \<Rightarrow> screen list" where
  "voting_procedure_screens voter action procedure =
     [SCREEN ''Vote for'' (TEXT ''governance action''), voter_screen voter,
      SCREEN ''Action tx hash'' (HEX (govTxHash action)),
      SCREEN ''Action tx index'' (SIGNED_NUMBER (sint (govActionIndex action))),
      SCREEN ''Vote'' (TEXT (case votingVote procedure of
        VOTE_NO \<Rightarrow> ''NO'' | VOTE_YES \<Rightarrow> ''YES'' | VOTE_ABSTAIN \<Rightarrow> ''ABSTAIN''))] @
     anchor_screens (votingAnchor procedure) @
     [SCREEN ''Confirm'' (QUESTION ''vote?'')]"

definition signTx_handleVotingProcedureAPDU ::
  "firmware \<Rightarrow> bool \<Rightarrow> u8 \<Rightarrow> wire_data \<Rightarrow> sign_tx_context stmt" where
  "signTx_handleVotingProcedureAPDU fw approve p2 data c =
     res_bind (CHECK_STAGE SIGN_STAGE_BODY_VOTING_PROCEDURES c) (\<lambda>c.
     res_bind (assert_body (\<lambda>c b. bcCurrentVotingProcedure b < tcNumVotingProcedures c) c) (\<lambda>c.
     res_bind (VALIDATE (p2 = P2_UNUSED) ERR_INVALID_REQUEST_PARAMETERS) (\<lambda>_.
     res_bind (parse_voting_procedure (wire_bytes data)) (\<lambda>(voter, action, procedure).
     res_bind (policyForSignTxVotingProcedure (txSigningMode (tcCommon c)) voter) (\<lambda>policy.
     res_bind (ENSURE_NOT_DENIED policy) (\<lambda>_.
     res_bind (setVoter fw voter) (\<lambda>txVoter.
     res_bind (on_tx_builder (txHashBuilder_addVotingProcedure txVoter action procedure) c) (\<lambda>c.
       tx_select approve [SHOW] policy (voting_procedure_screens voter action procedure)
         (count_and_advance bcCurrentVotingProcedure bcCurrentVotingProcedure_update tcNumVotingProcedures) c))))))))"

subsection \<open>Confirmation\<close>

definition shouldDisplayTxId :: "bool \<Rightarrow> sign_tx_signingmode_t \<Rightarrow> bool \<Rightarrow> bool" where
  "shouldDisplayTxId expert mode displayTxid = (case mode of
       SIGN_TX_SIGNINGMODE_ORDINARY_TX \<Rightarrow> displayTxid \<and> expert
     | SIGN_TX_SIGNINGMODE_MULTISIG_TX \<Rightarrow> displayTxid \<and> expert
     | SIGN_TX_SIGNINGMODE_PLUTUS_TX \<Rightarrow> True
     | _ \<Rightarrow> False)"

definition confirm_screens :: "bool \<Rightarrow> bytes \<Rightarrow> screen list" where
  "confirm_screens displayTxId digest =
     (if displayTxId then [SCREEN ''Transaction id'' (HEX digest)] else []) @
     [SCREEN ''Confirm'' (QUESTION ''transaction?'')]"

definition respond_confirm :: "sign_tx_context stmt" where
  "respond_confirm = seq [modify (\<lambda>c. c\<lparr>tcAnswer := tcTxHash c\<rparr>), tx_advanceStage]"

definition finalize_tx_hash :: "firmware \<Rightarrow> sign_tx_context stmt" where
  "finalize_tx_hash fw c =
     res_bind (accessBodyContext c) (\<lambda>b.
     res_bind (txHashBuilder_finalize (blake2b_256 fw) TX_HASH_LENGTH (bcBuilder b)) (\<lambda>(h, x).
       Inr (c\<lparr>tcTxHash := h, tcPart := PART_BODY (b\<lparr>bcBuilder := x\<rparr>)\<rparr>)))"

definition signTx_handleConfirmAPDU ::
  "firmware \<Rightarrow> bool \<Rightarrow> bool \<Rightarrow> u8 \<Rightarrow> wire_data \<Rightarrow> sign_tx_context stmt" where
  "signTx_handleConfirmAPDU fw expert approve p2 data c =
     res_bind (CHECK_STAGE SIGN_STAGE_CONFIRM c) (\<lambda>c.
     res_bind (VALIDATE (p2 = P2_UNUSED) ERR_INVALID_REQUEST_PARAMETERS) (\<lambda>_.
     res_bind (VALIDATE (length (wire_bytes data) = 0) ERR_INVALID_DATA) (\<lambda>_.
     let policy = policyForSignTxConfirm in
     res_bind (ENSURE_NOT_DENIED policy) (\<lambda>_.
     res_bind (finalize_tx_hash fw c) (\<lambda>c.
       tx_select approve [PROMPT] policy
         (confirm_screens (shouldDisplayTxId expert (txSigningMode (tcCommon c)) (tcDisplayTxid c)) (tcTxHash c))
         respond_confirm c)))))"

subsection \<open>Witnesses\<close>

definition witness_screens :: "security_policy_t \<Rightarrow> bip44_path_t \<Rightarrow> screen list" where
  "witness_screens policy witnessPath =
     (if policy = WARN then [SCREEN ''WARNING:'' (TEXT ''unusual witness requested'')] else []) @
     [SCREEN ''Witness path'' (KEY_PATH witnessPath), SCREEN ''Sign using'' (QUESTION ''this witness?'')]"

definition respond_witness :: "bytes \<Rightarrow> sign_tx_context stmt" where
  "respond_witness signature c =
     res_bind (accessWitnessContext c) (\<lambda>n.
     let c = c\<lparr>tcAnswer := signature, tcPart := PART_WITNESSES (n + 1)\<rparr> in
       do_if (n + 1 = tcNumWitnesses c) tx_advanceStage c)"

definition signTx_handleWitnessAPDU ::
  "firmware \<Rightarrow> bool \<Rightarrow> bool \<Rightarrow> u8 \<Rightarrow> wire_data \<Rightarrow> sign_tx_context stmt" where
  "signTx_handleWitnessAPDU fw expert approve p2 data c =
     res_bind (CHECK_STAGE SIGN_STAGE_WITNESSES c) (\<lambda>c.
     res_bind (accessWitnessContext c) (\<lambda>n.
     res_bind (ASSERT (n < tcNumWitnesses c)) (\<lambda>_.
     res_bind (VALIDATE (p2 = P2_UNUSED) ERR_INVALID_REQUEST_PARAMETERS) (\<lambda>_.
     res_bind (bip44_parseFromWire (wire_bytes data) blank_path) (\<lambda>(parsedSize, witnessPath).
     res_bind (VALIDATE (parsedSize = length (wire_bytes data)) ERR_INVALID_DATA) (\<lambda>_.
     res_bind (policyForSignTxWitness expert (txSigningMode (tcCommon c)) witnessPath (tcIncludeMint c)
       (tcPoolOwner c) (singleAccountData (tcCommon c))) (\<lambda>(policy, acct).
     res_bind (ENSURE_NOT_DENIED policy) (\<lambda>_.
     res_bind (getWitness fw witnessPath (tcTxHash c) ED25519_SIGNATURE_LENGTH) (\<lambda>signature.
       tx_select approve [WARN, SHOW] policy (witness_screens policy witnessPath) (respond_witness signature)
         (c\<lparr>tcCommon := (tcCommon c)\<lparr>singleAccountData := acct\<rparr>\<rparr>))))))))))"

subsection \<open>Messages\<close>

definition lookup_subhandler ::
  "firmware \<Rightarrow> bool \<Rightarrow> bool \<Rightarrow> u8 \<Rightarrow> (u8 \<Rightarrow> wire_data \<Rightarrow> sign_tx_context stmt) option" where
  "lookup_subhandler fw expert approve p1 =
     (if p1 = 0x01 then Some (signTx_handleInitAPDU approve)
      else if p1 = 0x08 then Some (signTx_handleAuxDataAPDU fw expert approve)
      else if p1 = 0x02 then Some (signTx_handleInputAPDU expert approve)
      else if p1 = 0x03 then Some (signTx_handleOutputAPDU fw expert approve)
      else if p1 = 0x04 then Some (signTx_handleFeeAPDU approve)
      else if p1 = 0x05 then Some (signTx_handleTtlAPDU expert approve)
      else if p1 = 0x06 then Some (signTx_handleCertificateAPDU fw approve)
      else if p1 = 0x07 then Some (signTx_handleWithdrawalAPDU fw expert approve)
      else if p1 = 0x09 then Some (signTx_handleValidityIntervalStartAPDU expert approve)
      else if p1 = 0x0b then Some (signTx_handleMintAPDU approve)
      else if p1 = 0x0c then Some (signTx_handleScriptDataHashAPDU expert approve)
      else if p1 = 0x0d then Some (signTx_handleCollateralInputAPDU expert approve)
      else if p1 = 0x0e then Some (signTx_handleRequiredSignerAPDU fw expert approve)
      else if p1 = 0x12 then Some (signTx_handleCollateralOutputAPDU fw expert approve)
      else if p1 = 0x10 then Some (signTx_handleTotalCollateralAPDU approve)
      else if p1 = 0x11 then Some (signTx_handleReferenceInputAPDU expert approve)
      else if p1 = 0x13 then Some (signTx_handleVotingProcedureAPDU fw approve)
      else if p1 = 0x15 then Some (signTx_handleTreasuryAPDU approve)
      else if p1 = 0x16 then Some (signTx_handleDonationAPDU approve)
      else if p1 = 0x0a then Some (signTx_handleConfirmAPDU fw expert approve)
      else if p1 = 0x0f then Some (signTx_handleWitnessAPDU fw expert approve)
      else None)"

text \<open>\<open>stageData\<close> is cleared before the message, which only the reward accounts of withdrawals could notice.\<close>

definition signTx_handleAPDU ::
  "firmware \<Rightarrow> bool \<Rightarrow> bool \<Rightarrow> u8 \<Rightarrow> u8 \<Rightarrow> wire_data \<Rightarrow> bool \<Rightarrow> sign_tx_context stmt" where
  "signTx_handleAPDU fw expert approve p1 p2 data isNewCall c =
     res_bind (ASSERT (length (wire_bytes data) < BUFFER_SIZE_PARANOIA)) (\<lambda>_.
     let c = (if isNewCall then new_context else c)\<lparr>tcAnswer := []\<rparr> in
     res_bind (checkForFinishedSubmachines c) (\<lambda>c.
     case lookup_subhandler fw expert approve p1 of
       None \<Rightarrow> Inl ERR_INVALID_REQUEST_PARAMETERS
     | Some subhandler \<Rightarrow> subhandler p2 data c))"

end
