(* ===== verification/TxCalls.thy ===== *)
theory TxCalls
  imports TxProperties SecurityPolicy
begin

text \<open>
  What a client of the transaction builder may do to it between two messages: a sequence of calls
  that follows the protocol. The handlers of the transaction are shown to be such clients one call
  at a time, so this theory has a fact for each call, and says which lengths a call checks itself
  and that no call touches the announcements of the treasury and the donation.
\<close>

subsection \<open>Sequences of calls\<close>

type_synonym tx_call = "addressParams_t tx_op"

definition calls :: "tx_hash_builder_t \<Rightarrow> tx_hash_builder_t \<Rightarrow> bool" where
  "calls b b' \<longleftrightarrow> (\<exists>ops :: tx_call list. run ops b = Inr b' \<and> follows_protocol ops b)"

lemma calls_refl [simp, intro]: "calls b b"
  unfolding calls_def by (rule exI [of _ "[]"]) (simp add: run_def)

lemma follows_append:
  "run xs b = Inr c \<Longrightarrow> follows_protocol xs b \<Longrightarrow> follows_protocol ys c \<Longrightarrow> follows_protocol (xs @ ys) b"
  by (induction xs arbitrary: b) (auto simp: run_def res_bind_Inr_iff)

lemma calls_trans: "calls a b \<Longrightarrow> calls b c \<Longrightarrow> calls a c"
  unfolding calls_def
proof (elim exE conjE)
  fix xs ys :: "tx_call list"
  assume "run xs a = Inr b" "follows_protocol xs a" "run ys b = Inr c" "follows_protocol ys b"
  then have "run (xs @ ys) a = Inr c \<and> follows_protocol (xs @ ys) a"
    by (simp add: follows_append run_def seq_append)
  then show "\<exists>ops :: tx_call list. run ops a = Inr c \<and> follows_protocol ops a" by blast
qed

lemma calls_exec:
  assumes "exec (op :: tx_call) b = Inr b'" "lengths_ok op" "protocol op b"
  shows "calls b b'"
  unfolding calls_def by (rule exI [of _ "[op]"]) (use assms in \<open>simp add: run_def\<close>)

text \<open>The builders that a transaction with the given parameters can be at.\<close>

definition built :: "tx_params \<Rightarrow> tx_hash_builder_t \<Rightarrow> bool" where
  "built p b \<longleftrightarrow> (\<exists>b0. txHashBuilder_init p zeroed_builder = Inr b0 \<and> calls b0 b)"

lemma built_init: "txHashBuilder_init p zeroed_builder = Inr b \<Longrightarrow> built p b"
  by (auto simp: built_def)

lemma built_calls: "built p b \<Longrightarrow> calls b b' \<Longrightarrow> built p b'"
  unfolding built_def using calls_trans by blast

lemma built_program:
  "built p b \<longleftrightarrow> (\<exists>ops :: tx_call list. tx_program p ops zeroed_builder = Inr b \<and>
     (\<forall>b0. txHashBuilder_init p zeroed_builder = Inr b0 \<longrightarrow> follows_protocol ops b0))"
  by (auto simp: built_def calls_def tx_program_def res_bind_Inr_iff)

subsection \<open>The announcements of the last parts\<close>

definition announced_last :: "tx_hash_builder_t \<Rightarrow> bool \<times> bool" where
  "announced_last b = (includeTreasury b, includeDonation b)"

definition keeps_last :: "tx_hash_builder_t stmt \<Rightarrow> bool" where
  "keeps_last f \<longleftrightarrow> (\<forall>b b'. f b = Inr b' \<longrightarrow> announced_last b' = announced_last b)"

named_theorems keeps_last_intros

lemma keeps_last_Nil [keeps_last_intros]: "keeps_last (seq [])"
  by (simp add: keeps_last_def)

lemma keeps_last_Cons [keeps_last_intros]:
  "keeps_last f \<Longrightarrow> keeps_last (seq fs) \<Longrightarrow> keeps_last (seq (f # fs))"
  unfolding keeps_last_def by (auto simp: res_bind_Inr_iff)

lemma keeps_last_absorbing: "absorbing f \<Longrightarrow> keeps_last f"
  unfolding keeps_last_def using writesD by (fastforce simp: announced_last_def tx_absorb_def)

lemma keeps_last_modify [keeps_last_intros]:
  "(\<And>b. announced_last (u b) = announced_last b) \<Longrightarrow> keeps_last (modify u)"
  by (simp add: keeps_last_def)

lemma keeps_last_goto [keeps_last_intros]: "keeps_last (goto_state s)"
  unfolding goto_state_def by (rule keeps_last_modify) (simp add: announced_last_def)

lemma keeps_last_with_field [keeps_last_intros]:
  "(\<And>x. keeps_last (k x)) \<Longrightarrow> keeps_last (with_field F k)"
  unfolding keeps_last_def by (auto simp: with_field_Inr)

lemma keeps_last_do_if [keeps_last_intros]: "keeps_last f \<Longrightarrow> keeps_last (do_if c f)"
  by (auto simp: keeps_last_def do_if_def)

lemma keeps_last_cond [keeps_last_intros]: "keeps_last f \<Longrightarrow> keeps_last (\<lambda>b. do_if (c b) f b)"
  by (auto simp: keeps_last_def do_if_def)

lemma keeps_last_guard: "(\<And>b b'. f b = Inr b' \<Longrightarrow> b' = b \<and> G b) \<Longrightarrow> keeps_last f"
  unfolding keeps_last_def by blast

lemma keeps_last_leaves [keeps_last_intros]:
  "keeps_last assertCanLeaveInit" "keeps_last assertCanLeaveInputs"
  "keeps_last assertCanLeaveOutputs" "keeps_last assertCanLeaveFee"
  "keeps_last assertCanLeaveTtl" "keeps_last assertCanLeaveCertificates"
  "keeps_last assertCanLeaveWithdrawals" "keeps_last assertCanLeaveAuxData"
  "keeps_last assertCanLeaveValidityIntervalStart" "keeps_last assertCanLeaveMint"
  "keeps_last assertCanLeaveScriptDataHash" "keeps_last assertCanLeaveCollateralInputs"
  "keeps_last assertCanLeaveRequiredSigners" "keeps_last assertCanLeaveNetworkId"
  "keeps_last assertCanLeaveCollateralOutput" "keeps_last assertCanLeaveTotalCollateral"
  "keeps_last assertCanLeaveReferenceInputs" "keeps_last assertCanLeaveVotingProcedures"
  "keeps_last assertCanLeaveTreasury" "keeps_last assertCanLeaveDonation"
  by (rule keeps_last_guard, erule leave_init leave_inputs leave_outputs leave_fee leave_ttl
      leave_certificates leave_withdrawals leave_aux_data leave_validity_interval_start leave_mint
      leave_script_data_hash leave_collateral_inputs leave_required_signers leave_network_id
      leave_collateral_output leave_total_collateral leave_reference_inputs
      leave_voting_procedures leave_treasury leave_donation)+

lemma keeps_last_datum [keeps_last_intros]:
  "keeps_last f \<Longrightarrow> keeps_last g \<Longrightarrow> keeps_last (case t of DATUM_HASH \<Rightarrow> f | DATUM_INLINE \<Rightarrow> g)"
  by (cases t) auto

lemma keeps_last_enterOwners [keeps_last_intros]:
  "keeps_last txHashBuilder_addPoolRegistrationCertificate_enterOwners"
  unfolding txHashBuilder_addPoolRegistrationCertificate_enterOwners_def
  by (rule keeps_last_intros keeps_last_absorbing absorbing_intros)+

lemma keeps_last_updateState [keeps_last_intros]: "keeps_last addPoolMetadata_updateState"
  unfolding keeps_last_def
proof (intro allI impI)
  fix b b'
  assume "addPoolMetadata_updateState b = Inr b'"
  then obtain c where c: "b' = c\<lparr>txState := TX_HASH_BUILDER_IN_CERTIFICATES_POOL_METADATA\<rparr>"
    and u: "(case txState b of
         TX_HASH_BUILDER_IN_CERTIFICATES_POOL_REWARD_ACCOUNT \<Rightarrow> seq
           [assert_field remainingOwners (\<lambda>n. n = 0),
            txHashBuilder_addPoolRegistrationCertificate_enterOwners, updateState_from_owners] b
       | TX_HASH_BUILDER_IN_CERTIFICATES_POOL_OWNERS \<Rightarrow> updateState_from_owners b
       | TX_HASH_BUILDER_IN_CERTIFICATES_POOL_RELAYS \<Rightarrow> updateState_from_relays b
       | _ \<Rightarrow> Inl ERR_ASSERT) = Inr c"
    by (auto simp: addPoolMetadata_updateState_def res_bind_Inr_iff goto_state_def)
  have k: "keeps_last updateState_from_relays"
    unfolding updateState_from_relays_def by (intro keeps_last_absorbing absorbing_intros)
  have l: "keeps_last updateState_from_owners"
    unfolding updateState_from_owners_def
      txHashBuilder_addPoolRegistrationCertificate_enterRelays_def
    by (rule k keeps_last_intros keeps_last_absorbing absorbing_intros)+
  have m: "keeps_last (seq [assert_field remainingOwners (\<lambda>n. n = 0),
            txHashBuilder_addPoolRegistrationCertificate_enterOwners, updateState_from_owners])"
    by (rule l keeps_last_intros keeps_last_absorbing absorbing_intros)+
  show "announced_last b' = announced_last b"
    using u k l m c unfolding keeps_last_def
    by (auto simp: announced_last_def split: tx_hash_builder_state_t.splits)
qed

lemmas operation_defs =
    txHashBuilder_addAuxData_def
    txHashBuilder_addCertificate_committeeAuthHot_def
    txHashBuilder_addCertificate_committeeResign_def
    txHashBuilder_addCertificate_dRepDeregistration_def
    txHashBuilder_addCertificate_dRepRegistration_def
    txHashBuilder_addCertificate_dRepUpdate_def
    txHashBuilder_addCertificate_poolRetirement_def
    txHashBuilder_addCertificate_stakeDelegation_def
    txHashBuilder_addCertificate_staking_def
    txHashBuilder_addCertificate_stakingOld_def
    txHashBuilder_addCertificate_voteDelegation_def
    txHashBuilder_addCollateralInput_def
    txHashBuilder_addCollateralOutput_def
    txHashBuilder_addCollateralOutput_token_def
    txHashBuilder_addCollateralOutput_tokenGroup_def
    txHashBuilder_addDonation_def
    txHashBuilder_addFee_def
    txHashBuilder_addInput_def
    txHashBuilder_addMint_token_def
    txHashBuilder_addMint_tokenGroup_def
    txHashBuilder_addMint_topLevelData_def
    txHashBuilder_addNetworkId_def
    txHashBuilder_addOutput_datum_def
    txHashBuilder_addOutput_datum_inline_chunk_def
    txHashBuilder_addOutput_referenceScript_def
    txHashBuilder_addOutput_referenceScript_dataChunk_def
    txHashBuilder_addOutput_token_def
    txHashBuilder_addOutput_tokenGroup_def
    txHashBuilder_addOutput_topLevelData_def
    txHashBuilder_addPoolRegistrationCertificate_addOwner_def
    txHashBuilder_addPoolRegistrationCertificate_addPoolMetadata_def
    txHashBuilder_addPoolRegistrationCertificate_addPoolMetadata_null_def
    txHashBuilder_addPoolRegistrationCertificate_addRelay_def
    txHashBuilder_addPoolRegistrationCertificate_enterRelays_def
    txHashBuilder_addReferenceInput_def
    txHashBuilder_addRequiredSigner_def
    txHashBuilder_addScriptDataHash_def
    txHashBuilder_addTotalCollateral_def
    txHashBuilder_addTreasury_def
    txHashBuilder_addTtl_def
    txHashBuilder_addValidityIntervalStart_def
    txHashBuilder_addVotingProcedure_def
    txHashBuilder_addWithdrawal_def
    txHashBuilder_enterCertificates_def
    txHashBuilder_enterCollateralInputs_def
    txHashBuilder_enterInputs_def
    txHashBuilder_enterMint_def
    txHashBuilder_enterOutputs_def
    txHashBuilder_enterReferenceInputs_def
    txHashBuilder_enterRequiredSigners_def
    txHashBuilder_enterVotingProcedures_def
    txHashBuilder_enterWithdrawals_def
    txHashBuilder_poolRegistrationCertificate_enter_def
    txHashBuilder_poolRegistrationCertificate_financials_def
    txHashBuilder_poolRegistrationCertificate_poolKeyHash_def
    txHashBuilder_poolRegistrationCertificate_rewardAccount_def
    txHashBuilder_poolRegistrationCertificate_vrfKeyHash_def
    initNewCertificate_def processOutputTopLevel_def addTokenGroup_def addToken_def

lemma keeps_last_exec: "keeps_last (exec op)"
  apply (cases op; simp only: exec.simps)
  apply (unfold operation_defs)
  apply ((rule absorbing_output_guards [THEN keeps_last_absorbing] keeps_last_intros keeps_last_absorbing absorbing_intros
      | (simp add: announced_last_def builder_updates; fail))+)
  done

abbreviation short :: "bytes \<Rightarrow> bool" where
  "short bs \<equiv> length bs < 2 ^ 64"

lemmas checked_lengths = is_size_t_def stmt_Inr cbor_append_txInput_def addTokenGroup_def addToken_def
  initNewCertificate_def

lemmas output_head_defs = processOutputTopLevel_def cbor_append_txOutput_array_def
  cbor_append_txOutput_map_def append_output_address_def output_length_def

subsection \<open>One call\<close>

text \<open>Calls without byte strings.\<close>

lemma calls_numbers:
  "txHashBuilder_enterInputs b = Inr b' \<Longrightarrow> calls b b'"
  "txHashBuilder_enterOutputs b = Inr b' \<Longrightarrow> calls b b'"
  "txHashBuilder_addFee v b = Inr b' \<Longrightarrow> calls b b'"
  "txHashBuilder_addTtl v b = Inr b' \<Longrightarrow> calls b b'"
  "txHashBuilder_enterCertificates b = Inr b' \<Longrightarrow> calls b b'"
  "txHashBuilder_poolRegistrationCertificate_enter n m b = Inr b' \<Longrightarrow> calls b b'"
  "txHashBuilder_poolRegistrationCertificate_financials v w x y b = Inr b' \<Longrightarrow> calls b b'"
  "txHashBuilder_addPoolRegistrationCertificate_enterOwners b = Inr b' \<Longrightarrow> calls b b'"
  "txHashBuilder_addPoolRegistrationCertificate_enterRelays b = Inr b' \<Longrightarrow> calls b b'"
  "txHashBuilder_addPoolRegistrationCertificate_addPoolMetadata_null b = Inr b' \<Longrightarrow> calls b b'"
  "txHashBuilder_enterWithdrawals b = Inr b' \<Longrightarrow> calls b b'"
  "txHashBuilder_addValidityIntervalStart v b = Inr b' \<Longrightarrow> calls b b'"
  "txHashBuilder_enterCollateralInputs b = Inr b' \<Longrightarrow> calls b b'"
  "txHashBuilder_enterRequiredSigners b = Inr b' \<Longrightarrow> calls b b'"
  "txHashBuilder_addNetworkId netId b = Inr b' \<Longrightarrow> calls b b'"
  "txHashBuilder_addTotalCollateral v b = Inr b' \<Longrightarrow> calls b b'"
  "txHashBuilder_enterReferenceInputs b = Inr b' \<Longrightarrow> calls b b'"
  "txHashBuilder_enterVotingProcedures b = Inr b' \<Longrightarrow> calls b b'"
  by (insert calls_exec [of "OP_ENTER_INPUTS" b b']
      calls_exec [of "OP_ENTER_OUTPUTS" b b']
      calls_exec [of "OP_FEE v" b b']
      calls_exec [of "OP_TTL v" b b']
      calls_exec [of "OP_ENTER_CERTIFICATES" b b']
      calls_exec [of "OP_POOL_ENTER n m" b b']
      calls_exec [of "OP_POOL_FINANCIALS v w x y" b b']
      calls_exec [of "OP_POOL_ENTER_OWNERS" b b']
      calls_exec [of "OP_POOL_ENTER_RELAYS" b b']
      calls_exec [of "OP_POOL_NO_METADATA" b b']
      calls_exec [of "OP_ENTER_WITHDRAWALS" b b']
      calls_exec [of "OP_VALIDITY_START v" b b']
      calls_exec [of "OP_ENTER_COLLATERAL_INPUTS" b b']
      calls_exec [of "OP_ENTER_REQUIRED_SIGNERS" b b']
      calls_exec [of "OP_NETWORK_ID netId" b b']
      calls_exec [of "OP_TOTAL_COLLATERAL v" b b']
      calls_exec [of "OP_ENTER_REFERENCE_INPUTS" b b']
      calls_exec [of "OP_ENTER_VOTING" b b'])
    simp_all

text \<open>Calls that check the lengths of their byte strings.\<close>

lemma calls_addInput: "txHashBuilder_addInput i b = Inr b' \<Longrightarrow> calls b b'"
  by (rule calls_exec [of "OP_INPUT i"])
    (auto simp: txHashBuilder_addInput_def checked_lengths)

lemma calls_addOutput_topLevelData: "txHashBuilder_addOutput_topLevelData (d :: output_t) b = Inr b' \<Longrightarrow> calls b b'"
  by (rule calls_exec [of "OP_OUTPUT d"])
    (auto simp: txHashBuilder_addOutput_topLevelData_def checked_lengths output_head_defs
      split: tx_output_destination_t.splits tx_output_serialization_format_t.splits)

lemma calls_addOutput_tokenGroup: "txHashBuilder_addOutput_tokenGroup policyId n b = Inr b' \<Longrightarrow> calls b b'"
  by (rule calls_exec [of "OP_OUTPUT_TOKEN_GROUP policyId n"])
    (auto simp: txHashBuilder_addOutput_tokenGroup_def checked_lengths)

lemma calls_addOutput_token: "txHashBuilder_addOutput_token name amount b = Inr b' \<Longrightarrow> calls b b'"
  by (rule calls_exec [of "OP_OUTPUT_TOKEN name amount"])
    (auto simp: txHashBuilder_addOutput_token_def checked_lengths)

lemma calls_addCertificate_poolRetirement: "txHashBuilder_addCertificate_poolRetirement h v b = Inr b' \<Longrightarrow> calls b b'"
  by (rule calls_exec [of "OP_CERT_POOL_RETIREMENT h v"])
    (auto simp: txHashBuilder_addCertificate_poolRetirement_def checked_lengths)

lemma calls_poolRegistrationCertificate_poolKeyHash: "txHashBuilder_poolRegistrationCertificate_poolKeyHash h b = Inr b' \<Longrightarrow> calls b b'"
  by (rule calls_exec [of "OP_POOL_KEY h"])
    (auto simp: txHashBuilder_poolRegistrationCertificate_poolKeyHash_def checked_lengths)

lemma calls_poolRegistrationCertificate_vrfKeyHash: "txHashBuilder_poolRegistrationCertificate_vrfKeyHash h b = Inr b' \<Longrightarrow> calls b b'"
  by (rule calls_exec [of "OP_POOL_VRF h"])
    (auto simp: txHashBuilder_poolRegistrationCertificate_vrfKeyHash_def checked_lengths)

lemma calls_poolRegistrationCertificate_rewardAccount: "txHashBuilder_poolRegistrationCertificate_rewardAccount h b = Inr b' \<Longrightarrow> calls b b'"
  by (rule calls_exec [of "OP_POOL_REWARD_ACCOUNT h"])
    (auto simp: txHashBuilder_poolRegistrationCertificate_rewardAccount_def checked_lengths)

lemma calls_addPoolRegistrationCertificate_addOwner: "txHashBuilder_addPoolRegistrationCertificate_addOwner h b = Inr b' \<Longrightarrow> calls b b'"
  by (rule calls_exec [of "OP_POOL_OWNER h"])
    (auto simp: txHashBuilder_addPoolRegistrationCertificate_addOwner_def checked_lengths)

lemma calls_addWithdrawal: "txHashBuilder_addWithdrawal h v b = Inr b' \<Longrightarrow> calls b b'"
  by (rule calls_exec [of "OP_WITHDRAWAL h v"])
    (auto simp: txHashBuilder_addWithdrawal_def checked_lengths)

lemma calls_addAuxData: "txHashBuilder_addAuxData h b = Inr b' \<Longrightarrow> calls b b'"
  by (rule calls_exec [of "OP_AUX_DATA h"])
    (auto simp: txHashBuilder_addAuxData_def checked_lengths)

lemma calls_addMint_tokenGroup: "txHashBuilder_addMint_tokenGroup policyId n b = Inr b' \<Longrightarrow> calls b b'"
  by (rule calls_exec [of "OP_MINT_TOKEN_GROUP policyId n"])
    (auto simp: txHashBuilder_addMint_tokenGroup_def checked_lengths)

lemma calls_addMint_token: "txHashBuilder_addMint_token name amount b = Inr b' \<Longrightarrow> calls b b'"
  by (rule calls_exec [of "OP_MINT_TOKEN name amount"])
    (auto simp: txHashBuilder_addMint_token_def checked_lengths)

lemma calls_addScriptDataHash: "txHashBuilder_addScriptDataHash h b = Inr b' \<Longrightarrow> calls b b'"
  by (rule calls_exec [of "OP_SCRIPT_DATA_HASH h"])
    (auto simp: txHashBuilder_addScriptDataHash_def checked_lengths)

lemma calls_addCollateralInput: "txHashBuilder_addCollateralInput i b = Inr b' \<Longrightarrow> calls b b'"
  by (rule calls_exec [of "OP_COLLATERAL_INPUT i"])
    (auto simp: txHashBuilder_addCollateralInput_def checked_lengths)

lemma calls_addRequiredSigner: "txHashBuilder_addRequiredSigner h b = Inr b' \<Longrightarrow> calls b b'"
  by (rule calls_exec [of "OP_REQUIRED_SIGNER h"])
    (auto simp: txHashBuilder_addRequiredSigner_def checked_lengths)

lemma calls_addCollateralOutput: "txHashBuilder_addCollateralOutput (d :: output_t) b = Inr b' \<Longrightarrow> calls b b'"
  by (rule calls_exec [of "OP_COLLATERAL_OUTPUT d"])
    (auto simp: txHashBuilder_addCollateralOutput_def checked_lengths output_head_defs
      split: tx_output_destination_t.splits tx_output_serialization_format_t.splits)

lemma calls_addCollateralOutput_tokenGroup: "txHashBuilder_addCollateralOutput_tokenGroup policyId n b = Inr b' \<Longrightarrow> calls b b'"
  by (rule calls_exec [of "OP_COLLATERAL_TOKEN_GROUP policyId n"])
    (auto simp: txHashBuilder_addCollateralOutput_tokenGroup_def checked_lengths)

lemma calls_addCollateralOutput_token: "txHashBuilder_addCollateralOutput_token name amount b = Inr b' \<Longrightarrow> calls b b'"
  by (rule calls_exec [of "OP_COLLATERAL_TOKEN name amount"])
    (auto simp: txHashBuilder_addCollateralOutput_token_def checked_lengths)

lemma calls_addReferenceInput: "txHashBuilder_addReferenceInput i b = Inr b' \<Longrightarrow> calls b b'"
  by (rule calls_exec [of "OP_REFERENCE_INPUT i"])
    (auto simp: txHashBuilder_addReferenceInput_def checked_lengths)

text \<open>Calls that rely on their client.\<close>

lemma calls_addOutput_datum:
  "txHashBuilder_addOutput_datum t buffer n b = Inr b' \<Longrightarrow> in_output b \<Longrightarrow> (t = DATUM_HASH \<Longrightarrow> length buffer = 32) \<Longrightarrow> calls b b'"
  by (rule calls_exec [of "OP_OUTPUT_DATUM t buffer n"])
    (auto simp: txHashBuilder_addOutput_datum_def checked_lengths split: datum_type_t.splits)

lemma calls_addOutput_datum_inline_chunk:
  "txHashBuilder_addOutput_datum_inline_chunk buffer b = Inr b' \<Longrightarrow> in_output b \<Longrightarrow> calls b b'"
  by (rule calls_exec [of "OP_OUTPUT_DATUM_CHUNK buffer"])
    (auto simp: txHashBuilder_addOutput_datum_inline_chunk_def checked_lengths)

lemma calls_addOutput_referenceScript:
  "txHashBuilder_addOutput_referenceScript n b = Inr b' \<Longrightarrow> ready_for_script b \<Longrightarrow> n < 2 ^ 64 \<Longrightarrow> calls b b'"
  by (rule calls_exec [of "OP_OUTPUT_SCRIPT n"])
    (auto simp: txHashBuilder_addOutput_referenceScript_def checked_lengths)

lemma calls_addOutput_referenceScript_dataChunk:
  "txHashBuilder_addOutput_referenceScript_dataChunk buffer b = Inr b' \<Longrightarrow> in_output b \<Longrightarrow> calls b b'"
  by (rule calls_exec [of "OP_OUTPUT_SCRIPT_CHUNK buffer"])
    (auto simp: txHashBuilder_addOutput_referenceScript_dataChunk_def checked_lengths)

lemma calls_addCertificate_stakingOld:
  "txHashBuilder_addCertificate_stakingOld t c b = Inr b' \<Longrightarrow> short (credHash c) \<Longrightarrow> calls b b'"
  by (rule calls_exec [of "OP_CERT_STAKING_OLD t c"])
    (auto simp: txHashBuilder_addCertificate_stakingOld_def checked_lengths)

lemma calls_addCertificate_staking:
  "txHashBuilder_addCertificate_staking t c v b = Inr b' \<Longrightarrow> short (credHash c) \<Longrightarrow> calls b b'"
  by (rule calls_exec [of "OP_CERT_STAKING t c v"])
    (auto simp: txHashBuilder_addCertificate_staking_def checked_lengths)

lemma calls_addCertificate_stakeDelegation:
  "txHashBuilder_addCertificate_stakeDelegation c h b = Inr b' \<Longrightarrow> short (credHash c) \<Longrightarrow> calls b b'"
  by (rule calls_exec [of "OP_CERT_STAKE_DELEGATION c h"])
    (auto simp: txHashBuilder_addCertificate_stakeDelegation_def checked_lengths)

lemma calls_addCertificate_voteDelegation:
  "txHashBuilder_addCertificate_voteDelegation c d b = Inr b' \<Longrightarrow> short (credHash c) \<Longrightarrow> drep_length d \<Longrightarrow> calls b b'"
  by (rule calls_exec [of "OP_CERT_VOTE_DELEGATION c d"])
    (auto simp: txHashBuilder_addCertificate_voteDelegation_def checked_lengths)

lemma calls_addCertificate_committeeAuthHot:
  "txHashBuilder_addCertificate_committeeAuthHot c h b = Inr b' \<Longrightarrow> short (credHash c) \<Longrightarrow> short (credHash h) \<Longrightarrow> calls b b'"
  by (rule calls_exec [of "OP_CERT_COMMITTEE_AUTH c h"])
    (auto simp: txHashBuilder_addCertificate_committeeAuthHot_def checked_lengths)

lemma calls_addCertificate_committeeResign:
  "txHashBuilder_addCertificate_committeeResign c a b = Inr b' \<Longrightarrow> short (credHash c) \<Longrightarrow> anchor_lengths a \<Longrightarrow> calls b b'"
  by (rule calls_exec [of "OP_CERT_COMMITTEE_RESIGN c a"])
    (auto simp: txHashBuilder_addCertificate_committeeResign_def checked_lengths)

lemma calls_addCertificate_dRepRegistration:
  "txHashBuilder_addCertificate_dRepRegistration c v a b = Inr b' \<Longrightarrow> short (credHash c) \<Longrightarrow> anchor_lengths a \<Longrightarrow> calls b b'"
  by (rule calls_exec [of "OP_CERT_DREP_REGISTRATION c v a"])
    (auto simp: txHashBuilder_addCertificate_dRepRegistration_def checked_lengths)

lemma calls_addCertificate_dRepDeregistration:
  "txHashBuilder_addCertificate_dRepDeregistration c v b = Inr b' \<Longrightarrow> short (credHash c) \<Longrightarrow> calls b b'"
  by (rule calls_exec [of "OP_CERT_DREP_DEREGISTRATION c v"])
    (auto simp: txHashBuilder_addCertificate_dRepDeregistration_def checked_lengths)

lemma calls_addCertificate_dRepUpdate:
  "txHashBuilder_addCertificate_dRepUpdate c a b = Inr b' \<Longrightarrow> short (credHash c) \<Longrightarrow> anchor_lengths a \<Longrightarrow> calls b b'"
  by (rule calls_exec [of "OP_CERT_DREP_UPDATE c a"])
    (auto simp: txHashBuilder_addCertificate_dRepUpdate_def checked_lengths)

lemma calls_addPoolRegistrationCertificate_addRelay:
  "txHashBuilder_addPoolRegistrationCertificate_addRelay r b = Inr b' \<Longrightarrow> relay_lengths r \<Longrightarrow> calls b b'"
  by (rule calls_exec [of "OP_POOL_RELAY r"])
    (auto simp: txHashBuilder_addPoolRegistrationCertificate_addRelay_def checked_lengths)

lemma calls_addPoolRegistrationCertificate_addPoolMetadata:
  "txHashBuilder_addPoolRegistrationCertificate_addPoolMetadata url h b = Inr b' \<Longrightarrow> short url \<Longrightarrow> calls b b'"
  by (rule calls_exec [of "OP_POOL_METADATA url h"])
    (auto simp: txHashBuilder_addPoolRegistrationCertificate_addPoolMetadata_def checked_lengths)

lemma calls_addVotingProcedure:
  "txHashBuilder_addVotingProcedure w g p b = Inr b' \<Longrightarrow> short (voter_hash w) \<Longrightarrow> anchor_lengths (votingAnchor p) \<Longrightarrow> calls b b'"
  by (rule calls_exec [of "OP_VOTE w g p"])
    (auto simp: txHashBuilder_addVotingProcedure_def checked_lengths)

lemma calls_addTreasury:
  "txHashBuilder_addTreasury v b = Inr b' \<Longrightarrow> includeTreasury b \<Longrightarrow> calls b b'"
  by (rule calls_exec [of "OP_TREASURY v"])
    (auto simp: txHashBuilder_addTreasury_def checked_lengths)

lemma calls_addDonation:
  "txHashBuilder_addDonation v b = Inr b' \<Longrightarrow> includeDonation b \<Longrightarrow> calls b b'"
  by (rule calls_exec [of "OP_DONATION v"])
    (auto simp: txHashBuilder_addDonation_def checked_lengths)


subsection \<open>The head of the output that is written\<close>

definition output_head ::
  "tx_hash_builder_t \<Rightarrow> tx_hash_builder_state_t \<times> tx_output_serialization_format_t option \<times> bool option" where
  "output_head b = (txState b, serializationFormat b, includeDatum b)"

lemma head_topLevelData:
  "txHashBuilder_addOutput_topLevelData d b = Inr b' \<Longrightarrow>
   output_head b' = (TX_HASH_BUILDER_IN_OUTPUTS, Some (outFormat d), Some (outIncludeDatum d))"
proof -
  have "moves (\<lambda>_. True) (txHashBuilder_addOutput_topLevelData d) (\<lambda>b'. output_head b' =
      (TX_HASH_BUILDER_IN_OUTPUTS, Some (outFormat d), Some (outIncludeDatum d)))"
    unfolding txHashBuilder_addOutput_topLevelData_def processOutputTopLevel_def
    by (rule moves_pre, (rule move_rules)+) (auto simp: output_head_def builder_updates)
  then show "txHashBuilder_addOutput_topLevelData d b = Inr b' \<Longrightarrow> ?thesis"
    unfolding moves_def by blast
qed

lemma head_collateralOutput:
  "txHashBuilder_addCollateralOutput d b = Inr b' \<Longrightarrow>
   output_head b' = (TX_HASH_BUILDER_IN_COLLATERAL_OUTPUT, Some (outFormat d), Some (outIncludeDatum d))"
proof -
  have "moves (\<lambda>_. True) (txHashBuilder_addCollateralOutput d) (\<lambda>b'. output_head b' =
      (TX_HASH_BUILDER_IN_COLLATERAL_OUTPUT, Some (outFormat d), Some (outIncludeDatum d)))"
    unfolding txHashBuilder_addCollateralOutput_def processOutputTopLevel_def
    by (rule moves_pre, (rule move_rules)+) (auto simp: output_head_def builder_updates)
  then show "txHashBuilder_addCollateralOutput d b = Inr b' \<Longrightarrow> ?thesis"
    unfolding moves_def by blast
qed

text \<open>The calls for the rest of an output keep its head; a datum or a script is not written over again.\<close>

definition writes_on :: "(tx_hash_builder_t \<Rightarrow> bool) \<Rightarrow> tx_hash_builder_t stmt \<Rightarrow> bool" where
  "writes_on Q f \<longleftrightarrow> (\<forall>b b'. f b = Inr b' \<longrightarrow> output_head b' = output_head b \<and> Q b')"

lemma writes_onI:
  assumes "\<And>b. moves (\<lambda>c. c = b) f (\<lambda>b'. output_head b' = output_head b \<and> Q b')"
  shows "writes_on Q f"
  using assms unfolding writes_on_def moves_def by blast

lemma writes_on_tokens:
  "writes_on (\<lambda>_. True) (txHashBuilder_addOutput_tokenGroup policyId n)"
  "writes_on (\<lambda>_. True) (txHashBuilder_addCollateralOutput_tokenGroup policyId n)"
  "writes_on (\<lambda>_. True) (txHashBuilder_addOutput_token name amount)"
  "writes_on (\<lambda>_. True) (txHashBuilder_addCollateralOutput_token name amount)"
  unfolding txHashBuilder_addOutput_tokenGroup_def txHashBuilder_addCollateralOutput_tokenGroup_def
    txHashBuilder_addOutput_token_def txHashBuilder_addCollateralOutput_token_def
    addTokenGroup_def addToken_def
  by (rule writes_onI, rule moves_pre, (rule move_rules)+, auto simp: output_head_def builder_updates)+

lemma writes_on_datum:
  "writes_on (\<lambda>b. \<not> tokens_done b) (txHashBuilder_addOutput_datum t buffer n)"
  unfolding txHashBuilder_addOutput_datum_def
  by (cases t; simp only: datum_type_t.case; rule writes_onI, rule moves_pre, (rule move_rules)+)
    (auto simp: output_head_def tokens_done_def builder_updates)

lemma writes_on_data:
  "writes_on (\<lambda>b. \<not> tokens_done b) (txHashBuilder_addOutput_datum_inline_chunk buffer)"
  "writes_on (\<lambda>b. \<not> tokens_done b) (txHashBuilder_addOutput_referenceScript n)"
  "writes_on (\<lambda>b. \<not> tokens_done b) (txHashBuilder_addOutput_referenceScript_dataChunk buffer)"
  unfolding txHashBuilder_addOutput_datum_inline_chunk_def txHashBuilder_addOutput_referenceScript_def
    txHashBuilder_addOutput_referenceScript_dataChunk_def
  by (rule writes_onI, rule moves_pre, (rule move_rules)+,
      auto simp: output_head_def tokens_done_def builder_updates)+

end
