(* ===== verification/SignTxFeeds.thy ===== *)
theory SignTxFeeds
  imports SignTx TxCalls
begin

text \<open>
  What the dialogues of the pool registration and the mint do to the transaction builder: a message
  that is accepted makes calls that follow the builder's protocol. \<open>fed\<close> relates the frame before and
  after a message; the flag that the builder was initialised with stays.
\<close>

subsection \<open>Frames before and after\<close>

definition fed :: "(tx_hash_builder_t, 'c) dialogue \<Rightarrow> (tx_hash_builder_t, 'd) dialogue \<Rightarrow> bool" where
  "fed f f' \<longleftrightarrow> calls (dlgBuilder f) (dlgBuilder f') \<and>
     txTagCborSets (dlgCommon f') = txTagCborSets (dlgCommon f)"

lemma fed_refl [simp, intro]: "fed f f"
  by (simp add: fed_def)

lemma fed_trans: "fed f g \<Longrightarrow> fed g h \<Longrightarrow> fed f h"
  unfolding fed_def using calls_trans by metis

lemma fed_call: "fed f g \<Longrightarrow> calls (dlgBuilder g) b \<Longrightarrow> fed f (g\<lparr>dlgBuilder := b\<rparr>)"
  by (auto simp: fed_def intro: calls_trans)

lemma fed_update [simp]:
  "fed f (g\<lparr>dlgContext := c\<rparr>) = fed f g"
  "fed f (g\<lparr>dlgShown := scr\<rparr>) = fed f g"
  "fed f (g\<lparr>dlgAnswer := a\<rparr>) = fed f g"
  "fed f (g\<lparr>dlgPoolOwner := po\<rparr>) = fed f g"
  "fed f (g\<lparr>dlgDisplayTxid := d\<rparr>) = fed f g"
  "fed f (set_account acct g) = fed f g"
  "fed f (update_pool u h) = fed f h"
  "fed f (update_mint v k) = fed f k"
  by (simp_all add: fed_def set_account_def update_pool_def update_mint_def)

text \<open>
  \<open>feeds f m\<close>: what is left of a handler that started in \<open>f\<close> ends, if it is accepted, in a frame that
  \<open>f\<close> was fed to. The rules follow the forms of the handlers; a call of the builder is recorded.
\<close>

definition feeds ::
  "(tx_hash_builder_t, 'c) dialogue \<Rightarrow> (tx_hash_builder_t, 'd) dialogue res \<Rightarrow> bool" where
  "feeds f m \<longleftrightarrow> (\<forall>f'. m = Inr f' \<longrightarrow> fed f f')"

lemma feedsD: "feeds f m \<Longrightarrow> m = Inr f' \<Longrightarrow> fed f f'"
  by (simp add: feeds_def)

lemma feeds_Inl: "feeds f (Inl e)"
  by (simp add: feeds_def)

lemma feeds_Inr: "fed f g \<Longrightarrow> feeds f (Inr g)"
  by (simp add: feeds_def)

lemma feeds_pure: "(\<And>x. m = Inr x \<Longrightarrow> feeds f (k x)) \<Longrightarrow> feeds f (res_bind m k)"
  by (auto simp: feeds_def res_bind_Inr_iff)

lemma feeds_parse:
  "(\<And>x y. m = Inr (x, y) \<Longrightarrow> feeds f (k x y)) \<Longrightarrow> feeds f (res_bind m (\<lambda>(x, y). k x y))"
  by (auto simp: feeds_def res_bind_Inr_iff)

lemma feeds_if: "feeds f m \<Longrightarrow> feeds f n \<Longrightarrow> feeds f (if c then m else n)"
  by simp

lemma feeds_Let: "feeds f (k x) \<Longrightarrow> feeds f (Let x k)"
  by simp

lemma feeds_prod: "(\<And>x y. feeds f (k x y)) \<Longrightarrow> feeds f (case p of (x, y) \<Rightarrow> k x y)"
  by (cases p) simp

lemma feeds_call:
  assumes "fed f g" "\<And>b b'. s b = Inr b' \<Longrightarrow> calls b b'" "\<And>h. fed f h \<Longrightarrow> feeds f (k h)"
  shows "feeds f (res_bind (on_builder s g) k)"
  using assms fed_call unfolding feeds_def by (fastforce simp: res_bind_Inr_iff on_builder_def)

lemma feeds_ui_select:
  assumes "\<And>scr. feeds f (respond (g\<lparr>dlgShown := scr\<rparr>))"
  shows "feeds f (ui_select approve ps p screens respond g)"
  using assms [of "dlgShown g @ screens"] assms [of "dlgShown g"]
  by (simp add: feeds_def ui_select_def select_screens_def run_screens_def)

lemma feeds_ui_runSteps:
  "(\<And>scr. feeds f (respond (g\<lparr>dlgShown := scr\<rparr>))) \<Longrightarrow> feeds f (ui_runSteps approve screens respond g)"
  by (simp add: feeds_def ui_runSteps_def run_screens_def)

lemma feeds_context: "fed f g \<Longrightarrow> feeds f (on_context s g)"
  by (auto simp: feeds_def on_context_def res_bind_Inr_iff)

subsection \<open>Pool registrations\<close>

lemma feeds_check_pool: "feeds f (k g) \<Longrightarrow> feeds f (res_bind (CHECK_STATE_pool s g) k)"
  by (simp add: CHECK_STATE_pool_def feeds_Inl)

lemma pool_goto_fed: "pool_goto s g = Inr h \<Longrightarrow> fed f g \<Longrightarrow> fed f h"
  by (auto simp: pool_goto_def)

lemma call_fed: "on_builder s g = Inr h \<Longrightarrow> (\<And>b b'. s b = Inr b' \<Longrightarrow> calls b b') \<Longrightarrow> fed f g \<Longrightarrow> fed f h"
  by (auto simp: on_builder_def res_bind_Inr_iff intro!: fed_call)

lemma from_relays_fed: "pool_advance_from_relays g = Inr h \<Longrightarrow> fed f g \<Longrightarrow> fed f h"
  by (auto simp: pool_advance_from_relays_def res_bind_Inr_iff elim: pool_goto_fed)

lemma from_owners_fed: "pool_advance_from_owners g = Inr h \<Longrightarrow> fed f g \<Longrightarrow> fed f h"
  unfolding pool_advance_from_owners_def do_if_def
  by (auto simp: res_bind_Inr_iff split: if_splits
      dest!: pool_goto_fed [of _ _ _ f] call_fed [of _ _ _ f] from_relays_fed [of _ _ f] intro: calls_numbers)

lemma from_reward_account_fed: "pool_advance_from_reward_account g = Inr h \<Longrightarrow> fed f g \<Longrightarrow> fed f h"
  unfolding pool_advance_from_reward_account_def do_if_def
  by (auto simp: res_bind_Inr_iff split: if_splits
      dest!: pool_goto_fed [of _ _ _ f] call_fed [of _ _ _ f] from_owners_fed [of _ _ f] intro: calls_numbers)

lemma feeds_pool_advance: "fed f g \<Longrightarrow> feeds f (pool_advanceState g)"
  unfolding feeds_def pool_advanceState_def
  by (auto split: sign_tx_pool_registration_state_t.splits
      elim: pool_goto_fed from_relays_fed from_owners_fed from_reward_account_fed)

lemmas feeds_rules = feeds_call feeds_ui_select feeds_ui_runSteps feeds_context feeds_check_pool
  feeds_pool_advance feeds_if feeds_Let feeds_prod feeds_Inl feeds_Inr feeds_parse feeds_pure

text \<open>What the parsers give the builder.\<close>

lemma parseBuffer_length: "view_parseBuffer n view = Inr (bs, view') \<Longrightarrow> length bs = n"
  by (auto simp: view_parseBuffer_def res_bind_Inr_iff remaining_Inr split: if_splits)

lemma parseIp_length:
  "parseIpv4 view = Inr (ip, view') \<Longrightarrow> (case ip of None \<Rightarrow> True | Some bs \<Rightarrow> length bs = 4)"
  "parseIpv6 view = Inr (ip, view') \<Longrightarrow> (case ip of None \<Rightarrow> True | Some bs \<Rightarrow> length bs = 16)"
  by (auto simp: parseIpv4_def parseIpv6_def res_bind_Inr_iff dest: parseBuffer_length split: if_splits)

lemma parseDnsName_length: "parseDnsName view = Inr (name, view') \<Longrightarrow> length name \<le> 128"
  by (auto simp: parseDnsName_def res_bind_Inr_iff dest: parseBuffer_length)

lemma parse_relay_lengths: "parse_relay view = Inr (relay, view') \<Longrightarrow> relay_lengths relay"
  by (auto simp: parse_relay_def relay_lengths_def is_size_t_def res_bind_Inr_iff
      dest!: parseIp_length parseDnsName_length split: if_splits)

lemma feeds_pool_owner:
  assumes "fed f g" "\<And>x v h. fed f h \<Longrightarrow> feeds f (k x v h)"
  shows "feeds f (res_bind (parsePoolOwner view g) (\<lambda>((x, v), h). k x v h))"
proof -
  have "fed f h" if "parsePoolOwner view g = Inr ((x, v), h)" for x v h
    using that assms(1) by (auto simp: parsePoolOwner_def res_bind_Inr_iff split: if_splits)
  then show ?thesis
    using assms(2) by (auto simp: feeds_def res_bind_Inr_iff)
qed

lemma feeds_respond_owner: "fed f g \<Longrightarrow> feeds f (respond_owner g)"
  unfolding respond_owner_def Let_def by (intro feeds_if feeds_pool_advance feeds_Inr) simp_all

lemma feeds_respond_relay: "fed f g \<Longrightarrow> feeds f (respond_relay g)"
  unfolding respond_relay_def Let_def by (intro feeds_if feeds_pool_advance feeds_Inr) simp_all

lemmas pool_feeds_rules = feeds_pool_owner feeds_respond_owner feeds_respond_relay feeds_rules

lemmas pool_calls = calls_numbers calls_poolRegistrationCertificate_poolKeyHash
  calls_poolRegistrationCertificate_vrfKeyHash calls_poolRegistrationCertificate_rewardAccount
  calls_addPoolRegistrationCertificate_addOwner

lemma pool_init_feeds: "feeds f (signTxPoolRegistration_handleInitAPDU approve wire f)"
  unfolding signTxPoolRegistration_handleInitAPDU_def
  by (rule pool_feeds_rules | erule pool_calls | simp; fail)+

lemma pool_key_feeds: "feeds f (signTxPoolRegistration_handlePoolKeyAPDU fw approve wire f)"
  unfolding signTxPoolRegistration_handlePoolKeyAPDU_def
  by (rule pool_feeds_rules | erule pool_calls | simp; fail)+

lemma vrf_key_feeds: "feeds f (signTxPoolRegistration_handleVrfKeyAPDU approve wire f)"
  unfolding signTxPoolRegistration_handleVrfKeyAPDU_def
  by (rule pool_feeds_rules | erule pool_calls | simp; fail)+

lemma financials_feeds: "feeds f (signTxPoolRegistration_handlePoolFinancialsAPDU approve wire f)"
  unfolding signTxPoolRegistration_handlePoolFinancialsAPDU_def
  by (rule pool_feeds_rules | erule pool_calls | simp; fail)+

lemma reward_account_feeds: "feeds f (signTxPoolRegistration_handleRewardAccountAPDU fw approve wire f)"
  unfolding signTxPoolRegistration_handleRewardAccountAPDU_def
  by (rule pool_feeds_rules | erule pool_calls | simp; fail)+

lemma owner_feeds: "feeds f (signTxPoolRegistration_handleOwnerAPDU fw approve wire f)"
  unfolding signTxPoolRegistration_handleOwnerAPDU_def
  by (rule pool_feeds_rules | erule pool_calls | simp; fail)+

lemma relay_feeds: "feeds f (signTxPoolRegistration_handleRelayAPDU approve wire f)"
  unfolding signTxPoolRegistration_handleRelayAPDU_def
  by (rule pool_feeds_rules | erule calls_addPoolRegistrationCertificate_addRelay parse_relay_lengths
      | simp; fail)+

lemma metadata_feeds: "feeds f (signTxPoolRegistration_handlePoolMetadataAPDU approve wire f)"
  unfolding signTxPoolRegistration_handlePoolMetadataAPDU_def handleNullMetadata_def
  by (rule pool_feeds_rules | erule pool_calls
      | (erule calls_addPoolRegistrationCertificate_addPoolMetadata, drule parseBuffer_length) | simp; fail)+

lemma confirm_feeds: "feeds f (signTxPoolRegistration_handleConfirmAPDU approve n f)"
  unfolding signTxPoolRegistration_handleConfirmAPDU_def
  by (rule pool_feeds_rules | erule pool_calls | simp; fail)+

lemma pool_feeds: "feeds f (signTxPoolRegistration_handleAPDU fw approve p2 data f)"
  unfolding signTxPoolRegistration_handleAPDU_def
  by (rule pool_init_feeds pool_key_feeds vrf_key_feeds financials_feeds reward_account_feeds owner_feeds
      relay_feeds metadata_feeds confirm_feeds feeds_Inl feeds_if feeds_Let feeds_pure)+

subsection \<open>The mint\<close>

text \<open>
  The builder enters the mint when the stage begins and writes the number of asset groups with the
  first message, so before that message it is one half of a call behind.
\<close>

definition mint_built :: "tx_params \<Rightarrow> mint_context_t \<Rightarrow> tx_hash_builder_t \<Rightarrow> bool" where
  "mint_built p c b \<longleftrightarrow>
     (if mcState c = STATE_MINT_TOP_LEVEL_DATA
      then \<exists>b0. built p b0 \<and> txHashBuilder_enterMint b0 = Inr b else built p b)"

lemma calls_mint:
  "txHashBuilder_enterMint b0 = Inr b \<Longrightarrow> txHashBuilder_addMint_topLevelData n b = Inr b' \<Longrightarrow> calls b0 b'"
  by (rule calls_exec [of "OP_MINT n"]) simp_all

lemma feeds_check_mint: "feeds f (k g) \<Longrightarrow> feeds f (res_bind (CHECK_STATE_mint s g) k)"
  by (simp add: CHECK_STATE_mint_def feeds_Inl)

lemma feeds_mint_advance: "fed f g \<Longrightarrow> feeds f (mint_respond_and_advance g)"
  unfolding mint_respond_and_advance_def by (rule feeds_context)

lemma feeds_mint_respond_token: "fed f g \<Longrightarrow> feeds f (mint_respond_token g)"
  unfolding mint_respond_token_def Let_def
  by (intro feeds_pure feeds_if feeds_context feeds_Inr) simp_all

lemmas mint_feeds_rules = feeds_check_mint feeds_mint_advance feeds_mint_respond_token feeds_rules

lemma mint_group_feeds: "feeds f (signTxMint_handleAssetGroupAPDU wire f)"
  unfolding signTxMint_handleAssetGroupAPDU_def
  by (rule mint_feeds_rules | erule calls_addMint_tokenGroup | simp; fail)+

lemma mint_token_feeds: "feeds f (signTxMint_handleTokenAPDU approve wire f)"
  unfolding signTxMint_handleTokenAPDU_def
  by (rule mint_feeds_rules | erule calls_addMint_token | simp; fail)+

lemma mint_confirm_feeds: "feeds f (signTxMint_handleConfirmAPDU approve n f)"
  unfolding signTxMint_handleConfirmAPDU_def
  by (rule mint_feeds_rules | simp; fail)+

lemma mint_advance_state:
  "mint_advanceState c = Inr c' \<Longrightarrow> mcState c' \<noteq> STATE_MINT_TOP_LEVEL_DATA"
  by (auto simp: mint_advanceState_def Let_def res_bind_Inr_iff split: sign_tx_mint_state_t.splits if_splits)

lemma select_Inr:
  "ui_select approve ps p screens respond f = Inr f' \<Longrightarrow> \<exists>scr. respond (f\<lparr>dlgShown := scr\<rparr>) = Inr f'"
proof -
  assume "ui_select approve ps p screens respond f = Inr f'"
  then have "respond (f\<lparr>dlgShown := dlgShown f @ screens\<rparr>) = Inr f' \<or>
      respond (f\<lparr>dlgShown := dlgShown f @ []\<rparr>) = Inr f'"
    by (auto simp: ui_select_def select_screens_def run_screens_def split: if_splits)
  then show ?thesis by blast
qed

lemma runSteps_Inr:
  "ui_runSteps approve screens respond f = Inr f' \<Longrightarrow> \<exists>scr. respond (f\<lparr>dlgShown := scr\<rparr>) = Inr f'"
  by (auto simp: ui_runSteps_def run_screens_def split: if_splits)

lemma mint_moves_on:
  "signTxMint_handleAssetGroupAPDU wire f = Inr f' \<Longrightarrow> mcState (dlgContext f) \<noteq> STATE_MINT_TOP_LEVEL_DATA \<and>
    mcState (dlgContext f') \<noteq> STATE_MINT_TOP_LEVEL_DATA"
  "signTxMint_handleTokenAPDU approve wire f = Inr f' \<Longrightarrow> mcState (dlgContext f) \<noteq> STATE_MINT_TOP_LEVEL_DATA \<and>
    mcState (dlgContext f') \<noteq> STATE_MINT_TOP_LEVEL_DATA"
  "signTxMint_handleConfirmAPDU approve n f = Inr f' \<Longrightarrow> mcState (dlgContext f) \<noteq> STATE_MINT_TOP_LEVEL_DATA \<and>
    mcState (dlgContext f') \<noteq> STATE_MINT_TOP_LEVEL_DATA"
  by (auto simp: signTxMint_handleAssetGroupAPDU_def signTxMint_handleTokenAPDU_def
      signTxMint_handleConfirmAPDU_def mint_respond_token_def mint_respond_and_advance_def
      CHECK_STATE_mint_def on_builder_def on_context_def update_mint_def res_bind_Inr_iff Let_def
      split: if_splits dest!: select_Inr mint_advance_state)

lemma mint_top_level:
  assumes "signTxMint_handleTopLevelDataAPDU approve wire f = Inr f'" "mint_built p (dlgContext f) (dlgBuilder f)"
  shows "mint_built p (dlgContext f') (dlgBuilder f') \<and>
    txTagCborSets (dlgCommon f') = txTagCborSets (dlgCommon f)"
proof -
  obtain n b where "txHashBuilder_addMint_topLevelData n (dlgBuilder f) = Inr b" "dlgBuilder f' = b"
    "mcState (dlgContext f) = STATE_MINT_TOP_LEVEL_DATA" "mcState (dlgContext f') \<noteq> STATE_MINT_TOP_LEVEL_DATA"
    "dlgCommon f' = dlgCommon f"
    using assms(1)
    by (auto simp: signTxMint_handleTopLevelDataAPDU_def mint_respond_and_advance_def
        CHECK_STATE_mint_def on_builder_def on_context_def update_mint_def res_bind_Inr_iff
        split: if_splits dest!: runSteps_Inr mint_advance_state)
  then show ?thesis
    using assms(2) by (auto simp: mint_built_def intro: built_calls calls_mint)
qed

lemma mint_step:
  assumes "signTxMint_handleAPDU approve p2 data f = Inr f'" "mint_built p (dlgContext f) (dlgBuilder f)"
  shows "mint_built p (dlgContext f') (dlgBuilder f') \<and>
    txTagCborSets (dlgCommon f') = txTagCborSets (dlgCommon f)"
proof -
  have "mint_built p (dlgContext f') (dlgBuilder f') \<and> txTagCborSets (dlgCommon f') = txTagCborSets (dlgCommon f)"
    if "feeds f m" "m = Inr f'" "mcState (dlgContext f) \<noteq> STATE_MINT_TOP_LEVEL_DATA \<and>
      mcState (dlgContext f') \<noteq> STATE_MINT_TOP_LEVEL_DATA" for m
    using feedsD [OF that(1,2)] that(3) assms(2) by (auto simp: mint_built_def fed_def intro: built_calls)
  then show ?thesis
    using assms mint_top_level mint_group_feeds mint_token_feeds mint_confirm_feeds mint_moves_on
    unfolding signTxMint_handleAPDU_def Let_def res_bind_Inr_iff
    by (elim exE conjE) (simp split: if_splits; metis)
qed

end
