(* ===== verification/SignTxOutputFeeds.thy ===== *)
theory SignTxOutputFeeds
  imports SignTxFeeds
begin

text \<open>
  The dialogue of an output as a client of the transaction builder. Its context says which call the
  builder is ready for; \<open>output_ok\<close> relates the two, and every accepted message keeps it.
\<close>

subsection \<open>The dialogue and the output that is written\<close>

definition legacy_script :: "output_context_t \<Rightarrow> bool" where
  "legacy_script c \<longleftrightarrow> ocFormat c = ARRAY_LEGACY \<and> ocIncludeRefScript c"

definition head_ok :: "output_context_t \<Rightarrow> tx_hash_builder_t \<Rightarrow> bool" where
  "head_ok c b \<longleftrightarrow> in_output b \<and> serializationFormat b = Some (ocFormat c) \<and>
     includeDatum b = Some (ocIncludeDatum c)"

definition output_ok :: "output_context_t \<Rightarrow> tx_hash_builder_t \<Rightarrow> bool" where
  "output_ok c b \<longleftrightarrow> (ocState c \<noteq> STATE_OUTPUT_TOP_LEVEL_DATA \<longrightarrow> head_ok c b \<and> \<not> legacy_script c \<and>
     (ocState c = STATE_OUTPUT_REFERENCE_SCRIPT \<longrightarrow> ocIncludeRefScript c \<and>
       (ocIncludeDatum c \<longrightarrow> \<not> tokens_done b)))"

lemma head_ok_keeps: "head_ok c b \<Longrightarrow> output_head b' = output_head b \<Longrightarrow> head_ok c b'"
  by (simp add: head_ok_def output_head_def in_output_def)

lemma head_ok_update [simp]:
  "head_ok (c\<lparr>ocState := s\<rparr>) = head_ok c"
  "head_ok (c\<lparr>ocDatumHashReceived := d\<rparr>) = head_ok c"
  "head_ok (c\<lparr>ocPolicy := p\<rparr>) = head_ok c"
  "head_ok (c\<lparr>ocTokensPolicy := p\<rparr>) = head_ok c"
  "head_ok (c\<lparr>ocData := x\<rparr>) = head_ok c"
  by (simp_all add: fun_eq_iff head_ok_def)

lemma legacy_script_update [simp]:
  "legacy_script (c\<lparr>ocState := s\<rparr>) = legacy_script c"
  "legacy_script (c\<lparr>ocDatumHashReceived := d\<rparr>) = legacy_script c"
  "legacy_script (c\<lparr>ocPolicy := p\<rparr>) = legacy_script c"
  "legacy_script (c\<lparr>ocTokensPolicy := p\<rparr>) = legacy_script c"
  "legacy_script (c\<lparr>ocData := x\<rparr>) = legacy_script c"
  by (simp_all add: legacy_script_def)

text \<open>The states an output is in after it advanced from another one.\<close>

definition follows :: "output_context_t \<Rightarrow> output_context_t \<Rightarrow> bool" where
  "follows c c' \<longleftrightarrow> (\<exists>d s. c' = c\<lparr>ocData := d, ocState := s\<rparr> \<and> s \<noteq> STATE_OUTPUT_TOP_LEVEL_DATA \<and>
     (s = STATE_OUTPUT_REFERENCE_SCRIPT \<longrightarrow> ocIncludeRefScript c \<and>
       (ocIncludeDatum c \<longrightarrow> ocState c \<in> {STATE_OUTPUT_DATUM, STATE_OUTPUT_DATUM_INLINE_CHUNKS})))"

lemma followsI:
  "c' = c\<lparr>ocState := s\<rparr> \<Longrightarrow> s \<noteq> STATE_OUTPUT_TOP_LEVEL_DATA \<Longrightarrow>
   (s = STATE_OUTPUT_REFERENCE_SCRIPT \<Longrightarrow> ocIncludeRefScript c \<and>
       (ocIncludeDatum c \<longrightarrow> ocState c \<in> {STATE_OUTPUT_DATUM, STATE_OUTPUT_DATUM_INLINE_CHUNKS})) \<Longrightarrow> follows c c'"
  unfolding follows_def by (rule exI [of _ "ocData c"], rule exI [of _ s]) simp

lemma advance_follows: "tx_output_advanceState c = Inr c' \<Longrightarrow> follows c c'"
proof (cases "ocState c")
  case STATE_OUTPUT_TOKEN
  assume a: "tx_output_advanceState c = Inr c'"
  then obtain t s where "c' = c\<lparr>ocData := OUTPUT_DATA_TOKENS t, ocState := s\<rparr>"
    "s = state_after_tokens c \<or> s = STATE_OUTPUT_ASSET_GROUP"
    using STATE_OUTPUT_TOKEN by (auto simp: tx_output_advanceState_def Let_def res_bind_Inr_iff split: if_splits)
  then show ?thesis
    unfolding follows_def by (auto simp: state_after_tokens_def state_after_datum_def split: if_splits)
qed (auto simp: tx_output_advanceState_def res_bind_Inr_iff state_after_tokens_def state_after_datum_def
    split: if_splits output_state_data.splits intro: followsI)

lemma output_ok_advance:
  assumes "tx_output_advanceState c = Inr c'" "head_ok c b" "\<not> legacy_script c'"
    and "ocState c \<in> {STATE_OUTPUT_DATUM, STATE_OUTPUT_DATUM_INLINE_CHUNKS} \<Longrightarrow> \<not> tokens_done b"
  shows "output_ok c' b"
  using advance_follows [OF assms(1)] assms(2-4) by (auto simp: output_ok_def follows_def)

text \<open>A message that is accepted.\<close>

definition steps_to :: "tx_params \<Rightarrow> output_dialogue \<Rightarrow> output_dialogue \<Rightarrow> bool" where
  "steps_to p f f' \<longleftrightarrow> (built p (dlgBuilder f) \<longrightarrow> \<not> legacy_script (dlgContext f') \<longrightarrow>
     built p (dlgBuilder f') \<and> output_ok (dlgContext f') (dlgBuilder f') \<and>
     txTagCborSets (dlgCommon f') = txTagCborSets (dlgCommon f))"

lemma CHECK_STATE_output_Inr: "CHECK_STATE_output s f = Inr f' \<longleftrightarrow> ocState (dlgContext f) = s \<and> f' = f"
  by (auto simp: CHECK_STATE_output_def)

lemmas output_Inr = res_bind_Inr_iff on_builder_def on_context_def CHECK_STATE_output_Inr set_data_def
  respond_and_advance_def

lemma writes_onD: "writes_on Q f \<Longrightarrow> f b = Inr b' \<Longrightarrow> output_head b' = output_head b \<and> Q b'"
  by (simp add: writes_on_def)

lemma group_steps:
  assumes "handleAssetGroupAPDU wire f = Inr f'" "output_ok (dlgContext f) (dlgBuilder f)"
  shows "steps_to p f f'"
proof -
  obtain policyId n b c where b: "by_stage (dlgStage f) (txHashBuilder_addOutput_tokenGroup policyId n)
      (txHashBuilder_addCollateralOutput_tokenGroup policyId n) (dlgBuilder f) = Inr b"
    and c: "tx_output_advanceState c = Inr (dlgContext f')" "head_ok c = head_ok (dlgContext f)"
      "ocState c = STATE_OUTPUT_ASSET_GROUP" "ocState (dlgContext f) = STATE_OUTPUT_ASSET_GROUP"
      "dlgBuilder f' = b" "dlgCommon f' = dlgCommon f"
    using assms(1) by (auto simp: handleAssetGroupAPDU_def output_Inr)
  have "calls (dlgBuilder f) b \<and> output_head b = output_head (dlgBuilder f)"
    using b by (auto simp: by_stage_def split: if_splits
        dest: calls_addOutput_tokenGroup calls_addCollateralOutput_tokenGroup writes_onD [OF writes_on_tokens(1)]
          writes_onD [OF writes_on_tokens(2)])
  then show ?thesis
    using assms(2) c built_calls output_ok_advance [OF c(1), of b] head_ok_keeps
    by (auto simp: steps_to_def output_ok_def)
qed

lemma steps_toI:
  assumes "tx_output_advanceState c = Inr (dlgContext f')" "head_ok c (dlgBuilder f')"
    and "ocState c \<in> {STATE_OUTPUT_DATUM, STATE_OUTPUT_DATUM_INLINE_CHUNKS} \<Longrightarrow> \<not> tokens_done (dlgBuilder f')"
    and "calls (dlgBuilder f) (dlgBuilder f')" "txTagCborSets (dlgCommon f') = txTagCborSets (dlgCommon f)"
  shows "steps_to p f f'"
  using assms output_ok_advance [OF assms(1,2)] built_calls unfolding steps_to_def by blast

lemma steps_to_same:
  assumes "output_ok (dlgContext f') (dlgBuilder f')"
    and "calls (dlgBuilder f) (dlgBuilder f')" "txTagCborSets (dlgCommon f') = txTagCborSets (dlgCommon f)"
  shows "steps_to p f f'"
  using assms built_calls unfolding steps_to_def by blast

text \<open>The last token or chunk advances the state, the others leave it.\<close>

lemma part_end:
  assumes "(if isLast then respond_and_advance g else Inr g) = Inr f'"
    and "head_ok (dlgContext g) (dlgBuilder g)" "\<not> legacy_script (dlgContext g)"
    and "ocState (dlgContext g) \<in> {STATE_OUTPUT_DATUM, STATE_OUTPUT_DATUM_INLINE_CHUNKS} \<Longrightarrow>
      \<not> tokens_done (dlgBuilder g)"
    and "calls (dlgBuilder f) (dlgBuilder g)" "txTagCborSets (dlgCommon g) = txTagCborSets (dlgCommon f)"
    and "ocState (dlgContext g) \<noteq> STATE_OUTPUT_REFERENCE_SCRIPT"
  shows "steps_to p f f'"
proof (cases isLast)
  case True
  then obtain c where "tx_output_advanceState (dlgContext g) = Inr c" "f' = g\<lparr>dlgContext := c\<rparr>"
    using assms(1) by (auto simp: respond_and_advance_def on_context_def res_bind_Inr_iff)
  then show ?thesis
    using assms(2-6) by (auto intro!: steps_toI)
next
  case False
  then show ?thesis
    using assms by (auto intro!: steps_to_same simp: output_ok_def)
qed

lemma respond_token_Inr:
  assumes "respond_token g = Inr f'"
  shows "\<exists>d stop. (if stop then respond_and_advance (g\<lparr>dlgContext := (dlgContext g)\<lparr>ocData := d\<rparr>\<rparr>)
    else Inr (g\<lparr>dlgContext := (dlgContext g)\<lparr>ocData := d\<rparr>\<rparr>)) = Inr f'"
proof -
  from assms obtain t where "(if tdCurrentToken (t\<lparr>tdCurrentToken := tdCurrentToken t + 1\<rparr>) =
        tdNumTokens (t\<lparr>tdCurrentToken := tdCurrentToken t + 1\<rparr>)
      then on_context tx_output_advanceState (set_data (OUTPUT_DATA_TOKENS (t\<lparr>tdCurrentToken := tdCurrentToken t + 1\<rparr>)) g)
      else Inr (set_data (OUTPUT_DATA_TOKENS (t\<lparr>tdCurrentToken := tdCurrentToken t + 1\<rparr>)) g)) = Inr f'"
    unfolding respond_token_def Let_def res_bind_Inr_iff by blast
  then show ?thesis
    unfolding set_data_def respond_and_advance_def by blast
qed

lemma token_steps:
  assumes "handleTokenAPDU approve wire f = Inr f'" "output_ok (dlgContext f) (dlgBuilder f)"
  shows "steps_to p f f'"
proof -
  obtain name amount b scr d0 where b: "by_stage (dlgStage f) (txHashBuilder_addOutput_token name amount)
      (txHashBuilder_addCollateralOutput_token name amount) (dlgBuilder f) = Inr b"
    and c: "ocState (dlgContext f) = STATE_OUTPUT_TOKEN"
      "respond_token (f\<lparr>dlgContext := (dlgContext f)\<lparr>ocData := d0\<rparr>, dlgBuilder := b, dlgShown := scr\<rparr>) = Inr f'"
    using assms(1) by (auto simp: handleTokenAPDU_def output_Inr dest!: select_Inr)
  have *: "calls (dlgBuilder f) b \<and> output_head b = output_head (dlgBuilder f)"
    using b by (auto simp: by_stage_def split: if_splits
        dest: calls_addOutput_token calls_addCollateralOutput_token writes_onD [OF writes_on_tokens(3)]
          writes_onD [OF writes_on_tokens(4)])
  have h: "head_ok (dlgContext f) b" "\<not> legacy_script (dlgContext f)"
    using assms(2) c(1) * head_ok_keeps by (auto simp: output_ok_def)
  show ?thesis
    using respond_token_Inr [OF c(2)] by (elim exE, elim part_end) (use c(1) * h in auto)
qed

text \<open>A datum, and the chunks of an inline one.\<close>

lemma call_keeps: "writes_on Q f \<Longrightarrow> f b = Inr b' \<Longrightarrow> head_ok c b \<Longrightarrow> head_ok c b' \<and> Q b' \<and> in_output b"
  using writes_onD head_ok_keeps by (metis head_ok_def)

lemma datum_call:
  assumes "txHashBuilder_addOutput_datum t buffer n b = Inr b'" "head_ok c b"
    and "t = DATUM_HASH \<Longrightarrow> length buffer = 32"
  shows "calls b b' \<and> head_ok c b' \<and> \<not> tokens_done b'"
  using calls_addOutput_datum [OF assms(1)] assms(3) call_keeps [OF writes_on_datum assms(1,2)] by blast

lemma data_calls:
  "txHashBuilder_addOutput_datum_inline_chunk chunk b = Inr b' \<Longrightarrow> head_ok c b \<Longrightarrow>
    calls b b' \<and> head_ok c b' \<and> \<not> tokens_done b'"
  "txHashBuilder_addOutput_referenceScript_dataChunk chunk b = Inr b' \<Longrightarrow> head_ok c b \<Longrightarrow>
    calls b b' \<and> head_ok c b' \<and> \<not> tokens_done b'"
  using call_keeps [OF writes_on_data(1)] call_keeps [OF writes_on_data(3)]
    calls_addOutput_datum_inline_chunk calls_addOutput_referenceScript_dataChunk by metis+

lemma script_call:
  assumes "txHashBuilder_addOutput_referenceScript n b = Inr b'" "n < 2 ^ 64"
    and "output_ok c b" "ocState c = STATE_OUTPUT_REFERENCE_SCRIPT"
  shows "calls b b' \<and> head_ok c b' \<and> \<not> tokens_done b'"
proof -
  have "ready_for_script b"
    using assms(3,4) by (cases "ocFormat c") (auto simp: output_ok_def head_ok_def ready_for_script_def legacy_script_def)
  moreover have "head_ok c b"
    using assms(3,4) by (simp add: output_ok_def)
  ultimately show ?thesis
    using calls_addOutput_referenceScript [OF assms(1)] assms(2) writes_onD [OF writes_on_data(2) assms(1)]
      head_ok_keeps [of c b b'] by simp
qed

lemma datum_hash_steps:
  assumes "handleDatumHash expert approve view f = Inr f'" "output_ok (dlgContext f) (dlgBuilder f)"
    and "ocState (dlgContext f) = STATE_OUTPUT_DATUM"
  shows "steps_to p f f'"
proof -
  obtain h b c where b: "txHashBuilder_addOutput_datum DATUM_HASH h 32 (dlgBuilder f) = Inr b" "length h = 32"
    and c: "tx_output_advanceState c = Inr (dlgContext f')" "head_ok c = head_ok (dlgContext f)"
      "dlgBuilder f' = b" "dlgCommon f' = dlgCommon f"
    using assms(1)
    by (auto simp: handleDatumHash_def output_Inr Let_def dest!: select_Inr parseBuffer_length)
  have "head_ok (dlgContext f) (dlgBuilder f)"
    using assms(2,3) by (simp add: output_ok_def)
  then show ?thesis
    using datum_call [OF b(1)] b(2) c by (auto intro!: steps_toI)
qed

lemma datum_inline_steps:
  assumes "handleDatumInline expert approve view f = Inr f'" "output_ok (dlgContext f) (dlgBuilder f)"
    and "ocState (dlgContext f) = STATE_OUTPUT_DATUM"
  shows "steps_to p f f'"
proof -
  obtain n chunk b b' c where b: "txHashBuilder_addOutput_datum DATUM_INLINE [] n (dlgBuilder f) = Inr b"
      "txHashBuilder_addOutput_datum_inline_chunk chunk b = Inr b'"
    and c: "tx_output_advanceState c = Inr (dlgContext f')" "head_ok c = head_ok (dlgContext f)"
      "dlgBuilder f' = b'" "dlgCommon f' = dlgCommon f"
    using assms(1) by (auto simp: handleDatumInline_def output_Inr Let_def dest!: select_Inr)
  have "head_ok (dlgContext f) (dlgBuilder f)"
    using assms(2,3) by (simp add: output_ok_def)
  then show ?thesis
    using datum_call [OF b(1)] data_calls(1) [OF b(2)] c by (auto intro!: steps_toI intro: calls_trans)
qed

lemma datum_chunk_steps:
  assumes "handleDatumChunkAPDU wire f = Inr f'" "output_ok (dlgContext f) (dlgBuilder f)"
  shows "steps_to p f f'"
proof -
  obtain chunk b d stop where b: "txHashBuilder_addOutput_datum_inline_chunk chunk (dlgBuilder f) = Inr b"
    and c: "ocState (dlgContext f) = STATE_OUTPUT_DATUM_INLINE_CHUNKS"
      "(if stop then respond_and_advance (f\<lparr>dlgContext := (dlgContext f)\<lparr>ocData := d\<rparr>, dlgBuilder := b\<rparr>)
        else Inr (f\<lparr>dlgContext := (dlgContext f)\<lparr>ocData := d\<rparr>, dlgBuilder := b\<rparr>)) = Inr f'"
    using assms(1) by (auto simp: handleDatumChunkAPDU_def res_bind_Inr_iff CHECK_STATE_output_Inr on_builder_def
        set_data_def Let_def split: output_state_data.splits)
  show ?thesis
    by (rule part_end [OF c(2)])
      (use assms(2) c(1) data_calls(1) [OF b, of "dlgContext f"] in \<open>auto simp: output_ok_def\<close>)
qed

lemma first_chunk_size:
  assumes "parse_first_chunk forced view = Inr ((n, chunk), view')"
  shows "n < 2 ^ 64"
proof -
  obtain m :: u32 where "n = unat m"
    using assms by (auto simp: parse_first_chunk_def res_bind_Inr_iff)
  moreover have "unat m < 2 ^ 32"
    using unsigned_less [of m] by simp
  ultimately show ?thesis by simp
qed

lemma script_steps:
  assumes "handleRefScriptAPDU expert approve wire f = Inr f'" "output_ok (dlgContext f) (dlgBuilder f)"
  shows "steps_to p f f'"
proof -
  obtain n chunk v b b' c where n: "parse_first_chunk False (make_read_view wire) = Inr ((n, chunk), v)"
    and b: "txHashBuilder_addOutput_referenceScript n (dlgBuilder f) = Inr b"
      "txHashBuilder_addOutput_referenceScript_dataChunk chunk b = Inr b'"
    and c: "tx_output_advanceState c = Inr (dlgContext f')" "head_ok c = head_ok (dlgContext f)"
      "dlgBuilder f' = b'" "dlgCommon f' = dlgCommon f" "ocState c = STATE_OUTPUT_REFERENCE_SCRIPT"
      "ocState (dlgContext f) = STATE_OUTPUT_REFERENCE_SCRIPT"
    using assms(1)
    by (auto simp: handleRefScriptAPDU_def output_Inr Let_def dest!: select_Inr)
  show ?thesis
    using script_call [OF b(1) first_chunk_size [OF n] assms(2) c(6)] data_calls(2) [OF b(2)] c
    by (auto intro!: steps_toI intro: calls_trans)
qed

lemma script_chunk_steps:
  assumes "handleRefScriptChunkAPDU wire f = Inr f'" "output_ok (dlgContext f) (dlgBuilder f)"
  shows "steps_to p f f'"
proof -
  obtain chunk b d stop where b: "txHashBuilder_addOutput_referenceScript_dataChunk chunk (dlgBuilder f) = Inr b"
    and c: "ocState (dlgContext f) = STATE_OUTPUT_REFERENCE_SCRIPT_CHUNKS"
      "(if stop then respond_and_advance (f\<lparr>dlgContext := (dlgContext f)\<lparr>ocData := d\<rparr>, dlgBuilder := b\<rparr>)
        else Inr (f\<lparr>dlgContext := (dlgContext f)\<lparr>ocData := d\<rparr>, dlgBuilder := b\<rparr>)) = Inr f'"
    using assms(1) by (auto simp: handleRefScriptChunkAPDU_def res_bind_Inr_iff CHECK_STATE_output_Inr on_builder_def
        set_data_def Let_def split: output_state_data.splits)
  show ?thesis
    by (rule part_end [OF c(2)])
      (use assms(2) c(1) data_calls(2) [OF b, of "dlgContext f"] in \<open>auto simp: output_ok_def\<close>)
qed

lemma confirm_steps:
  assumes "handleConfirmAPDU_output expert approve n f = Inr f' \<or> handleConfirmAPDU_collateralOutput approve n f = Inr f'"
    and "output_ok (dlgContext f) (dlgBuilder f)"
  shows "steps_to p f f'"
proof -
  have "tx_output_advanceState (dlgContext f) = Inr (dlgContext f')" "dlgBuilder f' = dlgBuilder f"
    "dlgCommon f' = dlgCommon f" "ocState (dlgContext f) = STATE_OUTPUT_CONFIRM"
    using assms(1) by (auto simp: handleConfirmAPDU_output_def handleConfirmAPDU_collateralOutput_def
        output_Inr Let_def dest!: select_Inr)
  then show ?thesis
    using assms(2) by (auto intro!: steps_toI simp: output_ok_def)
qed

subsection \<open>The head of an output\<close>

lemma head_call:
  assumes "txHashBuilder_addOutput_topLevelData (out :: output_t) b = Inr b' \<or> txHashBuilder_addCollateralOutput out b = Inr b'"
    and "outFormat out = ocFormat c" "outIncludeDatum out = ocIncludeDatum c"
  shows "calls b b' \<and> head_ok c b'"
proof -
  have "output_head b' \<in> {TX_HASH_BUILDER_IN_OUTPUTS, TX_HASH_BUILDER_IN_COLLATERAL_OUTPUT}
      \<times> {(Some (ocFormat c), Some (ocIncludeDatum c))}"
    using assms head_topLevelData head_collateralOutput by fastforce
  moreover have "calls b b'"
    using assms(1) calls_addOutput_topLevelData calls_addCollateralOutput by blast
  ultimately show ?thesis
    by (auto simp: head_ok_def in_output_def output_head_def)
qed

lemma parse_top_level:
  assumes "parseTopLevelData wire f = Inr g"
  shows "dlgBuilder g = dlgBuilder f \<and> dlgCommon g = dlgCommon f \<and> ocState (dlgContext g) = STATE_OUTPUT_TOP_LEVEL_DATA"
  using assms by (auto simp: parseTopLevelData_def res_bind_Inr_iff CHECK_STATE_output_Inr split: prod.splits)

text \<open>What the four handlers of a head have in common when they succeed.\<close>

definition head_steps :: "output_dialogue \<Rightarrow> output_dialogue \<Rightarrow> bool" where
  "head_steps g f' \<longleftrightarrow> (\<exists>out :: output_t. \<exists>c.
     (txHashBuilder_addOutput_topLevelData out (dlgBuilder g) = Inr (dlgBuilder f') \<or>
      txHashBuilder_addCollateralOutput out (dlgBuilder g) = Inr (dlgBuilder f')) \<and>
     outFormat out = ocFormat c \<and> outIncludeDatum out = ocIncludeDatum c \<and>
     ocState c = ocState (dlgContext g) \<and> tx_output_advanceState c = Inr (dlgContext f') \<and>
     txTagCborSets (dlgCommon f') = txTagCborSets (dlgCommon g))"

lemma head_stepsD:
  assumes "head_steps g f'" "ocState (dlgContext g) = STATE_OUTPUT_TOP_LEVEL_DATA"
    and "dlgBuilder g = dlgBuilder f" "dlgCommon g = dlgCommon f"
  shows "steps_to p f f'"
proof -
  obtain out :: output_t and c where
    "txHashBuilder_addOutput_topLevelData out (dlgBuilder g) = Inr (dlgBuilder f') \<or>
     txHashBuilder_addCollateralOutput out (dlgBuilder g) = Inr (dlgBuilder f')"
    "outFormat out = ocFormat c" "outIncludeDatum out = ocIncludeDatum c"
    and c: "ocState c = ocState (dlgContext g)" "tx_output_advanceState c = Inr (dlgContext f')"
      "txTagCborSets (dlgCommon f') = txTagCborSets (dlgCommon g)"
    using assms(1) unfolding head_steps_def by blast
  then have "calls (dlgBuilder g) (dlgBuilder f') \<and> head_ok c (dlgBuilder f')"
    using head_call by blast
  then show ?thesis
    using assms(2-4) c by (auto intro!: steps_toI [OF c(2)])
qed

lemma head_stepsI:
  assumes "txHashBuilder_addOutput_topLevelData (out :: output_t) (dlgBuilder g) = Inr b \<or>
      txHashBuilder_addCollateralOutput out (dlgBuilder g) = Inr b"
    and "respond_and_advance h = Inr f'" "dlgBuilder h = b"
    and "outFormat out = ocFormat (dlgContext h)" "outIncludeDatum out = ocIncludeDatum (dlgContext h)"
    and "ocState (dlgContext h) = ocState (dlgContext g)" "txTagCborSets (dlgCommon h) = txTagCborSets (dlgCommon g)"
  shows "head_steps g f'"
  unfolding head_steps_def
  by (rule exI [of _ out], rule exI [of _ "dlgContext h"])
    (use assms in \<open>auto simp: respond_and_advance_def on_context_def res_bind_Inr_iff\<close>)

lemma address_bytes_steps:
  "handleOutput_addressBytes fw approve address adaAmount g = Inr f' \<Longrightarrow> head_steps g f'"
  by (auto simp: handleOutput_addressBytes_def Let_def res_bind_Inr_iff on_builder_def set_policies_def
      output_description_def intro: head_stepsI dest!: select_Inr)

lemma address_params_steps:
  "handleOutput_addressParams fw expert approve params adaAmount g = Inr f' \<Longrightarrow> head_steps g f'"
  by (auto simp: handleOutput_addressParams_def Let_def res_bind_Inr_iff on_builder_def set_policies_def
      output_description_def set_account_def set_data_def intro: head_stepsI dest!: select_Inr)

lemma collateral_bytes_steps:
  "handleCollateralOutput_addressBytes fw expert approve address adaAmount g = Inr f' \<Longrightarrow> head_steps g f'"
  by (auto simp: handleCollateralOutput_addressBytes_def Let_def res_bind_Inr_iff on_builder_def set_policies_def
      output_description_def set_data_def intro: head_stepsI dest!: select_Inr)

lemma collateral_params_steps:
  "handleCollateralOutput_addressParams fw expert approve params adaAmount g = Inr f' \<Longrightarrow> head_steps g f'"
  by (auto simp: handleCollateralOutput_addressParams_def Let_def res_bind_Inr_iff on_builder_def set_policies_def
      output_description_def set_account_def set_data_def intro: head_stepsI dest!: select_Inr)

lemma top_level_steps:
  assumes "handleTopLevelDataAPDU_output fw expert approve wire f = Inr f' \<or>
      handleTopLevelDataAPDU_collateralOutput fw expert approve wire f = Inr f'"
  shows "steps_to p f f'"
proof -
  from assms obtain g where g: "parseTopLevelData wire f = Inr g"
    and h: "(case ocData (dlgContext g) of
       OUTPUT_DATA_DESTINATION (DESTINATION_THIRD_PARTY address) adaAmount _ \<Rightarrow>
         handleOutput_addressBytes fw approve address adaAmount g
     | OUTPUT_DATA_DESTINATION (DESTINATION_DEVICE_OWNED params) adaAmount _ \<Rightarrow>
         handleOutput_addressParams fw expert approve params adaAmount g
     | _ \<Rightarrow> Inl ERR_ASSERT) = Inr f' \<or>
     (case ocData (dlgContext g) of
       OUTPUT_DATA_DESTINATION (DESTINATION_THIRD_PARTY address) adaAmount _ \<Rightarrow>
         handleCollateralOutput_addressBytes fw expert approve address adaAmount g
     | OUTPUT_DATA_DESTINATION (DESTINATION_DEVICE_OWNED params) adaAmount _ \<Rightarrow>
         handleCollateralOutput_addressParams fw expert approve params adaAmount g
     | _ \<Rightarrow> Inl ERR_ASSERT) = Inr f'"
    unfolding handleTopLevelDataAPDU_output_def handleTopLevelDataAPDU_collateralOutput_def
      res_bind_Inr_iff CHECK_STATE_output_Inr by blast
  have "head_steps g f'"
    using h address_bytes_steps address_params_steps collateral_bytes_steps collateral_params_steps
    by (cases "ocData (dlgContext g)") (auto split: tx_output_destination_t.splits)
  with g have "parseTopLevelData wire f = Inr g \<and> head_steps g f'" by simp
  then show ?thesis
    using parse_top_level head_stepsD by blast
qed

subsection \<open>Messages\<close>

lemma output_datum_steps:
  "handleDatumAPDU expert approve wire f = Inr f' \<Longrightarrow> output_ok (dlgContext f) (dlgBuilder f) \<Longrightarrow> steps_to p f f'"
  by (auto simp: handleDatumAPDU_def res_bind_Inr_iff CHECK_STATE_output_Inr split: if_splits
      dest: datum_hash_steps datum_inline_steps)

lemma output_step:
  assumes "signTxOutput_handleAPDU fw expert approve p2 data f = Inr f' \<or>
      signTxCollateralOutput_handleAPDU fw expert approve p2 data f = Inr f'"
    and "output_ok (dlgContext f) (dlgBuilder f)"
  shows "steps_to p f f'"
  using assms(1)
  by (auto simp: signTxOutput_handleAPDU_def signTxCollateralOutput_handleAPDU_def res_bind_Inr_iff Let_def
      split: if_splits
      intro: top_level_steps [OF disjI1] top_level_steps [OF disjI2] group_steps [OF _ assms(2)]
        token_steps [OF _ assms(2)] output_datum_steps [OF _ assms(2)] datum_chunk_steps [OF _ assms(2)]
        script_steps [OF _ assms(2)] script_chunk_steps [OF _ assms(2)]
        confirm_steps [OF disjI1 assms(2)] confirm_steps [OF disjI2 assms(2)])

end
