(* ===== verification/SignTxInvariant.thy ===== *)
theory SignTxInvariant
  imports SignTxOutputFeeds
begin

text \<open>
  The invariant of a signing session. Between two messages the transaction hash builder is where a
  sequence of calls that follows its protocol leads from the parameters of the transaction
  (\<open>built\<close>); the context of the dialogue in progress says which calls it is ready for; and once the
  witnesses are signed, the hash that is signed is that of a complete body which the user confirmed.
\<close>

subsection \<open>The invariant\<close>

definition mint_stage :: "sign_tx_stage_t \<Rightarrow> bool" where
  "mint_stage s \<longleftrightarrow> s \<in> {SIGN_STAGE_BODY_MINT, SIGN_STAGE_BODY_MINT_SUBMACHINE}"

definition output_stage :: "sign_tx_stage_t \<Rightarrow> bool" where
  "output_stage s \<longleftrightarrow>
     s \<in> {SIGN_STAGE_BODY_OUTPUTS_SUBMACHINE, SIGN_STAGE_BODY_COLLATERAL_OUTPUT_SUBMACHINE}"

definition plain_stage :: "sign_tx_stage_t \<Rightarrow> bool" where
  "plain_stage s \<longleftrightarrow> body_stage s \<and> \<not> mint_stage s \<and> \<not> output_stage s"

definition body_built :: "sign_tx_context \<Rightarrow> body_context_t \<Rightarrow> bool" where
  "body_built c b \<longleftrightarrow> built (init_params c) (bcBuilder b)"

definition body_inv :: "sign_tx_context \<Rightarrow> body_context_t \<Rightarrow> bool" where
  "body_inv c b \<longleftrightarrow> body_stage (tcStage c) \<and>
     (case bcStageContext b of
        MINT_SUBCTX x \<Rightarrow> if mint_stage (tcStage c) then mint_built (init_params c) x (bcBuilder b)
          else body_built c b
      | OUTPUT_SUBCTX x \<Rightarrow> body_built c b \<and> (output_stage (tcStage c) \<longrightarrow> output_ok x (bcBuilder b))
      | _ \<Rightarrow> body_built c b)"

definition confirm_screen :: screen where
  "confirm_screen = SCREEN ''Confirm'' (QUESTION ''transaction?'')"

definition confirmed :: "firmware \<Rightarrow> sign_tx_context \<Rightarrow> bool" where
  "confirmed fw c \<longleftrightarrow> confirm_screen \<in> set (tcShown c) \<and>
     (\<exists>b. built (init_params c) b \<and> complete_item (tx_out b) \<and>
       blake2b_256 fw (tx_out b) = Some (tcTxHash c))"

definition session_inv :: "firmware \<Rightarrow> sign_tx_context \<Rightarrow> bool" where
  "session_inv fw c \<longleftrightarrow> (case tcPart c of
       PART_ZERO \<Rightarrow> tcStage c = SIGN_STAGE_INIT
     | PART_AUX_DATA _ \<Rightarrow> aux_data_stage (tcStage c)
     | PART_BODY b \<Rightarrow> body_inv c b
     | PART_WITNESSES _ \<Rightarrow> tcStage c \<in> {SIGN_STAGE_WITNESSES, SIGN_STAGE_NONE} \<and> confirmed fw c)"

text \<open>The body of the transaction is under construction, and no dialogue is half way through a call.\<close>

definition in_body :: "sign_tx_context \<Rightarrow> bool" where
  "in_body c \<longleftrightarrow> (case tcPart c of PART_BODY b \<Rightarrow> body_built c b | _ \<Rightarrow> False)"

lemma init_params_update [simp]:
  "init_params (c\<lparr>tcStage := s\<rparr>) = init_params c"
  "init_params (c\<lparr>tcPart := x\<rparr>) = init_params c"
  "init_params (c\<lparr>tcShown := scr\<rparr>) = init_params c"
  "init_params (c\<lparr>tcAnswer := a\<rparr>) = init_params c"
  "init_params (c\<lparr>tcTxHash := h\<rparr>) = init_params c"
  "init_params (c\<lparr>tcCommon := (tcCommon c)\<lparr>singleAccountData := acct\<rparr>\<rparr>) = init_params c"
  by (simp_all add: init_params_def)

lemma body_built_update [simp]:
  "body_built (c\<lparr>tcStage := s\<rparr>) = body_built c"
  "body_built (c\<lparr>tcPart := x\<rparr>) = body_built c"
  "body_built (c\<lparr>tcShown := scr\<rparr>) = body_built c"
  "body_built (c\<lparr>tcAnswer := a\<rparr>) = body_built c"
  "body_built (c\<lparr>tcCommon := (tcCommon c)\<lparr>singleAccountData := acct\<rparr>\<rparr>) = body_built c"
  by (simp_all add: fun_eq_iff body_built_def)

lemma in_body_update [simp]:
  "in_body (c\<lparr>tcStage := s\<rparr>) = in_body c"
  "in_body (c\<lparr>tcShown := scr\<rparr>) = in_body c"
  "in_body (c\<lparr>tcAnswer := a\<rparr>) = in_body c"
  "in_body (c\<lparr>tcPart := PART_BODY b\<rparr>) = body_built c b"
  "in_body (c\<lparr>tcCommon := (tcCommon c)\<lparr>singleAccountData := acct\<rparr>\<rparr>) = in_body c"
  by (simp_all add: in_body_def split: tx_part_ctx.splits)

lemma stage_simps [simp]:
  "plain_stage SIGN_STAGE_BODY_INPUTS" "plain_stage SIGN_STAGE_BODY_OUTPUTS"
  "plain_stage SIGN_STAGE_BODY_FEE" "plain_stage SIGN_STAGE_BODY_TTL"
  "plain_stage SIGN_STAGE_BODY_CERTIFICATES" "plain_stage SIGN_STAGE_BODY_CERTIFICATES_POOL_SUBMACHINE"
  "plain_stage SIGN_STAGE_BODY_WITHDRAWALS" "plain_stage SIGN_STAGE_BODY_VALIDITY_INTERVAL"
  "plain_stage SIGN_STAGE_BODY_SCRIPT_DATA_HASH" "plain_stage SIGN_STAGE_BODY_COLLATERAL_INPUTS"
  "plain_stage SIGN_STAGE_BODY_REQUIRED_SIGNERS" "plain_stage SIGN_STAGE_BODY_COLLATERAL_OUTPUT"
  "plain_stage SIGN_STAGE_BODY_TOTAL_COLLATERAL" "plain_stage SIGN_STAGE_BODY_REFERENCE_INPUTS"
  "plain_stage SIGN_STAGE_BODY_VOTING_PROCEDURES" "plain_stage SIGN_STAGE_BODY_TREASURY"
  "plain_stage SIGN_STAGE_BODY_DONATION" "plain_stage SIGN_STAGE_CONFIRM"
  by (simp_all add: plain_stage_def body_stage_def mint_stage_def output_stage_def)

lemma plain_inv: "in_body c \<Longrightarrow> plain_stage (tcStage c) \<Longrightarrow> session_inv fw c"
  by (auto simp: in_body_def session_inv_def body_inv_def plain_stage_def
      split: tx_part_ctx.splits body_stage_context.splits)

lemma inv_plain: "session_inv fw c \<Longrightarrow> plain_stage (tcStage c) \<Longrightarrow> in_body c"
  by (auto simp: in_body_def session_inv_def body_inv_def plain_stage_def body_stage_def aux_data_stage_def
      split: tx_part_ctx.splits body_stage_context.splits)

subsection \<open>Statements\<close>

text \<open>
  \<open>sat m Q\<close>: if \<open>m\<close> is a result, \<open>Q\<close> holds of it. The rules follow the forms of \<open>signTx.c\<close>.
\<close>

definition sat :: "'s res \<Rightarrow> ('s \<Rightarrow> bool) \<Rightarrow> bool" where
  "sat m Q \<longleftrightarrow> (\<forall>s. m = Inr s \<longrightarrow> Q s)"

lemma satD: "sat m Q \<Longrightarrow> m = Inr s \<Longrightarrow> Q s"
  by (simp add: sat_def)

lemma sat_Inl: "sat (Inl e) Q"
  by (simp add: sat_def)

lemma sat_Inr: "Q s \<Longrightarrow> sat (Inr s) Q"
  by (simp add: sat_def)

lemma sat_bind: "(\<And>x. m = Inr x \<Longrightarrow> sat (k x) Q) \<Longrightarrow> sat (res_bind m k) Q"
  by (auto simp: sat_def res_bind_Inr_iff)

lemma sat_parse: "(\<And>x y. m = Inr (x, y) \<Longrightarrow> sat (k x y) Q) \<Longrightarrow> sat (res_bind m (\<lambda>(x, y). k x y)) Q"
  by (auto simp: sat_def res_bind_Inr_iff)

lemma sat_then: "sat m R \<Longrightarrow> (\<And>x. R x \<Longrightarrow> sat (k x) Q) \<Longrightarrow> sat (res_bind m k) Q"
  by (auto simp: sat_def res_bind_Inr_iff)

lemma sat_seq_Nil: "Q s \<Longrightarrow> sat (seq [] s) Q"
  by (simp add: sat_def)

lemma sat_seq_last: "sat (f s) Q \<Longrightarrow> sat (seq [f] s) Q"
  by (auto simp: sat_def res_bind_Inr_iff)

lemma sat_seq_Cons: "sat (f s) (\<lambda>t. sat (seq fs t) Q) \<Longrightarrow> sat (seq (f # fs) s) Q"
  by (auto simp: sat_def res_bind_Inr_iff)

lemma sat_if: "(c \<Longrightarrow> sat m Q) \<Longrightarrow> (\<not> c \<Longrightarrow> sat n Q) \<Longrightarrow> sat (if c then m else n) Q"
  by simp

lemma sat_Let: "sat (k x) Q \<Longrightarrow> sat (Let x k) Q"
  by simp

lemma sat_do_if: "(c \<Longrightarrow> sat (f s) Q) \<Longrightarrow> (\<not> c \<Longrightarrow> Q s) \<Longrightarrow> sat (do_if c f s) Q"
  by (simp add: do_if_def sat_def)

lemma sat_modify: "Q (u s) \<Longrightarrow> sat (modify u s) Q"
  by (simp add: sat_def)

lemma sat_goto: "Q (c\<lparr>tcStage := s\<rparr>) \<Longrightarrow> sat (goto_stage s c) Q"
  by (simp add: goto_stage_def sat_def)

lemma sat_asserts:
  "Q c \<Longrightarrow> sat (assert_body p c) Q"
  "Q c \<Longrightarrow> sat (assert_count a n c) Q"
  "Q c \<Longrightarrow> sat (assert_received i r c) Q"
  by (auto simp: sat_def assert_body_def assert_count_def assert_received_def res_bind_Inr_iff split: if_splits)

lemma sat_check: "(tcStage c = s \<Longrightarrow> sat (k c) Q) \<Longrightarrow> sat (res_bind (CHECK_STAGE s c) k) Q"
  by (auto simp: sat_def CHECK_STAGE_def)

lemma sat_wait_or: "(i c \<Longrightarrow> Q c) \<Longrightarrow> (\<not> i c \<Longrightarrow> sat (next c) Q) \<Longrightarrow> sat (wait_or i next c) Q"
  by (simp add: wait_or_def sat_def)

lemma sat_enter_or:
  "(0 < n c \<Longrightarrow> sat (on_tx_builder e c) Q) \<Longrightarrow> (\<not> 0 < n c \<Longrightarrow> sat (next c) Q) \<Longrightarrow> sat (enter_or n e next c) Q"
  by (simp add: enter_or_def)

lemma on_tx_builder_Inr:
  "on_tx_builder s c = Inr c' \<longleftrightarrow> body_stage (tcStage c) \<and> (\<exists>b x. tcPart c = PART_BODY b \<and>
     s (bcBuilder b) = Inr x \<and> c' = c\<lparr>tcPart := PART_BODY (b\<lparr>bcBuilder := x\<rparr>)\<rparr>)"
  by (auto simp: on_tx_builder_def on_body_def accessBodyContext_def res_bind_Inr_iff split: tx_part_ctx.splits)

lemma set_body_Inr:
  "set_body u c = Inr c' \<longleftrightarrow> body_stage (tcStage c) \<and>
     (\<exists>b. tcPart c = PART_BODY b \<and> c' = c\<lparr>tcPart := PART_BODY (u b)\<rparr>)"
  by (auto simp: set_body_def on_body_def accessBodyContext_def modify_def res_bind_Inr_iff split: tx_part_ctx.splits)

lemma sat_call:
  assumes "in_body c" "\<And>b b'. built (init_params c) b \<Longrightarrow> s b = Inr b' \<Longrightarrow> calls b b'"
    and "\<And>b. body_built c b \<Longrightarrow> Q (c\<lparr>tcPart := PART_BODY b\<rparr>)"
  shows "sat (on_tx_builder s c) Q"
proof -
  have "Q c'" if r: "on_tx_builder s c = Inr c'" for c'
  proof -
    obtain b x where b: "tcPart c = PART_BODY b" "s (bcBuilder b) = Inr x"
      "c' = c\<lparr>tcPart := PART_BODY (b\<lparr>bcBuilder := x\<rparr>)\<rparr>"
      using r by (auto simp: on_tx_builder_Inr)
    have "built (init_params c) (bcBuilder b)"
      using assms(1) b(1) by (simp add: in_body_def body_built_def)
    then have "body_built c (b\<lparr>bcBuilder := x\<rparr>)"
      using assms(2) b(2) built_calls by (simp add: body_built_def)
    then show ?thesis
      using assms(3) b(3) by simp
  qed
  then show ?thesis by (simp add: sat_def)
qed

lemma sat_set_body:
  assumes "in_body c" "\<And>b. bcBuilder (u b) = bcBuilder b"
    and "\<And>b. body_built c b \<Longrightarrow> Q (c\<lparr>tcPart := PART_BODY b\<rparr>)"
  shows "sat (set_body u c) Q"
  using assms by (auto simp: sat_def set_body_Inr in_body_def body_built_def)

lemma sat_select:
  assumes "\<And>scr. sat (respond (c\<lparr>tcShown := scr\<rparr>)) Q"
  shows "sat (tx_select approve ps p screens respond c) Q"
  using assms [of "tcShown c @ screens"] assms [of "tcShown c"]
  by (simp add: sat_def tx_select_def select_screens_def run_screens_def record_tx_shown_def)

lemma sat_runSteps:
  assumes "\<And>scr. sat (respond (c\<lparr>tcShown := scr\<rparr>)) Q"
  shows "sat (tx_runSteps approve screens respond c) Q"
  using assms by (simp add: sat_def tx_runSteps_def run_screens_def record_tx_shown_def)

lemmas sat_rules = sat_seq_last sat_seq_Cons sat_seq_Nil sat_asserts sat_goto sat_wait_or sat_enter_or sat_call sat_set_body

subsection \<open>From one part to the next\<close>

lemma adv_donation: "in_body c \<Longrightarrow> sat (advance_from_donation c) (session_inv fw)"
  unfolding advance_from_donation_def
  by (rule sat_rules plain_inv | simp; fail)+

lemma adv_treasury: "in_body c \<Longrightarrow> sat (advance_from_treasury c) (session_inv fw)"
  unfolding advance_from_treasury_def
  by (rule sat_rules plain_inv adv_donation | simp; fail)+

lemma adv_voting_procedures: "in_body c \<Longrightarrow> sat (advance_from_voting_procedures c) (session_inv fw)"
  unfolding advance_from_voting_procedures_def
  by (rule sat_rules plain_inv adv_treasury | simp; fail)+

lemma adv_reference_inputs: "in_body c \<Longrightarrow> sat (advance_from_reference_inputs c) (session_inv fw)"
  unfolding advance_from_reference_inputs_def
  by (rule sat_rules plain_inv adv_voting_procedures | erule calls_numbers | simp; fail)+

lemma adv_total_collateral: "in_body c \<Longrightarrow> sat (advance_from_total_collateral c) (session_inv fw)"
  unfolding advance_from_total_collateral_def
  by (rule sat_rules plain_inv adv_reference_inputs | erule calls_numbers | simp; fail)+

lemma adv_collateral_output: "in_body c \<Longrightarrow> sat (advance_from_collateral_output c) (session_inv fw)"
  unfolding advance_from_collateral_output_def
  by (rule sat_rules plain_inv adv_total_collateral | simp; fail)+

lemma adv_required_signers: "in_body c \<Longrightarrow> sat (advance_from_required_signers c) (session_inv fw)"
  unfolding advance_from_required_signers_def
  by (rule sat_rules plain_inv sat_do_if adv_collateral_output | erule calls_numbers | simp; fail)+

lemma adv_collateral_inputs: "in_body c \<Longrightarrow> sat (advance_from_collateral_inputs c) (session_inv fw)"
  unfolding advance_from_collateral_inputs_def
  by (rule sat_rules plain_inv adv_required_signers | erule calls_numbers | simp; fail)+

lemma adv_script_data_hash: "in_body c \<Longrightarrow> sat (advance_from_script_data_hash c) (session_inv fw)"
  unfolding advance_from_script_data_hash_def
  by (rule sat_rules plain_inv adv_collateral_inputs | erule calls_numbers | simp; fail)+

lemma adv_mint: "in_body c \<Longrightarrow> sat (advance_from_mint c) (session_inv fw)"
  unfolding advance_from_mint_def
  by (rule sat_rules plain_inv adv_script_data_hash | simp; fail)+

text \<open>The mint is entered with the first half of a call.\<close>

lemma enter_mint:
  assumes "in_body c" "tcStage c = SIGN_STAGE_BODY_MINT"
  shows "sat (seq [on_tx_builder txHashBuilder_enterMint,
    set_body (\<lambda>b. b\<lparr>bcStageContext := MINT_SUBCTX signTxMint_init\<rparr>)] c) (session_inv fw)"
  using assms
  by (auto simp: sat_def res_bind_Inr_iff on_tx_builder_Inr set_body_Inr in_body_def body_built_def
      session_inv_def body_inv_def mint_stage_def mint_built_def signTxMint_init_def) blast

lemma adv_validity_interval: "in_body c \<Longrightarrow> sat (advance_from_validity_interval c) (session_inv fw)"
  unfolding advance_from_validity_interval_def
  by (rule sat_rules plain_inv sat_if enter_mint adv_mint | simp; fail)+

lemma adv_withdrawals: "in_body c \<Longrightarrow> sat (advance_from_withdrawals c) (session_inv fw)"
  unfolding advance_from_withdrawals_def
  by (rule sat_rules plain_inv sat_do_if adv_validity_interval | erule calls_addAuxData | simp; fail)+

lemma adv_certificates: "in_body c \<Longrightarrow> sat (advance_from_certificates c) (session_inv fw)"
  unfolding advance_from_certificates_def
  by (rule sat_rules plain_inv adv_withdrawals | erule calls_numbers | simp; fail)+

lemma adv_ttl: "in_body c \<Longrightarrow> sat (advance_from_ttl c) (session_inv fw)"
  unfolding advance_from_ttl_def
  by (rule sat_rules plain_inv adv_certificates | erule calls_numbers | simp; fail)+

lemma adv_fee: "in_body c \<Longrightarrow> sat (advance_from_fee c) (session_inv fw)"
  unfolding advance_from_fee_def
  by (rule sat_rules plain_inv adv_ttl | simp; fail)+

lemma adv_outputs: "in_body c \<Longrightarrow> sat (advance_from_outputs c) (session_inv fw)"
  unfolding advance_from_outputs_def
  by (rule sat_rules plain_inv adv_fee | simp; fail)+

lemma adv_inputs: "in_body c \<Longrightarrow> sat (advance_from_inputs c) (session_inv fw)"
  unfolding advance_from_inputs_def
  by (rule sat_rules plain_inv adv_outputs | erule calls_numbers | simp; fail)+

text \<open>The body begins with the initialisation of the builder.\<close>

lemma begin_body:
  assumes "initTxBodyCtx c = Inr d" "on_tx_builder (txHashBuilder_init (init_params d)) d = Inr e"
  shows "in_body e \<and> tcStage e = tcStage c"
proof -
  obtain b where "tcPart d = PART_BODY b" "bcBuilder b = zeroed_builder" "tcStage d = tcStage c"
    using assms(1) by (auto simp: initTxBodyCtx_def res_bind_Inr_iff)
  then show ?thesis
    using assms(2) by (auto simp: on_tx_builder_Inr in_body_def body_built_def intro: built_init)
qed

lemma sat_begin:
  assumes "\<And>e. in_body e \<Longrightarrow> tcStage e = tcStage c \<Longrightarrow> sat (seq fs e) Q"
  shows "sat (initTxBodyCtx c)
    (\<lambda>t. sat (seq ((\<lambda>c. on_tx_builder (txHashBuilder_init (init_params c)) c) # fs) t) Q)"
  using assms begin_body unfolding sat_def seq.simps res_bind_Inr_iff by blast

lemma adv_aux_data: "sat (advance_from_aux_data c) (session_inv fw)"
  unfolding advance_from_aux_data_def
  by (rule sat_begin sat_rules sat_if sat_bind sat_Inr plain_inv | erule calls_numbers | simp; fail)+

lemma adv_init: "sat (advance_from_init c) (session_inv fw)"
  unfolding advance_from_init_def initTxAuxDataCtx_def
  by (rule sat_seq_last sat_seq_Cons sat_goto sat_bind sat_Inr sat_wait_or adv_aux_data
      | simp add: session_inv_def aux_data_stage_def; fail)+

text \<open>\<open>tx_advanceStage\<close> from every stage but the last two.\<close>

lemma advance_inv:
  assumes "in_body c \<or> tcStage c \<in> {SIGN_STAGE_INIT, SIGN_STAGE_AUX_DATA}"
    and "tcStage c \<notin> {SIGN_STAGE_CONFIRM, SIGN_STAGE_WITNESSES}"
  shows "sat (tx_advanceStage c) (session_inv fw)"
  using assms by (cases "tcStage c")
    (auto simp: tx_advanceStage_def intro: adv_init adv_aux_data adv_inputs adv_outputs adv_fee adv_ttl adv_certificates
      adv_withdrawals adv_validity_interval adv_mint adv_script_data_hash adv_collateral_inputs
      adv_required_signers adv_collateral_output adv_total_collateral adv_reference_inputs
      adv_voting_procedures adv_treasury adv_donation sat_Inl)

lemma sat_advance:
  "in_body c \<Longrightarrow> tcStage c = s \<Longrightarrow> s \<notin> {SIGN_STAGE_CONFIRM, SIGN_STAGE_WITNESSES} \<Longrightarrow>
   sat (tx_advanceStage c) (session_inv fw)"
  using advance_inv by simp

lemma sat_access: "(\<And>b. sat (k b) Q) \<Longrightarrow> sat (res_bind (accessBodyContext c) k) Q"
  by (rule sat_bind)

lemma sat_count:
  assumes "in_body c" "plain_stage (tcStage c)" "tcStage c \<noteq> SIGN_STAGE_CONFIRM"
    and "\<And>u b. bcBuilder (update u b) = bcBuilder b"
  shows "sat (count_and_advance current update tot c) (session_inv fw)"
proof -
  have "tcStage c \<notin> {SIGN_STAGE_CONFIRM, SIGN_STAGE_WITNESSES}"
    using assms(2,3) by (auto simp: plain_stage_def body_stage_def)
  then show ?thesis
    unfolding count_and_advance_def using assms
    by - (rule sat_seq_last sat_seq_Cons sat_asserts sat_set_body sat_access sat_do_if plain_inv advance_inv | simp; fail)+
qed

lemma sat_certificates:
  assumes "in_body c" "plain_stage (tcStage c)"
  shows "sat (tx_advanceCertificatesStateIfAppropriate c) (session_inv fw)"
  unfolding tx_advanceCertificatesStateIfAppropriate_def using assms
  by - (rule sat_if sat_count sat_bind sat_Inr plain_inv | simp; fail)+

subsection \<open>Finished dialogues\<close>

lemma inv_in_body:
  "session_inv fw c \<Longrightarrow> body_stage (tcStage c) \<Longrightarrow> \<not> mint_stage (tcStage c) \<Longrightarrow> in_body c"
  by (auto simp: in_body_def session_inv_def body_inv_def body_stage_def aux_data_stage_def
      split: tx_part_ctx.splits body_stage_context.splits)

lemma stages_in_body [simp]:
  "body_stage SIGN_STAGE_BODY_OUTPUTS_SUBMACHINE" "\<not> mint_stage SIGN_STAGE_BODY_OUTPUTS_SUBMACHINE"
  "body_stage SIGN_STAGE_BODY_COLLATERAL_OUTPUT_SUBMACHINE"
  "\<not> mint_stage SIGN_STAGE_BODY_COLLATERAL_OUTPUT_SUBMACHINE"
  "body_stage SIGN_STAGE_BODY_MINT_SUBMACHINE" "mint_stage SIGN_STAGE_BODY_MINT_SUBMACHINE"
  "body_stage SIGN_STAGE_BODY_MINT" "mint_stage SIGN_STAGE_BODY_MINT"
  by (simp_all add: body_stage_def mint_stage_def)

lemma mint_finished:
  assumes "session_inv fw c" "tcStage c = SIGN_STAGE_BODY_MINT_SUBMACHINE"
    and "subctx_finished mint_subctx signTxMint_isFinished c = Inr True"
  shows "in_body c"
proof -
  obtain b x where "tcPart c = PART_BODY b" "bcStageContext b = MINT_SUBCTX x" "mcState x = STATE_MINT_FINISHED"
    using assms(3) by (auto simp: subctx_finished_def accessBodyContext_def res_bind_Inr_iff
        signTxMint_isFinished_def split: if_splits tx_part_ctx.splits option.splits elim!: mint_subctx.elims)
  then show ?thesis
    using assms(1,2) by (simp add: session_inv_def body_inv_def in_body_def body_built_def mint_built_def)
qed

lemmas finished_rules = sat_seq_last sat_seq_Cons sat_asserts sat_goto sat_set_body sat_access sat_do_if
  sat_advance plain_inv sat_certificates

lemma check_outputs:
  assumes "in_body c" "session_inv fw c"
  shows "sat (do_if finished (seq
             [assert_body (\<lambda>c b. bcCurrentOutput b < tcNumOutputs c),
              goto_stage SIGN_STAGE_BODY_OUTPUTS,
              set_body (\<lambda>b. b\<lparr>bcCurrentOutput := bcCurrentOutput b + 1\<rparr>),
              (\<lambda>c. res_bind (accessBodyContext c) (\<lambda>b.
                do_if (bcCurrentOutput b = tcNumOutputs c) tx_advanceStage c))]) c) (session_inv fw)"
  using assms by - (assumption | rule finished_rules | simp; fail)+

lemma check_pool:
  assumes "in_body c" "session_inv fw c"
  shows "sat (do_if finished (seq
             [assert_body (\<lambda>c b. bcCurrentCertificate b < tcNumCertificates c),
              goto_stage SIGN_STAGE_BODY_CERTIFICATES,
              tx_advanceCertificatesStateIfAppropriate]) c) (session_inv fw)"
  using assms by - (assumption | rule finished_rules | simp; fail)+

lemma check_received:
  assumes "in_body c" "s = SIGN_STAGE_BODY_MINT \<or> s = SIGN_STAGE_BODY_COLLATERAL_OUTPUT"
    and "\<And>b. bcBuilder (u b) = bcBuilder b"
  shows "sat (seq [goto_stage s, set_body u, tx_advanceStage] c) (session_inv fw)"
  using assms by - (rule finished_rules | simp; fail | auto; fail)+

lemma check_collateral:
  assumes "in_body c" "session_inv fw c"
  shows "sat (do_if finished (seq
             [goto_stage SIGN_STAGE_BODY_COLLATERAL_OUTPUT,
              set_body (\<lambda>b. b\<lparr>bcCollateralOutputReceived := True\<rparr>),
              tx_advanceStage]) c) (session_inv fw)"
  using assms by - (rule sat_do_if check_received | simp; fail)+

lemma check_cvote:
  assumes "session_inv fw c"
  shows "sat (do_if finished (seq
             [goto_stage SIGN_STAGE_AUX_DATA,
              modify (\<lambda>c. c\<lparr>tcPart := PART_AUX_DATA a, tcAuxDataHash := h\<rparr>),
              tx_advanceStage]) c) (session_inv fw)"
  by (rule sat_do_if, rule sat_seq_Cons, rule sat_goto, rule sat_seq_Cons, rule sat_modify, rule sat_seq_last,
      rule advance_inv) (use assms in simp_all)

lemma check_inv:
  assumes "session_inv fw c"
  shows "sat (checkForFinishedSubmachines c) (session_inv fw)"
proof -
  have b: "in_body c" if "body_stage (tcStage c)" "\<not> mint_stage (tcStage c)"
    using inv_in_body [OF assms that] .
  have p: "in_body c" if "tcStage c = SIGN_STAGE_BODY_CERTIFICATES_POOL_SUBMACHINE"
    using inv_plain [OF assms] that by simp
  show ?thesis
  proof (cases "tcStage c")
    case SIGN_STAGE_BODY_MINT_SUBMACHINE
    show ?thesis
      unfolding checkForFinishedSubmachines_def SIGN_STAGE_BODY_MINT_SUBMACHINE sign_tx_stage_t.case
      using assms SIGN_STAGE_BODY_MINT_SUBMACHINE
      by - (rule sat_bind sat_do_if check_received | (rule mint_finished, assumption+, simp; fail) | simp; fail)+
  qed (use assms b p in \<open>auto simp: checkForFinishedSubmachines_def intro!: sat_Inr sat_bind check_outputs check_pool
      check_cvote check_collateral\<close>)
qed

subsection \<open>The handlers of the body\<close>

lemma sat_check_plain:
  "session_inv fw c \<Longrightarrow> plain_stage s \<Longrightarrow> (in_body c \<Longrightarrow> tcStage c = s \<Longrightarrow> sat (k c) Q) \<Longrightarrow>
   sat (res_bind (CHECK_STAGE s c) k) Q"
  by (rule sat_check) (metis inv_plain)

lemma sat_assert_bind: "sat (k c) Q \<Longrightarrow> sat (res_bind (assert_body p c) k) Q"
  by (auto simp: sat_def assert_body_def res_bind_Inr_iff)

lemma sat_call_bind:
  assumes "in_body c" "\<And>b b'. built (init_params c) b \<Longrightarrow> s b = Inr b' \<Longrightarrow> calls b b'"
    and "\<And>b. body_built c b \<Longrightarrow> sat (k (c\<lparr>tcPart := PART_BODY b\<rparr>)) Q"
  shows "sat (res_bind (on_tx_builder s c) k) Q"
  using sat_call [OF assms(1,2), where Q = "\<lambda>c. sat (k c) Q"] assms(3) unfolding sat_def res_bind_Inr_iff by blast

lemma sat_set_body_bind:
  assumes "in_body c" "\<And>b. bcBuilder (u b) = bcBuilder b"
    and "\<And>b. body_built c b \<Longrightarrow> sat (k (c\<lparr>tcPart := PART_BODY b\<rparr>)) Q"
  shows "sat (res_bind (set_body u c) k) Q"
  using sat_set_body [OF assms(1,2), where Q = "\<lambda>c. sat (k c) Q"] assms(3) unfolding sat_def res_bind_Inr_iff by blast

lemma sat_advance_plain:
  "in_body c \<Longrightarrow> plain_stage (tcStage c) \<Longrightarrow> tcStage c \<noteq> SIGN_STAGE_CONFIRM \<Longrightarrow> sat (tx_advanceStage c) (session_inv fw)"
  by (rule advance_inv) (auto simp: plain_stage_def body_stage_def)

lemmas handler_rules = sat_check_plain sat_assert_bind sat_call_bind sat_set_body_bind sat_select sat_count
  sat_advance_plain sat_certificates sat_if sat_Let sat_parse sat_bind sat_Inl

lemma input_inv:
  assumes "session_inv fw c" "plain_stage s" "s \<noteq> SIGN_STAGE_CONFIRM"
    and "\<And>i b b'. add i b = Inr b' \<Longrightarrow> calls b b'" "\<And>u b. bcBuilder (update u b) = bcBuilder b"
  shows "sat (handle_input s current update tot policyFor add inputLabel approve p2 data c) (session_inv fw)"
  unfolding handle_input_def using assms
  by - (assumption | rule handler_rules | simp; fail)+

lemma inputs_inv:
  "session_inv fw c \<Longrightarrow> sat (signTx_handleInputAPDU expert approve p2 data c) (session_inv fw)"
  "session_inv fw c \<Longrightarrow> sat (signTx_handleCollateralInputAPDU expert approve p2 data c) (session_inv fw)"
  "session_inv fw c \<Longrightarrow> sat (signTx_handleReferenceInputAPDU expert approve p2 data c) (session_inv fw)"
  unfolding signTx_handleInputAPDU_def signTx_handleCollateralInputAPDU_def signTx_handleReferenceInputAPDU_def
  by (rule input_inv; simp add: calls_addInput calls_addCollateralInput calls_addReferenceInput)+

lemma built_last: "built p b \<Longrightarrow> announced_last b = (pIncludeTreasury p, pIncludeDonation p)"
proof -
  have run: "announced_last b' = announced_last b" if "run ops b = Inr b'" for ops :: "tx_call list" and b b'
    using that
  proof (induction ops arbitrary: b)
    case (Cons op ops)
    then show ?case
      using keeps_last_exec [of op] by (auto simp: run_def res_bind_Inr_iff keeps_last_def)
  qed (simp add: run_def)
  have "announced_last b0 = (pIncludeTreasury p, pIncludeDonation p)"
    if "txHashBuilder_init p zeroed_builder = Inr b0" for b0
    using that by (auto simp: txHashBuilder_init_def announced_last_def res_bind_Inr_iff dest!: tx_append_cbor_Inr)
  then show "built p b \<Longrightarrow> ?thesis"
    unfolding built_def calls_def using run by fastforce
qed

lemma number_inv:
  assumes "session_inv fw c" "plain_stage s" "s \<noteq> SIGN_STAGE_CONFIRM"
    and "\<And>v b b'. announced c \<Longrightarrow> built (init_params c) b \<Longrightarrow> add v b = Inr b' \<Longrightarrow> calls b b'"
    and "\<And>b. bcBuilder (received b) = bcBuilder b"
  shows "sat (handle_number s announced valid received policyFor add screens approve p2 data c) (session_inv fw)"
  unfolding handle_number_def using assms
  by - (assumption | rule handler_rules | simp; fail)+

lemma treasury_calls:
  "tcIncludeTreasury c \<Longrightarrow> built (init_params c) b \<Longrightarrow> txHashBuilder_addTreasury v b = Inr b' \<Longrightarrow> calls b b'"
  "tcIncludeDonation c \<Longrightarrow> built (init_params c) b \<Longrightarrow> txHashBuilder_addDonation v b = Inr b' \<Longrightarrow> calls b b'"
  using calls_addTreasury calls_addDonation built_last [of "init_params c" b]
  by (auto simp: announced_last_def init_params_def)

lemma numbers_inv:
  "session_inv fw c \<Longrightarrow> sat (signTx_handleFeeAPDU approve p2 data c) (session_inv fw)"
  "session_inv fw c \<Longrightarrow> sat (signTx_handleTtlAPDU expert approve p2 data c) (session_inv fw)"
  "session_inv fw c \<Longrightarrow> sat (signTx_handleValidityIntervalStartAPDU expert approve p2 data c) (session_inv fw)"
  "session_inv fw c \<Longrightarrow> sat (signTx_handleTotalCollateralAPDU approve p2 data c) (session_inv fw)"
  "session_inv fw c \<Longrightarrow> sat (signTx_handleTreasuryAPDU approve p2 data c) (session_inv fw)"
  "session_inv fw c \<Longrightarrow> sat (signTx_handleDonationAPDU approve p2 data c) (session_inv fw)"
  unfolding signTx_handleFeeAPDU_def signTx_handleTtlAPDU_def signTx_handleValidityIntervalStartAPDU_def
    signTx_handleTotalCollateralAPDU_def signTx_handleTreasuryAPDU_def signTx_handleDonationAPDU_def
  by (rule number_inv; (assumption | erule treasury_calls calls_numbers; fail | erule treasury_calls; assumption | simp))+

lemma script_data_hash_inv:
  "session_inv fw c \<Longrightarrow> sat (signTx_handleScriptDataHashAPDU expert approve p2 data c) (session_inv fw)"
  unfolding signTx_handleScriptDataHashAPDU_def
  by (assumption | rule handler_rules | erule calls_addScriptDataHash | simp; fail)+

lemma required_signer_inv:
  "session_inv fw c \<Longrightarrow> sat (signTx_handleRequiredSignerAPDU fw' expert approve p2 data c) (session_inv fw)"
  unfolding signTx_handleRequiredSignerAPDU_def
  by (assumption | rule handler_rules | erule calls_addRequiredSigner | simp; fail)+

lemma add_withdrawal:
  assumes "in_body c"
  shows "sat (addWithdrawalToTxHash fw' v credential amount c) (\<lambda>c'. in_body c' \<and> tcStage c' = tcStage c)"
  unfolding addWithdrawalToTxHash_def using assms
  by - (rule sat_seq_last sat_seq_Cons sat_set_body sat_call sat_bind | erule calls_addWithdrawal | simp; fail)+

lemma withdrawal_inv:
  "session_inv fw c \<Longrightarrow> sat (signTx_handleWithdrawalAPDU fw' expert approve p2 data c) (session_inv fw)"
  unfolding signTx_handleWithdrawalAPDU_def respond_withdrawal_def
  by (assumption | rule sat_then [OF add_withdrawal] handler_rules | simp; fail)+

end
