(* ===== verification/SignTxSession.thy ===== *)
theory SignTxSession
  imports SignTxInvariant
begin

text \<open>
  Every message keeps the invariant of the session: the certificates, votes, dialogues, the
  confirmation and the witnesses, and from them what holds of whole sessions.
\<close>

subsection \<open>Certificates\<close>

text \<open>The hashes of a certificate that was parsed have their sizes, and those the firmware computes too.\<close>

definition credential_ok :: "ext_credential_t \<Rightarrow> bool" where
  "credential_ok x \<longleftrightarrow> (case x of EXT_CREDENTIAL_KEY_PATH _ \<Rightarrow> True
     | EXT_CREDENTIAL_KEY_HASH h \<Rightarrow> length h = 28 | EXT_CREDENTIAL_SCRIPT_HASH h \<Rightarrow> length h = 28)"

definition ext_drep_ok :: "ext_drep_t \<Rightarrow> bool" where
  "ext_drep_ok d \<longleftrightarrow> (case d of EXT_DREP_KEY_HASH h \<Rightarrow> length h = 28 | EXT_DREP_SCRIPT_HASH h \<Rightarrow> length h = 28
     | _ \<Rightarrow> True)"

definition certificate_ok :: "sign_tx_certificate_data_t \<Rightarrow> bool" where
  "certificate_ok cert \<longleftrightarrow> credential_ok (cdCredential cert) \<and> (case cdUnion cert of
       POOL_CREDENTIAL x \<Rightarrow> credential_ok x | COMMITTEE_HOT_CREDENTIAL x \<Rightarrow> credential_ok x
     | CERTIFICATE_DREP d \<Rightarrow> ext_drep_ok d | CERTIFICATE_ANCHOR a \<Rightarrow> anchor_lengths a
     | CERTIFICATE_UNION_ZERO \<Rightarrow> True)"

lemma parseCredential_ok: "parseCredential view = Inr (x, view') \<Longrightarrow> credential_ok x"
  by (auto simp: parseCredential_def credential_ok_def res_bind_Inr_iff dest: parseBuffer_length split: if_splits)

lemma parseDRep_ok: "parseDRep view = Inr (d, view') \<Longrightarrow> ext_drep_ok d"
  by (auto simp: parseDRep_def ext_drep_ok_def res_bind_Inr_iff dest: parseBuffer_length split: if_splits)

lemma parseAnchor_ok: "parseAnchor view = Inr (a, view') \<Longrightarrow> anchor_lengths a"
  by (auto simp: parseAnchor_def anchor_lengths_def is_size_t_def res_bind_Inr_iff
      dest!: parseBuffer_length split: if_splits)

lemma parse_certificate_ok:
  assumes "parseCertificateData wire = Inr cert"
  shows "certificate_ok cert"
proof -
  obtain t view view' where "parse_certificate_body t view = Inr (cert, view')"
    using assms by (auto simp: parseCertificateData_def res_bind_Inr_iff split: if_splits)
  then show ?thesis
    by (cases t) (auto simp: parse_certificate_body_def parse_credential_value_def parse_credential_anchor_def
        certificate_data_def certificate_ok_def credential_ok_def [of "EXT_CREDENTIAL_KEY_PATH _"]
        credential_ok_def [of "EXT_CREDENTIAL_KEY_HASH _"] res_bind_Inr_iff
        dest: parseCredential_ok parseDRep_ok parseAnchor_ok parseBuffer_length)
qed

lemma setCredential_ok:
  "firmware_ok fw \<Longrightarrow> credential_ok x \<Longrightarrow> setCredential fw x = Inr y \<Longrightarrow> length (credHash y) = 28"
  by (auto simp: setCredential_def credential_ok_def res_bind_Inr_iff dest: keyHash_length
      split: ext_credential_t.splits)

lemma setDRep_ok: "firmware_ok fw \<Longrightarrow> ext_drep_ok d \<Longrightarrow> setDRep fw d = Inr y \<Longrightarrow> drep_length y"
  by (auto simp: setDRep_def ext_drep_ok_def drep_length_def is_size_t_def res_bind_Inr_iff dest: keyHash_length
      split: ext_drep_t.splits)

lemma union_ok:
  "certificate_ok cert \<Longrightarrow> poolCredential cert = Inr x \<Longrightarrow> credential_ok x"
  "certificate_ok cert \<Longrightarrow> committeeHotCredential cert = Inr x \<Longrightarrow> credential_ok x"
  "certificate_ok cert \<Longrightarrow> certificateDRep cert = Inr d \<Longrightarrow> ext_drep_ok d"
  "certificate_ok cert \<Longrightarrow> certificateAnchor cert = Inr a \<Longrightarrow> anchor_lengths a"
  "certificate_ok cert \<Longrightarrow> credential_ok (cdCredential cert)"
  by (auto simp: certificate_ok_def poolCredential_def committeeHotCredential_def certificateDRep_def
      certificateAnchor_def split: certificate_union.splits)

lemmas certificate_calls = calls_addCertificate_stakingOld calls_addCertificate_staking
  calls_addCertificate_stakeDelegation calls_addCertificate_voteDelegation
  calls_addCertificate_committeeAuthHot calls_addCertificate_committeeResign
  calls_addCertificate_dRepRegistration calls_addCertificate_dRepDeregistration
  calls_addCertificate_dRepUpdate calls_addCertificate_poolRetirement

lemma pool_case_Inr:
  "(case x of EXT_CREDENTIAL_KEY_HASH h \<Rightarrow> f h | _ \<Rightarrow> Inl e) = Inr y \<longleftrightarrow>
     (\<exists>h. x = EXT_CREDENTIAL_KEY_HASH h \<and> f h = Inr y)"
  "(case x of EXT_CREDENTIAL_KEY_PATH p \<Rightarrow> g p | _ \<Rightarrow> Inl e) = Inr y \<longleftrightarrow>
     (\<exists>p. x = EXT_CREDENTIAL_KEY_PATH p \<and> g p = Inr y)"
  by (cases x; simp)+

lemma certificate_call:
  assumes "addCertificateDataToTx fw cert b = Inr b'" "firmware_ok fw" "certificate_ok cert"
  shows "calls b b'"
proof -
  have c: "length (credHash y) < 2 ^ 64" if "setCredential fw (cdCredential cert) = Inr y" for y
    using setCredential_ok [OF assms(2) union_ok(5) [OF assms(3)] that] by simp
  have h: "length (credHash y) < 2 ^ 64" if "committeeHotCredential cert = Inr x" "setCredential fw x = Inr y" for x y
    using setCredential_ok [OF assms(2) union_ok(2) [OF assms(3) that(1)] that(2)] by simp
  have d: "drep_length y" if "certificateDRep cert = Inr x" "setDRep fw x = Inr y" for x y
    using setDRep_ok [OF assms(2) union_ok(3) [OF assms(3) that(1)] that(2)] .
  note a = union_ok(4) [OF assms(3)]
  show ?thesis
    using assms(1) by (cases "cdType cert")
      (auto simp: addCertificateDataToTx_def Let_def res_bind_Inr_iff pool_case_Inr
        intro: certificate_calls(1-3,8) [OF _ c] certificate_calls(4) [OF _ c d] certificate_calls(5) [OF _ c h]
          certificate_calls(6,7,9) [OF _ c a] certificate_calls(10))
qed

lemma certificate_inv:
  assumes "in_body c" "plain_stage (tcStage c)" "firmware_ok fw" "certificate_ok cert"
  shows "sat (handleCertificate fw approve policyFor screensFor cert c) (session_inv fw)"
  unfolding handleCertificate_def using assms
  by - (assumption | rule handler_rules | (erule certificate_call, assumption, assumption) | simp; fail)+

lemma pool_start:
  "in_body c \<Longrightarrow> sat (handleCertificatePoolRegistration c) (session_inv fw)"
  unfolding handleCertificatePoolRegistration_def
  by (rule sat_rules plain_inv | simp; fail)+

text \<open>A dialogue of the body that makes calls.\<close>

lemma in_body_dialogue_Inr:
  assumes "in_body_dialogue get put d c = Inr c'"
  obtains b x f where "tcPart c = PART_BODY b" "get (bcStageContext b) = Some x"
    "d (frame c (bcBuilder b) x) = Inr f" "body_stage (tcStage c)"
    "c' = (unframe f c)\<lparr>tcPart := PART_BODY (b\<lparr>bcBuilder := dlgBuilder f, bcStageContext := put (dlgContext f)\<rparr>)\<rparr>"
  using assms by (auto simp: in_body_dialogue_def accessBodyContext_def res_bind_Inr_iff
      split: if_splits tx_part_ctx.splits option.splits)

lemma unframe_params:
  "txTagCborSets (dlgCommon f) = txTagCborSets (tcCommon c) \<Longrightarrow>
   init_params ((unframe f c)\<lparr>tcPart := x\<rparr>) = init_params c"
  "txTagCborSets (dlgCommon f) = txTagCborSets (tcCommon c) \<Longrightarrow> init_params (unframe f c) = init_params c"
  "tcStage (unframe f c) = tcStage c"
  by (simp_all add: init_params_def unframe_def)

lemma frame_simps [simp]:
  "dlgBuilder (frame c b x) = b" "dlgCommon (frame c b x) = tcCommon c" "dlgContext (frame c b x) = x"
  by (simp_all add: frame_def)

lemma pool_dialogue_inv:
  assumes "session_inv fw c" "tcStage c = SIGN_STAGE_BODY_CERTIFICATES_POOL_SUBMACHINE"
  shows "sat (in_body_dialogue pool_subctx POOL_SUBCTX (signTxPoolRegistration_handleAPDU fw approve p2 data) c)
    (session_inv fw)"
proof -
  have "session_inv fw c'"
    if r: "in_body_dialogue pool_subctx POOL_SUBCTX (signTxPoolRegistration_handleAPDU fw approve p2 data) c = Inr c'" for c'
  proof -
    obtain b x f where b: "tcPart c = PART_BODY b"
      "signTxPoolRegistration_handleAPDU fw approve p2 data (frame c (bcBuilder b) x) = Inr f"
      "c' = (unframe f c)\<lparr>tcPart := PART_BODY (b\<lparr>bcBuilder := dlgBuilder f,
         bcStageContext := POOL_SUBCTX (dlgContext f)\<rparr>)\<rparr>"
      using r by (rule in_body_dialogue_Inr)
    have f: "calls (bcBuilder b) (dlgBuilder f)" "txTagCborSets (dlgCommon f) = txTagCborSets (tcCommon c)"
      using feedsD [OF pool_feeds b(2)] by (simp_all add: fed_def)
    have "in_body c"
      using inv_plain [OF assms(1)] assms(2) by simp
    then have "built (init_params c) (bcBuilder b)"
      using b(1) by (simp add: in_body_def body_built_def)
    then have "in_body c'"
      using f b(3) built_calls by (simp add: in_body_def body_built_def unframe_params)
    then show ?thesis
      using plain_inv [of c'] assms(2) b(3) by (simp add: unframe_params)
  qed
  then show ?thesis by (simp add: sat_def)
qed

lemmas certificate_handlers = handleCertificateStaking_def handleCertificateVoteDeleg_def
  handleCertificateCommitteeAuth_def handleCertificateCommitteeResign_def handleCertificateDRep_def
  handleCertificatePoolRetirement_def

lemma typed_certificate_inv:
  assumes "in_body c" "tcStage c = SIGN_STAGE_BODY_CERTIFICATES" "firmware_ok fw" "certificate_ok cert"
  shows "sat (case cdType cert of
       CERTIFICATE_STAKE_REGISTRATION \<Rightarrow> handleCertificateStaking fw approve cert c
     | CERTIFICATE_STAKE_DEREGISTRATION \<Rightarrow> handleCertificateStaking fw approve cert c
     | CERTIFICATE_STAKE_REGISTRATION_CONWAY \<Rightarrow> handleCertificateStaking fw approve cert c
     | CERTIFICATE_STAKE_DEREGISTRATION_CONWAY \<Rightarrow> handleCertificateStaking fw approve cert c
     | CERTIFICATE_STAKE_DELEGATION \<Rightarrow> handleCertificateStaking fw approve cert c
     | CERTIFICATE_VOTE_DELEGATION \<Rightarrow> handleCertificateVoteDeleg fw approve cert c
     | CERTIFICATE_AUTHORIZE_COMMITTEE_HOT \<Rightarrow> handleCertificateCommitteeAuth fw approve cert c
     | CERTIFICATE_RESIGN_COMMITTEE_COLD \<Rightarrow> handleCertificateCommitteeResign fw approve cert c
     | CERTIFICATE_DREP_REGISTRATION \<Rightarrow> handleCertificateDRep fw approve cert c
     | CERTIFICATE_DREP_DEREGISTRATION \<Rightarrow> handleCertificateDRep fw approve cert c
     | CERTIFICATE_DREP_UPDATE \<Rightarrow> handleCertificateDRep fw approve cert c
     | CERTIFICATE_STAKE_POOL_REGISTRATION \<Rightarrow> handleCertificatePoolRegistration c
     | CERTIFICATE_STAKE_POOL_RETIREMENT \<Rightarrow> handleCertificatePoolRetirement fw approve cert c) (session_inv fw)"
  using assms by (cases "cdType cert")
    (auto simp: certificate_handlers intro!: certificate_inv sat_bind pool_start)

lemma certificates_inv:
  assumes "session_inv fw c" "firmware_ok fw"
  shows "sat (signTx_handleCertificateAPDU fw approve p2 data c) (session_inv fw)"
  unfolding signTx_handleCertificateAPDU_def using assms
  by - (assumption | rule sat_assert_bind sat_check_plain sat_if typed_certificate_inv parse_certificate_ok
      pool_dialogue_inv sat_bind | simp; fail)+

subsection \<open>Voting procedures\<close>

lemma parse_vote_ok:
  assumes "parse_voting_procedure wire = Inr (voter, action, procedure)" "firmware_ok fw" "setVoter fw voter = Inr w"
  shows "short (voter_hash w) \<and> anchor_lengths (votingAnchor procedure)"
proof -
  obtain view view' a v where p: "parse_voter view = Inr (voter, view')" "parseAnchor a = Inr (votingAnchor procedure, v)"
    using assms(1) by (auto simp: parse_voting_procedure_def res_bind_Inr_iff)
  have "length (voter_hash w) = 28"
    using p(1) assms(3) keyHash_length [OF assms(2)]
    by (auto simp: parse_voter_def setVoter_def Let_def res_bind_Inr_iff split: if_splits dest!: parseBuffer_length)
  then show ?thesis
    using parseAnchor_ok [OF p(2)] by simp
qed

lemma sat_parse3:
  "(\<And>x y z. m = Inr (x, y, z) \<Longrightarrow> sat (k x y z) Q) \<Longrightarrow> sat (res_bind m (\<lambda>(x, y, z). k x y z)) Q"
  by (auto simp: sat_def res_bind_Inr_iff)

lemma voting_inv:
  assumes "session_inv fw c" "firmware_ok fw"
  shows "sat (signTx_handleVotingProcedureAPDU fw approve p2 data c) (session_inv fw)"
proof -
  have v: "calls b b'" if "parse_voting_procedure wire = Inr (voter, action, procedure)" "setVoter fw voter = Inr w"
    "txHashBuilder_addVotingProcedure w action procedure b = Inr b'" for wire voter action procedure w b b'
    using parse_vote_ok [OF that(1) assms(2) that(2)] calls_addVotingProcedure [OF that(3)] by blast
  show ?thesis
    unfolding signTx_handleVotingProcedureAPDU_def using assms
    by - (assumption | rule sat_parse3 handler_rules | (erule v, assumption, assumption) | simp; fail)+
qed

subsection \<open>The dialogues of the outputs and the mint\<close>

lemma CHECK_STAGE_Inr: "CHECK_STAGE s c = Inr c' \<longleftrightarrow> tcStage c = s \<and> c' = c"
  by (auto simp: CHECK_STAGE_def)

lemma mint_dialogue_inv:
  assumes "session_inv fw c" "tcStage c = SIGN_STAGE_BODY_MINT_SUBMACHINE"
  shows "sat (in_body_dialogue mint_subctx MINT_SUBCTX (signTxMint_handleAPDU approve p2 data) c) (session_inv fw)"
proof -
  have "session_inv fw c'"
    if r: "in_body_dialogue mint_subctx MINT_SUBCTX (signTxMint_handleAPDU approve p2 data) c = Inr c'" for c'
  proof -
    obtain b x f where b: "tcPart c = PART_BODY b" "mint_subctx (bcStageContext b) = Some x"
      "signTxMint_handleAPDU approve p2 data (frame c (bcBuilder b) x) = Inr f"
      "c' = (unframe f c)\<lparr>tcPart := PART_BODY (b\<lparr>bcBuilder := dlgBuilder f,
         bcStageContext := MINT_SUBCTX (dlgContext f)\<rparr>)\<rparr>"
      using r by (rule in_body_dialogue_Inr)
    have "mint_built (init_params c) x (bcBuilder b)"
      using assms b(1,2) by (auto simp: session_inv_def body_inv_def elim!: mint_subctx.elims)
    then show ?thesis
      using mint_step [OF b(3), of "init_params c"] assms(2) b(4)
      by (simp add: session_inv_def body_inv_def unframe_params)
  qed
  then show ?thesis by (simp add: sat_def)
qed

lemma mint_inv:
  assumes "session_inv fw c"
  shows "sat (signTx_handleMintAPDU approve p2 data c) (session_inv fw)"
proof -
  have "session_inv fw (c\<lparr>tcStage := SIGN_STAGE_BODY_MINT_SUBMACHINE\<rparr>)" if "tcStage c = SIGN_STAGE_BODY_MINT"
    using assms that by (auto simp: session_inv_def body_inv_def aux_data_stage_def output_stage_def
        split: tx_part_ctx.splits body_stage_context.splits)
  then show ?thesis
    unfolding signTx_handleMintAPDU_def using assms mint_dialogue_inv
    by (auto simp: sat_def res_bind_Inr_iff do_if_def goto_stage_def CHECK_STAGE_Inr split: if_splits)
qed

text \<open>An output that is not a legacy one with a reference script, which the builder rejects too late.\<close>

definition no_legacy_script :: "sign_tx_context \<Rightarrow> bool" where
  "no_legacy_script c \<longleftrightarrow> (case tcPart c of
       PART_BODY b \<Rightarrow> (case bcStageContext b of OUTPUT_SUBCTX x \<Rightarrow> \<not> legacy_script x | _ \<Rightarrow> True)
     | _ \<Rightarrow> True)"

lemma output_dialogue_inv:
  assumes "session_inv fw c" "output_stage (tcStage c)"
    and "\<And>f f'. d f = Inr f' \<Longrightarrow> output_ok (dlgContext f) (dlgBuilder f) \<Longrightarrow> steps_to (init_params c) f f'"
  shows "sat (in_body_dialogue output_subctx OUTPUT_SUBCTX d c) (\<lambda>c'. no_legacy_script c' \<longrightarrow> session_inv fw c')"
proof -
  have "session_inv fw c'"
    if r: "in_body_dialogue output_subctx OUTPUT_SUBCTX d c = Inr c'" and n: "no_legacy_script c'" for c'
  proof -
    obtain b x f where b: "tcPart c = PART_BODY b" "output_subctx (bcStageContext b) = Some x"
      "d (frame c (bcBuilder b) x) = Inr f" "body_stage (tcStage c)"
      "c' = (unframe f c)\<lparr>tcPart := PART_BODY (b\<lparr>bcBuilder := dlgBuilder f,
         bcStageContext := OUTPUT_SUBCTX (dlgContext f)\<rparr>)\<rparr>"
      using r by (rule in_body_dialogue_Inr)
    have "built (init_params c) (bcBuilder b) \<and> output_ok x (bcBuilder b)"
      using assms(1,2) b(1,2) by (auto simp: session_inv_def body_inv_def body_built_def elim!: output_subctx.elims)
    moreover have "\<not> legacy_script (dlgContext f)"
      using n b(5) by (simp add: no_legacy_script_def)
    ultimately have "built (init_params c) (dlgBuilder f) \<and> output_ok (dlgContext f) (dlgBuilder f) \<and>
        txTagCborSets (dlgCommon f) = txTagCborSets (tcCommon c)"
      using assms(3) [OF b(3)] by (simp add: steps_to_def)
    then show ?thesis
      using b(4,5) by (simp add: session_inv_def body_inv_def body_built_def unframe_params)
  qed
  then show ?thesis by (simp add: sat_def)
qed

lemma start_output_inv:
  assumes "in_body c" "start_output s c = Inr c'" "output_stage s"
  shows "session_inv fw c' \<and> tcStage c' = s"
  using assms by (auto simp: start_output_def set_body_Inr goto_stage_def in_body_def body_built_def session_inv_def
      body_inv_def output_stage_def output_ok_def initializeOutputSubmachine_def res_bind_Inr_iff)

lemma output_inv:
  assumes "session_inv fw c"
  shows "sat (signTx_handleOutputAPDU fw' expert approve p2 data c) (\<lambda>c'. no_legacy_script c' \<longrightarrow> session_inv fw c')"
proof -
  have "in_body c" if "tcStage c = SIGN_STAGE_BODY_OUTPUTS"
    using inv_plain [OF assms] that by simp
  note start = start_output_inv [OF this]
  have "sat (in_body_dialogue output_subctx OUTPUT_SUBCTX (signTxOutput_handleAPDU fw' expert approve p2 data) d)
      (\<lambda>c'. no_legacy_script c' \<longrightarrow> session_inv fw c')"
    if "session_inv fw d" "tcStage d = SIGN_STAGE_BODY_OUTPUTS_SUBMACHINE" for d
    by (rule output_dialogue_inv [OF that(1)])
      (use that(2) in \<open>auto simp: output_stage_def intro: output_step [OF disjI1] output_step [OF disjI2]\<close>)
  note dialogue = this
  have "sat (start_output SIGN_STAGE_BODY_OUTPUTS_SUBMACHINE c) (session_inv fw)"
    if "tcStage c = SIGN_STAGE_BODY_OUTPUTS"
    using start [OF that] by (simp add: sat_def output_stage_def)
  note started = this
  show ?thesis
    unfolding signTx_handleOutputAPDU_def
    by (rule sat_then [where R = "session_inv fw"], rule sat_if)
      (assumption | rule sat_Inr started dialogue sat_check sat_assert_bind sat_bind assms)+
qed

lemma collateral_output_inv:
  assumes "session_inv fw c"
  shows "sat (signTx_handleCollateralOutputAPDU fw' expert approve p2 data c)
    (\<lambda>c'. no_legacy_script c' \<longrightarrow> session_inv fw c')"
proof -
  have "in_body c" if "tcStage c = SIGN_STAGE_BODY_COLLATERAL_OUTPUT"
    using inv_plain [OF assms] that by simp
  note start = start_output_inv [OF this]
  have "sat (in_body_dialogue output_subctx OUTPUT_SUBCTX (signTxCollateralOutput_handleAPDU fw' expert approve p2 data) d)
      (\<lambda>c'. no_legacy_script c' \<longrightarrow> session_inv fw c')"
    if "session_inv fw d" "tcStage d = SIGN_STAGE_BODY_COLLATERAL_OUTPUT_SUBMACHINE" for d
    by (rule output_dialogue_inv [OF that(1)])
      (use that(2) in \<open>auto simp: output_stage_def intro: output_step [OF disjI1] output_step [OF disjI2]\<close>)
  note dialogue = this
  have "sat (start_output SIGN_STAGE_BODY_COLLATERAL_OUTPUT_SUBMACHINE c) (session_inv fw)"
    if "tcStage c = SIGN_STAGE_BODY_COLLATERAL_OUTPUT"
    using start [OF that] by (simp add: sat_def output_stage_def)
  note started = this
  show ?thesis
    unfolding signTx_handleCollateralOutputAPDU_def
    by (rule sat_then [where R = "session_inv fw"], (rule sat_do_if started | simp add: assms)+,
        (assumption | rule sat_check sat_assert_bind sat_bind dialogue)+)
qed

subsection \<open>The beginning\<close>

lemma parse_keeps_stage:
  "parseTxOptions options c = Inr c' \<Longrightarrow> tcStage c' = tcStage c"
  "parse_init_flags wire c = Inr c' \<Longrightarrow> tcStage c' = tcStage c"
  "parse_init_counts wire c = Inr c' \<Longrightarrow> tcStage c' = tcStage c"
  by (auto simp: parseTxOptions_def parse_init_flags_def parse_init_counts_def res_bind_Inr_iff)

lemma init_inv: "sat (signTx_handleInitAPDU approve p2 data c) (session_inv fw)"
  unfolding signTx_handleInitAPDU_def
  by (rule sat_check, (rule sat_bind sat_Let sat_select)+, rule advance_inv)
    (auto simp: res_bind_Inr_iff dest!: parse_keeps_stage)

lemma cvote_dialogue_inv:
  assumes "aux_data_stage (tcStage c)"
  shows "sat (in_cvote_dialogue d c) (\<lambda>c'. (\<exists>a. tcPart c' = PART_AUX_DATA a) \<and> tcStage c' = tcStage c)"
  using assms by (auto simp: sat_def in_cvote_dialogue_def unframe_def res_bind_Inr_iff)

lemma start_cvote_inv:
  assumes "tcStage c = SIGN_STAGE_AUX_DATA"
  shows "sat (start_cvote_registration c) (session_inv fw)"
  using cvote_dialogue_inv [of c signTxCVoteRegistration_init] assms
  by (auto simp: start_cvote_registration_def sat_def res_bind_Inr_iff goto_stage_def aux_data_stage_def
      session_inv_def)

lemma aux_data_inv: "sat (signTx_handleAuxDataAPDU fw' expert approve p2 data c) (session_inv fw)"
proof -
  have "tcStage c' = tcStage c" if "parse_aux_data wire c = Inr (t, c')" for wire t c'
    using that by (auto simp: parse_aux_data_def res_bind_Inr_iff split: if_splits)
  note stage = this
  have dialogue: "sat (in_cvote_dialogue d c) (session_inv fw)" if "aux_data_stage (tcStage c)" for d
    using cvote_dialogue_inv [OF that, of d] that unfolding sat_def session_inv_def by fastforce
  have advance: "sat (tx_advanceStage c') (session_inv fw)" if "tcStage c' = SIGN_STAGE_AUX_DATA" for c'
    by (rule advance_inv) (use that in simp_all)
  show ?thesis
    unfolding signTx_handleAuxDataAPDU_def
    by (auto intro!: sat_bind sat_check sat_select split: aux_data_type_t.splits)
      (auto simp: CHECK_STAGE_Inr aux_data_stage_def dest: stage intro!: dialogue advance start_cvote_inv sat_select)
qed

subsection \<open>Confirmation and witnesses\<close>

lemma built_expected: "built p b \<Longrightarrow> tx_reads b (expected b)"
  unfolding built_program using program_expected by blast

lemma finalized_body:
  assumes "in_body c" "finalize_tx_hash fw c = Inr c'"
  shows "tcStage c' = tcStage c \<and> init_params c' = init_params c \<and> tcShown c' = tcShown c \<and>
    (\<exists>b. built (init_params c') b \<and> complete_item (tx_out b) \<and> blake2b_256 fw (tx_out b) = Some (tcTxHash c'))"
proof -
  obtain b h x where b: "tcPart c = PART_BODY b" "txHashBuilder_finalize (blake2b_256 fw) 32 (bcBuilder b) = Inr (h, x)"
    "c' = c\<lparr>tcTxHash := h, tcPart := PART_BODY (b\<lparr>bcBuilder := x\<rparr>)\<rparr>"
    using assms(2) by (auto simp: finalize_tx_hash_def accessBodyContext_def res_bind_Inr_iff
        split: if_splits tx_part_ctx.splits)
  have "built (init_params c) (bcBuilder b)"
    using assms(1) b(1) by (simp add: in_body_def body_built_def)
  then show ?thesis
    using finalize_complete [OF b(2) built_expected] b(3) by auto
qed

lemma confirm_advance:
  assumes "tcStage c = SIGN_STAGE_CONFIRM" "confirm_screen \<in> set (tcShown c)"
    and "\<exists>b. built (init_params c) b \<and> complete_item (tx_out b) \<and> blake2b_256 fw (tx_out b) = Some (tcTxHash c)"
  shows "sat (respond_confirm c) (session_inv fw)"
  using assms by (auto simp: sat_def respond_confirm_def tx_advanceStage_def advance_from_confirm_def
      advance_from_witnesses_def initTxWitnessCtx_def wait_or_def goto_stage_def res_bind_Inr_iff
      session_inv_def confirmed_def)

lemma confirm_inv:
  assumes "session_inv fw c"
  shows "sat (signTx_handleConfirmAPDU fw expert approve p2 data c) (session_inv fw)"
proof -
  have confirm: "sat (tx_select approve [PROMPT] PROMPT (confirm_screens displayTxId h) respond_confirm d) (session_inv fw)"
    if "in_body c" "tcStage c = SIGN_STAGE_CONFIRM" "finalize_tx_hash fw c = Inr d" for displayTxId h d
  proof (cases approve)
    case True
    then show ?thesis
      using finalized_body [OF that(1,3)] that(2)
      by (auto simp: tx_select_def select_screens_def run_screens_def record_tx_shown_def confirm_screens_def
          confirm_screen_def intro!: confirm_advance)
  qed (simp add: tx_select_def select_screens_def run_screens_def confirm_screens_def sat_Inl)
  show ?thesis
    unfolding signTx_handleConfirmAPDU_def policyForSignTxConfirm_def
    by (assumption | rule sat_check_plain [OF assms] confirm sat_Let sat_bind | simp; fail)+
qed

lemma confirmed_update [simp]:
  "confirmed fw (c\<lparr>tcStage := s\<rparr>) = confirmed fw c"
  "confirmed fw (c\<lparr>tcPart := x\<rparr>) = confirmed fw c"
  "confirmed fw (c\<lparr>tcAnswer := a\<rparr>) = confirmed fw c"
  "confirmed fw (c\<lparr>tcCommon := (tcCommon c)\<lparr>singleAccountData := acct\<rparr>\<rparr>) = confirmed fw c"
  by (simp_all add: confirmed_def)

lemma confirmed_shown: "confirmed fw c \<Longrightarrow> confirmed fw (c\<lparr>tcShown := tcShown c @ screens\<rparr>)"
  by (auto simp: confirmed_def)

lemma inv_confirmed: "session_inv fw c \<Longrightarrow> tcStage c = SIGN_STAGE_WITNESSES \<Longrightarrow> confirmed fw c"
  by (auto simp: session_inv_def body_inv_def body_stage_def aux_data_stage_def split: tx_part_ctx.splits)

text \<open>What a witness message does to the context when it is accepted.\<close>

definition shown_screens :: "security_policy_t list \<Rightarrow> security_policy_t \<Rightarrow> screen list \<Rightarrow> screen list" where
  "shown_screens shownFor policy screens = (if policy \<in> set shownFor then screens else [])"

lemma tx_select_Inr:
  assumes "tx_select approve shownFor policy screens respond c = Inr c'"
  shows "respond (c\<lparr>tcShown := tcShown c @ shown_screens shownFor policy screens\<rparr>) = Inr c' \<and>
    (shown_screens shownFor policy screens = [] \<or> approve)"
  using assms by (auto simp: tx_select_def select_screens_def run_screens_def record_tx_shown_def shown_screens_def
      split: if_splits)

lemma respond_witness_Inr:
  assumes "respond_witness signature c = Inr c'" "tcStage c = SIGN_STAGE_WITNESSES" "tcPart c = PART_WITNESSES n"
  shows "c' = c\<lparr>tcAnswer := signature, tcPart := PART_WITNESSES (n + 1),
    tcStage := (if n + 1 = tcNumWitnesses c then SIGN_STAGE_NONE else SIGN_STAGE_WITNESSES)\<rparr>"
  using assms by (auto simp: respond_witness_def accessWitnessContext_def do_if_def tx_advanceStage_def
      advance_from_witnesses_def goto_stage_def)

lemma witness_Inr:
  assumes "signTx_handleWitnessAPDU fw expert approve p2 data c = Inr c'"
  obtains p policy acct signature n where
    "tcStage c = SIGN_STAGE_WITNESSES" "tcPart c = PART_WITNESSES n" "n < tcNumWitnesses c"
    "bip44_parseFromWire (wire_bytes data) blank_path = Inr (length (wire_bytes data), p)"
    "policyForSignTxWitness expert (txSigningMode (tcCommon c)) p (tcIncludeMint c) (tcPoolOwner c)
       (singleAccountData (tcCommon c)) = Inr (policy, acct)" "policy \<noteq> DENY"
    "getWitness fw p (tcTxHash c) 64 = Inr signature"
    "shown_screens [WARN, SHOW] policy (witness_screens policy p) = [] \<or> approve"
    "c' = c\<lparr>tcCommon := (tcCommon c)\<lparr>singleAccountData := acct\<rparr>,
       tcShown := tcShown c @ shown_screens [WARN, SHOW] policy (witness_screens policy p),
       tcAnswer := signature, tcPart := PART_WITNESSES (n + 1),
       tcStage := (if n + 1 = tcNumWitnesses c then SIGN_STAGE_NONE else SIGN_STAGE_WITNESSES)\<rparr>"
proof -
  obtain n size p policy acct signature where c: "tcStage c = SIGN_STAGE_WITNESSES"
      "accessWitnessContext c = Inr n" "n < tcNumWitnesses c"
    and p: "bip44_parseFromWire (wire_bytes data) blank_path = Inr (size, p)" "size = length (wire_bytes data)"
      "policyForSignTxWitness expert (txSigningMode (tcCommon c)) p (tcIncludeMint c) (tcPoolOwner c)
         (singleAccountData (tcCommon c)) = Inr (policy, acct)" "ENSURE_NOT_DENIED policy = Inr ()"
      "getWitness fw p (tcTxHash c) 64 = Inr signature"
    and r: "tx_select approve [WARN, SHOW] policy (witness_screens policy p) (respond_witness signature)
       (c\<lparr>tcCommon := (tcCommon c)\<lparr>singleAccountData := acct\<rparr>\<rparr>) = Inr c'"
    using assms unfolding signTx_handleWitnessAPDU_def
    by (auto simp: res_bind_Inr_iff CHECK_STAGE_Inr)
  have n: "tcPart c = PART_WITNESSES n"
    using c(2) by (auto simp: accessWitnessContext_def split: if_splits tx_part_ctx.splits)
  show ?thesis
    using respond_witness_Inr [OF tx_select_Inr [OF r, THEN conjunct1], of n] tx_select_Inr [OF r] c n p
    by (intro that [of n p policy acct signature]) (auto simp: ENSURE_NOT_DENIED_def split: if_splits)
qed

lemma witness_inv:
  assumes "session_inv fw c"
  shows "sat (signTx_handleWitnessAPDU fw' expert approve p2 data c) (session_inv fw)"
proof -
  have "session_inv fw c'" if r: "signTx_handleWitnessAPDU fw' expert approve p2 data c = Inr c'" for c'
  proof (rule witness_Inr [OF r])
    fix p policy acct signature n
    assume "tcStage c = SIGN_STAGE_WITNESSES" and c': "c' = c\<lparr>tcCommon := (tcCommon c)\<lparr>singleAccountData := acct\<rparr>,
       tcShown := tcShown c @ shown_screens [WARN, SHOW] policy (witness_screens policy p),
       tcAnswer := signature, tcPart := PART_WITNESSES (n + 1),
       tcStage := (if n + 1 = tcNumWitnesses c then SIGN_STAGE_NONE else SIGN_STAGE_WITNESSES)\<rparr>"
    then have "confirmed fw c"
      using inv_confirmed [OF assms] by simp
    then show "session_inv fw c'"
      using c' by (auto simp: session_inv_def confirmed_def init_params_def)
  qed
  then show ?thesis by (simp add: sat_def)
qed

subsection \<open>Messages and sessions\<close>

lemma new_context_inv: "session_inv fw new_context"
  by (simp add: session_inv_def new_context_def)

lemma session_inv_answer [simp]: "session_inv fw (c\<lparr>tcAnswer := a\<rparr>) = session_inv fw c"
  by (simp add: session_inv_def body_inv_def cong: tx_part_ctx.case_cong body_stage_context.case_cong)

lemma pick_handler:
  "(if q then Some f else x) = Some g \<Longrightarrow> sat (f p2 data c) Q \<Longrightarrow> (x = Some g \<Longrightarrow> sat (g p2 data c) Q) \<Longrightarrow>
   sat (g p2 data c) Q"
  by (cases q) auto

lemma subhandler_inv:
  assumes "session_inv fw c" "firmware_ok fw" "lookup_subhandler fw expert approve p1 = Some subhandler"
    and "subhandler p2 data c = Inr c'" "no_legacy_script c'"
  shows "session_inv fw c'"
proof -
  have "sat (subhandler p2 data c) (\<lambda>c'. no_legacy_script c' \<longrightarrow> session_inv fw c')"
  proof -
    have w: "sat m (session_inv fw) \<Longrightarrow> sat m (\<lambda>c'. no_legacy_script c' \<longrightarrow> session_inv fw c')" for m
      by (simp add: sat_def)
    note plain = init_inv aux_data_inv inputs_inv numbers_inv certificates_inv withdrawal_inv mint_inv
      script_data_hash_inv required_signer_inv voting_inv confirm_inv witness_inv
    show ?thesis
      using assms(3) unfolding lookup_subhandler_def
      by - ((erule pick_handler, (rule output_inv collateral_output_inv | (rule w, rule plain)),
          ((rule assms(1,2))+)?)+, simp)
  qed
  then show ?thesis
    using assms(4,5) by (simp add: sat_def)
qed

lemma message_inv:
  assumes "signTx_handleAPDU fw expert approve p1 p2 data isNewCall c = Inr c'" "session_inv fw c"
    and "firmware_ok fw" "no_legacy_script c'"
  shows "session_inv fw c'"
proof -
  define start where "start = (if isNewCall then new_context else c)\<lparr>tcAnswer := []\<rparr>"
  have "session_inv fw start"
    using assms(2) new_context_inv by (simp add: start_def)
  note started = this
  obtain d subhandler where d: "checkForFinishedSubmachines start = Inr d"
    and s: "lookup_subhandler fw expert approve p1 = Some subhandler" "subhandler p2 data d = Inr c'"
    using assms(1) unfolding signTx_handleAPDU_def Let_def start_def [symmetric] res_bind_Inr_iff
    by (auto split: option.splits)
  show ?thesis
    using subhandler_inv [OF satD [OF check_inv [OF started] d] assms(3) s assms(4)] .
qed

text \<open>
  The contexts a session can be in: a message is answered, or the session is over and the next one
  starts afresh. An error ends the session (\<open>main.c\<close> resets the instruction), so it adds no context.
\<close>

inductive session :: "firmware \<Rightarrow> sign_tx_context \<Rightarrow> bool" for fw where
  begins: "session fw new_context"
| message: "session fw c \<Longrightarrow> signTx_handleAPDU fw expert approve p1 p2 data isNewCall c = Inr c' \<Longrightarrow>
    no_legacy_script c' \<Longrightarrow> session fw c'"

theorem session_invariant:
  assumes "session fw c" "firmware_ok fw"
  shows "session_inv fw c"
  using assms(1) by (induction rule: session.induct) (use assms(2) new_context_inv message_inv in auto)

end
