(* ===== verification/Evaluation.thy ===== *)
theory Evaluation
  imports SignTxDialogue
begin

text \<open>
  Code equations for sample sessions: numbers on the wire are read as words, because natural numbers
  are unary in the evaluator.
\<close>

definition be_word :: "bytes \<Rightarrow> 'a::len word" where
  "be_word bs = foldl (\<lambda>a b. a * 256 + ucast b) 0 bs"

lemma be_word: "word_of_nat (be_read bs) = (be_word bs :: 'a::len word)"
  unfolding be_word_def by (induction bs rule: rev_induct) simp_all

lemma u4be_read_code [code]:
  "u4be_read buf offset =
     (if offset + 4 \<le> length buf then Inr (be_word (take 4 (drop offset buf))) else Inl OUT_OF_BOUNDS)"
  by (simp add: u4be_read_def be_word)

lemma word_parser:
  "res_bind (parse_ube n view) (\<lambda>(v, view). Inr (word_of_nat v, view)) =
   res_bind (read_view_remaining_size view) (\<lambda>size.
     res_bind (VALIDATE (size \<ge> n) ERR_INVALID_DATA) (\<lambda>_.
       Inr (be_word (take n (view_rest view)), view\<lparr>rv_ptr := rv_ptr view + n\<rparr>)))"
  by (simp add: parse_ube_def be_word res_bind_assoc)

lemmas parse_u4be_code [code] = word_parser [where n = 4, folded parse_u4be_def]
lemmas parse_u8be_code [code] = word_parser [where n = 8, folded parse_u8be_def]

end
