(* ===== verification/SignTxExample.thy ===== *)
theory SignTxExample
  imports SignTxSession Evaluation
begin

text \<open>
  A whole session, evaluated: an ordinary mainnet transaction with one input, one output to a third
  party and a fee, which the user confirms and which is signed with one key. The code equations read
  numbers as words, because natural numbers are unary in the evaluator.
\<close>

lemma u8be_read_code [code]:
  "u8be_read buf offset =
     (if offset + 8 \<le> length buf then Inr (be_word (take 8 (drop offset buf))) else Inl OUT_OF_BOUNDS)"
  by (simp add: u8be_read_def be_word)

subsection \<open>Sessions that are run\<close>

text \<open>A message: whether it starts a new call, \<open>P1\<close>, \<open>P2\<close> and the data.\<close>

type_synonym message = "bool \<times> u8 \<times> u8 \<times> wire_data"

fun run_session :: "firmware \<Rightarrow> bool \<Rightarrow> message list \<Rightarrow> sign_tx_context \<Rightarrow> sign_tx_context option" where
  "run_session fw expert [] c = Some c"
| "run_session fw expert ((isNewCall, p1, p2, data) # ms) c =
     (case signTx_handleAPDU fw expert True p1 p2 data isNewCall c of
       Inl _ \<Rightarrow> None
     | Inr c' \<Rightarrow> if no_legacy_script c' then run_session fw expert ms c' else None)"

lemma run_session: "run_session fw expert ms c = Some c' \<Longrightarrow> session fw c \<Longrightarrow> session fw c'"
proof (induction fw expert ms c rule: run_session.induct)
  case (2 fw expert isNewCall p1 p2 data ms c)
  then show ?case
    by (auto split: sum.splits if_splits intro: session.message)
qed simp

subsection \<open>The transaction\<close>

definition sample_init :: bytes where
  "sample_init = replicate 8 0 @ [1, 0x2d, 0x96, 0x4a, 0x09] @ replicate 10 1 @ [3] @
     [0, 0, 0, 1, 0, 0, 0, 1] @ replicate 24 0 @ [0, 0, 0, 1]"

definition sample_output :: bytes where
  "sample_output = [0, 1, 0, 0, 0, 29, 0x61] @ replicate 28 9 @ [0, 0, 0, 0, 0, 0, 0, 50] @
     [0, 0, 0, 0] @ [1, 1]"

definition sample_messages :: "message list" where
  "sample_messages =
     [(True, 0x01, 0, Some sample_init),
      (False, 0x02, 0, Some (replicate 32 7 @ [0, 0, 0, 2])),
      (False, 0x03, 0x30, Some sample_output),
      (False, 0x03, 0x33, None),
      (False, 0x04, 0, Some [0, 0, 0, 0, 0, 0, 0, 40]),
      (False, 0x0a, 0, None)]"

text \<open>\<open>m/1852'/1815'/0'/0/0\<close>.\<close>

definition sample_path :: bytes where
  "sample_path = [5, 0x80, 0, 0x07, 0x3c, 0x80, 0, 0x07, 0x17, 0x80, 0, 0, 0, 0, 0, 0, 0, 0, 0, 0, 0]"

definition sample_confirmed :: sign_tx_context where
  "sample_confirmed = the (run_session sample_firmware False sample_messages new_context)"

lemma sample_session_run:
  "run_session sample_firmware False sample_messages new_context = Some sample_confirmed"
proof -
  have "run_session sample_firmware False sample_messages new_context \<noteq> None"
  proof -
    have "case run_session sample_firmware False sample_messages new_context of None \<Rightarrow> False | Some _ \<Rightarrow> True"
      by code_simp
    then show ?thesis by (auto split: option.splits)
  qed
  then show ?thesis by (auto simp: sample_confirmed_def)
qed

lemma sample_session: "session sample_firmware sample_confirmed"
  using run_session [OF sample_session_run session.begins] .

lemma sample_signature:
  "\<exists>c'. signTx_handleAPDU sample_firmware False True 0x0f 0 (Some sample_path) False sample_confirmed = Inr c'"
proof -
  have "case run_session sample_firmware False (sample_messages @ [(False, 0x0f, 0, Some sample_path)]) new_context of
      None \<Rightarrow> False | Some _ \<Rightarrow> True"
    by code_simp
  moreover have "run_session fw expert (ms @ [(False, 0x0f, 0, Some sample_path)]) c =
      (case run_session fw expert ms c of None \<Rightarrow> None
       | Some d \<Rightarrow> run_session fw expert [(False, 0x0f, 0, Some sample_path)] d)" for fw expert ms c
    by (induction fw expert ms c rule: run_session.induct) (auto split: sum.splits)
  ultimately show ?thesis
    using sample_session_run by (auto split: sum.splits)
qed

subsection \<open>What is signed\<close>

text \<open>
  Whenever a witness is returned, in whatever session, the user has confirmed the transaction, and
  the signature is over the digest of exactly one complete CBOR data item: the body that the calls of
  the builder made in this session wrote, all in the order of the protocol, for the parameters of the
  transaction. (The session has no legacy output with a reference script.)
\<close>

theorem signed_body:
  assumes "session fw c" "firmware_ok fw"
    and "signTx_handleAPDU fw expert approve 0x0f p2 data isNewCall c = Inr c'"
  shows "\<exists>(ops :: tx_call list) b path.
    tx_program (init_params c') ops zeroed_builder = Inr b \<and>
    (\<forall>b0. txHashBuilder_init (init_params c') zeroed_builder = Inr b0 \<longrightarrow> follows_protocol ops b0) \<and>
    complete_item (tx_out b) \<and> blake2b_256 fw (tx_out b) = Some (tcTxHash c') \<and>
    SCREEN ''Confirm'' (QUESTION ''transaction?'') \<in> set (tcShown c') \<and>
    bip44_parseFromWire (wire_bytes data) blank_path = Inr (length (wire_bytes data), path) \<and>
    getWitness fw path (tcTxHash c') ED25519_SIGNATURE_LENGTH = Inr (tcAnswer c')"
proof -
  define start where "start = (if isNewCall then new_context else c)\<lparr>tcAnswer := []\<rparr>"
  obtain d where d: "checkForFinishedSubmachines start = Inr d"
    "signTx_handleWitnessAPDU fw expert approve p2 data d = Inr c'"
    using assms(3) unfolding signTx_handleAPDU_def Let_def start_def [symmetric] res_bind_Inr_iff
    by (auto simp: lookup_subhandler_def)
  have "session_inv fw start"
    using session_invariant [OF assms(1,2)] new_context_inv by (simp add: start_def)
  then have "session_inv fw d"
    using satD [OF check_inv d(1)] by blast
  note confirmed = inv_confirmed [OF this]
  show ?thesis
    using d(2)
  proof (rule witness_Inr)
    fix p policy acct signature n
    assume s: "tcStage d = SIGN_STAGE_WITNESSES"
      "bip44_parseFromWire (wire_bytes data) blank_path = Inr (length (wire_bytes data), p)"
      "getWitness fw p (tcTxHash d) 64 = Inr signature"
      "c' = d\<lparr>tcCommon := (tcCommon d)\<lparr>singleAccountData := acct\<rparr>,
         tcShown := tcShown d @ shown_screens [WARN, SHOW] policy (witness_screens policy p),
         tcAnswer := signature, tcPart := PART_WITNESSES (n + 1),
         tcStage := (if n + 1 = tcNumWitnesses d then SIGN_STAGE_NONE else SIGN_STAGE_WITNESSES)\<rparr>"
    obtain b where "built (init_params d) b" "complete_item (tx_out b)" "blake2b_256 fw (tx_out b) = Some (tcTxHash d)"
      "confirm_screen \<in> set (tcShown d)"
      using confirmed [OF s(1)] by (auto simp: confirmed_def)
    moreover have "init_params c' = init_params d"
      using s(4) by (simp add: init_params_def)
    ultimately show ?thesis
      using s(2-4) unfolding built_program confirm_screen_def by auto
  qed
qed

end
