(* ===== verification/GetPublicKeys.thy ===== *)
theory GetPublicKeys
  imports Evaluation
begin

text \<open>
  \<open>src/getPublicKey/getPublicKeys.c\<close> and \<open>getPublicKeys_ui.c\<close>: the export of one extended public key,
  or of up to a thousand after one confirmation. \<open>ui_step\<close> is not part of the state, and the magic
  number that marks a ready response is a truth value. \<open>gkIdle\<close> is \<open>ui_idle\<close>: the call is over.
\<close>

subsection \<open>The context\<close>

datatype get_keys_stage_t = GET_KEYS_STAGE_NONE | GET_KEYS_STAGE_INIT | GET_KEYS_STAGE_GET_KEYS

record get_keys_context =
  gkStage :: get_keys_stage_t
  gkCurrentPath :: u16
  gkNumPaths :: u16
  gkPathSpec :: bip44_path_t
  gkExtPubKey :: extendedPublicKey_t
  gkResponseReady :: bool
  gkSilentExport :: bool
  gkIdle :: bool
  gkShown :: "screen list"
  gkAnswer :: bytes

definition new_get_keys_context :: get_keys_context where
  "new_get_keys_context = \<lparr>gkStage = GET_KEYS_STAGE_INIT, gkCurrentPath = 0, gkNumPaths = 0,
     gkPathSpec = blank_path, gkExtPubKey = \<lparr>pubKey = replicate 32 0, chainCode = replicate 32 0\<rparr>,
     gkResponseReady = False, gkSilentExport = False, gkIdle = False, gkShown = [], gkAnswer = []\<rparr>"

abbreviation (input) MAX_PUBLIC_KEYS :: u32 where "MAX_PUBLIC_KEYS \<equiv> 1000"

definition CHECK_STAGE_keys :: "get_keys_stage_t \<Rightarrow> get_keys_context stmt" where
  "CHECK_STAGE_keys expected c = (if gkStage c = expected then Inr c else Inl ERR_INVALID_STATE)"

definition record_keys_shown :: "screen list \<Rightarrow> get_keys_context \<Rightarrow> get_keys_context" where
  "record_keys_shown screens c = c\<lparr>gkShown := gkShown c @ screens\<rparr>"

definition keys_finish :: "get_keys_context stmt" where
  "keys_finish c =
     res_bind (ASSERT (gkCurrentPath c = gkNumPaths c)) (\<lambda>_.
       Inr (c\<lparr>gkStage := GET_KEYS_STAGE_NONE, gkIdle := True\<rparr>))"

definition keys_advanceStage :: "get_keys_context stmt" where
  "keys_advanceStage c = (case gkStage c of
       GET_KEYS_STAGE_INIT \<Rightarrow>
         let c = c\<lparr>gkStage := GET_KEYS_STAGE_GET_KEYS\<rparr> in
         if gkNumPaths c > 1 then Inr c else keys_finish c
     | GET_KEYS_STAGE_GET_KEYS \<Rightarrow> keys_finish c
     | GET_KEYS_STAGE_NONE \<Rightarrow> Inl ERR_ASSERT)"

definition keys_parsePath :: "read_view_t \<Rightarrow> get_keys_context \<Rightarrow> (read_view_t \<times> get_keys_context) res" where
  "keys_parsePath view c =
     res_bind (view_parsePath (gkPathSpec c) view) (\<lambda>(p, view). Inr (view, c\<lparr>gkPathSpec := p\<rparr>))"

subsection \<open>One key\<close>

text \<open>
  \<open>ui_displayGetPublicKeyPathScreen\<close>; a path with an account description is asserted to be one of an
  ordinary wallet with an account.
\<close>

definition public_key_path_screens :: "bip44_path_t \<Rightarrow> screen list res" where
  "public_key_path_screens p =
     res_bind (bip44_classifyPath p) (\<lambda>t.
     if t = PATH_POOL_COLD_KEY then Inr [SCREEN ''Export cold public key'' (KEY_PATH p)]
     else if t = PATH_ORDINARY_ACCOUNT
     then res_bind (res_bind (bip44_hasOrdinaryWalletKeyPrefix p) ASSERT) (\<lambda>_.
       res_bind (ASSERT (bip44_containsAccount p)) (\<lambda>_.
       res_bind (res_bind (bip44_getAccount p) unharden) (\<lambda>_.
         Inr [SCREEN ''Export public key'' (ACCOUNT_PATH p)])))
     else Inr [SCREEN ''Export public key'' (KEY_PATH p)])"

definition respond_one_key :: "get_keys_context stmt" where
  "respond_one_key c =
     res_bind (ASSERT (gkResponseReady c)) (\<lambda>_.
     let c = c\<lparr>gkAnswer := pubKey (gkExtPubKey c) @ chainCode (gkExtPubKey c), gkResponseReady := False,
       gkCurrentPath := gkCurrentPath c + 1\<rparr> in
     if gkCurrentPath c = gkNumPaths c then keys_advanceStage c
     else if gkCurrentPath c = 1 then keys_advanceStage c
     else Inr c)"

text \<open>
  \<open>getPublicKeys_respondOneKey_ui_runStep\<close> from the step the policy selects; the screen with the path
  is only computed when it is displayed.
\<close>

definition one_key_ui :: "bool \<Rightarrow> security_policy_t \<Rightarrow> get_keys_context stmt" where
  "one_key_ui approve policy c =
     (if policy \<in> {WARN, PROMPT}
      then res_bind (public_key_path_screens (gkPathSpec c)) (\<lambda>pathScreens.
        run_screens record_keys_shown approve
          ((if policy = WARN then [unusual_warning] else []) @ pathScreens @
           [SCREEN ''Confirm export'' (QUESTION ''public key?'')]) respond_one_key c)
      else if policy = ALLOW then respond_one_key c
      else Inl ERR_NOT_IMPLEMENTED)"

definition runGetOnePublicKeyUIFlow :: "firmware \<Rightarrow> bool \<Rightarrow> bool \<Rightarrow> get_keys_context stmt" where
  "runGetOnePublicKeyUIFlow fw expert approve c =
     (let c = c\<lparr>gkResponseReady := False\<rparr> in
     res_bind (if gkNumPaths c = 1 then policyForGetExtendedPublicKey expert (gkPathSpec c)
       else policyForGetExtendedPublicKeyBulkExport (gkPathSpec c)) (\<lambda>policy.
     res_bind (ENSURE_NOT_DENIED policy) (\<lambda>_.
     let c = (if policy = ALLOW then c else c\<lparr>gkSilentExport := False\<rparr>) in
     res_bind (deriveExtendedPublicKey fw (gkPathSpec c)) (\<lambda>key.
       one_key_ui approve policy (c\<lparr>gkExtPubKey := key, gkResponseReady := True\<rparr>)))))"

subsection \<open>Messages\<close>

definition parse_num_paths :: "read_view_t \<Rightarrow> u16 res" where
  "parse_num_paths view =
     res_bind (read_view_remaining_size view) (\<lambda>remaining.
     if remaining = 0 then Inr 1
     else if remaining = 4
     then res_bind (parse_u4be view) (\<lambda>(remainingPaths, view).
       res_bind (VALIDATE (remainingPaths < MAX_PUBLIC_KEYS) ERR_INVALID_DATA) (\<lambda>_.
       res_bind (ASSERT (remainingPaths < 65535)) (\<lambda>_.
       res_bind (no_more_data view) (\<lambda>_. Inr (ucast (remainingPaths + 1))))))
     else Inl ERR_INVALID_DATA)"

definition init_keys_screens :: "u16 \<Rightarrow> screen list" where
  "init_keys_screens n = [SCREEN ''Confirm export'' (QUESTION (decimal (unat n) @ '' public keys?''))]"

definition getPublicKeys_handleInitAPDU ::
  "firmware \<Rightarrow> bool \<Rightarrow> bool \<Rightarrow> bytes \<Rightarrow> get_keys_context stmt" where
  "getPublicKeys_handleInitAPDU fw expert approve wire c =
     res_bind (CHECK_STAGE_keys GET_KEYS_STAGE_INIT c) (\<lambda>c.
     res_bind (keys_parsePath (make_read_view wire) c) (\<lambda>(view, c).
     res_bind (parse_num_paths view) (\<lambda>n.
     let c = c\<lparr>gkNumPaths := n\<rparr> in
     res_bind (ASSERT (gkNumPaths c > 0)) (\<lambda>_.
     let c = c\<lparr>gkCurrentPath := 0\<rparr> in
     res_bind (policyForGetPublicKeysInit (ucast (gkNumPaths c))) (\<lambda>policy.
     let c = c\<lparr>gkSilentExport := policy \<noteq> PROMPT\<rparr> in
     res_bind (ENSURE_NOT_DENIED policy) (\<lambda>_.
       select_screens record_keys_shown approve [PROMPT] policy (init_keys_screens (gkNumPaths c))
         (runGetOnePublicKeyUIFlow fw expert approve) c))))))"

definition getPublicKeys_handleGetNextKeyAPDU ::
  "firmware \<Rightarrow> bool \<Rightarrow> bool \<Rightarrow> bytes \<Rightarrow> get_keys_context stmt" where
  "getPublicKeys_handleGetNextKeyAPDU fw expert approve wire c =
     res_bind (CHECK_STAGE_keys GET_KEYS_STAGE_GET_KEYS c) (\<lambda>c.
     res_bind (VALIDATE (gkCurrentPath c < gkNumPaths c) ERR_INVALID_STATE) (\<lambda>_.
     res_bind (keys_parsePath (make_read_view wire) c) (\<lambda>(view, c).
     res_bind (no_more_data view) (\<lambda>_.
       runGetOnePublicKeyUIFlow fw expert approve c))))"

definition getPublicKeys_handleAPDU ::
  "firmware \<Rightarrow> bool \<Rightarrow> bool \<Rightarrow> u8 \<Rightarrow> u8 \<Rightarrow> wire_data \<Rightarrow> bool \<Rightarrow> get_keys_context stmt" where
  "getPublicKeys_handleAPDU fw expert approve p1 p2 data isNewCall c =
     res_bind (ASSERT (data \<noteq> None)) (\<lambda>_.
     res_bind (ASSERT (length (wire_bytes data) < BUFFER_SIZE_PARANOIA)) (\<lambda>_.
     let c = (if isNewCall then new_get_keys_context else c)\<lparr>gkAnswer := []\<rparr> in
     res_bind (VALIDATE (p2 = P2_UNUSED) ERR_INVALID_REQUEST_PARAMETERS) (\<lambda>_.
     if p1 = 0x00 then getPublicKeys_handleInitAPDU fw expert approve (wire_bytes data) c
     else if p1 = 0x01 then getPublicKeys_handleGetNextKeyAPDU fw expert approve (wire_bytes data) c
     else Inl ERR_INVALID_REQUEST_PARAMETERS)))"

subsection \<open>What is exported\<close>

lemma respond_one_key_Inr:
  assumes "respond_one_key c = Inr c'"
  shows "gkAnswer c' = pubKey (gkExtPubKey c) @ chainCode (gkExtPubKey c)" "gkPathSpec c' = gkPathSpec c"
    "gkNumPaths c' = gkNumPaths c" "gkShown c' = gkShown c" "gkCurrentPath c' = gkCurrentPath c + 1"
  using assms by (auto simp: respond_one_key_def keys_advanceStage_def keys_finish_def Let_def res_bind_Inr_iff
      split: if_splits get_keys_stage_t.splits)

text \<open>The policy of one key, alone or as one of several.\<close>

definition key_policy :: "bool \<Rightarrow> u16 \<Rightarrow> bip44_path_t \<Rightarrow> security_policy_t res" where
  "key_policy expert numPaths p =
     (if numPaths = 1 then policyForGetExtendedPublicKey expert p else policyForGetExtendedPublicKeyBulkExport p)"

lemma one_key_flow:
  assumes "runGetOnePublicKeyUIFlow fw expert approve c = Inr c'"
  shows "\<exists>key policy. deriveExtendedPublicKey fw (gkPathSpec c') = Inr key \<and> gkAnswer c' = pubKey key @ chainCode key \<and>
    key_policy expert (gkNumPaths c') (gkPathSpec c') = Inr policy \<and> policy \<noteq> POLICY_DENY \<and>
    gkPathSpec c' = gkPathSpec c \<and> gkNumPaths c' = gkNumPaths c \<and> set (gkShown c) \<subseteq> set (gkShown c') \<and>
    (policy \<noteq> ALLOW \<longrightarrow> approve \<and> (\<exists>screens. public_key_path_screens (gkPathSpec c') = Inr screens \<and>
      set screens \<subseteq> set (gkShown c') \<and> SCREEN ''Confirm export'' (QUESTION ''public key?'') \<in> set (gkShown c')))"
proof -
  obtain key policy d where d: "key_policy expert (gkNumPaths c) (gkPathSpec c) = Inr policy" "policy \<noteq> POLICY_DENY"
    "deriveExtendedPublicKey fw (gkPathSpec c) = Inr key" "one_key_ui approve policy d = Inr c'"
    "gkPathSpec d = gkPathSpec c" "gkNumPaths d = gkNumPaths c" "gkExtPubKey d = key" "gkShown d = gkShown c"
    using assms by (auto simp: runGetOnePublicKeyUIFlow_def key_policy_def ENSURE_NOT_DENIED_def Let_def
        res_bind_Inr_iff split: if_splits)
  show ?thesis
  proof (cases "policy = ALLOW")
    case True
    then have "respond_one_key d = Inr c'"
      using d(4) by (simp add: one_key_ui_def)
    then show ?thesis
      using respond_one_key_Inr [of d c'] d True by auto
  next
    case False
    then obtain screens where s: "approve" "public_key_path_screens (gkPathSpec d) = Inr screens"
      "respond_one_key (record_keys_shown ((if policy = WARN then [unusual_warning] else []) @ screens @
         [SCREEN ''Confirm export'' (QUESTION ''public key?'')]) d) = Inr c'"
      using d(4) by (auto simp: one_key_ui_def run_screens_def res_bind_Inr_iff split: if_splits)
    then show ?thesis
      using respond_one_key_Inr [OF s(3)] d by (auto simp: record_keys_shown_def)
  qed
qed

lemma several_paths:
  "policyForGetPublicKeysInit (ucast (n :: u16)) = Inr policy \<longleftrightarrow> policy = (if n > 1 then PROMPT else ALLOW)"
proof -
  have "unat (ucast n :: u32) = unat n"
    using unsigned_less [of n, where ?'a = nat] by (simp add: unsigned_ucast_eq take_bit_nat_eq_self_iff)
  then show ?thesis
    by (auto simp: policyForGetPublicKeysInit_def word_less_nat_alt)
qed


subsection \<open>A key\<close>

text \<open>The key of \<open>m/1852'/1815'/0'/0/0\<close>, the first of two.\<close>

definition sample_key_request :: bytes where
  "sample_key_request =
     [5, 0x80, 0, 0x07, 0x3c, 0x80, 0, 0x07, 0x17, 0x80, 0, 0, 0, 0, 0, 0, 0, 0, 0, 0, 0] @ [0, 0, 0, 1]"

lemma sample_key_exported:
  "\<exists>c'. getPublicKeys_handleAPDU sample_firmware False True 0 0 (Some sample_key_request) True c = Inr c'"
proof -
  have "case getPublicKeys_handleAPDU sample_firmware False True 0 0 (Some sample_key_request) True
      new_get_keys_context of Inl _ \<Rightarrow> False | Inr _ \<Rightarrow> True"
    by code_simp
  then show ?thesis
    by (auto simp: getPublicKeys_handleAPDU_def split: sum.splits)
qed


end
