(* ===== verification/DeriveAddress.thy ===== *)
theory DeriveAddress
  imports Evaluation
begin

text \<open>
  \<open>src/deriveAddress/deriveAddress.c\<close>: an address of the device is returned to the host or displayed.
  There is one message; \<open>daIdle\<close> is \<open>ui_idle\<close>, and the magic number that marks a ready response is a
  truth value.
\<close>

record derive_address_context =
  daResponseReady :: bool
  daParams :: addressParams_t
  daAddress :: bytes
  daIdle :: bool
  daShown :: "screen list"
  daAnswer :: bytes

definition new_derive_address_context :: derive_address_context where
  "new_derive_address_context = \<lparr>daResponseReady = False, daParams = blank_params, daAddress = [],
     daIdle = False, daShown = [], daAnswer = []\<rparr>"

abbreviation (input) P1_RETURN :: u8 where "P1_RETURN \<equiv> 1"
abbreviation (input) P1_DISPLAY :: u8 where "P1_DISPLAY \<equiv> 2"

definition record_address_shown :: "screen list \<Rightarrow> derive_address_context \<Rightarrow> derive_address_context" where
  "record_address_shown screens c = c\<lparr>daShown := daShown c @ screens\<rparr>"

definition prepareResponse :: "firmware \<Rightarrow> derive_address_context stmt" where
  "prepareResponse fw c =
     res_bind (deriveAddress fw (daParams c) MAX_ADDRESS_SIZE) (\<lambda>address.
       Inr (c\<lparr>daAddress := address, daResponseReady := True\<rparr>))"

text \<open>The payment step is skipped for reward addresses.\<close>

definition address_info_screens :: "addressParams_t \<Rightarrow> screen list res" where
  "address_info_screens params =
     res_bind (determinePaymentChoice (address_type params)) (\<lambda>payment.
       Inr ((if payment = PAYMENT_NONE then [] else [PAYMENT_INFO params]) @ [STAKING_INFO params]))"

subsection \<open>Return\<close>

definition respond_return :: "derive_address_context stmt" where
  "respond_return c =
     res_bind (ASSERT (daResponseReady c)) (\<lambda>_.
     let c = c\<lparr>daResponseReady := False\<rparr> in
     res_bind (ASSERT (length (daAddress c) \<le> MAX_ADDRESS_SIZE)) (\<lambda>_.
       Inr (c\<lparr>daAnswer := daAddress c, daIdle := True\<rparr>)))"

definition return_ui :: "bool \<Rightarrow> security_policy_t \<Rightarrow> derive_address_context stmt" where
  "return_ui approve policy c =
     (if policy \<in> {WARN, PROMPT}
      then res_bind (address_info_screens (daParams c)) (\<lambda>infoScreens.
        run_screens record_address_shown approve
          ((if policy = WARN then [unusual_warning] else []) @ [SCREEN ''Export'' (TEXT ''address'')] @
           infoScreens @ [SCREEN ''Confirm'' (QUESTION ''export address?'')]) respond_return c)
      else if policy = ALLOW then respond_return c
      else Inl ERR_NOT_IMPLEMENTED)"

definition deriveAddress_handleReturn :: "firmware \<Rightarrow> bool \<Rightarrow> bool \<Rightarrow> derive_address_context stmt" where
  "deriveAddress_handleReturn fw expert approve c =
     res_bind (policyForReturnDeriveAddress expert (daParams c)) (\<lambda>policy.
     res_bind (ENSURE_NOT_DENIED policy) (\<lambda>_.
     res_bind (prepareResponse fw c) (return_ui approve policy)))"

subsection \<open>Display\<close>

definition respond_display :: "derive_address_context stmt" where
  "respond_display c =
     res_bind (ASSERT (daResponseReady c)) (\<lambda>_. Inr (c\<lparr>daAnswer := [], daIdle := True\<rparr>))"

definition display_ui :: "bool \<Rightarrow> security_policy_t \<Rightarrow> derive_address_context stmt" where
  "display_ui approve policy c =
     (if policy \<in> {WARN, SHOW}
      then res_bind (address_info_screens (daParams c)) (\<lambda>infoScreens.
        res_bind (ASSERT (length (daAddress c) \<le> MAX_ADDRESS_SIZE)) (\<lambda>_.
        run_screens record_address_shown approve
          ((if policy = WARN then [unusual_warning] else []) @ infoScreens @
           [SCREEN ''Address'' (ADDRESS (daAddress c)), SCREEN ''Confirm'' (QUESTION ''address?'')])
          respond_display c))
      else Inl ERR_NOT_IMPLEMENTED)"

definition deriveAddress_handleDisplay :: "firmware \<Rightarrow> bool \<Rightarrow> derive_address_context stmt" where
  "deriveAddress_handleDisplay fw approve c =
     res_bind (policyForShowDeriveAddress (daParams c)) (\<lambda>policy.
     res_bind (ENSURE_NOT_DENIED policy) (\<lambda>_.
     res_bind (prepareResponse fw c) (display_ui approve policy)))"

subsection \<open>The message\<close>

definition deriveAddress_handleAPDU ::
  "firmware \<Rightarrow> bool \<Rightarrow> bool \<Rightarrow> u8 \<Rightarrow> u8 \<Rightarrow> wire_data \<Rightarrow> bool \<Rightarrow> derive_address_context stmt" where
  "deriveAddress_handleAPDU fw expert approve p1 p2 data isNewCall c =
     res_bind (VALIDATE (p2 = P2_UNUSED) ERR_INVALID_REQUEST_PARAMETERS) (\<lambda>_.
     let c = (if isNewCall then new_derive_address_context else c)\<lparr>daResponseReady := False, daAnswer := []\<rparr> in
     res_bind (view_parseAddressParams (daParams c) (make_read_view (wire_bytes data))) (\<lambda>(params, view).
     res_bind (no_more_data view) (\<lambda>_.
     let c = c\<lparr>daParams := params\<rparr> in
     if p1 = P1_RETURN then deriveAddress_handleReturn fw expert approve c
     else if p1 = P1_DISPLAY then deriveAddress_handleDisplay fw approve c
     else Inl ERR_INVALID_REQUEST_PARAMETERS)))"

subsection \<open>What is returned and displayed\<close>

lemma prepareResponse_Inr:
  assumes "prepareResponse fw c = Inr d"
  shows "deriveAddress fw (daParams d) 128 = Inr (daAddress d)"
  using assms by (auto simp: prepareResponse_def res_bind_Inr_iff)

lemma respond_return_Inr:
  assumes "respond_return c = Inr c'"
  shows "daParams c' = daParams c" "daAddress c' = daAddress c" "daShown c' = daShown c"
    "daAnswer c' = daAddress c'" "daIdle c'"
  using assms by (auto simp: respond_return_def Let_def res_bind_Inr_iff)

lemma respond_display_Inr:
  assumes "respond_display c = Inr c'"
  shows "daParams c' = daParams c" "daAddress c' = daAddress c" "daShown c' = daShown c"
    "daAnswer c' = []" "daIdle c'"
  using assms by (auto simp: respond_display_def res_bind_Inr_iff)

lemma record_address_shown_simps [simp]:
  "daParams (record_address_shown screens c) = daParams c" "daAddress (record_address_shown screens c) = daAddress c"
  "daShown (record_address_shown screens c) = daShown c @ screens"
  by (simp_all add: record_address_shown_def)

lemma return_ui_Inr:
  assumes "return_ui approve policy c = Inr c'"
  shows "daParams c' = daParams c \<and> daAddress c' = daAddress c \<and> daAnswer c' = daAddress c' \<and> daIdle c' \<and>
    (policy \<noteq> ALLOW \<longrightarrow> approve \<and> (\<exists>screens. address_info_screens (daParams c) = Inr screens \<and>
      set screens \<subseteq> set (daShown c') \<and> SCREEN ''Confirm'' (QUESTION ''export address?'') \<in> set (daShown c')))"
  using assms by (auto simp: return_ui_def run_screens_def res_bind_Inr_iff respond_return_Inr split: if_splits)

lemma display_ui_Inr:
  assumes "display_ui approve policy c = Inr c'"
  shows "daParams c' = daParams c \<and> daAddress c' = daAddress c \<and> daAnswer c' = [] \<and> daIdle c' \<and> approve \<and>
    (\<exists>screens. address_info_screens (daParams c) = Inr screens \<and>
      set screens \<union> {SCREEN ''Address'' (ADDRESS (daAddress c)), SCREEN ''Confirm'' (QUESTION ''address?'')}
        \<subseteq> set (daShown c'))"
  using assms by (auto simp: display_ui_def run_screens_def res_bind_Inr_iff respond_display_Inr split: if_splits)


subsection \<open>An address\<close>

text \<open>The enterprise address of \<open>m/1852'/1815'/0'/0/0\<close> on the mainnet, displayed.\<close>

definition sample_address_request :: bytes where
  "sample_address_request = [6, 1] @
     [5, 0x80, 0, 0x07, 0x3c, 0x80, 0, 0x07, 0x17, 0x80, 0, 0, 0, 0, 0, 0, 0, 0, 0, 0, 0] @ [0x11]"

lemma sample_address_displayed:
  "\<exists>c'. deriveAddress_handleAPDU sample_firmware False True 2 0 (Some sample_address_request) True c = Inr c'"
proof -
  have "case deriveAddress_handleAPDU sample_firmware False True 2 0 (Some sample_address_request) True
      new_derive_address_context of Inl _ \<Rightarrow> False | Inr _ \<Rightarrow> True"
    by code_simp
  then show ?thesis
    by (auto simp: deriveAddress_handleAPDU_def split: sum.splits)
qed


end
