(* ===== verification/SignOpCert.thy ===== *)
theory SignOpCert
  imports Evaluation
begin

text \<open>
  \<open>src/signOpCert/signOpCert.c\<close>: the operational certificate of a pool, in one message.
  \<open>ui_step\<close> is not part of the state, the magic number that marks a ready response is a truth value,
  and \<open>ocIdle\<close> is \<open>ui_idle\<close>: the call is over.
\<close>

record ins_sign_op_cert_context_t =
  ocResponseReady :: bool
  ocKesPublicKey :: bytes
  ocKesPeriod :: u64
  ocIssueCounter :: u64
  ocPoolColdKeyPath :: bip44_path_t
  ocSignature :: bytes
  ocIdle :: bool
  ocShown :: "screen list"
  ocAnswer :: bytes

definition new_op_cert_context :: ins_sign_op_cert_context_t where
  "new_op_cert_context = \<lparr>ocResponseReady = False, ocKesPublicKey = replicate 32 0, ocKesPeriod = 0,
     ocIssueCounter = 0, ocPoolColdKeyPath = blank_path, ocSignature = replicate 64 0, ocIdle = False,
     ocShown = [], ocAnswer = []\<rparr>"

abbreviation (input) KES_PUBLIC_KEY_LENGTH :: nat where "KES_PUBLIC_KEY_LENGTH \<equiv> 32"

definition record_op_cert_shown ::
  "screen list \<Rightarrow> ins_sign_op_cert_context_t \<Rightarrow> ins_sign_op_cert_context_t" where
  "record_op_cert_shown screens c = c\<lparr>ocShown := ocShown c @ screens\<rparr>"

definition parse_op_cert :: "bytes \<Rightarrow> ins_sign_op_cert_context_t stmt" where
  "parse_op_cert wire c =
     res_bind (view_parseBuffer KES_PUBLIC_KEY_LENGTH (make_read_view wire)) (\<lambda>(key, view).
     res_bind (parse_u8be view) (\<lambda>(period, view).
     res_bind (parse_u8be view) (\<lambda>(counter, view).
     res_bind (view_parsePath (ocPoolColdKeyPath c) view) (\<lambda>(p, view).
     res_bind (no_more_data view) (\<lambda>_.
       Inr (c\<lparr>ocKesPublicKey := key, ocKesPeriod := period, ocIssueCounter := counter,
         ocPoolColdKeyPath := p\<rparr>))))))"

definition op_cert_body :: "ins_sign_op_cert_context_t \<Rightarrow> bytes res" where
  "op_cert_body c =
     res_bind (seq
       [view_appendBuffer (ocKesPublicKey c),
        view_appendBuffer (be_write 8 (unat (ocIssueCounter c))),
        view_appendBuffer (be_write 8 (unat (ocKesPeriod c)))] (make_write_view OP_CERT_BODY_LENGTH)) (\<lambda>view.
     res_bind (write_view_processed_size view) (\<lambda>n.
     res_bind (ASSERT (n = OP_CERT_BODY_LENGTH)) (\<lambda>_. Inr (wv_out view))))"

text \<open>The steps from \<open>UI_STEP_CONFIRM_START\<close> to \<open>UI_STEP_CONFIRM\<close>.\<close>

definition op_cert_screens :: "firmware \<Rightarrow> ins_sign_op_cert_context_t \<Rightarrow> screen list res" where
  "op_cert_screens fw c =
     res_bind (bip44_pathToKeyHash fw (ocPoolColdKeyPath c) POOL_KEY_HASH_LENGTH) (\<lambda>poolKeyHash.
       Inr [SCREEN ''Start new'' (QUESTION ''operational certificate?''),
         SCREEN ''Pool cold key path'' (KEY_PATH (ocPoolColdKeyPath c)),
         SCREEN ''Pool ID'' (BECH32 ''pool'' poolKeyHash),
         SCREEN ''KES public key'' (BECH32 ''kes_vk'' (ocKesPublicKey c)),
         SCREEN ''KES period'' (NUMBER (unat (ocKesPeriod c))),
         SCREEN ''Issue counter'' (NUMBER (unat (ocIssueCounter c))),
         SCREEN ''Confirm'' (QUESTION ''operational certificate?'')])"

definition respond_op_cert :: "ins_sign_op_cert_context_t stmt" where
  "respond_op_cert c =
     res_bind (ASSERT (ocResponseReady c)) (\<lambda>_. Inr (c\<lparr>ocAnswer := ocSignature c, ocIdle := True\<rparr>))"

definition op_cert_ui ::
  "firmware \<Rightarrow> bool \<Rightarrow> security_policy_t \<Rightarrow> ins_sign_op_cert_context_t stmt" where
  "op_cert_ui fw approve policy c =
     (if policy \<in> {WARN, PROMPT}
      then res_bind (op_cert_screens fw c) (\<lambda>screens.
        run_screens record_op_cert_shown approve
          ((if policy = WARN then [unusual_warning] else []) @ screens) respond_op_cert c)
      else if policy = ALLOW then respond_op_cert c
      else Inl ERR_NOT_IMPLEMENTED)"

definition signOpCert_handleAPDU ::
  "firmware \<Rightarrow> bool \<Rightarrow> u8 \<Rightarrow> u8 \<Rightarrow> wire_data \<Rightarrow> bool \<Rightarrow> ins_sign_op_cert_context_t stmt" where
  "signOpCert_handleAPDU fw approve p1 p2 data isNewCall c =
     (let c = (if isNewCall then new_op_cert_context else c)\<lparr>ocResponseReady := False, ocAnswer := []\<rparr> in
     res_bind (VALIDATE (p1 = P1_UNUSED) ERR_INVALID_REQUEST_PARAMETERS) (\<lambda>_.
     res_bind (VALIDATE (p2 = P2_UNUSED) ERR_INVALID_REQUEST_PARAMETERS) (\<lambda>_.
     res_bind (parse_op_cert (wire_bytes data) c) (\<lambda>c.
     res_bind (policyForSignOpCert (ocPoolColdKeyPath c)) (\<lambda>policy.
     res_bind (ENSURE_NOT_DENIED policy) (\<lambda>_.
     res_bind (op_cert_body c) (\<lambda>opCertBody.
     res_bind (getOpCertSignature fw (ocPoolColdKeyPath c) opCertBody ED25519_SIGNATURE_LENGTH) (\<lambda>signature.
       op_cert_ui fw approve policy (c\<lparr>ocSignature := signature, ocResponseReady := True\<rparr>)))))))))"

subsection \<open>What is signed is what is shown\<close>

lemma op_cert_body_Inr:
  "op_cert_body c = Inr body \<longleftrightarrow>
     length (ocKesPublicKey c) = 32 \<and>
     body = ocKesPublicKey c @ be_write 8 (unat (ocIssueCounter c)) @ be_write 8 (unat (ocKesPeriod c))"
  by (auto simp: op_cert_body_def res_bind_Inr_iff view_appendBuffer_def write_view_check_def
      write_view_remaining_size_def write_view_processed_size_def make_write_view_def Let_def split: if_splits)

lemma signed_with_path:
  "signRawMessageWithPath fw p message n = Inr signature \<Longrightarrow>
     eddsa_sign fw (take (unat (path_length p)) (path p)) message = Some signature \<and> length signature = 64"
  by (auto simp: signRawMessageWithPath_def res_bind_Inr_iff split: option.splits)

text \<open>
  C10. The answer to an operational certificate is the device's signature under the pool cold key of
  exactly the 48 bytes of the certificate: the KES key, the issue counter and the KES period; the
  user has confirmed screens with the path and the pool that the key belongs to, the KES key, the
  period and the counter.
\<close>

theorem operational_certificate_shown:
  assumes "signOpCert_handleAPDU fw approve p1 p2 data isNewCall c = Inr c'"
  shows "\<exists>poolKeyHash. approve \<and> bip44_isPoolColdKeyPath (ocPoolColdKeyPath c') = Inr True \<and>
     bip44_pathToKeyHash fw (ocPoolColdKeyPath c') 28 = Inr poolKeyHash \<and>
     eddsa_sign fw (take (unat (path_length (ocPoolColdKeyPath c'))) (path (ocPoolColdKeyPath c')))
       (ocKesPublicKey c' @ be_write 8 (unat (ocIssueCounter c')) @ be_write 8 (unat (ocKesPeriod c'))) =
       Some (ocAnswer c') \<and>
     {SCREEN ''Pool cold key path'' (KEY_PATH (ocPoolColdKeyPath c')),
      SCREEN ''Pool ID'' (BECH32 ''pool'' poolKeyHash),
      SCREEN ''KES public key'' (BECH32 ''kes_vk'' (ocKesPublicKey c')),
      SCREEN ''KES period'' (NUMBER (unat (ocKesPeriod c'))),
      SCREEN ''Issue counter'' (NUMBER (unat (ocIssueCounter c'))),
      SCREEN ''Confirm'' (QUESTION ''operational certificate?'')} \<subseteq> set (ocShown c')"
proof -
  obtain d policy body signature where d: "policyForSignOpCert (ocPoolColdKeyPath d) = Inr policy"
    "op_cert_body d = Inr body"
    "getOpCertSignature fw (ocPoolColdKeyPath d) body ED25519_SIGNATURE_LENGTH = Inr signature"
    "op_cert_ui fw approve policy (d\<lparr>ocSignature := signature, ocResponseReady := True\<rparr>) = Inr c'"
    "ENSURE_NOT_DENIED policy = Inr ()"
    using assms by (auto simp: signOpCert_handleAPDU_def res_bind_Inr_iff)
  have "policy \<in> {WARN, PROMPT}"
    using d(1,5) by (auto simp: policyForSignOpCert_def ENSURE_NOT_DENIED_def res_bind_Inr_iff split: if_splits)
  then show ?thesis
    using d(2-4) signed_with_path [of fw "ocPoolColdKeyPath d" body 64 signature]
    by (auto simp: op_cert_ui_def op_cert_screens_def run_screens_def respond_op_cert_def getOpCertSignature_def
        record_op_cert_shown_def op_cert_body_Inr res_bind_Inr_iff ASSERT_def split: if_splits)
qed

subsection \<open>A certificate\<close>

text \<open>\<open>m/1853'/1815'/0'/0'\<close>.\<close>

definition sample_cold_path :: bytes where
  "sample_cold_path = [4, 0x80, 0, 0x07, 0x3d, 0x80, 0, 0x07, 0x17, 0x80, 0, 0, 0, 0x80, 0, 0, 0]"

definition sample_op_cert :: bytes where
  "sample_op_cert = replicate 32 3 @ [0, 0, 0, 0, 0, 0, 0, 9] @ [0, 0, 0, 0, 0, 0, 0, 2] @ sample_cold_path"

lemma sample_op_cert_signed:
  "\<exists>c'. signOpCert_handleAPDU sample_firmware True 0 0 (Some sample_op_cert) True c = Inr c'"
proof -
  have "case signOpCert_handleAPDU sample_firmware True 0 0 (Some sample_op_cert) True new_op_cert_context of
      Inl _ \<Rightarrow> False | Inr _ \<Rightarrow> True"
    by code_simp
  then show ?thesis
    by (auto simp: signOpCert_handleAPDU_def split: sum.splits)
qed

lemma operational_certificate_shown_witness:
  "\<exists>c' poolKeyHash. signOpCert_handleAPDU sample_firmware True 0 0 (Some sample_op_cert) True new_op_cert_context = Inr c' \<and>
     bip44_pathToKeyHash sample_firmware (ocPoolColdKeyPath c') 28 = Inr poolKeyHash"
proof -
  obtain c' where c: "signOpCert_handleAPDU sample_firmware True 0 0 (Some sample_op_cert) True new_op_cert_context = Inr c'"
    using sample_op_cert_signed by blast
  show ?thesis
    using operational_certificate_shown [OF c] c by blast
qed

end
