(* ===== verification/SignCVote.thy ===== *)
theory SignCVote
  imports Evaluation VotecastHashBuilder
begin

text \<open>
  \<open>src/signCVote/signCVote.c\<close> and \<open>signCVote_ui.c\<close>: a vote in the CIP-36 voting arrives in chunks, is
  confirmed, and its digest is signed with one key. \<open>ui_step\<close> is not part of the state and \<open>cvIdle\<close> is
  \<open>ui_idle\<close>. The members of the union are used within one message each, so they are arguments.
\<close>

subsection \<open>The context\<close>

datatype sign_cvote_stage_t =
    VOTECAST_STAGE_NONE | VOTECAST_STAGE_INIT | VOTECAST_STAGE_CHUNK | VOTECAST_STAGE_CONFIRM
  | VOTECAST_STAGE_WITNESS

record ins_sign_cvote_context_t =
  cvStage :: sign_cvote_stage_t
  cvRemaining :: nat
  cvBuilder :: votecast_hash_builder_t
  cvHash :: bytes
  cvIdle :: bool
  cvShown :: "screen list"
  cvAnswer :: bytes

abbreviation (input) VOTE_PLAN_ID_SIZE :: nat where "VOTE_PLAN_ID_SIZE \<equiv> 32"
abbreviation (input) MAX_VOTECAST_CHUNK_SIZE :: nat where "MAX_VOTECAST_CHUNK_SIZE \<equiv> 240"
abbreviation (input) VOTECAST_HASH_LENGTH :: nat where "VOTECAST_HASH_LENGTH \<equiv> 32"

definition new_cvote_context :: ins_sign_cvote_context_t where
  "new_cvote_context = \<lparr>cvStage = VOTECAST_STAGE_INIT, cvRemaining = 0,
     cvBuilder = \<lparr>votecastState = VOTECAST_HASH_BUILDER_INIT, remainingBytes = 0,
       votecastHash = \<lparr>initialized_magic = 0, absorbed = []\<rparr>\<rparr>,
     cvHash = replicate 32 0, cvIdle = False, cvShown = [], cvAnswer = []\<rparr>"

definition record_cvote_shown :: "screen list \<Rightarrow> ins_sign_cvote_context_t \<Rightarrow> ins_sign_cvote_context_t" where
  "record_cvote_shown screens c = c\<lparr>cvShown := cvShown c @ screens\<rparr>"

definition on_vote :: "votecast_hash_builder_t stmt \<Rightarrow> ins_sign_cvote_context_t stmt" where
  "on_vote s c = res_bind (s (cvBuilder c)) (\<lambda>b. Inr (c\<lparr>cvBuilder := b\<rparr>))"

definition vote_advanceStage :: "ins_sign_cvote_context_t stmt" where
  "vote_advanceStage c = (case cvStage c of
       VOTECAST_STAGE_INIT \<Rightarrow>
         Inr (c\<lparr>cvStage := if cvRemaining c = 0 then VOTECAST_STAGE_CONFIRM else VOTECAST_STAGE_CHUNK\<rparr>)
     | VOTECAST_STAGE_CHUNK \<Rightarrow>
         res_bind (ASSERT (cvRemaining c = 0)) (\<lambda>_. Inr (c\<lparr>cvStage := VOTECAST_STAGE_CONFIRM\<rparr>))
     | VOTECAST_STAGE_CONFIRM \<Rightarrow> Inr (c\<lparr>cvStage := VOTECAST_STAGE_WITNESS\<rparr>)
     | VOTECAST_STAGE_WITNESS \<Rightarrow> Inr (c\<lparr>cvStage := VOTECAST_STAGE_NONE, cvIdle := True\<rparr>)
     | VOTECAST_STAGE_NONE \<Rightarrow> Inl ERR_ASSERT)"

definition CHECK_STAGE_vote :: "sign_cvote_stage_t \<Rightarrow> ins_sign_cvote_context_t stmt" where
  "CHECK_STAGE_vote expected c = (if cvStage c = expected then Inr c else Inl ERR_INVALID_STATE)"

subsection \<open>Handlers\<close>

definition parse_votecast_head :: "bytes \<Rightarrow> (u32 \<times> bytes \<times> u8 \<times> u8) res" where
  "parse_votecast_head wire =
     res_bind (parse_u4be (make_read_view wire)) (\<lambda>(votecastSize, view).
     res_bind (read_view_remaining_size view) (\<lambda>remaining.
     res_bind (VALIDATE (remaining > VOTE_PLAN_ID_SIZE + 1 + 1) ERR_INVALID_DATA) (\<lambda>_.
     res_bind (view_parseBuffer VOTE_PLAN_ID_SIZE view) (\<lambda>(votePlanId, view).
     res_bind (parse_u1be view) (\<lambda>(proposalIndex, view).
     res_bind (parse_u1be view) (\<lambda>(payloadTypeTag, _).
       Inr (votecastSize, votePlanId, proposalIndex, payloadTypeTag)))))))"

definition absorb_vote_chunk :: "bytes \<Rightarrow> ins_sign_cvote_context_t stmt" where
  "absorb_vote_chunk chunk c =
     res_bind (on_vote (votecastHashBuilder_chunk chunk) c) (\<lambda>c.
     res_bind (ASSERT (cvRemaining c \<ge> length chunk)) (\<lambda>_.
       Inr (c\<lparr>cvRemaining := cvRemaining c - length chunk\<rparr>)))"

definition vote_details :: "bytes \<Rightarrow> u8 \<Rightarrow> u8 \<Rightarrow> screen list" where
  "vote_details votePlanId proposalIndex payloadTypeTag =
     [SCREEN ''Vote plan id'' (HEX votePlanId),
      SCREEN ''Proposal index'' (NUMBER (unat proposalIndex)),
      SCREEN ''Payload type tag'' (NUMBER (unat payloadTypeTag))]"

definition respond_vote :: "ins_sign_cvote_context_t stmt" where
  "respond_vote c = vote_advanceStage (c\<lparr>cvAnswer := []\<rparr>)"

text \<open>\<open>POLICY_SHOW_BEFORE_RESPONSE\<close> starts at the vote plan, without the first question.\<close>

definition init_vote_ui :: "bool \<Rightarrow> security_policy_t \<Rightarrow> screen list \<Rightarrow> ins_sign_cvote_context_t stmt" where
  "init_vote_ui approve policy details c =
     (if policy = PROMPT
      then run_screens record_cvote_shown approve
        (SCREEN ''Start new'' (QUESTION ''vote? (CIP-36)'') # details) respond_vote c
      else select_screens record_cvote_shown approve [SHOW] policy details respond_vote c)"

definition signCVote_handleInitAPDU :: "bool \<Rightarrow> bytes \<Rightarrow> ins_sign_cvote_context_t stmt" where
  "signCVote_handleInitAPDU approve wire c =
     res_bind (CHECK_STAGE_vote VOTECAST_STAGE_INIT c) (\<lambda>c.
     res_bind (parse_votecast_head wire) (\<lambda>(votecastSize, votePlanId, proposalIndex, payloadTypeTag).
     let c = c\<lparr>cvRemaining := unat votecastSize\<rparr>; policy = policyForSignCVoteInit in
     res_bind (ENSURE_NOT_DENIED policy) (\<lambda>_.
     res_bind (read_view_skip 4 (make_read_view wire)) (\<lambda>view.
     res_bind (read_view_remaining_size view) (\<lambda>chunkSize.
     res_bind (VALIDATE (chunkSize \<le> MAX_VOTECAST_CHUNK_SIZE) ERR_INVALID_DATA) (\<lambda>_.
     res_bind (VALIDATE (chunkSize \<le> cvRemaining c) ERR_INVALID_DATA) (\<lambda>_.
     res_bind (on_vote (votecastHashBuilder_init (cvRemaining c)) c) (\<lambda>c.
     res_bind (absorb_vote_chunk (view_rest view) c) (\<lambda>c.
       init_vote_ui approve policy (vote_details votePlanId proposalIndex payloadTypeTag) c)))))))))"

definition signCVote_handleVotecastChunkAPDU :: "bytes \<Rightarrow> ins_sign_cvote_context_t stmt" where
  "signCVote_handleVotecastChunkAPDU wire c =
     res_bind (CHECK_STAGE_vote VOTECAST_STAGE_CHUNK c) (\<lambda>c.
     res_bind (read_view_remaining_size (make_read_view wire)) (\<lambda>chunkSize.
     res_bind (VALIDATE (chunkSize > 0) ERR_INVALID_DATA) (\<lambda>_.
     res_bind (VALIDATE (chunkSize \<le> MAX_VOTECAST_CHUNK_SIZE) ERR_INVALID_DATA) (\<lambda>_.
     res_bind (VALIDATE (chunkSize \<le> cvRemaining c) ERR_INVALID_DATA) (\<lambda>_.
     res_bind (absorb_vote_chunk (view_rest (make_read_view wire)) c) (\<lambda>c.
     let c = c\<lparr>cvAnswer := []\<rparr> in
       do_if (cvRemaining c = 0) vote_advanceStage c))))))"

definition respond_vote_hash :: "ins_sign_cvote_context_t stmt" where
  "respond_vote_hash c = vote_advanceStage (c\<lparr>cvAnswer := cvHash c\<rparr>)"

definition signCVote_handleConfirmAPDU ::
  "firmware \<Rightarrow> bool \<Rightarrow> bytes \<Rightarrow> ins_sign_cvote_context_t stmt" where
  "signCVote_handleConfirmAPDU fw approve wire c =
     res_bind (CHECK_STAGE_vote VOTECAST_STAGE_CONFIRM c) (\<lambda>c.
     res_bind (VALIDATE (length wire = 0) ERR_INVALID_DATA) (\<lambda>_.
     let policy = policyForSignCVoteConfirm in
     res_bind (ENSURE_NOT_DENIED policy) (\<lambda>_.
     res_bind (votecastHashBuilder_finalize (blake2b_256 fw) VOTECAST_HASH_LENGTH (cvBuilder c)) (\<lambda>(hash, b).
       select_screens record_cvote_shown approve [PROMPT] policy
         [SCREEN ''Confirm'' (QUESTION ''vote?'')] respond_vote_hash (c\<lparr>cvBuilder := b, cvHash := hash\<rparr>)))))"

definition vote_witness_screens :: "security_policy_t \<Rightarrow> bip44_path_t \<Rightarrow> screen list" where
  "vote_witness_screens policy witnessPath =
     (if policy = WARN then [SCREEN ''WARNING:'' (TEXT ''unusual witness requested'')] else []) @
     [SCREEN ''Witness path'' (KEY_PATH witnessPath), SCREEN ''Sign using'' (QUESTION ''this witness?'')]"

definition respond_vote_witness :: "bytes \<Rightarrow> ins_sign_cvote_context_t stmt" where
  "respond_vote_witness signature c = vote_advanceStage (c\<lparr>cvAnswer := signature\<rparr>)"

definition signCVote_handleWitnessAPDU ::
  "firmware \<Rightarrow> bool \<Rightarrow> bytes \<Rightarrow> ins_sign_cvote_context_t stmt" where
  "signCVote_handleWitnessAPDU fw approve wire c =
     res_bind (CHECK_STAGE_vote VOTECAST_STAGE_WITNESS c) (\<lambda>c.
     res_bind (bip44_parseFromWire wire blank_path) (\<lambda>(parsedSize, witnessPath).
     res_bind (VALIDATE (parsedSize = length wire) ERR_INVALID_DATA) (\<lambda>_.
     res_bind (policyForSignCVoteWitness witnessPath) (\<lambda>policy.
     res_bind (ENSURE_NOT_DENIED policy) (\<lambda>_.
     res_bind (getWitness fw witnessPath (cvHash c) ED25519_SIGNATURE_LENGTH) (\<lambda>signature.
       select_screens record_cvote_shown approve [WARN, SHOW] policy (vote_witness_screens policy witnessPath)
         (respond_vote_witness signature) c))))))"

definition signCVote_handleAPDU ::
  "firmware \<Rightarrow> bool \<Rightarrow> u8 \<Rightarrow> u8 \<Rightarrow> wire_data \<Rightarrow> bool \<Rightarrow> ins_sign_cvote_context_t stmt" where
  "signCVote_handleAPDU fw approve p1 p2 data isNewCall c =
     res_bind (if p1 = 0x03 then ASSERT (data = None)
       else res_bind (ASSERT (data \<noteq> None)) (\<lambda>_. ASSERT (length (wire_bytes data) < BUFFER_SIZE_PARANOIA))) (\<lambda>_.
     let c = (if isNewCall then new_cvote_context else c)\<lparr>cvAnswer := []\<rparr>; wire = wire_bytes data in
     res_bind (VALIDATE (p2 = P2_UNUSED) ERR_INVALID_REQUEST_PARAMETERS) (\<lambda>_.
     if p1 = 0x01 then signCVote_handleInitAPDU approve wire c
     else if p1 = 0x02 then signCVote_handleVotecastChunkAPDU wire c
     else if p1 = 0x03 then signCVote_handleConfirmAPDU fw approve wire c
     else if p1 = 0x04 then signCVote_handleWitnessAPDU fw approve wire c
     else Inl ERR_INVALID_REQUEST_PARAMETERS))"

subsection \<open>Sessions\<close>

text \<open>A call and its messages, as long as none of them fails.\<close>

inductive vote_session :: "firmware \<Rightarrow> ins_sign_cvote_context_t \<Rightarrow> bool" for fw where
  begins: "vote_session fw new_cvote_context"
| message: "vote_session fw c \<Longrightarrow> signCVote_handleAPDU fw approve p1 p2 data isNewCall c = Inr c' \<Longrightarrow>
    vote_session fw c'"

text \<open>
  The vote so far is what the builder has absorbed and what is still missing; its first bytes have
  been displayed. Once it is confirmed the hash in the context is its digest.
\<close>

definition vote_shown :: "bytes \<Rightarrow> ins_sign_cvote_context_t \<Rightarrow> bool" where
  "vote_shown vote c \<longleftrightarrow> 34 < length vote \<and>
     set (SCREEN ''Start new'' (QUESTION ''vote? (CIP-36)'') #
       vote_details (take 32 vote) (vote ! 32) (vote ! 33)) \<subseteq> set (cvShown c)"

definition vote_inv :: "firmware \<Rightarrow> ins_sign_cvote_context_t \<Rightarrow> bool" where
  "vote_inv fw c \<longleftrightarrow> (case cvStage c of
       VOTECAST_STAGE_NONE \<Rightarrow> True
     | VOTECAST_STAGE_INIT \<Rightarrow> True
     | VOTECAST_STAGE_WITNESS \<Rightarrow> (\<exists>vote. vote_shown vote c \<and> blake2b_256 fw vote = Some (cvHash c) \<and>
         SCREEN ''Confirm'' (QUESTION ''vote?'') \<in> set (cvShown c))
     | _ \<Rightarrow> vote_shown (absorbed (votecastHash (cvBuilder c))) c \<and>
         remainingBytes (cvBuilder c) = cvRemaining c)"

lemma be_read_byte: "rest \<noteq> [] \<Longrightarrow> be_read (take (Suc 0) rest) = unat (hd rest)"
  by (cases rest) (simp_all add: be_read_def)

lemma vote_head:
  assumes "parse_votecast_head wire = Inr (votecastSize, votePlanId, proposalIndex, payloadTypeTag)"
  shows "rv_ok (make_read_view wire)" "38 < length wire"
    "votePlanId = take 32 (drop 4 wire)" "proposalIndex = drop 4 wire ! 32" "payloadTypeTag = drop 4 wire ! 33"
proof -
  let ?v = "make_read_view wire"
  show ok: "rv_ok ?v"
    using assms by (auto simp: parse_votecast_head_def res_bind_Inr_iff parse_u4be_def parse_ube_def remaining_Inr)
  have r: "view_rest ?v = wire"
    by (simp add: view_rest_def make_read_view_def)
  have "38 < length wire \<and> votePlanId = take 32 (drop 4 wire) \<and>
      proposalIndex = hd (drop 36 wire) \<and> payloadTypeTag = hd (drop 37 wire)"
    using assms ok by (auto simp: parse_votecast_head_def res_bind_Inr_iff parse_u4be_def parse_u1be_def
        parse_ube_eq parseBuffer_eq remaining_Inr advance_ok r be_read_byte split: if_splits)
  then show "38 < length wire" "votePlanId = take 32 (drop 4 wire)" "proposalIndex = drop 4 wire ! 32"
    "payloadTypeTag = drop 4 wire ! 33"
    by (simp_all add: hd_drop_conv_nth)
qed

lemma absorb_vote_chunk_Inr:
  assumes "absorb_vote_chunk chunk c = Inr c'"
  shows "absorbed (votecastHash (cvBuilder c')) = absorbed (votecastHash (cvBuilder c)) @ chunk"
    "remainingBytes (cvBuilder c') = remainingBytes (cvBuilder c) - length chunk"
    "cvRemaining c' = cvRemaining c - length chunk" "cvStage c' = cvStage c" "cvShown c' = cvShown c"
  using assms
  by (auto simp: absorb_vote_chunk_def on_vote_def votecastHashBuilder_chunk_def votecast_append_data_def
      blake2b_append_Inr res_bind_Inr_iff)

lemma vote_shown_append:
  "vote_shown vote c \<Longrightarrow> cvShown c' = cvShown c @ screens \<Longrightarrow> vote_shown (vote @ chunk) c'"
  by (auto simp: vote_shown_def nth_append)

lemma advance_vote:
  assumes "vote_advanceStage c = Inr c'"
  shows "cvShown c' = cvShown c" "cvBuilder c' = cvBuilder c" "cvRemaining c' = cvRemaining c"
    "cvHash c' = cvHash c" "cvAnswer c' = cvAnswer c"
    "(cvStage c, cvStage c') \<in> {(VOTECAST_STAGE_INIT, VOTECAST_STAGE_CONFIRM),
      (VOTECAST_STAGE_INIT, VOTECAST_STAGE_CHUNK), (VOTECAST_STAGE_CHUNK, VOTECAST_STAGE_CONFIRM),
      (VOTECAST_STAGE_CONFIRM, VOTECAST_STAGE_WITNESS), (VOTECAST_STAGE_WITNESS, VOTECAST_STAGE_NONE)}"
  using assms by (auto simp: vote_advanceStage_def res_bind_Inr_iff split: sign_cvote_stage_t.splits if_splits)

lemma CHECK_STAGE_vote_Inr: "CHECK_STAGE_vote s c = Inr c' \<longleftrightarrow> cvStage c = s \<and> c' = c"
  by (auto simp: CHECK_STAGE_vote_def)

lemma init_vote_inv:
  assumes "signCVote_handleInitAPDU approve wire c = Inr c'"
  shows "vote_inv fw c'"
proof -
  obtain size votePlanId proposalIndex payloadTypeTag view d e where h:
    "parse_votecast_head wire = Inr (size, votePlanId, proposalIndex, payloadTypeTag)"
    "read_view_skip 4 (make_read_view wire) = Inr view"
    "on_vote (votecastHashBuilder_init (unat size)) (c\<lparr>cvRemaining := unat size\<rparr>) = Inr d"
    "absorb_vote_chunk (view_rest view) d = Inr e"
    "init_vote_ui approve PROMPT (vote_details votePlanId proposalIndex payloadTypeTag) e = Inr c'"
    and stage: "cvStage c = VOTECAST_STAGE_INIT"
    using assms by (auto simp: signCVote_handleInitAPDU_def policyForSignCVoteInit_def CHECK_STAGE_vote_Inr
        res_bind_Inr_iff Let_def)
  note p = vote_head [OF h(1)]
  have rest: "view_rest view = drop 4 wire"
    using h(2) p(1,2) by (simp add: skip_eq) (auto simp: view_rest_def make_read_view_def advance_def split: if_splits)
  have d: "absorbed (votecastHash (cvBuilder d)) = []" "remainingBytes (cvBuilder d) = cvRemaining d" "cvStage d = VOTECAST_STAGE_INIT"
    using h(3) stage by (auto simp: on_vote_def votecastHashBuilder_init_def blake2b_init_def res_bind_Inr_iff)
  note e = absorb_vote_chunk_Inr [OF h(4)]
  have a: "vote_advanceStage (e\<lparr>cvShown := cvShown e @
      SCREEN ''Start new'' (QUESTION ''vote? (CIP-36)'') # vote_details votePlanId proposalIndex payloadTypeTag,
      cvAnswer := []\<rparr>) = Inr c'"
    using h(5) by (simp add: init_vote_ui_def run_screens_def respond_vote_def record_cvote_shown_def split: if_splits)
  have "vote_shown (drop 4 wire) c'" "remainingBytes (cvBuilder c') = cvRemaining c'"
    "absorbed (votecastHash (cvBuilder c')) = drop 4 wire"
    using advance_vote(1-3) [OF a] p(2-) d e rest by (auto simp: vote_shown_def)
  then show ?thesis
    using advance_vote(6) [OF a] d(3) e(4) by (auto simp: vote_inv_def)
qed

lemma chunk_vote_inv:
  assumes "vote_inv fw c" "signCVote_handleVotecastChunkAPDU wire c = Inr c'"
  shows "vote_inv fw c'"
proof -
  obtain chunk d where h: "absorb_vote_chunk chunk c = Inr d"
    "do_if (cvRemaining d = 0) vote_advanceStage (d\<lparr>cvAnswer := []\<rparr>) = Inr c'"
    and stage: "cvStage c = VOTECAST_STAGE_CHUNK"
    using assms(2) by (auto simp: signCVote_handleVotecastChunkAPDU_def CHECK_STAGE_vote_Inr res_bind_Inr_iff)
  note d = absorb_vote_chunk_Inr [OF h(1)]
  have shown: "vote_shown (absorbed (votecastHash (cvBuilder d))) d" "remainingBytes (cvBuilder d) = cvRemaining d"
    using assms(1) stage d vote_shown_append [of _ c d "[]"] by (auto simp: vote_inv_def)
  show ?thesis
  proof (cases "cvRemaining d = 0")
    case True
    then have a: "vote_advanceStage (d\<lparr>cvAnswer := []\<rparr>) = Inr c'"
      using h(2) by (simp add: do_if_def)
    show ?thesis
      using advance_vote [OF a] shown d(4) stage by (auto simp: vote_inv_def vote_shown_def)
  next
    case False
    then show ?thesis
      using h(2) shown d(4) stage by (auto simp: do_if_def vote_inv_def vote_shown_def)
  qed
qed

lemma confirm_vote_inv:
  assumes "vote_inv fw c" "signCVote_handleConfirmAPDU fw approve wire c = Inr c'"
  shows "vote_inv fw c'"
proof -
  obtain b hash where h: "votecastHashBuilder_finalize (blake2b_256 fw) 32 (cvBuilder c) = Inr (hash, b)"
    "vote_advanceStage (c\<lparr>cvBuilder := b, cvHash := hash,
       cvShown := cvShown c @ [SCREEN ''Confirm'' (QUESTION ''vote?'')], cvAnswer := hash\<rparr>) = Inr c'"
    and stage: "cvStage c = VOTECAST_STAGE_CONFIRM"
    using assms(2) by (auto simp: signCVote_handleConfirmAPDU_def CHECK_STAGE_vote_Inr policyForSignCVoteConfirm_def
        select_screens_def run_screens_def record_cvote_shown_def respond_vote_hash_def res_bind_Inr_iff split: if_splits)
  let ?vote = "absorbed (votecastHash (cvBuilder c))"
  have "blake2b_256 fw ?vote = Some hash"
    using h(1) by (auto simp: votecastHashBuilder_finalize_def blake2b_finalize_def res_bind_Inr_iff
        split: if_splits option.splits)
  moreover have "vote_shown ?vote c"
    using assms(1) stage by (simp add: vote_inv_def)
  ultimately show ?thesis
    using advance_vote [OF h(2)] stage by (auto simp: vote_inv_def vote_shown_def intro!: exI [of _ ?vote])
qed

lemma witness_vote:
  assumes "signCVote_handleWitnessAPDU fw approve wire c = Inr c'"
  shows "cvStage c = VOTECAST_STAGE_WITNESS" "cvStage c' = VOTECAST_STAGE_NONE"
    "\<exists>p. eddsa_sign fw (take (unat (path_length p)) (path p)) (cvHash c) = Some (cvAnswer c') \<and>
      bip44_classifyPath p = Inr PATH_CVOTE_KEY \<and>
      set (cvShown c) \<subseteq> set (cvShown c') \<and>
      SCREEN ''Witness path'' (KEY_PATH p) \<in> set (cvShown c')"
proof -
  obtain p policy signature where h: "policyForSignCVoteWitness p = Inr policy" "ENSURE_NOT_DENIED policy = Inr ()"
    "getWitness fw p (cvHash c) 64 = Inr signature"
    "select_screens record_cvote_shown approve [WARN, SHOW] policy (vote_witness_screens policy p)
       (respond_vote_witness signature) c = Inr c'"
    and stage: "cvStage c = VOTECAST_STAGE_WITNESS"
    using assms by (auto simp: signCVote_handleWitnessAPDU_def CHECK_STAGE_vote_Inr res_bind_Inr_iff)
  have cl: "bip44_classifyPath p = Inr PATH_CVOTE_KEY" "policy \<in> {WARN, SHOW}"
    using h(1,2) by (auto simp: policyForSignCVoteWitness_def ENSURE_NOT_DENIED_def res_bind_Inr_iff
        split: if_splits)
  have a: "vote_advanceStage (c\<lparr>cvShown := cvShown c @ vote_witness_screens policy p, cvAnswer := signature\<rparr>) = Inr c'"
    using h(4) cl(2) by (auto simp: select_screens_def run_screens_def respond_vote_witness_def
        record_cvote_shown_def vote_witness_screens_def split: if_splits)
  have s: "eddsa_sign fw (take (unat (path_length p)) (path p)) (cvHash c) = Some signature"
    using h(3) by (auto simp: getWitness_def signRawMessageWithPath_def res_bind_Inr_iff split: option.splits)
  show "cvStage c = VOTECAST_STAGE_WITNESS" by (rule stage)
  show "cvStage c' = VOTECAST_STAGE_NONE"
    using advance_vote(6) [OF a] stage by auto
  show "\<exists>p. eddsa_sign fw (take (unat (path_length p)) (path p)) (cvHash c) = Some (cvAnswer c') \<and>
      bip44_classifyPath p = Inr PATH_CVOTE_KEY \<and>
      set (cvShown c) \<subseteq> set (cvShown c') \<and>
      SCREEN ''Witness path'' (KEY_PATH p) \<in> set (cvShown c')"
    using advance_vote(1,5) [OF a] s cl(1) by (intro exI [of _ p]) (auto simp: vote_witness_screens_def)
qed

lemma vote_session_inv:
  assumes "vote_session fw c" shows "vote_inv fw c"
  using assms
proof induction
  case begins
  show ?case by (simp add: vote_inv_def new_cvote_context_def)
next
  case (message c approve p1 p2 data isNewCall c')
  let ?c = "(if isNewCall then new_cvote_context else c)\<lparr>cvAnswer := []\<rparr>"
  have i: "vote_inv fw ?c"
    using message.IH by (auto simp: vote_inv_def vote_shown_def new_cvote_context_def split: sign_cvote_stage_t.splits)
  consider "signCVote_handleInitAPDU approve (wire_bytes data) ?c = Inr c'"
    | "signCVote_handleVotecastChunkAPDU (wire_bytes data) ?c = Inr c'"
    | "signCVote_handleConfirmAPDU fw approve (wire_bytes data) ?c = Inr c'"
    | "signCVote_handleWitnessAPDU fw approve (wire_bytes data) ?c = Inr c'"
    using message.hyps(2) by (auto simp: signCVote_handleAPDU_def Let_def res_bind_Inr_iff split: if_splits)
  then show ?case
  proof cases
    case 4
    then show ?thesis
      using witness_vote(2) [OF 4] by (simp add: vote_inv_def)
  qed (use init_vote_inv chunk_vote_inv [OF i] confirm_vote_inv [OF i] in blast)+
qed


subsection \<open>A vote\<close>

text \<open>A vote of 36 bytes, signed with \<open>m/1694'/1815'/0'/0/0\<close>.\<close>

definition sample_vote_messages :: "(bool \<times> u8 \<times> wire_data) list" where
  "sample_vote_messages =
     [(True, 0x01, Some ([0, 0, 0, 36] @ replicate 32 5 @ [2, 1, 7])), (False, 0x02, Some [8]), (False, 0x03, None)]"

definition sample_cvote_path :: bytes where
  "sample_cvote_path = [5, 0x80, 0, 0x06, 0x9e, 0x80, 0, 0x07, 0x17, 0x80, 0, 0, 0, 0, 0, 0, 0, 0, 0, 0, 0]"

fun run_votes ::
  "firmware \<Rightarrow> (bool \<times> u8 \<times> wire_data) list \<Rightarrow> ins_sign_cvote_context_t \<Rightarrow> ins_sign_cvote_context_t res" where
  "run_votes fw [] c = Inr c"
| "run_votes fw ((isNewCall, p1, data) # ms) c =
     res_bind (signCVote_handleAPDU fw True p1 0 data isNewCall c) (run_votes fw ms)"

lemma run_votes_append: "run_votes fw (ms @ ns) c = res_bind (run_votes fw ms c) (run_votes fw ns)"
proof (induction fw ms c rule: run_votes.induct)
  case (2 fw isNewCall p1 data ms c)
  then show ?case
    by (cases "signCVote_handleAPDU fw True p1 0 data isNewCall c") simp_all
qed simp

lemma run_votes: "run_votes fw ms c = Inr c' \<Longrightarrow> vote_session fw c \<Longrightarrow> vote_session fw c'"
  by (induction fw ms c rule: run_votes.induct) (auto simp: res_bind_Inr_iff intro: vote_session.message)


end
