(* ===== verification/SignMsg.thy ===== *)
theory SignMsg
  imports Evaluation
begin

text \<open>
  \<open>src/signMsg/signMsg.c\<close> and \<open>signMsg_ui.c\<close>: the CIP-8 signature of a message that arrives in chunks,
  and \<open>str_isUnambiguousAscii\<close> of \<open>src/utils/textUtils.c\<close>. \<open>ui_step\<close> is not part of the state, \<open>smIdle\<close>
  is \<open>ui_idle\<close>, and the address field type is \<open>None\<close> while the context is zero.
\<close>

subsection \<open>Texts that can be displayed\<close>

definition str_isPrintableAsciiWithoutSpaces :: "bytes \<Rightarrow> bool res" where
  "str_isPrintableAsciiWithoutSpaces buffer =
     res_bind (ASSERT (length buffer < BUFFER_SIZE_PARANOIA)) (\<lambda>_.
       Inr (\<forall>b \<in> set buffer. \<not> b > 126 \<and> \<not> b < 33))"

definition str_isPrintableAsciiWithSpaces :: "bytes \<Rightarrow> bool res" where
  "str_isPrintableAsciiWithSpaces buffer =
     res_bind (ASSERT (length buffer < BUFFER_SIZE_PARANOIA)) (\<lambda>_.
       Inr (\<forall>b \<in> set buffer. \<not> b > 126 \<and> \<not> b < 32))"

fun double_space :: "bytes \<Rightarrow> bool" where
  "double_space (a # b # bs) = (a = 32 \<and> b = 32 \<or> double_space (b # bs))"
| "double_space _ = False"

definition str_isUnambiguousAscii :: "bytes \<Rightarrow> bool res" where
  "str_isUnambiguousAscii buffer =
     res_bind (ASSERT (length buffer < BUFFER_SIZE_PARANOIA)) (\<lambda>_.
     if buffer = [] then Inr False
     else res_bind (str_isPrintableAsciiWithSpaces buffer) (\<lambda>printable.
       Inr (printable \<and> hd buffer \<noteq> 32 \<and> last buffer \<noteq> 32 \<and> \<not> double_space buffer)))"

subsection \<open>The context\<close>

datatype sign_msg_stage_t =
    SIGN_MSG_STAGE_NONE | SIGN_MSG_STAGE_INIT | SIGN_MSG_STAGE_CHUNKS | SIGN_MSG_STAGE_CONFIRM

record ins_sign_msg_context_t =
  smSigningPath :: bip44_path_t
  smAddressFieldType :: "cip8_address_field_type_t option"
  smAddressParams :: addressParams_t
  smIsAscii :: bool
  smHashPayload :: bool
  smMsgLength :: u32
  smRemainingBytes :: nat
  smReceivedChunks :: nat
  smChunk :: bytes
  smMsgHashCtx :: hash_context
  smMsgHash :: bytes
  smSignature :: bytes
  smWitnessKey :: bytes
  smAddressField :: bytes
  smStage :: sign_msg_stage_t
  smIdle :: bool
  smShown :: "screen list"
  smAnswer :: bytes

definition new_msg_context :: ins_sign_msg_context_t where
  "new_msg_context = \<lparr>smSigningPath = blank_path, smAddressFieldType = None, smAddressParams = blank_params,
     smIsAscii = False, smHashPayload = False, smMsgLength = 0, smRemainingBytes = 0, smReceivedChunks = 0,
     smChunk = [], smMsgHashCtx = \<lparr>initialized_magic = 0, absorbed = []\<rparr>, smMsgHash = replicate 28 0,
     smSignature = replicate 64 0, smWitnessKey = replicate 32 0, smAddressField = [],
     smStage = SIGN_MSG_STAGE_INIT, smIdle = False, smShown = [], smAnswer = []\<rparr>"

abbreviation (input) CIP8_MSG_HASH_LENGTH :: nat where "CIP8_MSG_HASH_LENGTH \<equiv> 28"
abbreviation (input) MAX_CIP8_MSG_FIRST_CHUNK_ASCII_SIZE :: nat where "MAX_CIP8_MSG_FIRST_CHUNK_ASCII_SIZE \<equiv> 198"
abbreviation (input) MAX_CIP8_MSG_FIRST_CHUNK_HEX_SIZE :: nat where "MAX_CIP8_MSG_FIRST_CHUNK_HEX_SIZE \<equiv> 99"
abbreviation (input) MAX_CIP8_MSG_HIDDEN_CHUNK_SIZE :: nat where "MAX_CIP8_MSG_HIDDEN_CHUNK_SIZE \<equiv> 250"

definition record_msg_shown :: "screen list \<Rightarrow> ins_sign_msg_context_t \<Rightarrow> ins_sign_msg_context_t" where
  "record_msg_shown screens c = c\<lparr>smShown := smShown c @ screens\<rparr>"

subsection \<open>Init\<close>

definition parse_address_field ::
  "addressParams_t \<Rightarrow> (cip8_address_field_type_t \<times> addressParams_t) parser" where
  "parse_address_field params view =
     res_bind (parse_u1be view) (\<lambda>(t, view).
     if t = 1 then res_bind (view_parseAddressParams params view) (\<lambda>(params, view).
       Inr ((CIP8_ADDRESS_FIELD_ADDRESS, params), view))
     else if t = 2 then Inr ((CIP8_ADDRESS_FIELD_KEYHASH, params), view)
     else Inl ERR_INVALID_DATA)"

definition parse_msg_init :: "bytes \<Rightarrow> ins_sign_msg_context_t stmt" where
  "parse_msg_init wire c =
     res_bind (parse_u4be (make_read_view wire)) (\<lambda>(msgSize, view).
     res_bind (view_parsePath (smSigningPath c) view) (\<lambda>(p, view).
     res_bind (parse_bool view) (\<lambda>(hashPayload, view).
     res_bind (parse_bool view) (\<lambda>(isAscii, view).
     res_bind (parse_address_field (smAddressParams c) view) (\<lambda>((t, params), view).
     res_bind (no_more_data view) (\<lambda>_.
       Inr (c\<lparr>smMsgLength := msgSize, smRemainingBytes := unat msgSize, smSigningPath := p,
         smHashPayload := hashPayload, smIsAscii := isAscii, smAddressFieldType := Some t,
         smAddressParams := params\<rparr>)))))))"

text \<open>\<open>_displayAddressField\<close>.\<close>

definition address_field_screen :: "firmware \<Rightarrow> ins_sign_msg_context_t \<Rightarrow> screen res" where
  "address_field_screen fw c = (case smAddressFieldType c of
       Some CIP8_ADDRESS_FIELD_ADDRESS \<Rightarrow>
         res_bind (deriveAddress fw (smAddressParams c) MAX_ADDRESS_SIZE) (\<lambda>address.
         res_bind (ASSERT (length address > 0)) (\<lambda>_.
         res_bind (ASSERT (length address \<le> MAX_ADDRESS_SIZE)) (\<lambda>_.
           Inr (SCREEN ''Address field'' (ADDRESS address)))))
     | Some CIP8_ADDRESS_FIELD_KEYHASH \<Rightarrow>
         res_bind (blake2b_hash (blake2b_224 fw) 28 (smWitnessKey c) 28) (\<lambda>hash.
           Inr (SCREEN ''Address field (hex)'' (HEX hash)))
     | None \<Rightarrow> Inl ERR_ASSERT)"

definition respond_msg_init :: "ins_sign_msg_context_t stmt" where
  "respond_msg_init c = Inr (c\<lparr>smAnswer := [], smStage := SIGN_MSG_STAGE_CHUNKS\<rparr>)"

definition msg_init_ui :: "firmware \<Rightarrow> bool \<Rightarrow> ins_sign_msg_context_t stmt" where
  "msg_init_ui fw approve c =
     res_bind (address_field_screen fw c) (\<lambda>addressScreen.
       run_screens record_msg_shown approve
         [SCREEN (if smHashPayload c then ''Sign hashed'' else ''Sign non-hashed'') (QUESTION ''message? (CIP-8)''),
          SCREEN ''Signing path'' (KEY_PATH (smSigningPath c)), addressScreen] respond_msg_init c)"

definition signMsg_handleInitAPDU :: "firmware \<Rightarrow> bool \<Rightarrow> bytes \<Rightarrow> ins_sign_msg_context_t stmt" where
  "signMsg_handleInitAPDU fw approve wire c =
     res_bind (parse_msg_init wire c) (\<lambda>c.
     res_bind (policyForSignMsg (smSigningPath c) (the (smAddressFieldType c)) (smAddressParams c)) (\<lambda>policy.
     res_bind (ENSURE_NOT_DENIED policy) (\<lambda>_.
     let c = c\<lparr>smMsgHashCtx := blake2b_init\<rparr> in
     res_bind (deriveExtendedPublicKey fw (smSigningPath c)) (\<lambda>extPubKey.
     let c = c\<lparr>smWitnessKey := pubKey extPubKey\<rparr> in
     res_bind (ASSERT (policy = PROMPT)) (\<lambda>_. msg_init_ui fw approve c)))))"

subsection \<open>Chunks\<close>

definition expected_chunk :: "ins_sign_msg_context_t \<Rightarrow> nat" where
  "expected_chunk c =
     (if smReceivedChunks c = 1
      then min (unat (smMsgLength c))
        (if smIsAscii c then MAX_CIP8_MSG_FIRST_CHUNK_ASCII_SIZE else MAX_CIP8_MSG_FIRST_CHUNK_HEX_SIZE)
      else min (smRemainingBytes c) MAX_CIP8_MSG_HIDDEN_CHUNK_SIZE)"

definition receive_chunk :: "bytes \<Rightarrow> ins_sign_msg_context_t stmt" where
  "receive_chunk wire c =
     (let c = c\<lparr>smReceivedChunks := smReceivedChunks c + 1\<rparr> in
     res_bind (parse_u4be (make_read_view wire)) (\<lambda>(size, view).
     let chunkSize = unat size in
     res_bind (VALIDATE (chunkSize \<le> smRemainingBytes c) ERR_INVALID_DATA) (\<lambda>_.
     res_bind (VALIDATE (chunkSize = expected_chunk c) ERR_INVALID_DATA) (\<lambda>_.
     res_bind (ASSERT (chunkSize \<le> smRemainingBytes c)) (\<lambda>_.
     let c = c\<lparr>smRemainingBytes := smRemainingBytes c - chunkSize\<rparr> in
     res_bind (ASSERT (chunkSize \<le> MAX_CIP8_MSG_HIDDEN_CHUNK_SIZE)) (\<lambda>_.
     res_bind (view_parseBuffer chunkSize view) (\<lambda>(chunk, view).
     let c = c\<lparr>smChunk := chunk\<rparr> in
     res_bind (if smIsAscii c
        then res_bind (str_isUnambiguousAscii chunk) (\<lambda>b. VALIDATE b ERR_INVALID_DATA) else Inr ()) (\<lambda>_.
     res_bind (no_more_data view) (\<lambda>_.
     res_bind (blake2b_append chunk (smMsgHashCtx c)) (\<lambda>h. Inr (c\<lparr>smMsgHashCtx := h\<rparr>)))))))))))"

text \<open>\<open>_displayMsgIntro\<close>; the number is a 32-bit one, printed with \<open>%u\<close>.\<close>

definition msg_label :: "ins_sign_msg_context_t \<Rightarrow> string" where
  "msg_label c = (if smIsAscii c then ''Message (ASCII)'' else ''Message (hex)'')"

definition msg_intro_screen :: "ins_sign_msg_context_t \<Rightarrow> screen res" where
  "msg_intro_screen c =
     res_bind (ASSERT (smMsgLength c < 0xFFFFFFFF)) (\<lambda>_.
       Inr (SCREEN (msg_label c) (TEXT (decimal (unat (smMsgLength c)) @ '' bytes''))))"

text \<open>
  \<open>_displayMsgFull\<close> and \<open>_displayMsgChunk\<close>: a line of 200 characters with its final zero, and the
  check that one more would fit; \<open>encode_hex\<close> needs two characters for each byte and the zero.
\<close>

definition msg_text :: "ins_sign_msg_context_t \<Rightarrow> screen_data res" where
  "msg_text c =
     (let n = length (smChunk c) in
     if smIsAscii c then res_bind (ASSERT (n + 1 < 200)) (\<lambda>_. Inr (ASCII (smChunk c)))
     else res_bind (ASSERT (2 * n + 1 \<le> 200)) (\<lambda>_.
       res_bind (ASSERT (2 * n + 1 < 200)) (\<lambda>_. Inr (HEX (smChunk c)))))"

definition chunk_screens :: "ins_sign_msg_context_t \<Rightarrow> screen list res" where
  "chunk_screens c =
     res_bind (msg_intro_screen c) (\<lambda>intro.
     if smMsgLength c = 0 then Inr [intro]
     else res_bind (msg_text c) (\<lambda>t.
       Inr [intro, SCREEN (if smRemainingBytes c = 0 then msg_label c else ''Message starts with'') t]))"

definition respond_chunk :: "ins_sign_msg_context_t stmt" where
  "respond_chunk c =
     (let c = c\<lparr>smAnswer := []\<rparr> in
      Inr (if smRemainingBytes c = 0 then c\<lparr>smStage := SIGN_MSG_STAGE_CONFIRM\<rparr> else c))"

definition signMsg_handleMsgChunkAPDU :: "bool \<Rightarrow> bytes \<Rightarrow> ins_sign_msg_context_t stmt" where
  "signMsg_handleMsgChunkAPDU approve wire c =
     res_bind (ASSERT (smStage c = SIGN_MSG_STAGE_CHUNKS)) (\<lambda>_.
     res_bind (if smHashPayload c then Inr () else ASSERT (smReceivedChunks c = 0)) (\<lambda>_.
     res_bind (receive_chunk wire c) (\<lambda>c.
     if smReceivedChunks c = 1
     then res_bind (if smHashPayload c then Inr () else VALIDATE (smRemainingBytes c = 0) ERR_INVALID_DATA) (\<lambda>_.
       res_bind (chunk_screens c) (\<lambda>screens.
         run_screens record_msg_shown approve screens respond_chunk c))
     else res_bind (ASSERT (smHashPayload c)) (\<lambda>_. respond_chunk c))))"

subsection \<open>The signed structure\<close>

text \<open>\<open>_prepareAddressField\<close>; a derived address replaces the beginning of the buffer.\<close>

definition prepareAddressField :: "firmware \<Rightarrow> ins_sign_msg_context_t stmt" where
  "prepareAddressField fw c = (case smAddressFieldType c of
       Some CIP8_ADDRESS_FIELD_ADDRESS \<Rightarrow>
         res_bind (deriveAddress fw (smAddressParams c) MAX_ADDRESS_SIZE) (\<lambda>address.
           Inr (c\<lparr>smAddressField := address\<rparr>))
     | Some CIP8_ADDRESS_FIELD_KEYHASH \<Rightarrow>
         res_bind (bip44_pathToKeyHash fw (smSigningPath c) ADDRESS_KEY_HASH_LENGTH) (\<lambda>hash.
           Inr (c\<lparr>smAddressField := hash\<rparr>))
     | None \<Rightarrow> Inl ERR_ASSERT)"

text \<open>A token, or bytes, written after \<open>w\<close> into a buffer of the given size, which is never filled.\<close>

definition sig_token :: "nat \<Rightarrow> u8 \<Rightarrow> u64 \<Rightarrow> bytes stmt" where
  "sig_token maxSize type value w =
     res_bind (cbor_writeToken type value (maxSize - length w)) (\<lambda>bs.
     res_bind (ASSERT (length (w @ bs) < maxSize)) (\<lambda>_. Inr (w @ bs)))"

definition sig_bytes :: "nat \<Rightarrow> bytes \<Rightarrow> bytes stmt" where
  "sig_bytes maxSize bs w =
     res_bind (ASSERT (length w + length bs < maxSize)) (\<lambda>_. Inr (w @ bs))"

definition ascii_bytes :: "string \<Rightarrow> bytes" where
  "ascii_bytes s = map (\<lambda>x. word_of_nat (of_char x)) s"

definition createProtectedHeader ::
  "firmware \<Rightarrow> nat \<Rightarrow> ins_sign_msg_context_t \<Rightarrow> (bytes \<times> ins_sign_msg_context_t) res" where
  "createProtectedHeader fw maxSize c =
     res_bind (seq [sig_token maxSize CBOR_TYPE_MAP 2, sig_token maxSize CBOR_TYPE_UNSIGNED 1,
       sig_token maxSize CBOR_TYPE_NEGATIVE (- 8), sig_token maxSize CBOR_TYPE_TEXT 7,
       sig_bytes maxSize (ascii_bytes ''address'')] []) (\<lambda>w.
     res_bind (prepareAddressField fw c) (\<lambda>c.
     res_bind (ASSERT (length (smAddressField c) > 0)) (\<lambda>_.
     res_bind (sig_token maxSize CBOR_TYPE_BYTES (word_of_nat (length (smAddressField c))) w) (\<lambda>w.
     res_bind (sig_bytes maxSize (smAddressField c) w) (\<lambda>w. Inr (w, c))))))"

definition payload_of :: "ins_sign_msg_context_t \<Rightarrow> bytes res" where
  "payload_of c =
     (if smHashPayload c then Inr (smMsgHash c)
      else res_bind (ASSERT (smReceivedChunks c = 1)) (\<lambda>_. Inr (smChunk c)))"

definition sig_structure ::
  "firmware \<Rightarrow> ins_sign_msg_context_t \<Rightarrow> (bytes \<times> ins_sign_msg_context_t) res" where
  "sig_structure fw c =
     (let maxWritten = 400 in
     res_bind (seq [sig_token maxWritten CBOR_TYPE_ARRAY 4, sig_token maxWritten CBOR_TYPE_TEXT 10,
       sig_bytes maxWritten (ascii_bytes ''Signature1'')] []) (\<lambda>w.
     res_bind (createProtectedHeader fw 100 c) (\<lambda>(header, c).
     res_bind (seq [sig_token maxWritten CBOR_TYPE_BYTES (word_of_nat (length header)),
       sig_bytes maxWritten header, sig_token maxWritten CBOR_TYPE_BYTES 0] w) (\<lambda>w.
     res_bind (blake2b_finalize (blake2b_224 fw) 28 CIP8_MSG_HASH_LENGTH (smMsgHashCtx c)) (\<lambda>hash.
     let c = c\<lparr>smMsgHash := hash\<rparr> in
     res_bind (payload_of c) (\<lambda>payload.
     res_bind (seq [sig_token maxWritten CBOR_TYPE_BYTES (word_of_nat (length payload)),
       sig_bytes maxWritten payload] w) (\<lambda>w. Inr (w, c))))))))"

subsection \<open>Confirm\<close>

definition wire_response :: "ins_sign_msg_context_t \<Rightarrow> bytes" where
  "wire_response c =
     smSignature c @ smWitnessKey c @ be_write 4 (length (smAddressField c)) @
     smAddressField c @ replicate (MAX_ADDRESS_SIZE - length (smAddressField c)) 0"

definition respond_msg :: "ins_sign_msg_context_t stmt" where
  "respond_msg c = Inr (c\<lparr>smAnswer := wire_response c, smStage := SIGN_MSG_STAGE_NONE, smIdle := True\<rparr>)"

definition signMsg_handleConfirmAPDU ::
  "firmware \<Rightarrow> bool \<Rightarrow> bytes \<Rightarrow> ins_sign_msg_context_t stmt" where
  "signMsg_handleConfirmAPDU fw approve wire c =
     res_bind (VALIDATE (length wire = 0) ERR_INVALID_DATA) (\<lambda>_.
     res_bind (sig_structure fw c) (\<lambda>(sigStructure, c).
     res_bind (ASSERT (length sigStructure \<noteq> TX_HASH_LENGTH)) (\<lambda>_.
     res_bind (signRawMessageWithPath fw (smSigningPath c) sigStructure ED25519_SIGNATURE_LENGTH) (\<lambda>signature.
       run_screens record_msg_shown approve
         [SCREEN ''Message hash'' (HEX (smMsgHash c)), SCREEN ''Sign'' (QUESTION ''message?'')]
         respond_msg (c\<lparr>smSignature := signature\<rparr>)))))"

definition signMsg_handleAPDU ::
  "firmware \<Rightarrow> bool \<Rightarrow> u8 \<Rightarrow> u8 \<Rightarrow> wire_data \<Rightarrow> bool \<Rightarrow> ins_sign_msg_context_t stmt" where
  "signMsg_handleAPDU fw approve p1 p2 data isNewCall c =
     res_bind (ASSERT (if p1 = 0x03 then data = None else data \<noteq> None)) (\<lambda>_.
     res_bind (ASSERT (length (wire_bytes data) < BUFFER_SIZE_PARANOIA)) (\<lambda>_.
     res_bind (VALIDATE (p2 = P2_UNUSED) ERR_INVALID_REQUEST_PARAMETERS) (\<lambda>_.
     let c = (if isNewCall then new_msg_context else c)\<lparr>smAnswer := []\<rparr>; wire = wire_bytes data in
     if p1 = 0x01 then signMsg_handleInitAPDU fw approve wire c
     else if p1 = 0x02 then signMsg_handleMsgChunkAPDU approve wire c
     else if p1 = 0x03 then signMsg_handleConfirmAPDU fw approve wire c
     else Inl ERR_INVALID_REQUEST_PARAMETERS)))"

subsection \<open>What is signed\<close>

text \<open>The structure that CIP-8 signs, with the address and the payload.\<close>

definition protected_header :: "bytes \<Rightarrow> bytes" where
  "protected_header address =
     tok CBOR_TYPE_MAP 2 @ tok CBOR_TYPE_UNSIGNED 1 @ tok CBOR_TYPE_NEGATIVE (- 8) @
     tok CBOR_TYPE_TEXT 7 @ ascii_bytes ''address'' @
     tok CBOR_TYPE_BYTES (word_of_nat (length address)) @ address"

definition cose_sig_structure :: "bytes \<Rightarrow> bytes \<Rightarrow> bytes" where
  "cose_sig_structure address payload =
     tok CBOR_TYPE_ARRAY 4 @ tok CBOR_TYPE_TEXT 10 @ ascii_bytes ''Signature1'' @
     tok CBOR_TYPE_BYTES (word_of_nat (length (protected_header address))) @ protected_header address @
     tok CBOR_TYPE_BYTES 0 @ tok CBOR_TYPE_BYTES (word_of_nat (length payload)) @ payload"

lemma write_head_size: "write_head t v n = Inr bs \<Longrightarrow> n \<le> m \<Longrightarrow> write_head t v m = Inr bs"
  by (auto simp: write_head_def Let_def split: if_splits)

lemma write_token_tok:
  assumes "cbor_writeToken t v n = Inr bs" "t \<in> head_types \<or> t = CBOR_TYPE_NEGATIVE \<and> sint v < 0"
  shows "bs = tok t v"
proof -
  have neg: "tok CBOR_TYPE_NEGATIVE v = (case write_head CBOR_TYPE_NEGATIVE (- v - 1) 10 of Inl _ \<Rightarrow> [] | Inr bs \<Rightarrow> bs)"
    if "sint v < 0"
    using that by (simp add: tok_def cbor_writeToken_def)
  have same: "bs = bs'" if "write_head t w n = Inr bs" "write_head t w 10 = Inr bs'" for w bs'
    using write_head_size [OF that(1), of "max n 10"] write_head_size [OF that(2), of "max n 10"] by simp
  show ?thesis
  proof (cases "t = CBOR_TYPE_NEGATIVE")
    case True
    then show ?thesis
      using assms write_head_total [of 10 t "- v - 1"] same [of "- v - 1"] neg
      by (auto simp: cbor_writeToken_def split: if_splits)
  next
    case False
    then have "write_head t v n = Inr bs" "t \<in> head_types"
      using assms by (auto simp: cbor_writeToken_def split: if_splits)
    then show ?thesis
      using write_head_total [of 10 t v] same [of v] write_total(1) [of t v] by (auto simp: tok_def)
  qed
qed

lemma sig_token_Inr:
  "sig_token n t v w = Inr w' \<Longrightarrow> t \<in> head_types \<or> t = CBOR_TYPE_NEGATIVE \<and> sint v < 0 \<Longrightarrow>
     w' = w @ tok t v \<and> length w' < n"
  by (auto simp: sig_token_def res_bind_Inr_iff dest: write_token_tok)

lemma sig_bytes_Inr: "sig_bytes n bs w = Inr w' \<longleftrightarrow> length w + length bs < n \<and> w' = w @ bs"
  by (auto simp: sig_bytes_def res_bind_Inr_iff)

lemma createProtectedHeader_Inr:
  assumes "createProtectedHeader fw n c = Inr (header, c')"
  shows "prepareAddressField fw c = Inr c'" "header = protected_header (smAddressField c')"
    "length header < n" "smAddressField c' \<noteq> []"
  using assms
  by (auto simp: createProtectedHeader_def protected_header_def res_bind_Inr_iff sig_bytes_Inr dest!: sig_token_Inr)

lemma prepareAddressField_fields:
  "prepareAddressField fw c = Inr c' \<Longrightarrow> c' = c\<lparr>smAddressField := smAddressField c'\<rparr>"
  by (auto simp: prepareAddressField_def res_bind_Inr_iff split: option.splits cip8_address_field_type_t.splits)

lemma sig_structure_Inr:
  assumes "sig_structure fw c = Inr (w, c')"
  obtains hash payload address where "c' = c\<lparr>smAddressField := address, smMsgHash := hash\<rparr>"
    "blake2b_224 fw (absorbed (smMsgHashCtx c)) = Some hash"
    "prepareAddressField fw c = Inr (c\<lparr>smAddressField := address\<rparr>)" "payload_of c' = Inr payload"
    "w = cose_sig_structure address payload" "length address < 100" "length payload < 400"
proof -
  obtain u header d v hash payload where h: "createProtectedHeader fw 100 c = Inr (header, d)"
    "blake2b_finalize (blake2b_224 fw) 28 28 (smMsgHashCtx d) = Inr hash"
    "payload_of (d\<lparr>smMsgHash := hash\<rparr>) = Inr payload" "c' = d\<lparr>smMsgHash := hash\<rparr>"
    "seq [sig_token 400 CBOR_TYPE_ARRAY 4, sig_token 400 CBOR_TYPE_TEXT 10,
       sig_bytes 400 (ascii_bytes ''Signature1'')] [] = Inr u"
    "seq [sig_token 400 CBOR_TYPE_BYTES (word_of_nat (length header)), sig_bytes 400 header,
       sig_token 400 CBOR_TYPE_BYTES 0] u = Inr v"
    "seq [sig_token 400 CBOR_TYPE_BYTES (word_of_nat (length payload)), sig_bytes 400 payload] v = Inr w"
    using assms unfolding sig_structure_def Let_def res_bind_Inr_iff by (auto simp: res_bind_Inr_iff)
  note header = createProtectedHeader_Inr [OF h(1)]
  note d = prepareAddressField_fields [OF header(1)]
  have "u = tok CBOR_TYPE_ARRAY 4 @ tok CBOR_TYPE_TEXT 10 @ ascii_bytes ''Signature1''"
    using h(5) by (auto simp: res_bind_Inr_iff sig_bytes_Inr dest!: sig_token_Inr)
  moreover have "v = u @ tok CBOR_TYPE_BYTES (word_of_nat (length header)) @ header @ tok CBOR_TYPE_BYTES 0"
    using h(6) by (auto simp: res_bind_Inr_iff sig_bytes_Inr dest!: sig_token_Inr)
  moreover have "w = v @ tok CBOR_TYPE_BYTES (word_of_nat (length payload)) @ payload \<and> length payload < 400"
    using h(7) by (auto simp: res_bind_Inr_iff sig_bytes_Inr dest!: sig_token_Inr)
  moreover have "blake2b_224 fw (absorbed (smMsgHashCtx c)) = Some hash"
  proof -
    have "smMsgHashCtx d = smMsgHashCtx c"
      by (subst d) simp
    then show ?thesis
      using h(2) by (auto simp: blake2b_finalize_def split: if_splits option.splits)
  qed
  moreover have "length (smAddressField d) < 100"
    using header(2,3) by (simp add: protected_header_def)
  ultimately show thesis
    using that [of hash "smAddressField d" payload] h(3,4) header(1,2) d by (simp add: cose_sig_structure_def)
qed

lemma cose_sig_structure_complete:
  assumes "length address < 100" "length payload < 400"
  shows "complete_item (cose_sig_structure address payload)"
proof -
  have "length (ascii_bytes ''address'') = 7" "length (ascii_bytes ''Signature1'') = 10"
    by (simp_all add: ascii_bytes_def)
  moreover have "tok CBOR_TYPE_MAP 2 = [0xA2]" "tok CBOR_TYPE_UNSIGNED 1 = [1]" "tok CBOR_TYPE_NEGATIVE (- 8) = [0x27]"
    "tok CBOR_TYPE_TEXT 7 = [0x67]"
    by code_simp+
  moreover have "length (tok CBOR_TYPE_BYTES (word_of_nat (length address))) \<le> 9"
    by (simp add: tok_def write_total write_head_def Let_def)
  ultimately have "length (protected_header address) < 200"
    using assms(1) by (simp add: protected_header_def)
  then show ?thesis
    using assms read_payload [of "ascii_bytes ''Signature1''" 10 "[3]"] \<open>length (ascii_bytes ''Signature1'') = 10\<close>
      read_payload [of "protected_header address" "length (protected_header address)" "[2]"]
      read_payload [of payload "length payload" "[]" "[]"]
    by (simp add: complete_item_def cose_sig_structure_def read_tok open_item_def push_def unat_of_nat)
qed

subsection \<open>Sessions\<close>

inductive msg_session :: "firmware \<Rightarrow> ins_sign_msg_context_t \<Rightarrow> bool" for fw where
  begins: "msg_session fw new_msg_context"
| message: "msg_session fw c \<Longrightarrow> signMsg_handleAPDU fw approve p1 p2 data isNewCall c = Inr c' \<Longrightarrow>
    msg_session fw c'"

text \<open>
  The message so far, in the stages after the first message: the path and the address field have been
  displayed, and when all of it is there and it is not to be hashed, so has the message.
\<close>

definition message_shown :: "bytes \<Rightarrow> ins_sign_msg_context_t \<Rightarrow> bool" where
  "message_shown m c \<longleftrightarrow>
     (m \<noteq> [] \<longrightarrow> SCREEN (msg_label c) (if smIsAscii c then ASCII m else HEX m) \<in> set (smShown c)) \<and>
     SCREEN (msg_label c) (TEXT (decimal (length m) @ '' bytes'')) \<in> set (smShown c)"

definition announced :: "firmware \<Rightarrow> ins_sign_msg_context_t \<Rightarrow> bool" where
  "announced fw c \<longleftrightarrow> SCREEN ''Signing path'' (KEY_PATH (smSigningPath c)) \<in> set (smShown c) \<and>
     (\<exists>screen. address_field_screen fw c = Inr screen \<and> screen \<in> set (smShown c)) \<and>
     (\<exists>key. deriveExtendedPublicKey fw (smSigningPath c) = Inr key \<and> smWitnessKey c = pubKey key)"

definition msg_inv :: "firmware \<Rightarrow> ins_sign_msg_context_t \<Rightarrow> bool" where
  "msg_inv fw c \<longleftrightarrow> (smStage c \<in> {SIGN_MSG_STAGE_CHUNKS, SIGN_MSG_STAGE_CONFIRM} \<longrightarrow>
     announced fw c \<and>
     length (absorbed (smMsgHashCtx c)) + smRemainingBytes c = unat (smMsgLength c) \<and>
     (smReceivedChunks c = 0 \<longrightarrow> absorbed (smMsgHashCtx c) = []) \<and>
     (smStage c = SIGN_MSG_STAGE_CONFIRM \<longrightarrow> smRemainingBytes c = 0 \<and>
       (\<not> smHashPayload c \<longrightarrow> smReceivedChunks c = 1 \<and> smChunk c = absorbed (smMsgHashCtx c) \<and>
          message_shown (smChunk c) c)))"

lemma address_field_screen_cong:
  "smAddressFieldType c = smAddressFieldType d \<Longrightarrow> smAddressParams c = smAddressParams d \<Longrightarrow>
   smWitnessKey c = smWitnessKey d \<Longrightarrow> address_field_screen fw c = address_field_screen fw d"
  by (auto simp: address_field_screen_def split: option.splits cip8_address_field_type_t.splits)

lemma announced_cong:
  assumes "announced fw c" "smSigningPath d = smSigningPath c" "smAddressFieldType d = smAddressFieldType c"
    "smAddressParams d = smAddressParams c" "smWitnessKey d = smWitnessKey c" "set (smShown c) \<subseteq> set (smShown d)"
  shows "announced fw d"
  using assms address_field_screen_cong [of d c fw] by (auto simp: announced_def)

lemma init_msg_inv:
  assumes "signMsg_handleInitAPDU fw approve wire c = Inr c'"
  shows "msg_inv fw c'"
proof -
  obtain d key where d: "parse_msg_init wire c = Inr d" "deriveExtendedPublicKey fw (smSigningPath d) = Inr key"
    "msg_init_ui fw approve (d\<lparr>smMsgHashCtx := blake2b_init, smWitnessKey := pubKey key\<rparr>) = Inr c'"
    using assms by (auto simp: signMsg_handleInitAPDU_def res_bind_Inr_iff Let_def)
  have "smRemainingBytes d = unat (smMsgLength d)"
    using d(1) by (auto simp: parse_msg_init_def res_bind_Inr_iff)
  moreover obtain screen where s:
    "address_field_screen fw (d\<lparr>smMsgHashCtx := blake2b_init, smWitnessKey := pubKey key\<rparr>) = Inr screen"
    "respond_msg_init (d\<lparr>smMsgHashCtx := blake2b_init, smWitnessKey := pubKey key, smShown := smShown d @
       [SCREEN (if smHashPayload d then ''Sign hashed'' else ''Sign non-hashed'') (QUESTION ''message? (CIP-8)''),
        SCREEN ''Signing path'' (KEY_PATH (smSigningPath d)), screen]\<rparr>) = Inr c'"
    using d(3) by (auto simp: msg_init_ui_def run_screens_Inr record_msg_shown_def res_bind_Inr_iff)
  ultimately show ?thesis
    using s(2) d(2) address_field_screen_cong [of c' "d\<lparr>smMsgHashCtx := blake2b_init, smWitnessKey := pubKey key\<rparr>" fw]
    by (auto simp: respond_msg_init_def msg_inv_def announced_def blake2b_init_def)
qed

lemma receive_chunk_Inr:
  assumes "receive_chunk wire c = Inr d"
  obtains chunk h where "d = c\<lparr>smReceivedChunks := smReceivedChunks c + 1,
      smRemainingBytes := smRemainingBytes c - length chunk, smChunk := chunk, smMsgHashCtx := h\<rparr>"
    "length chunk \<le> smRemainingBytes c" "absorbed h = absorbed (smMsgHashCtx c) @ chunk"
    "smReceivedChunks c = 0 \<Longrightarrow> length chunk = min (unat (smMsgLength c)) (if smIsAscii c then 198 else 99)"
proof -
  obtain size :: u32 and view view' chunk h where s: "unat size \<le> smRemainingBytes c"
    "view_parseBuffer (unat size) view = Inr (chunk, view')" "blake2b_append chunk (smMsgHashCtx c) = Inr h"
    "d = c\<lparr>smReceivedChunks := smReceivedChunks c + 1, smRemainingBytes := smRemainingBytes c - unat size,
       smChunk := chunk, smMsgHashCtx := h\<rparr>"
    "unat size = expected_chunk (c\<lparr>smReceivedChunks := smReceivedChunks c + 1\<rparr>)"
    using assms unfolding receive_chunk_def Let_def res_bind_Inr_iff by (auto simp: res_bind_Inr_iff)
  have "length chunk = unat size"
    using s(2) by (auto simp: view_parseBuffer_def remaining_Inr res_bind_Inr_iff split: if_splits)
  then show thesis
    using that [where chunk = chunk and h = h] s(1,3-) by (simp add: blake2b_append_Inr expected_chunk_def)
qed

lemma chunk_msg_inv:
  assumes "msg_inv fw c" "signMsg_handleMsgChunkAPDU approve wire c = Inr c'"
  shows "msg_inv fw c'"
proof -
  obtain d where d: "receive_chunk wire c = Inr d" and stage: "smStage c = SIGN_MSG_STAGE_CHUNKS"
    and once: "smHashPayload c \<or> smReceivedChunks c = 0"
    using assms(2) by (auto simp: signMsg_handleMsgChunkAPDU_def res_bind_Inr_iff split: if_splits)
  obtain chunk h where r: "d = c\<lparr>smReceivedChunks := smReceivedChunks c + 1,
      smRemainingBytes := smRemainingBytes c - length chunk, smChunk := chunk, smMsgHashCtx := h\<rparr>"
    "length chunk \<le> smRemainingBytes c" "absorbed h = absorbed (smMsgHashCtx c) @ chunk"
    by (rule receive_chunk_Inr [OF d])
  have inv: "announced fw c" "length (absorbed (smMsgHashCtx c)) + smRemainingBytes c = unat (smMsgLength c)"
    "smReceivedChunks c = 0 \<Longrightarrow> absorbed (smMsgHashCtx c) = []"
    using assms(1) stage by (simp_all add: msg_inv_def)
  show ?thesis
  proof (cases "smReceivedChunks c = 0")
    case True
    then obtain screens where s: "chunk_screens d = Inr screens"
      "respond_chunk (d\<lparr>smShown := smShown d @ screens\<rparr>) = Inr c'" "smHashPayload d \<or> smRemainingBytes d = 0"
      using assms(2) d stage r(1)
      by (auto simp: signMsg_handleMsgChunkAPDU_def run_screens_Inr record_msg_shown_def res_bind_Inr_iff split: if_splits)
    have a: "announced fw c'"
      using announced_cong [OF inv(1), of c'] s(2) r(1) by (auto simp: respond_chunk_def Let_def split: if_splits)
    have m: "absorbed h = chunk" "unat (smMsgLength c) = smRemainingBytes c"
      using inv(2,3) True r(3) by simp_all
    have "message_shown chunk c'" if "smRemainingBytes d = 0"
      using s(1,2) that r(1,2) m
      by (auto simp: chunk_screens_def msg_intro_screen_def msg_text_def message_shown_def msg_label_def respond_chunk_def
          Let_def res_bind_Inr_iff unat_eq_zero split: if_splits)
    then show ?thesis
      using a s(2,3) r m True by (auto simp: respond_chunk_def msg_inv_def stage Let_def split: if_splits)
  next
    case False
    then have "smHashPayload c" using once by simp
    then show ?thesis
      using assms(2) d stage r inv False announced_cong [OF inv(1), of c']
      by (auto simp: signMsg_handleMsgChunkAPDU_def respond_chunk_def msg_inv_def Let_def res_bind_Inr_iff split: if_splits)
  qed
qed

lemma confirm_msg:
  assumes "signMsg_handleConfirmAPDU fw approve wire c = Inr c'"
  obtains hash payload address signature where
    "blake2b_224 fw (absorbed (smMsgHashCtx c)) = Some hash"
    "payload = (if smHashPayload c then hash else smChunk c)"
    "prepareAddressField fw c = Inr (c\<lparr>smAddressField := address\<rparr>)" "length address < 100" "length payload < 400"
    "eddsa_sign fw (take (unat (path_length (smSigningPath c))) (path (smSigningPath c)))
       (cose_sig_structure address payload) = Some signature"
    "smAnswer c' = signature @ smWitnessKey c @ be_write 4 (length address) @ address @ replicate (128 - length address) 0"
    "smShown c' = smShown c @ [SCREEN ''Message hash'' (HEX hash), SCREEN ''Sign'' (QUESTION ''message?'')]"
    "smStage c' = SIGN_MSG_STAGE_NONE"
proof -
  obtain w d signature where h: "sig_structure fw c = Inr (w, d)"
    "signRawMessageWithPath fw (smSigningPath d) w 64 = Inr signature"
    "respond_msg (d\<lparr>smSignature := signature, smShown := smShown d @
       [SCREEN ''Message hash'' (HEX (smMsgHash d)), SCREEN ''Sign'' (QUESTION ''message?'')]\<rparr>) = Inr c'"
    using assms by (auto simp: signMsg_handleConfirmAPDU_def run_screens_Inr record_msg_shown_def res_bind_Inr_iff)
  obtain hash payload address where s: "d = c\<lparr>smAddressField := address, smMsgHash := hash\<rparr>"
    "blake2b_224 fw (absorbed (smMsgHashCtx c)) = Some hash"
    "prepareAddressField fw c = Inr (c\<lparr>smAddressField := address\<rparr>)" "payload_of d = Inr payload"
    "w = cose_sig_structure address payload" "length address < 100" "length payload < 400"
    by (rule sig_structure_Inr [OF h(1)])
  have "eddsa_sign fw (take (unat (path_length (smSigningPath c))) (path (smSigningPath c))) w = Some signature"
    using h(2) s(1) by (auto simp: signRawMessageWithPath_def res_bind_Inr_iff split: option.splits)
  then show thesis
    using that [where hash = hash and payload = payload and address = address and signature = signature] h(3) s
    by (auto simp: respond_msg_def wire_response_def payload_of_def res_bind_Inr_iff split: if_splits)
qed

lemma msg_inv_answer: "msg_inv fw (c\<lparr>smAnswer := bs\<rparr>) = msg_inv fw c"
proof -
  have m: "message_shown m (c\<lparr>smAnswer := bs\<rparr>) = message_shown m c" for m
    by (simp add: message_shown_def msg_label_def)
  have a: "announced fw (c\<lparr>smAnswer := bs\<rparr>) = announced fw c"
    using address_field_screen_cong [of "c\<lparr>smAnswer := bs\<rparr>" c fw] by (simp add: announced_def)
  show ?thesis
    unfolding msg_inv_def m a by simp
qed

lemma msg_session_inv:
  assumes "msg_session fw c" shows "msg_inv fw c"
  using assms
proof induction
  case begins
  show ?case by (simp add: msg_inv_def new_msg_context_def)
next
  case (message c approve p1 p2 data isNewCall c')
  let ?c = "(if isNewCall then new_msg_context else c)\<lparr>smAnswer := []\<rparr>"
  have "msg_inv fw (c\<lparr>smAnswer := []\<rparr>)"
    using message.IH by (simp only: msg_inv_answer)
  moreover have "msg_inv fw (new_msg_context\<lparr>smAnswer := []\<rparr>)"
    by (simp add: msg_inv_def new_msg_context_def)
  ultimately have i: "msg_inv fw ?c"
    by simp
  consider "signMsg_handleInitAPDU fw approve (wire_bytes data) ?c = Inr c'"
    | "signMsg_handleMsgChunkAPDU approve (wire_bytes data) ?c = Inr c'"
    | "signMsg_handleConfirmAPDU fw approve (wire_bytes data) ?c = Inr c'"
    using message.hyps(2) by (auto simp: signMsg_handleAPDU_def Let_def res_bind_Inr_iff split: if_splits)
  then show ?case
  proof cases
    case 3
    then show ?thesis
      by (rule confirm_msg) (simp add: msg_inv_def)
  qed (use init_msg_inv chunk_msg_inv [OF i] in blast)+
qed

lemma announced_address:
  assumes "announced fw c" "prepareAddressField fw c = Inr (c\<lparr>smAddressField := address\<rparr>)"
  shows "SCREEN ''Address field'' (ADDRESS address) \<in> set (smShown c) \<or>
    SCREEN ''Address field (hex)'' (HEX address) \<in> set (smShown c)"
  using assms
  by (cases c) (auto simp: announced_def prepareAddressField_def address_field_screen_def bip44_pathToKeyHash_def
      res_bind_Inr_iff split: option.splits cip8_address_field_type_t.splits)


subsection \<open>Messages that are signed too early\<close>

text \<open>\<open>m/1852'/1815'/0'/0/0\<close>, not ASCII, the hash of the key as the address field.\<close>

definition sample_msg_init :: "u8 \<Rightarrow> u8 \<Rightarrow> bytes" where
  "sample_msg_init n hashPayload = [0, 0, 0, n] @
     [5, 0x80, 0, 0x07, 0x3c, 0x80, 0, 0x07, 0x17, 0x80, 0, 0, 0, 0, 0, 0, 0, 0, 0, 0, 0] @ [hashPayload, 0, 2]"

definition sample_msgs :: "(bool \<times> u8 \<times> wire_data) list" where
  "sample_msgs = [(True, 0x01, Some (sample_msg_init 2 0)), (False, 0x02, Some [0, 0, 0, 2, 66, 67])]"

fun run_msgs :: "firmware \<Rightarrow> (bool \<times> u8 \<times> wire_data) list \<Rightarrow> ins_sign_msg_context_t stmt" where
  "run_msgs fw [] c = Inr c"
| "run_msgs fw ((isNewCall, p1, data) # ms) c =
     res_bind (signMsg_handleAPDU fw True p1 0 data isNewCall c) (run_msgs fw ms)"

lemma run_msgs: "run_msgs fw ms c = Inr c' \<Longrightarrow> msg_session fw c \<Longrightarrow> msg_session fw c'"
  by (induction fw ms c rule: run_msgs.induct) (auto simp: res_bind_Inr_iff intro: msg_session.message)

lemma run_msgs_append: "run_msgs fw (ms @ ns) c = res_bind (run_msgs fw ms c) (run_msgs fw ns)"
proof (induction fw ms c rule: run_msgs.induct)
  case (2 fw isNewCall p1 data ms c)
  then show ?case
    by (cases "signMsg_handleAPDU fw True p1 0 data isNewCall c") simp_all
qed simp



text \<open>
  A first message in the middle of a call begins another message, but its chunks count on: the
  two bytes that are signed here are never displayed, because the chunk of the message before was.
\<close>

theorem second_message_hidden:
  "case run_msgs sample_firmware
      [(True, 0x01, Some (sample_msg_init 1 1)), (False, 0x02, Some [0, 0, 0, 1, 65]),
       (False, 0x01, Some (sample_msg_init 2 1)), (False, 0x02, Some [0, 0, 0, 2, 66, 67]), (False, 0x03, None)]
      new_msg_context of
     Inl _ \<Rightarrow> False
   | Inr c \<Rightarrow> smIdle c \<and> length (smAnswer c) = 228 \<and> absorbed (smMsgHashCtx c) = [66, 67] \<and>
       SCREEN ''Message (hex)'' (HEX [65]) \<in> set (smShown c) \<and>
       SCREEN ''Message (hex)'' (HEX [66, 67]) \<notin> set (smShown c)"
  by code_simp

end
