(* ===== verification/NativeScriptDialogue.thy ===== *)
theory NativeScriptDialogue
  imports Evaluation NativeScripts
begin

text \<open>
  \<open>src/deriveNativeScriptHash/deriveNativeScriptHash.c\<close> and \<open>deriveNativeScriptHash_ui.c\<close>: a native
  script arrives node by node, each is displayed, and its hash is returned. The dialogue counts the
  scripts it expects on every level, as the hash builder does. The content of a node nested in another
  is displayed when the user has left the screen with its position, and so after the handler has
  counted the node; \<open>ui_step\<close> and \<open>ui_scriptType\<close> are not part of the state, and \<open>nsIdle\<close> is \<open>ui_idle\<close>.
\<close>

subsection \<open>The context\<close>

record complex_native_script_t =
  csTotal :: u32
  csRemaining :: u32

record ins_derive_native_script_hash_context_t =
  nsLevel :: u8
  nsScripts :: "complex_native_script_t list"
  nsScriptHash :: bytes
  nsBuilder :: native_script_hash_builder_t
  nsIdle :: bool
  nsShown :: "screen list"
  nsAnswer :: bytes

type_synonym script_stmt = "ins_derive_native_script_hash_context_t stmt"

text \<open>The context before \<open>isNewCall\<close> sets it up: all zero.\<close>

definition zero_script_context :: ins_derive_native_script_hash_context_t where
  "zero_script_context = \<lparr>nsLevel = 0, nsScripts = replicate MAX_SCRIPT_DEPTH \<lparr>csTotal = 0, csRemaining = 0\<rparr>,
     nsScriptHash = replicate 28 0,
     nsBuilder = \<lparr>level = 0, remainingScripts = replicate MAX_SCRIPT_DEPTH 0,
       nativeState = NATIVE_SCRIPT_HASH_BUILDER_SCRIPT,
       nativeScriptHash = \<lparr>initialized_magic = 0, absorbed = []\<rparr>\<rparr>,
     nsIdle = False, nsShown = [], nsAnswer = []\<rparr>"

definition record_script_shown ::
  "screen list \<Rightarrow> ins_derive_native_script_hash_context_t \<Rightarrow> ins_derive_native_script_hash_context_t" where
  "record_script_shown screens c = c\<lparr>nsShown := nsShown c @ screens\<rparr>"

definition on_script_builder :: "native_script_hash_builder_t stmt \<Rightarrow> script_stmt" where
  "on_script_builder s c = res_bind (s (nsBuilder c)) (\<lambda>b. Inr (c\<lparr>nsBuilder := b\<rparr>))"

subsection \<open>Levels\<close>

text \<open>\<open>complexScripts[level]\<close>, after the assertion that precedes each access.\<close>

definition current_script :: "ins_derive_native_script_hash_context_t \<Rightarrow> complex_native_script_t res" where
  "current_script c =
     res_bind (ASSERT (unat (nsLevel c) < MAX_SCRIPT_DEPTH)) (\<lambda>_. Inr (nsScripts c ! unat (nsLevel c)))"

definition set_current_script :: "complex_native_script_t \<Rightarrow> script_stmt" where
  "set_current_script s c =
     res_bind (ASSERT (unat (nsLevel c) < MAX_SCRIPT_DEPTH)) (\<lambda>_.
       Inr (c\<lparr>nsScripts := (nsScripts c)[unat (nsLevel c) := s]\<rparr>))"

definition areMoreScriptsExpected :: "ins_derive_native_script_hash_context_t \<Rightarrow> bool res" where
  "areMoreScriptsExpected c = res_bind (current_script c) (\<lambda>s. Inr (csRemaining s > 0))"

definition dialogue_isComplexScriptFinished :: "ins_derive_native_script_hash_context_t \<Rightarrow> bool res" where
  "dialogue_isComplexScriptFinished c =
     res_bind (current_script c) (\<lambda>s. Inr (nsLevel c > 0 \<and> csRemaining s = 0))"

definition count_script :: script_stmt where
  "count_script c =
     res_bind (current_script c) (\<lambda>s.
     res_bind (ASSERT (csRemaining s > 0)) (\<lambda>_.
       set_current_script (s\<lparr>csRemaining := csRemaining s - 1\<rparr>) c))"

function dialogue_complexScriptFinished :: script_stmt where
  "dialogue_complexScriptFinished c =
     res_bind (dialogue_isComplexScriptFinished c) (\<lambda>finished.
       if finished
       then res_bind (count_script (c\<lparr>nsLevel := nsLevel c - 1\<rparr>)) dialogue_complexScriptFinished
       else Inr c)"
  by pat_completeness auto

lemma count_script_level: "count_script c = Inr c' \<Longrightarrow> nsLevel c' = nsLevel c"
  by (auto simp: count_script_def current_script_def set_current_script_def res_bind_Inr_iff)

termination dialogue_complexScriptFinished
proof (relation "measure (\<lambda>c. unat (nsLevel c))")
  fix c finished c'
  assume "dialogue_isComplexScriptFinished c = Inr finished" "finished"
    and d: "count_script (c\<lparr>nsLevel := nsLevel c - 1\<rparr>) = Inr c'"
  then have "0 < nsLevel c"
    by (auto simp: dialogue_isComplexScriptFinished_def res_bind_Inr_iff)
  then have "unat (nsLevel c - 1) < unat (nsLevel c)"
    by (simp add: unat_pred unat_pos)
  then show "(c', c) \<in> measure (\<lambda>c. unat (nsLevel c))"
    using count_script_level [OF d] by simp
qed simp

declare dialogue_complexScriptFinished.simps [simp del]

definition finish_complex :: script_stmt where
  "finish_complex c =
     res_bind (dialogue_isComplexScriptFinished c) (\<lambda>finished.
       if finished then dialogue_complexScriptFinished c else Inr c)"

definition dialogue_simpleScriptFinished :: script_stmt where
  "dialogue_simpleScriptFinished c = res_bind (count_script c) finish_complex"

subsection \<open>Screens\<close>

fun joined :: "string list \<Rightarrow> string" where
  "joined [] = []"
| "joined [x] = x"
| "joined (x # y # xs) = x @ ''.'' @ joined (y # xs)"

text \<open>
  \<open>deriveScriptHash_display_ui_position\<close>; the levels are counted from one, and the buffer has room for
  ten levels of ten digits.
\<close>

definition position_screen ::
  "string \<Rightarrow> u8 \<Rightarrow> ins_derive_native_script_hash_context_t \<Rightarrow> screen res" where
  "position_screen header positionLevel c =
     res_bind (ASSERT (positionLevel > 0)) (\<lambda>_.
     res_bind (ASSERT (unat positionLevel < MAX_SCRIPT_DEPTH)) (\<lambda>_.
       Inr (SCREEN header (TEXT (''Position: '' @ joined (map (\<lambda>i.
         decimal (unat (csTotal (nsScripts c ! i) - csRemaining (nsScripts c ! i) + 1)))
         [1..<Suc (unat positionLevel)])))))) "

definition respond_script :: script_stmt where
  "respond_script c = Inr (c\<lparr>nsAnswer := []\<rparr>)"

text \<open>
  \<open>UI_DISPLAY_SCRIPT\<close> and what the handler does after it: the position of a node on the outermost level
  is skipped, and its content is displayed at once.
\<close>

definition display_script ::
  "bool \<Rightarrow> bool \<Rightarrow> string \<Rightarrow> (ins_derive_native_script_hash_context_t \<Rightarrow> screen_data res) \<Rightarrow>
   script_stmt \<Rightarrow> script_stmt" where
  "display_script approve isComplex header content finish c =
     res_bind (ASSERT (\<not> isComplex \<or> nsLevel c > 0)) (\<lambda>_.
     let positionLevel = nsLevel c - (if isComplex then 1 else 0) in
     if positionLevel = 0
     then res_bind (content c) (\<lambda>d.
       res_bind (finish c) (run_screens record_script_shown approve [SCREEN header d] respond_script))
     else res_bind (position_screen header positionLevel c) (\<lambda>position.
       res_bind (finish c) (\<lambda>c.
       res_bind (content c) (\<lambda>d.
         run_screens record_script_shown approve [position, SCREEN header d] respond_script c))))"

definition nested_text :: "ins_derive_native_script_hash_context_t \<Rightarrow> screen_data res" where
  "nested_text c =
     res_bind (current_script c) (\<lambda>s.
       Inr (TEXT (''Contains '' @ decimal (unat (csRemaining s)) @ '' nested scripts.'')))"

definition n_of_k_text :: "u32 \<Rightarrow> ins_derive_native_script_hash_context_t \<Rightarrow> screen_data res" where
  "n_of_k_text requiredScripts c =
     res_bind (current_script c) (\<lambda>s.
       let k = decimal (unat (csRemaining s)) in
       Inr (TEXT (''Requires '' @ decimal (unat requiredScripts) @ '' out of '' @ k @ '' signatures. Contains '' @
         k @ '' nested scripts'')))"

subsection \<open>Complex scripts\<close>

definition deriveNativeScriptHash_handleAll :: "bool \<Rightarrow> read_view_t \<Rightarrow> script_stmt" where
  "deriveNativeScriptHash_handleAll approve view c =
     res_bind (no_more_data view) (\<lambda>_.
     res_bind (current_script c) (\<lambda>s.
     res_bind (on_script_builder (nativeScriptHashBuilder_startComplexScript_all (csRemaining s)) c)
       (display_script approve True ''Script - ALL'' nested_text finish_complex)))"

definition deriveNativeScriptHash_handleAny :: "bool \<Rightarrow> read_view_t \<Rightarrow> script_stmt" where
  "deriveNativeScriptHash_handleAny approve view c =
     res_bind (no_more_data view) (\<lambda>_.
     res_bind (current_script c) (\<lambda>s.
     res_bind (on_script_builder (nativeScriptHashBuilder_startComplexScript_any (csRemaining s)) c)
       (display_script approve True ''Script - ANY'' nested_text finish_complex)))"

definition deriveNativeScriptHash_handleNofK :: "bool \<Rightarrow> read_view_t \<Rightarrow> script_stmt" where
  "deriveNativeScriptHash_handleNofK approve view c =
     res_bind (parse_u4be view) (\<lambda>(requiredScripts, view).
     res_bind (no_more_data view) (\<lambda>_.
     res_bind (current_script c) (\<lambda>s.
     res_bind (VALIDATE (csRemaining s \<ge> requiredScripts) ERR_INVALID_DATA) (\<lambda>_.
     res_bind (on_script_builder
         (nativeScriptHashBuilder_startComplexScript_n_of_k requiredScripts (csRemaining s)) c)
       (display_script approve True ''Script - N of K'' (n_of_k_text requiredScripts) finish_complex)))))"

definition deriveNativeScriptHash_handleComplexScriptStart :: "bool \<Rightarrow> read_view_t \<Rightarrow> script_stmt" where
  "deriveNativeScriptHash_handleComplexScriptStart approve view c =
     res_bind (areMoreScriptsExpected c) (\<lambda>more.
     res_bind (VALIDATE more ERR_INVALID_STATE) (\<lambda>_.
     res_bind (VALIDATE (unat (nsLevel c) + 1 < MAX_SCRIPT_DEPTH) ERR_INVALID_DATA) (\<lambda>_.
     let c = c\<lparr>nsLevel := nsLevel c + 1\<rparr> in
     res_bind (parse_u1be view) (\<lambda>(nativeScriptType, view).
     res_bind (parse_u4be view) (\<lambda>(n, view).
     res_bind (set_current_script \<lparr>csTotal = n, csRemaining = n\<rparr> c) (\<lambda>c.
       if nativeScriptType = 1 then deriveNativeScriptHash_handleAll approve view c
       else if nativeScriptType = 2 then deriveNativeScriptHash_handleAny approve view c
       else if nativeScriptType = 3 then deriveNativeScriptHash_handleNofK approve view c
       else Inl ERR_INVALID_DATA))))))"

subsection \<open>Simple scripts\<close>

definition deriveNativeScriptHash_handleDeviceOwnedPubkey ::
  "firmware \<Rightarrow> bool \<Rightarrow> read_view_t \<Rightarrow> script_stmt" where
  "deriveNativeScriptHash_handleDeviceOwnedPubkey fw approve view c =
     res_bind (view_parsePath blank_path view) (\<lambda>(p, view).
     res_bind (no_more_data view) (\<lambda>_.
     res_bind (bip44_pathToKeyHash fw p ADDRESS_KEY_HASH_LENGTH) (\<lambda>pubkeyHash.
     res_bind (on_script_builder (nativeScriptHashBuilder_addScript_pubkey pubkeyHash) c)
       (display_script approve False ''Script - key path'' (\<lambda>_. Inr (KEY_PATH p))
         dialogue_simpleScriptFinished))))"

definition deriveNativeScriptHash_handleThirdPartyPubkey :: "bool \<Rightarrow> read_view_t \<Rightarrow> script_stmt" where
  "deriveNativeScriptHash_handleThirdPartyPubkey approve view c =
     res_bind (view_parseBuffer ADDRESS_KEY_HASH_LENGTH view) (\<lambda>(pubkeyHash, view).
     res_bind (no_more_data view) (\<lambda>_.
     res_bind (on_script_builder (nativeScriptHashBuilder_addScript_pubkey pubkeyHash) c)
       (display_script approve False ''Script - key'' (\<lambda>_. Inr (BECH32 ''addr_shared_vkh'' pubkeyHash))
         dialogue_simpleScriptFinished)))"

definition deriveNativeScriptHash_handlePubkey ::
  "firmware \<Rightarrow> bool \<Rightarrow> read_view_t \<Rightarrow> script_stmt" where
  "deriveNativeScriptHash_handlePubkey fw approve view c =
     res_bind (parse_u1be view) (\<lambda>(pubkeyType, view).
       if pubkeyType = 1 then deriveNativeScriptHash_handleDeviceOwnedPubkey fw approve view c
       else if pubkeyType = 2 then deriveNativeScriptHash_handleThirdPartyPubkey approve view c
       else Inl ERR_INVALID_DATA)"

definition deriveNativeScriptHash_handleInvalidBefore :: "bool \<Rightarrow> read_view_t \<Rightarrow> script_stmt" where
  "deriveNativeScriptHash_handleInvalidBefore approve view c =
     res_bind (parse_u8be view) (\<lambda>(timelock, view).
     res_bind (no_more_data view) (\<lambda>_.
     res_bind (on_script_builder (nativeScriptHashBuilder_addScript_invalidBefore timelock) c)
       (display_script approve False ''Script - invalid before'' (\<lambda>_. Inr (NUMBER (unat timelock)))
         dialogue_simpleScriptFinished)))"

definition deriveNativeScriptHash_handleInvalidHereafter :: "bool \<Rightarrow> read_view_t \<Rightarrow> script_stmt" where
  "deriveNativeScriptHash_handleInvalidHereafter approve view c =
     res_bind (parse_u8be view) (\<lambda>(timelock, view).
     res_bind (no_more_data view) (\<lambda>_.
     res_bind (on_script_builder (nativeScriptHashBuilder_addScript_invalidHereafter timelock) c)
       (display_script approve False ''Script - invalid hereafter'' (\<lambda>_. Inr (NUMBER (unat timelock)))
         dialogue_simpleScriptFinished)))"

definition deriveNativeScriptHash_handleSimpleScript ::
  "firmware \<Rightarrow> bool \<Rightarrow> read_view_t \<Rightarrow> script_stmt" where
  "deriveNativeScriptHash_handleSimpleScript fw approve view c =
     res_bind (areMoreScriptsExpected c) (\<lambda>more.
     res_bind (VALIDATE more ERR_INVALID_STATE) (\<lambda>_.
     res_bind (parse_u1be view) (\<lambda>(nativeScriptType, view).
       if nativeScriptType = 0 then deriveNativeScriptHash_handlePubkey fw approve view c
       else if nativeScriptType = 4 then deriveNativeScriptHash_handleInvalidBefore approve view c
       else if nativeScriptType = 5 then deriveNativeScriptHash_handleInvalidHereafter approve view c
       else Inl ERR_INVALID_DATA)))"

subsection \<open>The whole script\<close>

definition respond_script_hash :: script_stmt where
  "respond_script_hash c = Inr (c\<lparr>nsAnswer := nsScriptHash c, nsIdle := True\<rparr>)"

definition deriveNativeScriptHash_handleWholeNativeScriptFinish ::
  "firmware \<Rightarrow> bool \<Rightarrow> read_view_t \<Rightarrow> script_stmt" where
  "deriveNativeScriptHash_handleWholeNativeScriptFinish fw approve view c =
     res_bind (VALIDATE (nsLevel c = 0 \<and> csRemaining (nsScripts c ! 0) = 0) ERR_INVALID_STATE) (\<lambda>_.
     res_bind (parse_u1be view) (\<lambda>(displayFormat, view).
     res_bind (no_more_data view) (\<lambda>_.
     res_bind (VALIDATE (displayFormat \<in> {1, 2}) ERR_INVALID_DATA) (\<lambda>_.
     res_bind (nativeScriptHashBuilder_finalize (blake2b_224 fw) SCRIPT_HASH_LENGTH (nsBuilder c)) (\<lambda>hash.
       run_screens record_script_shown approve
         [if displayFormat = 1 then SCREEN ''Script hash'' (BECH32 ''script'' hash)
          else SCREEN ''Policy ID'' (HEX hash)]
         respond_script_hash (c\<lparr>nsScriptHash := hash\<rparr>))))))"

definition new_script_call :: script_stmt where
  "new_script_call c =
     res_bind (set_current_script ((nsScripts zero_script_context ! 0)\<lparr>csRemaining := 1\<rparr>) zero_script_context)
       (on_script_builder nativeScriptHashBuilder_init)"

definition deriveNativeScriptHash_handleAPDU ::
  "firmware \<Rightarrow> bool \<Rightarrow> u8 \<Rightarrow> u8 \<Rightarrow> wire_data \<Rightarrow> bool \<Rightarrow> script_stmt" where
  "deriveNativeScriptHash_handleAPDU fw approve p1 p2 data isNewCall c =
     res_bind (VALIDATE (p2 = P2_UNUSED) ERR_INVALID_REQUEST_PARAMETERS) (\<lambda>_.
     res_bind (if isNewCall then new_script_call c else Inr c) (\<lambda>c.
     let c = c\<lparr>nsAnswer := []\<rparr>; view = make_read_view (wire_bytes data) in
     if p1 = 0x01 then deriveNativeScriptHash_handleComplexScriptStart approve view c
     else if p1 = 0x02 then deriveNativeScriptHash_handleSimpleScript fw approve view c
     else if p1 = 0x03 then deriveNativeScriptHash_handleWholeNativeScriptFinish fw approve view c
     else Inl ERR_INVALID_REQUEST_PARAMETERS))"

end
