(* ===== verification/NativeScriptSession.thy ===== *)
theory NativeScriptSession
  imports NativeScriptDialogue
begin

text \<open>
  Whatever messages the host sends, the bytes that the dialogue of a native script hashes are those of
  one script whose nodes have been displayed. The counters of the dialogue are those of the builder;
  both are the numbers of children that the open nodes of a partial tree still lack.
\<close>

subsection \<open>The counters\<close>

text \<open>The dialogue's counters, as a builder that has them.\<close>

definition mirror :: "ins_derive_native_script_hash_context_t \<Rightarrow> native_script_hash_builder_t" where
  "mirror c = \<lparr>level = nsLevel c, remainingScripts = map csRemaining (nsScripts c),
     nativeState = NATIVE_SCRIPT_HASH_BUILDER_SCRIPT, nativeScriptHash = blake2b_init\<rparr>"

definition in_array :: "ins_derive_native_script_hash_context_t \<Rightarrow> bool" where
  "in_array c \<longleftrightarrow> length (nsScripts c) = MAX_SCRIPT_DEPTH \<and> unat (nsLevel c) < MAX_SCRIPT_DEPTH"

definition same_rest ::
  "ins_derive_native_script_hash_context_t \<Rightarrow> ins_derive_native_script_hash_context_t \<Rightarrow> bool" where
  "same_rest c c' \<longleftrightarrow> nsBuilder c' = nsBuilder c \<and> nsShown c' = nsShown c"

lemma same_rest_trans: "same_rest a b \<Longrightarrow> same_rest b c \<Longrightarrow> same_rest a c"
  by (simp add: same_rest_def)

lemma mirror_simps [simp]:
  "level (mirror c) = nsLevel c" "remainingScripts (mirror c) = map csRemaining (nsScripts c)"
  by (simp_all add: mirror_def)

lemma finished_mirror:
  "in_array c \<Longrightarrow> dialogue_isComplexScriptFinished c = isComplexScriptFinished (mirror c)"
  by (auto simp: dialogue_isComplexScriptFinished_def isComplexScriptFinished_def current_script_def
      read_remaining_def in_array_def word_gt_0)

lemma count_mirror:
  assumes "in_array c"
  shows "case count_script c of Inl e \<Rightarrow> decrement_remaining (mirror c) = Inl e
    | Inr c' \<Rightarrow> decrement_remaining (mirror c) = Inr (mirror c') \<and> in_array c' \<and> same_rest c c'"
  using assms
  by (auto simp: count_script_def current_script_def set_current_script_def decrement_remaining_def
      read_remaining_def write_remaining_def in_array_def same_rest_def mirror_def map_update ASSERT_def)

lemma complete_mirror:
  "in_array c \<Longrightarrow> case dialogue_complexScriptFinished c of Inl e \<Rightarrow> complexScriptFinished (mirror c) = Inl e
    | Inr c' \<Rightarrow> complexScriptFinished (mirror c) = Inr (mirror c') \<and> in_array c' \<and> same_rest c c'"
proof (induction c rule: dialogue_complexScriptFinished.induct)
  case (1 c)
  show ?case
  proof (cases "isComplexScriptFinished (mirror c) = Inr True")
    case True
    let ?d = "c\<lparr>nsLevel := nsLevel c - 1\<rparr>"
    have "0 < nsLevel c"
      using finished_level [OF True] by simp
    then have d: "in_array ?d"
      using "1.prems" by (simp add: in_array_def unat_pred unat_pos less_imp_diff_less)
    have m: "mirror ?d = (mirror c)\<lparr>level := nsLevel c - 1\<rparr>"
      by (simp add: mirror_def)
    have f: "dialogue_isComplexScriptFinished c = Inr True"
      using finished_mirror [OF "1.prems"] True by simp
    show ?thesis
    proof (cases "count_script ?d")
      case (Inl e)
      then show ?thesis
        using count_mirror [OF d] True f m
        by (subst dialogue_complexScriptFinished.simps, subst complexScriptFinished.simps) simp
    next
      case (Inr c')
      have c': "decrement_remaining (mirror ?d) = Inr (mirror c')" "in_array c'" "same_rest c c'"
        using count_mirror [OF d] Inr by (simp_all add: same_rest_def)
      have r: "dialogue_complexScriptFinished c = dialogue_complexScriptFinished c'"
        by (subst dialogue_complexScriptFinished.simps) (simp add: f Inr)
      have r': "complexScriptFinished (mirror c) = complexScriptFinished (mirror c')"
        using c'(1) m by (subst complexScriptFinished.simps) (simp add: True)
      show ?thesis
        using "1.IH" [OF f TrueI Inr c'(2)] c'(3) unfolding r r' by (auto split: sum.splits intro: same_rest_trans)
    qed
  next
    case False
    then show ?thesis
      using finished_mirror [OF "1.prems"] "1.prems"
      by (cases "isComplexScriptFinished (mirror c)")
        (auto simp: same_rest_def dialogue_complexScriptFinished.simps [of c] complexScriptFinished.simps [of "mirror c"])
  qed
qed

definition dialogue_at :: "ins_derive_native_script_hash_context_t \<Rightarrow> nat list \<Rightarrow> bool" where
  "dialogue_at c stk \<longleftrightarrow> well_formed (mirror c) \<and> open_scripts (mirror c) = stk"

lemma dialogue_in_array: "dialogue_at c stk \<Longrightarrow> in_array c"
  by (simp add: dialogue_at_def well_formed_def in_array_def)

lemma current_count:
  assumes "dialogue_at c (n # stk)"
  obtains s where "current_script c = Inr s" "unat (csRemaining s) = n"
  using assms open_scripts_hd [of "mirror c"]
  by (auto simp: dialogue_at_def well_formed_def current_script_def)

lemma finish_complex_at:
  assumes "dialogue_at c stk" "finish_complex c = Inr c'"
  shows "dialogue_at c' (complete_levels stk) \<and> same_rest c c'"
proof -
  have w: "well_formed (mirror c)" "open_scripts (mirror c) = stk"
    using assms(1) by (simp_all add: dialogue_at_def)
  obtain b where b: "complexScriptFinished (mirror c) = Inr b" "well_formed b"
    "open_scripts b = complete_levels stk"
    using complete_ok [OF w(1)] w(2) by blast
  have "finish_complex c = dialogue_complexScriptFinished c"
    by (cases "dialogue_isComplexScriptFinished c")
      (auto simp: finish_complex_def dialogue_complexScriptFinished.simps [of c])
  then have "dialogue_complexScriptFinished c = Inr c'"
    using assms(2) by simp
  then show ?thesis
    using complete_mirror [OF dialogue_in_array [OF assms(1)]] b by (simp add: dialogue_at_def)
qed

lemma simple_finished_at:
  assumes "dialogue_at c (n # stk)" "0 < n" "dialogue_simpleScriptFinished c = Inr c'"
  shows "dialogue_at c' (finish_script (n # stk)) \<and> same_rest c c'"
proof -
  obtain d where d: "count_script c = Inr d" "finish_complex d = Inr c'"
    using assms(3) by (auto simp: dialogue_simpleScriptFinished_def res_bind_Inr_iff)
  obtain b where "decrement_remaining (mirror c) = Inr b" "well_formed b" "open_scripts b = (n - 1) # stk"
    using decrement_ok [of "mirror c" n stk] assms(1,2) by (auto simp: dialogue_at_def)
  then have "dialogue_at d ((n - 1) # stk)" "same_rest c d"
    using count_mirror [OF dialogue_in_array [OF assms(1)]] d(1) by (simp_all add: dialogue_at_def)
  then show ?thesis
    using finish_complex_at [OF _ d(2)] same_rest_trans by auto
qed

text \<open>Opening a level.\<close>

lemma open_at:
  assumes "dialogue_at c (m # stk)" "0 < m" "unat (nsLevel c) + 1 < MAX_SCRIPT_DEPTH"
    "set_current_script \<lparr>csTotal = n, csRemaining = n\<rparr> (c\<lparr>nsLevel := nsLevel c + 1\<rparr>) = Inr c'"
  shows "dialogue_at c' (unat n # m # stk) \<and> same_rest c c' \<and> length stk < 10"
proof -
  have w: "length (nsScripts c) = 11" "open_scripts (mirror c) = m # stk" "unat (nsLevel c) < 10"
    "\<forall>n \<in> set stk. 0 < n"
    using assms(1,3) by (auto simp: dialogue_at_def well_formed_def)
  have u: "unat (nsLevel c + 1) = Suc (unat (nsLevel c))"
    using unat_word_ariths(1) [of "nsLevel c" 1] w(3) by simp
  have c': "c' = c\<lparr>nsLevel := nsLevel c + 1, nsScripts := (nsScripts c)[unat (nsLevel c + 1) := \<lparr>csTotal = n, csRemaining = n\<rparr>]\<rparr>"
    using assms(4) by (simp add: set_current_script_def res_bind_Inr_iff)
  have "open_scripts (mirror c') = unat n # m # stk"
    using open_scripts_hd [of "mirror c'"] w u c' by (simp add: open_scripts_def map_update)
  moreover have "length stk < 10"
    using open_scripts_length [of "mirror c"] w by simp
  ultimately show ?thesis
    using assms(2) w u c' by (simp add: dialogue_at_def well_formed_def same_rest_def)
qed

subsection \<open>Partial trees\<close>

datatype script_kind = KIND_ALL | KIND_ANY | KIND_N_OF_K u32

fun node :: "script_kind \<Rightarrow> native_script list \<Rightarrow> native_script" where
  "node KIND_ALL ss = SCRIPT_ALL ss"
| "node KIND_ANY ss = SCRIPT_ANY ss"
| "node (KIND_N_OF_K r) ss = SCRIPT_N_OF_K r ss"

fun head_bytes :: "script_kind \<Rightarrow> nat \<Rightarrow> bytes" where
  "head_bytes KIND_ALL n = tok CBOR_TYPE_ARRAY 2 @ tok CBOR_TYPE_UNSIGNED 1 @ tok CBOR_TYPE_ARRAY (word_of_nat n)"
| "head_bytes KIND_ANY n = tok CBOR_TYPE_ARRAY 2 @ tok CBOR_TYPE_UNSIGNED 2 @ tok CBOR_TYPE_ARRAY (word_of_nat n)"
| "head_bytes (KIND_N_OF_K r) n = tok CBOR_TYPE_ARRAY 3 @ tok CBOR_TYPE_UNSIGNED 3 @
     tok CBOR_TYPE_UNSIGNED (ucast r) @ tok CBOR_TYPE_ARRAY (word_of_nat n)"

lemma encode_node: "encode_script (node k ss) = head_bytes k (length ss) @ concat (map encode_script ss)"
  by (cases k) simp_all

text \<open>
  The open nodes, innermost first, each with the number of its children and those that are complete;
  and the outermost script, once it is complete.
\<close>

record frame =
  frKind :: script_kind
  frTotal :: nat
  frDone :: "native_script list"

record partial_tree =
  ptOpen :: "frame list"
  ptWhole :: "native_script list"

definition missing_children :: "partial_tree \<Rightarrow> nat list" where
  "missing_children t = map (\<lambda>f. frTotal f - length (frDone f)) (ptOpen t) @ [1 - length (ptWhole t)]"

fun pending :: "frame list \<Rightarrow> bytes" where
  "pending [] = []"
| "pending (f # fs) = pending fs @ head_bytes (frKind f) (frTotal f) @ concat (map encode_script (frDone f))"

definition tree_bytes :: "partial_tree \<Rightarrow> bytes" where
  "tree_bytes t = concat (map encode_script (ptWhole t)) @ pending (ptOpen t)"

fun add_script :: "native_script \<Rightarrow> frame list \<Rightarrow> partial_tree" where
  "add_script s [] = \<lparr>ptOpen = [], ptWhole = [s]\<rparr>"
| "add_script s (f # fs) =
     (if Suc (length (frDone f)) = frTotal f then add_script (node (frKind f) (frDone f @ [s])) fs
      else \<lparr>ptOpen = f\<lparr>frDone := frDone f @ [s]\<rparr> # fs, ptWhole = []\<rparr>)"

definition open_node :: "script_kind \<Rightarrow> nat \<Rightarrow> frame list \<Rightarrow> partial_tree" where
  "open_node k n fs =
     (if n = 0 then add_script (node k []) fs
      else \<lparr>ptOpen = \<lparr>frKind = k, frTotal = n, frDone = []\<rparr> # fs, ptWhole = []\<rparr>)"

definition frames_open :: "frame list \<Rightarrow> bool" where
  "frames_open fs \<longleftrightarrow> list_all (\<lambda>f. length (frDone f) < frTotal f) fs"

abbreviation (input) tree_of :: "frame list \<Rightarrow> partial_tree" where
  "tree_of fs \<equiv> \<lparr>ptOpen = fs, ptWhole = []\<rparr>"

lemma missing_Cons:
  "missing_children (tree_of (f # fs)) = (frTotal f - length (frDone f)) # missing_children (tree_of fs)"
  by (simp add: missing_children_def)

lemma missing_not_Nil: "missing_children t \<noteq> []"
  by (simp add: missing_children_def)

lemma missing_add_script:
  "frames_open fs \<Longrightarrow> missing_children (add_script s fs) = finish_script (missing_children (tree_of fs))"
proof (induction fs arbitrary: s)
  case Nil
  then show ?case by (simp add: missing_children_def)
next
  case (Cons f fs)
  then have o: "frames_open fs" "length (frDone f) < frTotal f"
    by (simp_all add: frames_open_def)
  obtain m rest where m: "missing_children (tree_of fs) = m # rest"
    using missing_not_Nil [of "tree_of fs"] by (cases "missing_children (tree_of fs)") auto
  show ?case
  proof (cases "Suc (length (frDone f)) = frTotal f")
    case True
    then have "frTotal f - length (frDone f) = 1"
      by simp
    then show ?thesis
      using Cons.IH [OF o(1)] True m by (simp add: missing_Cons)
  next
    case False
    then obtain k where "frTotal f - length (frDone f) = Suc (Suc k)"
      using o(2) by (metis Suc_diff_Suc Suc_lessI)
    then show ?thesis
      using False m by (simp add: missing_Cons missing_children_def)
  qed
qed

lemma bytes_add_script:
  "frames_open fs \<Longrightarrow> tree_bytes (add_script s fs) = tree_bytes (tree_of fs) @ encode_script s"
  by (induction fs arbitrary: s) (simp_all add: tree_bytes_def frames_open_def encode_node)

lemma open_node_facts:
  assumes "frames_open fs"
  shows "missing_children (open_node k n fs) = complete_levels (n # missing_children (tree_of fs))"
    "tree_bytes (open_node k n fs) = tree_bytes (tree_of fs) @ head_bytes k n"
proof -
  obtain m rest where m: "missing_children (tree_of fs) = m # rest"
    using missing_not_Nil [of "tree_of fs"] by (cases "missing_children (tree_of fs)") auto
  show "missing_children (open_node k n fs) = complete_levels (n # missing_children (tree_of fs))"
    using missing_add_script [OF assms, of "node k []"] m
    by (cases n) (simp_all add: open_node_def missing_Cons [of "frame.make k n []" fs, unfolded frame.defs] missing_children_def)
  show "tree_bytes (open_node k n fs) = tree_bytes (tree_of fs) @ head_bytes k n"
    using bytes_add_script [OF assms, of "node k []"] by (simp add: open_node_def tree_bytes_def encode_node)
qed

text \<open>A property of all the scripts of a partial tree, inherited by a node from its head and its children.\<close>

definition tree_all :: "(native_script \<Rightarrow> bool) \<Rightarrow> (script_kind \<Rightarrow> nat \<Rightarrow> bool) \<Rightarrow> partial_tree \<Rightarrow> bool" where
  "tree_all P H t \<longleftrightarrow> list_all P (ptWhole t) \<and>
     list_all (\<lambda>f. H (frKind f) (frTotal f) \<and> list_all P (frDone f)) (ptOpen t)"

lemma tree_all_add:
  assumes "\<And>k ss. H k (length ss) \<Longrightarrow> list_all P ss \<Longrightarrow> P (node k ss)"
    "tree_all P H (tree_of fs)" "frames_open fs" "P s"
  shows "tree_all P H (add_script s fs) \<and> frames_open (ptOpen (add_script s fs)) \<and>
    (ptWhole (add_script s fs) = [] \<or> ptOpen (add_script s fs) = [] \<and> length (ptWhole (add_script s fs)) = 1)"
  using assms(2-4)
proof (induction fs arbitrary: s)
  case (Cons f fs)
  show ?case
  proof (cases "Suc (length (frDone f)) = frTotal f")
    case True
    then have "P (node (frKind f) (frDone f @ [s]))"
      using assms(1) [of "frKind f" "frDone f @ [s]"] Cons.prems by (simp add: tree_all_def)
    then show ?thesis
      using Cons True by (simp add: tree_all_def frames_open_def)
  qed (use Cons.prems in \<open>auto simp: tree_all_def frames_open_def\<close>)
qed (simp add: tree_all_def frames_open_def)

subsection \<open>What has been displayed\<close>

fun kind_screen :: "script_kind \<Rightarrow> nat \<Rightarrow> screen" where
  "kind_screen KIND_ALL n = SCREEN ''Script - ALL'' (TEXT (''Contains '' @ decimal n @ '' nested scripts.''))"
| "kind_screen KIND_ANY n = SCREEN ''Script - ANY'' (TEXT (''Contains '' @ decimal n @ '' nested scripts.''))"
| "kind_screen (KIND_N_OF_K r) n = SCREEN ''Script - N of K'' (TEXT (''Requires '' @ decimal (unat r) @
     '' out of '' @ decimal n @ '' signatures. Contains '' @ decimal n @ '' nested scripts''))"

text \<open>Nothing is said of the content screen of a node without children: see below.\<close>

definition kind_shown :: "screen list \<Rightarrow> script_kind \<Rightarrow> nat \<Rightarrow> bool" where
  "kind_shown shown k n \<longleftrightarrow> n = 0 \<or> kind_screen k n \<in> set shown"

fun script_shown :: "firmware \<Rightarrow> screen list \<Rightarrow> native_script \<Rightarrow> bool" where
  "script_shown fw shown (SCRIPT_PUBKEY h) =
     (SCREEN ''Script - key'' (BECH32 ''addr_shared_vkh'' h) \<in> set shown \<or>
      (\<exists>p. SCREEN ''Script - key path'' (KEY_PATH p) \<in> set shown \<and> bip44_pathToKeyHash fw p 28 = Inr h))"
| "script_shown fw shown (SCRIPT_ALL ss) =
     (kind_shown shown KIND_ALL (length ss) \<and> list_all (script_shown fw shown) ss)"
| "script_shown fw shown (SCRIPT_ANY ss) =
     (kind_shown shown KIND_ANY (length ss) \<and> list_all (script_shown fw shown) ss)"
| "script_shown fw shown (SCRIPT_N_OF_K r ss) =
     (kind_shown shown (KIND_N_OF_K r) (length ss) \<and> list_all (script_shown fw shown) ss)"
| "script_shown fw shown (SCRIPT_INVALID_BEFORE t) =
     (SCREEN ''Script - invalid before'' (NUMBER (unat t)) \<in> set shown)"
| "script_shown fw shown (SCRIPT_INVALID_HEREAFTER t) =
     (SCREEN ''Script - invalid hereafter'' (NUMBER (unat t)) \<in> set shown)"

lemma kind_shown_mono: "kind_shown shown k n \<Longrightarrow> set shown \<subseteq> set shown' \<Longrightarrow> kind_shown shown' k n"
  by (auto simp: kind_shown_def)

lemma script_shown_mono:
  "script_shown fw shown s \<Longrightarrow> set shown \<subseteq> set shown' \<Longrightarrow> script_shown fw shown' s"
  by (induction s) (auto simp: list_all_iff intro: kind_shown_mono)

definition good_script :: "firmware \<Rightarrow> screen list \<Rightarrow> native_script \<Rightarrow> bool" where
  "good_script fw shown s \<longleftrightarrow> script_ok s \<and> script_shown fw shown s"

definition good_kind :: "screen list \<Rightarrow> script_kind \<Rightarrow> nat \<Rightarrow> bool" where
  "good_kind shown k n \<longleftrightarrow> fits_u32 n \<and> kind_shown shown k n"

lemma good_node:
  "good_kind shown k (length ss) \<Longrightarrow> list_all (good_script fw shown) ss \<Longrightarrow> good_script fw shown (node k ss)"
  by (cases k) (auto simp: good_script_def good_kind_def list_all_iff)

lemma tree_good_mono:
  assumes "tree_all (good_script fw shown) (good_kind shown) t" "set shown \<subseteq> set shown'"
  shows "tree_all (good_script fw shown') (good_kind shown') t"
  using assms script_shown_mono [OF _ assms(2)] kind_shown_mono [OF _ assms(2)]
  by (auto simp: tree_all_def good_script_def good_kind_def list_all_iff)

subsection \<open>The invariant\<close>

definition hashes_tree :: "firmware \<Rightarrow> partial_tree \<Rightarrow> ins_derive_native_script_hash_context_t \<Rightarrow> bool" where
  "hashes_tree fw t c \<longleftrightarrow>
     (ptWhole t = [] \<or> ptOpen t = [] \<and> length (ptWhole t) = 1) \<and> frames_open (ptOpen t) \<and>
     tree_all (good_script fw (nsShown c)) (good_kind (nsShown c)) t \<and>
     dialogue_at c (missing_children t) \<and> builder_at (nsBuilder c) (missing_children t) (0 # tree_bytes t)"

lemma display_script_Inr:
  assumes "display_script approve isComplex header content finish c = Inr c'"
  obtains d t screens where "finish c = Inr d" "content c = Inr t \<or> content d = Inr t"
    "c' = d\<lparr>nsShown := nsShown d @ screens, nsAnswer := []\<rparr>" "SCREEN header t \<in> set screens"
proof (cases "nsLevel c - (if isComplex then 1 else 0) = 0")
  case True
  then obtain d t where "finish c = Inr d" "content c = Inr t"
    "c' = d\<lparr>nsShown := nsShown d @ [SCREEN header t], nsAnswer := []\<rparr>"
    using assms unfolding display_script_def Let_def
    by (auto simp: res_bind_Inr_iff run_screens_def record_script_shown_def respond_script_def split: if_split_asm)
  then show ?thesis
    by (intro that [where screens = "[SCREEN header t]"]) auto
next
  case False
  then obtain position d t where "finish c = Inr d" "content d = Inr t"
    "c' = d\<lparr>nsShown := nsShown d @ [position, SCREEN header t], nsAnswer := []\<rparr>"
    using assms unfolding display_script_def Let_def
    by (auto simp: res_bind_Inr_iff run_screens_def record_script_shown_def respond_script_def split: if_split_asm)
  then show ?thesis
    by (intro that [where screens = "[position, SCREEN header t]"]) auto
qed

lemma fits_u32_unat: "fits_u32 (unat (n :: u32))"
  using unsigned_less [of n, where ?'a = nat] by (simp add: fits_u32_def)

lemma hashes_tree_expects:
  assumes "hashes_tree fw t c" "areMoreScriptsExpected c = Inr True"
  obtains fs m stk where "t = tree_of fs" "missing_children t = m # stk" "0 < m"
proof -
  obtain m stk where m: "missing_children t = m # stk"
    using missing_not_Nil [of t] by (cases "missing_children t") auto
  then have d: "dialogue_at c (m # stk)"
    using assms(1) by (simp add: hashes_tree_def)
  obtain s where s: "current_script c = Inr s" "unat (csRemaining s) = m"
    by (rule current_count [OF d])
  have "0 < m"
    using assms(2) s by (auto simp: areMoreScriptsExpected_def unat_gt_0 word_gt_0)
  then have "ptWhole t = []"
    using assms(1) m by (auto simp: hashes_tree_def missing_children_def)
  then show thesis
    using that [of "ptOpen t" m stk] m \<open>0 < m\<close> by (cases t) simp
qed

text \<open>A screen more does not change the counters.\<close>

lemma shown_at: "dialogue_at (c\<lparr>nsShown := x, nsAnswer := y\<rparr>) stk = dialogue_at c stk"
  by (simp add: dialogue_at_def mirror_def)

lemma builder_step:
  assumes "on_script_builder op c = Inr d" "builder_at (nsBuilder c) stk bs"
    "leads (between stk bs) op (between stk' bs')"
  shows "builder_at (nsBuilder d) stk' bs' \<and> nsShown d = nsShown c \<and> mirror d = mirror c"
  using assms leadsD [OF assms(3) assms(2)] by (auto simp: on_script_builder_def res_bind_Inr_iff mirror_def)

lemma simple_step:
  assumes "hashes_tree fw t c" "areMoreScriptsExpected c = Inr True" "on_script_builder op c = Inr d"
    "\<And>m stk bs. 0 < m \<Longrightarrow>
      leads (between (m # stk) bs) op (between (finish_script (m # stk)) (bs @ encode_script s))"
    "display_script approve False header (\<lambda>_. Inr x) dialogue_simpleScriptFinished d = Inr c'"
    "script_ok s" "\<And>shown. SCREEN header x \<in> set shown \<Longrightarrow> script_shown fw shown s"
  shows "\<exists>t. hashes_tree fw t c'"
proof -
  obtain fs m stk where fs: "t = tree_of fs" "missing_children t = m # stk" "0 < m"
    by (rule hashes_tree_expects [OF assms(1,2)])
  have inv: "frames_open fs" "tree_all (good_script fw (nsShown c)) (good_kind (nsShown c)) (tree_of fs)"
    "dialogue_at c (m # stk)" "builder_at (nsBuilder c) (m # stk) (0 # tree_bytes (tree_of fs))"
    using assms(1) fs by (simp_all add: hashes_tree_def)
  have d: "builder_at (nsBuilder d) (finish_script (m # stk)) ((0 # tree_bytes (tree_of fs)) @ encode_script s)"
    "nsShown d = nsShown c" "dialogue_at d (m # stk)"
    using builder_step [OF assms(3) inv(4) assms(4) [OF fs(3)]] inv(3) by (simp_all add: dialogue_at_def)
  obtain e screens where e: "dialogue_simpleScriptFinished d = Inr e"
    "c' = e\<lparr>nsShown := nsShown e @ screens, nsAnswer := []\<rparr>" "SCREEN header x \<in> set screens"
    by (rule display_script_Inr [OF assms(5)]) auto
  have at: "dialogue_at e (finish_script (m # stk))" "same_rest d e"
    using simple_finished_at [OF d(3) fs(3) e(1)] by simp_all
  let ?t = "add_script s fs"
  have g: "good_script fw (nsShown c') s" "set (nsShown c) \<subseteq> set (nsShown c')"
    using assms(6,7) e(2,3) d(2) at(2) by (auto simp: good_script_def same_rest_def)
  have "hashes_tree fw ?t c'"
    using tree_all_add [OF good_node tree_good_mono [OF inv(2) g(2)] inv(1) g(1)]
      missing_add_script [OF inv(1), of s] bytes_add_script [OF inv(1), of s] fs at d(1) e(2)
    by (simp add: hashes_tree_def shown_at same_rest_def)
  then show ?thesis by blast
qed

lemma complex_step:
  assumes "hashes_tree fw t c" "areMoreScriptsExpected c = Inr True" "unat (nsLevel c) + 1 < MAX_SCRIPT_DEPTH"
    "set_current_script \<lparr>csTotal = n, csRemaining = n\<rparr> (c\<lparr>nsLevel := nsLevel c + 1\<rparr>) = Inr d"
    "on_script_builder op d = Inr e"
    "\<And>m stk bs. 0 < m \<Longrightarrow> length stk < 10 \<Longrightarrow> leads (between (m # stk) bs) op
      (between (complete_levels (unat n # m # stk)) (bs @ head_bytes k (unat n)))"
    "display_script approve True header content finish_complex e = Inr c'"
    "\<And>d stk x. dialogue_at d (unat n # stk) \<Longrightarrow> content d = Inr x \<Longrightarrow> SCREEN header x = kind_screen k (unat n)"
  shows "\<exists>t. hashes_tree fw t c'"
proof -
  obtain fs m stk where fs: "t = tree_of fs" "missing_children t = m # stk" "0 < m"
    by (rule hashes_tree_expects [OF assms(1,2)])
  have inv: "frames_open fs" "tree_all (good_script fw (nsShown c)) (good_kind (nsShown c)) (tree_of fs)"
    "dialogue_at c (m # stk)" "builder_at (nsBuilder c) (m # stk) (0 # tree_bytes (tree_of fs))"
    using assms(1) fs by (simp_all add: hashes_tree_def)
  have d: "dialogue_at d (unat n # m # stk)" "same_rest c d" "length stk < 10"
    using open_at [OF inv(3) fs(3) assms(3,4)] by simp_all
  have b: "builder_at (nsBuilder d) (m # stk) (0 # tree_bytes (tree_of fs))"
    using inv(4) d(2) by (simp add: same_rest_def)
  have e: "builder_at (nsBuilder e) (complete_levels (unat n # m # stk))
      ((0 # tree_bytes (tree_of fs)) @ head_bytes k (unat n))"
    "nsShown e = nsShown c" "dialogue_at e (unat n # m # stk)"
    using builder_step [OF assms(5) b assms(6) [OF fs(3) d(3)]] d by (simp_all add: dialogue_at_def same_rest_def)
  obtain f x screens where f: "finish_complex e = Inr f" "content e = Inr x \<or> content f = Inr x"
    "c' = f\<lparr>nsShown := nsShown f @ screens, nsAnswer := []\<rparr>" "SCREEN header x \<in> set screens"
    by (rule display_script_Inr [OF assms(7)])
  have at: "dialogue_at f (complete_levels (unat n # m # stk))" "same_rest e f"
    using finish_complex_at [OF e(3) f(1)] by simp_all
  have "kind_screen k (unat n) \<in> set screens" if "unat n \<noteq> 0"
  proof -
    have "dialogue_at f (unat n # m # stk)"
      using at(1) that by (cases "unat n") simp_all
    then show ?thesis
      using assms(8) [OF e(3)] assms(8) f(2,4) by metis
  qed
  then have g: "good_kind (nsShown c') k (unat n)" "set (nsShown c) \<subseteq> set (nsShown c')"
    using f(3) e(2) at(2) by (auto simp: good_kind_def kind_shown_def same_rest_def fits_u32_unat)
  let ?t = "open_node k (unat n) fs"
  have a: "tree_all (good_script fw (nsShown c')) (good_kind (nsShown c')) ?t \<and> frames_open (ptOpen ?t) \<and>
    (ptWhole ?t = [] \<or> ptOpen ?t = [] \<and> length (ptWhole ?t) = 1)"
  proof (cases "unat n = 0")
    case True
    then have "good_script fw (nsShown c') (node k [])"
      using good_node [of "nsShown c'" k "[]" fw] g(1) by simp
    then show ?thesis
      using tree_all_add [OF good_node tree_good_mono [OF inv(2) g(2)] inv(1)] True by (simp add: open_node_def)
  next
    case False
    then show ?thesis
      using tree_good_mono [OF inv(2) g(2)] inv(1) g(1)
      by (simp add: open_node_def tree_all_def frames_open_def)
  qed
  have "hashes_tree fw ?t c'"
    using a open_node_facts [OF inv(1), of k "unat n"] fs at e(1) f(3)
    by (simp add: hashes_tree_def shown_at same_rest_def)
  then show ?thesis by blast
qed

subsection \<open>Sessions\<close>

lemma nested_content:
  "dialogue_at d (unat n # stk) \<Longrightarrow> nested_text d = Inr x \<Longrightarrow>
     x = TEXT (''Contains '' @ decimal (unat n) @ '' nested scripts.'')"
  "dialogue_at d (unat n # stk) \<Longrightarrow> n_of_k_text r d = Inr x \<Longrightarrow>
     x = TEXT (''Requires '' @ decimal (unat r) @ '' out of '' @ decimal (unat n) @ '' signatures. Contains '' @
       decimal (unat n) @ '' nested scripts'')"
  by (erule current_count; auto simp: nested_text_def n_of_k_text_def Let_def)+

lemma current_set:
  "set_current_script s (c\<lparr>nsLevel := l\<rparr>) = Inr d \<Longrightarrow> in_array c \<Longrightarrow> unat l < 11 \<Longrightarrow> current_script d = Inr s"
  by (auto simp: set_current_script_def current_script_def in_array_def res_bind_Inr_iff)

lemma ucast_count: "(ucast (n :: u32) :: u64) = word_of_nat (unat n)"
  by simp

lemma complex_start_inv:
  assumes "hashes_tree fw t c" "deriveNativeScriptHash_handleComplexScriptStart approve view c = Inr c'"
  shows "\<exists>t. hashes_tree fw t c'"
proof -
  obtain n d view' where s: "areMoreScriptsExpected c = Inr True" "unat (nsLevel c) + 1 < 11"
    "set_current_script \<lparr>csTotal = n, csRemaining = n\<rparr> (c\<lparr>nsLevel := nsLevel c + 1\<rparr>) = Inr d"
    and h: "deriveNativeScriptHash_handleAll approve view' d = Inr c' \<or>
      deriveNativeScriptHash_handleAny approve view' d = Inr c' \<or>
      deriveNativeScriptHash_handleNofK approve view' d = Inr c'"
    using assms(2) by (auto simp: deriveNativeScriptHash_handleComplexScriptStart_def res_bind_Inr_iff Let_def
        split: if_splits)
  have "unat (nsLevel c + 1) < 11"
    using s(2) unat_word_ariths(1) [of "nsLevel c" 1] by simp
  moreover have "in_array c"
    using assms(1) by (auto simp: hashes_tree_def dest: dialogue_in_array)
  ultimately have cur: "current_script d = Inr \<lparr>csTotal = n, csRemaining = n\<rparr>"
    using current_set [OF s(3)] by simp
  note step = complex_step [OF assms(1) s]
  show ?thesis
    using h
  proof (elim disjE)
    assume "deriveNativeScriptHash_handleAll approve view' d = Inr c'"
    then obtain e where h: "on_script_builder (nativeScriptHashBuilder_startComplexScript_all n) d = Inr e"
      "display_script approve True ''Script - ALL'' nested_text finish_complex e = Inr c'"
      by (auto simp: deriveNativeScriptHash_handleAll_def res_bind_Inr_iff cur)
    show ?thesis
    proof (rule step [where k = KIND_ALL, OF h(1) _ h(2)])
      show "leads (between (m # stk) bs) (nativeScriptHashBuilder_startComplexScript_all n)
          (between (complete_levels (unat n # m # stk)) (bs @ head_bytes KIND_ALL (unat n)))"
        if "0 < m" "length stk < 10" for m stk bs
        using leads_start [OF that]
        unfolding nativeScriptHashBuilder_startComplexScript_all_def head_bytes.simps ucast_count .
    qed (drule (1) nested_content, simp)
  next
    assume "deriveNativeScriptHash_handleAny approve view' d = Inr c'"
    then obtain e where h: "on_script_builder (nativeScriptHashBuilder_startComplexScript_any n) d = Inr e"
      "display_script approve True ''Script - ANY'' nested_text finish_complex e = Inr c'"
      by (auto simp: deriveNativeScriptHash_handleAny_def res_bind_Inr_iff cur)
    show ?thesis
    proof (rule step [where k = KIND_ANY, OF h(1) _ h(2)])
      show "leads (between (m # stk) bs) (nativeScriptHashBuilder_startComplexScript_any n)
          (between (complete_levels (unat n # m # stk)) (bs @ head_bytes KIND_ANY (unat n)))"
        if "0 < m" "length stk < 10" for m stk bs
        using leads_start [OF that]
        unfolding nativeScriptHashBuilder_startComplexScript_any_def head_bytes.simps ucast_count .
    qed (drule (1) nested_content, simp)
  next
    assume "deriveNativeScriptHash_handleNofK approve view' d = Inr c'"
    then obtain e r where h: "on_script_builder (nativeScriptHashBuilder_startComplexScript_n_of_k r n) d = Inr e"
      "display_script approve True ''Script - N of K'' (n_of_k_text r) finish_complex e = Inr c'"
      by (auto simp: deriveNativeScriptHash_handleNofK_def res_bind_Inr_iff cur)
    show ?thesis
    proof (rule step [where k = "KIND_N_OF_K r", OF h(1) _ h(2)])
      show "leads (between (m # stk) bs) (nativeScriptHashBuilder_startComplexScript_n_of_k r n)
          (between (complete_levels (unat n # m # stk)) (bs @ head_bytes (KIND_N_OF_K r) (unat n)))"
        if "0 < m" "length stk < 10" for m stk bs
        using leads_start_n_of_k [OF that, of bs r n] unfolding head_bytes.simps ucast_count [of n] .
    qed (drule (1) nested_content, simp)
  qed
qed

lemma key_hash_size: "bip44_pathToKeyHash fw p 28 = Inr h \<Longrightarrow> firmware_ok fw \<Longrightarrow> length h = 28"
  using keyHash_length by blast

lemma simple_script_inv:
  assumes "hashes_tree fw t c" "deriveNativeScriptHash_handleSimpleScript fw approve view c = Inr c'" "firmware_ok fw"
  shows "\<exists>t. hashes_tree fw t c'"
proof -
  have more: "areMoreScriptsExpected c = Inr True"
    using assms(2) by (auto simp: deriveNativeScriptHash_handleSimpleScript_def res_bind_Inr_iff)
  note step = simple_step [OF assms(1) more]
  obtain view' where "deriveNativeScriptHash_handleDeviceOwnedPubkey fw approve view' c = Inr c' \<or>
      deriveNativeScriptHash_handleThirdPartyPubkey approve view' c = Inr c' \<or>
      deriveNativeScriptHash_handleInvalidBefore approve view' c = Inr c' \<or>
      deriveNativeScriptHash_handleInvalidHereafter approve view' c = Inr c'"
    using assms(2) by (auto simp: deriveNativeScriptHash_handleSimpleScript_def deriveNativeScriptHash_handlePubkey_def
        res_bind_Inr_iff split: if_splits)
  then show ?thesis
  proof (elim disjE)
    assume "deriveNativeScriptHash_handleDeviceOwnedPubkey fw approve view' c = Inr c'"
    then obtain p h d where h: "bip44_pathToKeyHash fw p 28 = Inr h"
      "on_script_builder (nativeScriptHashBuilder_addScript_pubkey h) c = Inr d"
      "display_script approve False ''Script - key path'' (\<lambda>_. Inr (KEY_PATH p)) dialogue_simpleScriptFinished d = Inr c'"
      by (auto simp: deriveNativeScriptHash_handleDeviceOwnedPubkey_def res_bind_Inr_iff)
    note size = key_hash_size [OF h(1) assms(3)]
    show ?thesis
      by (rule step [where s = "SCRIPT_PUBKEY h", OF h(2) leads_pubkey [OF _ size] h(3)])
        (use size h(1) in auto)
  next
    assume "deriveNativeScriptHash_handleThirdPartyPubkey approve view' c = Inr c'"
    then obtain h d v w where h: "view_parseBuffer 28 v = Inr (h, w)"
      "on_script_builder (nativeScriptHashBuilder_addScript_pubkey h) c = Inr d"
      "display_script approve False ''Script - key'' (\<lambda>_. Inr (BECH32 ''addr_shared_vkh'' h))
         dialogue_simpleScriptFinished d = Inr c'"
      by (auto simp: deriveNativeScriptHash_handleThirdPartyPubkey_def res_bind_Inr_iff)
    have size: "length h = 28"
      using h(1) by (auto simp: view_parseBuffer_def remaining_Inr res_bind_Inr_iff split: if_splits)
    show ?thesis
      by (rule step [where s = "SCRIPT_PUBKEY h", OF h(2) leads_pubkey [OF _ size] h(3)]) (use size in auto)
  next
    assume "deriveNativeScriptHash_handleInvalidBefore approve view' c = Inr c'"
    then obtain l d where h: "on_script_builder (nativeScriptHashBuilder_addScript_invalidBefore l) c = Inr d"
      "display_script approve False ''Script - invalid before'' (\<lambda>_. Inr (NUMBER (unat l)))
         dialogue_simpleScriptFinished d = Inr c'"
      by (auto simp: deriveNativeScriptHash_handleInvalidBefore_def res_bind_Inr_iff)
    show ?thesis
    proof (rule step [where s = "SCRIPT_INVALID_BEFORE l", OF h(1) _ h(2)])
      show "leads (between (m # stk) bs) (nativeScriptHashBuilder_addScript_invalidBefore l)
          (between (finish_script (m # stk)) (bs @ encode_script (SCRIPT_INVALID_BEFORE l)))" if "0 < m" for m stk bs
        unfolding nativeScriptHashBuilder_addScript_invalidBefore_def encode_script.simps by (rule leads_timelock [OF that])
    qed simp_all
  next
    assume "deriveNativeScriptHash_handleInvalidHereafter approve view' c = Inr c'"
    then obtain l d where h: "on_script_builder (nativeScriptHashBuilder_addScript_invalidHereafter l) c = Inr d"
      "display_script approve False ''Script - invalid hereafter'' (\<lambda>_. Inr (NUMBER (unat l)))
         dialogue_simpleScriptFinished d = Inr c'"
      by (auto simp: deriveNativeScriptHash_handleInvalidHereafter_def res_bind_Inr_iff)
    show ?thesis
    proof (rule step [where s = "SCRIPT_INVALID_HEREAFTER l", OF h(1) _ h(2)])
      show "leads (between (m # stk) bs) (nativeScriptHashBuilder_addScript_invalidHereafter l)
          (between (finish_script (m # stk)) (bs @ encode_script (SCRIPT_INVALID_HEREAFTER l)))" if "0 < m" for m stk bs
        unfolding nativeScriptHashBuilder_addScript_invalidHereafter_def encode_script.simps by (rule leads_timelock [OF that])
    qed simp_all
  qed
qed

lemma hashes_tree_mono:
  assumes "hashes_tree fw t c" "dialogue_at c' (missing_children t)" "nsBuilder c' = nsBuilder c"
    "set (nsShown c) \<subseteq> set (nsShown c')"
  shows "hashes_tree fw t c'"
  using assms tree_good_mono [OF _ assms(4)] by (simp add: hashes_tree_def)

lemma finish_script_message:
  assumes "hashes_tree fw t c" "deriveNativeScriptHash_handleWholeNativeScriptFinish fw approve view c = Inr c'"
  obtains s hash where "t = \<lparr>ptOpen = [], ptWhole = [s]\<rparr>" "hashes_tree fw t c'"
    "blake2b_224 fw (0 # encode_script s) = Some hash" "nsAnswer c' = hash"
    "SCREEN ''Script hash'' (BECH32 ''script'' hash) \<in> set (nsShown c') \<or>
     SCREEN ''Policy ID'' (HEX hash) \<in> set (nsShown c')"
proof -
  obtain hash screen where h: "nsLevel c = 0" "csRemaining (nsScripts c ! 0) = 0"
    "nativeScriptHashBuilder_finalize (blake2b_224 fw) 28 (nsBuilder c) = Inr hash"
    "c' = c\<lparr>nsScriptHash := hash, nsShown := nsShown c @ [screen], nsAnswer := hash, nsIdle := True\<rparr>"
    "screen = SCREEN ''Script hash'' (BECH32 ''script'' hash) \<or> screen = SCREEN ''Policy ID'' (HEX hash)"
    using assms(2) by (auto simp: deriveNativeScriptHash_handleWholeNativeScriptFinish_def res_bind_Inr_iff
        run_screens_Inr respond_script_hash_def record_script_shown_def split: if_splits)
  have d: "dialogue_at c (missing_children t)" "builder_at (nsBuilder c) (missing_children t) (0 # tree_bytes t)"
    using assms(1) by (simp_all add: hashes_tree_def)
  have "missing_children t = [0]"
    using d(1) open_scripts_hd [of "mirror c"] h(1,2) by (auto simp: dialogue_at_def well_formed_def)
  then have "\<exists>s. t = \<lparr>ptOpen = [], ptWhole = [s]\<rparr>"
    using assms(1) by (cases t) (auto simp: hashes_tree_def missing_children_def length_Suc_conv)
  then obtain s where s: "t = \<lparr>ptOpen = [], ptWhole = [s]\<rparr>" ..
  have "blake2b_224 fw (0 # encode_script s) = Some hash"
    using h(3) d(2) s by (auto simp: nativeScriptHashBuilder_finalize_def blake2b_finalize_def builder_at_def
        tree_bytes_def split: if_splits option.splits)
  moreover have "hashes_tree fw t c'"
    using d(1) h(4) by (intro hashes_tree_mono [OF assms(1)]) (auto simp: dialogue_at_def mirror_def)
  ultimately show thesis
    using that [OF s, of hash] h(4,5) by auto
qed

inductive script_session :: "firmware \<Rightarrow> ins_derive_native_script_hash_context_t \<Rightarrow> bool" for fw where
  begins: "deriveNativeScriptHash_handleAPDU fw approve p1 p2 data True c = Inr c' \<Longrightarrow> script_session fw c'"
| message: "script_session fw c \<Longrightarrow> deriveNativeScriptHash_handleAPDU fw approve p1 p2 data isNewCall c = Inr c' \<Longrightarrow>
    script_session fw c'"

lemma new_call_inv: "new_script_call c = Inr d \<Longrightarrow> hashes_tree fw (tree_of []) d"
proof -
  assume a: "new_script_call c = Inr d"
  let ?z = "zero_script_context\<lparr>nsScripts := (nsScripts zero_script_context)[0 := \<lparr>csTotal = 0, csRemaining = 1\<rparr>]\<rparr>"
  have b: "nativeScriptHashBuilder_init (nsBuilder zero_script_context) = Inr (nsBuilder d)" "mirror d = mirror ?z" "nsShown d = []"
    using a by (auto simp: new_script_call_def set_current_script_def on_script_builder_def res_bind_Inr_iff
        zero_script_context_def mirror_def)
  have "builder_at (nsBuilder d) [1] [0]"
    using leadsD [OF leads_init, of "nsBuilder zero_script_context"] b(1) by (auto simp: zero_script_context_def)
  moreover have "dialogue_at d [1]"
    using b(2) open_scripts_hd [of "mirror ?z"]
    by (simp add: dialogue_at_def well_formed_def zero_script_context_def nth_append)
  ultimately show ?thesis
    using b(3) by (simp add: hashes_tree_def missing_children_def frames_open_def tree_all_def tree_bytes_def)
qed

lemma script_message_inv:
  assumes "deriveNativeScriptHash_handleAPDU fw approve p1 p2 data isNewCall c = Inr c'" "firmware_ok fw"
    "isNewCall \<or> (\<exists>t. hashes_tree fw t c)"
  shows "\<exists>t. hashes_tree fw t c'"
proof -
  obtain d where d: "(if isNewCall then new_script_call c else Inr c) = Inr d"
    and r: "deriveNativeScriptHash_handleComplexScriptStart approve (make_read_view (wire_bytes data)) (d\<lparr>nsAnswer := []\<rparr>) = Inr c' \<or>
      deriveNativeScriptHash_handleSimpleScript fw approve (make_read_view (wire_bytes data)) (d\<lparr>nsAnswer := []\<rparr>) = Inr c' \<or>
      deriveNativeScriptHash_handleWholeNativeScriptFinish fw approve (make_read_view (wire_bytes data)) (d\<lparr>nsAnswer := []\<rparr>) = Inr c'"
    using assms(1) by (auto simp: deriveNativeScriptHash_handleAPDU_def res_bind_Inr_iff Let_def split: if_splits)
  obtain t where "hashes_tree fw t d"
    using assms(3) d new_call_inv [of c d fw] by (auto split: if_splits)
  then have t: "hashes_tree fw t (d\<lparr>nsAnswer := []\<rparr>)"
    by (rule hashes_tree_mono) (use \<open>hashes_tree fw t d\<close> in \<open>auto simp: hashes_tree_def dialogue_at_def mirror_def\<close>)
  show ?thesis
    using r complex_start_inv [OF t] simple_script_inv [OF t _ assms(2)] finish_script_message [OF t] by metis
qed

lemma script_session_inv: "script_session fw c \<Longrightarrow> firmware_ok fw \<Longrightarrow> \<exists>t. hashes_tree fw t c"
  by (induction rule: script_session.induct) (blast dest: script_message_inv)+


subsection \<open>A script\<close>

text \<open>All of: any of nothing, and a key.\<close>

definition sample_script_messages :: "(bool \<times> u8 \<times> wire_data) list" where
  "sample_script_messages =
     [(True, 0x01, Some [1, 0, 0, 0, 2]), (False, 0x01, Some [2, 0, 0, 0, 0]),
      (False, 0x02, Some ([0, 2] @ replicate 28 7))]"

fun run_scripts :: "firmware \<Rightarrow> (bool \<times> u8 \<times> wire_data) list \<Rightarrow> script_stmt" where
  "run_scripts fw [] c = Inr c"
| "run_scripts fw ((isNewCall, p1, data) # ms) c =
     res_bind (deriveNativeScriptHash_handleAPDU fw True p1 0 data isNewCall c) (run_scripts fw ms)"

lemma run_scripts:
  "run_scripts fw ms c = Inr c' \<Longrightarrow> script_session fw c \<or> (\<exists>m ms'. ms = (True, m) # ms') \<Longrightarrow> script_session fw c'"
proof (induction fw ms c rule: run_scripts.induct)
  case (2 fw isNewCall p1 data ms c)
  obtain d where d: "deriveNativeScriptHash_handleAPDU fw True p1 0 data isNewCall c = Inr d" "run_scripts fw ms d = Inr c'"
    using "2.prems"(1) by (auto simp: res_bind_Inr_iff)
  then have "script_session fw d"
    using "2.prems"(2) by (auto intro: script_session.intros)
  then show ?case
    using "2.IH" [OF d] by simp
qed auto

lemma run_scripts_append: "run_scripts fw (ms @ ns) c = res_bind (run_scripts fw ms c) (run_scripts fw ns)"
proof (induction fw ms c rule: run_scripts.induct)
  case (2 fw isNewCall p1 data ms c)
  then show ?case
    by (cases "deriveNativeScriptHash_handleAPDU fw True p1 0 data isNewCall c") simp_all
qed simp


text \<open>
  The content screen of a nested node without children is displayed after the node has been
  counted, so it shows the number of scripts that the node around it still lacks: here the first
  of two scripts, an empty one, is displayed as containing one script.
\<close>

theorem empty_node_shows_parent:
  "case run_scripts sample_firmware
      [(True, 0x01, Some [1, 0, 0, 0, 2]), (False, 0x01, Some [2, 0, 0, 0, 0])] zero_script_context of
     Inl _ \<Rightarrow> False
   | Inr c \<Rightarrow> nsShown c =
       [SCREEN ''Script - ALL'' (TEXT ''Contains 2 nested scripts.''),
        SCREEN ''Script - ANY'' (TEXT ''Position: 1''),
        SCREEN ''Script - ANY'' (TEXT ''Contains 1 nested scripts.'')]"
  by code_simp

end
