(* ===== verification/Dispatch.thy ===== *)
theory Dispatch
  imports SignTxExample GetPublicKeys DeriveAddress SignOpCert SignCVote SignMsg NativeScriptSession
begin

text \<open>
  \<open>src/main.c\<close>, \<open>src/state.h\<close> and \<open>src/handlers/\<close>: one message at a time is handed to the handler of its
  instruction. The parser of the messages and the PIN state are the device's: a message that cannot be
  parsed is \<open>None\<close>. A build with all the features is modelled, without the on-device tests. The union of
  the contexts holds the context of the current instruction; it is cleared before a new call.
\<close>

subsection \<open>The application\<close>

abbreviation (input) CLA :: u8 where "CLA \<equiv> 0xD7"
abbreviation (input) INS_GET_VERSION :: u8 where "INS_GET_VERSION \<equiv> 0x00"
abbreviation (input) INS_GET_SERIAL :: u8 where "INS_GET_SERIAL \<equiv> 0x01"
abbreviation (input) INS_GET_PUBLIC_KEY :: u8 where "INS_GET_PUBLIC_KEY \<equiv> 0x10"
abbreviation (input) INS_DERIVE_ADDRESS :: u8 where "INS_DERIVE_ADDRESS \<equiv> 0x11"
abbreviation (input) INS_DERIVE_NATIVE_SCRIPT_HASH :: u8 where "INS_DERIVE_NATIVE_SCRIPT_HASH \<equiv> 0x12"
abbreviation (input) INS_SIGN_TX :: u8 where "INS_SIGN_TX \<equiv> 0x21"
abbreviation (input) INS_SIGN_OP_CERT :: u8 where "INS_SIGN_OP_CERT \<equiv> 0x22"
abbreviation (input) INS_SIGN_CVOTE :: u8 where "INS_SIGN_CVOTE \<equiv> 0x23"
abbreviation (input) INS_SIGN_MSG :: u8 where "INS_SIGN_MSG \<equiv> 0x24"

record device =
  dvFirmware :: firmware
  dvVersion :: "u8 \<times> u8 \<times> u8"
  dvDevel :: bool
  dvAppXs :: bool
  os_serial :: bytes

record command_t =
  cmd_cla :: u8
  cmd_ins :: u8
  cmd_p1 :: u8
  cmd_p2 :: u8
  cmd_data :: wire_data

datatype instructionState_t =
    NO_CONTEXT
  | GET_KEYS_CONTEXT get_keys_context
  | DERIVE_ADDRESS_CONTEXT derive_address_context
  | NATIVE_SCRIPT_CONTEXT ins_derive_native_script_hash_context_t
  | SIGN_TX_CONTEXT sign_tx_context
  | SIGN_OP_CERT_CONTEXT ins_sign_op_cert_context_t
  | SIGN_CVOTE_CONTEXT ins_sign_cvote_context_t
  | SIGN_MSG_CONTEXT ins_sign_msg_context_t

text \<open>The context of an instruction: zero in a new call, and otherwise its own.\<close>

definition context_of :: "(instructionState_t \<Rightarrow> 'c option) \<Rightarrow> 'c \<Rightarrow> bool \<Rightarrow> instructionState_t \<Rightarrow> 'c res" where
  "context_of get zero isNewCall st =
     (if isNewCall then Inr zero else case get st of None \<Rightarrow> Inl UNION_MISREAD | Some c \<Rightarrow> Inr c)"

fun getKeysContext where "getKeysContext (GET_KEYS_CONTEXT c) = Some c" | "getKeysContext _ = None"
fun deriveAddressContext where "deriveAddressContext (DERIVE_ADDRESS_CONTEXT c) = Some c" | "deriveAddressContext _ = None"
fun deriveNativeScriptHashContext where
  "deriveNativeScriptHashContext (NATIVE_SCRIPT_CONTEXT c) = Some c" | "deriveNativeScriptHashContext _ = None"
fun signTxContext where "signTxContext (SIGN_TX_CONTEXT c) = Some c" | "signTxContext _ = None"
fun signOpCertContext where "signOpCertContext (SIGN_OP_CERT_CONTEXT c) = Some c" | "signOpCertContext _ = None"
fun signCVoteContext where "signCVoteContext (SIGN_CVOTE_CONTEXT c) = Some c" | "signCVoteContext _ = None"
fun signMsgContext where "signMsgContext (SIGN_MSG_CONTEXT c) = Some c" | "signMsgContext _ = None"

subsection \<open>Version and serial number\<close>

definition getVersion_handleAPDU :: "device \<Rightarrow> u8 \<Rightarrow> u8 \<Rightarrow> wire_data \<Rightarrow> bytes res" where
  "getVersion_handleAPDU dev p1 p2 data =
     res_bind (VALIDATE (p1 = P1_UNUSED) ERR_INVALID_REQUEST_PARAMETERS) (\<lambda>_.
     res_bind (VALIDATE (p2 = P2_UNUSED) ERR_INVALID_REQUEST_PARAMETERS) (\<lambda>_.
     res_bind (VALIDATE (length (wire_bytes data) = 0) ERR_INVALID_DATA) (\<lambda>_.
     let (major, minor, patch) = dvVersion dev in
       Inr [major, minor, patch, (if dvDevel dev then 1 else 0) OR (if dvAppXs dev then 4 else 0)])))"

definition getSerial_handleAPDU :: "device \<Rightarrow> u8 \<Rightarrow> u8 \<Rightarrow> wire_data \<Rightarrow> bytes res" where
  "getSerial_handleAPDU dev p1 p2 data =
     res_bind (VALIDATE (p1 = P1_UNUSED) ERR_INVALID_REQUEST_PARAMETERS) (\<lambda>_.
     res_bind (VALIDATE (p2 = P2_UNUSED) ERR_INVALID_REQUEST_PARAMETERS) (\<lambda>_.
     res_bind (VALIDATE (length (wire_bytes data) = 0) ERR_INVALID_REQUEST_PARAMETERS) (\<lambda>_.
     res_bind (ASSERT (length (os_serial dev) = 7)) (\<lambda>_. Inr (os_serial dev)))))"

subsection \<open>One instruction\<close>

text \<open>A handler's answer, the context after it, and whether the call is over (\<open>ui_idle\<close>).\<close>

definition call ::
  "(instructionState_t \<Rightarrow> 'c option) \<Rightarrow> ('c \<Rightarrow> instructionState_t) \<Rightarrow> 'c \<Rightarrow> ('c \<Rightarrow> bytes) \<Rightarrow> ('c \<Rightarrow> bool) \<Rightarrow>
   (bool \<Rightarrow> 'c stmt) \<Rightarrow> bool \<Rightarrow> instructionState_t \<Rightarrow> (bytes \<times> instructionState_t \<times> bool) res" where
  "call get put zero answer idle handler isNewCall st =
     res_bind (context_of get zero isNewCall st) (\<lambda>c.
     res_bind (handler isNewCall c) (\<lambda>c'. Inr (answer c', put c', idle c')))"

definition handleApdu ::
  "device \<Rightarrow> bool \<Rightarrow> bool \<Rightarrow> command_t \<Rightarrow> bool \<Rightarrow> instructionState_t \<Rightarrow>
   (bytes \<times> instructionState_t \<times> bool) res" where
  "handleApdu dev expert approve cmd isNewCall st =
     (let fw = dvFirmware dev; p1 = cmd_p1 cmd; p2 = cmd_p2 cmd; data = cmd_data cmd; ins = cmd_ins cmd in
     if cmd_cla cmd \<noteq> CLA then Inl ERR_BAD_CLA
     else if ins = INS_GET_VERSION
       then res_bind (getVersion_handleAPDU dev p1 p2 data) (\<lambda>bs. Inr (bs, st, True))
     else if ins = INS_GET_SERIAL
       then res_bind (getSerial_handleAPDU dev p1 p2 data) (\<lambda>bs. Inr (bs, st, True))
     else if ins = INS_GET_PUBLIC_KEY
       then call getKeysContext GET_KEYS_CONTEXT new_get_keys_context gkAnswer gkIdle
         (getPublicKeys_handleAPDU fw expert approve p1 p2 data) isNewCall st
     else if ins = INS_DERIVE_ADDRESS
       then call deriveAddressContext DERIVE_ADDRESS_CONTEXT new_derive_address_context daAnswer daIdle
         (deriveAddress_handleAPDU fw expert approve p1 p2 data) isNewCall st
     else if ins = INS_DERIVE_NATIVE_SCRIPT_HASH
       then call deriveNativeScriptHashContext NATIVE_SCRIPT_CONTEXT zero_script_context nsAnswer nsIdle
         (deriveNativeScriptHash_handleAPDU fw approve p1 p2 data) isNewCall st
     else if ins = INS_SIGN_TX
       then call signTxContext SIGN_TX_CONTEXT new_context tcAnswer (\<lambda>c. tcStage c = SIGN_STAGE_NONE)
         (signTx_handleAPDU fw expert approve p1 p2 data) isNewCall st
     else if ins = INS_SIGN_OP_CERT
       then call signOpCertContext SIGN_OP_CERT_CONTEXT new_op_cert_context ocAnswer ocIdle
         (signOpCert_handleAPDU fw approve p1 p2 data) isNewCall st
     else if ins = INS_SIGN_CVOTE
       then call signCVoteContext SIGN_CVOTE_CONTEXT new_cvote_context cvAnswer cvIdle
         (signCVote_handleAPDU fw approve p1 p2 data) isNewCall st
     else if ins = INS_SIGN_MSG
       then call signMsgContext SIGN_MSG_CONTEXT new_msg_context smAnswer smIdle
         (signMsg_handleAPDU fw approve p1 p2 data) isNewCall st
     else Inl ERR_UNKNOWN_INS)"

subsection \<open>The main loop\<close>

text \<open>\<open>_ERR_AUTORESPOND_START\<close> to \<open>_ERR_AUTORESPOND_END\<close>: errors that are sent to the host.\<close>

definition autoresponds :: "err \<Rightarrow> bool" where
  "autoresponds e \<longleftrightarrow> e \<in> {ERR_MALFORMED_REQUEST_HEADER, ERR_BAD_CLA, ERR_UNKNOWN_INS, ERR_STILL_IN_CALL,
     ERR_INVALID_REQUEST_PARAMETERS, ERR_INVALID_STATE, ERR_INVALID_DATA, ERR_REJECTED_BY_USER,
     ERR_REJECTED_BY_POLICY, ERR_DEVICE_LOCKED}"

datatype outcome = ANSWER bytes | ERROR err | CRASHED

record app_state =
  currentInstruction :: "u8 option"
  instructionState :: instructionState_t

definition booted :: app_state where
  "booted = \<lparr>currentInstruction = None, instructionState = NO_CONTEXT\<rparr>"

definition receive ::
  "device \<Rightarrow> bool \<Rightarrow> bool \<Rightarrow> bool \<Rightarrow> command_t option \<Rightarrow> app_state \<Rightarrow> (bytes \<times> app_state) res" where
  "receive dev expert unlocked approve command s =
     res_bind (VALIDATE unlocked ERR_DEVICE_LOCKED) (\<lambda>_.
     case command of None \<Rightarrow> Inl ERR_MALFORMED_REQUEST_HEADER
     | Some cmd \<Rightarrow>
       res_bind (VALIDATE (cmd_cla cmd = CLA) ERR_BAD_CLA) (\<lambda>_.
       let isNewCall = (currentInstruction s = None);
           st = (if isNewCall then NO_CONTEXT else instructionState s) in
       res_bind (if isNewCall then Inr ()
         else VALIDATE (currentInstruction s = Some (cmd_ins cmd)) ERR_STILL_IN_CALL) (\<lambda>_.
       res_bind (handleApdu dev expert approve cmd isNewCall st) (\<lambda>(answer, st, idle).
         Inr (answer, \<lparr>currentInstruction = (if idle then None else Some (cmd_ins cmd)),
           instructionState = st\<rparr>)))))"

text \<open>
  An error that is sent to the host ends the call; any other resets the device. What the failed handler
  left in the union is cleared before the next call.
\<close>

definition app_main ::
  "device \<Rightarrow> bool \<Rightarrow> bool \<Rightarrow> bool \<Rightarrow> command_t option \<Rightarrow> app_state \<Rightarrow> outcome \<times> app_state" where
  "app_main dev expert unlocked approve command s =
     (case receive dev expert unlocked approve command s of
       Inr (answer, s') \<Rightarrow> (ANSWER answer, s')
     | Inl e \<Rightarrow> (if autoresponds e then ERROR e else CRASHED, booted))"

text \<open>
  The states of the application, in sessions that have no legacy output with a reference script.
\<close>

definition legacy_free :: "app_state \<Rightarrow> bool" where
  "legacy_free s \<longleftrightarrow> (case instructionState s of SIGN_TX_CONTEXT c \<Rightarrow> no_legacy_script c | _ \<Rightarrow> True)"

inductive app_session :: "device \<Rightarrow> app_state \<Rightarrow> bool" for dev where
  boots: "app_session dev booted"
| message: "app_session dev s \<Longrightarrow> app_main dev expert unlocked approve command s = (outcome, s') \<Longrightarrow>
    legacy_free s' \<Longrightarrow> app_session dev s'"

definition sample_device :: device where
  "sample_device = \<lparr>dvFirmware = sample_firmware, dvVersion = (7, 1, 2), dvDevel = False, dvAppXs = False,
     os_serial = [1, 2, 3, 4, 5, 6, 7]\<rparr>"

subsection \<open>Calls\<close>

text \<open>
  A new call depends on nothing that an earlier call has left behind: with no call in progress the
  outcome of a message is the same in every state of the union.
\<close>

theorem new_call_independent:
  assumes "currentInstruction s = None" "currentInstruction s' = None"
  shows "app_main dev expert unlocked approve command s = app_main dev expert unlocked approve command s'"
  using assms by (simp add: app_main_def receive_def cong: option.case_cong)

lemma new_call_independent_witness:
  "app_main sample_device True True True (Some \<lparr>cmd_cla = 0xD7, cmd_ins = 0, cmd_p1 = 0, cmd_p2 = 0, cmd_data = None\<rparr>)
      (booted\<lparr>instructionState := SIGN_TX_CONTEXT new_context\<rparr>) =
    app_main sample_device True True True (Some \<lparr>cmd_cla = 0xD7, cmd_ins = 0, cmd_p1 = 0, cmd_p2 = 0, cmd_data = None\<rparr>)
      booted"
  by (rule new_call_independent) (simp_all add: booted_def)

text \<open>
  A message with another instruction during a call is refused, and the call is over: the next
  message of the interrupted instruction is the first one of a new call.
\<close>

theorem other_instruction_ends_call:
  assumes "currentInstruction s = Some i" "cmd_ins cmd \<noteq> i" "cmd_cla cmd = 0xD7"
  shows "app_main dev expert True approve (Some cmd) s = (ERROR ERR_STILL_IN_CALL, booted)"
  using assms by (auto simp: app_main_def receive_def autoresponds_def)

lemma other_instruction_ends_call_witness:
  "app_main sample_device True True True (Some \<lparr>cmd_cla = 0xD7, cmd_ins = 0x11, cmd_p1 = 0, cmd_p2 = 0, cmd_data = None\<rparr>)
      (booted\<lparr>currentInstruction := Some 0x21\<rparr>) = (ERROR ERR_STILL_IN_CALL, booted)"
  by (rule other_instruction_ends_call [where i = "0x21"]) simp_all

fun commands :: "(u8 \<times> u8 \<times> u8 \<times> wire_data) list \<Rightarrow> command_t list" where
  "commands [] = []"
| "commands ((ins, p1, p2, data) # ms) =
     \<lparr>cmd_cla = CLA, cmd_ins = ins, cmd_p1 = p1, cmd_p2 = p2, cmd_data = data\<rparr> # commands ms"

fun run_app :: "device \<Rightarrow> command_t list \<Rightarrow> app_state \<Rightarrow> (outcome list \<times> app_state) option" where
  "run_app dev [] s = Some ([], s)"
| "run_app dev (m # ms) s =
     (case app_main dev False True True (Some m) s of (out, s') \<Rightarrow>
      if legacy_free s' then map_option (\<lambda>(outs, t). (out # outs, t)) (run_app dev ms s') else None)"

lemma run_app: "run_app dev ms s = Some (outs, t) \<Longrightarrow> app_session dev s \<Longrightarrow> app_session dev t"
proof (induction dev ms s arbitrary: outs rule: run_app.induct)
  case (2 dev m ms s)
  then show ?case
    by (auto split: prod.splits if_splits intro: app_session.message)
qed simp

lemma run_app_last:
  "run_app dev (ms @ [m]) s = (case run_app dev ms s of None \<Rightarrow> None
     | Some (outs, t) \<Rightarrow> (case app_main dev False True True (Some m) t of (out, t') \<Rightarrow>
         if legacy_free t' then Some (outs @ [out], t') else None))"
  by (induction dev ms s rule: run_app.induct) (auto split: prod.splits option.splits)

text \<open>
  C39. A host can reset the device with an output to a malformed Byron address: the error of the CBOR
  parser is not one of those that the main loop answers, although the address is the host's data.
\<close>

definition malformed_byron_output :: bytes where
  "malformed_byron_output = [0, 1, 0, 0, 0, 2, 0x82, 0x60] @ [0, 0, 0, 0, 0, 0, 0, 50] @ [0, 0, 0, 0] @ [1, 1]"


subsection \<open>The states of the application\<close>

definition in_session :: "firmware \<Rightarrow> instructionState_t \<Rightarrow> bool" where
  "in_session fw st \<longleftrightarrow> (case st of
       SIGN_TX_CONTEXT c \<Rightarrow> session fw c
     | SIGN_CVOTE_CONTEXT c \<Rightarrow> vote_session fw c
     | SIGN_MSG_CONTEXT c \<Rightarrow> msg_session fw c
     | NATIVE_SCRIPT_CONTEXT c \<Rightarrow> script_session fw c
     | _ \<Rightarrow> True)"

lemma call_Inr:
  "call get put zero answer idle handler isNewCall st = Inr (bs, st', i) \<longleftrightarrow>
     (\<exists>c c'. (if isNewCall then c = zero else get st = Some c) \<and> handler isNewCall c = Inr c' \<and>
       bs = answer c' \<and> st' = put c' \<and> i = idle c')"
  by (auto simp: call_def context_of_def res_bind_Inr_iff split: option.splits)

lemma context_inverse:
  "signTxContext st = Some c1 \<longleftrightarrow> st = SIGN_TX_CONTEXT c1"
  "signCVoteContext st = Some c2 \<longleftrightarrow> st = SIGN_CVOTE_CONTEXT c2"
  "signMsgContext st = Some c3 \<longleftrightarrow> st = SIGN_MSG_CONTEXT c3"
  "deriveNativeScriptHashContext st = Some c4 \<longleftrightarrow> st = NATIVE_SCRIPT_CONTEXT c4"
  by (cases st; simp)+

lemma handleApdu_session:
  assumes "handleApdu dev expert approve cmd isNewCall st = Inr (bs, st', idle)"
    "in_session (dvFirmware dev) st" "case st' of SIGN_TX_CONTEXT c \<Rightarrow> no_legacy_script c | _ \<Rightarrow> True"
  shows "in_session (dvFirmware dev) st'"
  using assms
  by (auto simp: handleApdu_def Let_def call_Inr context_inverse in_session_def res_bind_Inr_iff
      split: if_splits intro: session.message vote_session.message msg_session.message script_session.intros
        session.message [OF session.begins] vote_session.message [OF vote_session.begins]
        msg_session.message [OF msg_session.begins])

lemma session_contexts:
  assumes "app_session dev s"
  shows "in_session (dvFirmware dev) (instructionState s)"
  using assms
proof induction
  case boots
  show ?case by (simp add: booted_def in_session_def)
next
  case (message s expert unlocked approve command outcome s')
  show ?case
  proof (cases "receive dev expert unlocked approve command s")
    case (Inl e)
    then show ?thesis
      using message.hyps(2) by (auto simp: app_main_def booted_def in_session_def split: if_splits)
  next
    case (Inr r)
    then obtain answer where r: "receive dev expert unlocked approve command s = Inr (answer, s')"
      using message.hyps(2) by (cases r) (simp add: app_main_def)
    obtain cmd isNewCall idle where h: "handleApdu dev expert approve cmd isNewCall
        (if isNewCall then NO_CONTEXT else instructionState s) = Inr (answer, instructionState s', idle)"
      using r by (auto simp: receive_def Let_def res_bind_Inr_iff split: option.splits)
    show ?thesis
      by (rule handleApdu_session [OF h])
        (use message.IH message.hyps(3) in \<open>auto simp: in_session_def legacy_free_def\<close>)
  qed
qed

text \<open>The transaction of \<open>SignTxExample\<close>, as messages to the application.\<close>

definition sample_commands :: "command_t list" where
  "sample_commands = commands (map (\<lambda>(_, p1, p2, data). (0x21, p1, p2, data)) sample_messages)"

definition sample_app :: app_state where
  "sample_app = snd (the (run_app sample_device sample_commands booted))"

lemma sample_app_run: "\<exists>outs. run_app sample_device sample_commands booted = Some (outs, sample_app)"
proof -
  have "case run_app sample_device sample_commands booted of None \<Rightarrow> False | Some _ \<Rightarrow> True"
    by code_simp
  then show ?thesis
    by (auto simp: sample_app_def split: option.splits)
qed

lemma sample_app_session: "app_session sample_device sample_app"
  using sample_app_run run_app [OF _ app_session.boots] by blast



subsection \<open>The signatures of the device\<close>

definition signed_by :: "firmware \<Rightarrow> bip44_path_t \<Rightarrow> bytes \<Rightarrow> bytes \<Rightarrow> bool" where
  "signed_by fw p message signature \<longleftrightarrow>
     eddsa_sign fw (take (unat (path_length p)) (path p)) message = Some signature"

lemma answered_context:
  assumes "app_main dev expert unlocked approve (Some cmd) s = (ANSWER answer, s')" "app_session dev s"
  obtains isNewCall st idle where "in_session (dvFirmware dev) st"
    "handleApdu dev expert approve cmd isNewCall st = Inr (answer, instructionState s', idle)"
proof -
  have r: "receive dev expert unlocked approve (Some cmd) s = Inr (answer, s')"
    using assms(1) by (auto simp: app_main_def split: sum.splits if_splits)
  show thesis
  proof (cases "currentInstruction s = None")
    case True
    then obtain idle where "handleApdu dev expert approve cmd True NO_CONTEXT = Inr (answer, instructionState s', idle)"
      using r by (auto simp: receive_def res_bind_Inr_iff)
    then show ?thesis
      using that [of NO_CONTEXT True idle] by (simp add: in_session_def)
  next
    case False
    then obtain idle where "handleApdu dev expert approve cmd False (instructionState s) = Inr (answer, instructionState s', idle)"
      using r by (auto simp: receive_def res_bind_Inr_iff)
    then show ?thesis
      using that [OF session_contexts [OF assms(2)]] by blast
  qed
qed


definition witness_command :: command_t where
  "witness_command = \<lparr>cmd_cla = 0xD7, cmd_ins = 0x21, cmd_p1 = 0x0f, cmd_p2 = 0, cmd_data = Some sample_path\<rparr>"

lemma sample_app_answer:
  "\<exists>signature s'. app_main sample_device False True True (Some witness_command) sample_app = (ANSWER signature, s')"
proof -
  have "case run_app sample_device (sample_commands @ [witness_command]) booted of None \<Rightarrow> False
      | Some (outs, _) \<Rightarrow> (case last outs of ANSWER _ \<Rightarrow> True | _ \<Rightarrow> False)"
    by code_simp
  moreover obtain outs where "run_app sample_device sample_commands booted = Some (outs, sample_app)"
    using sample_app_run by blast
  ultimately show ?thesis
    by (cases "app_main sample_device False True True (Some witness_command) sample_app")
      (auto simp: run_app_last split: outcome.splits if_splits)
qed


end
