(* ===== verification/Spec2Isabelle.thy ===== *)
theory Spec2Isabelle
  imports TxProperties CborProperties VotecastHashBuilder NativeScripts AuxData
    AddressByron Bech32 ShelleyAddresses SignTxUtils PolicyProperties Dispatch
begin

text \<open>
  A verification library for the Cardano app of the Ledger devices, the C program under
  \<open>src/src/\<close>.

  \<^bold>\<open>The program.\<close> A host sends a transaction (or an address, a script, a vote) in pieces. The
  handlers parse each piece with the views of \<open>bufView.h\<close>, ask \<open>securityPolicy.c\<close> whether to
  refuse it, show it or let it through, and feed it to a hash builder, which serialises it as
  CBOR into a running hash without ever holding the whole of it. At the end the device signs the
  digest with the keys the policies allow. What has to be right is thus: that the builders hash
  exactly one well-formed item, whatever the host does; that parsers stay within their buffers;
  that the policies hide nothing from the user but what is provably his; and that what is
  displayed identifies what is signed.

  \<^bold>\<open>The theories\<close>, in the order of their imports.

  \<^item> \<open>Prelude\<close>: the error codes of \<open>common.h\<close>, the result type, sequences of statements on a
    builder's state, the collections of rules the other theories share.
  \<^item> \<open>Cbor\<close>, \<open>CborItems\<close>, \<open>CborProperties\<close>: \<open>utils/cbor.c\<close> and \<open>endian.h\<close>; a reader of the CBOR data
    model as the abstract specification of streams; round trips and canonicity of tokens.
  \<^item> \<open>Hash\<close>, \<open>Sink\<close>: \<open>crypto/hash.h\<close> and the locales of anything that hashes CBOR. A hash context
    is the list of bytes it absorbed; the digest function is a parameter.
  \<^item> \<open>TxHashBuilder\<close>: \<open>txHashBuilder.c\<close>, every operation with its assertions, counters and the
    union it shares between outputs, mint and pool registrations. \<open>TxFragments\<close>, \<open>TxBody\<close>,
    \<open>TxRefinement\<close> and \<open>TxOperations\<close> show that each operation refines one step of the reader of
    a transaction body; \<open>TxPrograms\<close> and \<open>TxOrder\<close> lift this to every sequence of calls;
    \<open>TxProperties\<close> states the results.
  \<^item> \<open>VotecastHashBuilder\<close>, \<open>NativeScriptHashBuilder\<close> with \<open>NativeScripts\<close>, \<open>AuxDataHashBuilder\<close>
    with \<open>AuxData\<close>: the three other builders, their encodings and digests.
  \<^item> \<open>Bip44\<close>, \<open>Bip44Properties\<close>: \<open>crypto/bip44.c\<close>; a path is the array of five words with its
    length. The lemmas reduce each test to the list of used elements and compare the
    classification with a reference.
  \<^item> \<open>BufView\<close>: the views of \<open>bufView.h\<close>; the locale of a parser and the encoding it reads,
    interpreted for the parsers of integers and buffers.
  \<^item> \<open>KeyDerivation\<close>: \<open>keyDerivation/keyDerivation.c\<close>, over the functions of the firmware.
  \<^item> \<open>AddressByron\<close>, \<open>Bech32\<close>, \<open>AddressShelley\<close> with \<open>ShelleyAddresses\<close>: \<open>addressUtils/\<close>,
    \<open>crypto/bech32.c\<close>, \<open>cardano.c\<close>: derivation, parsing and display of addresses.
  \<^item> \<open>SignTxUtils\<close>: \<open>signTx/signTxUtils.c\<close>: one account for all keys, and destinations.
  \<^item> \<open>SecurityPolicy\<close>, \<open>WitnessPolicy\<close> with \<open>PolicyProperties\<close>: \<open>securityPolicy/securityPolicy.c\<close>,
    every policy, as a list of guarded decisions in the order of the code's macros.
  \<^item> \<open>SignTxDialogue\<close>: what the dialogues of a transaction share: the common data, the frame of a
    handler, the screens, the signatures of \<open>messageSigning.c\<close>.
  \<^item> \<open>SignTxOutput\<close>, \<open>SignTxMint\<close>, \<open>SignTxPoolRegistration\<close>, \<open>SignTxCVoteRegistration\<close>: the four
    dialogues inside a transaction (\<open>signTx/signTxOutput.c\<close> and its siblings), each a state machine
    on its own context, with the steps of its \<open>_ui.c\<close> file.
  \<^item> \<open>SignTxStages\<close>, \<open>SignTxCertificates\<close>, \<open>SignTx\<close>: \<open>signTx/signTx.c\<close> with \<open>signTx_ui.c\<close>: the context,
    the stages and the dialogues inside them, every handler, and \<open>signTx_handleAPDU\<close>.
  \<^item> \<open>TxCalls\<close>, \<open>SignTxFeeds\<close>, \<open>SignTxOutputFeeds\<close>, \<open>SignTxInvariant\<close>, \<open>SignTxSession\<close>: every handler of
    a transaction is a sequence of calls of the hash builder, and every session of messages keeps an
    invariant that ties the builder's state to the stage; a confirmed transaction is a finished
    program of calls. \<open>Evaluation\<close> and \<open>SignTxExample\<close> evaluate one session.
  \<^item> \<open>GetPublicKeys\<close>, \<open>DeriveAddress\<close>, \<open>SignOpCert\<close>: \<open>getPublicKey/\<close>, \<open>deriveAddress/\<close>, \<open>signOpCert/\<close>;
    what is returned is what is displayed.
  \<^item> \<open>SignCVote\<close>, \<open>SignMsg\<close>: \<open>signCVote/\<close>, \<open>signMsg/\<close>, with the sessions of each and the invariant that
    relates the hash context to the chunks that have arrived.
  \<^item> \<open>NativeScriptDialogue\<close>, \<open>NativeScriptSession\<close>: \<open>deriveNativeScriptHash/\<close>; the levels of the dialogue
    mirror those of the hash builder, and both follow the tree that the messages describe.
  \<^item> \<open>Dispatch\<close>: \<open>main.c\<close>, \<open>state.h\<close>, \<open>handlers/\<close>: the main loop, and the sessions of the instructions
    as sessions of the application.

  \<^bold>\<open>Conventions.\<close> A thrown error is the left side of a sum, with the code's own error codes; a
  failed \<open>ASSERT\<close> is \<open>ERR_ASSERT\<close>. C behaviour that is undefined is an error of its own, never a
  value: reading past the elements of a path, writing past the levels of a script
  (\<open>OUT_OF_BOUNDS\<close>), reading a union member that was not the last one written
  (\<open>UNION_MISREAD\<close>). Integers are words of their C width and sizes are natural numbers. Output buffers are the bytes written and a capacity. Tracing is left out.

  \<^bold>\<open>Bounds.\<close> They are those of the code: 5 path elements, 65 bytes for bech32, 40, 74 and 50
  bytes for a bootstrap address, 11 levels of native scripts, \<open>BUFFER_SIZE_PARANOIA\<close> = 1024.
  No definition needs fuel: loops are structural recursion or have a measure.

  \<^bold>\<open>Parameters.\<close> The record \<open>firmware\<close> holds what the SDK provides: the derivation of the public
  key and chain code, BLAKE2b, SHA3 and CRC32; each may fail. Its documented output sizes are the
  hypothesis \<open>firmware_ok\<close>, which \<open>sample_firmware\<close> satisfies. The base58 encoder is an argument
  of the display of bootstrap addresses, the expert mode stored in flash an argument of the
  policies. The model is of the full app, with every \<open>APP_FEATURE\<close> switched on and without
  \<open>APP_XS\<close> or the development build.

  \<^bold>\<open>What is shown\<close> (C1 to C40, most important first): whatever messages the host sends, a
  transaction, a message, a vote, an operational certificate or a native script hash is signed or
  returned only after the user has confirmed it, and the signed bytes are the ones that the screens
  describe; bodies, auxiliary data and scripts are hashed as one complete item in the right order;
  outputs, certificates and witnesses are hidden or accepted only under the rules of the signing
  mode; addresses, paths and bech32 strings have the intended value, fit their buffers and identify
  what they stand for; parsers return well-formed values or refuse; and, as findings, where the
  code lets through what it means to stop.

  \<^bold>\<open>Handlers.\<close> A handler runs from the arrival of a message to the moment the next one may
  arrive, so it includes the screens it sets up and what follows the user's approval, which
  is an argument; \<open>ui_step\<close>, \<open>ui_advanceState\<close> and the callbacks do not appear. The data of the
  screens are recorded in the order they are displayed, with the labels of the Nano devices. Any
  error ends the call: the main loop forgets the context. The response to a message is taken to
  be sent when its handler is done. A session of a transaction has no legacy output with a
  reference script: the handlers accept it, but the body then lacks the announced items.

  \<^bold>\<open>Not modelled\<close>: the formatting of amounts, times, addresses of relays and tokens (\<open>textUtils.c\<close>
  but for its checks of displayable text, \<open>ipUtils.c\<close>, \<open>hexUtils.c\<close>, \<open>tokens.c\<close>): a screen holds the
  value, not its text. The drawing of screens, swap, flash settings and the primitives of signing
  are calls of the SDK and have no model.
\<close>

end
